(* ===== verification/Prelude.thy ===== *)
theory Prelude
  imports Complex_Main "HOL-Library.AList"
begin

text \<open>
  Shared vocabulary of the development: Python values and dictionaries, the text
  predicates the contracts use, the injected clock and identifier factory, results of
  operations that may raise, and the lemma collections the component theories fill.

  A Python \<open>dict\<close> keeps insertion order; it is an association list with distinct keys,
  read with \<open>map_of\<close>, written with \<open>AList.update\<close> (in place, or at the end for a new key)
  and pruned with \<open>AList.delete\<close>. A \<open>datetime\<close> is an integer number of microseconds, the
  resolution of Python's \<open>datetime\<close> and \<open>timedelta\<close>; a duration given in seconds is the
  \<open>timedelta\<close> built from it, again in microseconds. Text is a list of characters, each
  standing for one code point below 256.
\<close>

named_theorems dict_simps \<open>lookups after updates of association lists\<close>
named_theorems step_defs \<open>definitions of the operations of a component\<close>

type_synonym time = int
type_synonym duration = int
type_synonym ('k, 'v) dict = "('k \<times> 'v) list"

subsection \<open>Dictionaries\<close>

lemma map_of_update [simp, dict_simps]:
  "map_of (AList.update k v d) = (map_of d)(k \<mapsto> v)"
  by (rule update_conv')

lemma map_of_delete [simp, dict_simps]:
  "map_of (AList.delete k d) = (map_of d)(k := None)"
  by (rule delete_conv')

abbreviation dict_ok :: "('k, 'v) dict \<Rightarrow> bool" where
  "dict_ok d \<equiv> distinct (map fst d)"

lemma dict_ok_update [intro]: "dict_ok d \<Longrightarrow> dict_ok (AList.update k v d)"
  by (rule distinct_update)

lemma dict_ok_delete [intro]: "dict_ok d \<Longrightarrow> dict_ok (AList.delete k d)"
  by (rule distinct_delete)

lemma map_of_values:
  "dict_ok d \<Longrightarrow> v \<in> snd ` set d \<longleftrightarrow> (\<exists>k. map_of d k = Some v)"
  by (force simp: image_iff intro: map_of_SomeD)

lemma map_of_filter_values:
  "dict_ok d \<Longrightarrow> map_of (filter (\<lambda>(k, v). P v) d) k =
     (case map_of d k of None \<Rightarrow> None | Some v \<Rightarrow> if P v then Some v else None)"
proof (induction d)
  case Nil
  then show ?case by simp
next
  case (Cons p d)
  then show ?case
    by (cases p) (auto split: option.splits dest: map_of_SomeD simp: map_of_eq_None_iff)
qed

text \<open>A dictionary comprehension over the keys that pass a test, as \<open>del d[k]\<close> in a loop.\<close>

definition dict_remove :: "'k list \<Rightarrow> ('k, 'v) dict \<Rightarrow> ('k, 'v) dict" where
  "dict_remove ks d = fold AList.delete ks d"

lemma map_of_dict_remove:
  "map_of (dict_remove ks d) k = (if k \<in> set ks then None else map_of d k)"
  unfolding dict_remove_def by (induction ks arbitrary: d) auto

lemma dict_ok_remove: "dict_ok d \<Longrightarrow> dict_ok (dict_remove ks d)"
  unfolding dict_remove_def
proof (induction ks arbitrary: d)
  case (Cons k ks)
  then show ?case using dict_ok_delete [of d k] by simp
qed simp

subsection \<open>Python values held in untyped fields\<close>

text \<open>
  \<open>dict[str, Any]\<close> fields hold values of this type. \<open>PObject\<close> stands for a value that is not
  JSON data (a class instance, a set), told apart by its number only.
\<close>

datatype pyval =
    PNone
  | PBool bool
  | PInt int
  | PFloat rat
  | PStr string
  | PList "pyval list"
  | PDict "(string \<times> pyval) list"
  | PObject nat

subsection \<open>Text\<close>

text \<open>
  The code points below 256 that \<open>str.isspace\<close> accepts, and \<open>str.strip\<close> over them.
  \<open>blank s\<close> is \<open>not s.strip()\<close>.
\<close>

definition is_space :: "char \<Rightarrow> bool" where
  "is_space c \<longleftrightarrow>
     (let n = (of_char c :: nat)
      in (9 \<le> n \<and> n \<le> 13) \<or> (28 \<le> n \<and> n \<le> 32) \<or> n = 133 \<or> n = 160)"

definition strip :: "string \<Rightarrow> string" where
  "strip s = rev (dropWhile is_space (rev (dropWhile is_space s)))"

definition blank :: "string \<Rightarrow> bool" where
  "blank s \<longleftrightarrow> strip s = []"

lemma blank_iff: "blank s \<longleftrightarrow> (\<forall>c \<in> set s. is_space c)"
proof
  assume "blank s"
  then have "\<forall>c \<in> set (dropWhile is_space s). is_space c"
    by (simp add: blank_def strip_def dropWhile_eq_Nil_conv)
  then have "dropWhile is_space s = []"
    by (metis hd_dropWhile hd_in_set)
  then show "\<forall>c \<in> set s. is_space c"
    by (simp add: dropWhile_eq_Nil_conv)
next
  assume "\<forall>c \<in> set s. is_space c"
  then have "dropWhile is_space s = []" by (simp add: dropWhile_eq_Nil_conv)
  then show "blank s" unfolding blank_def strip_def by (simp del: dropWhile_eq_Nil_conv)
qed

lemma blank_Nil [simp]: "blank []"
  by (simp add: blank_iff)

lemma not_blank_nonempty: "\<not> blank s \<Longrightarrow> s \<noteq> []"
  by auto

text \<open>\<open>str.lower\<close> on the same code points, and \<open>str(n)\<close> for a natural number.\<close>

definition lower_char :: "char \<Rightarrow> char" where
  "lower_char c =
     (let n = (of_char c :: nat)
      in if (65 \<le> n \<and> n \<le> 90) \<or> (192 \<le> n \<and> n \<le> 222 \<and> n \<noteq> 215) then char_of (n + 32) else c)"

definition lower :: "string \<Rightarrow> string" where
  "lower s = map lower_char s"

fun str_nat :: "nat \<Rightarrow> string" where
  "str_nat n = (if n < 10 then [char_of (48 + n)] else str_nat (n div 10) @ [char_of (48 + n mod 10)])"

declare str_nat.simps [simp del]

lemma str_nat_nonempty [simp]: "str_nat n \<noteq> []"
  by (subst str_nat.simps) simp

text \<open>Truth of an optional string (\<open>a or b\<close>): \<open>None\<close> and the empty string are false.\<close>

definition or_else :: "string option \<Rightarrow> string \<Rightarrow> string" where
  "or_else x y = (case x of None \<Rightarrow> y | Some s \<Rightarrow> if s = [] then y else s)"

lemma or_else_nonempty: "y \<noteq> [] \<Longrightarrow> or_else x y \<noteq> []"
  by (auto simp: or_else_def split: option.splits)

text \<open>\<open>list(dict.fromkeys(xs))\<close>: the first occurrences, in their order.\<close>

fun first_occurrences :: "'a list \<Rightarrow> 'a list" where
  "first_occurrences [] = []"
| "first_occurrences (x # xs) = x # filter (\<lambda>y. y \<noteq> x) (first_occurrences xs)"

lemma set_first_occurrences [simp]: "set (first_occurrences xs) = set xs"
  by (induction xs) auto

lemma distinct_first_occurrences [simp]: "distinct (first_occurrences xs)"
  by (induction xs) auto

subsection \<open>Injected clock and identifier factory\<close>

text \<open>
  Every component takes a \<open>clock\<close> and an \<open>id_factory\<close> callable. The application supplies them,
  so they are parameters: \<open>clock_at n\<close> is the value of the \<open>n\<close>-th reading and \<open>make_id p n\<close>
  the identifier the \<open>n\<close>-th request with prefix \<open>p\<close> receives. The two counters record how many
  calls were made, so each call of the source is one step of the model.
\<close>

record world =
  make_id :: "string \<Rightarrow> nat \<Rightarrow> string"
  id_calls :: nat
  clock_at :: "nat \<Rightarrow> time"
  clock_calls :: nat

definition new_id :: "string \<Rightarrow> world \<Rightarrow> string \<times> world" where
  "new_id p w = (make_id w p (id_calls w), w\<lparr>id_calls := Suc (id_calls w)\<rparr>)"

definition now :: "world \<Rightarrow> time \<times> world" where
  "now w = (clock_at w (clock_calls w), w\<lparr>clock_calls := Suc (clock_calls w)\<rparr>)"

lemma fst_new_id [simp]: "fst (new_id p w) = make_id w p (id_calls w)"
  and snd_new_id [simp]: "snd (new_id p w) = w\<lparr>id_calls := Suc (id_calls w)\<rparr>"
  and fst_now [simp]: "fst (now w) = clock_at w (clock_calls w)"
  and snd_now [simp]: "snd (now w) = w\<lparr>clock_calls := Suc (clock_calls w)\<rparr>"
  by (simp_all add: new_id_def now_def)

subsection \<open>Lists\<close>

lemma filter_eq_Nil_iff: "filter P xs = [] \<longleftrightarrow> (\<forall>x \<in> set xs. \<not> P x)"
  by (induction xs) auto

lemma sum_list_filter_le:
  fixes f :: "'a \<Rightarrow> nat"
  shows "sum_list (map f (filter P xs)) \<le> sum_list (map f xs)"
  by (induction xs) auto

lemma sum_list_filter_split:
  fixes f :: "'a \<Rightarrow> nat"
  shows "sum_list (map f xs) =
     sum_list (map f (filter P xs)) + sum_list (map f (filter (\<lambda>x. \<not> P x) xs))"
  by (induction xs) auto

lemma distinct_concat_disjoint:
  "distinct (concat (map f xs)) \<Longrightarrow> a \<in> set xs \<Longrightarrow> b \<in> set xs \<Longrightarrow> a \<noteq> b \<Longrightarrow>
   set (f a) \<inter> set (f b) = {}"
  by (induction xs) auto

end
