(* ===== verification/Errors.thy ===== *)
theory Errors
  imports Prelude
begin

text \<open>
  The error taxonomy of \<open>errors.py\<close> and the exception classes the components raise. An
  operation that may raise returns \<open>exc + 'a\<close>, \<open>Inl\<close> for the exception. The message of an
  exception is not kept; its class is, and for the errors the code inspects also the stable
  code and the retry hint.
\<close>

datatype error_code =
    CONTRACT_INVALID | POLICY_DENIED | APPROVAL_REQUIRED | APPROVAL_EXPIRED
  | APPROVAL_REJECTED | APPROVAL_CHANGES_REQUESTED | APPROVAL_STALE
  | APPROVAL_ACTION_MISMATCH | APPROVAL_REQUEST_MISMATCH | TOOL_VALIDATION_FAILED
  | TOOL_FAILED | TOOL_TIMEOUT | TOOL_IDEMPOTENCY_REQUIRED | TOOL_IDEMPOTENCY_REUSED
  | PROVIDER_FAILED | PROVIDER_OUTPUT_INVALID | PROVIDER_TIMEOUT | EXECUTION_TIMEOUT
  | EXECUTION_CANCELLED | RUNTIME_AUTHORIZATION_FAILED | BUDGET_EXHAUSTED
  | LEASE_CONFLICT | LEASE_EXPIRED | DUPLICATE_EVENT | DEAD_LETTERED

fun error_code_value :: "error_code \<Rightarrow> string" where
  "error_code_value CONTRACT_INVALID = ''contract_invalid''"
| "error_code_value POLICY_DENIED = ''policy_denied''"
| "error_code_value APPROVAL_REQUIRED = ''approval_required''"
| "error_code_value APPROVAL_EXPIRED = ''approval_expired''"
| "error_code_value APPROVAL_REJECTED = ''approval_rejected''"
| "error_code_value APPROVAL_CHANGES_REQUESTED = ''approval_changes_requested''"
| "error_code_value APPROVAL_STALE = ''approval_stale''"
| "error_code_value APPROVAL_ACTION_MISMATCH = ''approval_action_mismatch''"
| "error_code_value APPROVAL_REQUEST_MISMATCH = ''approval_request_mismatch''"
| "error_code_value TOOL_VALIDATION_FAILED = ''tool_validation_failed''"
| "error_code_value TOOL_FAILED = ''tool_failed''"
| "error_code_value TOOL_TIMEOUT = ''tool_timeout''"
| "error_code_value TOOL_IDEMPOTENCY_REQUIRED = ''idempotency_key_required''"
| "error_code_value TOOL_IDEMPOTENCY_REUSED = ''idempotency_key_reused''"
| "error_code_value PROVIDER_FAILED = ''provider_failed''"
| "error_code_value PROVIDER_OUTPUT_INVALID = ''provider_output_invalid''"
| "error_code_value PROVIDER_TIMEOUT = ''provider_timeout''"
| "error_code_value EXECUTION_TIMEOUT = ''execution_timeout''"
| "error_code_value EXECUTION_CANCELLED = ''execution_cancelled''"
| "error_code_value RUNTIME_AUTHORIZATION_FAILED = ''runtime_authorization_failed''"
| "error_code_value BUDGET_EXHAUSTED = ''budget_exhausted''"
| "error_code_value LEASE_CONFLICT = ''lease_conflict''"
| "error_code_value LEASE_EXPIRED = ''lease_expired''"
| "error_code_value DUPLICATE_EVENT = ''duplicate_event''"
| "error_code_value DEAD_LETTERED = ''dead_lettered''"

text \<open>Subclasses of \<open>RegistryError\<close> and of \<open>DelegationError\<close>; both are \<open>ValueError\<close>s.\<close>

datatype registry_error_kind =
    RegistryBase | DuplicateRegistration | IncompatibleRegistration
  | StaleRegistration | RegistryLifecycle

datatype delegation_error_kind =
    DelegationBase | DelegationAuthority | DelegationCycle | DelegationDepth | Composition

text \<open>\<open>FactoryError\<close> and its subclasses, \<open>ValueError\<close>s too.\<close>

datatype factory_error_kind =
    FactoryBase | FactoryValidation | FactoryDependency | FactoryTemplate | FactoryAuthorization

text \<open>
  \<open>HarnessError c r\<close> is every subclass of \<open>HarnessError\<close>, told apart by its code;
  \<open>ForeignError r c\<close> is an exception of application code with its \<open>retryable\<close> attribute and
  whether it is a \<open>ConnectionError\<close>; \<open>BuiltinTimeoutError\<close> is Python's own \<open>TimeoutError\<close>, which
  since Python 3.11 is also \<open>concurrent.futures.TimeoutError\<close>; \<open>ExitSignal\<close> is \<open>KeyboardInterrupt\<close>
  or \<open>SystemExit\<close>, which are not \<open>Exception\<close>s.
\<close>

datatype exc =
    ValueError | TypeError | KeyError | AssertionError | ValidationError
  | LeaseConflictError | LeaseExpiredError | DeduplicationConflictError
  | StateOwnershipError | StateConflictError | StateSerializationError
  | RegistryError registry_error_kind
  | DelegationError delegation_error_kind
  | FactoryError factory_error_kind
  | ToolInvocationError string bool
  | HarnessError error_code bool
  | ForeignError bool bool
  | BuiltinTimeoutError
  | StopIteration
  | ExitSignal

definition ContractValidationError :: exc where
  "ContractValidationError = HarnessError CONTRACT_INVALID False"

definition PolicyDeniedError :: exc where
  "PolicyDeniedError = HarnessError POLICY_DENIED False"

definition ApprovalRequiredError :: exc where
  "ApprovalRequiredError = HarnessError APPROVAL_REQUIRED False"

definition ToolValidationError :: exc where
  "ToolValidationError = HarnessError TOOL_VALIDATION_FAILED False"

definition ToolFailureError :: "bool \<Rightarrow> exc" where
  "ToolFailureError r = HarnessError TOOL_FAILED r"

definition ProviderError :: "error_code \<Rightarrow> bool \<Rightarrow> exc" where
  "ProviderError c r = HarnessError c r"

definition ProviderOutputError :: exc where
  "ProviderOutputError = ProviderError PROVIDER_OUTPUT_INVALID False"

definition ProviderTimeoutError :: exc where
  "ProviderTimeoutError = ProviderError PROVIDER_TIMEOUT True"

definition ExecutionTimeoutError :: exc where
  "ExecutionTimeoutError = HarnessError EXECUTION_TIMEOUT False"

definition ExecutionCancelledError :: exc where
  "ExecutionCancelledError = HarnessError EXECUTION_CANCELLED False"

definition RuntimeAuthorizationError :: exc where
  "RuntimeAuthorizationError = HarnessError RUNTIME_AUTHORIZATION_FAILED False"

definition BudgetExhaustedError :: exc where
  "BudgetExhaustedError = HarnessError BUDGET_EXHAUSTED False"

text \<open>\<open>getattr(exc, "retryable", False)\<close> and \<open>isinstance(exc, RegistryError)\<close>.\<close>

fun exc_retryable :: "exc \<Rightarrow> bool" where
  "exc_retryable (HarnessError _ r) = r"
| "exc_retryable (ToolInvocationError _ r) = r"
| "exc_retryable (ForeignError r _) = r"
| "exc_retryable _ = False"

fun is_registry_error :: "exc \<Rightarrow> bool" where
  "is_registry_error (RegistryError _) = True"
| "is_registry_error _ = False"

text \<open>\<open>isinstance(exc, (ConnectionError, TimeoutError))\<close> and \<open>isinstance(exc, ProviderError)\<close>.\<close>

fun is_transport_error :: "exc \<Rightarrow> bool" where
  "is_transport_error (ForeignError _ c) = c"
| "is_transport_error BuiltinTimeoutError = True"
| "is_transport_error _ = False"

fun is_provider_error :: "exc \<Rightarrow> bool" where
  "is_provider_error (HarnessError c _) =
     (c = PROVIDER_FAILED \<or> c = PROVIDER_OUTPUT_INVALID \<or> c = PROVIDER_TIMEOUT)"
| "is_provider_error _ = False"

lemma error_code_value_inject:
  "error_code_value a = error_code_value b \<longleftrightarrow> a = b"
  by (cases a; cases b) simp_all

subsection \<open>Sequencing\<close>

text \<open>
  \<open>bindE\<close> sequences results without state; \<open>bindS\<close> sequences stateful operations of the form
  \<open>'s \<Rightarrow> (exc + 'a) \<times> 's\<close>. A raised exception keeps the state reached so far: Python does not
  roll back.
\<close>

definition bindE :: "exc + 'a \<Rightarrow> ('a \<Rightarrow> exc + 'b) \<Rightarrow> exc + 'b" where
  "bindE m f = (case m of Inl e \<Rightarrow> Inl e | Inr x \<Rightarrow> f x)"

definition bindS :: "(exc + 'a) \<times> 's \<Rightarrow> ('a \<Rightarrow> 's \<Rightarrow> (exc + 'b) \<times> 's) \<Rightarrow> (exc + 'b) \<times> 's" where
  "bindS m f = (case m of (Inl e, s) \<Rightarrow> (Inl e, s) | (Inr x, s) \<Rightarrow> f x s)"

definition require :: "bool \<Rightarrow> exc \<Rightarrow> exc + unit" where
  "require b e = (if b then Inr () else Inl e)"

lemma bindE_simps [simp]:
  "bindE (Inl e) f = Inl e" "bindE (Inr x) f = f x"
  by (simp_all add: bindE_def)

lemma bindE_Inr_iff: "bindE m f = Inr y \<longleftrightarrow> (\<exists>x. m = Inr x \<and> f x = Inr y)"
  by (cases m) auto

lemma bindS_simps [simp]:
  "bindS (Inl e, s) f = (Inl e, s)" "bindS (Inr x, s) f = f x s"
  by (simp_all add: bindS_def)

lemma require_Inr_iff [simp]: "require b e = Inr u \<longleftrightarrow> b"
  by (simp add: require_def)

lemma require_simps [simp]: "require True e = Inr ()" "require False e = Inl e"
  by (simp_all add: require_def)

text \<open>A loop over a list whose body may raise.\<close>

fun each :: "('a \<Rightarrow> exc + unit) \<Rightarrow> 'a list \<Rightarrow> exc + unit" where
  "each f [] = Inr ()"
| "each f (x # xs) = bindE (f x) (\<lambda>_. each f xs)"

lemma each_Inr_iff: "each f xs = Inr u \<longleftrightarrow> (\<forall>x \<in> set xs. f x = Inr ())"
  by (induction xs) (auto simp: bindE_Inr_iff)

end
