(* ===== verification/Contracts.thy ===== *)
theory Contracts
  imports Errors
begin

text \<open>
  The typed contracts of \<open>contracts.py\<close> that the modelled components exchange. Every enum is a
  datatype, every pydantic model a record with the source's fields (the constant
  \<open>schema_version\<close> is left out), and the field constraints and \<open>model_validator\<close>s of a model are
  the predicate \<open>..._ok\<close>: constructing the model raises a validation error exactly when the
  predicate is false. Component versions are kept as the normalised strings the version
  validator returns; timestamps are aware by type.
\<close>

section \<open>Enumerations\<close>

datatype tool_kind = Kind_READ | Kind_WRITE | Kind_ACTION

datatype risk_level = Risk_LOW | Risk_MEDIUM | Risk_HIGH | Risk_CRITICAL

datatype tool_result_status =
    TR_SUCCEEDED | TR_EMPTY | TR_RESTRICTED | TR_FAILED | TR_INVALID_ARGUMENTS
  | TR_PERMISSION_DENIED | TR_APPROVAL_REQUIRED

datatype outcome_status =
    Outcome_COMPLETED | Outcome_PARTIAL | Outcome_NEEDS_INPUT | Outcome_REFUSED
  | Outcome_ESCALATED | Outcome_FAILED | Outcome_TIMED_OUT | Outcome_CANCELLED

datatype approval_decision_status =
    Approval_APPROVED | Approval_REJECTED | Approval_REQUEST_CHANGES | Approval_EXPIRED

datatype safety_flag =
    Flag_DIRECT_PROMPT_INJECTION | Flag_INDIRECT_PROMPT_INJECTION | Flag_RESTRICTED_RESULT
  | Flag_PERMISSION_DENIED | Flag_APPROVAL_REQUIRED | Flag_PLAN_VALIDATION_FAILED
  | Flag_TOOL_VALIDATION_FAILED | Flag_TOOL_FAILURE | Flag_TOOL_TIMEOUT
  | Flag_PROVIDER_FAILURE | Flag_PROVIDER_TIMEOUT | Flag_PROVIDER_OUTPUT_INVALID
  | Flag_NO_RESULT | Flag_CONFLICTING_RESULT | Flag_LOW_CONFIDENCE
  | Flag_VERIFICATION_FAILED | Flag_EXECUTION_TIMEOUT | Flag_EXECUTION_CANCELLED
  | Flag_RETRY_BUDGET_EXHAUSTED | Flag_BUDGET_EXHAUSTED

datatype context_trust = Trust_TRUSTED | Trust_UNTRUSTED

datatype context_block_type =
    Block_POLICY | Block_PRINCIPAL | Block_EXECUTION | Block_PROMPT | Block_SKILL
  | Block_STATE | Block_MEMORY | Block_INPUT | Block_TOOL_OUTPUT

datatype recovery_action =
    Recovery_NONE | Recovery_REQUEST_INPUT | Recovery_REFUSE | Recovery_ESCALATE
  | Recovery_RETRY | Recovery_ABORT

datatype memory_scope = Scope_EXECUTION | Scope_PRINCIPAL | Scope_TENANT

datatype execution_state_status =
    State_PENDING | State_RUNNING | State_PAUSED | State_COMPLETED | State_FAILED
  | State_REFUSED | State_ESCALATED

datatype agent_lifecycle_status =
    Life_DRAFT | Life_VALIDATED | Life_ACTIVE | Life_SUSPENDED | Life_DEPRECATED | Life_RETIRED

datatype composition_pattern =
    Pattern_ROUTER | Pattern_SUPERVISOR | Pattern_SPECIALIST | Pattern_SEQUENTIAL

datatype policy_effect = Effect_ALLOW | Effect_DENY

datatype component_type =
    Component_AGENT | Component_PROMPT | Component_SKILL | Component_TOOL | Component_POLICY

text \<open>The values of the enums that reach strings of the model.\<close>

fun risk_level_value :: "risk_level \<Rightarrow> string" where
  "risk_level_value Risk_LOW = ''low''"
| "risk_level_value Risk_MEDIUM = ''medium''"
| "risk_level_value Risk_HIGH = ''high''"
| "risk_level_value Risk_CRITICAL = ''critical''"

fun execution_state_status_value :: "execution_state_status \<Rightarrow> string" where
  "execution_state_status_value State_PENDING = ''pending''"
| "execution_state_status_value State_RUNNING = ''running''"
| "execution_state_status_value State_PAUSED = ''paused''"
| "execution_state_status_value State_COMPLETED = ''completed''"
| "execution_state_status_value State_FAILED = ''failed''"
| "execution_state_status_value State_REFUSED = ''refused''"
| "execution_state_status_value State_ESCALATED = ''escalated''"

fun component_type_value :: "component_type \<Rightarrow> string" where
  "component_type_value Component_AGENT = ''agent''"
| "component_type_value Component_PROMPT = ''prompt''"
| "component_type_value Component_SKILL = ''skill''"
| "component_type_value Component_TOOL = ''tool''"
| "component_type_value Component_POLICY = ''policy''"

fun lifecycle_value :: "agent_lifecycle_status \<Rightarrow> string" where
  "lifecycle_value Life_DRAFT = ''draft''"
| "lifecycle_value Life_VALIDATED = ''validated''"
| "lifecycle_value Life_ACTIVE = ''active''"
| "lifecycle_value Life_SUSPENDED = ''suspended''"
| "lifecycle_value Life_DEPRECATED = ''deprecated''"
| "lifecycle_value Life_RETIRED = ''retired''"

section \<open>The order of risk levels\<close>

text \<open>
  The code compares risk levels through a table \<open>order\<close>; the table is a linear order, so the
  type is made an instance of \<open>linorder\<close> and every comparison of the code is one of its.
\<close>

fun risk_order :: "risk_level \<Rightarrow> nat" where
  "risk_order Risk_LOW = 0"
| "risk_order Risk_MEDIUM = 1"
| "risk_order Risk_HIGH = 2"
| "risk_order Risk_CRITICAL = 3"

lemma risk_order_inject: "risk_order a = risk_order b \<longleftrightarrow> a = b"
  by (cases a; cases b) simp_all

instantiation risk_level :: linorder
begin

definition less_eq_risk_level :: "risk_level \<Rightarrow> risk_level \<Rightarrow> bool" where
  "less_eq_risk_level a b \<longleftrightarrow> risk_order a \<le> risk_order b"

definition less_risk_level :: "risk_level \<Rightarrow> risk_level \<Rightarrow> bool" where
  "less_risk_level a b \<longleftrightarrow> risk_order a < risk_order b"

instance
  by standard (auto simp: less_eq_risk_level_def less_risk_level_def risk_order_inject)

end

text \<open>\<open>_risk_exceeds\<close> of \<open>permissions.py\<close> and \<open>registries.py\<close>, \<open>_exceeds\<close> of \<open>composition.py\<close>.\<close>

definition risk_exceeds :: "risk_level \<Rightarrow> risk_level \<Rightarrow> bool" where
  "risk_exceeds actual maximum \<longleftrightarrow> risk_order actual > risk_order maximum"

lemma risk_exceeds_iff [simp]: "risk_exceeds a m \<longleftrightarrow> m < a"
  by (simp add: risk_exceeds_def less_risk_level_def)

lemma risk_le_critical [simp]: "r \<le> Risk_CRITICAL"
  by (cases r) (simp_all add: less_eq_risk_level_def)

section \<open>Identity and execution context\<close>

record principal_context =
  pc_principal_id :: string
  pc_tenant_id :: string
  pc_session_id :: string

definition principal_context_ok :: "principal_context \<Rightarrow> bool" where
  "principal_context_ok p \<longleftrightarrow>
     pc_principal_id p \<noteq> [] \<and> pc_tenant_id p \<noteq> [] \<and> pc_session_id p \<noteq> []"

record execution_context =
  ec_execution_id :: string
  ec_agent_id :: string
  ec_agent_version :: string
  ec_principal :: principal_context
  ec_authorized_tool_ids :: "string list"
  ec_authorized_tool_versions :: "string list"
  ec_granted_permissions :: "string list"
  ec_approved_action_digests :: "string list"
  ec_max_steps :: int
  ec_state_id :: string
  ec_environment :: string
  ec_max_risk_level :: risk_level
  ec_correlation_id :: string
  ec_parent_execution_id :: "string option"
  ec_delegation_id :: "string option"
  ec_delegation_depth :: int
  ec_delegation_path :: "string list"
  ec_event_id :: "string option"
  ec_trigger_id :: "string option"
  ec_causation_id :: "string option"
  ec_attempt :: int

definition opt_nonempty :: "string option \<Rightarrow> bool" where
  "opt_nonempty x \<longleftrightarrow> x \<noteq> Some []"

definition execution_context_ok :: "execution_context \<Rightarrow> bool" where
  "execution_context_ok e \<longleftrightarrow>
     ec_execution_id e \<noteq> [] \<and> ec_agent_id e \<noteq> [] \<and> ec_agent_version e \<noteq> [] \<and>
     principal_context_ok (ec_principal e) \<and>
     1 \<le> ec_max_steps e \<and> ec_max_steps e \<le> 100 \<and>
     ec_state_id e \<noteq> [] \<and> ec_environment e \<noteq> [] \<and> ec_correlation_id e \<noteq> [] \<and>
     opt_nonempty (ec_parent_execution_id e) \<and> opt_nonempty (ec_delegation_id e) \<and>
     0 \<le> ec_delegation_depth e \<and> ec_delegation_depth e \<le> 100 \<and>
     opt_nonempty (ec_event_id e) \<and> opt_nonempty (ec_trigger_id e) \<and>
     opt_nonempty (ec_causation_id e) \<and>
     0 \<le> ec_attempt e \<and> ec_attempt e \<le> 1000000 \<and>
     distinct (ec_authorized_tool_ids e) \<and>
     (\<forall>r \<in> set (ec_authorized_tool_versions e). \<not> blank r) \<and>
     distinct (ec_authorized_tool_versions e) \<and>
     distinct (ec_granted_permissions e) \<and>
     distinct (ec_approved_action_digests e) \<and>
     (ec_parent_execution_id e = None \<longrightarrow> ec_delegation_depth e = 0) \<and>
     (ec_parent_execution_id e \<noteq> None \<longrightarrow> 1 \<le> ec_delegation_depth e) \<and>
     distinct (ec_delegation_path e)"

section \<open>Memory and workflow state\<close>

record memory_item =
  mi_memory_id :: string
  mi_principal_id :: string
  mi_tenant_id :: string
  mi_scope :: memory_scope
  mi_source_scope_id :: string
  mi_key :: string
  mi_value :: string
  mi_origin :: string
  mi_created_at :: time

record execution_state =
  es_schema_version :: string
  es_state_id :: string
  es_execution_id :: string
  es_agent_id :: string
  es_agent_version :: string
  es_principal_id :: string
  es_tenant_id :: string
  es_session_id :: string
  es_status :: execution_state_status
  es_version :: int
  es_data :: "(string, pyval) dict"
  es_updated_at :: time

definition execution_state_ok :: "execution_state \<Rightarrow> bool" where
  "execution_state_ok s \<longleftrightarrow>
     es_state_id s \<noteq> [] \<and> es_execution_id s \<noteq> [] \<and> es_agent_id s \<noteq> [] \<and>
     es_agent_version s \<noteq> [] \<and> es_principal_id s \<noteq> [] \<and> es_tenant_id s \<noteq> [] \<and>
     es_session_id s \<noteq> [] \<and> 0 \<le> es_version s"

section \<open>Provider context\<close>

record context_block =
  cb_block_id :: string
  cb_block_type :: context_block_type
  cb_trust :: context_trust
  cb_source :: string
  cb_content :: string
  cb_priority :: int
  cb_token_estimate :: nat

record compiled_context =
  cc_execution_id :: string
  cc_principal_id :: string
  cc_tenant_id :: string
  cc_session_id :: string
  cc_input_text :: string
  cc_blocks :: "context_block list"
  cc_dropped_block_ids :: "string list"
  cc_character_count :: nat

definition context_block_ok :: "context_block \<Rightarrow> bool" where
  "context_block_ok b \<longleftrightarrow>
     cb_block_id b \<noteq> [] \<and> cb_source b \<noteq> [] \<and> cb_content b \<noteq> [] \<and>
     0 \<le> cb_priority b \<and> cb_priority b \<le> 100 \<and> 1 \<le> cb_token_estimate b"

definition compiled_context_ok :: "compiled_context \<Rightarrow> bool" where
  "compiled_context_ok c \<longleftrightarrow>
     cc_execution_id c \<noteq> [] \<and> cc_principal_id c \<noteq> [] \<and> cc_tenant_id c \<noteq> [] \<and>
     cc_session_id c \<noteq> [] \<and> cc_input_text c \<noteq> [] \<and> cc_blocks c \<noteq> [] \<and>
     1 \<le> cc_character_count c \<and>
     distinct (map cb_block_id (cc_blocks c)) \<and>
     {Block_POLICY, Block_PRINCIPAL, Block_INPUT} \<subseteq> cb_block_type ` set (cc_blocks c)"

definition trusted_blocks :: "compiled_context \<Rightarrow> context_block list" where
  "trusted_blocks c = filter (\<lambda>b. cb_trust b = Trust_TRUSTED) (cc_blocks c)"

definition untrusted_blocks :: "compiled_context \<Rightarrow> context_block list" where
  "untrusted_blocks c = filter (\<lambda>b. cb_trust b = Trust_UNTRUSTED) (cc_blocks c)"

section \<open>Component references, skills and prompts\<close>

text \<open>The identifier pattern \<open>^[a-z][a-z0-9_-]*$\<close>.\<close>

definition slug_char :: "char \<Rightarrow> bool" where
  "slug_char c \<longleftrightarrow>
     (let n = (of_char c :: nat)
      in (97 \<le> n \<and> n \<le> 122) \<or> (48 \<le> n \<and> n \<le> 57) \<or> n = 95 \<or> n = 45)"

definition slug_ok :: "string \<Rightarrow> bool" where
  "slug_ok s \<longleftrightarrow>
     (case s of [] \<Rightarrow> False
      | c # cs \<Rightarrow> 97 \<le> (of_char c :: nat) \<and> (of_char c :: nat) \<le> 122 \<and> list_all slug_char cs)"

record component_reference =
  cr_component_type :: component_type
  cr_component_id :: string
  cr_version :: string

definition reference_identity :: "component_reference \<Rightarrow> string" where
  "reference_identity r =
     component_type_value (cr_component_type r) @ '':'' @ cr_component_id r @ ''@'' @ cr_version r"

definition reference_key :: "component_reference \<Rightarrow> string \<times> string" where
  "reference_key r = (cr_component_id r, cr_version r)"

record skill_definition =
  sk_skill_id :: string
  sk_version :: string
  sk_name :: string
  sk_description :: string
  sk_supported_operations :: "string list"
  sk_supported_intents :: "string list"
  sk_supported_languages :: "string list"
  sk_required_tool_refs :: "component_reference list"
  sk_optional_tool_refs :: "component_reference list"
  sk_risk_level :: risk_level
  sk_owner_id :: string
  sk_lifecycle :: agent_lifecycle_status
  sk_tags :: "string list"
  sk_metadata :: "(string, pyval) dict"

definition skill_tool_refs :: "skill_definition \<Rightarrow> component_reference list" where
  "skill_tool_refs s = sk_required_tool_refs s @ sk_optional_tool_refs s"

definition skill_definition_ok :: "skill_definition \<Rightarrow> bool" where
  "skill_definition_ok s \<longleftrightarrow>
     slug_ok (sk_skill_id s) \<and> sk_version s \<noteq> [] \<and> sk_name s \<noteq> [] \<and>
     sk_description s \<noteq> [] \<and> sk_owner_id s \<noteq> [] \<and>
     distinct (sk_supported_operations s) \<and> distinct (sk_supported_intents s) \<and>
     distinct (sk_supported_languages s) \<and> distinct (sk_tags s) \<and>
     distinct (map reference_key (skill_tool_refs s)) \<and>
     (\<forall>r \<in> set (skill_tool_refs s). cr_component_type r = Component_TOOL)"

record prompt_definition =
  pmt_prompt_id :: string
  pmt_version :: string
  pmt_purpose :: string
  pmt_instructions :: string
  pmt_owner_id :: string
  pmt_lifecycle :: agent_lifecycle_status
  pmt_metadata :: "(string, pyval) dict"

definition prompt_definition_ok :: "prompt_definition \<Rightarrow> bool" where
  "prompt_definition_ok p \<longleftrightarrow>
     slug_ok (pmt_prompt_id p) \<and> pmt_version p \<noteq> [] \<and> pmt_owner_id p \<noteq> [] \<and>
     \<not> blank (pmt_purpose p) \<and> \<not> blank (pmt_instructions p)"

end
