(* ===== verification/Governance_Contracts.thy ===== *)
theory Governance_Contracts
  imports Contracts
begin

text \<open>
  The contracts of \<open>contracts.py\<close> that carry tool results, policy and approval decisions,
  outcomes and runtime limits, in the source's order. Floats are rationals: the thresholds and
  costs are compared and added exactly. Measured latencies are left out.
\<close>

section \<open>Tool results\<close>

record evidence_ref =
  ev_evidence_id :: string
  ev_source :: string
  ev_kind :: string

record tool_result =
  tr_tool_id :: string
  tr_tool_version :: "string option"
  tr_execution_id :: "string option"
  tr_status :: tool_result_status
  tr_output :: "pyval option"
  tr_confidence :: rat
  tr_evidence :: "evidence_ref list"
  tr_restricted :: bool
  tr_conflicts :: "string list"
  tr_injection_flags :: "string list"
  tr_error_code :: "string option"
  tr_metadata :: "(string, string) dict"

definition tool_result_ok :: "tool_result \<Rightarrow> bool" where
  "tool_result_ok r \<longleftrightarrow>
     tr_tool_id r \<noteq> [] \<and> 0 \<le> tr_confidence r \<and> tr_confidence r \<le> 1 \<and>
     distinct (map ev_evidence_id (tr_evidence r)) \<and>
     \<not> (tr_restricted r \<and> tr_evidence r \<noteq> []) \<and>
     \<not> (tr_status r = TR_RESTRICTED \<and> tr_evidence r \<noteq> [])"

record resource_context =
  rc_resource_type :: string
  rc_resource_id :: "string option"
  rc_attributes :: "(string, pyval) dict"

section \<open>Policy and permission decisions\<close>

record policy_decision =
  pd_decision_id :: string
  pd_allowed :: bool
  pd_principal_id :: string
  pd_tenant_id :: string
  pd_agent_id :: string
  pd_tool_id :: string
  pd_environment :: string
  pd_risk_level :: risk_level
  pd_reason_code :: string
  pd_policy_id :: "string option"
  pd_policy_version :: "string option"
  pd_rule_id :: "string option"
  pd_matched_rule_ids :: "string list"
  pd_approval_required :: bool
  pd_resource_type :: "string option"
  pd_resource_id :: "string option"
  pd_metadata :: "(string, string) dict"

definition policy_decision_ok :: "policy_decision \<Rightarrow> bool" where
  "policy_decision_ok d \<longleftrightarrow>
     pd_decision_id d \<noteq> [] \<and> pd_principal_id d \<noteq> [] \<and> pd_tenant_id d \<noteq> [] \<and>
     pd_agent_id d \<noteq> [] \<and> pd_tool_id d \<noteq> [] \<and> pd_environment d \<noteq> [] \<and>
     pd_reason_code d \<noteq> [] \<and> opt_nonempty (pd_policy_id d) \<and>
     opt_nonempty (pd_policy_version d) \<and> opt_nonempty (pd_rule_id d) \<and>
     opt_nonempty (pd_resource_type d) \<and> opt_nonempty (pd_resource_id d) \<and>
     distinct (pd_matched_rule_ids d)"

record permission_decision =
  pm_allowed :: bool
  pm_principal_id :: string
  pm_tenant_id :: string
  pm_tool_id :: string
  pm_reason_code :: string
  pm_approval_required :: bool
  pm_agent_id :: "string option"
  pm_environment :: "string option"
  pm_risk_level :: "risk_level option"
  pm_policy_decision :: "policy_decision option"

section \<open>Approvals\<close>

text \<open>
  \<open>decision_is_consistent\<close> fills \<open>decision\<close> from \<open>approved\<close> and rejects a disagreement, so a
  constructed decision is determined by its status; \<open>approved\<close> is derived.
\<close>

record approval_decision =
  ad_approval_id :: string
  ad_request_id :: string
  ad_action_digest :: string
  ad_decision :: approval_decision_status
  ad_decided_by :: string
  ad_reason_code :: string
  ad_expires_at :: "time option"
  ad_decided_at :: time

definition ad_approved :: "approval_decision \<Rightarrow> bool" where
  "ad_approved d \<longleftrightarrow> ad_decision d = Approval_APPROVED"

definition normalize_approval ::
  "bool option \<Rightarrow> approval_decision_status option \<Rightarrow> exc + approval_decision_status" where
  "normalize_approval approved decision =
     (case decision of
        None \<Rightarrow>
          (case approved of
             None \<Rightarrow> Inl ValidationError
           | Some b \<Rightarrow> Inr (if b then Approval_APPROVED else Approval_REJECTED))
      | Some d \<Rightarrow>
          (case approved of
             None \<Rightarrow> Inr d
           | Some b \<Rightarrow> if b = (d = Approval_APPROVED) then Inr d else Inl ValidationError))"

definition approval_decision_ok :: "approval_decision \<Rightarrow> bool" where
  "approval_decision_ok d \<longleftrightarrow>
     ad_approval_id d \<noteq> [] \<and> ad_request_id d \<noteq> [] \<and> ad_action_digest d \<noteq> [] \<and>
     ad_decided_by d \<noteq> [] \<and> ad_reason_code d \<noteq> []"

record tool_call =
  tc_call_id :: "string option"
  tc_tool_id :: string
  tc_tool_version :: "string option"
  tc_arguments :: "(string, pyval) dict"
  tc_purpose :: string
  tc_idempotency_key :: "string option"

record action_proposal =
  ap_action_id :: string
  ap_execution_id :: string
  ap_tool_call :: tool_call
  ap_risk_level :: risk_level
  ap_requires_approval :: bool
  ap_justification :: string

record approval_request =
  ar_request_id :: string
  ar_execution_id :: string
  ar_agent_id :: string
  ar_agent_version :: string
  ar_principal_id :: string
  ar_tenant_id :: string
  ar_action :: action_proposal
  ar_action_digest :: string
  ar_reason :: string
  ar_context :: "compiled_context option"
  ar_approval_policy_id :: "string option"
  ar_approval_policy_version :: "string option"
  ar_approval_rule_ids :: "string list"
  ar_expires_at :: "time option"
  ar_created_at :: time

definition approval_request_ok :: "approval_request \<Rightarrow> bool" where
  "approval_request_ok r \<longleftrightarrow>
     ar_request_id r \<noteq> [] \<and> ar_execution_id r \<noteq> [] \<and> ar_agent_id r \<noteq> [] \<and>
     ar_agent_version r \<noteq> [] \<and> ar_principal_id r \<noteq> [] \<and> ar_tenant_id r \<noteq> [] \<and>
     ar_action_digest r \<noteq> [] \<and> ar_reason r \<noteq> [] \<and>
     opt_nonempty (ar_approval_policy_id r) \<and> opt_nonempty (ar_approval_policy_version r) \<and>
     ap_execution_id (ar_action r) = ar_execution_id r \<and>
     tc_tool_id (ap_tool_call (ar_action r)) = strip (tc_tool_id (ap_tool_call (ar_action r))) \<and>
     distinct (ar_approval_rule_ids r)"

text \<open>Expiry settings are seconds in the source; here the corresponding number of microseconds.\<close>

record approval_policy_rule =
  apr_rule_id :: string
  apr_tool_ids :: "string list"
  apr_action_ids :: "string list"
  apr_action_kinds :: "tool_kind list"
  apr_risk_levels :: "risk_level list"
  apr_environments :: "string list"
  apr_requires_approval :: bool
  apr_expiry :: "duration option"

definition expiry_ok :: "duration option \<Rightarrow> bool" where
  "expiry_ok x \<longleftrightarrow> (case x of None \<Rightarrow> True | Some d \<Rightarrow> 0 < d \<and> d \<le> 86400 * 1000000)"

definition approval_policy_rule_ok :: "approval_policy_rule \<Rightarrow> bool" where
  "approval_policy_rule_ok r \<longleftrightarrow>
     apr_rule_id r \<noteq> [] \<and> distinct (apr_tool_ids r) \<and> distinct (apr_action_ids r) \<and>
     distinct (apr_action_kinds r) \<and> distinct (apr_risk_levels r) \<and>
     distinct (apr_environments r) \<and> expiry_ok (apr_expiry r)"

record approval_policy =
  apol_policy_id :: string
  apol_version :: string
  apol_description :: string
  apol_owner_id :: string
  apol_default_requires_approval :: bool
  apol_default_expiry :: "duration option"
  apol_rules :: "approval_policy_rule list"
  apol_lifecycle :: agent_lifecycle_status

definition approval_policy_ok :: "approval_policy \<Rightarrow> bool" where
  "approval_policy_ok p \<longleftrightarrow>
     slug_ok (apol_policy_id p) \<and> apol_version p \<noteq> [] \<and> apol_description p \<noteq> [] \<and>
     apol_owner_id p \<noteq> [] \<and> expiry_ok (apol_default_expiry p) \<and>
     (\<forall>r \<in> set (apol_rules p). approval_policy_rule_ok r) \<and>
     distinct (map apr_rule_id (apol_rules p))"

record approval_policy_decision =
  apd_decision_id :: string
  apd_required :: bool
  apd_reason_code :: string
  apd_policy_id :: "string option"
  apd_policy_version :: "string option"
  apd_matched_rule_ids :: "string list"
  apd_expiry :: "duration option"

definition approval_policy_decision_ok :: "approval_policy_decision \<Rightarrow> bool" where
  "approval_policy_decision_ok d \<longleftrightarrow>
     apd_decision_id d \<noteq> [] \<and> apd_reason_code d \<noteq> [] \<and> opt_nonempty (apd_policy_id d) \<and>
     opt_nonempty (apd_policy_version d) \<and> expiry_ok (apd_expiry d) \<and>
     distinct (apd_matched_rule_ids d)"

section \<open>Policies\<close>

record policy_rule =
  rule_rule_id :: string
  rule_effect :: policy_effect
  rule_tool_ids :: "string list"
  rule_agent_ids :: "string list"
  rule_principal_ids :: "string list"
  rule_tenant_ids :: "string list"
  rule_required_permissions :: "string list"
  rule_environments :: "string list"
  rule_risk_levels :: "risk_level list"
  rule_resource_types :: "string list"
  rule_resource_ids :: "string list"
  rule_requires_approval :: "bool option"

definition policy_rule_ok :: "policy_rule \<Rightarrow> bool" where
  "policy_rule_ok r \<longleftrightarrow>
     rule_rule_id r \<noteq> [] \<and> distinct (rule_tool_ids r) \<and> distinct (rule_agent_ids r) \<and>
     distinct (rule_principal_ids r) \<and> distinct (rule_tenant_ids r) \<and>
     distinct (rule_required_permissions r) \<and> distinct (rule_environments r) \<and>
     distinct (rule_risk_levels r) \<and> distinct (rule_resource_types r) \<and>
     distinct (rule_resource_ids r)"

record policy_definition =
  pol_policy_id :: string
  pol_version :: string
  pol_description :: string
  pol_owner_id :: string
  pol_default_effect :: policy_effect
  pol_rules :: "policy_rule list"
  pol_lifecycle :: agent_lifecycle_status

definition policy_definition_ok :: "policy_definition \<Rightarrow> bool" where
  "policy_definition_ok p \<longleftrightarrow>
     slug_ok (pol_policy_id p) \<and> pol_version p \<noteq> [] \<and> pol_description p \<noteq> [] \<and>
     pol_owner_id p \<noteq> [] \<and> (\<forall>r \<in> set (pol_rules p). policy_rule_ok r) \<and>
     distinct (map rule_rule_id (pol_rules p))"

section \<open>Outcomes\<close>

record outcome_proposal =
  op_summary :: string
  op_confidence :: rat
  op_evidence_ids :: "string list"
  op_output :: "(string, pyval) dict"

record verification_result =
  vr_supported :: bool
  vr_confidence :: rat
  vr_evidence_coverage :: rat
  vr_invalid_evidence_ids :: "string list"
  vr_reasons :: "string list"

record tool_call_record =
  tcr_call_id :: string
  tcr_step_id :: string
  tcr_tool_id :: string
  tcr_tool_version :: string
  tcr_arguments :: "(string, pyval) dict"
  tcr_result_status :: tool_result_status
  tcr_evidence_ids :: "string list"
  tcr_retry_count :: nat
  tcr_permission_reason_code :: "string option"

record agent_outcome =
  ao_outcome_id :: string
  ao_execution_id :: string
  ao_agent_id :: string
  ao_agent_version :: string
  ao_session_id :: string
  ao_principal_id :: string
  ao_tenant_id :: string
  ao_status :: outcome_status
  ao_summary :: string
  ao_evidence_ids :: "string list"
  ao_safety_flags :: "safety_flag list"
  ao_tool_calls :: "tool_call_record list"
  ao_verification :: "verification_result option"
  ao_recovery :: recovery_action
  ao_human_review_required :: bool
  ao_confidence :: rat
  ao_error_code :: "string option"
  ao_trace_id :: "string option"
  ao_created_at :: time

section \<open>Runtime limits\<close>

record runtime_config =
  cfg_max_plan_steps :: int
  cfg_max_context_characters :: nat
  cfg_high_confidence_threshold :: rat
  cfg_minimum_confidence_threshold :: rat
  cfg_provider_timeout :: duration
  cfg_provider_max_attempts :: int
  cfg_provider_retry_backoff :: duration
  cfg_execution_timeout :: "duration option"
  cfg_max_retries :: int
  cfg_approval_expiry :: "duration option"
  cfg_max_total_tokens :: "int option"
  cfg_max_cost :: "rat option"
  cfg_max_tool_invocations :: "int option"
  cfg_environment :: string
  cfg_max_risk_level :: risk_level

definition default_runtime_config :: runtime_config where
  "default_runtime_config =
     \<lparr>cfg_max_plan_steps = 3, cfg_max_context_characters = 12000,
      cfg_high_confidence_threshold = 8 / 10, cfg_minimum_confidence_threshold = 6 / 10,
      cfg_provider_timeout = 30 * 1000000, cfg_provider_max_attempts = 1,
      cfg_provider_retry_backoff = 0, cfg_execution_timeout = Some (60 * 1000000),
      cfg_max_retries = 3, cfg_approval_expiry = Some (900 * 1000000),
      cfg_max_total_tokens = None, cfg_max_cost = None, cfg_max_tool_invocations = None,
      cfg_environment = ''development'', cfg_max_risk_level = Risk_CRITICAL\<rparr>"

end
