(* ===== verification/Leases.thy ===== *)
theory Leases
  imports Governance_Contracts
begin

text \<open>
  \<open>background/leases.py\<close>: time-bounded ownership of an event key. \<open>InMemoryLeaseStore\<close> is the
  dictionary \<open>_leases\<close>; each operation takes the reading of the store's clock as an argument
  (every operation of the source reads it at most once) and returns the store after the call,
  which a raised exception leaves unchanged.
\<close>

record lease =
  lease_key :: string
  lease_owner :: string
  lease_expires_at :: time
  lease_version :: int

type_synonym lease_store = "(string, lease) dict"

definition lease_acquire ::
  "time \<Rightarrow> string \<Rightarrow> string \<Rightarrow> duration \<Rightarrow> lease_store \<Rightarrow> (exc + lease) \<times> lease_store" where
  "lease_acquire t key owner ttl st =
     (if blank key \<or> blank owner then (Inl ValueError, st)
      else if ttl \<le> 0 then (Inl ValueError, st)
      else
        (let existing = map_of st key
         in if (case existing of None \<Rightarrow> False
                | Some l \<Rightarrow> lease_expires_at l > t \<and> lease_owner l \<noteq> owner)
            then (Inl LeaseConflictError, st)
            else
              (let version = (case existing of None \<Rightarrow> 0 | Some l \<Rightarrow> lease_version l + 1);
                   l = \<lparr>lease_key = key, lease_owner = owner,
                        lease_expires_at = t + ttl, lease_version = version\<rparr>
               in (Inr l, AList.update key l st))))"

definition lease_renew ::
  "time \<Rightarrow> string \<Rightarrow> string \<Rightarrow> duration \<Rightarrow> lease_store \<Rightarrow> (exc + lease) \<times> lease_store" where
  "lease_renew t key owner ttl st =
     (case map_of st key of
        None \<Rightarrow> (Inl LeaseExpiredError, st)
      | Some existing \<Rightarrow>
          if lease_owner existing \<noteq> owner then (Inl LeaseConflictError, st)
          else if lease_expires_at existing \<le> t then (Inl LeaseExpiredError, st)
          else
            (let l = \<lparr>lease_key = key, lease_owner = owner,
                      lease_expires_at = t + ttl, lease_version = lease_version existing + 1\<rparr>
             in (Inr l, AList.update key l st)))"

definition lease_release ::
  "string \<Rightarrow> string \<Rightarrow> lease_store \<Rightarrow> (exc + unit) \<times> lease_store" where
  "lease_release key owner st =
     (case map_of st key of
        None \<Rightarrow> (Inr (), st)
      | Some existing \<Rightarrow>
          if lease_owner existing \<noteq> owner then (Inl LeaseConflictError, st)
          else (Inr (), AList.delete key st))"

definition lease_get :: "string \<Rightarrow> lease_store \<Rightarrow> lease option" where
  "lease_get key st = map_of st key"

lemmas lease_defs [step_defs] = lease_acquire_def lease_renew_def lease_release_def lease_get_def

section \<open>One operation\<close>

lemma lease_acquire_get:
  "lease_acquire t key owner ttl st = (Inr l, st') \<Longrightarrow>
     lease_get k st' = (if k = key then Some l else lease_get k st) \<and>
     lease_key l = key \<and> lease_owner l = owner \<and> lease_expires_at l = t + ttl \<and> 0 < ttl \<and>
     lease_version l = (case lease_get key st of None \<Rightarrow> 0 | Some l0 \<Rightarrow> lease_version l0 + 1)"
  by (auto simp: lease_acquire_def lease_get_def Let_def split: if_splits option.splits)

lemma lease_renew_get:
  "lease_renew t key owner ttl st = (Inr l, st') \<Longrightarrow>
     lease_get k st' = (if k = key then Some l else lease_get k st) \<and> lease_owner l = owner"
  by (auto simp: lease_renew_def lease_get_def Let_def split: if_splits option.splits)

lemma lease_release_get:
  "lease_release key owner st = (Inr u, st') \<Longrightarrow>
     lease_get k st' = (if k = key then None else lease_get k st)"
  by (auto simp: lease_release_def lease_get_def split: if_splits option.splits)

lemma lease_error_unchanged:
  "lease_acquire t key owner ttl st = (Inl e, st') \<Longrightarrow> st' = st"
  "lease_renew t key owner ttl st = (Inl e, st') \<Longrightarrow> st' = st"
  "lease_release key owner st = (Inl e, st') \<Longrightarrow> st' = st"
  by (auto simp: lease_defs Let_def split: if_splits option.splits)

lemma lease_acquire_cases:
  "\<lbrakk>\<not> blank key; \<not> blank owner; 0 < ttl\<rbrakk> \<Longrightarrow>
   (\<exists>l. lease_acquire t key owner ttl st = (Inr l, AList.update key l st)) \<or>
   lease_acquire t key owner ttl st = (Inl LeaseConflictError, st)"
  by (auto simp: lease_acquire_def Let_def split: option.splits)

lemma lease_acquire_free:
  "\<lbrakk>\<not> blank key; \<not> blank owner; 0 < ttl; lease_get key st = None\<rbrakk> \<Longrightarrow>
   lease_acquire t key owner ttl st =
     (Inr \<lparr>lease_key = key, lease_owner = owner, lease_expires_at = t + ttl, lease_version = 0\<rparr>,
      AList.update key
        \<lparr>lease_key = key, lease_owner = owner, lease_expires_at = t + ttl, lease_version = 0\<rparr> st)"
  by (simp add: lease_acquire_def lease_get_def Let_def)

section \<open>The interface the runner relies on\<close>

text \<open>
  What a caller of the \<open>LeaseStore\<close> protocol relies on: an acquired lease is the one \<open>get\<close>
  returns, a live lease of another owner is refused, a refusal changes nothing, other keys are
  not touched, and only the owner removes a live lease. The lemmas below are proved from these
  laws alone, over arbitrary interleavings of calls.
\<close>

datatype lease_op =
    Acquire time string string duration
  | Renew time string string duration
  | Release string string

fun lease_op_key :: "lease_op \<Rightarrow> string" where
  "lease_op_key (Acquire _ k _ _) = k"
| "lease_op_key (Renew _ k _ _) = k"
| "lease_op_key (Release k _) = k"

fun lease_op_owner :: "lease_op \<Rightarrow> string" where
  "lease_op_owner (Acquire _ _ p _) = p"
| "lease_op_owner (Renew _ _ p _) = p"
| "lease_op_owner (Release _ p) = p"

fun lease_op_before :: "time \<Rightarrow> lease_op \<Rightarrow> bool" where
  "lease_op_before d (Acquire t _ _ _) = (t < d)"
| "lease_op_before d (Renew t _ _ _) = (t < d)"
| "lease_op_before d (Release _ _) = True"

fun is_release :: "lease_op \<Rightarrow> bool" where
  "is_release (Release _ _) = True"
| "is_release _ = False"

locale lease_interface =
  fixes get :: "string \<Rightarrow> 's \<Rightarrow> lease option"
    and apply_op :: "lease_op \<Rightarrow> 's \<Rightarrow> 's"
  assumes other_key: "lease_op_key x \<noteq> k \<Longrightarrow> get k (apply_op x s) = get k s"
    and foreign_refused:
      "get k s = Some l \<Longrightarrow> lease_op_key x = k \<Longrightarrow> lease_op_owner x \<noteq> lease_owner l \<Longrightarrow>
       lease_op_before (lease_expires_at l) x \<Longrightarrow> get k (apply_op x s) = Some l"
    and version_step:
      "get k s = Some l \<Longrightarrow> \<not> (is_release x \<and> lease_op_key x = k) \<Longrightarrow>
       \<exists>l'. get k (apply_op x s) = Some l' \<and> lease_version l \<le> lease_version l' \<and>
            (lease_owner l' \<noteq> lease_owner l \<longrightarrow> lease_version l < lease_version l')"
begin

definition run_ops :: "lease_op list \<Rightarrow> 's \<Rightarrow> 's" where
  "run_ops xs s = fold apply_op xs s"

lemma run_ops_Nil [simp]: "run_ops [] s = s"
  by (simp add: run_ops_def)

lemma run_ops_Cons [simp]: "run_ops (x # xs) s = run_ops xs (apply_op x s)"
  by (simp add: run_ops_def)

lemma live_lease_kept:
  assumes "get k s = Some l"
    and "\<forall>x \<in> set xs. lease_op_key x = k \<longrightarrow>
           lease_op_owner x \<noteq> lease_owner l \<and> lease_op_before (lease_expires_at l) x"
  shows "get k (run_ops xs s) = Some l"
  using assms
proof (induction xs arbitrary: s)
  case (Cons x xs)
  have "get k (apply_op x s) = Some l"
    using Cons.prems foreign_refused [of k s l x] other_key [of x k s] by (cases "lease_op_key x = k") auto
  then show ?case using Cons.IH Cons.prems(2) by simp
qed simp

lemma version_monotone:
  assumes "get k s = Some l" and "\<forall>x \<in> set xs. \<not> (is_release x \<and> lease_op_key x = k)"
  shows "\<exists>l'. get k (run_ops xs s) = Some l' \<and> lease_version l \<le> lease_version l' \<and>
              (lease_owner l' \<noteq> lease_owner l \<longrightarrow> lease_version l < lease_version l')"
  using assms
proof (induction xs arbitrary: s l)
  case (Cons x xs)
  obtain l1 where l1: "get k (apply_op x s) = Some l1" "lease_version l \<le> lease_version l1"
    "lease_owner l1 \<noteq> lease_owner l \<longrightarrow> lease_version l < lease_version l1"
    using version_step [OF Cons.prems(1), of x] Cons.prems(2) by auto
  obtain l2 where "get k (run_ops xs (apply_op x s)) = Some l2" "lease_version l1 \<le> lease_version l2"
    "lease_owner l2 \<noteq> lease_owner l1 \<longrightarrow> lease_version l1 < lease_version l2"
    using Cons.IH [OF l1(1)] Cons.prems(2) by auto
  with l1 show ?case by (cases "lease_owner l1 = lease_owner l") auto
qed auto

end

section \<open>The in-memory store implements the interface\<close>

fun lease_apply :: "lease_op \<Rightarrow> lease_store \<Rightarrow> lease_store" where
  "lease_apply (Acquire t k p ttl) st = snd (lease_acquire t k p ttl st)"
| "lease_apply (Renew t k p ttl) st = snd (lease_renew t k p ttl st)"
| "lease_apply (Release k p) st = snd (lease_release k p st)"

definition lease_run :: "lease_op list \<Rightarrow> lease_store \<Rightarrow> lease_store" where
  "lease_run xs st = fold lease_apply xs st"

lemma lease_apply_other_key:
  "lease_op_key x \<noteq> k \<Longrightarrow> lease_get k (lease_apply x st) = lease_get k st"
  by (cases x) (auto simp: lease_defs Let_def split: option.splits)

lemma lease_apply_foreign:
  "\<lbrakk>lease_get k st = Some l; lease_op_key x = k; lease_op_owner x \<noteq> lease_owner l;
    lease_op_before (lease_expires_at l) x\<rbrakk> \<Longrightarrow> lease_get k (lease_apply x st) = Some l"
  by (cases x) (auto simp: lease_defs Let_def split: option.splits)

lemma lease_apply_version:
  "\<lbrakk>lease_get k st = Some l; \<not> (is_release x \<and> lease_op_key x = k)\<rbrakk> \<Longrightarrow>
   \<exists>l'. lease_get k (lease_apply x st) = Some l' \<and> lease_version l \<le> lease_version l' \<and>
        (lease_owner l' \<noteq> lease_owner l \<longrightarrow> lease_version l < lease_version l')"
  by (cases x) (auto simp: lease_defs Let_def split: option.splits)

interpretation memory_leases: lease_interface lease_get lease_apply
  by unfold_locales (auto intro: lease_apply_other_key lease_apply_foreign lease_apply_version)

lemma lease_run_eq: "memory_leases.run_ops = lease_run"
  by (simp add: fun_eq_iff memory_leases.run_ops_def lease_run_def)

lemma lease_apply_dict_ok: "dict_ok st \<Longrightarrow> dict_ok (lease_apply x st)"
  by (cases x) (auto simp: lease_defs Let_def intro: distinct_update distinct_delete split: option.splits)

section \<open>Properties\<close>

text \<open>
  C27: a lease excludes every other owner until it expires. After a successful acquire, whatever
  sequence of acquire, renew and release calls other owners make on the key at clock readings
  before the expiry (and anyone makes on other keys), the store still holds exactly this lease.
\<close>

theorem lease_mutual_exclusion:
  assumes "lease_acquire t key owner ttl st = (Inr l, st')"
    and "\<forall>x \<in> set xs. lease_op_key x = key \<longrightarrow>
           lease_op_owner x \<noteq> owner \<and> lease_op_before (t + ttl) x"
  shows "lease_get key (lease_run xs st') = Some l"
proof -
  from lease_acquire_get [OF assms(1), of key]
  have "lease_get key st' = Some l" "lease_owner l = owner" "lease_expires_at l = t + ttl" by auto
  then show ?thesis
    using memory_leases.live_lease_kept [of key st' l xs] assms(2) by (simp add: lease_run_eq)
qed

theorem lease_mutual_exclusion_witness:
  "lease_get ''k''
     (lease_run [Acquire 5 ''k'' ''b'' 10, Release ''k'' ''b'', Renew 9 ''k'' ''b'' 1]
        (snd (lease_acquire 0 ''k'' ''a'' 10 []))) =
   Some \<lparr>lease_key = ''k'', lease_owner = ''a'', lease_expires_at = 10, lease_version = 0\<rparr>"
proof -
  let ?l = "\<lparr>lease_key = ''k'', lease_owner = ''a'', lease_expires_at = 10, lease_version = 0\<rparr>"
  have nb: "\<not> blank ''k''" "\<not> blank ''a''" by (simp_all add: blank_iff is_space_def)
  then have a: "lease_acquire 0 ''k'' ''a'' 10 [] = (Inr ?l, [(''k'', ?l)])"
    by (simp add: lease_acquire_def Let_def)
  show ?thesis
    using lease_mutual_exclusion [OF a, of "[Acquire 5 ''k'' ''b'' 10, Release ''k'' ''b'', Renew 9 ''k'' ''b'' 1]"] a
    by simp
qed

text \<open>
  Lease versions are fencing tokens as long as the key is not released: through any sequence
  of acquire and renew calls (and any calls on other keys) the version never decreases, and it
  is strictly larger whenever the lease has passed to another owner.
\<close>

theorem lease_version_fencing:
  assumes "lease_get key st = Some l"
    and "\<forall>x \<in> set xs. \<not> (is_release x \<and> lease_op_key x = key)"
  shows "\<exists>l'. lease_get key (lease_run xs st) = Some l' \<and> lease_version l \<le> lease_version l' \<and>
              (lease_owner l' \<noteq> lease_owner l \<longrightarrow> lease_version l < lease_version l')"
  using memory_leases.version_monotone [OF assms] by (simp add: lease_run_eq)

theorem lease_version_fencing_witness:
  "\<exists>l'. lease_get ''k'' (lease_run [Acquire 11 ''k'' ''b'' 10]
          [(''k'', \<lparr>lease_key = ''k'', lease_owner = ''a'', lease_expires_at = 10, lease_version = 0\<rparr>)]) =
        Some l' \<and> 0 \<le> lease_version l' \<and> (lease_owner l' \<noteq> ''a'' \<longrightarrow> 0 < lease_version l')"
  using lease_version_fencing [of "''k''"
      "[(''k'', \<lparr>lease_key = ''k'', lease_owner = ''a'', lease_expires_at = 10, lease_version = 0\<rparr>)]"
      "\<lparr>lease_key = ''k'', lease_owner = ''a'', lease_expires_at = 10, lease_version = 0\<rparr>"
      "[Acquire 11 ''k'' ''b'' 10]"]
  by (simp add: lease_get_def)

end
