(* ===== verification/Deduplication.thy ===== *)
theory Deduplication
  imports Governance_Contracts
begin

text \<open>
  \<open>background/deduplication.py\<close>: one record per event key, claimed by an execution under a
  lease, then pending approval or terminal. \<open>InMemoryDeduplicationStore\<close> is the dictionary
  \<open>_records\<close>; the reading of the clock is an argument. A raised exception leaves the store
  unchanged.
\<close>

datatype dedup_status =
    Dedup_IN_PROGRESS | Dedup_PENDING_APPROVAL | Dedup_COMPLETED | Dedup_FAILED
  | Dedup_DEAD_LETTERED

record dedup_record =
  dd_deduplication_key :: string
  dd_status :: dedup_status
  dd_execution_id :: "string option"
  dd_attempt :: int
  dd_correlation_id :: "string option"
  dd_outcome :: "agent_outcome option"
  dd_lease_owner :: "string option"
  dd_lease_version :: "int option"
  dd_updated_at :: time

type_synonym dedup_store = "(string, dedup_record) dict"

definition terminal_status :: "dedup_status \<Rightarrow> bool" where
  "terminal_status s \<longleftrightarrow> s \<in> {Dedup_COMPLETED, Dedup_FAILED, Dedup_DEAD_LETTERED}"

definition dedup_get :: "string \<Rightarrow> dedup_store \<Rightarrow> dedup_record option" where
  "dedup_get key st = map_of st key"

definition dedup_put :: "dedup_record \<Rightarrow> dedup_store \<Rightarrow> (exc + unit) \<times> dedup_store" where
  "dedup_put r st =
     (let existing = map_of st (dd_deduplication_key r)
      in if (case existing of None \<Rightarrow> False
             | Some e \<Rightarrow> dd_status e \<noteq> dd_status r \<and> terminal_status (dd_status e))
         then (Inl DeduplicationConflictError, st)
         else (Inr (), AList.update (dd_deduplication_key r) r st))"

definition mark_in_progress ::
  "time \<Rightarrow> string \<Rightarrow> string \<Rightarrow> int \<Rightarrow> string \<Rightarrow> string \<Rightarrow> int \<Rightarrow> dedup_store \<Rightarrow>
   (exc + unit) \<times> dedup_store" where
  "mark_in_progress t key execution_id attempt correlation_id owner version st =
     (if blank owner then (Inl ValueError, st)
      else if version < 0 then (Inl ValueError, st)
      else
        (let existing = map_of st key
         in if (case existing of None \<Rightarrow> False
                | Some e \<Rightarrow> dd_status e = Dedup_PENDING_APPROVAL \<or> terminal_status (dd_status e))
            then (Inl DeduplicationConflictError, st)
            else if (case existing of None \<Rightarrow> False
                     | Some e \<Rightarrow> dd_status e = Dedup_IN_PROGRESS \<and>
                         (case dd_lease_version e of None \<Rightarrow> False | Some v \<Rightarrow> v > version))
            then (Inl DeduplicationConflictError, st)
            else if (case existing of None \<Rightarrow> False
                     | Some e \<Rightarrow> dd_status e = Dedup_IN_PROGRESS \<and>
                         dd_lease_version e = Some version \<and>
                         dd_lease_owner e \<notin> {None, Some owner})
            then (Inl DeduplicationConflictError, st)
            else (Inr (), AList.update key
                    \<lparr>dd_deduplication_key = key, dd_status = Dedup_IN_PROGRESS,
                     dd_execution_id = Some execution_id, dd_attempt = attempt,
                     dd_correlation_id = Some correlation_id, dd_outcome = None,
                     dd_lease_owner = Some owner, dd_lease_version = Some version,
                     dd_updated_at = t\<rparr> st)))"

definition require_claim ::
  "string \<Rightarrow> string \<Rightarrow> string \<Rightarrow> int \<Rightarrow> dedup_store \<Rightarrow> exc + dedup_record" where
  "require_claim key execution_id owner version st =
     (case map_of st key of
        None \<Rightarrow> Inl DeduplicationConflictError
      | Some e \<Rightarrow>
          if dd_execution_id e \<noteq> Some execution_id \<or> dd_lease_owner e \<noteq> Some owner \<or>
             dd_lease_version e \<noteq> Some version
          then Inl DeduplicationConflictError else Inr e)"

definition mark_pending_approval ::
  "time \<Rightarrow> string \<Rightarrow> string \<Rightarrow> string \<Rightarrow> int \<Rightarrow> agent_outcome \<Rightarrow> dedup_store \<Rightarrow>
   (exc + unit) \<times> dedup_store" where
  "mark_pending_approval t key execution_id owner version outcome st =
     (case require_claim key execution_id owner version st of
        Inl x \<Rightarrow> (Inl x, st)
      | Inr e \<Rightarrow>
          if dd_status e \<noteq> Dedup_IN_PROGRESS \<and> dd_status e \<noteq> Dedup_PENDING_APPROVAL
          then (Inl DeduplicationConflictError, st)
          else (Inr (), AList.update key
                  (e\<lparr>dd_status := Dedup_PENDING_APPROVAL, dd_outcome := Some outcome,
                     dd_updated_at := t\<rparr>) st))"

definition mark_terminal ::
  "time \<Rightarrow> string \<Rightarrow> dedup_status \<Rightarrow> agent_outcome option \<Rightarrow> string \<Rightarrow> string \<Rightarrow> int \<Rightarrow>
   dedup_store \<Rightarrow> (exc + unit) \<times> dedup_store" where
  "mark_terminal t key status outcome execution_id owner version st =
     (if status = Dedup_IN_PROGRESS \<or> status = Dedup_PENDING_APPROVAL then (Inl ValueError, st)
      else
        (case require_claim key execution_id owner version st of
           Inl x \<Rightarrow> (Inl x, st)
         | Inr e \<Rightarrow>
             if terminal_status (dd_status e) then (Inl DeduplicationConflictError, st)
             else (Inr (), AList.update key
                     \<lparr>dd_deduplication_key = key, dd_status = status,
                      dd_execution_id = Some execution_id, dd_attempt = dd_attempt e,
                      dd_correlation_id = dd_correlation_id e, dd_outcome = outcome,
                      dd_lease_owner = Some owner, dd_lease_version = Some version,
                      dd_updated_at = t\<rparr> st)))"

lemmas dedup_mark_defs [step_defs] =
  mark_in_progress_def mark_pending_approval_def mark_terminal_def require_claim_def

section \<open>One operation\<close>

lemma require_claim_Inr:
  "require_claim key x owner v st = Inr e \<longleftrightarrow>
     map_of st key = Some e \<and> dd_execution_id e = Some x \<and> dd_lease_owner e = Some owner \<and>
     dd_lease_version e = Some v"
  by (auto simp: require_claim_def split: option.splits)

lemma require_claim_Inl:
  "require_claim key x owner v st = Inl y \<Longrightarrow> y = DeduplicationConflictError"
  by (auto simp: require_claim_def split: option.splits if_splits)

lemma mark_in_progress_Inr:
  "mark_in_progress t key x a c owner v st = (Inr u, st') \<Longrightarrow>
     \<not> blank owner \<and> 0 \<le> v \<and>
     st' = AList.update key
       \<lparr>dd_deduplication_key = key, dd_status = Dedup_IN_PROGRESS, dd_execution_id = Some x,
        dd_attempt = a, dd_correlation_id = Some c, dd_outcome = None,
        dd_lease_owner = Some owner, dd_lease_version = Some v, dd_updated_at = t\<rparr> st \<and>
     (\<forall>e. map_of st key = Some e \<longrightarrow> dd_status e = Dedup_IN_PROGRESS)"
  unfolding mark_in_progress_def Let_def
  by (auto split: if_splits option.splits simp: terminal_status_def intro: dedup_status.exhaust)

lemma mark_terminal_Inr:
  "mark_terminal t key s out x owner v st = (Inr u, st') \<Longrightarrow>
     terminal_status s \<and>
     (\<exists>e. map_of st key = Some e \<and> \<not> terminal_status (dd_status e) \<and>
          dd_execution_id e = Some x \<and> dd_lease_owner e = Some owner \<and> dd_lease_version e = Some v \<and>
          st' = AList.update key
            \<lparr>dd_deduplication_key = key, dd_status = s, dd_execution_id = Some x,
             dd_attempt = dd_attempt e, dd_correlation_id = dd_correlation_id e, dd_outcome = out,
             dd_lease_owner = Some owner, dd_lease_version = Some v, dd_updated_at = t\<rparr> st)"
  unfolding mark_terminal_def
  by (auto split: if_splits sum.splits simp: terminal_status_def require_claim_Inr
      intro: dedup_status.exhaust)

lemma mark_pending_Inr:
  "mark_pending_approval t key x owner v out st = (Inr u, st') \<Longrightarrow>
     (\<exists>e. map_of st key = Some e \<and> \<not> terminal_status (dd_status e) \<and>
          dd_execution_id e = Some x \<and> dd_lease_owner e = Some owner \<and> dd_lease_version e = Some v \<and>
          st' = AList.update key
            (e\<lparr>dd_status := Dedup_PENDING_APPROVAL, dd_outcome := Some out, dd_updated_at := t\<rparr>) st)"
  unfolding mark_pending_approval_def
  by (auto split: if_splits sum.splits simp: terminal_status_def require_claim_Inr)

lemma mark_error_unchanged:
  "mark_in_progress t key x a c owner v st = (Inl e, st') \<Longrightarrow> st' = st"
  "mark_pending_approval t key x owner v out st = (Inl e, st') \<Longrightarrow> st' = st"
  "mark_terminal t key s out' x owner v st = (Inl e, st') \<Longrightarrow> st' = st"
  unfolding mark_in_progress_def mark_pending_approval_def mark_terminal_def Let_def
  by (auto split: if_splits sum.splits)

lemma mark_terminal_claimed:
  assumes "map_of st key = Some e" and "\<not> terminal_status (dd_status e)"
    and "dd_execution_id e = Some x" "dd_lease_owner e = Some owner" "dd_lease_version e = Some v"
    and "terminal_status s"
  shows "\<exists>st'. mark_terminal t key s out x owner v st = (Inr (), st')"
  using assms by (auto simp: mark_terminal_def require_claim_def terminal_status_def)

section \<open>The interface: terminal and claimed records\<close>

text \<open>
  What the runner relies on of a \<open>DeduplicationStore\<close>: marking calls touch only their key, and
  a record with a terminal status is never changed by a marking call.
\<close>

datatype mark_op =
    MarkInProgress time string string int string string int
  | MarkPending time string string string int agent_outcome
  | MarkTerminal time string dedup_status "agent_outcome option" string string int

fun mark_op_key :: "mark_op \<Rightarrow> string" where
  "mark_op_key (MarkInProgress _ k _ _ _ _ _) = k"
| "mark_op_key (MarkPending _ k _ _ _ _) = k"
| "mark_op_key (MarkTerminal _ k _ _ _ _ _) = k"

locale dedup_interface =
  fixes get :: "string \<Rightarrow> 's \<Rightarrow> dedup_record option"
    and mark :: "mark_op \<Rightarrow> 's \<Rightarrow> (exc + unit) \<times> 's"
  assumes other_key: "mark_op_key x \<noteq> k \<Longrightarrow> get k (snd (mark x s)) = get k s"
    and terminal_kept:
      "get k s = Some r \<Longrightarrow> terminal_status (dd_status r) \<Longrightarrow> get k (snd (mark x s)) = Some r"
    and error_unchanged: "fst (mark x s) = Inl e \<Longrightarrow> snd (mark x s) = s"
begin

definition run_marks :: "mark_op list \<Rightarrow> 's \<Rightarrow> 's" where
  "run_marks xs s = fold (\<lambda>x s. snd (mark x s)) xs s"

lemma terminal_stable:
  "get k s = Some r \<Longrightarrow> terminal_status (dd_status r) \<Longrightarrow> get k (run_marks xs s) = Some r"
  unfolding run_marks_def by (induction xs arbitrary: s) (auto intro: terminal_kept)

lemma rejected_suffix:
  "get k s = Some r \<Longrightarrow> terminal_status (dd_status r) \<Longrightarrow>
   get k (run_marks xs s) = get k (run_marks ys s)"
  by (simp add: terminal_stable)

end

fun dedup_mark :: "mark_op \<Rightarrow> dedup_store \<Rightarrow> (exc + unit) \<times> dedup_store" where
  "dedup_mark (MarkInProgress t k x a c p v) st = mark_in_progress t k x a c p v st"
| "dedup_mark (MarkPending t k x p v out) st = mark_pending_approval t k x p v out st"
| "dedup_mark (MarkTerminal t k s out x p v) st = mark_terminal t k s out x p v st"

definition dedup_run :: "mark_op list \<Rightarrow> dedup_store \<Rightarrow> dedup_store" where
  "dedup_run xs st = fold (\<lambda>x s. snd (dedup_mark x s)) xs st"

lemma dedup_mark_cases:
  "snd (dedup_mark x st) = st \<or>
   (\<exists>r. snd (dedup_mark x st) = AList.update (mark_op_key x) r st \<and>
        (\<forall>e. map_of st (mark_op_key x) = Some e \<longrightarrow> \<not> terminal_status (dd_status e)))"
proof (cases "dedup_mark x st")
  case (Pair res st')
  show ?thesis
  proof (cases res)
    case (Inl e)
    with Pair show ?thesis by (cases x) (auto dest: mark_error_unchanged)
  next
    case (Inr u)
    with Pair show ?thesis
      by (cases x)
        (auto dest!: mark_in_progress_Inr mark_pending_Inr mark_terminal_Inr simp: terminal_status_def)
  qed
qed

lemma dedup_mark_error: "fst (dedup_mark x st) = Inl e \<Longrightarrow> snd (dedup_mark x st) = st"
  by (cases x; cases "dedup_mark x st") (auto dest: mark_error_unchanged)

interpretation memory_dedup: dedup_interface dedup_get dedup_mark
proof unfold_locales
  fix x k and s :: dedup_store
  assume "mark_op_key x \<noteq> k"
  then show "dedup_get k (snd (dedup_mark x s)) = dedup_get k s"
    using dedup_mark_cases [of x s] by (auto simp: dedup_get_def)
next
  fix x k r and s :: dedup_store
  assume "dedup_get k s = Some r" "terminal_status (dd_status r)"
  then show "dedup_get k (snd (dedup_mark x s)) = Some r"
    using dedup_mark_cases [of x s] by (cases "mark_op_key x = k") (auto simp: dedup_get_def)
qed (rule dedup_mark_error)

lemma dedup_run_eq: "memory_dedup.run_marks = dedup_run"
  by (simp add: fun_eq_iff memory_dedup.run_marks_def dedup_run_def)

section \<open>Properties\<close>

text \<open>
  A terminal deduplication record is final. Whatever sequence of marking calls any worker
  makes afterwards, the record of the event is unchanged, outcome and claim included.
\<close>

theorem dedup_terminal_final:
  assumes "mark_terminal t key s out x owner v st = (Inr (), st')"
  shows "\<exists>r. dedup_get key (dedup_run ops st') = Some r \<and> dd_status r = s \<and> dd_outcome r = out \<and>
             dd_execution_id r = Some x \<and> terminal_status s"
proof -
  from mark_terminal_Inr [OF assms] obtain r where
    r: "dedup_get key st' = Some r" "dd_status r = s" "dd_outcome r = out" "dd_execution_id r = Some x"
    and s: "terminal_status s"
    by (auto simp: dedup_get_def)
  from r s have "dedup_get key (dedup_run ops st') = Some r"
    using memory_dedup.terminal_stable [of key st' r ops] by (simp add: dedup_run_eq)
  with r s show ?thesis by blast
qed

text \<open>
  Claims are fenced. An event in progress can be claimed again only under a lease version at
  least the recorded one, by the same owner when the version is equal; and only the exact
  claim (execution, owner and version) can make it terminal.
\<close>

theorem dedup_claim_fencing:
  assumes "map_of st key = Some e" and "dd_status e = Dedup_IN_PROGRESS"
    and "dd_lease_owner e = Some p" and "dd_lease_version e = Some w"
    and "terminal_status s"
  shows "(fst (mark_in_progress t key x a c owner v st) = Inr () \<longleftrightarrow>
            \<not> blank owner \<and> 0 \<le> v \<and> (w < v \<or> (w = v \<and> p = owner))) \<and>
         (fst (mark_terminal t key s out x owner v st) = Inr () \<longleftrightarrow>
            dd_execution_id e = Some x \<and> p = owner \<and> w = v)"
proof
  show "fst (mark_in_progress t key x a c owner v st) = Inr () \<longleftrightarrow>
           \<not> blank owner \<and> 0 \<le> v \<and> (w < v \<or> (w = v \<and> p = owner))"
    using assms by (auto simp: mark_in_progress_def Let_def terminal_status_def)
  show "fst (mark_terminal t key s out x owner v st) = Inr () \<longleftrightarrow>
           dd_execution_id e = Some x \<and> p = owner \<and> w = v"
    using assms by (auto simp: mark_terminal_def require_claim_def terminal_status_def)
qed

definition sample_claim :: dedup_record where
  "sample_claim =
     \<lparr>dd_deduplication_key = ''k'', dd_status = Dedup_IN_PROGRESS, dd_execution_id = Some ''x'',
      dd_attempt = 0, dd_correlation_id = None, dd_outcome = None,
      dd_lease_owner = Some ''p'', dd_lease_version = Some 3, dd_updated_at = 0\<rparr>"

theorem dedup_terminal_final_witness:
  "\<exists>r. dedup_get ''k''
         (dedup_run [MarkInProgress 2 ''k'' ''y'' 0 ''c'' ''q'' 9]
            (snd (mark_terminal 1 ''k'' Dedup_COMPLETED None ''x'' ''p'' 3 [(''k'', sample_claim)]))) =
       Some r \<and> dd_status r = Dedup_COMPLETED \<and> dd_outcome r = None \<and> dd_execution_id r = Some ''x''"
proof -
  let ?st = "snd (mark_terminal 1 ''k'' Dedup_COMPLETED None ''x'' ''p'' 3 [(''k'', sample_claim)])"
  have "mark_terminal 1 ''k'' Dedup_COMPLETED None ''x'' ''p'' 3 [(''k'', sample_claim)] = (Inr (), ?st)"
    by (simp add: mark_terminal_def require_claim_def sample_claim_def terminal_status_def)
  from dedup_terminal_final [OF this, of "[MarkInProgress 2 ''k'' ''y'' 0 ''c'' ''q'' 9]"]
  show ?thesis by blast
qed

theorem dedup_claim_fencing_witness:
  "fst (mark_in_progress 1 ''k'' ''y'' 0 ''c'' ''q'' 4 [(''k'', sample_claim)]) = Inr () \<and>
   fst (mark_in_progress 1 ''k'' ''y'' 0 ''c'' ''q'' 3 [(''k'', sample_claim)]) \<noteq> Inr () \<and>
   fst (mark_terminal 1 ''k'' Dedup_FAILED None ''x'' ''p'' 3 [(''k'', sample_claim)]) = Inr ()"
proof -
  have e: "map_of [(''k'', sample_claim)] ''k'' = Some sample_claim" by simp
  have f: "dd_status sample_claim = Dedup_IN_PROGRESS" "dd_lease_owner sample_claim = Some ''p''"
    "dd_lease_version sample_claim = Some 3" "dd_execution_id sample_claim = Some ''x''"
    by (simp_all add: sample_claim_def)
  have nb: "\<not> blank ''q''" by (simp add: blank_iff is_space_def)
  show ?thesis
    using dedup_claim_fencing [OF e f(1-3), of Dedup_FAILED] nb f(4)
    by (simp add: terminal_status_def)
qed

end
