(* ===== verification/Events.thy ===== *)
theory Events
  imports Governance_Contracts
begin

text \<open>
  \<open>background/events.py\<close>: the event envelope and its derived identities. SHA-256 and the JSON
  encoder of the standard library are parameters (\<open>sha256\<close> maps the encoded text to its
  hexadecimal digest, \<open>dumps\<close> a payload to its canonical text); nothing is assumed about them.
\<close>

datatype event_disposition =
    Disp_COMPLETED | Disp_DUPLICATE | Disp_FAILED | Disp_DEAD_LETTERED | Disp_CANCELLED
  | Disp_PENDING_APPROVAL | Disp_LEASE_CONFLICT

datatype failure_category =
    Cat_RETRYABLE_TRANSIENT | Cat_PERMANENT | Cat_CANCELLED | Cat_BUDGET_EXHAUSTED
  | Cat_APPROVAL_REQUIRED | Cat_LEASE_LOST

fun event_disposition_value :: "event_disposition \<Rightarrow> string" where
  "event_disposition_value Disp_COMPLETED = ''completed''"
| "event_disposition_value Disp_DUPLICATE = ''duplicate''"
| "event_disposition_value Disp_FAILED = ''failed''"
| "event_disposition_value Disp_DEAD_LETTERED = ''dead_lettered''"
| "event_disposition_value Disp_CANCELLED = ''cancelled''"
| "event_disposition_value Disp_PENDING_APPROVAL = ''pending_approval''"
| "event_disposition_value Disp_LEASE_CONFLICT = ''lease_conflict''"

fun failure_category_value :: "failure_category \<Rightarrow> string" where
  "failure_category_value Cat_RETRYABLE_TRANSIENT = ''retryable_transient''"
| "failure_category_value Cat_PERMANENT = ''permanent''"
| "failure_category_value Cat_CANCELLED = ''cancelled''"
| "failure_category_value Cat_BUDGET_EXHAUSTED = ''budget_exhausted''"
| "failure_category_value Cat_APPROVAL_REQUIRED = ''approval_required''"
| "failure_category_value Cat_LEASE_LOST = ''lease_lost''"

record event_envelope =
  ee_event_id :: string
  ee_event_type :: string
  ee_source :: string
  ee_payload :: "(string, pyval) dict"
  ee_occurred_at :: string
  ee_correlation_id :: "string option"
  ee_causation_id :: "string option"
  ee_deduplication_key :: "string option"
  ee_principal_id :: string
  ee_tenant_id :: string
  ee_metadata :: "(string, string) dict"

definition event_envelope_ok :: "event_envelope \<Rightarrow> bool" where
  "event_envelope_ok e \<longleftrightarrow>
     ee_event_id e \<noteq> [] \<and> ee_event_type e \<noteq> [] \<and> ee_source e \<noteq> [] \<and>
     opt_nonempty (ee_correlation_id e) \<and> opt_nonempty (ee_causation_id e) \<and>
     opt_nonempty (ee_deduplication_key e) \<and> ee_principal_id e \<noteq> [] \<and> ee_tenant_id e \<noteq> [] \<and>
     ee_principal_id e = strip (ee_principal_id e) \<and> ee_tenant_id e = strip (ee_tenant_id e)"

record event_trigger =
  et_trigger_id :: string
  et_event_type :: string
  et_source :: string
  et_agent_id :: string
  et_agent_version :: string

definition event_trigger_id :: "event_envelope \<Rightarrow> string" where
  "event_trigger_id e = ee_source e @ '':'' @ ee_event_type e"

definition payload_digest ::
  "(string \<Rightarrow> string) \<Rightarrow> ((string, pyval) dict \<Rightarrow> string) \<Rightarrow> event_envelope \<Rightarrow> string" where
  "payload_digest sha256 dumps e = sha256 (dumps (ee_payload e))"

definition dedup_key :: "(string \<Rightarrow> string) \<Rightarrow> event_envelope \<Rightarrow> string" where
  "dedup_key sha256 e =
     (case ee_deduplication_key e of
        Some k \<Rightarrow> k
      | None \<Rightarrow> sha256 (ee_source e @ [CHR 0x00] @ ee_event_type e @ [CHR 0x00] @ ee_event_id e))"

text \<open>\<open>event.correlation_id or f"event:{event.event_id}"\<close>\<close>

definition event_correlation :: "event_envelope \<Rightarrow> string" where
  "event_correlation e = or_else (ee_correlation_id e) (''event:'' @ ee_event_id e)"

lemma event_correlation_nonempty [simp]: "event_correlation e \<noteq> []"
  by (simp add: event_correlation_def or_else_nonempty)

lemma event_trigger_nonempty [simp]: "event_trigger_id e \<noteq> []"
  by (simp add: event_trigger_id_def)

end
