(* ===== verification/Observability.thy ===== *)
theory Observability
  imports Governance_Contracts "HOL-Library.Sublist"
begin

text \<open>
  \<open>observability/redaction.py\<close> and \<open>observability/audit.py\<close>: the default redactor and the audit
  logger over the in-memory sink. Audit metadata passes the redactor before it is stored; the
  failure path of a foreign sink (\<open>_append_safely\<close>) is not reached by \<open>ListAuditSink\<close>, which
  only appends.
\<close>

section \<open>Redaction\<close>

definition default_blocked_key_parts :: "string list" where
  "default_blocked_key_parts =
     [''message'', ''prompt'', ''text'', ''content'', ''output'', ''secret'', ''token'',
      ''credential'', ''password'']"

record redactor =
  red_blocked :: "string list"
  red_sensitive :: "string list"
  red_value_limit :: int

definition mk_redactor :: "string list \<Rightarrow> string list \<Rightarrow> int \<Rightarrow> exc + redactor" where
  "mk_redactor blocked_key_parts sensitive_field_names value_limit =
     (if value_limit < 1 then Inl ValueError
      else Inr \<lparr>red_blocked = map lower blocked_key_parts, red_sensitive = sensitive_field_names,
                red_value_limit = value_limit\<rparr>)"

definition default_redactor :: redactor where
  "default_redactor =
     \<lparr>red_blocked = map lower default_blocked_key_parts, red_sensitive = [], red_value_limit = 200\<rparr>"

text \<open>\<open>part in s\<close> for strings, and the slice \<open>s[:n]\<close>.\<close>

definition contains :: "string \<Rightarrow> string \<Rightarrow> bool" where
  "contains s part \<longleftrightarrow> list_ex (prefix part) (suffixes s)"

definition slice_to :: "int \<Rightarrow> 'a list \<Rightarrow> 'a list" where
  "slice_to n xs = (if 0 \<le> n then take (nat n) xs else take (nat (int (length xs) + n)) xs)"

lemma contains_iff: "contains s part \<longleftrightarrow> (\<exists>u v. s = u @ part @ v)"
proof -
  have "contains s part \<longleftrightarrow> (\<exists>x. suffix x s \<and> prefix part x)"
    by (auto simp: contains_def list_ex_iff)
  then show ?thesis
    unfolding prefix_def suffix_def by blast
qed

definition redact_key :: "redactor \<Rightarrow> string \<Rightarrow> bool" where
  "redact_key r key \<longleftrightarrow>
     key \<in> set (red_sensitive r) \<or> list_ex (contains (lower key)) (red_blocked r)"

definition truncate_value :: "redactor \<Rightarrow> string \<Rightarrow> int option \<Rightarrow> string" where
  "truncate_value r v limit = slice_to (case limit of None \<Rightarrow> red_value_limit r | Some n \<Rightarrow> n) v"

definition redact_value :: "redactor \<Rightarrow> string \<Rightarrow> string \<Rightarrow> string" where
  "redact_value r key v = (if redact_key r key then ''[REDACTED]'' else truncate_value r v None)"

text \<open>The comprehension \<open>safe_metadata\<close> of \<open>AuditLogger.record\<close>.\<close>

definition safe_metadata :: "redactor \<Rightarrow> (string, string) dict \<Rightarrow> (string, string) dict" where
  "safe_metadata r d =
     map (\<lambda>(k, v). (k, redact_value r k v))
       (filter (\<lambda>(k, v). k \<noteq> [] \<and> v \<noteq> [] \<and> \<not> redact_key r k) d)"

section \<open>Audit events\<close>

record audit_event =
  ae_event_id :: string
  ae_event_type :: string
  ae_occurred_at :: time
  ae_execution_id :: string
  ae_agent_id :: string
  ae_manifest_id :: "string option"
  ae_manifest_digest :: "string option"
  ae_registry_snapshot_id :: "string option"
  ae_prompt_ref :: "component_reference option"
  ae_skill_refs :: "component_reference list"
  ae_principal_id :: string
  ae_tenant_id :: string
  ae_session_id :: string
  ae_correlation_id :: string
  ae_parent_execution_id :: "string option"
  ae_delegation_id :: "string option"
  ae_delegation_depth :: int
  ae_source_event_id :: "string option"
  ae_trigger_id :: "string option"
  ae_causation_id :: "string option"
  ae_attempt :: int
  ae_outcome_status :: "outcome_status option"
  ae_safety_flags :: "safety_flag list"
  ae_tool_ids :: "string list"
  ae_metadata :: "(string, string) dict"

definition audit_event_ok :: "audit_event \<Rightarrow> bool" where
  "audit_event_ok e \<longleftrightarrow>
     ae_event_id e \<noteq> [] \<and> ae_event_type e \<noteq> [] \<and> ae_execution_id e \<noteq> [] \<and> ae_agent_id e \<noteq> [] \<and>
     opt_nonempty (ae_manifest_id e) \<and> opt_nonempty (ae_manifest_digest e) \<and>
     opt_nonempty (ae_registry_snapshot_id e) \<and>
     ae_principal_id e \<noteq> [] \<and> ae_tenant_id e \<noteq> [] \<and> ae_session_id e \<noteq> [] \<and>
     ae_correlation_id e \<noteq> [] \<and> opt_nonempty (ae_parent_execution_id e) \<and>
     opt_nonempty (ae_delegation_id e) \<and> 0 \<le> ae_delegation_depth e \<and> ae_delegation_depth e \<le> 100 \<and>
     opt_nonempty (ae_source_event_id e) \<and> opt_nonempty (ae_trigger_id e) \<and>
     opt_nonempty (ae_causation_id e) \<and> 0 \<le> ae_attempt e \<and>
     (ae_parent_execution_id e = None \<longrightarrow> ae_delegation_depth e = 0) \<and>
     (ae_parent_execution_id e \<noteq> None \<longrightarrow> 1 \<le> ae_delegation_depth e) \<and>
     (\<forall>r. ae_prompt_ref e = Some r \<longrightarrow> cr_component_type r = Component_PROMPT) \<and>
     (\<forall>r \<in> set (ae_skill_refs e). cr_component_type r = Component_SKILL)"

text \<open>
  The keyword arguments of \<open>AuditLogger.record\<close> with their defaults: an event whose identifier
  and timestamp are still to be filled in.
\<close>

definition audit_args ::
  "string \<Rightarrow> principal_context \<Rightarrow> string \<Rightarrow> string \<Rightarrow> string \<Rightarrow> audit_event" where
  "audit_args event_type who execution_id agent_id correlation_id =
     \<lparr>ae_event_id = [], ae_event_type = event_type, ae_occurred_at = 0,
      ae_execution_id = execution_id, ae_agent_id = agent_id, ae_manifest_id = None,
      ae_manifest_digest = None, ae_registry_snapshot_id = None, ae_prompt_ref = None,
      ae_skill_refs = [], ae_principal_id = pc_principal_id who,
      ae_tenant_id = pc_tenant_id who, ae_session_id = pc_session_id who,
      ae_correlation_id = correlation_id, ae_parent_execution_id = None, ae_delegation_id = None,
      ae_delegation_depth = 0, ae_source_event_id = None, ae_trigger_id = None,
      ae_causation_id = None, ae_attempt = 0, ae_outcome_status = None, ae_safety_flags = [],
      ae_tool_ids = [], ae_metadata = []\<rparr>"

definition audit_record ::
  "redactor \<Rightarrow> audit_event \<Rightarrow> world \<times> audit_event list \<Rightarrow> world \<times> audit_event list" where
  "audit_record r e ws =
     (case ws of (w, sink) \<Rightarrow>
        let (i, w1) = new_id ''audit'' w; (t, w2) = now w1
        in (w2, sink @ [e\<lparr>ae_event_id := i, ae_occurred_at := t,
                          ae_metadata := safe_metadata r (ae_metadata e)\<rparr>]))"

definition audit_by_execution :: "string \<Rightarrow> audit_event list \<Rightarrow> audit_event list" where
  "audit_by_execution x sink = filter (\<lambda>e. ae_execution_id e = x) sink"

section \<open>Lemmas\<close>

lemma truncate_value_length:
  "1 \<le> red_value_limit r \<Longrightarrow> length (truncate_value r v None) \<le> nat (red_value_limit r)"
  by (simp add: truncate_value_def slice_to_def)

lemma safe_metadata_entry:
  "(k, v) \<in> set (safe_metadata r d) \<Longrightarrow>
     \<not> redact_key r k \<and> (\<exists>v0. (k, v0) \<in> set d \<and> v0 \<noteq> [] \<and> v = truncate_value r v0 None)"
  by (auto simp: safe_metadata_def redact_value_def)

section \<open>Properties\<close>

text \<open>
  Nothing sensitive reaches the audit sink. Every metadata entry of a stored audit event has
  a key that contains none of the blocked parts in any letter case and is not a configured
  sensitive name, and its value is no longer than the redactor's limit and a prefix of the value
  given; the event keeps the identity of its principal.
\<close>

theorem audit_metadata_redacted:
  assumes "1 \<le> red_value_limit r"
    and "audit_record r e (w, sink) = (w', sink')"
    and "stored \<in> set sink'" and "stored \<notin> set sink"
    and "(k, v) \<in> set (ae_metadata stored)"
  shows "k \<notin> set (red_sensitive r) \<and>
         (\<forall>part \<in> set (red_blocked r). \<not> contains (lower k) part) \<and>
         length v \<le> nat (red_value_limit r) \<and>
         (\<exists>v0. (k, v0) \<in> set (ae_metadata e) \<and> prefix v v0) \<and>
         ae_principal_id stored = ae_principal_id e"
proof -
  have s: "ae_metadata stored = safe_metadata r (ae_metadata e)"
    "ae_principal_id stored = ae_principal_id e"
    using assms(2-4) by (auto simp: audit_record_def Let_def new_id_def now_def)
  then obtain v0 where v0: "\<not> redact_key r k" "(k, v0) \<in> set (ae_metadata e)" "v = truncate_value r v0 None"
    using assms(5) safe_metadata_entry by metis
  then have "k \<notin> set (red_sensitive r)"
    and "\<forall>part \<in> set (red_blocked r). \<not> contains (lower k) part"
    by (auto simp: redact_key_def list_ex_iff)
  moreover have "length v \<le> nat (red_value_limit r)"
    using truncate_value_length [OF assms(1)] v0(3) by simp
  moreover have "\<exists>v0. (k, v0) \<in> set (ae_metadata e) \<and> prefix v v0"
    using v0 assms(1) by (auto simp: truncate_value_def slice_to_def take_is_prefix)
  ultimately show ?thesis using s(2) by blast
qed

theorem audit_metadata_redacted_witness:
  "let w = \<lparr>make_id = (\<lambda>p n. p), id_calls = 0, clock_at = (\<lambda>n. 0), clock_calls = 0\<rparr>;
       e = (audit_args ''x'' \<lparr>pc_principal_id = ''p'', pc_tenant_id = ''t'', pc_session_id = ''s''\<rparr>
              ''run'' ''agent'' ''root'')\<lparr>ae_metadata := [(''api_Token'', ''v''), (''step'', ''one'')]\<rparr>
   in \<exists>stored. snd (audit_record default_redactor e (w, [])) = [stored] \<and>
               ae_metadata stored = [(''step'', ''one'')] \<and>
               \<not> contains (lower ''step'') ''token''"
proof -
  let ?w = "\<lparr>make_id = (\<lambda>p n. p), id_calls = 0, clock_at = (\<lambda>n. 0), clock_calls = 0\<rparr>"
  let ?e = "(audit_args ''x'' \<lparr>pc_principal_id = ''p'', pc_tenant_id = ''t'', pc_session_id = ''s''\<rparr>
               ''run'' ''agent'' ''root'')\<lparr>ae_metadata := [(''api_Token'', ''v''), (''step'', ''one'')]\<rparr>"
  let ?m = "safe_metadata default_redactor [(''api_Token'', ''v''), (''step'', ''one'')]"
  let ?s = "?e\<lparr>ae_event_id := ''audit'', ae_occurred_at := 0, ae_metadata := ?m\<rparr>"
  have m: "?m = [(''step'', ''one'')]" by code_simp
  have r: "audit_record default_redactor ?e (?w, []) =
             (?w\<lparr>id_calls := 1, clock_calls := 1\<rparr>, [?s])"
    by (simp add: audit_record_def new_id_def now_def)
  have l: "1 \<le> red_value_limit default_redactor" "''token'' \<in> set (red_blocked default_redactor)"
    by (simp_all add: default_redactor_def default_blocked_key_parts_def lower_def lower_char_def)
  from audit_metadata_redacted [OF l(1) r, of ?s "''step''" "''one''"] l(2) m r
  show ?thesis by simp
qed

end
