(* ===== verification/Job_Runner.thy ===== *)
theory Job_Runner
  imports Leases Deduplication Events Observability
begin

text \<open>
  \<open>background/runner.py\<close>: \<open>BackgroundJobRunner\<close> over the in-memory lease and deduplication
  stores, the in-memory dead-letter and audit sinks, and an application \<open>JobHandler\<close>.

  The handler is a parameter that may change the whole state, so other workers that act on the
  shared stores while it runs are part of the model; \<open>jr_app\<close> is whatever state the application
  owns. The \<open>while\<close> loop is \<open>job_loop\<close>, one pass of its body is \<open>attempt_step\<close>. Every store
  call is given one reading of the clock, whether or not it uses it.
\<close>

section \<open>Data\<close>

record dead_letter_record =
  dl_event_id :: string
  dl_trigger_id :: string
  dl_correlation_id :: string
  dl_execution_id :: "string option"
  dl_attempt :: int
  dl_failure_category :: failure_category
  dl_retry_decision :: string
  dl_final_disposition :: event_disposition
  dl_occurred_at :: time
  dl_metadata :: "(string, string) dict"

record job_result =
  jr_disposition :: event_disposition
  jr_event_id :: string
  jr_trigger_id :: string
  jr_correlation_id :: string
  jr_execution_id :: "string option"
  jr_attempt :: int
  jr_outcome :: "agent_outcome option"
  jr_failure_category :: "failure_category option"
  jr_completed_at :: time

record job_config =
  jc_max_attempts :: nat
  jc_backoff :: duration
  jc_lease_ttl :: duration
  jc_redactor :: redactor
  jc_sha256 :: "string \<Rightarrow> string"
  jc_dumps :: "(string, pyval) dict \<Rightarrow> string"

text \<open>\<open>BackgroundRetryPolicy.__post_init__\<close> and the check of \<open>BackgroundJobRunner.__init__\<close>.\<close>

definition job_config_ok :: "job_config \<Rightarrow> bool" where
  "job_config_ok c \<longleftrightarrow> 1 \<le> jc_max_attempts c \<and> 0 \<le> jc_backoff c \<and> 0 < jc_lease_ttl c"

record 'w runner_state =
  jr_leases :: lease_store
  jr_dedup :: dedup_store
  jr_dead_letters :: "dead_letter_record list"
  jr_audit :: "audit_event list"
  jr_sleeps :: "duration list"
  jr_world :: world
  jr_app :: 'w

record job_call =
  call_principal :: principal_context
  call_input_text :: string
  call_correlation_id :: string
  call_event_id :: string
  call_trigger_id :: string
  call_causation_id :: "string option"
  call_attempt :: int
  call_execution_id :: string

type_synonym 'w job_handler =
  "job_call \<Rightarrow> 'w runner_state \<Rightarrow> (exc + agent_outcome) \<times> 'w runner_state"

section \<open>Classification\<close>

definition is_success :: "agent_outcome \<Rightarrow> bool" where
  "is_success o' \<longleftrightarrow> ao_status o' = Outcome_COMPLETED \<or> ao_status o' = Outcome_PARTIAL"

text \<open>The exit signals are re-raised before classification (\<open>attempt_step\<close> does not catch them).\<close>

fun classify_exception :: "exc \<Rightarrow> failure_category" where
  "classify_exception (HarnessError c r) =
     (if error_code_value c = ''execution_cancelled'' then Cat_CANCELLED
      else if error_code_value c = ''budget_exhausted'' then Cat_BUDGET_EXHAUSTED
      else if r then Cat_RETRYABLE_TRANSIENT else Cat_PERMANENT)"
| "classify_exception e =
     (if exc_retryable e then Cat_RETRYABLE_TRANSIENT else Cat_PERMANENT)"

definition classify_outcome :: "agent_outcome \<Rightarrow> failure_category" where
  "classify_outcome o' =
     (if ao_status o' = Outcome_CANCELLED then Cat_CANCELLED
      else if ao_status o' = Outcome_ESCALATED then Cat_APPROVAL_REQUIRED
      else if ao_status o' = Outcome_FAILED \<and> Flag_BUDGET_EXHAUSTED \<in> set (ao_safety_flags o')
      then Cat_BUDGET_EXHAUSTED
      else if ao_status o' = Outcome_FAILED then Cat_RETRYABLE_TRANSIENT
      else Cat_PERMANENT)"

definition final_disposition ::
  "failure_category \<Rightarrow> event_disposition \<times> failure_category" where
  "final_disposition category =
     (if category = Cat_CANCELLED then (Disp_CANCELLED, category)
      else if category = Cat_BUDGET_EXHAUSTED then (Disp_FAILED, category)
      else if category = Cat_APPROVAL_REQUIRED then (Disp_PENDING_APPROVAL, category)
      else (Disp_DEAD_LETTERED, category))"

section \<open>Access to the parts of the state\<close>

definition gen_id :: "string \<Rightarrow> 'w runner_state \<Rightarrow> string \<times> 'w runner_state" where
  "gen_id p s = (case new_id p (jr_world s) of (i, w) \<Rightarrow> (i, s\<lparr>jr_world := w\<rparr>))"

definition read_clock :: "'w runner_state \<Rightarrow> time \<times> 'w runner_state" where
  "read_clock s = (case now (jr_world s) of (t, w) \<Rightarrow> (t, s\<lparr>jr_world := w\<rparr>))"

definition audit :: "job_config \<Rightarrow> audit_event \<Rightarrow> 'w runner_state \<Rightarrow> 'w runner_state" where
  "audit c e s = (case audit_record (jc_redactor c) e (jr_world s, jr_audit s) of
     (w, sink) \<Rightarrow> s\<lparr>jr_world := w, jr_audit := sink\<rparr>)"

definition with_leases ::
  "(time \<Rightarrow> lease_store \<Rightarrow> (exc + 'a) \<times> lease_store) \<Rightarrow> 'w runner_state \<Rightarrow>
   (exc + 'a) \<times> 'w runner_state" where
  "with_leases f s = (case read_clock s of (t, s1) \<Rightarrow>
     (case f t (jr_leases s1) of (r, st) \<Rightarrow> (r, s1\<lparr>jr_leases := st\<rparr>)))"

definition with_dedup ::
  "(time \<Rightarrow> dedup_store \<Rightarrow> (exc + 'a) \<times> dedup_store) \<Rightarrow> 'w runner_state \<Rightarrow>
   (exc + 'a) \<times> 'w runner_state" where
  "with_dedup f s = (case read_clock s of (t, s1) \<Rightarrow>
     (case f t (jr_dedup s1) of (r, st) \<Rightarrow> (r, s1\<lparr>jr_dedup := st\<rparr>)))"

text \<open>The audit fields every record of one event carries.\<close>

definition event_audit ::
  "string \<Rightarrow> principal_context \<Rightarrow> event_envelope \<Rightarrow> string \<Rightarrow> string \<Rightarrow> int \<Rightarrow>
   (string, string) dict \<Rightarrow> audit_event" where
  "event_audit event_type who event execution_id correlation_id attempt metadata =
     (audit_args event_type who execution_id ''background'' correlation_id)
       \<lparr>ae_source_event_id := Some (ee_event_id event),
        ae_trigger_id := Some (event_trigger_id event),
        ae_causation_id := ee_causation_id event,
        ae_attempt := attempt, ae_metadata := metadata\<rparr>"

section \<open>Results\<close>

definition mk_result ::
  "event_disposition \<Rightarrow> event_envelope \<Rightarrow> string \<Rightarrow> string option \<Rightarrow> int \<Rightarrow> agent_outcome option \<Rightarrow>
   failure_category option \<Rightarrow> 'w runner_state \<Rightarrow> job_result \<times> 'w runner_state" where
  "mk_result d event correlation_id execution_id attempt outcome category s =
     (case read_clock s of (t, s1) \<Rightarrow>
        (\<lparr>jr_disposition = d, jr_event_id = ee_event_id event,
          jr_trigger_id = event_trigger_id event, jr_correlation_id = correlation_id,
          jr_execution_id = execution_id, jr_attempt = attempt, jr_outcome = outcome,
          jr_failure_category = category, jr_completed_at = t\<rparr>, s1))"

definition record_correlation :: "dedup_record \<Rightarrow> event_envelope \<Rightarrow> string" where
  "record_correlation existing event =
     or_else (dd_correlation_id existing) (event_correlation event)"

definition lease_conflict_result ::
  "job_config \<Rightarrow> event_envelope \<Rightarrow> principal_context \<Rightarrow> 'w runner_state \<Rightarrow>
   job_result \<times> 'w runner_state" where
  "lease_conflict_result c event who s =
     (let cid = event_correlation event;
          s1 = audit c (event_audit ''lease_conflict'' who event cid cid 0 []) s
      in mk_result Disp_LEASE_CONFLICT event cid None 0 None (Some Cat_LEASE_LOST) s1)"

definition duplicate_result ::
  "job_config \<Rightarrow> event_envelope \<Rightarrow> dedup_record \<Rightarrow> principal_context \<Rightarrow> 'w runner_state \<Rightarrow>
   job_result \<times> 'w runner_state" where
  "duplicate_result c event existing who s =
     (let cid = record_correlation existing event;
          s1 = audit c (event_audit ''event_duplicate_deduped'' who event
                 (or_else (dd_execution_id existing) (dedup_key (jc_sha256 c) event)) cid
                 (dd_attempt existing) []) s
      in mk_result Disp_DUPLICATE event cid (dd_execution_id existing) (dd_attempt existing)
           (dd_outcome existing) None s1)"

definition pending_result ::
  "job_config \<Rightarrow> event_envelope \<Rightarrow> dedup_record \<Rightarrow> principal_context \<Rightarrow> agent_outcome option \<Rightarrow>
   'w runner_state \<Rightarrow> job_result \<times> 'w runner_state" where
  "pending_result c event existing who outcome s =
     (let cid = record_correlation existing event;
          s1 = audit c (event_audit ''event_pending_approval_deduped'' who event
                 (or_else (dd_execution_id existing) (dedup_key (jc_sha256 c) event)) cid
                 (dd_attempt existing) []) s
      in mk_result Disp_PENDING_APPROVAL event cid (dd_execution_id existing) (dd_attempt existing)
           (if outcome = None then dd_outcome existing else outcome)
           (Some Cat_APPROVAL_REQUIRED) s1)"

definition stored_result ::
  "job_config \<Rightarrow> event_envelope \<Rightarrow> dedup_record \<Rightarrow> principal_context \<Rightarrow> 'w runner_state \<Rightarrow>
   job_result \<times> 'w runner_state" where
  "stored_result c event existing who s =
     (if dd_status existing = Dedup_COMPLETED then duplicate_result c event existing who s
      else if dd_status existing = Dedup_PENDING_APPROVAL
      then pending_result c event existing who None s
      else
        (let d = (if dd_status existing = Dedup_FAILED then Disp_FAILED else Disp_DEAD_LETTERED);
             cid = record_correlation existing event;
             s1 = audit c (event_audit ''event_terminal_deduped'' who event
                    (or_else (dd_execution_id existing) (dedup_key (jc_sha256 c) event)) cid
                    (dd_attempt existing) [(''disposition'', event_disposition_value d)]) s
         in mk_result d event cid (dd_execution_id existing) (dd_attempt existing)
              (dd_outcome existing)
              (Some (case dd_outcome existing of
                       Some o' \<Rightarrow> classify_outcome o' | None \<Rightarrow> Cat_PERMANENT)) s1))"

section \<open>One attempt\<close>

text \<open>What the locals of \<open>run\<close> hold when the loop starts.\<close>

record job_ctx =
  jx_event :: event_envelope
  jx_principal :: principal_context
  jx_key :: string
  jx_correlation :: string
  jx_input :: string
  jx_owner :: string
  jx_version :: int
  jx_first_execution_id :: string

text \<open>
  How one pass of the loop body ends: a return from \<open>run\<close>, an exception out of it, \<open>continue\<close>,
  or \<open>break\<close>; the last two with the execution identifier, outcome and category of the attempt.
\<close>

datatype attempt_end =
    AttemptReturn job_result
  | AttemptRaise exc
  | AttemptContinue string "agent_outcome option" failure_category
  | AttemptBreak string "agent_outcome option" failure_category

definition claim_in_progress ::
  "job_ctx \<Rightarrow> string \<Rightarrow> int \<Rightarrow> 'w runner_state \<Rightarrow> (exc + unit) \<times> 'w runner_state" where
  "claim_in_progress x execution_id attempt s =
     with_dedup (\<lambda>t. mark_in_progress t (jx_key x) execution_id attempt (jx_correlation x)
                        (jx_owner x) (jx_version x)) s"

definition claim_terminal ::
  "job_ctx \<Rightarrow> dedup_status \<Rightarrow> agent_outcome option \<Rightarrow> string \<Rightarrow> 'w runner_state \<Rightarrow>
   (exc + unit) \<times> 'w runner_state" where
  "claim_terminal x status outcome execution_id s =
     with_dedup (\<lambda>t. mark_terminal t (jx_key x) status outcome execution_id
                        (jx_owner x) (jx_version x)) s"

definition claim_pending ::
  "job_ctx \<Rightarrow> agent_outcome \<Rightarrow> string \<Rightarrow> 'w runner_state \<Rightarrow> (exc + unit) \<times> 'w runner_state" where
  "claim_pending x outcome execution_id s =
     with_dedup (\<lambda>t. mark_pending_approval t (jx_key x) execution_id (jx_owner x)
                        (jx_version x) outcome) s"

definition return_conflict ::
  "job_config \<Rightarrow> job_ctx \<Rightarrow> 'w runner_state \<Rightarrow> attempt_end \<times> 'w runner_state" where
  "return_conflict c x s =
     (case lease_conflict_result c (jx_event x) (jx_principal x) s of (r, s1) \<Rightarrow> (AttemptReturn r, s1))"

definition attempt_audit ::
  "job_config \<Rightarrow> job_ctx \<Rightarrow> string \<Rightarrow> string \<Rightarrow> nat \<Rightarrow> (string, string) dict \<Rightarrow>
   'w runner_state \<Rightarrow> 'w runner_state" where
  "attempt_audit c x event_type execution_id attempt metadata s =
     audit c (event_audit event_type (jx_principal x) (jx_event x) execution_id (jx_correlation x)
                (int attempt) metadata) s"

text \<open>The end of the loop body: schedule a retry and continue, or break.\<close>

definition after_attempt ::
  "job_config \<Rightarrow> job_ctx \<Rightarrow> nat \<Rightarrow> string \<Rightarrow> agent_outcome option \<Rightarrow> failure_category \<Rightarrow>
   'w runner_state \<Rightarrow> attempt_end \<times> 'w runner_state" where
  "after_attempt c x attempt execution_id outcome category s =
     (if category = Cat_RETRYABLE_TRANSIENT \<and> attempt < jc_max_attempts c then
        (let s1 = attempt_audit c x ''retry_scheduled'' execution_id attempt
                    [(''next_attempt'', str_nat (attempt + 1))] s;
             s2 = (if jc_backoff c > 0 then s1\<lparr>jr_sleeps := jr_sleeps s1 @ [jc_backoff c]\<rparr> else s1)
         in (AttemptContinue execution_id outcome category, s2))
      else (AttemptBreak execution_id outcome category, s))"

definition run_handler ::
  "job_config \<Rightarrow> 'w job_handler \<Rightarrow> job_ctx \<Rightarrow> nat \<Rightarrow> string \<Rightarrow> 'w runner_state \<Rightarrow>
   attempt_end \<times> 'w runner_state" where
  "run_handler c handler x attempt execution_id s =
     (let s1 = attempt_audit c x ''attempt_started'' execution_id attempt [] s
      in case handler
           \<lparr>call_principal = jx_principal x, call_input_text = jx_input x,
            call_correlation_id = jx_correlation x, call_event_id = ee_event_id (jx_event x),
            call_trigger_id = event_trigger_id (jx_event x),
            call_causation_id = ee_causation_id (jx_event x),
            call_attempt = int attempt - 1, call_execution_id = execution_id\<rparr> s1 of
           (Inl e, s2) \<Rightarrow>
             if e = ExitSignal then (AttemptRaise e, s2)
             else
               (let cat = classify_exception e;
                    s3 = attempt_audit c x ''attempt_failed'' execution_id attempt
                           [(''failure_category'', failure_category_value cat)] s2
                in after_attempt c x attempt execution_id None cat s3)
         | (Inr outcome, s2) \<Rightarrow>
             if is_success outcome then
               (let s3 = attempt_audit c x ''attempt_succeeded'' execution_id attempt [] s2
                in case claim_terminal x Dedup_COMPLETED (Some outcome) execution_id s3 of
                     (Inr _, s4) \<Rightarrow>
                       (case mk_result Disp_COMPLETED (jx_event x) (jx_correlation x)
                               (Some execution_id) (int attempt) (Some outcome) None s4 of
                          (r, s5) \<Rightarrow> (AttemptReturn r, s5))
                   | (Inl e, s4) \<Rightarrow>
                       if e = DeduplicationConflictError then return_conflict c x s4
                       else (AttemptRaise e, s4))
             else after_attempt c x attempt execution_id (Some outcome) (classify_outcome outcome) s2)"

text \<open>\<open>attempt\<close> is the counter after \<open>attempt += 1\<close>, so the first pass has \<open>attempt = 1\<close>.\<close>

definition attempt_step ::
  "job_config \<Rightarrow> 'w job_handler \<Rightarrow> job_ctx \<Rightarrow> nat \<Rightarrow> 'w runner_state \<Rightarrow>
   attempt_end \<times> 'w runner_state" where
  "attempt_step c handler x attempt s =
     (if attempt = 1 then run_handler c handler x attempt (jx_first_execution_id x) s
      else
        (case gen_id ''execution'' s of (execution_id, s1) \<Rightarrow>
           (case claim_in_progress x execution_id (int attempt - 1) s1 of
              (Inr _, s2) \<Rightarrow> run_handler c handler x attempt execution_id s2
            | (Inl e, s2) \<Rightarrow>
                if e = DeduplicationConflictError then return_conflict c x s2
                else (AttemptRaise e, s2))))"

section \<open>The loop and what follows it\<close>

text \<open>\<open>LoopDone\<close> carries the locals \<open>attempt\<close>, \<open>last_execution_id\<close>, \<open>last_outcome\<close>, \<open>last_category\<close>.\<close>

datatype loop_end =
    LoopReturn job_result
  | LoopRaise exc
  | LoopDone nat "string option" "agent_outcome option" failure_category

function job_loop ::
  "job_config \<Rightarrow> 'w job_handler \<Rightarrow> job_ctx \<Rightarrow> nat \<Rightarrow> string option \<Rightarrow> agent_outcome option \<Rightarrow>
   failure_category \<Rightarrow> 'w runner_state \<Rightarrow> loop_end \<times> 'w runner_state" where
  "job_loop c handler x attempt last_id last_outcome last_category s =
     (if attempt < jc_max_attempts c then
        (case attempt_step c handler x (Suc attempt) s of
           (AttemptReturn r, s1) \<Rightarrow> (LoopReturn r, s1)
         | (AttemptRaise e, s1) \<Rightarrow> (LoopRaise e, s1)
         | (AttemptContinue i out k, s1) \<Rightarrow> job_loop c handler x (Suc attempt) (Some i) out k s1
         | (AttemptBreak i out k, s1) \<Rightarrow> (LoopDone (Suc attempt) (Some i) out k, s1))
      else (LoopDone attempt last_id last_outcome last_category, s))"
  by pat_completeness auto
termination
  by (relation "measure (\<lambda>(c, handler, x, attempt, rest). jc_max_attempts c - attempt)") auto

declare job_loop.simps [simp del]

definition finish_job ::
  "job_config \<Rightarrow> job_ctx \<Rightarrow> nat \<Rightarrow> string option \<Rightarrow> agent_outcome option \<Rightarrow> failure_category \<Rightarrow>
   'w runner_state \<Rightarrow> (exc + job_result) \<times> 'w runner_state" where
  "finish_job c x attempt last_id last_outcome last_category s =
     (case final_disposition last_category of (disp, cat) \<Rightarrow>
        let conflict = (\<lambda>s'. case lease_conflict_result c (jx_event x) (jx_principal x) s' of
                              (r, s'') \<Rightarrow> (Inr r, s''));
            done = (\<lambda>s'. case mk_result disp (jx_event x) (jx_correlation x) last_id (int attempt)
                            last_outcome (Some cat) s' of (r, s'') \<Rightarrow> (Inr r, s''))
        in if disp = Disp_PENDING_APPROVAL then
             (case (last_outcome, last_id) of
                (Some outcome, Some i) \<Rightarrow>
                  (case claim_pending x outcome i s of
                     (Inr _, s1) \<Rightarrow> done s1
                   | (Inl e, s1) \<Rightarrow>
                       if e = DeduplicationConflictError then conflict s1 else (Inl e, s1))
              | _ \<Rightarrow> conflict s)
           else
             (case claim_terminal x Dedup_DEAD_LETTERED last_outcome
                     (or_else last_id (jx_first_execution_id x)) s of
                (Inr _, s1) \<Rightarrow>
                  (case read_clock s1 of (t, s2) \<Rightarrow>
                     let s3 = s2\<lparr>jr_dead_letters := jr_dead_letters s2 @
                           [\<lparr>dl_event_id = ee_event_id (jx_event x),
                             dl_trigger_id = event_trigger_id (jx_event x),
                             dl_correlation_id = jx_correlation x, dl_execution_id = last_id,
                             dl_attempt = int attempt, dl_failure_category = cat,
                             dl_retry_decision = ''no_retry'', dl_final_disposition = disp,
                             dl_occurred_at = t, dl_metadata = []\<rparr>]\<rparr>
                     in done (attempt_audit c x ''dead_lettered'' (or_else last_id (jx_correlation x))
                               attempt [(''failure_category'', failure_category_value cat)] s3))
              | (Inl e, s1) \<Rightarrow>
                  if e = DeduplicationConflictError then conflict s1 else (Inl e, s1)))"

section \<open>The operations of the runner\<close>

definition resolve_input ::
  "event_envelope \<Rightarrow> string option \<Rightarrow> (event_envelope \<Rightarrow> exc + string) option \<Rightarrow> exc + string" where
  "resolve_input event input_text input_extractor =
     (case input_text of
        Some t \<Rightarrow> Inr t
      | None \<Rightarrow>
          (case input_extractor of
             Some f \<Rightarrow> f event
           | None \<Rightarrow> Inr (ee_source event @ '':'' @ ee_event_type event @ '':'' @ ee_event_id event)))"

definition start_ctx ::
  "job_config \<Rightarrow> event_envelope \<Rightarrow> principal_context \<Rightarrow> string \<Rightarrow> int \<Rightarrow> string \<Rightarrow> job_ctx" where
  "start_ctx c event who owner version first_id =
     \<lparr>jx_event = event, jx_principal = who, jx_key = dedup_key (jc_sha256 c) event,
      jx_correlation = event_correlation event, jx_input = [],
      jx_owner = owner, jx_version = version, jx_first_execution_id = first_id\<rparr>"

text \<open>The body of \<open>run\<close> after the lease has been acquired, inside \<open>try ... finally\<close>.\<close>

definition run_leased ::
  "job_config \<Rightarrow> 'w job_handler \<Rightarrow> event_envelope \<Rightarrow> principal_context \<Rightarrow> string option \<Rightarrow>
   (event_envelope \<Rightarrow> exc + string) option \<Rightarrow> string \<Rightarrow> int \<Rightarrow> 'w runner_state \<Rightarrow>
   (exc + job_result) \<times> 'w runner_state" where
  "run_leased c handler event who input_text input_extractor owner version s =
     (case gen_id ''execution'' s of (first_id, s1) \<Rightarrow>
        let x = start_ctx c event who owner version first_id
        in (case claim_in_progress x first_id 0 s1 of
              (Inl e, s2) \<Rightarrow>
                if e = DeduplicationConflictError then
                  (case dedup_get (jx_key x) (jr_dedup s2) of
                     Some stored \<Rightarrow>
                       if dd_status stored \<noteq> Dedup_IN_PROGRESS
                       then (case stored_result c event stored who s2 of (r, s3) \<Rightarrow> (Inr r, s3))
                       else (case lease_conflict_result c event who s2 of (r, s3) \<Rightarrow> (Inr r, s3))
                   | None \<Rightarrow> (case lease_conflict_result c event who s2 of (r, s3) \<Rightarrow> (Inr r, s3)))
                else (Inl e, s2)
            | (Inr _, s2) \<Rightarrow>
                (let s3 = audit c (event_audit ''event_received'' who event (jx_correlation x)
                            (jx_correlation x) 0
                            [(''payload_digest'', payload_digest (jc_sha256 c) (jc_dumps c) event)]) s2
                 in case resolve_input event input_text input_extractor of
                      Inl e \<Rightarrow> (Inl e, s3)
                    | Inr t \<Rightarrow>
                        (case job_loop c handler (x\<lparr>jx_input := t\<rparr>) 0 None None Cat_PERMANENT s3 of
                           (LoopReturn r, s4) \<Rightarrow> (Inr r, s4)
                         | (LoopRaise e, s4) \<Rightarrow> (Inl e, s4)
                         | (LoopDone attempt i out k, s4) \<Rightarrow>
                             finish_job c (x\<lparr>jx_input := t\<rparr>) attempt i out k s4))))"

definition release_lease :: "string \<Rightarrow> string \<Rightarrow> 'w runner_state \<Rightarrow> 'w runner_state" where
  "release_lease key owner s = s\<lparr>jr_leases := snd (lease_release key owner (jr_leases s))\<rparr>"

definition run_event ::
  "job_config \<Rightarrow> 'w job_handler \<Rightarrow> event_envelope \<Rightarrow> principal_context \<Rightarrow> string option \<Rightarrow>
   (event_envelope \<Rightarrow> exc + string) option \<Rightarrow> 'w runner_state \<Rightarrow>
   (exc + job_result) \<times> 'w runner_state" where
  "run_event c handler event who input_text input_extractor s =
     (let key = dedup_key (jc_sha256 c) event;
          fresh = (case gen_id ''lease'' s of (owner, s1) \<Rightarrow>
            (case with_leases (\<lambda>t. lease_acquire t key owner (jc_lease_ttl c)) s1 of
               (Inl e, s2) \<Rightarrow>
                 if e = LeaseConflictError
                 then (case lease_conflict_result c event who s2 of (r, s3) \<Rightarrow> (Inr r, s3))
                 else (Inl e, s2)
             | (Inr l, s2) \<Rightarrow>
                 (case run_leased c handler event who input_text input_extractor owner
                         (lease_version l) s2 of
                    (r, s3) \<Rightarrow> (r, release_lease key owner s3))))
      in case dedup_get key (jr_dedup s) of
           None \<Rightarrow> fresh
         | Some existing \<Rightarrow>
             if dd_status existing = Dedup_PENDING_APPROVAL \<or> terminal_status (dd_status existing)
             then (case stored_result c event existing who s of (r, s1) \<Rightarrow> (Inr r, s1))
             else fresh)"

definition resolve_pending ::
  "job_config \<Rightarrow> event_envelope \<Rightarrow> agent_outcome \<Rightarrow> principal_context \<Rightarrow> 'w runner_state \<Rightarrow>
   (exc + job_result) \<times> 'w runner_state" where
  "resolve_pending c event outcome who s =
     (let key = dedup_key (jc_sha256 c) event
      in case dedup_get key (jr_dedup s) of
           None \<Rightarrow> (Inl ValueError, s)
         | Some existing \<Rightarrow>
             if dd_status existing \<noteq> Dedup_PENDING_APPROVAL then (Inl ValueError, s)
             else if dd_execution_id existing \<noteq> Some (ao_execution_id outcome) then (Inl ValueError, s)
             else if ao_principal_id outcome \<noteq> pc_principal_id who \<or>
                     ao_tenant_id outcome \<noteq> pc_tenant_id who then (Inl ValueError, s)
             else
               (case (dd_lease_owner existing, dd_lease_version existing) of
                  (Some owner, Some version) \<Rightarrow>
                    (let cid = or_else (dd_correlation_id existing)
                                 (or_else (ee_correlation_id event) (ee_event_id event));
                         category = classify_outcome outcome
                     in if ao_status outcome = Outcome_ESCALATED then
                          (case with_dedup (\<lambda>t. mark_pending_approval t key (ao_execution_id outcome)
                                                 owner version outcome) s of
                             (Inl e, s1) \<Rightarrow> (Inl e, s1)
                           | (Inr _, s1) \<Rightarrow>
                               (case pending_result c event existing who (Some outcome) s1 of
                                  (r, s2) \<Rightarrow> (Inr r, s2)))
                        else
                          (let disp = (if is_success outcome then Disp_COMPLETED else Disp_DEAD_LETTERED);
                               status = (if is_success outcome then Dedup_COMPLETED
                                         else Dedup_DEAD_LETTERED)
                           in case with_dedup (\<lambda>t. mark_terminal t key status (Some outcome)
                                      (ao_execution_id outcome) owner version) s of
                                (Inl e, s1) \<Rightarrow> (Inl e, s1)
                              | (Inr _, s1) \<Rightarrow>
                                  (let s2 = (if disp = Disp_DEAD_LETTERED then
                                       (case read_clock s1 of (t, s') \<Rightarrow>
                                          s'\<lparr>jr_dead_letters := jr_dead_letters s' @
                                            [\<lparr>dl_event_id = ee_event_id event,
                                              dl_trigger_id = event_trigger_id event,
                                              dl_correlation_id = cid,
                                              dl_execution_id = Some (ao_execution_id outcome),
                                              dl_attempt = dd_attempt existing + 1,
                                              dl_failure_category = category,
                                              dl_retry_decision = ''no_retry'',
                                              dl_final_disposition = disp, dl_occurred_at = t,
                                              dl_metadata = []\<rparr>]\<rparr>) else s1);
                                       s3 = audit c ((event_audit ''pending_event_resolved'' who event
                                              (ao_execution_id outcome) cid (dd_attempt existing + 1)
                                              [(''disposition'', event_disposition_value disp)])
                                              \<lparr>ae_agent_id := ao_agent_id outcome,
                                               ae_outcome_status := Some (ao_status outcome)\<rparr>) s2
                                   in case mk_result disp event cid (Some (ao_execution_id outcome))
                                             (dd_attempt existing + 1) (Some outcome)
                                             (if disp = Disp_COMPLETED then None else Some category) s3 of
                                        (r, s4) \<Rightarrow> (Inr r, s4))))
                | _ \<Rightarrow> (Inl ValueError, s)))"

end
