(* ===== verification/Job_Runner_Correct.thy ===== *)
theory Job_Runner_Correct
  imports Job_Runner
begin

text \<open>
  Correctness of the background runner: what a run leaves in the deduplication store, that a
  finished event is never handled again, how often the handler is called, the dead letters, the
  lease, and what happens to an event whose run is cut short by an exception.
\<close>

section \<open>Frames\<close>

text \<open>Two states with the same stores and application state: only the audit trail, the sleeps
  and the clock and identifier counters may differ.\<close>

definition same_stores :: "'w runner_state \<Rightarrow> 'w runner_state \<Rightarrow> bool" where
  "same_stores s s' \<longleftrightarrow>
     jr_leases s' = jr_leases s \<and> jr_dedup s' = jr_dedup s \<and>
     jr_dead_letters s' = jr_dead_letters s \<and> jr_app s' = jr_app s \<and>
     make_id (jr_world s') = make_id (jr_world s) \<and>
     id_calls (jr_world s) \<le> id_calls (jr_world s')"

named_theorems frame \<open>the helpers that leave the stores alone\<close>

lemma same_stores_refl [simp]: "same_stores s s"
  by (simp add: same_stores_def)

lemma same_stores_trans: "same_stores s s1 \<Longrightarrow> same_stores s1 s2 \<Longrightarrow> same_stores s s2"
  by (simp add: same_stores_def)

lemma gen_id_frame [frame]: "gen_id p s = (i, s1) \<Longrightarrow>
    same_stores s s1 \<and> i = make_id (jr_world s) p (id_calls (jr_world s)) \<and>
    id_calls (jr_world s1) = Suc (id_calls (jr_world s))"
  by (auto simp: gen_id_def new_id_def same_stores_def)

lemma read_clock_frame [frame]: "read_clock s = (t, s1) \<Longrightarrow> same_stores s s1"
  by (auto simp: read_clock_def now_def same_stores_def)

lemma audit_frame [frame]: "same_stores s (audit c e s)"
  by (simp add: audit_def audit_record_def new_id_def now_def Let_def same_stores_def)

lemma attempt_audit_frame [frame]: "same_stores s (attempt_audit c x ty i n m s)"
  by (simp add: attempt_audit_def audit_frame)

lemma mk_result_frame [frame]:
  "mk_result d ev cid i a out cat s = (r, s1) \<Longrightarrow>
   same_stores s s1 \<and> jr_disposition r = d \<and> jr_outcome r = out \<and> jr_execution_id r = i \<and>
   jr_attempt r = a \<and> jr_failure_category r = cat \<and> jr_correlation_id r = cid"
  unfolding mk_result_def by (auto split: prod.splits dest: read_clock_frame)

lemma lease_conflict_frame [frame]:
  "lease_conflict_result c ev who s = (r, s1) \<Longrightarrow>
   same_stores s s1 \<and> jr_disposition r = Disp_LEASE_CONFLICT"
  unfolding lease_conflict_result_def Let_def
  by (auto dest!: mk_result_frame intro: same_stores_trans audit_frame)

lemma duplicate_frame [frame]:
  "duplicate_result c ev e who s = (r, s1) \<Longrightarrow>
   same_stores s s1 \<and> jr_disposition r = Disp_DUPLICATE \<and> jr_outcome r = dd_outcome e \<and>
   jr_execution_id r = dd_execution_id e"
  unfolding duplicate_result_def Let_def
  by (auto dest!: mk_result_frame intro: same_stores_trans audit_frame)

lemma pending_frame [frame]:
  "pending_result c ev e who out s = (r, s1) \<Longrightarrow>
   same_stores s s1 \<and> jr_disposition r = Disp_PENDING_APPROVAL \<and>
   jr_outcome r = (if out = None then dd_outcome e else out) \<and>
   jr_execution_id r = dd_execution_id e"
  unfolding pending_result_def Let_def
  by (auto dest!: mk_result_frame intro: same_stores_trans audit_frame)

text \<open>The disposition a stored record is reported with.\<close>

fun stored_disposition :: "dedup_status \<Rightarrow> event_disposition" where
  "stored_disposition Dedup_COMPLETED = Disp_DUPLICATE"
| "stored_disposition Dedup_PENDING_APPROVAL = Disp_PENDING_APPROVAL"
| "stored_disposition Dedup_FAILED = Disp_FAILED"
| "stored_disposition _ = Disp_DEAD_LETTERED"

lemma stored_frame [frame]:
  assumes "stored_result c ev e who s = (r, s1)"
  shows "same_stores s s1 \<and> jr_disposition r = stored_disposition (dd_status e) \<and>
         jr_outcome r = dd_outcome e \<and> jr_execution_id r = dd_execution_id e"
proof (cases "dd_status e")
  case Dedup_COMPLETED
  then show ?thesis using assms by (auto simp: stored_result_def dest!: duplicate_frame)
next
  case Dedup_PENDING_APPROVAL
  then show ?thesis using assms by (auto simp: stored_result_def dest!: pending_frame)
qed (use assms in \<open>auto simp: stored_result_def Let_def dest!: mk_result_frame
       intro: same_stores_trans audit_frame\<close>)

section \<open>Effects on the deduplication store\<close>

text \<open>\<open>only_dedup s s'\<close>: the step changed at most the deduplication store.\<close>

definition only_dedup :: "'w runner_state \<Rightarrow> 'w runner_state \<Rightarrow> bool" where
  "only_dedup s s' \<longleftrightarrow> same_stores (s\<lparr>jr_dedup := jr_dedup s'\<rparr>) s'"

lemma with_dedup_effect:
  "with_dedup f s = (r, s1) \<Longrightarrow>
   \<exists>t. f t (jr_dedup s) = (r, jr_dedup s1) \<and> only_dedup s s1"
  unfolding with_dedup_def only_dedup_def
  by (auto simp: read_clock_def now_def same_stores_def split: prod.splits)

lemma with_leases_effect:
  "with_leases f s = (r, s1) \<Longrightarrow>
   \<exists>t. f t (jr_leases s) = (r, jr_leases s1) \<and> same_stores (s\<lparr>jr_leases := jr_leases s1\<rparr>) s1"
  unfolding with_leases_def
  by (auto simp: read_clock_def now_def same_stores_def split: prod.splits)

text \<open>Terminal records of one store that are the same records in another.\<close>

definition keeps_terminal :: "dedup_store \<Rightarrow> dedup_store \<Rightarrow> bool" where
  "keeps_terminal d d' \<longleftrightarrow>
     (\<forall>k r. map_of d k = Some r \<and> terminal_status (dd_status r) \<longrightarrow> map_of d' k = Some r)"

lemma keeps_terminal_refl [simp]: "keeps_terminal d d"
  by (simp add: keeps_terminal_def)

lemma keeps_terminal_trans: "keeps_terminal d d1 \<Longrightarrow> keeps_terminal d1 d2 \<Longrightarrow> keeps_terminal d d2"
  by (auto simp: keeps_terminal_def)

lemma keeps_terminal_mark: "keeps_terminal st (snd (dedup_mark x st))"
  unfolding keeps_terminal_def
  using memory_dedup.terminal_kept [of _ st _ x] by (auto simp: dedup_get_def)

lemma with_dedup_mark:
  assumes "with_dedup (\<lambda>t. dedup_mark (F t)) s = (r, s1)"
  shows "keeps_terminal (jr_dedup s) (jr_dedup s1) \<and> only_dedup s s1 \<and>
         (\<exists>t. dedup_mark (F t) (jr_dedup s) = (r, jr_dedup s1)) \<and>
         (\<forall>e. r = Inl e \<longrightarrow> jr_dedup s1 = jr_dedup s)"
proof -
  obtain t where t: "dedup_mark (F t) (jr_dedup s) = (r, jr_dedup s1)" and o: "only_dedup s s1"
    using with_dedup_effect [OF assms] by blast
  have "keeps_terminal (jr_dedup s) (jr_dedup s1)"
    using keeps_terminal_mark [of "jr_dedup s" "F t"] t by simp
  moreover have "\<forall>e. r = Inl e \<longrightarrow> jr_dedup s1 = jr_dedup s"
    using memory_dedup.error_unchanged [of "F t" "jr_dedup s"] t by auto
  ultimately show ?thesis using t o by blast
qed

lemma dedup_mark_eta:
  "dedup_mark (MarkInProgress t k x a cid p v) = mark_in_progress t k x a cid p v"
  "dedup_mark (MarkTerminal t k st out x p v) = mark_terminal t k st out x p v"
  "dedup_mark (MarkPending t k x p v out') = mark_pending_approval t k x p v out'"
  by (simp_all add: fun_eq_iff)

definition claim_ok :: "job_ctx \<Rightarrow> 'w runner_state \<Rightarrow> exc + unit \<Rightarrow> 'w runner_state \<Rightarrow> bool" where
  "claim_ok x s r s1 \<longleftrightarrow>
     keeps_terminal (jr_dedup s) (jr_dedup s1) \<and> only_dedup s s1 \<and>
     (\<forall>e. r = Inl e \<longrightarrow> jr_dedup s1 = jr_dedup s)"

lemma claim_effect:
  "claim_in_progress x i a s = (r, s1) \<Longrightarrow> claim_ok x s r s1 \<and>
     (\<exists>t. mark_in_progress t (jx_key x) i a (jx_correlation x) (jx_owner x) (jx_version x)
            (jr_dedup s) = (r, jr_dedup s1))"
  "claim_terminal x st out i s = (r, s1) \<Longrightarrow> claim_ok x s r s1 \<and>
     (\<exists>t. mark_terminal t (jx_key x) st out i (jx_owner x) (jx_version x)
            (jr_dedup s) = (r, jr_dedup s1))"
  "claim_pending x out' i s = (r, s1) \<Longrightarrow> claim_ok x s r s1 \<and>
     (\<exists>t. mark_pending_approval t (jx_key x) i (jx_owner x) (jx_version x) out'
            (jr_dedup s) = (r, jr_dedup s1))"
  using with_dedup_mark [of "\<lambda>t. MarkInProgress t (jx_key x) i a (jx_correlation x) (jx_owner x) (jx_version x)" s r s1]
    with_dedup_mark [of "\<lambda>t. MarkTerminal t (jx_key x) st out i (jx_owner x) (jx_version x)" s r s1]
    with_dedup_mark [of "\<lambda>t. MarkPending t (jx_key x) i (jx_owner x) (jx_version x) out'" s r s1]
  by (simp_all add: claim_in_progress_def claim_terminal_def claim_pending_def dedup_mark_eta claim_ok_def)

lemma claim_in_progress_Inr:
  "claim_in_progress x i a s = (Inr u, s1) \<Longrightarrow>
   \<exists>r. map_of (jr_dedup s1) (jx_key x) = Some r \<and> dd_status r = Dedup_IN_PROGRESS \<and>
       dd_execution_id r = Some i \<and> dd_lease_owner r = Some (jx_owner x) \<and>
       dd_lease_version r = Some (jx_version x)"
  by (drule claim_effect(1)) (auto dest!: mark_in_progress_Inr)

lemma claim_terminal_Inr:
  "claim_terminal x st out i s = (Inr u, s1) \<Longrightarrow>
   \<exists>r. map_of (jr_dedup s1) (jx_key x) = Some r \<and> dd_status r = st \<and> terminal_status st \<and>
       dd_outcome r = out \<and> dd_execution_id r = Some i"
  by (drule claim_effect(2)) (auto dest!: mark_terminal_Inr)

lemma claim_pending_Inr:
  "claim_pending x out i s = (Inr u, s1) \<Longrightarrow>
   \<exists>r. map_of (jr_dedup s1) (jx_key x) = Some r \<and> dd_status r = Dedup_PENDING_APPROVAL \<and>
       dd_outcome r = Some out \<and> dd_execution_id r = Some i"
  by (drule claim_effect(3)) (auto dest!: mark_pending_Inr)

section \<open>The runner as a sequence of its own steps and handler calls\<close>

text \<open>
  What the runner does on its own: it leaves the application state alone, keeps every terminal
  record, and only appends to the dead letters (\<open>outer\<close>); between the acquisition and the release
  of its lease it also leaves the leases alone (\<open>internal\<close>).
\<close>

definition outer :: "'w runner_state \<Rightarrow> 'w runner_state \<Rightarrow> bool" where
  "outer s s' \<longleftrightarrow>
     jr_app s' = jr_app s \<and> keeps_terminal (jr_dedup s) (jr_dedup s') \<and>
     prefix (jr_dead_letters s) (jr_dead_letters s')"

definition internal :: "'w runner_state \<Rightarrow> 'w runner_state \<Rightarrow> bool" where
  "internal s s' \<longleftrightarrow> outer s s' \<and> jr_leases s' = jr_leases s"

lemma outer_trans: "outer s s1 \<Longrightarrow> outer s1 s2 \<Longrightarrow> outer s s2"
  by (auto simp: outer_def intro: keeps_terminal_trans prefix_order.trans)

lemma internal_outer: "internal s s' \<Longrightarrow> outer s s'"
  by (simp add: internal_def)

lemma internal_refl [simp]: "internal s s"
  by (simp add: internal_def outer_def)

lemma internal_trans: "internal s s1 \<Longrightarrow> internal s1 s2 \<Longrightarrow> internal s s2"
  by (auto simp: internal_def intro: outer_trans)

lemma same_stores_internal: "same_stores s s' \<Longrightarrow> internal s s'"
  by (simp add: same_stores_def internal_def outer_def)

lemma claim_ok_internal: "claim_ok x s r s1 \<Longrightarrow> internal s s1"
  by (auto simp: claim_ok_def only_dedup_def same_stores_def internal_def outer_def)

inductive job_trace ::
  "'w job_handler \<Rightarrow> nat \<Rightarrow> 'w runner_state \<Rightarrow> 'w runner_state \<Rightarrow> bool" for h where
  start: "job_trace h 0 s s"
| step: "job_trace h n s s1 \<Longrightarrow> internal s1 s2 \<Longrightarrow> job_trace h n s s2"
| call: "job_trace h n s s1 \<Longrightarrow> h x s1 = (r, s2) \<Longrightarrow> job_trace h (Suc n) s s2"

text \<open>\<open>job_trace h n s s'\<close>: from \<open>s\<close> to \<open>s'\<close> by the runner's own steps and \<open>n\<close> calls of \<open>h\<close>.\<close>

lemma job_trace_internal: "internal s s1 \<Longrightarrow> job_trace h 0 s s1"
  by (rule job_trace.step [OF job_trace.start])

lemma job_trace_append:
  "job_trace h n s1 s2 \<Longrightarrow> job_trace h m s s1 \<Longrightarrow> job_trace h (m + n) s s2"
  by (induction rule: job_trace.induct) (auto intro: job_trace.intros)

lemma job_trace_before: "internal s s1 \<Longrightarrow> job_trace h n s1 s2 \<Longrightarrow> job_trace h n s s2"
  using job_trace_append [of h n s1 s2 0 s] job_trace_internal by fastforce

lemma job_trace_leases:
  assumes "job_trace h n s s'" and "\<And>q t. jr_leases (snd (h q t)) = jr_leases t"
  shows "jr_leases s' = jr_leases s"
  using assms(1)
proof induction
  case (call n s s1 x r s2)
  then show ?case using assms(2) [of x s1] by simp
qed (simp_all add: internal_def)

lemma return_conflict_effect:
  "return_conflict c x s = (e, s1) \<Longrightarrow>
   same_stores s s1 \<and> (\<exists>r. e = AttemptReturn r \<and> jr_disposition r = Disp_LEASE_CONFLICT)"
  unfolding return_conflict_def by (auto split: prod.splits dest: lease_conflict_frame)

lemma after_attempt_effect:
  "after_attempt c x n i out k s = (e, s1) \<Longrightarrow>
   jr_leases s1 = jr_leases s \<and> jr_dedup s1 = jr_dedup s \<and> internal s s1 \<and>
   (e = (if k = Cat_RETRYABLE_TRANSIENT \<and> n < jc_max_attempts c
         then AttemptContinue i out k else AttemptBreak i out k))"
  unfolding after_attempt_def Let_def
  using attempt_audit_frame [of s c x "''retry_scheduled''" i n "[(''next_attempt'', str_nat (n + 1))]"]
  by (auto simp: same_stores_def internal_def outer_def split: if_splits)

lemma run_handler_trace:
  assumes "run_handler c h x n i s = (e, s')"
  shows "job_trace h 1 s s'"
proof -
  let ?s1 = "attempt_audit c x ''attempt_started'' i n [] s"
  define q where "q = \<lparr>call_principal = jx_principal x, call_input_text = jx_input x,
            call_correlation_id = jx_correlation x, call_event_id = ee_event_id (jx_event x),
            call_trigger_id = event_trigger_id (jx_event x),
            call_causation_id = ee_causation_id (jx_event x),
            call_attempt = int n - 1, call_execution_id = i\<rparr>"
  obtain r s2 where h: "h q ?s1 = (r, s2)" by fastforce
  have "job_trace h 0 s ?s1"
    by (rule job_trace_internal [OF same_stores_internal [OF attempt_audit_frame]])
  from job_trace.call [OF this h] have t: "job_trace h 1 s s2" by simp
  have "internal s2 s'"
  proof (cases r)
    case (Inl ex)
    show ?thesis
    proof (cases "ex = ExitSignal")
      case True
      with assms h Inl show ?thesis by (simp add: run_handler_def q_def)
    next
      case False
      with assms h Inl have
        "after_attempt c x n i None (classify_exception ex)
           (attempt_audit c x ''attempt_failed'' i n
              [(''failure_category'', failure_category_value (classify_exception ex))] s2) = (e, s')"
        by (simp add: run_handler_def q_def Let_def)
      then show ?thesis
        using internal_trans [OF same_stores_internal [OF attempt_audit_frame]] after_attempt_effect
        by blast
    qed
  next
    case (Inr out)
    show ?thesis
    proof (cases "is_success out")
      case False
      with assms h Inr have "after_attempt c x n i (Some out) (classify_outcome out) s2 = (e, s')"
        by (simp add: run_handler_def q_def Let_def)
      then show ?thesis using after_attempt_effect by blast
    next
      case True
      let ?s3 = "attempt_audit c x ''attempt_succeeded'' i n [] s2"
      obtain r4 s4 where c: "claim_terminal x Dedup_COMPLETED (Some out) i ?s3 = (r4, s4)" by fastforce
      have i4: "internal s2 s4"
        using claim_effect(2) [OF c] claim_ok_internal same_stores_internal [OF attempt_audit_frame]
          internal_trans by blast
      have "same_stores s4 s'"
        using assms h Inr True c
        by (auto simp: run_handler_def q_def Let_def split: sum.splits prod.splits if_splits
            dest: mk_result_frame return_conflict_effect)
      with i4 show ?thesis using internal_trans same_stores_internal by blast
    qed
  qed
  with t show ?thesis by (rule job_trace.step)
qed

lemma attempt_step_trace:
  assumes "attempt_step c h x n s = (e, s')"
  shows "\<exists>m \<le> 1. job_trace h m s s'"
proof (cases "n = 1")
  case True
  with assms have "run_handler c h x n (jx_first_execution_id x) s = (e, s')"
    by (simp add: attempt_step_def)
  from run_handler_trace [OF this] show ?thesis by blast
next
  case False
  obtain i s1 where g: "gen_id ''execution'' s = (i, s1)" by fastforce
  obtain r s2 where c: "claim_in_progress x i (int n - 1) s1 = (r, s2)" by fastforce
  have i2: "internal s s2"
    using gen_id_frame [OF g] claim_effect(1) [OF c] claim_ok_internal same_stores_internal
      internal_trans by blast
  show ?thesis
  proof (cases r)
    case (Inr u)
    with assms False g c have "run_handler c h x n i s2 = (e, s')" by (simp add: attempt_step_def)
    from job_trace_before [OF i2 run_handler_trace [OF this]] show ?thesis by blast
  next
    case (Inl ex)
    with assms False g c have "same_stores s2 s'"
      by (auto simp: attempt_step_def split: if_splits dest: return_conflict_effect)
    then show ?thesis
      using job_trace_internal [OF internal_trans [OF i2 same_stores_internal]] by blast
  qed
qed

lemma attempt_step_continue:
  "attempt_step c h x n s = (AttemptContinue i out k, s') \<Longrightarrow> n < jc_max_attempts c"
  unfolding attempt_step_def run_handler_def Let_def
  by (auto split: if_splits prod.splits sum.splits dest!: after_attempt_effect return_conflict_effect)

lemma job_loop_trace:
  "job_loop c h x n i out k s = (e, s') \<Longrightarrow> \<exists>m \<le> jc_max_attempts c - n. job_trace h m s s'"
proof (induction c h x n i out k s rule: job_loop.induct)
  case (1 c h x n i out k s)
  show ?case
  proof (cases "n < jc_max_attempts c")
    case False
    with "1.prems" show ?thesis
      by (subst (asm) job_loop.simps) (auto intro: job_trace.start)
  next
    case True
    obtain a s1 where a: "attempt_step c h x (Suc n) s = (a, s1)" by fastforce
    from attempt_step_trace [OF a] obtain m where m: "m \<le> 1" "job_trace h m s s1" by blast
    show ?thesis
    proof (cases "\<exists>i' out' k'. a = AttemptContinue i' out' k'")
      case False
      with "1.prems" True a have "s' = s1"
        by (subst (asm) job_loop.simps) (auto split: attempt_end.splits)
      with m True show ?thesis by (intro exI [of _ m]) auto
    next
      case True2: True
      then obtain i' out' k' where a': "a = AttemptContinue i' out' k'" by blast
      with "1.prems" True a have l: "job_loop c h x (Suc n) (Some i') out' k' s1 = (e, s')"
        by (subst (asm) job_loop.simps) simp
      from "1.IH" [OF True a [symmetric] a' l] obtain m' where
        m': "m' \<le> jc_max_attempts c - Suc n" "job_trace h m' s1 s'" by blast
      from job_trace_append [OF m'(2) m(2)] m(1) m'(1) True show ?thesis
        by (intro exI [of _ "m + m'"]) auto
    qed
  qed
qed

end
