(* ===== verification/Job_Runner_Safety.thy ===== *)
theory Job_Runner_Safety
  imports Job_Runner_Correct
begin

text \<open>
  Safety of \<open>BackgroundJobRunner.run\<close> and \<open>resolve_pending\<close>: the bound on handler calls, the
  idempotence of a decided event, the agreement of a reported result with the deduplication
  store, the lease that is never left behind, and the event an exception leaves in progress.
\<close>

section \<open>The whole run as a trace\<close>

lemma finish_job_internal:
  assumes "finish_job c x n i out k s = (r, s')"
  shows "internal s s'"
proof -
  have pend: "claim_pending x out' j s = (q, s1) \<Longrightarrow> internal s s1" for out' j q s1
    using claim_effect(3) claim_ok_internal by blast
  have trm: "claim_terminal x st out' j s = (q, s1) \<Longrightarrow> internal s s1" for st out' j q s1
    using claim_effect(2) claim_ok_internal by blast
  have frame: "mk_result d ev cid j a out' cat s1 = (res, s2) \<Longrightarrow> internal s s1 \<Longrightarrow> internal s s2"
    "lease_conflict_result c ev who s1 = (res, s2) \<Longrightarrow> internal s s1 \<Longrightarrow> internal s s2"
    for d ev cid j a out' cat s1 res s2 who
    by (metis mk_result_frame same_stores_internal internal_trans)
       (metis lease_conflict_frame same_stores_internal internal_trans)
  have letter: "read_clock s1 = (t, s2) \<Longrightarrow> internal s s1 \<Longrightarrow>
      internal s (attempt_audit c x ty j n md (s2\<lparr>jr_dead_letters := jr_dead_letters s2 @ [d]\<rparr>))"
    for s1 t s2 ty j md d
    using read_clock_frame [of s1 t s2]
      attempt_audit_frame [of "s2\<lparr>jr_dead_letters := jr_dead_letters s2 @ [d]\<rparr>" c x ty j n md]
    by (auto simp: internal_def outer_def same_stores_def prefix_def)
  show ?thesis
    using assms unfolding finish_job_def Let_def
    by (auto split: prod.splits sum.splits option.splits if_splits
        dest: pend trm intro: frame letter)
qed

lemma stored_or_conflict_internal:
  "stored_result c ev e who s = (r, s1) \<Longrightarrow> internal s s1"
  "lease_conflict_result c ev who s = (r, s1) \<Longrightarrow> internal s s1"
  using stored_frame lease_conflict_frame same_stores_internal by blast+

lemma start_ctx_sel [simp]:
  "jx_event (start_ctx c ev who p v i) = ev"
  "jx_principal (start_ctx c ev who p v i) = who"
  "jx_key (start_ctx c ev who p v i) = dedup_key (jc_sha256 c) ev"
  "jx_correlation (start_ctx c ev who p v i) = event_correlation ev"
  "jx_owner (start_ctx c ev who p v i) = p"
  "jx_version (start_ctx c ev who p v i) = v"
  "jx_first_execution_id (start_ctx c ev who p v i) = i"
  by (simp_all add: start_ctx_def)

text \<open>
  How the body of \<open>run\<close> under the lease can go: the claim is refused (a stored result, a lease
  conflict or an exception), the input cannot be had, or the loop runs and is finished.
\<close>

definition received :: "job_config \<Rightarrow> principal_context \<Rightarrow> event_envelope \<Rightarrow> 'w runner_state \<Rightarrow>
    'w runner_state" where
  "received c who ev s = audit c (event_audit ''event_received'' who ev (event_correlation ev)
     (event_correlation ev) 0
     [(''payload_digest'', payload_digest (jc_sha256 c) (jc_dumps c) ev)]) s"

lemma received_frame: "same_stores s (received c who ev s)"
  by (simp add: received_def audit_frame)

lemma run_leased_cases:
  assumes "run_leased c h ev who inp ext p v s = (r, s')"
  obtains
    (stored) i s1 e s2 d t where "gen_id ''execution'' s = (i, s1)"
      "claim_in_progress (start_ctx c ev who p v i) i 0 s1 = (Inl e, s2)"
      "dedup_get (dedup_key (jc_sha256 c) ev) (jr_dedup s2) = Some d"
      "dd_status d \<noteq> Dedup_IN_PROGRESS"
      "stored_result c ev d who s2 = (t, s')" "r = Inr t"
  | (conflict) i s1 e s2 t where "gen_id ''execution'' s = (i, s1)"
      "claim_in_progress (start_ctx c ev who p v i) i 0 s1 = (Inl e, s2)"
      "lease_conflict_result c ev who s2 = (t, s')" "r = Inr t"
  | (refused) i s1 e where "gen_id ''execution'' s = (i, s1)"
      "claim_in_progress (start_ctx c ev who p v i) i 0 s1 = (Inl e, s')" "r = Inl e"
  | (no_input) i s1 s2 e where "gen_id ''execution'' s = (i, s1)"
      "claim_in_progress (start_ctx c ev who p v i) i 0 s1 = (Inr (), s2)"
      "resolve_input ev inp ext = Inl e" "s' = received c who ev s2" "r = Inl e"
  | (loop) i s1 s2 t l s4 where "gen_id ''execution'' s = (i, s1)"
      "claim_in_progress (start_ctx c ev who p v i) i 0 s1 = (Inr (), s2)"
      "resolve_input ev inp ext = Inr t"
      "job_loop c h ((start_ctx c ev who p v i)\<lparr>jx_input := t\<rparr>) 0 None None Cat_PERMANENT
         (received c who ev s2) = (l, s4)"
      "(case l of LoopReturn q \<Rightarrow> (Inr q, s4) | LoopRaise e \<Rightarrow> (Inl e, s4)
        | LoopDone n j out k \<Rightarrow>
            finish_job c ((start_ctx c ev who p v i)\<lparr>jx_input := t\<rparr>) n j out k s4) = (r, s')"
proof -
  obtain i s1 where g: "gen_id ''execution'' s = (i, s1)" by fastforce
  obtain q s2 where q: "claim_in_progress (start_ctx c ev who p v i) i 0 s1 = (q, s2)" by fastforce
  note run = assms [unfolded run_leased_def Let_def g prod.case q]
  show thesis
  proof (cases q)
    case (Inl e)
    obtain t s3 where t: "lease_conflict_result c ev who s2 = (t, s3)" by fastforce
    show thesis
    proof (cases "dedup_get (dedup_key (jc_sha256 c) ev) (jr_dedup s2)")
      case None
      with run Inl t show thesis
        using conflict [OF g, of e s2 t] refused [OF g, of e] q by (auto split: if_splits)
    next
      case (Some d)
      obtain u s5 where u: "stored_result c ev d who s2 = (u, s5)" by fastforce
      show thesis
        using run Inl Some t u conflict [OF g, of e s2 t] refused [OF g, of e]
          stored [OF g, of e s2 d u] q by (auto split: if_splits)
    qed
  next
    case (Inr w)
    show thesis
    proof (cases "resolve_input ev inp ext")
      case (Inl e)
      with run Inr show thesis
        using no_input [OF g, of s2 e] q by (auto simp: received_def)
    next
      case in2: (Inr t)
      obtain l s4 where l: "job_loop c h ((start_ctx c ev who p v i)\<lparr>jx_input := t\<rparr>) 0 None None
          Cat_PERMANENT (received c who ev s2) = (l, s4)" by fastforce
      with run Inr in2 show thesis
        using loop [OF g, of s2 t l s4] q by (auto simp: received_def split: loop_end.splits)
    qed
  qed
qed

lemma claim_start_internal:
  "gen_id ''execution'' s = (i, s1) \<Longrightarrow> claim_in_progress x i n s1 = (q, s2) \<Longrightarrow> internal s s2"
  using gen_id_frame claim_effect(1) claim_ok_internal same_stores_internal internal_trans by blast

lemma run_leased_trace:
  assumes "run_leased c h ev who inp ext p v s = (r, s')"
  shows "\<exists>m \<le> jc_max_attempts c. job_trace h m s s'"
  using assms
proof (cases rule: run_leased_cases)
  case (stored i s1 e s2 d t)
  then have "internal s s'"
    using claim_start_internal stored_or_conflict_internal(1) internal_trans by blast
  then show ?thesis using job_trace_internal by blast
next
  case (conflict i s1 e s2 t)
  then have "internal s s'"
    using claim_start_internal stored_or_conflict_internal(2) internal_trans by blast
  then show ?thesis using job_trace_internal by blast
next
  case (refused i s1 e)
  then show ?thesis using claim_start_internal job_trace_internal by blast
next
  case (no_input i s1 s2 e)
  then have "internal s s'"
    using claim_start_internal same_stores_internal [OF received_frame] internal_trans by blast
  then show ?thesis using job_trace_internal by blast
next
  case (loop i s1 s2 t l s4)
  have i3: "internal s (received c who ev s2)"
    using claim_start_internal [OF loop(1,2)] same_stores_internal [OF received_frame] internal_trans
    by blast
  from job_loop_trace [OF loop(4)] obtain m where
    m: "m \<le> jc_max_attempts c" "job_trace h m (received c who ev s2) s4" by auto
  have "internal s4 s'"
    using loop(5) by (auto split: loop_end.splits dest: finish_job_internal)
  with job_trace_before [OF i3 m(2)] m(1) show ?thesis using job_trace.step by blast
qed

lemma release_outer: "outer s (release_lease k p s)"
  by (simp add: outer_def release_lease_def)

lemma with_leases_outer: "with_leases f s = (r, s1) \<Longrightarrow> outer s s1"
  by (drule with_leases_effect) (auto simp: outer_def same_stores_def)

lemma run_event_cases:
  assumes "run_event c h ev who inp ext s = (r, s')"
  obtains
    (stored) e t where "dedup_get (dedup_key (jc_sha256 c) ev) (jr_dedup s) = Some e"
      "dd_status e \<noteq> Dedup_IN_PROGRESS" "stored_result c ev e who s = (t, s')" "r = Inr t"
  | (held) p s1 e s2 t where "gen_id ''lease'' s = (p, s1)"
      "with_leases (\<lambda>t. lease_acquire t (dedup_key (jc_sha256 c) ev) p (jc_lease_ttl c)) s1 =
         (Inl e, s2)"
      "lease_conflict_result c ev who s2 = (t, s')" "r = Inr t"
  | (refused) p s1 e where "gen_id ''lease'' s = (p, s1)"
      "with_leases (\<lambda>t. lease_acquire t (dedup_key (jc_sha256 c) ev) p (jc_lease_ttl c)) s1 =
         (Inl e, s')" "r = Inl e"
  | (leased) p s1 l s2 s3 where "gen_id ''lease'' s = (p, s1)"
      "with_leases (\<lambda>t. lease_acquire t (dedup_key (jc_sha256 c) ev) p (jc_lease_ttl c)) s1 =
         (Inr l, s2)"
      "run_leased c h ev who inp ext p (lease_version l) s2 = (r, s3)"
      "s' = release_lease (dedup_key (jc_sha256 c) ev) p s3"
      "\<And>e. dedup_get (dedup_key (jc_sha256 c) ev) (jr_dedup s) = Some e \<Longrightarrow>
            dd_status e = Dedup_IN_PROGRESS"
proof -
  let ?key = "dedup_key (jc_sha256 c) ev"
  obtain p s1 where g: "gen_id ''lease'' s = (p, s1)" by fastforce
  obtain q s2 where q: "with_leases (\<lambda>t. lease_acquire t ?key p (jc_lease_ttl c)) s1 = (q, s2)"
    by fastforce
  note run = assms [unfolded run_event_def Let_def g prod.case q]
  let ?open = "\<forall>e. dedup_get ?key (jr_dedup s) = Some e \<longrightarrow> dd_status e = Dedup_IN_PROGRESS"
  show thesis
  proof (cases ?open)
    case False
    then obtain e where e: "dedup_get ?key (jr_dedup s) = Some e" "dd_status e \<noteq> Dedup_IN_PROGRESS"
      by blast
    then have "dd_status e = Dedup_PENDING_APPROVAL \<or> terminal_status (dd_status e)"
      by (cases "dd_status e") (simp_all add: terminal_status_def)
    with run e show thesis by (auto split: prod.splits intro: stored)
  next
    case True
    have run: "(case q of Inl e \<Rightarrow> if e = LeaseConflictError
                   then (case lease_conflict_result c ev who s2 of (r, s3) \<Rightarrow> (Inr r, s3))
                   else (Inl e, s2)
               | Inr l \<Rightarrow> (case run_leased c h ev who inp ext p (lease_version l) s2 of
                    (r, s3) \<Rightarrow> (r, release_lease ?key p s3))) = (r, s')"
    proof (cases "dedup_get ?key (jr_dedup s)")
      case None
      with run show ?thesis by simp
    next
      case (Some e)
      with True run show ?thesis by (simp add: terminal_status_def)
    qed
    show thesis
    proof (cases q)
      case (Inl e)
      obtain t s3 where t: "lease_conflict_result c ev who s2 = (t, s3)" by fastforce
      with run Inl show thesis
        using held [OF g, of e s2 t] refused [OF g, of e] q by (auto split: if_splits)
    next
      case (Inr l)
      obtain u s3 where u: "run_leased c h ev who inp ext p (lease_version l) s2 = (u, s3)" by fastforce
      from run Inr u have "r = u" "s' = release_lease ?key p s3" by simp_all
      with leased [OF g] q Inr u True show thesis by blast
    qed
  qed
qed

lemma acquire_outer:
  "gen_id ''lease'' s = (p, s1) \<Longrightarrow> with_leases f s1 = (q, s2) \<Longrightarrow> outer s s2"
  using gen_id_frame with_leases_outer same_stores_internal internal_outer outer_trans by blast

text \<open>
  A run calls the handler at most \<open>max_attempts\<close> times, whatever the handler does, and all it
  does before, between and after these calls leaves the application state alone, keeps every
  terminal deduplication record and only appends to the dead letters.
\<close>

theorem run_attempts_bounded:
  assumes "run_event c h ev who inp ext s = (r, s')"
  shows "\<exists>m s1 s2. m \<le> jc_max_attempts c \<and> outer s s1 \<and> job_trace h m s1 s2 \<and> outer s2 s'"
  using assms
proof (cases rule: run_event_cases)
  case (stored e t)
  then have "outer s s'" using stored_or_conflict_internal(1) internal_outer by blast
  then show ?thesis using job_trace.start by (intro exI [of _ 0] exI [of _ s']) (auto simp: outer_def)
next
  case (held p s1 e s2 t)
  then have "outer s s'"
    using acquire_outer stored_or_conflict_internal(2) internal_outer outer_trans by blast
  then show ?thesis using job_trace.start by (intro exI [of _ 0] exI [of _ s']) (auto simp: outer_def)
next
  case (refused p s1 e)
  then have "outer s s'" using acquire_outer by blast
  then show ?thesis using job_trace.start by (intro exI [of _ 0] exI [of _ s']) (auto simp: outer_def)
next
  case (leased p s1 l s2 s3)
  from run_leased_trace [OF leased(3)] obtain m where
    "m \<le> jc_max_attempts c" "job_trace h m s2 s3" by blast
  then show ?thesis using acquire_outer [OF leased(1,2)] release_outer leased(4) by blast
qed

section \<open>Decided events\<close>

text \<open>
  An event whose record is pending approval or terminal is not run again: the call returns
  the stored disposition, outcome and execution identifier, and neither the handler nor any
  store is touched (only the audit trail and the clock move).
\<close>

theorem decided_event_not_rerun:
  assumes "dedup_get (dedup_key (jc_sha256 c) ev) (jr_dedup s) = Some e"
    and "dd_status e \<noteq> Dedup_IN_PROGRESS"
  shows "\<exists>r s'. run_event c h ev who inp ext s = (Inr r, s') \<and> same_stores s s' \<and>
           jr_disposition r = stored_disposition (dd_status e) \<and> jr_outcome r = dd_outcome e \<and>
           jr_execution_id r = dd_execution_id e"
proof -
  obtain r s' where r: "stored_result c ev e who s = (r, s')" by fastforce
  have "dd_status e = Dedup_PENDING_APPROVAL \<or> terminal_status (dd_status e)"
    using assms(2) by (cases "dd_status e") (simp_all add: terminal_status_def)
  with assms(1) r have "run_event c h ev who inp ext s = (Inr r, s')"
    by (simp add: run_event_def Let_def)
  with stored_frame [OF r] show ?thesis by blast
qed

section \<open>The reported result and the record\<close>

fun status_agrees :: "event_disposition \<Rightarrow> dedup_status \<Rightarrow> bool" where
  "status_agrees Disp_COMPLETED st = (st = Dedup_COMPLETED)"
| "status_agrees Disp_DUPLICATE st = (st = Dedup_COMPLETED)"
| "status_agrees Disp_PENDING_APPROVAL st = (st = Dedup_PENDING_APPROVAL)"
| "status_agrees Disp_FAILED st = (st = Dedup_FAILED \<or> st = Dedup_DEAD_LETTERED)"
| "status_agrees Disp_CANCELLED st = (st = Dedup_DEAD_LETTERED)"
| "status_agrees Disp_DEAD_LETTERED st = (st = Dedup_DEAD_LETTERED)"
| "status_agrees _ st = False"

definition recorded :: "string \<Rightarrow> job_result \<Rightarrow> dedup_store \<Rightarrow> bool" where
  "recorded k r d \<longleftrightarrow> jr_disposition r = Disp_LEASE_CONFLICT \<or>
     (\<exists>e. map_of d k = Some e \<and> status_agrees (jr_disposition r) (dd_status e) \<and>
          dd_outcome e = jr_outcome r \<and>
          (dd_execution_id e = jr_execution_id r \<or> jr_execution_id r = Some []))"

lemma recorded_conflict: "lease_conflict_result c ev who s = (r, s') \<Longrightarrow> recorded k r d"
  by (drule lease_conflict_frame) (simp add: recorded_def)

lemma recorded_return_conflict:
  "return_conflict c x s = (AttemptReturn r, s') \<Longrightarrow> recorded k r d"
  by (drule return_conflict_effect) (simp add: recorded_def)

lemma recorded_stored:
  assumes "map_of (jr_dedup s) k = Some e" and "dd_status e \<noteq> Dedup_IN_PROGRESS"
    and "stored_result c ev e who s = (r, s')"
  shows "recorded k r (jr_dedup s')"
  using stored_frame [OF assms(3)] assms(1,2)
  by (cases "dd_status e") (auto simp: recorded_def same_stores_def)

lemma run_handler_recorded:
  assumes "run_handler c h x n i s = (AttemptReturn r, s')"
  shows "recorded (jx_key x) r (jr_dedup s')"
proof -
  have ret: "claim_terminal x Dedup_COMPLETED (Some out) i s1 = (Inr u, s2) \<Longrightarrow>
      mk_result Disp_COMPLETED ev cid (Some i) a (Some out) cat s2 = (r, s') \<Longrightarrow> ?thesis"
    for out s1 s2 u ev cid a cat
    using claim_terminal_Inr [of x Dedup_COMPLETED "Some out" i s1 u s2]
      mk_result_frame [of Disp_COMPLETED ev cid "Some i" a "Some out" cat s2 r s']
    by (auto simp: recorded_def same_stores_def)
  show ?thesis
    using assms unfolding run_handler_def Let_def
    by (auto split: prod.splits sum.splits if_splits intro: ret recorded_return_conflict dest: after_attempt_effect)
qed

lemma attempt_step_recorded:
  assumes "attempt_step c h x n s = (AttemptReturn r, s')"
  shows "recorded (jx_key x) r (jr_dedup s')"
  using assms unfolding attempt_step_def
  by (auto split: prod.splits sum.splits if_splits
      intro: run_handler_recorded recorded_return_conflict)

lemma job_loop_return:
  "job_loop c h x n i out k s = (LoopReturn r, s') \<Longrightarrow> recorded (jx_key x) r (jr_dedup s')"
proof (induction c h x n i out k s rule: job_loop.induct)
  case (1 c h x n i out k s)
  then show ?case
    by (subst (asm) (2) job_loop.simps)
      (auto split: if_splits prod.splits attempt_end.splits intro: attempt_step_recorded)
qed

lemma job_loop_done:
  "job_loop c h x n i out k s = (LoopDone m j out' k', s') \<Longrightarrow>
   n < jc_max_attempts c \<or> i \<noteq> None \<Longrightarrow> j \<noteq> None"
proof (induction c h x n i out k s rule: job_loop.induct)
  case (1 c h x n i out k s)
  from "1.prems" "1.IH" show ?case
    by (subst (asm) (1) job_loop.simps)
      (auto split: if_splits prod.splits attempt_end.splits)
qed

lemma finish_job_recorded:
  assumes "finish_job c x n (Some i) out k s = (Inr r, s')"
  shows "recorded (jx_key x) r (jr_dedup s')"
proof -
  have pend: "claim_pending x out' i s = (Inr u, s1) \<Longrightarrow>
      mk_result Disp_PENDING_APPROVAL ev cid (Some i) a (Some out') cat s1 = (r, s') \<Longrightarrow> ?thesis"
    for out' u s1 ev cid a cat
    using claim_pending_Inr [of x out' i s u s1]
      mk_result_frame [of Disp_PENDING_APPROVAL ev cid "Some i" a "Some out'" cat s1 r s']
    by (auto simp: recorded_def same_stores_def)
  have done': "claim_terminal x Dedup_DEAD_LETTERED out (or_else (Some i) (jx_first_execution_id x)) s =
        (Inr u, s1) \<Longrightarrow>
      read_clock s1 = (t, s2) \<Longrightarrow>
      mk_result d ev cid (Some i) a out cat
        (attempt_audit c x ty j m md (s2\<lparr>jr_dead_letters := dl\<rparr>)) = (r, s') \<Longrightarrow>
      d \<in> {Disp_CANCELLED, Disp_FAILED, Disp_DEAD_LETTERED} \<Longrightarrow> ?thesis"
    for u s1 t s2 d ev cid a cat ty j m md dl
    using claim_terminal_Inr [of x Dedup_DEAD_LETTERED out
        "or_else (Some i) (jx_first_execution_id x)" s u s1] read_clock_frame [of s1 t s2]
      attempt_audit_frame [of "s2\<lparr>jr_dead_letters := dl\<rparr>" c x ty j m md]
      mk_result_frame [of d ev cid "Some i" a out cat
        "attempt_audit c x ty j m md (s2\<lparr>jr_dead_letters := dl\<rparr>)" r s']
    by (auto simp: recorded_def same_stores_def or_else_def split: if_splits)
  show ?thesis
    using assms unfolding finish_job_def Let_def final_disposition_def
    by (auto split: prod.splits sum.splits option.splits if_splits
        intro: recorded_conflict pend done')
qed

lemma run_leased_recorded:
  assumes "run_leased c h ev who inp ext p v s = (Inr r, s')" and "1 \<le> jc_max_attempts c"
  shows "recorded (dedup_key (jc_sha256 c) ev) r (jr_dedup s')"
  using assms(1)
proof (cases rule: run_leased_cases)
  case (stored i s1 e s2 d t)
  then show ?thesis using recorded_stored by (auto simp: dedup_get_def)
next
  case (conflict i s1 e s2 t)
  then show ?thesis using recorded_conflict by auto
next
  case (loop i s1 s2 t l s4)
  let ?x = "(start_ctx c ev who p v i)\<lparr>jx_input := t\<rparr>"
  show ?thesis
  proof (cases l)
    case (LoopReturn q)
    with loop(5) job_loop_return [of c h ?x] loop(4) show ?thesis by fastforce
  next
    case (LoopDone n j out k)
    with job_loop_done [of c h ?x] loop(4) assms(2) obtain j' where j: "j = Some j'" by fastforce
    with loop(5) LoopDone finish_job_recorded [of c ?x n j' out k s4 r s'] show ?thesis by simp
  qed (use loop(5) in auto)
qed auto

text \<open>
  A reported result and the deduplication record of its event agree. Unless the run lost its
  lease, the record the run leaves has the status that belongs to the reported disposition, the
  reported outcome, and the reported execution identifier (an empty identifier excepted).
\<close>

theorem run_result_recorded:
  assumes "run_event c h ev who inp ext s = (Inr r, s')" and "job_config_ok c"
    and "jr_disposition r \<noteq> Disp_LEASE_CONFLICT"
  shows "\<exists>e. dedup_get (dedup_key (jc_sha256 c) ev) (jr_dedup s') = Some e \<and>
             status_agrees (jr_disposition r) (dd_status e) \<and> dd_outcome e = jr_outcome r \<and>
             (dd_execution_id e = jr_execution_id r \<or> jr_execution_id r = Some [])"
proof -
  have "recorded (dedup_key (jc_sha256 c) ev) r (jr_dedup s')"
    using assms(1)
  proof (cases rule: run_event_cases)
    case (stored e t)
    then show ?thesis using recorded_stored by (auto simp: dedup_get_def)
  next
    case (held p s1 e s2 t)
    then show ?thesis using recorded_conflict by auto
  next
    case (leased p s1 l s2 s3)
    then show ?thesis
      using run_leased_recorded assms(2) by (fastforce simp: job_config_ok_def release_lease_def)
  qed auto
  with assms(3) show ?thesis by (auto simp: recorded_def dedup_get_def)
qed

lemma status_agrees_final: "status_agrees d st \<Longrightarrow> st \<noteq> Dedup_IN_PROGRESS"
  by (cases d) auto

text \<open>
  C10: at most one completion. Once a run reports a result that is neither a lease conflict nor
  pending approval, then after any marking calls of other workers a redelivery of the event
  returns the same outcome without calling the handler or changing a store.
\<close>

theorem redelivery_returns_outcome:
  assumes "run_event c h ev who inp ext s = (Inr r, s')" and "job_config_ok c"
    and "jr_disposition r \<notin> {Disp_LEASE_CONFLICT, Disp_PENDING_APPROVAL}"
    and "jr_dedup s2 = dedup_run marks (jr_dedup s')"
  shows "\<exists>r2 s3. run_event c h2 ev who2 inp2 ext2 s2 = (Inr r2, s3) \<and> same_stores s2 s3 \<and>
           jr_outcome r2 = jr_outcome r \<and>
           (jr_disposition r2 = Disp_DUPLICATE \<longleftrightarrow> jr_disposition r \<in> {Disp_COMPLETED, Disp_DUPLICATE})"
proof -
  let ?k = "dedup_key (jc_sha256 c) ev"
  from run_result_recorded [OF assms(1,2)] assms(3) obtain e where
    e: "dedup_get ?k (jr_dedup s') = Some e" "status_agrees (jr_disposition r) (dd_status e)"
      "dd_outcome e = jr_outcome r" by auto
  have t: "terminal_status (dd_status e)"
    using e(2) assms(3) by (cases "jr_disposition r") (auto simp: terminal_status_def)
  from memory_dedup.terminal_stable [OF e(1) t, of marks] assms(4)
  have "dedup_get ?k (jr_dedup s2) = Some e" by (simp add: dedup_run_eq)
  from decided_event_not_rerun [OF this status_agrees_final [OF e(2)], of h2 who2 inp2 ext2]
  obtain r2 s3 where r2: "run_event c h2 ev who2 inp2 ext2 s2 = (Inr r2, s3)" "same_stores s2 s3"
    "jr_disposition r2 = stored_disposition (dd_status e)" "jr_outcome r2 = dd_outcome e" by blast
  then show ?thesis
    using e(2,3) by (cases "jr_disposition r"; cases "dd_status e") auto
qed

section \<open>The lease\<close>

text \<open>
  C31: no run leaves its lease behind. When the event has no lease and the handler does not touch
  leases, then after the run, whether it returned a result or raised, every key has the lease it
  had before.
\<close>

theorem run_releases_lease:
  assumes "run_event c h ev who inp ext s = (r, s')"
    and "lease_get (dedup_key (jc_sha256 c) ev) (jr_leases s) = None"
    and "\<forall>q t. jr_leases (snd (h q t)) = jr_leases t"
  shows "\<forall>k. lease_get k (jr_leases s') = lease_get k (jr_leases s)"
  using assms(1)
proof (cases rule: run_event_cases)
  case (stored e t)
  then show ?thesis using stored_frame [OF stored(3)] by (simp add: same_stores_def)
next
  case (held p s1 e s2 t)
  have "jr_leases s1 = jr_leases s" using gen_id_frame [OF held(1)] by (simp add: same_stores_def)
  moreover have "jr_leases s2 = jr_leases s1"
    using with_leases_effect [OF held(2)] lease_error_unchanged(1) by blast
  moreover have "jr_leases s' = jr_leases s2"
    using lease_conflict_frame [OF held(3)] by (simp add: same_stores_def)
  ultimately show ?thesis by simp
next
  case (refused p s1 e)
  have "jr_leases s1 = jr_leases s" using gen_id_frame [OF refused(1)] by (simp add: same_stores_def)
  moreover have "jr_leases s' = jr_leases s1"
    using with_leases_effect [OF refused(2)] lease_error_unchanged(1) by blast
  ultimately show ?thesis by simp
next
  case (leased p s1 l s2 s3)
  let ?k = "dedup_key (jc_sha256 c) ev"
  have s1: "jr_leases s1 = jr_leases s" using gen_id_frame [OF leased(1)] by (simp add: same_stores_def)
  obtain t where "lease_acquire t ?k p (jc_lease_ttl c) (jr_leases s1) = (Inr l, jr_leases s2)"
    using with_leases_effect [OF leased(2)] by blast
  note acq = lease_acquire_get [OF this]
  obtain m where "job_trace h m s2 s3" using run_leased_trace [OF leased(3)] by blast
  then have s3: "jr_leases s3 = jr_leases s2" using job_trace_leases assms(3) by blast
  obtain u st where rel: "lease_release ?k p (jr_leases s3) = (Inr u, st)"
    using acq [of ?k] s3 by (auto simp: lease_release_def lease_get_def)
  with leased(4) have "jr_leases s' = st" by (simp add: release_lease_def)
  with lease_release_get [OF rel] acq s3 s1 assms(2) show ?thesis by simp
qed

section \<open>An event whose run is cut short\<close>

text \<open>
  \<open>wedged k n s\<close>: the record of \<open>k\<close> is in progress under the version-0 lease of the owner whose
  identifier was the \<open>n\<close>-th one issued, and \<open>k\<close> has no lease.
\<close>

definition wedged :: "string \<Rightarrow> nat \<Rightarrow> 'w runner_state \<Rightarrow> bool" where
  "wedged k n s \<longleftrightarrow> n < id_calls (jr_world s) \<and> lease_get k (jr_leases s) = None \<and>
     (\<exists>e. dedup_get k (jr_dedup s) = Some e \<and> dd_status e = Dedup_IN_PROGRESS \<and>
          dd_lease_owner e = Some (make_id (jr_world s) ''lease'' n) \<and> dd_lease_version e = Some 0)"

text \<open>Deliveries of one event, each with its handler, principal and input.\<close>

type_synonym 'w delivery =
  "'w job_handler \<times> principal_context \<times> string option \<times> (event_envelope \<Rightarrow> exc + string) option"

fun redeliver :: "job_config \<Rightarrow> event_envelope \<Rightarrow> 'w delivery list \<Rightarrow> 'w runner_state \<Rightarrow>
    (exc + job_result) list \<times> 'w runner_state" where
  "redeliver c ev [] s = ([], s)"
| "redeliver c ev ((h, who, inp, ext) # ds) s =
     (case run_event c h ev who inp ext s of (r, s1) \<Rightarrow>
        (case redeliver c ev ds s1 of (rs, s2) \<Rightarrow> (r # rs, s2)))"

definition lease_ids_ok :: "'w runner_state \<Rightarrow> bool" where
  "lease_ids_ok s \<longleftrightarrow> inj (make_id (jr_world s) ''lease'') \<and>
     (\<forall>n. \<not> blank (make_id (jr_world s) ''lease'' n))"

lemma acquire_free:
  assumes "gen_id ''lease'' s = (p, s1)" and "lease_get k (jr_leases s) = None"
    and "lease_ids_ok s" "\<not> blank k" "0 < ttl"
    and "with_leases (\<lambda>t. lease_acquire t k p ttl) s1 = (q, s2)"
  shows "\<exists>l. q = Inr l \<and> lease_version l = 0 \<and> lease_owner l = p \<and>
          (\<forall>j. lease_get j (jr_leases s2) = (if j = k then Some l else lease_get j (jr_leases s))) \<and>
          p = make_id (jr_world s) ''lease'' (id_calls (jr_world s)) \<and>
          id_calls (jr_world s) < id_calls (jr_world s2) \<and>
          make_id (jr_world s2) = make_id (jr_world s) \<and> jr_dedup s2 = jr_dedup s \<and>
          jr_dead_letters s2 = jr_dead_letters s \<and> jr_app s2 = jr_app s"
proof -
  note g = gen_id_frame [OF assms(1)]
  from with_leases_effect [OF assms(6)] obtain t where
    t: "lease_acquire t k p ttl (jr_leases s1) = (q, jr_leases s2)"
    and f: "same_stores (s1\<lparr>jr_leases := jr_leases s2\<rparr>) s2" by blast
  have "lease_get k (jr_leases s1) = None" "\<not> blank p"
    using g assms(2,3) by (auto simp: same_stores_def lease_ids_ok_def)
  with lease_acquire_free [OF assms(4) _ assms(5), of p "jr_leases s1" t] t obtain l where
    l: "q = Inr l" "lease_acquire t k p ttl (jr_leases s1) = (Inr l, jr_leases s2)"
    "lease_version l = 0" by auto
  from lease_acquire_get [OF l(2)] l g f show ?thesis by (auto simp: same_stores_def)
qed

lemma release_own:
  assumes "lease_get k (jr_leases s) = Some l" and "lease_owner l = p"
  shows "lease_get j (jr_leases (release_lease k p s)) = (if j = k then None else lease_get j (jr_leases s))"
  using assms by (auto simp: release_lease_def lease_release_def lease_get_def)

lemma wedged_run:
  assumes w: "wedged (dedup_key (jc_sha256 c) ev) n s" and ids: "lease_ids_ok s"
    and k: "\<not> blank (dedup_key (jc_sha256 c) ev)" and "job_config_ok c"
  shows "\<exists>r s'. run_event c h ev who inp ext s = (Inr r, s') \<and>
           jr_disposition r = Disp_LEASE_CONFLICT \<and> wedged (dedup_key (jc_sha256 c) ev) n s' \<and>
           lease_ids_ok s' \<and> jr_dedup s' = jr_dedup s \<and> jr_app s' = jr_app s \<and>
           jr_dead_letters s' = jr_dead_letters s"
proof -
  let ?k = "dedup_key (jc_sha256 c) ev"
  from w obtain e where e: "map_of (jr_dedup s) ?k = Some e" "dd_status e = Dedup_IN_PROGRESS"
    "dd_lease_owner e = Some (make_id (jr_world s) ''lease'' n)" "dd_lease_version e = Some 0"
    by (auto simp: wedged_def dedup_get_def)
  obtain p s1 where g: "gen_id ''lease'' s = (p, s1)" by fastforce
  obtain q s2 where a: "with_leases (\<lambda>t. lease_acquire t ?k p (jc_lease_ttl c)) s1 = (q, s2)" by fastforce
  have "0 < jc_lease_ttl c" using assms(4) by (simp add: job_config_ok_def)
  from acquire_free [OF g _ ids k this a] w obtain l where
    l: "q = Inr l" "lease_version l = 0" "lease_owner l = p"
    and p: "p = make_id (jr_world s) ''lease'' (id_calls (jr_world s))"
    and s2: "\<forall>j. lease_get j (jr_leases s2) = (if j = ?k then Some l else lease_get j (jr_leases s))"
      "id_calls (jr_world s) < id_calls (jr_world s2)" "make_id (jr_world s2) = make_id (jr_world s)"
      "jr_dedup s2 = jr_dedup s" "jr_dead_letters s2 = jr_dead_letters s" "jr_app s2 = jr_app s"
    by (auto simp: wedged_def)
  have other: "make_id (jr_world s) ''lease'' n \<noteq> p"
    using w ids p by (auto simp: wedged_def lease_ids_ok_def dest: injD)
  obtain i s3 where gi: "gen_id ''execution'' s2 = (i, s3)" by fastforce
  let ?x = "start_ctx c ev who p 0 i"
  obtain u s4 where cl: "claim_in_progress ?x i 0 s3 = (u, s4)" by fastforce
  obtain t where m: "mark_in_progress t ?k i 0 (event_correlation ev) p 0 (jr_dedup s3) = (u, jr_dedup s4)"
    and o: "claim_ok ?x s3 u s4" using claim_effect(1) [OF cl] by auto
  have d3: "jr_dedup s3 = jr_dedup s" using gen_id_frame [OF gi] s2(4) by (simp add: same_stores_def)
  have nb: "\<not> blank p" using ids p by (simp add: lease_ids_ok_def)
  have u: "u = Inl DeduplicationConflictError" and d4: "jr_dedup s4 = jr_dedup s"
    using m e other nb d3 by (simp_all add: mark_in_progress_def Let_def terminal_status_def)
  obtain r s5 where r: "lease_conflict_result c ev who s4 = (r, s5)" by fastforce
  have body: "run_leased c h ev who inp ext p 0 s2 = (Inr r, s5)"
    using gi cl u r d4 e by (simp add: run_leased_def Let_def dedup_get_def)
  have run: "run_event c h ev who inp ext s = (Inr r, release_lease ?k p s5)"
    using g a l e body by (simp add: run_event_def Let_def dedup_get_def terminal_status_def)
  have f5: "jr_leases s5 = jr_leases s2" "jr_dedup s5 = jr_dedup s" "jr_app s5 = jr_app s"
    "jr_dead_letters s5 = jr_dead_letters s" "make_id (jr_world s5) = make_id (jr_world s)"
    "id_calls (jr_world s) < id_calls (jr_world s5)" "jr_disposition r = Disp_LEASE_CONFLICT"
    using lease_conflict_frame [OF r] o gen_id_frame [OF gi] s2 d4
    by (auto simp: claim_ok_def only_dedup_def same_stores_def)
  have "lease_get ?k (jr_leases s5) = Some l" using f5(1) s2(1) by simp
  note rel = release_own [OF this l(3)]
  have "wedged ?k n (release_lease ?k p s5)"
    using w f5 rel [of ?k] by (auto simp: wedged_def release_lease_def)
  moreover have "lease_ids_ok (release_lease ?k p s5)"
    using ids f5 by (simp add: lease_ids_ok_def release_lease_def)
  ultimately show ?thesis using run f5 by (simp add: release_lease_def)
qed

lemma wedged_redeliver:
  assumes "\<not> blank (dedup_key (jc_sha256 c) ev)" and "job_config_ok c"
  shows "wedged (dedup_key (jc_sha256 c) ev) n s \<Longrightarrow> lease_ids_ok s \<Longrightarrow>
    redeliver c ev ds s = (rs, s') \<Longrightarrow>
    length rs = length ds \<and> (\<forall>q \<in> set rs. \<exists>r. q = Inr r \<and> jr_disposition r = Disp_LEASE_CONFLICT) \<and>
    jr_dedup s' = jr_dedup s \<and> jr_app s' = jr_app s \<and> jr_dead_letters s' = jr_dead_letters s"
proof (induction ds arbitrary: s rs)
  case (Cons d ds)
  obtain h who inp ext where d: "d = (h, who, inp, ext)" by (cases d)
  from wedged_run [OF Cons.prems(1,2) assms, of h who inp ext] obtain r s1 where
    r: "run_event c h ev who inp ext s = (Inr r, s1)" "jr_disposition r = Disp_LEASE_CONFLICT"
    "wedged (dedup_key (jc_sha256 c) ev) n s1" "lease_ids_ok s1" "jr_dedup s1 = jr_dedup s"
    "jr_app s1 = jr_app s" "jr_dead_letters s1 = jr_dead_letters s" by blast
  obtain rs1 s2 where rs1: "redeliver c ev ds s1 = (rs1, s2)" by fastforce
  with Cons.prems(3) d r(1) have "rs = Inr r # rs1" "s' = s2" by simp_all
  with Cons.IH [OF r(3,4)] rs1 r show ?case by auto
qed simp

lemma no_input_wedges:
  assumes "dedup_get (dedup_key (jc_sha256 c) ev) (jr_dedup s) = None"
    and "lease_get (dedup_key (jc_sha256 c) ev) (jr_leases s) = None" and ids: "lease_ids_ok s"
    and k: "\<not> blank (dedup_key (jc_sha256 c) ev)" and "job_config_ok c" and "ext ev = Inl x"
    and "run_event c h ev who None (Some ext) s = (r, s')"
  shows "r = Inl x \<and> wedged (dedup_key (jc_sha256 c) ev) (id_calls (jr_world s)) s' \<and>
         lease_ids_ok s' \<and> jr_app s' = jr_app s \<and> jr_dead_letters s' = jr_dead_letters s"
proof -
  let ?k = "dedup_key (jc_sha256 c) ev"
  obtain p s1 where g: "gen_id ''lease'' s = (p, s1)" by fastforce
  obtain q s2 where a: "with_leases (\<lambda>t. lease_acquire t ?k p (jc_lease_ttl c)) s1 = (q, s2)" by fastforce
  have "0 < jc_lease_ttl c" using assms(5) by (simp add: job_config_ok_def)
  from acquire_free [OF g assms(2) ids k this a] obtain l where
    l: "q = Inr l" "lease_version l = 0" "lease_owner l = p"
    and p: "p = make_id (jr_world s) ''lease'' (id_calls (jr_world s))"
    and s2: "\<forall>j. lease_get j (jr_leases s2) = (if j = ?k then Some l else lease_get j (jr_leases s))"
      "id_calls (jr_world s) < id_calls (jr_world s2)" "make_id (jr_world s2) = make_id (jr_world s)"
      "jr_dedup s2 = jr_dedup s" "jr_dead_letters s2 = jr_dead_letters s" "jr_app s2 = jr_app s"
    by blast
  obtain i s3 where gi: "gen_id ''execution'' s2 = (i, s3)" by fastforce
  let ?x = "start_ctx c ev who p 0 i"
  obtain u s4 where cl: "claim_in_progress ?x i 0 s3 = (u, s4)" by fastforce
  obtain t where m: "mark_in_progress t ?k i 0 (event_correlation ev) p 0 (jr_dedup s3) = (u, jr_dedup s4)"
    and o: "claim_ok ?x s3 u s4" using claim_effect(1) [OF cl] by auto
  have d3: "jr_dedup s3 = jr_dedup s" using gen_id_frame [OF gi] s2(4) by (simp add: same_stores_def)
  have nb: "\<not> blank p" using ids p by (simp add: lease_ids_ok_def)
  have u: "u = Inr ()"
    using m nb d3 assms(1) by (simp add: mark_in_progress_def Let_def dedup_get_def)
  from claim_in_progress_Inr [OF cl [unfolded u]] obtain e where
    e: "map_of (jr_dedup s4) ?k = Some e" "dd_status e = Dedup_IN_PROGRESS"
      "dd_lease_owner e = Some p" "dd_lease_version e = Some 0" by auto
  have body: "run_leased c h ev who None (Some ext) p 0 s2 = (Inl x, received c who ev s4)"
    using gi cl u assms(6) by (simp add: run_leased_def Let_def resolve_input_def received_def)
  have run: "run_event c h ev who None (Some ext) s = (Inl x, release_lease ?k p (received c who ev s4))"
    using g a l assms(1) body by (simp add: run_event_def Let_def)
  let ?s5 = "received c who ev s4"
  have f5: "jr_leases ?s5 = jr_leases s2" "jr_dedup ?s5 = jr_dedup s4" "jr_app ?s5 = jr_app s"
    "jr_dead_letters ?s5 = jr_dead_letters s" "make_id (jr_world ?s5) = make_id (jr_world s)"
    "id_calls (jr_world s) < id_calls (jr_world ?s5)"
    using received_frame [of s4 c who ev] o gen_id_frame [OF gi] s2
    by (auto simp: claim_ok_def only_dedup_def same_stores_def)
  have "lease_get ?k (jr_leases ?s5) = Some l" using f5(1) s2(1) by simp
  note rel = release_own [OF this l(3), of ?k]
  have "wedged ?k (id_calls (jr_world s)) (release_lease ?k p ?s5)"
    using f5 e p rel by (simp add: wedged_def release_lease_def dedup_get_def)
  moreover have "lease_ids_ok (release_lease ?k p ?s5)"
    using ids f5 by (simp add: lease_ids_ok_def release_lease_def)
  ultimately show ?thesis using run assms(7) f5 by (simp add: release_lease_def)
qed

text \<open>
  C32: an event whose input cannot be extracted is lost. When the extractor raises on the first
  delivery of an event, the exception leaves \<open>run\<close> with the record still in progress and the lease
  released; the next lease has version 0 again, so every later delivery, with any handler and any
  extractor, reports a lease conflict, and nothing is handled or dead-lettered.
\<close>

theorem unextractable_event_never_handled:
  assumes "dedup_get (dedup_key (jc_sha256 c) ev) (jr_dedup s) = None"
    and "lease_get (dedup_key (jc_sha256 c) ev) (jr_leases s) = None" and "lease_ids_ok s"
    and "\<not> blank (dedup_key (jc_sha256 c) ev)" and "job_config_ok c" and "ext ev = Inl x"
    and "run_event c h ev who None (Some ext) s = (r, s1)"
    and "redeliver c ev ds s1 = (rs, s2)"
  shows "r = Inl x \<and> length rs = length ds \<and>
         (\<forall>q \<in> set rs. \<exists>j. q = Inr j \<and> jr_disposition j = Disp_LEASE_CONFLICT) \<and>
         jr_app s2 = jr_app s \<and> jr_dead_letters s2 = jr_dead_letters s"
  using no_input_wedges [OF assms(1-7)] wedged_redeliver [OF assms(4,5) _ _ assms(8)] by auto

section \<open>Resolving a pending event\<close>

lemma with_mark_Inr:
  "with_dedup (\<lambda>t. mark_terminal t k st out x p v) s = (Inr u, s1) \<Longrightarrow>
     (\<exists>e. map_of (jr_dedup s1) k = Some e \<and> dd_status e = st \<and> dd_outcome e = out) \<and>
     jr_dead_letters s1 = jr_dead_letters s"
  "with_dedup (\<lambda>t. mark_pending_approval t k x p v out') s = (Inr u, s1) \<Longrightarrow>
     (\<exists>e. map_of (jr_dedup s1) k = Some e \<and> dd_status e = Dedup_PENDING_APPROVAL \<and>
          dd_outcome e = Some out') \<and>
     jr_dead_letters s1 = jr_dead_letters s"
  by (drule with_dedup_effect, force simp: only_dedup_def same_stores_def dest!: mark_terminal_Inr)
     (drule with_dedup_effect, force simp: only_dedup_def same_stores_def dest!: mark_pending_Inr)

lemma audit_sel:
  "jr_dedup (audit c e s) = jr_dedup s" "jr_dead_letters (audit c e s) = jr_dead_letters s"
  using audit_frame [of s c e] by (simp_all add: same_stores_def)

lemma resolve_pending_guards:
  assumes "resolve_pending c ev out who s = (Inr r, s')"
  obtains e p v where "dedup_get (dedup_key (jc_sha256 c) ev) (jr_dedup s) = Some e"
    "dd_status e = Dedup_PENDING_APPROVAL" "dd_execution_id e = Some (ao_execution_id out)"
    "ao_principal_id out = pc_principal_id who" "ao_tenant_id out = pc_tenant_id who"
    "dd_lease_owner e = Some p" "dd_lease_version e = Some v"
  using assms unfolding resolve_pending_def Let_def by (auto split: option.splits if_splits)

text \<open>
  A pending event is resolved only by an outcome of the pending execution for the same
  principal and tenant, and then the record carries that outcome: completed for a successful
  outcome, still pending for an escalated one, dead-lettered otherwise, with one dead letter
  appended exactly in the last case.
\<close>

theorem resolve_pending_effect:
  assumes "resolve_pending c ev out who s = (Inr r, s')"
  shows "\<exists>e e'. dedup_get (dedup_key (jc_sha256 c) ev) (jr_dedup s) = Some e \<and>
           dd_status e = Dedup_PENDING_APPROVAL \<and> dd_execution_id e = Some (ao_execution_id out) \<and>
           ao_principal_id out = pc_principal_id who \<and> ao_tenant_id out = pc_tenant_id who \<and>
           dedup_get (dedup_key (jc_sha256 c) ev) (jr_dedup s') = Some e' \<and>
           dd_outcome e' = Some out \<and> jr_outcome r = Some out \<and>
           dd_status e' = (if ao_status out = Outcome_ESCALATED then Dedup_PENDING_APPROVAL
                           else if is_success out then Dedup_COMPLETED else Dedup_DEAD_LETTERED) \<and>
           length (jr_dead_letters s') = length (jr_dead_letters s) +
             (if ao_status out = Outcome_ESCALATED \<or> is_success out then 0 else 1)"
proof -
  let ?k = "dedup_key (jc_sha256 c) ev"
  from resolve_pending_guards [OF assms] obtain e p v where
    e: "dedup_get ?k (jr_dedup s) = Some e" "dd_status e = Dedup_PENDING_APPROVAL"
      "dd_execution_id e = Some (ao_execution_id out)"
      "ao_principal_id out = pc_principal_id who" "ao_tenant_id out = pc_tenant_id who"
      "dd_lease_owner e = Some p" "dd_lease_version e = Some v" .
  note run = assms [unfolded resolve_pending_def Let_def, simplified e option.case, simplified]
  have "\<exists>e'. dedup_get ?k (jr_dedup s') = Some e' \<and> dd_outcome e' = Some out \<and> jr_outcome r = Some out \<and>
          dd_status e' = (if ao_status out = Outcome_ESCALATED then Dedup_PENDING_APPROVAL
                          else if is_success out then Dedup_COMPLETED else Dedup_DEAD_LETTERED) \<and>
          length (jr_dead_letters s') = length (jr_dead_letters s) +
            (if ao_status out = Outcome_ESCALATED \<or> is_success out then 0 else 1)"
  proof (cases "ao_status out = Outcome_ESCALATED")
    case True
    then show ?thesis
      using run by (auto split: sum.splits prod.splits simp: same_stores_def dedup_get_def
          dest!: with_mark_Inr pending_frame)
  next
    case False
    show ?thesis
    proof (cases "is_success out")
      case True
      with False run show ?thesis
        by (auto split: sum.splits prod.splits simp: audit_sel same_stores_def dedup_get_def
            dest!: with_mark_Inr mk_result_frame)
    next
      case no: False
      with False run show ?thesis
        by (auto split: sum.splits prod.splits simp: audit_sel same_stores_def dedup_get_def
            dest!: with_mark_Inr mk_result_frame read_clock_frame)
    qed
  qed
  with e show ?thesis by blast
qed

text \<open>
  A pending event is resolved at most once: after a resolution that was not a renewed
  escalation and any marking calls of other workers, resolving it again raises and changes
  nothing.
\<close>

theorem resolve_pending_once:
  assumes "resolve_pending c ev out who s = (Inr r, s1)" and "ao_status out \<noteq> Outcome_ESCALATED"
    and "jr_dedup s2 = dedup_run marks (jr_dedup s1)"
  shows "resolve_pending c ev out2 who2 s2 = (Inl ValueError, s2)"
proof -
  let ?k = "dedup_key (jc_sha256 c) ev"
  from resolve_pending_effect [OF assms(1)] assms(2) obtain e where
    e: "dedup_get ?k (jr_dedup s1) = Some e" "terminal_status (dd_status e)"
    by (auto simp: terminal_status_def split: if_splits)
  from memory_dedup.terminal_stable [OF this, of marks] assms(3)
  have "dedup_get ?k (jr_dedup s2) = Some e" by (simp add: dedup_run_eq)
  with e(2) show ?thesis by (auto simp: resolve_pending_def Let_def terminal_status_def)
qed

section \<open>Concrete runs\<close>

definition sample_event :: event_envelope where
  "sample_event =
     \<lparr>ee_event_id = ''e1'', ee_event_type = ''t'', ee_source = ''src'', ee_payload = [],
      ee_occurred_at = '''', ee_correlation_id = Some ''c'', ee_causation_id = None,
      ee_deduplication_key = Some ''k'', ee_principal_id = ''p'', ee_tenant_id = ''t'',
      ee_metadata = []\<rparr>"

definition sample_principal :: principal_context where
  "sample_principal = \<lparr>pc_principal_id = ''p'', pc_tenant_id = ''t'', pc_session_id = ''s''\<rparr>"

definition sample_job_config :: job_config where
  "sample_job_config =
     \<lparr>jc_max_attempts = 2, jc_backoff = 1, jc_lease_ttl = 60, jc_redactor = default_redactor,
      jc_sha256 = (\<lambda>x. x), jc_dumps = (\<lambda>_. [])\<rparr>"

definition sample_state :: "nat runner_state" where
  "sample_state =
     \<lparr>jr_leases = [], jr_dedup = [], jr_dead_letters = [], jr_audit = [], jr_sleeps = [],
      jr_world = \<lparr>make_id = (\<lambda>p n. p @ replicate n CHR ''i''), id_calls = 0,
                  clock_at = int, clock_calls = 0\<rparr>, jr_app = 0\<rparr>"

definition sample_outcome :: "outcome_status \<Rightarrow> string \<Rightarrow> agent_outcome" where
  "sample_outcome st i =
     \<lparr>ao_outcome_id = ''o'', ao_execution_id = i, ao_agent_id = ''a'', ao_agent_version = ''1'',
      ao_session_id = ''s'', ao_principal_id = ''p'', ao_tenant_id = ''t'', ao_status = st,
      ao_summary = ''done'', ao_evidence_ids = [], ao_safety_flags = [], ao_tool_calls = [],
      ao_verification = None, ao_recovery = Recovery_NONE, ao_human_review_required = False,
      ao_confidence = 1, ao_error_code = None, ao_trace_id = None, ao_created_at = 0\<rparr>"

text \<open>Handlers that count their calls; the first one fails once with a retryable error.\<close>

definition flaky_handler :: "nat job_handler" where
  "flaky_handler q s =
     (if jr_app s = 0 then (Inl (ForeignError True True), s\<lparr>jr_app := 1\<rparr>)
      else (Inr (sample_outcome Outcome_COMPLETED (call_execution_id q)), s\<lparr>jr_app := jr_app s + 1\<rparr>))"

definition escalating_handler :: "nat job_handler" where
  "escalating_handler q s =
     (Inr (sample_outcome Outcome_ESCALATED (call_execution_id q)), s\<lparr>jr_app := jr_app s + 1\<rparr>)"

definition sample_run :: "nat job_handler \<Rightarrow> nat runner_state \<Rightarrow> (exc + job_result) \<times> nat runner_state" where
  "sample_run h s = run_event sample_job_config h sample_event sample_principal (Some ''go'') None s"

lemma sample_config_ok: "job_config_ok sample_job_config"
  by (simp add: job_config_ok_def sample_job_config_def)

lemma sample_key: "dedup_key (jc_sha256 sample_job_config) sample_event = ''k''"
  by (simp add: dedup_key_def sample_event_def)

lemma sample_key_not_blank: "\<not> blank ''k''"
  by (simp add: blank_iff is_space_def)

lemma flaky_run:
  obtains r s where "sample_run flaky_handler sample_state = (Inr r, s)"
    "jr_disposition r = Disp_COMPLETED" "jr_app s = 2"
proof -
  have "case sample_run flaky_handler sample_state of
          (Inr r, s) \<Rightarrow> jr_disposition r = Disp_COMPLETED \<and> jr_app s = 2 | _ \<Rightarrow> False"
    by code_simp
  with that show thesis by (auto split: prod.splits sum.splits)
qed

lemma escalating_run:
  obtains r s r2 s2 where "sample_run escalating_handler sample_state = (Inr r, s)"
    "jr_disposition r = Disp_PENDING_APPROVAL"
    "resolve_pending sample_job_config sample_event
       (sample_outcome Outcome_COMPLETED ''executioni'') sample_principal s = (Inr r2, s2)"
proof -
  have "case sample_run escalating_handler sample_state of
          (Inr r, s) \<Rightarrow> jr_disposition r = Disp_PENDING_APPROVAL \<and>
            (case resolve_pending sample_job_config sample_event
                (sample_outcome Outcome_COMPLETED ''executioni'') sample_principal s of
               (Inr r2, s2) \<Rightarrow> True | _ \<Rightarrow> False)
        | _ \<Rightarrow> False"
    by code_simp
  with that show thesis by (auto split: prod.splits sum.splits)
qed

lemma sample_leases_kept:
  "\<forall>q t. jr_leases (snd (flaky_handler q t)) = jr_leases t"
  by (simp add: flaky_handler_def)

lemma sample_ids_ok: "lease_ids_ok sample_state"
proof -
  have "inj (\<lambda>n. ''lease'' @ replicate n CHR ''i'')"
    by (rule injI) (simp add: replicate_eq_replicate)
  then show ?thesis
    by (auto simp: lease_ids_ok_def sample_state_def blank_iff is_space_def)
qed

theorem run_attempts_bounded_witness:
  "\<exists>m s1 s2. m \<le> 2 \<and> outer sample_state s1 \<and> job_trace flaky_handler m s1 s2 \<and>
     outer s2 (snd (sample_run flaky_handler sample_state))"
proof -
  obtain r s where "sample_run flaky_handler sample_state = (Inr r, s)" by (rule flaky_run)
  with run_attempts_bounded [of sample_job_config flaky_handler sample_event sample_principal
      "Some ''go''" None sample_state "Inr r" s]
  show ?thesis by (simp add: sample_run_def sample_job_config_def)
qed

theorem decided_event_not_rerun_witness:
  "\<exists>r s'. sample_run flaky_handler
      (sample_state\<lparr>jr_dedup := [(''k'', sample_claim\<lparr>dd_status := Dedup_COMPLETED\<rparr>)]\<rparr>) = (Inr r, s') \<and>
    jr_app s' = 0 \<and> jr_disposition r = Disp_DUPLICATE"
proof -
  let ?s = "sample_state\<lparr>jr_dedup := [(''k'', sample_claim\<lparr>dd_status := Dedup_COMPLETED\<rparr>)]\<rparr>"
  have "dedup_get (dedup_key (jc_sha256 sample_job_config) sample_event) (jr_dedup ?s) =
          Some (sample_claim\<lparr>dd_status := Dedup_COMPLETED\<rparr>)"
    by (simp add: sample_key dedup_get_def)
  from decided_event_not_rerun [OF this, of flaky_handler sample_principal "Some ''go''" None]
  show ?thesis by (auto simp: sample_run_def same_stores_def sample_state_def)
qed

theorem run_result_recorded_witness:
  "\<exists>e. dedup_get ''k'' (jr_dedup (snd (sample_run flaky_handler sample_state))) = Some e \<and>
       dd_status e = Dedup_COMPLETED"
proof -
  obtain r s where r: "sample_run flaky_handler sample_state = (Inr r, s)"
    "jr_disposition r = Disp_COMPLETED" by (rule flaky_run)
  from run_result_recorded [OF r(1) [unfolded sample_run_def] sample_config_ok] r
  show ?thesis by (auto simp: sample_key)
qed

theorem redelivery_returns_outcome_witness:
  "\<exists>r2 s3. sample_run escalating_handler (snd (sample_run flaky_handler sample_state)) = (Inr r2, s3) \<and>
     jr_disposition r2 = Disp_DUPLICATE \<and> jr_app s3 = 2"
proof -
  obtain r s where r: "sample_run flaky_handler sample_state = (Inr r, s)"
    "jr_disposition r = Disp_COMPLETED" "jr_app s = 2" by (rule flaky_run)
  have "jr_dedup s = dedup_run [] (jr_dedup s)" by (simp add: dedup_run_def)
  from redelivery_returns_outcome [OF r(1) [unfolded sample_run_def] sample_config_ok _ this,
      of escalating_handler sample_principal "Some ''go''" None] r
  show ?thesis by (auto simp: sample_run_def same_stores_def)
qed

theorem run_releases_lease_witness:
  "lease_get ''k'' (jr_leases (snd (sample_run flaky_handler sample_state))) = None"
proof -
  obtain r s where r: "sample_run flaky_handler sample_state = (Inr r, s)" by (rule flaky_run)
  have "lease_get (dedup_key (jc_sha256 sample_job_config) sample_event) (jr_leases sample_state) = None"
    by (simp add: sample_state_def lease_get_def)
  from run_releases_lease [OF r [unfolded sample_run_def] this sample_leases_kept] r this
  show ?thesis by (simp add: sample_key)
qed

theorem unextractable_event_never_handled_witness:
  "\<exists>j s2. redeliver sample_job_config sample_event
      [(flaky_handler, sample_principal, Some ''go'', None)]
      (snd (run_event sample_job_config flaky_handler sample_event sample_principal None
              (Some (\<lambda>_. Inl KeyError)) sample_state)) = ([Inr j], s2) \<and>
     jr_disposition j = Disp_LEASE_CONFLICT \<and> jr_app s2 = 0 \<and> jr_dead_letters s2 = []"
proof -
  obtain r s1 where r: "run_event sample_job_config flaky_handler sample_event sample_principal None
      (Some (\<lambda>_. Inl KeyError)) sample_state = (r, s1)" by fastforce
  obtain rs s2 where rs: "redeliver sample_job_config sample_event
      [(flaky_handler, sample_principal, Some ''go'', None)] s1 = (rs, s2)" by fastforce
  have pre: "dedup_get (dedup_key (jc_sha256 sample_job_config) sample_event) (jr_dedup sample_state) = None"
    "lease_get (dedup_key (jc_sha256 sample_job_config) sample_event) (jr_leases sample_state) = None"
    "\<not> blank (dedup_key (jc_sha256 sample_job_config) sample_event)"
    by (simp_all add: sample_key sample_key_not_blank)
       (simp_all add: sample_state_def dedup_get_def lease_get_def)
  from unextractable_event_never_handled [OF pre(1,2) sample_ids_ok pre(3) sample_config_ok _ r rs]
  have f: "length rs = 1 \<and> (\<forall>q \<in> set rs. \<exists>j. q = Inr j \<and> jr_disposition j = Disp_LEASE_CONFLICT) \<and>
      jr_app s2 = jr_app sample_state \<and> jr_dead_letters s2 = jr_dead_letters sample_state"
    by simp
  then obtain q where "rs = [q]" by (cases rs) auto
  with f rs r show ?thesis by (auto simp: sample_state_def)
qed

theorem resolve_pending_effect_witness:
  "\<exists>e'. dedup_get ''k'' (jr_dedup (snd (resolve_pending sample_job_config sample_event
          (sample_outcome Outcome_COMPLETED ''executioni'') sample_principal
          (snd (sample_run escalating_handler sample_state))))) = Some e' \<and>
        dd_status e' = Dedup_COMPLETED"
proof -
  obtain r s r2 s2 where r: "sample_run escalating_handler sample_state = (Inr r, s)"
    "resolve_pending sample_job_config sample_event
       (sample_outcome Outcome_COMPLETED ''executioni'') sample_principal s = (Inr r2, s2)"
    by (rule escalating_run)
  from resolve_pending_effect [OF r(2)] r show ?thesis
    by (auto simp: sample_key is_success_def sample_outcome_def)
qed

theorem resolve_pending_once_witness:
  "\<exists>s2. snd (resolve_pending sample_job_config sample_event
          (sample_outcome Outcome_COMPLETED ''executioni'') sample_principal
          (snd (sample_run escalating_handler sample_state))) = s2 \<and>
     resolve_pending sample_job_config sample_event
          (sample_outcome Outcome_FAILED ''executioni'') sample_principal s2 = (Inl ValueError, s2)"
proof -
  obtain r s r2 s2 where r: "sample_run escalating_handler sample_state = (Inr r, s)"
    "resolve_pending sample_job_config sample_event
       (sample_outcome Outcome_COMPLETED ''executioni'') sample_principal s = (Inr r2, s2)"
    by (rule escalating_run)
  have "jr_dedup s2 = dedup_run [] (jr_dedup s2)" by (simp add: dedup_run_def)
  from resolve_pending_once [OF r(2) _ this] r show ?thesis by (simp add: sample_outcome_def)
qed

end
