(* ===== verification/Tool_Definitions.thy ===== *)
theory Tool_Definitions
  imports Governance_Contracts
begin

text \<open>
  \<open>tools/definitions.py\<close>: a tool with its typed boundary. The pydantic input and output models
  are parameters of the tool: \<open>td_input\<close> maps the proposed arguments to the parsed ones, or to
  \<open>None\<close> for a \<open>ValidationError\<close>, and \<open>td_output\<close> maps a returned value to its JSON dump. The
  handler is application code with its own state \<open>'w\<close>. A \<open>ToolInvocationError\<close> is returned with
  its cause, which the registry inspects; one that the handler itself raises has no cause here,
  because an exception of \<open>exc\<close> does not keep its own.
\<close>

datatype handler_return = Enveloped tool_result | Plain pyval

type_synonym 'w tool_handler =
  "execution_context \<Rightarrow> pyval \<Rightarrow> 'w \<Rightarrow> (exc + handler_return) \<times> 'w"

record tool_retry_policy =
  rp_max_attempts :: nat
  rp_backoff :: duration
  rp_retryable_types :: "exc \<Rightarrow> bool"

definition tool_retry_policy_ok :: "tool_retry_policy \<Rightarrow> bool" where
  "tool_retry_policy_ok p \<longleftrightarrow>
     1 \<le> rp_max_attempts p \<and> rp_max_attempts p \<le> 10 \<and>
     0 \<le> rp_backoff p \<and> rp_backoff p \<le> 60 * 1000000"

record 'w tool_definition =
  td_tool_id :: string
  td_version :: string
  td_description :: string
  td_input :: "(string, pyval) dict \<Rightarrow> pyval option"
  td_output :: "pyval \<Rightarrow> pyval option"
  td_handler :: "'w tool_handler"
  td_kind :: tool_kind
  td_risk_level :: risk_level
  td_required_permissions :: "string list"
  td_requires_approval :: bool
  td_idempotency_required :: bool
  td_sensitive_argument_fields :: "string list"
  td_owner_id :: string
  td_tags :: "string list"
  td_lifecycle :: agent_lifecycle_status
  td_timeout :: "duration option"
  td_retryable :: bool
  td_max_attempts :: nat
  td_retry_backoff :: duration
  td_dependencies :: "component_reference list"
  td_allowed_environments :: "string list"
  td_retry_policy :: "tool_retry_policy option"

text \<open>\<open>ToolDefinition.__post_init__\<close>.\<close>

definition tool_definition_ok :: "'w tool_definition \<Rightarrow> bool" where
  "tool_definition_ok t \<longleftrightarrow>
     (\<forall>r \<in> set (td_dependencies t). cr_component_type r = Component_TOOL) \<and>
     \<not> blank (td_tool_id t) \<and> \<not> blank (td_version t) \<and> \<not> blank (td_description t) \<and>
     distinct (td_required_permissions t) \<and> distinct (td_sensitive_argument_fields t) \<and>
     \<not> blank (td_owner_id t) \<and> distinct (td_tags t) \<and>
     (case td_timeout t of None \<Rightarrow> True | Some d \<Rightarrow> 0 < d) \<and>
     1 \<le> td_max_attempts t \<and> td_max_attempts t \<le> 10 \<and>
     0 \<le> td_retry_backoff t \<and> td_retry_backoff t \<le> 60 * 1000000 \<and>
     distinct (td_dependencies t) \<and> distinct (td_allowed_environments t) \<and>
     (\<forall>e \<in> set (td_allowed_environments t). \<not> blank e) \<and>
     (case td_retry_policy t of None \<Rightarrow> True | Some p \<Rightarrow> tool_retry_policy_ok p)"

definition retry_enabled :: "'w tool_definition \<Rightarrow> bool" where
  "retry_enabled t \<longleftrightarrow>
     td_retryable t \<or> (case td_retry_policy t of None \<Rightarrow> False | Some p \<Rightarrow> rp_max_attempts p > 1)"

definition retry_max_attempts :: "'w tool_definition \<Rightarrow> nat" where
  "retry_max_attempts t =
     (case td_retry_policy t of Some p \<Rightarrow> rp_max_attempts p | None \<Rightarrow> td_max_attempts t)"

definition retry_backoff :: "'w tool_definition \<Rightarrow> duration" where
  "retry_backoff t =
     (case td_retry_policy t of Some p \<Rightarrow> rp_backoff p | None \<Rightarrow> td_retry_backoff t)"

text \<open>A raised \<open>ToolInvocationError\<close> and its \<open>__cause__\<close>.\<close>

record tool_error =
  te_code :: string
  te_retryable :: bool
  te_cause :: "exc option"

definition tool_exc :: "tool_error \<Rightarrow> exc" where
  "tool_exc e = ToolInvocationError (te_code e) (te_retryable e)"

definition plain_error :: "string \<Rightarrow> tool_error" where
  "plain_error code = \<lparr>te_code = code, te_retryable = False, te_cause = None\<rparr>"

definition caused_error :: "string \<Rightarrow> bool \<Rightarrow> exc \<Rightarrow> tool_error" where
  "caused_error code r cause = \<lparr>te_code = code, te_retryable = r, te_cause = Some cause\<rparr>"

definition validate_arguments ::
  "'w tool_definition \<Rightarrow> (string, pyval) dict \<Rightarrow> tool_error + pyval" where
  "validate_arguments t arguments =
     (case td_input t arguments of
        Some v \<Rightarrow> Inr v
      | None \<Rightarrow> Inl (caused_error ''invalid_arguments'' False ValidationError))"

definition validate_output :: "'w tool_definition \<Rightarrow> pyval \<Rightarrow> tool_error + pyval" where
  "validate_output t v =
     (case td_output t v of
        Some j \<Rightarrow> Inr j
      | None \<Rightarrow> Inl (caused_error ''invalid_output'' False ValidationError))"

definition enveloped_identity_ok :: "'w tool_definition \<Rightarrow> tool_result \<Rightarrow> string \<Rightarrow> bool" where
  "enveloped_identity_ok t r execution_id \<longleftrightarrow>
     tr_tool_id r = td_tool_id t \<and>
     (tr_tool_version r = None \<or> tr_tool_version r = Some (td_version t)) \<and>
     (tr_execution_id r = None \<or> tr_execution_id r = Some execution_id)"

definition finish_enveloped ::
  "'w tool_definition \<Rightarrow> execution_context \<Rightarrow> tool_result \<Rightarrow> tool_error + tool_result" where
  "finish_enveloped t c r =
     (if \<not> enveloped_identity_ok t r (ec_execution_id c)
      then Inl (plain_error ''invalid_result_identity'')
      else if tr_status r = TR_SUCCEEDED \<and> tr_output r = None
      then Inl (plain_error ''invalid_output'')
      else
        (let done = (\<lambda>out. Inr (r\<lparr>tr_tool_version := Some (td_version t),
                                  tr_execution_id := Some (ec_execution_id c),
                                  tr_output := out\<rparr>))
         in case tr_output r of
              None \<Rightarrow> done None
            | Some v \<Rightarrow> (case validate_output t v of Inl e \<Rightarrow> Inl e | Inr j \<Rightarrow> done (Some j))))"

definition succeeded_result ::
  "'w tool_definition \<Rightarrow> execution_context \<Rightarrow> pyval \<Rightarrow> tool_result" where
  "succeeded_result t c j =
     \<lparr>tr_tool_id = td_tool_id t, tr_tool_version = Some (td_version t),
      tr_execution_id = Some (ec_execution_id c), tr_status = TR_SUCCEEDED, tr_output = Some j,
      tr_confidence = 1, tr_evidence = [], tr_restricted = False, tr_conflicts = [],
      tr_injection_flags = [], tr_error_code = None, tr_metadata = []\<rparr>"

text \<open>
  \<open>ToolDefinition.invoke\<close>. An exit signal is not an \<open>Exception\<close> and leaves the call as it is;
  it is returned in the outer sum.
\<close>

definition tool_invoke ::
  "'w tool_definition \<Rightarrow> execution_context \<Rightarrow> (string, pyval) dict \<Rightarrow> 'w \<Rightarrow>
   (exc + (tool_error + tool_result)) \<times> 'w" where
  "tool_invoke t c arguments w =
     (case validate_arguments t arguments of
        Inl e \<Rightarrow> (Inr (Inl e), w)
      | Inr parsed \<Rightarrow>
          (case td_handler t c parsed w of
             (Inl ExitSignal, w1) \<Rightarrow> (Inl ExitSignal, w1)
           | (Inl (ToolInvocationError code r), w1) \<Rightarrow>
               (Inr (Inl \<lparr>te_code = code, te_retryable = r, te_cause = None\<rparr>), w1)
           | (Inl e, w1) \<Rightarrow> (Inr (Inl (caused_error ''handler_failed'' (exc_retryable e) e)), w1)
           | (Inr (Enveloped r), w1) \<Rightarrow> (Inr (finish_enveloped t c r), w1)
           | (Inr (Plain v), w1) \<Rightarrow>
               (Inr (case validate_output t v of
                       Inl e \<Rightarrow> Inl e | Inr j \<Rightarrow> Inr (succeeded_result t c j)), w1)))"

text \<open>The JSON encoder and SHA-256 are parameters, as in \<open>Events\<close>.\<close>

definition action_digest ::
  "(string \<Rightarrow> string) \<Rightarrow> (pyval \<Rightarrow> string) \<Rightarrow> 'w tool_definition \<Rightarrow> (string, pyval) dict \<Rightarrow> string" where
  "action_digest sha256 dumps t arguments =
     sha256 (dumps (PDict [(''tool_id'', PStr (td_tool_id t)),
                           (''tool_version'', PStr (td_version t)),
                           (''arguments'', PDict arguments)]))"

definition redact_arguments ::
  "'w tool_definition \<Rightarrow> (string, pyval) dict \<Rightarrow> (string, pyval) dict" where
  "redact_arguments t arguments =
     map (\<lambda>(k, v). (k, if k \<in> set (td_sensitive_argument_fields t) then PStr ''[REDACTED]'' else v))
       arguments"

section \<open>Lemmas\<close>

lemma finish_enveloped_Inr:
  "finish_enveloped t c r = Inr r' \<Longrightarrow>
     tr_tool_id r' = td_tool_id t \<and> tr_tool_version r' = Some (td_version t) \<and>
     tr_execution_id r' = Some (ec_execution_id c) \<and> tr_status r' = tr_status r \<and>
     (\<forall>j. tr_output r' = Some j \<longrightarrow> (\<exists>v. td_output t v = Some j)) \<and>
     (tr_status r' = TR_SUCCEEDED \<longrightarrow> tr_output r' \<noteq> None)"
  by (auto simp: finish_enveloped_def Let_def validate_output_def enveloped_identity_ok_def
      split: if_splits option.splits sum.splits)

lemma tool_invoke_Inr:
  assumes "tool_invoke t c arguments w = (Inr (Inr r), w')"
  shows "tr_tool_id r = td_tool_id t \<and> tr_tool_version r = Some (td_version t) \<and>
         tr_execution_id r = Some (ec_execution_id c) \<and>
         (\<forall>j. tr_output r = Some j \<longrightarrow> (\<exists>v. td_output t v = Some j)) \<and>
         (tr_status r = TR_SUCCEEDED \<longrightarrow> tr_output r \<noteq> None) \<and> td_input t arguments \<noteq> None"
proof -
  have "(\<exists>r0. finish_enveloped t c r0 = Inr r) \<or> (\<exists>v j. validate_output t v = Inr j \<and> r = succeeded_result t c j)"
    using assms unfolding tool_invoke_def
    by (auto split: sum.splits prod.splits exc.splits handler_return.splits)
  then have "tr_tool_id r = td_tool_id t \<and> tr_tool_version r = Some (td_version t) \<and>
         tr_execution_id r = Some (ec_execution_id c) \<and>
         (\<forall>j. tr_output r = Some j \<longrightarrow> (\<exists>v. td_output t v = Some j)) \<and>
         (tr_status r = TR_SUCCEEDED \<longrightarrow> tr_output r \<noteq> None)"
    using finish_enveloped_Inr by (auto simp: succeeded_result_def validate_output_def split: option.splits)
  moreover have "td_input t arguments \<noteq> None"
    using assms by (auto simp: tool_invoke_def validate_arguments_def split: option.splits)
  ultimately show ?thesis by blast
qed

lemma retry_max_attempts_pos: "tool_definition_ok t \<Longrightarrow> 1 \<le> retry_max_attempts t"
  by (auto simp: tool_definition_ok_def retry_max_attempts_def tool_retry_policy_ok_def
      split: option.splits)

end
