(* ===== verification/Permissions.thy ===== *)
theory Permissions
  imports Tool_Definitions
begin

text \<open>
  \<open>governance/permissions.py\<close>: the declarative policy engine and the permission broker. Resource
  hooks are application code: a hook is the function that maps the proposed call to its answer
  (after \<open>_call_resource_hook\<close> has matched its signature), or to the exception it raises.
  Frozen sets are lists used for membership only.
\<close>

section \<open>Configuration\<close>

record environment_constraint =
  env_allowed_tool_ids :: "string list option"
  env_max_risk_level :: risk_level

definition environment_constraint_ok :: "environment_constraint \<Rightarrow> bool" where
  "environment_constraint_ok c \<longleftrightarrow>
     (case env_allowed_tool_ids c of None \<Rightarrow> True | Some ids \<Rightarrow> list_all (\<lambda>i. \<not> blank i) ids)"

datatype hook_answer = HookDecision policy_decision | HookBool bool

record 'w proposal =
  pr_principal :: principal_context
  pr_execution :: execution_context
  pr_tool :: "'w tool_definition"
  pr_arguments :: "(string, pyval) dict"
  pr_resource :: "resource_context option"

type_synonym 'w resource_hook = "'w proposal \<Rightarrow> exc + hook_answer"

type_synonym allow_mapping = "(string, string list) dict option"

record 'w policy_engine =
  pe_policies :: "policy_definition list"
  pe_principal_tool_permissions :: allow_mapping
  pe_principal_permissions :: allow_mapping
  pe_agent_tool_allowlists :: allow_mapping
  pe_environment_constraints :: "(string, environment_constraint) dict"
  pe_environment_tool_allowlists :: allow_mapping
  pe_max_risk_by_environment :: "(string, risk_level) dict"
  pe_hooks :: "'w resource_hook list"

text \<open>The check of the constructor: identity and version pairs are unique.\<close>

definition policy_engine_ok :: "'w policy_engine \<Rightarrow> bool" where
  "policy_engine_ok pe \<longleftrightarrow>
     distinct (map (\<lambda>p. (pol_policy_id p, pol_version p)) (pe_policies pe))"

record engine_state =
  pes_world :: world
  pes_decisions :: "policy_decision list"

section \<open>The checks against the execution authority\<close>

definition mapping_denies :: "allow_mapping \<Rightarrow> string \<Rightarrow> string \<Rightarrow> bool" where
  "mapping_denies mapping identity tool_id =
     (case mapping of
        None \<Rightarrow> False
      | Some m \<Rightarrow> (case map_of m identity of None \<Rightarrow> True | Some allowed \<Rightarrow> tool_id \<notin> set allowed))"

definition principal_permission_denies ::
  "'w policy_engine \<Rightarrow> principal_context \<Rightarrow> 'w tool_definition \<Rightarrow> bool" where
  "principal_permission_denies pe who tool =
     (case pe_principal_permissions pe of
        None \<Rightarrow> False
      | Some m \<Rightarrow>
          (case map_of m (pc_principal_id who) of
             None \<Rightarrow> td_required_permissions tool \<noteq> []
           | Some granted \<Rightarrow> \<not> list_all (\<lambda>x. x \<in> set granted) (td_required_permissions tool)))"

definition environment_failure ::
  "'w policy_engine \<Rightarrow> execution_context \<Rightarrow> 'w tool_definition \<Rightarrow> string option" where
  "environment_failure pe ex tool =
     (let constraint = map_of (pe_environment_constraints pe) (ec_environment ex)
      in if pe_environment_constraints pe \<noteq> [] \<and> constraint = None
         then Some ''environment_not_configured''
         else if (case constraint of None \<Rightarrow> False
                  | Some c \<Rightarrow> (case env_allowed_tool_ids c of None \<Rightarrow> False
                              | Some ids \<Rightarrow> td_tool_id tool \<notin> set ids))
         then Some ''environment_tool_not_allowed''
         else if (case constraint of None \<Rightarrow> False
                  | Some c \<Rightarrow> risk_exceeds (td_risk_level tool) (env_max_risk_level c))
         then Some ''risk_exceeds_environment_limit''
         else if mapping_denies (pe_environment_tool_allowlists pe) (ec_environment ex) (td_tool_id tool)
         then Some ''environment_tool_not_allowed''
         else
           (case map_of (pe_max_risk_by_environment pe) (ec_environment ex) of
              None \<Rightarrow> None
            | Some m \<Rightarrow> if risk_exceeds (td_risk_level tool) m
                        then Some ''risk_exceeds_environment_limit'' else None))"

definition missing_permissions :: "'w tool_definition \<Rightarrow> execution_context \<Rightarrow> string list" where
  "missing_permissions tool ex =
     filter (\<lambda>x. x \<notin> set (ec_granted_permissions ex)) (remdups (td_required_permissions tool))"

text \<open>The first failing check of \<open>evaluate\<close>, with the reason code and the metadata of its denial.\<close>

definition authority_denial ::
  "'w policy_engine \<Rightarrow> 'w proposal \<Rightarrow> (string \<times> (string, string) dict) option" where
  "authority_denial pe p =
     (let who = pr_principal p; ex = pr_execution p; tool = pr_tool p
      in if ec_principal ex \<noteq> who then Some (''principal_context_mismatch'', [])
         else if td_lifecycle tool \<noteq> Life_ACTIVE then Some (''tool_not_active'', [])
         else if td_tool_id tool \<notin> set (ec_authorized_tool_ids ex)
         then Some (''tool_not_in_execution_allowlist'', [])
         else if td_allowed_environments tool \<noteq> [] \<and>
                 ec_environment ex \<notin> set (td_allowed_environments tool)
         then Some (''tool_not_allowed_in_environment'', [])
         else if mapping_denies (pe_principal_tool_permissions pe) (pc_principal_id who) (td_tool_id tool)
         then Some (''principal_tool_not_allowed'', [])
         else if mapping_denies (pe_agent_tool_allowlists pe) (ec_agent_id ex) (td_tool_id tool)
         then Some (''agent_tool_not_allowed'', [])
         else if principal_permission_denies pe who tool
         then Some (''principal_permission_missing'', [])
         else
           (case environment_failure pe ex tool of
              Some r \<Rightarrow> Some (r, [])
            | None \<Rightarrow>
                if risk_exceeds (td_risk_level tool) (ec_max_risk_level ex)
                then Some (''risk_exceeds_execution_limit'', [])
                else if missing_permissions tool ex \<noteq> []
                then Some (''required_permission_missing'',
                           [(''missing_permission_count'', str_nat (length (missing_permissions tool ex)))])
                else None))"

section \<open>Policy rules\<close>

definition rule_matches :: "policy_rule \<Rightarrow> 'w proposal \<Rightarrow> bool" where
  "rule_matches r p =
     (let who = pr_principal p; ex = pr_execution p; tool = pr_tool p; res = pr_resource p
      in if rule_tool_ids r \<noteq> [] \<and> td_tool_id tool \<notin> set (rule_tool_ids r) then False
         else if rule_agent_ids r \<noteq> [] \<and> ec_agent_id ex \<notin> set (rule_agent_ids r) then False
         else if rule_principal_ids r \<noteq> [] \<and> pc_principal_id who \<notin> set (rule_principal_ids r) then False
         else if rule_tenant_ids r \<noteq> [] \<and> pc_tenant_id who \<notin> set (rule_tenant_ids r) then False
         else if rule_required_permissions r \<noteq> [] \<and>
                 \<not> list_all (\<lambda>x. x \<in> set (ec_granted_permissions ex)) (rule_required_permissions r)
         then False
         else if rule_environments r \<noteq> [] \<and> ec_environment ex \<notin> set (rule_environments r) then False
         else if rule_risk_levels r \<noteq> [] \<and> td_risk_level tool \<notin> set (rule_risk_levels r) then False
         else if rule_resource_types r \<noteq> [] \<and>
                 (case res of None \<Rightarrow> True | Some x \<Rightarrow> rc_resource_type x \<notin> set (rule_resource_types r))
         then False
         else if rule_resource_ids r \<noteq> [] \<and>
                 (case res of None \<Rightarrow> True
                  | Some x \<Rightarrow> (case rc_resource_id x of None \<Rightarrow> True
                              | Some i \<Rightarrow> i \<notin> set (rule_resource_ids r)))
         then False
         else \<not> (rule_requires_approval r = Some False \<and> td_requires_approval tool))"

definition default_rule :: "policy_definition \<Rightarrow> policy_rule" where
  "default_rule pol =
     \<lparr>rule_rule_id = ''default:'' @ pol_policy_id pol, rule_effect = pol_default_effect pol,
      rule_tool_ids = [], rule_agent_ids = [], rule_principal_ids = [], rule_tenant_ids = [],
      rule_required_permissions = [], rule_environments = [], rule_risk_levels = [],
      rule_resource_types = [], rule_resource_ids = [], rule_requires_approval = None\<rparr>"

definition matched_rules :: "'w proposal \<Rightarrow> policy_definition \<Rightarrow> policy_rule list" where
  "matched_rules p pol = filter (\<lambda>r. rule_matches r p) (pol_rules pol)"

text \<open>What a policy contributes to \<open>matching_allow\<close> and \<open>matching_deny\<close>: its matched rules, or its default.\<close>

definition policy_targets :: "'w proposal \<Rightarrow> policy_definition \<Rightarrow> (policy_definition \<times> policy_rule) list" where
  "policy_targets p pol =
     (if matched_rules p pol = [] then [(pol, default_rule pol)]
      else map (Pair pol) (matched_rules p pol))"

definition matched_ids :: "'w policy_engine \<Rightarrow> 'w proposal \<Rightarrow> string list" where
  "matched_ids pe p =
     concat (map (\<lambda>pol. map (\<lambda>r. pol_policy_id pol @ '':'' @ rule_rule_id r) (matched_rules p pol))
       (pe_policies pe))"

definition rules_require_approval :: "'w policy_engine \<Rightarrow> 'w proposal \<Rightarrow> bool" where
  "rules_require_approval pe p \<longleftrightarrow>
     td_requires_approval (pr_tool p) \<or>
     list_ex (\<lambda>pol. list_ex (\<lambda>r. rule_requires_approval r = Some True) (matched_rules p pol))
       (pe_policies pe)"

section \<open>Decisions\<close>

definition base_decision :: "string \<Rightarrow> 'w proposal \<Rightarrow> policy_decision" where
  "base_decision i p =
     \<lparr>pd_decision_id = i, pd_allowed = False, pd_principal_id = pc_principal_id (pr_principal p),
      pd_tenant_id = pc_tenant_id (pr_principal p), pd_agent_id = ec_agent_id (pr_execution p),
      pd_tool_id = td_tool_id (pr_tool p), pd_environment = ec_environment (pr_execution p),
      pd_risk_level = td_risk_level (pr_tool p), pd_reason_code = [], pd_policy_id = None,
      pd_policy_version = None, pd_rule_id = None, pd_matched_rule_ids = [],
      pd_approval_required = False,
      pd_resource_type = map_option rc_resource_type (pr_resource p),
      pd_resource_id = Option.bind (pr_resource p) rc_resource_id, pd_metadata = []\<rparr>"

text \<open>Constructing the model validates it.\<close>

definition mk_decision :: "policy_decision \<Rightarrow> exc + policy_decision" where
  "mk_decision d = (if policy_decision_ok d then Inr d else Inl ValidationError)"

definition evaluate_definitions ::
  "'w policy_engine \<Rightarrow> 'w proposal \<Rightarrow> policy_decision \<Rightarrow> exc + policy_decision" where
  "evaluate_definitions pe p base =
     (if pe_policies pe = [] then
        mk_decision (base\<lparr>pd_allowed := True, pd_reason_code := ''allowed_by_execution_authority'',
                          pd_approval_required := td_requires_approval (pr_tool p)\<rparr>)
      else
        (case filter (\<lambda>pol. pol_lifecycle pol \<noteq> Life_ACTIVE) (pe_policies pe) of
           pol # _ \<Rightarrow>
             mk_decision (base\<lparr>pd_allowed := False, pd_reason_code := ''policy_not_active'',
                               pd_policy_id := Some (pol_policy_id pol),
                               pd_policy_version := Some (pol_version pol)\<rparr>)
         | [] \<Rightarrow>
             (let targets = concat (map (policy_targets p) (pe_policies pe));
                  deny = filter (\<lambda>(pol, r). rule_effect r \<noteq> Effect_ALLOW) targets;
                  allow = filter (\<lambda>(pol, r). rule_effect r = Effect_ALLOW) targets;
                  decide = (\<lambda>(pol, r) allowed reason.
                    mk_decision (base\<lparr>pd_allowed := allowed, pd_reason_code := reason,
                                      pd_policy_id := Some (pol_policy_id pol),
                                      pd_policy_version := Some (pol_version pol),
                                      pd_rule_id := Some (rule_rule_id r),
                                      pd_matched_rule_ids := matched_ids pe p,
                                      pd_approval_required := rules_require_approval pe p\<rparr>))
              in case deny of
                   d # _ \<Rightarrow> decide d False ''policy_denied''
                 | [] \<Rightarrow> decide (hd allow) True ''allowed_by_policy'')))"

text \<open>The loop over the resource hooks, from the hook with index \<open>n\<close>.\<close>

definition hook_decision ::
  "policy_decision \<Rightarrow> nat \<Rightarrow> exc + hook_answer \<Rightarrow> exc + policy_decision" where
  "hook_decision base n answer =
     (case answer of
        Inl ExitSignal \<Rightarrow> Inl ExitSignal
      | Inl e \<Rightarrow>
          mk_decision (base\<lparr>pd_allowed := False, pd_reason_code := ''resource_policy_error'',
                            pd_metadata := [(''resource_hook'', str_nat n)]\<rparr>)
      | Inr (HookDecision d) \<Rightarrow>
          Inr (base\<lparr>pd_allowed := pd_allowed d, pd_reason_code := pd_reason_code d,
                    pd_policy_id := pd_policy_id d, pd_policy_version := pd_policy_version d,
                    pd_rule_id := pd_rule_id d, pd_matched_rule_ids := pd_matched_rule_ids d,
                    pd_approval_required := pd_approval_required d,
                    pd_metadata := AList.update ''resource_hook'' (str_nat n) (pd_metadata d)\<rparr>)
      | Inr (HookBool b) \<Rightarrow>
          mk_decision (base\<lparr>pd_allowed := b,
                            pd_reason_code := (if b then ''resource_policy_allowed''
                                               else ''resource_policy_denied''),
                            pd_metadata := [(''resource_hook'', str_nat n)]\<rparr>))"

fun evaluate_hooks ::
  "policy_decision \<Rightarrow> 'w proposal \<Rightarrow> nat \<Rightarrow> 'w resource_hook list \<Rightarrow> policy_decision option \<Rightarrow>
   exc + policy_decision option" where
  "evaluate_hooks base p n [] approval = Inr approval"
| "evaluate_hooks base p n (h # hs) approval =
     bindE (hook_decision base n (h p)) (\<lambda>d.
       if \<not> pd_allowed d then Inr (Some d)
       else evaluate_hooks base p (Suc n) hs
              (if pd_approval_required d \<and> approval = None then Some d else approval))"

text \<open>\<open>evaluate\<close> without the recording of the decision.\<close>

definition decide_proposal ::
  "'w policy_engine \<Rightarrow> 'w proposal \<Rightarrow> policy_decision \<Rightarrow> exc + policy_decision" where
  "decide_proposal pe p base =
     (case authority_denial pe p of
        Some (reason, md) \<Rightarrow>
          mk_decision (base\<lparr>pd_allowed := False, pd_reason_code := reason, pd_metadata := md\<rparr>)
      | None \<Rightarrow>
          bindE (evaluate_definitions pe p base) (\<lambda>d.
            if \<not> pd_allowed d then Inr d
            else bindE (evaluate_hooks base p 1 (pe_hooks pe) None) (\<lambda>h.
              case h of
                Some hd' \<Rightarrow>
                  if \<not> pd_allowed hd' then Inr hd'
                  else
                    (let approval = pd_approval_required d \<or> td_requires_approval (pr_tool p) \<or>
                                    pd_approval_required hd'
                     in Inr (d\<lparr>pd_allowed := True, pd_approval_required := approval,
                               pd_reason_code := (if approval then ''policy_allows_with_approval''
                                                  else pd_reason_code d)\<rparr>))
              | None \<Rightarrow>
                    (let approval = pd_approval_required d \<or> td_requires_approval (pr_tool p)
                     in Inr (d\<lparr>pd_allowed := True, pd_approval_required := approval,
                               pd_reason_code := (if approval then ''policy_allows_with_approval''
                                                  else pd_reason_code d)\<rparr>)))))"

definition evaluate ::
  "'w policy_engine \<Rightarrow> 'w proposal \<Rightarrow> engine_state \<Rightarrow> (exc + policy_decision) \<times> engine_state" where
  "evaluate pe p s =
     (case new_id ''policy_decision'' (pes_world s) of (i, w) \<Rightarrow>
        let s1 = s\<lparr>pes_world := w\<rparr>
        in case decide_proposal pe p (base_decision i p) of
             Inl e \<Rightarrow> (Inl e, s1)
           | Inr d \<Rightarrow> (Inr d, s1\<lparr>pes_decisions := pes_decisions s1 @ [d]\<rparr>))"

section \<open>The broker\<close>

definition permission_of ::
  "'w proposal \<Rightarrow> bool \<Rightarrow> string \<Rightarrow> bool \<Rightarrow> policy_decision \<Rightarrow> permission_decision" where
  "permission_of p allowed reason approval d =
     \<lparr>pm_allowed = allowed, pm_principal_id = pc_principal_id (pr_principal p),
      pm_tenant_id = pc_tenant_id (pr_principal p), pm_tool_id = td_tool_id (pr_tool p),
      pm_reason_code = reason, pm_approval_required = approval,
      pm_agent_id = Some (ec_agent_id (pr_execution p)),
      pm_environment = Some (ec_environment (pr_execution p)),
      pm_risk_level = Some (td_risk_level (pr_tool p)), pm_policy_decision = Some d\<rparr>"

definition authorize ::
  "(string \<Rightarrow> string) \<Rightarrow> (pyval \<Rightarrow> string) \<Rightarrow> 'w policy_engine \<Rightarrow> 'w proposal \<Rightarrow> engine_state \<Rightarrow>
   (exc + permission_decision) \<times> engine_state" where
  "authorize sha256 dumps pe p s =
     (case evaluate pe p s of
        (Inl e, s1) \<Rightarrow> (Inl e, s1)
      | (Inr d, s1) \<Rightarrow>
          if \<not> pd_allowed d then (Inr (permission_of p False (pd_reason_code d) False d), s1)
          else if pd_approval_required d \<and>
                  action_digest sha256 dumps (pr_tool p) (pr_arguments p)
                    \<notin> set (ec_approved_action_digests (pr_execution p))
          then (Inr (permission_of p False ''approval_required'' True d), s1)
          else (Inr (permission_of p True
                  (if pd_approval_required d then ''allowed_by_exact_approval'' else pd_reason_code d)
                  False d), s1))"

section \<open>Specification\<close>

text \<open>The authority a call must stay within, whatever the policies and hooks say.\<close>

definition mapping_allows :: "allow_mapping \<Rightarrow> string \<Rightarrow> string \<Rightarrow> bool" where
  "mapping_allows mapping identity tool_id \<longleftrightarrow>
     (\<forall>m. mapping = Some m \<longrightarrow> (\<exists>allowed. map_of m identity = Some allowed \<and> tool_id \<in> set allowed))"

definition environment_permits ::
  "'w policy_engine \<Rightarrow> execution_context \<Rightarrow> 'w tool_definition \<Rightarrow> bool" where
  "environment_permits pe ex tool \<longleftrightarrow>
     (pe_environment_constraints pe \<noteq> [] \<longrightarrow>
        (\<exists>c. map_of (pe_environment_constraints pe) (ec_environment ex) = Some c \<and>
             (\<forall>ids. env_allowed_tool_ids c = Some ids \<longrightarrow> td_tool_id tool \<in> set ids) \<and>
             td_risk_level tool \<le> env_max_risk_level c)) \<and>
     mapping_allows (pe_environment_tool_allowlists pe) (ec_environment ex) (td_tool_id tool) \<and>
     (\<forall>m. map_of (pe_max_risk_by_environment pe) (ec_environment ex) = Some m \<longrightarrow>
          td_risk_level tool \<le> m)"

definition within_authority :: "'w policy_engine \<Rightarrow> 'w proposal \<Rightarrow> bool" where
  "within_authority pe p \<longleftrightarrow>
     (let who = pr_principal p; ex = pr_execution p; tool = pr_tool p in
      ec_principal ex = who \<and> td_lifecycle tool = Life_ACTIVE \<and>
      td_tool_id tool \<in> set (ec_authorized_tool_ids ex) \<and>
      (td_allowed_environments tool = [] \<or> ec_environment ex \<in> set (td_allowed_environments tool)) \<and>
      mapping_allows (pe_principal_tool_permissions pe) (pc_principal_id who) (td_tool_id tool) \<and>
      mapping_allows (pe_agent_tool_allowlists pe) (ec_agent_id ex) (td_tool_id tool) \<and>
      (\<forall>m. pe_principal_permissions pe = Some m \<longrightarrow>
         set (td_required_permissions tool) \<subseteq>
           (case map_of m (pc_principal_id who) of None \<Rightarrow> {} | Some g \<Rightarrow> set g)) \<and>
      environment_permits pe ex tool \<and> td_risk_level tool \<le> ec_max_risk_level ex \<and>
      set (td_required_permissions tool) \<subseteq> set (ec_granted_permissions ex))"

text \<open>Deny overrides: every policy is active, every matching rule allows, and so does the default of
  every policy without a matching rule.\<close>

definition policies_permit :: "policy_definition list \<Rightarrow> 'w proposal \<Rightarrow> bool" where
  "policies_permit pols p \<longleftrightarrow>
     (\<forall>pol \<in> set pols. pol_lifecycle pol = Life_ACTIVE \<and>
        (\<forall>r \<in> set (pol_rules pol). rule_matches r p \<longrightarrow> rule_effect r = Effect_ALLOW) \<and>
        ((\<forall>r \<in> set (pol_rules pol). \<not> rule_matches r p) \<longrightarrow> pol_default_effect pol = Effect_ALLOW))"

fun hook_permits :: "exc + hook_answer \<Rightarrow> bool" where
  "hook_permits (Inl e) = False"
| "hook_permits (Inr (HookDecision d)) = pd_allowed d"
| "hook_permits (Inr (HookBool b)) = b"

fun hook_wants_approval :: "exc + hook_answer \<Rightarrow> bool" where
  "hook_wants_approval (Inr (HookDecision d)) = pd_approval_required d"
| "hook_wants_approval _ = False"

section \<open>Lemmas\<close>

lemma mapping_denies_iff: "mapping_denies m i t \<longleftrightarrow> \<not> mapping_allows m i t"
  by (auto simp: mapping_denies_def mapping_allows_def split: option.splits)

lemma missing_permissions_iff:
  "missing_permissions tool ex = [] \<longleftrightarrow> set (td_required_permissions tool) \<subseteq> set (ec_granted_permissions ex)"
  by (auto simp: missing_permissions_def filter_eq_Nil_iff)

lemma environment_failure_iff:
  "environment_failure pe ex tool = None \<longleftrightarrow> environment_permits pe ex tool"
proof -
  note defs = environment_failure_def environment_permits_def Let_def mapping_denies_iff
  show ?thesis
  proof (cases "map_of (pe_environment_constraints pe) (ec_environment ex)")
    case None
    then show ?thesis
      by (cases "map_of (pe_max_risk_by_environment pe) (ec_environment ex)")
        (simp_all add: defs not_less [symmetric])
  next
    case (Some c)
    then have "pe_environment_constraints pe \<noteq> []" by auto
    with Some show ?thesis
      by (cases "map_of (pe_max_risk_by_environment pe) (ec_environment ex)"; cases "env_allowed_tool_ids c")
        (simp_all add: defs not_less [symmetric])
  qed
qed

lemma authority_denial_iff: "authority_denial pe p = None \<longleftrightarrow> within_authority pe p"
proof -
  have "principal_permission_denies pe who tool \<longleftrightarrow>
      \<not> (\<forall>m. pe_principal_permissions pe = Some m \<longrightarrow> set (td_required_permissions tool) \<subseteq>
           (case map_of m (pc_principal_id who) of None \<Rightarrow> {} | Some g \<Rightarrow> set g))" for who tool
    by (auto simp: principal_permission_denies_def list_all_iff split: option.splits)
  then show ?thesis
    unfolding authority_denial_def within_authority_def Let_def mapping_denies_iff
      environment_failure_iff [symmetric] missing_permissions_iff [symmetric]
    by (cases "environment_failure pe (pr_execution p) (pr_tool p)") (simp_all add: not_less [symmetric])
qed

lemma mk_decision_Inr [simp]: "mk_decision d = Inr d' \<longleftrightarrow> policy_decision_ok d \<and> d' = d"
  by (auto simp: mk_decision_def)

lemma denied_targets_iff:
  assumes "\<forall>pol \<in> set pols. pol_lifecycle pol = Life_ACTIVE"
  shows "filter (\<lambda>(pol, r). rule_effect r \<noteq> Effect_ALLOW) (concat (map (policy_targets p) pols)) = [] \<longleftrightarrow>
         policies_permit pols p"
proof -
  have one: "(\<forall>x \<in> set (policy_targets p pol). rule_effect (snd x) = Effect_ALLOW) \<longleftrightarrow>
      (\<forall>r \<in> set (pol_rules pol). rule_matches r p \<longrightarrow> rule_effect r = Effect_ALLOW) \<and>
      ((\<forall>r \<in> set (pol_rules pol). \<not> rule_matches r p) \<longrightarrow> pol_default_effect pol = Effect_ALLOW)" for pol
    by (auto simp: policy_targets_def matched_rules_def default_rule_def filter_eq_Nil_iff)
  have "filter (\<lambda>(pol, r). rule_effect r \<noteq> Effect_ALLOW) (concat (map (policy_targets p) pols)) = [] \<longleftrightarrow>
        (\<forall>pol \<in> set pols. \<forall>x \<in> set (policy_targets p pol). rule_effect (snd x) = Effect_ALLOW)"
    by (force simp: filter_eq_Nil_iff)
  with one assms show ?thesis by (simp add: policies_permit_def)
qed

lemma evaluate_definitions_allowed:
  assumes "evaluate_definitions pe p base = Inr d"
  shows "(pd_allowed d \<longleftrightarrow> policies_permit (pe_policies pe) p) \<and>
         (pd_allowed d \<longrightarrow> pd_approval_required d = rules_require_approval pe p)"
proof (cases "pe_policies pe = []")
  case True
  with assms show ?thesis
    by (auto simp: evaluate_definitions_def policies_permit_def rules_require_approval_def)
next
  case False
  show ?thesis
  proof (cases "filter (\<lambda>pol. pol_lifecycle pol \<noteq> Life_ACTIVE) (pe_policies pe)")
    case (Cons pol rest)
    then have "pol \<in> set (pe_policies pe)" "pol_lifecycle pol \<noteq> Life_ACTIVE"
      by (auto simp: filter_eq_Cons_iff)
    with Cons False assms show ?thesis
      by (auto simp: evaluate_definitions_def policies_permit_def)
  next
    case Nil
    then have "\<forall>pol \<in> set (pe_policies pe). pol_lifecycle pol = Life_ACTIVE"
      by (simp add: filter_eq_Nil_iff)
    note iff = denied_targets_iff [OF this, of p]
    from assms False Nil iff show ?thesis
      by (auto simp: evaluate_definitions_def Let_def split: list.splits prod.splits)
  qed
qed

lemma hook_decision_Inr:
  assumes "hook_decision base n a = Inr d"
  shows "pd_allowed d = hook_permits a \<and>
         (pd_allowed d \<longrightarrow> pd_approval_required d = (hook_wants_approval a \<or> (\<exists>b. a = Inr (HookBool b) \<and> pd_approval_required base)))"
  using assms unfolding hook_decision_def
  by (cases a) (auto split: exc.splits hook_answer.splits)

lemma evaluate_hooks_Inr:
  assumes "evaluate_hooks base p n hs ap = Inr r" and "\<not> pd_approval_required base"
    and "pred_option (\<lambda>d. pd_allowed d \<and> pd_approval_required d) ap"
  shows "(pred_option pd_allowed r \<longleftrightarrow> (\<forall>h \<in> set hs. hook_permits (h p))) \<and>
         (pred_option pd_allowed r \<longrightarrow>
            (r \<noteq> None \<longleftrightarrow> ap \<noteq> None \<or> (\<exists>h \<in> set hs. hook_wants_approval (h p))) \<and>
            pred_option pd_approval_required r)"
  using assms
proof (induction hs arbitrary: n ap)
  case Nil
  then show ?case by (cases ap) auto
next
  case (Cons h hs)
  from Cons.prems(1) obtain d where d: "hook_decision base n (h p) = Inr d"
    and r: "(if \<not> pd_allowed d then Inr (Some d)
             else evaluate_hooks base p (Suc n) hs
              (if pd_approval_required d \<and> ap = None then Some d else ap)) = Inr r"
    by (auto simp: bindE_Inr_iff)
  note h = hook_decision_Inr [OF d]
  show ?case
  proof (cases "pd_allowed d")
    case False
    with r h show ?thesis by auto
  next
    case True
    let ?ap = "if pd_approval_required d \<and> ap = None then Some d else ap"
    from True r have r': "evaluate_hooks base p (Suc n) hs ?ap = Inr r" by simp
    have wants: "pd_approval_required d = hook_wants_approval (h p)" "hook_permits (h p)"
      using h True Cons.prems(2) by auto
    have "pred_option (\<lambda>d. pd_allowed d \<and> pd_approval_required d) ?ap"
      using Cons.prems(3) True by simp
    from Cons.IH [OF r' Cons.prems(2) this] show ?thesis
      using wants by (cases ap; cases "hook_wants_approval (h p)") simp_all
  qed
qed

lemma base_approval [simp]: "\<not> pd_approval_required (base_decision i p)"
  by (simp add: base_decision_def)

definition approval_demanded :: "'w policy_engine \<Rightarrow> 'w proposal \<Rightarrow> bool" where
  "approval_demanded pe p \<longleftrightarrow>
     rules_require_approval pe p \<or> (\<exists>h \<in> set (pe_hooks pe). hook_wants_approval (h p))"

lemma decide_proposal_Inr:
  assumes "decide_proposal pe p (base_decision i p) = Inr d"
  shows "(pd_allowed d \<longleftrightarrow> within_authority pe p \<and> policies_permit (pe_policies pe) p \<and>
            (\<forall>h \<in> set (pe_hooks pe). hook_permits (h p))) \<and>
         (pd_allowed d \<longrightarrow> pd_approval_required d = approval_demanded pe p)"
proof (cases "authority_denial pe p")
  case (Some a)
  with assms authority_denial_iff [of pe p] show ?thesis
    by (cases a) (auto simp: decide_proposal_def)
next
  case None
  then have auth: "within_authority pe p" by (simp add: authority_denial_iff)
  from assms None obtain d1 where d1: "evaluate_definitions pe p (base_decision i p) = Inr d1"
    by (auto simp: decide_proposal_def bindE_Inr_iff)
  note defs = evaluate_definitions_allowed [OF d1]
  show ?thesis
  proof (cases "pd_allowed d1")
    case False
    with assms None d1 have "d = d1" by (simp add: decide_proposal_def)
    with False defs show ?thesis by simp
  next
    case True
    with assms None d1 obtain r where
      r: "evaluate_hooks (base_decision i p) p 1 (pe_hooks pe) None = Inr r"
      by (auto simp: decide_proposal_def bindE_Inr_iff)
    from evaluate_hooks_Inr [OF r base_approval] have
      hooks: "pred_option pd_allowed r \<longleftrightarrow> (\<forall>h \<in> set (pe_hooks pe). hook_permits (h p))"
        "pred_option pd_allowed r \<longrightarrow> (r \<noteq> None \<longleftrightarrow> (\<exists>h \<in> set (pe_hooks pe). hook_wants_approval (h p))) \<and>
           pred_option pd_approval_required r"
      by auto
    have "td_requires_approval (pr_tool p) \<longrightarrow> rules_require_approval pe p"
      by (simp add: rules_require_approval_def)
    with True assms None d1 r hooks defs auth show ?thesis
      by (cases r) (auto simp: decide_proposal_def approval_demanded_def Let_def split: if_splits)
  qed
qed

lemma evaluate_Inr:
  "evaluate pe p s = (Inr d, s') \<Longrightarrow>
     (\<exists>i. decide_proposal pe p (base_decision i p) = Inr d) \<and>
     pes_decisions s' = pes_decisions s @ [d]"
  by (auto simp: evaluate_def Let_def new_id_def split: sum.splits)

section \<open>Properties\<close>

text \<open>
  The engine decides exactly by its specification. A recorded decision allows the call if and
  only if the call is within the execution's authority, every policy is active and neither a
  matching rule nor a default denies, and every resource hook permits it; an allowed call needs
  approval exactly when the tool, a matched rule or a hook asks for it; and the decision is
  appended to the engine's record.
\<close>

theorem policy_decision_exact:
  assumes "evaluate pe p s = (Inr d, s')"
  shows "(pd_allowed d \<longleftrightarrow> within_authority pe p \<and> policies_permit (pe_policies pe) p \<and>
            (\<forall>h \<in> set (pe_hooks pe). hook_permits (h p))) \<and>
         (pd_allowed d \<longrightarrow> pd_approval_required d = approval_demanded pe p) \<and>
         pes_decisions s' = pes_decisions s @ [d]"
  using evaluate_Inr [OF assms] decide_proposal_Inr by blast

text \<open>
  Policies and hooks only restrict. A call allowed under more policies and more hooks, with the
  same mappings, is allowed whenever the engine with fewer of them reaches a decision.
\<close>

theorem policies_only_restrict:
  assumes "evaluate pe p s = (Inr d, s1)" and "pd_allowed d"
    and "set (pe_policies pe2) \<subseteq> set (pe_policies pe)" and "set (pe_hooks pe2) \<subseteq> set (pe_hooks pe)"
    and "pe2\<lparr>pe_policies := pe_policies pe, pe_hooks := pe_hooks pe\<rparr> = pe"
    and "evaluate pe2 p s2 = (Inr d2, s3)"
  shows "pd_allowed d2 \<and> (pd_approval_required d2 \<longrightarrow> pd_approval_required d)"
proof -
  obtain i j where d: "decide_proposal pe p (base_decision i p) = Inr d"
    and d2: "decide_proposal pe2 p (base_decision j p) = Inr d2"
    using evaluate_Inr [OF assms(1)] evaluate_Inr [OF assms(6)] by blast
  note D = decide_proposal_Inr [OF d] and D2 = decide_proposal_Inr [OF d2]
  have "within_authority (pe2\<lparr>pe_policies := a, pe_hooks := b\<rparr>) p = within_authority pe2 p" for a b
    by (simp add: within_authority_def environment_permits_def)
  then have "within_authority pe p = within_authority pe2 p" using assms(5) by metis
  moreover have "approval_demanded pe2 p \<longrightarrow> approval_demanded pe p"
    using assms(3,4) by (auto simp: approval_demanded_def rules_require_approval_def list_ex_iff)
  ultimately show ?thesis
    using D D2 assms(2-4) by (auto simp: policies_permit_def)
qed

text \<open>
  C7: the broker lets a call through only with a permission the specification grants, and, when
  approval is demanded, only when the digest of exactly this tool version and these arguments is
  among the execution's approved digests; the permission names the caller and the tool.
\<close>

theorem permission_exact:
  assumes "authorize sha256 dumps pe p s = (Inr m, s')"
  shows "(pm_allowed m \<longleftrightarrow> within_authority pe p \<and> policies_permit (pe_policies pe) p \<and>
            (\<forall>h \<in> set (pe_hooks pe). hook_permits (h p)) \<and>
            (approval_demanded pe p \<longrightarrow>
               action_digest sha256 dumps (pr_tool p) (pr_arguments p)
                 \<in> set (ec_approved_action_digests (pr_execution p)))) \<and>
         (pm_approval_required m \<longrightarrow> \<not> pm_allowed m) \<and>
         pm_principal_id m = pc_principal_id (pr_principal p) \<and> pm_tool_id m = td_tool_id (pr_tool p)"
proof -
  from assms obtain d where e: "evaluate pe p s = (Inr d, s')"
    by (auto simp: authorize_def split: prod.splits sum.splits if_splits)
  then obtain i where "decide_proposal pe p (base_decision i p) = Inr d" using evaluate_Inr by blast
  from decide_proposal_Inr [OF this] assms e show ?thesis
    by (auto simp: authorize_def permission_of_def split: if_splits)
qed

lemma matched_ids_not_distinct:
  assumes "pol \<in> set (pe_policies pe)" "pol2 \<in> set (pe_policies pe)" "pol \<noteq> pol2"
    and "pol_policy_id pol = pol_policy_id pol2"
    and "r \<in> set (matched_rules p pol)" "r2 \<in> set (matched_rules p pol2)"
    and "rule_rule_id r = rule_rule_id r2"
  shows "\<not> distinct (matched_ids pe p)"
proof
  let ?f = "\<lambda>pol. map (\<lambda>r. pol_policy_id pol @ '':'' @ rule_rule_id r) (matched_rules p pol)"
  assume "distinct (matched_ids pe p)"
  then have d: "distinct (concat (map ?f (pe_policies pe)))" by (simp add: matched_ids_def)
  then have "set (?f pol) \<inter> set (?f pol2) = {}"
    by (rule distinct_concat_disjoint) (use assms(1-3) in auto)
  moreover have "pol_policy_id pol @ '':'' @ rule_rule_id r \<in> set (?f pol)"
    using assms(5) by simp
  moreover have "pol_policy_id pol2 @ '':'' @ rule_rule_id r2 \<in> set (?f pol2)"
    using assms(6) by simp
  then have "pol_policy_id pol @ '':'' @ rule_rule_id r \<in> set (?f pol2)"
    using assms(4,7) by simp
  ultimately show False by (metis disjoint_iff)
qed

text \<open>
  C33: two active versions of one policy can make the engine raise instead of decide. The
  constructor accepts them, but when both have a matching rule with the same rule identifier, the
  matched identifiers (which omit the version) repeat and the decision cannot be constructed:
  a call within authority raises a validation error and no decision is recorded.
\<close>

theorem policy_versions_crash:
  assumes "within_authority pe p"
    and "\<forall>pol \<in> set (pe_policies pe). pol_lifecycle pol = Life_ACTIVE"
    and "pol \<in> set (pe_policies pe)" "pol2 \<in> set (pe_policies pe)" "pol \<noteq> pol2"
    and "pol_policy_id pol = pol_policy_id pol2"
    and "r \<in> set (matched_rules p pol)" "r2 \<in> set (matched_rules p pol2)"
    and "rule_rule_id r = rule_rule_id r2"
  shows "\<exists>s'. evaluate pe p s = (Inl ValidationError, s') \<and> pes_decisions s' = pes_decisions s"
proof -
  have nd: "\<not> distinct (matched_ids pe p)"
    using matched_ids_not_distinct assms(3-9) by blast
  have ne: "pe_policies pe \<noteq> []" using assms(3) by auto
  have act: "filter (\<lambda>pol. pol_lifecycle pol \<noteq> Life_ACTIVE) (pe_policies pe) = []"
    using assms(2) by (simp add: filter_eq_Nil_iff)
  have "evaluate_definitions pe p base = Inl ValidationError" for base
    unfolding evaluate_definitions_def
    using ne act nd by (auto simp: Let_def mk_decision_def policy_decision_ok_def
        split: list.splits prod.splits)
  then show ?thesis
    using assms(1) by (simp add: evaluate_def decide_proposal_def authority_denial_iff [symmetric]
        Let_def new_id_def)
qed

section \<open>Concrete proposals\<close>

definition sample_tool :: "nat tool_definition" where
  "sample_tool =
     \<lparr>td_tool_id = ''mail'', td_version = ''1.0.0'', td_description = ''send'',
      td_input = (\<lambda>a. Some (PDict a)), td_output = Some,
      td_handler = (\<lambda>c v n. (Inr (Plain v), n + 1)), td_kind = Kind_ACTION,
      td_risk_level = Risk_MEDIUM, td_required_permissions = [''send''], td_requires_approval = True,
      td_idempotency_required = False, td_sensitive_argument_fields = [], td_owner_id = ''app'',
      td_tags = [], td_lifecycle = Life_ACTIVE, td_timeout = None, td_retryable = False,
      td_max_attempts = 1, td_retry_backoff = 0, td_dependencies = [], td_allowed_environments = [],
      td_retry_policy = None\<rparr>"

definition sample_caller :: principal_context where
  "sample_caller = \<lparr>pc_principal_id = ''p'', pc_tenant_id = ''t'', pc_session_id = ''s''\<rparr>"

definition sample_execution :: execution_context where
  "sample_execution =
     \<lparr>ec_execution_id = ''x'', ec_agent_id = ''a'', ec_agent_version = ''1.0.0'',
      ec_principal = sample_caller, ec_authorized_tool_ids = [''mail''],
      ec_authorized_tool_versions = [], ec_granted_permissions = [''send''],
      ec_approved_action_digests = [''mail''], ec_max_steps = 3, ec_state_id = ''st'',
      ec_environment = ''dev'', ec_max_risk_level = Risk_HIGH, ec_correlation_id = ''c'',
      ec_parent_execution_id = None, ec_delegation_id = None, ec_delegation_depth = 0,
      ec_delegation_path = [], ec_event_id = None, ec_trigger_id = None, ec_causation_id = None,
      ec_attempt = 0\<rparr>"

definition sample_proposal :: "nat proposal" where
  "sample_proposal =
     \<lparr>pr_principal = sample_caller, pr_execution = sample_execution, pr_tool = sample_tool,
      pr_arguments = [], pr_resource = None\<rparr>"

definition sample_rule :: policy_rule where
  "sample_rule =
     \<lparr>rule_rule_id = ''r1'', rule_effect = Effect_ALLOW, rule_tool_ids = [''mail''],
      rule_agent_ids = [], rule_principal_ids = [], rule_tenant_ids = [],
      rule_required_permissions = [], rule_environments = [], rule_risk_levels = [],
      rule_resource_types = [], rule_resource_ids = [], rule_requires_approval = None\<rparr>"

definition sample_policy :: "string \<Rightarrow> policy_definition" where
  "sample_policy v =
     \<lparr>pol_policy_id = ''base'', pol_version = v, pol_description = ''d'', pol_owner_id = ''o'',
      pol_default_effect = Effect_DENY, pol_rules = [sample_rule], pol_lifecycle = Life_ACTIVE\<rparr>"

definition sample_engine :: "policy_definition list \<Rightarrow> nat resource_hook list \<Rightarrow> nat policy_engine" where
  "sample_engine pols hooks =
     \<lparr>pe_policies = pols, pe_principal_tool_permissions = None, pe_principal_permissions = None,
      pe_agent_tool_allowlists = Some [(''a'', [''mail''])], pe_environment_constraints = [],
      pe_environment_tool_allowlists = None, pe_max_risk_by_environment = [], pe_hooks = hooks\<rparr>"

definition sample_engine_state :: engine_state where
  "sample_engine_state =
     \<lparr>pes_world = \<lparr>make_id = (\<lambda>p n. p), id_calls = 0, clock_at = int, clock_calls = 0\<rparr>,
      pes_decisions = []\<rparr>"

text \<open>A stand-in digest: the tool identifier.\<close>

definition sample_dumps :: "pyval \<Rightarrow> string" where
  "sample_dumps v = (case v of PDict ((k, PStr x) # _) \<Rightarrow> x | _ \<Rightarrow> [])"

lemma sample_evaluates:
  obtains d s where "evaluate (sample_engine [sample_policy ''1''] [\<lambda>_. Inr (HookBool True)])
       sample_proposal sample_engine_state = (Inr d, s)" "pd_allowed d" "pd_approval_required d"
proof -
  have "case evaluate (sample_engine [sample_policy ''1''] [\<lambda>_. Inr (HookBool True)])
       sample_proposal sample_engine_state of
         (Inr d, s) \<Rightarrow> pd_allowed d \<and> pd_approval_required d | _ \<Rightarrow> False"
    by code_simp
  with that show thesis by (auto split: prod.splits sum.splits)
qed

theorem policy_decision_exact_witness:
  "within_authority (sample_engine [sample_policy ''1''] [\<lambda>_. Inr (HookBool True)]) sample_proposal \<and>
   approval_demanded (sample_engine [sample_policy ''1''] [\<lambda>_. Inr (HookBool True)]) sample_proposal"
proof -
  obtain d s where e: "evaluate (sample_engine [sample_policy ''1''] [\<lambda>_. Inr (HookBool True)])
       sample_proposal sample_engine_state = (Inr d, s)" "pd_allowed d" "pd_approval_required d"
    by (rule sample_evaluates)
  from policy_decision_exact [OF e(1)] e(2,3) show ?thesis by simp
qed

theorem policies_only_restrict_witness:
  "\<exists>d s. evaluate (sample_engine [] []) sample_proposal sample_engine_state = (Inr d, s) \<and> pd_allowed d"
proof -
  obtain d s where e: "evaluate (sample_engine [sample_policy ''1''] [\<lambda>_. Inr (HookBool True)])
       sample_proposal sample_engine_state = (Inr d, s)" "pd_allowed d" "pd_approval_required d"
    by (rule sample_evaluates)
  have "case evaluate (sample_engine [] []) sample_proposal sample_engine_state of
         (Inr d, s) \<Rightarrow> True | _ \<Rightarrow> False"
    by code_simp
  then obtain d2 s2 where e2: "evaluate (sample_engine [] []) sample_proposal sample_engine_state = (Inr d2, s2)"
    by (auto split: prod.splits sum.splits)
  have "pd_allowed d2"
    using policies_only_restrict [OF e(1,2) _ _ _ e2] by (simp add: sample_engine_def)
  with e2 show ?thesis by blast
qed

theorem permission_exact_witness:
  "\<exists>m s. authorize (\<lambda>x. x) sample_dumps (sample_engine [sample_policy ''1''] []) sample_proposal
          sample_engine_state = (Inr m, s) \<and> pm_allowed m \<and>
        action_digest (\<lambda>x. x) sample_dumps sample_tool [] \<in> {''mail''}"
proof -
  let ?pe = "sample_engine [sample_policy ''1''] []"
  have "case authorize (\<lambda>x. x) sample_dumps ?pe sample_proposal sample_engine_state of
          (Inr m, s) \<Rightarrow> pm_allowed m | _ \<Rightarrow> False" by code_simp
  then obtain m s where m: "authorize (\<lambda>x. x) sample_dumps ?pe sample_proposal sample_engine_state = (Inr m, s)"
    "pm_allowed m" by (auto split: prod.splits sum.splits)
  have "approval_demanded ?pe sample_proposal"
    by (simp add: approval_demanded_def rules_require_approval_def sample_proposal_def sample_tool_def)
  with permission_exact [OF m(1)] m show ?thesis by (auto simp: sample_proposal_def sample_execution_def)
qed

theorem policy_versions_crash_witness:
  "fst (evaluate (sample_engine [sample_policy ''1'', sample_policy ''2''] []) sample_proposal
          sample_engine_state) = Inl ValidationError \<and>
   policy_engine_ok (sample_engine [sample_policy ''1'', sample_policy ''2''] [])"
proof -
  let ?pe = "sample_engine [sample_policy ''1'', sample_policy ''2''] []"
  have "authority_denial ?pe sample_proposal = None" by code_simp
  then have a: "within_authority ?pe sample_proposal" by (simp add: authority_denial_iff)
  have r: "sample_rule \<in> set (matched_rules sample_proposal (sample_policy v))" for v
    by (simp add: matched_rules_def sample_policy_def rule_matches_def sample_rule_def
        sample_proposal_def sample_tool_def)
  have "\<exists>s'. evaluate ?pe sample_proposal sample_engine_state = (Inl ValidationError, s') \<and>
          pes_decisions s' = pes_decisions sample_engine_state"
    by (rule policy_versions_crash [OF a _ _ _ _ _ r r, of "''1''" "''2''"])
      (simp_all add: sample_engine_def sample_policy_def)
  then show ?thesis by (auto simp: policy_engine_ok_def sample_engine_def sample_policy_def)
qed

end
