(* ===== verification/Approvals.thy ===== *)
theory Approvals
  imports Tool_Definitions
begin

text \<open>
  \<open>governance/approvals.py\<close> and the check the runtime makes of a decision
  (\<open>_validate_approval_decision\<close> of \<open>runtime/execution.py\<close>): the approval policy engine and the
  in-memory broker. The broker reads its clock through \<open>ab_world\<close>, once for each call of
  \<open>_clock\<close> in the source.
\<close>

section \<open>The policy engine\<close>

definition approval_rule_matches ::
  "approval_policy_rule \<Rightarrow> execution_context \<Rightarrow> 'w tool_definition \<Rightarrow> action_proposal \<Rightarrow> bool" where
  "approval_rule_matches r ex tool action \<longleftrightarrow>
     (if apr_tool_ids r \<noteq> [] \<and> td_tool_id tool \<notin> set (apr_tool_ids r) then False
      else if apr_action_ids r \<noteq> [] \<and> ap_action_id action \<notin> set (apr_action_ids r) then False
      else if apr_action_kinds r \<noteq> [] \<and> td_kind tool \<notin> set (apr_action_kinds r) then False
      else if apr_risk_levels r \<noteq> [] \<and> td_risk_level tool \<notin> set (apr_risk_levels r) then False
      else \<not> (apr_environments r \<noteq> [] \<and> ec_environment ex \<notin> set (apr_environments r)))"

text \<open>The rules of a policy that require approval of the action, in order.\<close>

definition requiring_rules ::
  "execution_context \<Rightarrow> 'w tool_definition \<Rightarrow> action_proposal \<Rightarrow> approval_policy \<Rightarrow>
   approval_policy_rule list" where
  "requiring_rules ex tool action pol =
     filter (\<lambda>r. approval_rule_matches r ex tool action \<and> apr_requires_approval r) (apol_rules pol)"

definition policy_requires ::
  "execution_context \<Rightarrow> 'w tool_definition \<Rightarrow> action_proposal \<Rightarrow> approval_policy \<Rightarrow> bool" where
  "policy_requires ex tool action pol \<longleftrightarrow>
     apol_default_requires_approval pol \<or> requiring_rules ex tool action pol \<noteq> []"

definition rule_expiries :: "approval_policy_rule list \<Rightarrow> duration list" where
  "rule_expiries rs = concat (map (\<lambda>r. case apr_expiry r of None \<Rightarrow> [] | Some d \<Rightarrow> [d]) rs)"

definition policy_expiries ::
  "execution_context \<Rightarrow> 'w tool_definition \<Rightarrow> action_proposal \<Rightarrow> approval_policy \<Rightarrow> duration list" where
  "policy_expiries ex tool action pol =
     (let own = rule_expiries (requiring_rules ex tool action pol)
      in if own \<noteq> [] then own
         else (case apol_default_expiry pol of None \<Rightarrow> [] | Some d \<Rightarrow> [d]))"

definition approval_evaluate ::
  "approval_policy list \<Rightarrow> execution_context \<Rightarrow> 'w tool_definition \<Rightarrow> action_proposal \<Rightarrow>
   world \<times> approval_policy_decision list \<Rightarrow>
   (exc + approval_policy_decision) \<times> (world \<times> approval_policy_decision list)" where
  "approval_evaluate pols ex tool action s =
     (case s of (w, made) \<Rightarrow>
        let chosen = filter (\<lambda>pol. apol_lifecycle pol = Life_ACTIVE \<and> policy_requires ex tool action pol) pols;
            expiries = concat (map (policy_expiries ex tool action) chosen);
            (i, w1) = new_id ''approval_policy_decision'' w;
            d = \<lparr>apd_decision_id = i, apd_required = (chosen \<noteq> []),
                 apd_reason_code = (if chosen \<noteq> [] then ''approval_required_by_policy''
                                    else ''no_approval_policy_match''),
                 apd_policy_id = (case chosen of [] \<Rightarrow> None | pol # _ \<Rightarrow> Some (apol_policy_id pol)),
                 apd_policy_version = (case chosen of [] \<Rightarrow> None | pol # _ \<Rightarrow> Some (apol_version pol)),
                 apd_matched_rule_ids =
                   concat (map (\<lambda>pol. map apr_rule_id (requiring_rules ex tool action pol)) chosen),
                 apd_expiry = (if expiries = [] then None else Some (Min (set expiries)))\<rparr>
        in if approval_policy_decision_ok d then (Inr d, (w1, made @ [d]))
           else (Inl ValidationError, (w1, made)))"

section \<open>The broker\<close>

record approval_broker =
  ab_requests :: "(string, approval_request) dict"
  ab_decisions :: "(string, approval_decision) dict"
  ab_consumed :: "string list"
  ab_world :: world

definition ab_now :: "approval_broker \<Rightarrow> time \<times> approval_broker" where
  "ab_now b = (case now (ab_world b) of (t, w) \<Rightarrow> (t, b\<lparr>ab_world := w\<rparr>))"

definition ab_id :: "string \<Rightarrow> approval_broker \<Rightarrow> string \<times> approval_broker" where
  "ab_id p b = (case new_id p (ab_world b) of (i, w) \<Rightarrow> (i, b\<lparr>ab_world := w\<rparr>))"

definition expired :: "time option \<Rightarrow> time \<Rightarrow> bool" where
  "expired x t \<longleftrightarrow> (case x of None \<Rightarrow> False | Some e \<Rightarrow> t \<ge> e)"

text \<open>Constructing a decision validates it; then it is stored.\<close>

definition store_decision ::
  "string \<Rightarrow> approval_decision \<Rightarrow> approval_broker \<Rightarrow> (exc + approval_decision) \<times> approval_broker" where
  "store_decision k d b =
     (if approval_decision_ok d
      then (Inr d, b\<lparr>ab_decisions := AList.update k d (ab_decisions b)\<rparr>)
      else (Inl ValidationError, b))"

definition expire_locked ::
  "string \<Rightarrow> approval_request \<Rightarrow> approval_broker \<Rightarrow> (exc + approval_decision) \<times> approval_broker" where
  "expire_locked k r b =
     (case ab_id ''approval'' b of (i, b1) \<Rightarrow>
        case ab_now b1 of (t, b2) \<Rightarrow>
          store_decision k
            \<lparr>ad_approval_id = i, ad_request_id = ar_request_id r, ad_action_digest = ar_action_digest r,
             ad_decision = Approval_EXPIRED, ad_decided_by = ''system'',
             ad_reason_code = ''approval_expired'', ad_expires_at = ar_expires_at r,
             ad_decided_at = t\<rparr> b2)"

definition decision_locked ::
  "string \<Rightarrow> approval_broker \<Rightarrow> (exc + approval_decision option) \<times> approval_broker" where
  "decision_locked k b =
     (case map_of (ab_decisions b) k of
        Some d \<Rightarrow> (Inr (Some d), b)
      | None \<Rightarrow>
          (case map_of (ab_requests b) k of
             None \<Rightarrow> (Inr None, b)
           | Some r \<Rightarrow>
               (case ab_now b of (t, b1) \<Rightarrow>
                  if expired (ar_expires_at r) t
                  then (case expire_locked k r b1 of
                          (Inl e, b2) \<Rightarrow> (Inl e, b2) | (Inr d, b2) \<Rightarrow> (Inr (Some d), b2))
                  else (Inr None, b1))))"

definition broker_submit ::
  "approval_request \<Rightarrow> approval_broker \<Rightarrow> (exc + approval_decision option) \<times> approval_broker" where
  "broker_submit r b =
     (case map_of (ab_requests b) (ar_request_id r) of
        Some existing \<Rightarrow>
          if existing \<noteq> r then (Inl ValueError, b) else decision_locked (ar_request_id r) b
      | None \<Rightarrow>
          decision_locked (ar_request_id r)
            (b\<lparr>ab_requests := AList.update (ar_request_id r) r (ab_requests b)\<rparr>))"

definition broker_get_request :: "string \<Rightarrow> approval_broker \<Rightarrow> approval_request option" where
  "broker_get_request k b = map_of (ab_requests b) k"

definition broker_consume :: "string \<Rightarrow> approval_broker \<Rightarrow> (exc + unit) \<times> approval_broker" where
  "broker_consume k b =
     (if map_of (ab_requests b) k = None then (Inr (), b)
      else
        (case decision_locked k b of
           (Inl e, b1) \<Rightarrow> (Inl e, b1)
         | (Inr None, b1) \<Rightarrow> (Inl ValueError, b1)
         | (Inr (Some d), b1) \<Rightarrow>
             if k \<in> set (ab_consumed b1) then (Inl ValueError, b1)
             else (Inr (), b1\<lparr>ab_consumed := k # ab_consumed b1\<rparr>)))"

fun default_reason :: "approval_decision_status \<Rightarrow> string" where
  "default_reason Approval_APPROVED = ''approved''"
| "default_reason Approval_REJECTED = ''rejected''"
| "default_reason Approval_REQUEST_CHANGES = ''changes_requested''"
| "default_reason Approval_EXPIRED = ''approval_expired''"

text \<open>\<open>_normalize_decision_status\<close> for text; an unknown word is a \<open>ValueError\<close>.\<close>

definition normalize_status :: "string \<Rightarrow> exc + approval_decision_status" where
  "normalize_status s =
     (let w = lower s
      in if w \<in> {''approve'', ''approved''} then Inr Approval_APPROVED
         else if w \<in> {''reject'', ''rejected''} then Inr Approval_REJECTED
         else if w \<in> {''request_change'', ''request_changes'', ''requested_changes''}
         then Inr Approval_REQUEST_CHANGES
         else if w = ''expired'' then Inr Approval_EXPIRED
         else Inl ValueError)"

text \<open>\<open>decide\<close>; the decision is an enum member (\<open>Inl\<close>) or text (\<open>Inr\<close>).\<close>

definition broker_decide ::
  "string \<Rightarrow> approval_decision_status + string \<Rightarrow> string \<Rightarrow> string option \<Rightarrow> time option \<Rightarrow>
   approval_broker \<Rightarrow> (exc + approval_decision) \<times> approval_broker" where
  "broker_decide k decision decided_by reason expires b =
     (case map_of (ab_requests b) k of
        None \<Rightarrow> (Inl KeyError, b)
      | Some r \<Rightarrow>
          (case decision_locked k b of
             (Inl e, b1) \<Rightarrow> (Inl e, b1)
           | (Inr (Some d), b1) \<Rightarrow> (Inr d, b1)
           | (Inr None, b1) \<Rightarrow>
               (case (case decision of Inl st \<Rightarrow> Inr st | Inr w \<Rightarrow> normalize_status w) of
                  Inl e \<Rightarrow> (Inl e, b1)
                | Inr st \<Rightarrow>
                    (case ab_now b1 of (t, b2) \<Rightarrow>
                       if expired (ar_expires_at r) t then expire_locked k r b2
                       else
                         (let limit = (if st = Approval_APPROVED \<and> expires = None
                                       then ar_expires_at r else expires)
                          in if st = Approval_APPROVED \<and>
                                (case ar_expires_at r of None \<Rightarrow> False
                                 | Some e \<Rightarrow> (case limit of None \<Rightarrow> True | Some l \<Rightarrow> l > e))
                             then (Inl ValueError, b2)
                             else if st = Approval_APPROVED \<and> expired limit t
                             then expire_locked k r b2
                             else
                               (case ab_id ''approval'' b2 of (i, b3) \<Rightarrow>
                                  store_decision k
                                    \<lparr>ad_approval_id = i, ad_request_id = ar_request_id r,
                                     ad_action_digest = ar_action_digest r, ad_decision = st,
                                     ad_decided_by = decided_by,
                                     ad_reason_code = or_else reason (default_reason st),
                                     ad_expires_at = limit, ad_decided_at = t\<rparr> b3))))))"

text \<open>\<open>approve\<close>, \<open>reject\<close> and \<open>request_changes\<close> with their reason codes.\<close>

definition broker_approve ::
  "string \<Rightarrow> string \<Rightarrow> string \<Rightarrow> time option \<Rightarrow> approval_broker \<Rightarrow> (exc + approval_decision) \<times> approval_broker" where
  "broker_approve k decided_by reason expires = broker_decide k (Inl Approval_APPROVED) decided_by (Some reason) expires"

definition broker_reject ::
  "string \<Rightarrow> string \<Rightarrow> string \<Rightarrow> approval_broker \<Rightarrow> (exc + approval_decision) \<times> approval_broker" where
  "broker_reject k decided_by reason = broker_decide k (Inl Approval_REJECTED) decided_by (Some reason) None"

definition broker_request_changes ::
  "string \<Rightarrow> string \<Rightarrow> string \<Rightarrow> approval_broker \<Rightarrow> (exc + approval_decision) \<times> approval_broker" where
  "broker_request_changes k decided_by reason =
     broker_decide k (Inl Approval_REQUEST_CHANGES) decided_by (Some reason) None"

text \<open>\<open>pending_requests\<close>; looking a decision up may record that its request has expired.\<close>

fun pending_among ::
  "(string, approval_request) dict \<Rightarrow> approval_broker \<Rightarrow> (exc + approval_request list) \<times> approval_broker" where
  "pending_among [] b = (Inr [], b)"
| "pending_among ((k, r) # rs) b =
     (case decision_locked k b of
        (Inl e, b1) \<Rightarrow> (Inl e, b1)
      | (Inr d, b1) \<Rightarrow>
          (case pending_among rs b1 of
             (Inl e, b2) \<Rightarrow> (Inl e, b2)
           | (Inr xs, b2) \<Rightarrow> (Inr (if d = None then r # xs else xs), b2)))"

definition pending_requests :: "approval_broker \<Rightarrow> (exc + approval_request list) \<times> approval_broker" where
  "pending_requests b = pending_among (ab_requests b) b"

text \<open>\<open>_validate_decision_against_request\<close>\<close>

definition evidence_matches :: "approval_request \<Rightarrow> approval_decision \<Rightarrow> bool" where
  "evidence_matches r d \<longleftrightarrow>
     ad_request_id d = ar_request_id r \<and> ad_action_digest d = ar_action_digest r \<and>
     \<not> (ad_decision d = Approval_APPROVED \<and>
        (case (ar_expires_at r, ad_expires_at d) of (Some e, Some l) \<Rightarrow> l > e | _ \<Rightarrow> False))"

definition broker_record ::
  "approval_decision \<Rightarrow> approval_broker \<Rightarrow> (exc + approval_decision) \<times> approval_broker" where
  "broker_record d b =
     (case map_of (ab_requests b) (ad_request_id d) of
        None \<Rightarrow> (Inl KeyError, b)
      | Some r \<Rightarrow>
          if \<not> evidence_matches r d then (Inl ValueError, b)
          else
            (case decision_locked (ar_request_id r) b of
               (Inl e, b1) \<Rightarrow> (Inl e, b1)
             | (Inr (Some x), b1) \<Rightarrow> (Inr x, b1)
             | (Inr None, b1) \<Rightarrow>
                 (Inr d, b1\<lparr>ab_decisions := AList.update (ar_request_id r) d (ab_decisions b1)\<rparr>)))"

section \<open>The runtime's check of a decision\<close>

definition validate_approval ::
  "time \<Rightarrow> approval_request \<Rightarrow> approval_decision \<Rightarrow> approval_decision_status option \<times> string option" where
  "validate_approval t r d =
     (if ad_request_id d \<noteq> ar_request_id r then (None, Some ''approval_request_mismatch'')
      else if ad_action_digest d \<noteq> ar_action_digest r then (None, Some ''approval_action_mismatch'')
      else if ad_decision d \<noteq> Approval_APPROVED then (Some (ad_decision d), None)
      else if expired (ar_expires_at r) t then (Some Approval_EXPIRED, Some ''approval_expired'')
      else if expired (ad_expires_at d) t then (Some Approval_EXPIRED, Some ''approval_expired'')
      else if (case ad_expires_at d of None \<Rightarrow> False | Some l \<Rightarrow> l \<le> ad_decided_at d)
      then (None, Some ''approval_expiry_invalid'')
      else
        (case ar_expires_at r of
           None \<Rightarrow> (Some (ad_decision d), None)
         | Some e \<Rightarrow>
             if (case ad_expires_at d of None \<Rightarrow> False | Some l \<Rightarrow> l > e)
             then (None, Some ''approval_expiry_invalid'')
             else if ad_decided_at d \<ge> e then (Some Approval_EXPIRED, Some ''approval_expired'')
             else (Some (ad_decision d), None)))"

section \<open>Steps of the broker\<close>

datatype broker_op =
    SubmitRequest approval_request
  | GetDecision string
  | ConsumeRequest string
  | DecideRequest string "approval_decision_status + string" string "string option" "time option"
  | RecordDecision approval_decision

fun broker_step :: "broker_op \<Rightarrow> approval_broker \<Rightarrow> approval_broker" where
  "broker_step (SubmitRequest r) b = snd (broker_submit r b)"
| "broker_step (GetDecision k) b = snd (decision_locked k b)"
| "broker_step (ConsumeRequest k) b = snd (broker_consume k b)"
| "broker_step (DecideRequest k d who reason x) b = snd (broker_decide k d who reason x b)"
| "broker_step (RecordDecision d) b = snd (broker_record d b)"

definition broker_run :: "broker_op list \<Rightarrow> approval_broker \<Rightarrow> approval_broker" where
  "broker_run ops b = fold broker_step ops b"

text \<open>A listing of the pending requests is a sequence of lookups, so it keeps what these keep.\<close>

lemma pending_among_run:
  "pending_among rs b = (Inr xs, b') \<Longrightarrow> b' = broker_run (map (GetDecision \<circ> fst) rs) b \<and> set xs \<subseteq> snd ` set rs"
proof (induction rs b arbitrary: xs rule: pending_among.induct)
  case (2 k r rs b)
  obtain q b1 where q: "decision_locked k b = (q, b1)" by (cases "decision_locked k b")
  with 2(2) obtain d where d: "q = Inr d" by (cases q) auto
  with 2(2) q obtain ys where ys: "pending_among rs b1 = (Inr ys, b')" "xs = (if d = None then r # ys else ys)"
    by (auto split: prod.splits sum.splits)
  from 2(1) [OF q [symmetric, unfolded d] refl ys(1)] ys(2) q d show ?case
    by (auto simp: broker_run_def)
qed (simp add: broker_run_def)

lemma pending_requests_run:
  "pending_requests b = (Inr xs, b') \<Longrightarrow>
     b' = broker_run (map (GetDecision \<circ> fst) (ab_requests b)) b \<and> set xs \<subseteq> snd ` set (ab_requests b)"
  unfolding pending_requests_def by (rule pending_among_run)

definition stored_decision :: "string \<Rightarrow> approval_broker \<Rightarrow> approval_decision option" where
  "stored_decision k b = map_of (ab_decisions b) k"

definition is_consumed :: "string \<Rightarrow> approval_broker \<Rightarrow> bool" where
  "is_consumed k b \<longleftrightarrow> k \<in> set (ab_consumed b)"

text \<open>
  The invariant: requests are stored under their own identifier, every decision answers a stored
  request with its exact digest and within its expiry, and only decided requests are consumed.
\<close>

definition broker_ok :: "approval_broker \<Rightarrow> bool" where
  "broker_ok b \<longleftrightarrow>
     (\<forall>k r. map_of (ab_requests b) k = Some r \<longrightarrow> ar_request_id r = k) \<and>
     (\<forall>k d. map_of (ab_decisions b) k = Some d \<longrightarrow>
        (\<exists>r. map_of (ab_requests b) k = Some r \<and> evidence_matches r d)) \<and>
     (\<forall>k \<in> set (ab_consumed b). map_of (ab_decisions b) k \<noteq> None)"

text \<open>\<open>answers k b b1\<close>: nothing changed but that request \<open>k\<close>, which had no decision, may have one.\<close>

definition answers :: "string \<Rightarrow> approval_broker \<Rightarrow> approval_broker \<Rightarrow> bool" where
  "answers k b b1 \<longleftrightarrow>
     ab_requests b1 = ab_requests b \<and> ab_consumed b1 = ab_consumed b \<and>
     (\<forall>j. j \<noteq> k \<longrightarrow> map_of (ab_decisions b1) j = map_of (ab_decisions b) j) \<and>
     (map_of (ab_decisions b1) k = map_of (ab_decisions b) k \<or>
      map_of (ab_decisions b) k = None \<and>
      (\<exists>r d. map_of (ab_requests b) k = Some r \<and> evidence_matches r d \<and>
             map_of (ab_decisions b1) k = Some d))"

definition same_broker :: "approval_broker \<Rightarrow> approval_broker \<Rightarrow> bool" where
  "same_broker b b1 \<longleftrightarrow> ab_requests b1 = ab_requests b \<and> ab_decisions b1 = ab_decisions b \<and>
     ab_consumed b1 = ab_consumed b"

lemma answers_refl [simp]: "answers k b b"
  by (simp add: answers_def)

lemma same_broker_trans: "same_broker a b \<Longrightarrow> same_broker b c \<Longrightarrow> same_broker a c"
  by (simp add: same_broker_def)

lemma same_broker_answers: "same_broker a b \<Longrightarrow> answers k b c \<Longrightarrow> answers k a c"
  by (simp add: same_broker_def answers_def)

lemma ab_now_same:
  "ab_now b = (t, b1) \<Longrightarrow> same_broker b b1"
  "ab_id p b = (i, b1) \<Longrightarrow> same_broker b b1"
  by (auto simp: ab_now_def ab_id_def now_def new_id_def same_broker_def)

lemma store_decision_answers:
  assumes "store_decision k d b = (res, b1)" and "map_of (ab_decisions b) k = None"
    and "map_of (ab_requests b) k = Some r" and "evidence_matches r d"
  shows "answers k b b1 \<and> (\<forall>d'. res = Inr d' \<longrightarrow> d' = d \<and> map_of (ab_decisions b1) k = Some d)"
  using assms unfolding store_decision_def answers_def by (auto split: if_splits)

lemma expire_answers:
  assumes "expire_locked k r b = (res, b1)" and "map_of (ab_decisions b) k = None"
    and "map_of (ab_requests b) k = Some r"
  shows "answers k b b1 \<and> (\<forall>d. res = Inr d \<longrightarrow> ad_decision d = Approval_EXPIRED \<and>
     map_of (ab_decisions b1) k = Some d)"
proof -
  obtain i b2 where i: "ab_id ''approval'' b = (i, b2)" by fastforce
  obtain t b3 where t: "ab_now b2 = (t, b3)" by fastforce
  define d where "d = \<lparr>ad_approval_id = i, ad_request_id = ar_request_id r,
             ad_action_digest = ar_action_digest r,
             ad_decision = Approval_EXPIRED, ad_decided_by = ''system'',
             ad_reason_code = ''approval_expired'', ad_expires_at = ar_expires_at r, ad_decided_at = t\<rparr>"
  have st: "store_decision k d b3 = (res, b1)"
    using assms(1) i t by (simp add: expire_locked_def d_def)
  have same: "same_broker b b3"
    using ab_now_same(2) [OF i] ab_now_same(1) [OF t] by (rule same_broker_trans)
  have m: "evidence_matches r d" by (simp add: evidence_matches_def d_def)
  have "answers k b3 b1 \<and> (\<forall>d'. res = Inr d' \<longrightarrow> d' = d \<and> map_of (ab_decisions b1) k = Some d)"
    by (rule store_decision_answers [OF st _ _ m]) (use same assms in \<open>simp_all add: same_broker_def\<close>)
  with same_broker_answers [OF same] show ?thesis by (auto simp: d_def)
qed

lemma decision_locked_answers:
  assumes "decision_locked k b = (res, b1)"
  shows "answers k b b1 \<and>
     (\<forall>d. res = Inr (Some d) \<longrightarrow> map_of (ab_decisions b1) k = Some d) \<and>
     (res = Inr None \<longrightarrow> same_broker b b1 \<and> map_of (ab_decisions b) k = None)"
proof (cases "map_of (ab_decisions b) k")
  case (Some d)
  with assms show ?thesis by (auto simp: decision_locked_def)
next
  case None
  show ?thesis
  proof (cases "map_of (ab_requests b) k")
    case no: None
    with None assms show ?thesis by (auto simp: decision_locked_def same_broker_def)
  next
    case (Some r)
    obtain t b2 where t: "ab_now b = (t, b2)" by fastforce
    note same = ab_now_same(1) [OF t]
    show ?thesis
    proof (cases "expired (ar_expires_at r) t")
      case False
      with None Some t assms same show ?thesis
        by (auto simp: decision_locked_def intro: same_broker_answers)
    next
      case True
      obtain res2 b3 where e: "expire_locked k r b2 = (res2, b3)" by fastforce
      have a: "answers k b2 b3 \<and> (\<forall>d. res2 = Inr d \<longrightarrow> ad_decision d = Approval_EXPIRED \<and>
          map_of (ab_decisions b3) k = Some d)"
        by (rule expire_answers [OF e]) (use same None Some in \<open>auto simp: same_broker_def\<close>)
      with e True None Some t assms same_broker_answers [OF same] show ?thesis
        by (auto simp: decision_locked_def split: sum.splits)
    qed
  qed
qed

lemma broker_decide_answers:
  assumes "broker_decide k dec who reason x b = (res, b')"
  shows "answers k b b' \<and> (\<forall>d. res = Inr d \<longrightarrow> map_of (ab_decisions b') k = Some d)"
proof (cases "map_of (ab_requests b) k")
  case None
  with assms show ?thesis by (auto simp: broker_decide_def)
next
  case (Some r)
  obtain q b1 where q: "decision_locked k b = (q, b1)" by fastforce
  note dl = decision_locked_answers [OF q]
  show ?thesis
  proof (cases "q = Inr None")
    case False
    with assms Some q dl show ?thesis by (auto simp: broker_decide_def split: sum.splits option.splits)
  next
    case True
    with dl have same: "same_broker b b1" and none: "map_of (ab_decisions b) k = None" by auto
    obtain t b2 where t: "ab_now b1 = (t, b2)" by fastforce
    obtain i b3 where i: "ab_id ''approval'' b2 = (i, b3)" by fastforce
    have same2: "same_broker b b2" using same ab_now_same(1) [OF t] by (rule same_broker_trans)
    have same3: "same_broker b b3" using same2 ab_now_same(2) [OF i] by (rule same_broker_trans)
    have exp: "answers k b b' \<and> (\<forall>d. res = Inr d \<longrightarrow> map_of (ab_decisions b') k = Some d)"
      if "expire_locked k r b2 = (res, b')"
      using expire_answers [OF that] none Some same2 same_broker_answers [OF same2]
      by (auto simp: same_broker_def)
    have sto: "answers k b b' \<and> (\<forall>d. res = Inr d \<longrightarrow> map_of (ab_decisions b') k = Some d)"
      if "store_decision k d b3 = (res, b')" and "evidence_matches r d" for d
      using store_decision_answers [OF that(1) _ _ that(2)] none Some same3 same_broker_answers [OF same3]
      by (auto simp: same_broker_def)
    have fail: "answers k b c" if "same_broker b c" for c
      using same_broker_answers [OF that answers_refl] .
    show ?thesis
      using assms Some q True t i exp sto fail [OF same] fail [OF same2]
      unfolding broker_decide_def Let_def
      by (auto simp: evidence_matches_def split: sum.splits option.splits if_splits)
  qed
qed

section \<open>The interface of the broker\<close>

text \<open>
  What the runtime relies on of a broker: a submitted request, a recorded decision and the
  consumption of a request are permanent, whatever calls follow.
\<close>

locale approval_interface =
  fixes request :: "string \<Rightarrow> 's \<Rightarrow> approval_request option"
    and decision :: "string \<Rightarrow> 's \<Rightarrow> approval_decision option"
    and used :: "string \<Rightarrow> 's \<Rightarrow> bool"
    and step :: "'op \<Rightarrow> 's \<Rightarrow> 's"
  assumes request_kept: "request k s = Some r \<Longrightarrow> request k (step x s) = Some r"
    and decision_kept: "decision k s = Some d \<Longrightarrow> decision k (step x s) = Some d"
    and used_kept: "used k s \<Longrightarrow> used k (step x s)"
begin

lemma run_request: "request k s = Some r \<Longrightarrow> request k (fold step xs s) = Some r"
  by (induction xs arbitrary: s) (auto intro: request_kept)

lemma run_decision: "decision k s = Some d \<Longrightarrow> decision k (fold step xs s) = Some d"
  by (induction xs arbitrary: s) (auto intro: decision_kept)

lemma run_used: "used k s \<Longrightarrow> used k (fold step xs s)"
  by (induction xs arbitrary: s) (auto intro: used_kept)

end

definition grows :: "approval_broker \<Rightarrow> approval_broker \<Rightarrow> bool" where
  "grows b b' \<longleftrightarrow>
     (\<forall>k r. map_of (ab_requests b) k = Some r \<longrightarrow> map_of (ab_requests b') k = Some r) \<and>
     (\<forall>k d. map_of (ab_decisions b) k = Some d \<longrightarrow> map_of (ab_decisions b') k = Some d) \<and>
     set (ab_consumed b) \<subseteq> set (ab_consumed b') \<and> (broker_ok b \<longrightarrow> broker_ok b')"

lemma grows_refl [simp]: "grows b b"
  by (simp add: grows_def)

lemma grows_trans: "grows a b \<Longrightarrow> grows b c \<Longrightarrow> grows a c"
  by (auto simp: grows_def)

lemma answers_grows:
  assumes "answers k b b'"
  shows "grows b b'"
proof -
  have dec: "map_of (ab_decisions b) j = Some d \<Longrightarrow> map_of (ab_decisions b') j = Some d" for j d
    using assms by (cases "j = k") (auto simp: answers_def)
  have "broker_ok b'" if ok: "broker_ok b"
  proof -
    have "\<exists>r. map_of (ab_requests b') j = Some r \<and> evidence_matches r d"
      if "map_of (ab_decisions b') j = Some d" for j d
    proof (cases "j = k \<and> map_of (ab_decisions b) k = None")
      case True
      with that assms show ?thesis by (auto simp: answers_def)
    next
      case False
      with that assms have "map_of (ab_decisions b) j = Some d"
        by (cases "j = k") (auto simp: answers_def)
      with ok assms show ?thesis by (auto simp: broker_ok_def answers_def)
    qed
    moreover have "map_of (ab_decisions b') j \<noteq> None" if "j \<in> set (ab_consumed b')" for j
      using that ok assms dec by (fastforce simp: broker_ok_def answers_def)
    ultimately show ?thesis using ok assms by (auto simp: broker_ok_def answers_def)
  qed
  with assms dec show ?thesis by (auto simp: grows_def answers_def)
qed

lemma submit_grows: "grows b (snd (broker_submit r b))"
proof (cases "map_of (ab_requests b) (ar_request_id r)")
  case (Some e)
  obtain q b1 where "decision_locked (ar_request_id r) b = (q, b1)" by fastforce
  with Some decision_locked_answers [of "ar_request_id r" b q b1] show ?thesis
    by (auto simp: broker_submit_def intro: answers_grows)
next
  case None
  let ?b = "b\<lparr>ab_requests := AList.update (ar_request_id r) r (ab_requests b)\<rparr>"
  obtain q b1 where q: "decision_locked (ar_request_id r) ?b = (q, b1)" by fastforce
  have "grows b ?b"
    using None unfolding grows_def broker_ok_def by (auto; fastforce)
  moreover have "grows ?b b1" using decision_locked_answers [OF q] answers_grows by blast
  ultimately have "grows b b1" by (rule grows_trans)
  with None q show ?thesis by (simp add: broker_submit_def)
qed

lemma consume_grows: "grows b (snd (broker_consume k b))"
proof (cases "map_of (ab_requests b) k = None")
  case True
  then show ?thesis by (simp add: broker_consume_def)
next
  case False
  obtain q b1 where q: "decision_locked k b = (q, b1)" by fastforce
  note a = decision_locked_answers [OF q]
  from a have g: "grows b b1" using answers_grows by blast
  have "grows b1 (b1\<lparr>ab_consumed := k # ab_consumed b1\<rparr>)" if "q = Inr (Some d)" for d
    using a that unfolding grows_def broker_ok_def by auto
  with g False q show ?thesis
    by (auto simp: broker_consume_def intro: grows_trans split: sum.splits option.splits)
qed

lemma record_grows: "grows b (snd (broker_record d b))"
proof (cases "map_of (ab_requests b) (ad_request_id d)")
  case None
  then show ?thesis by (simp add: broker_record_def)
next
  case (Some r)
  show ?thesis
  proof (cases "evidence_matches r d")
    case False
    with Some show ?thesis by (simp add: broker_record_def)
  next
    case True
    then have k: "ar_request_id r = ad_request_id d" by (simp add: evidence_matches_def)
    obtain q b1 where q: "decision_locked (ad_request_id d) b = (q, b1)" by fastforce
    note a = decision_locked_answers [OF q]
    then have g: "grows b b1" using answers_grows by blast
    have "answers (ad_request_id d) b (b1\<lparr>ab_decisions := AList.update (ad_request_id d) d (ab_decisions b1)\<rparr>)"
      if "q = Inr None"
      using a that Some True by (auto simp: answers_def same_broker_def)
    with g Some True k q show ?thesis
      by (auto simp: broker_record_def intro: answers_grows split: sum.splits option.splits)
  qed
qed

lemma broker_step_grows: "grows b (broker_step x b)"
proof (cases x)
  case (GetDecision k)
  obtain q b1 where q: "decision_locked k b = (q, b1)" by fastforce
  have "answers k b b1" using decision_locked_answers [OF q] by blast
  with GetDecision q show ?thesis by (simp add: answers_grows)
next
  case (DecideRequest k d who reason e)
  obtain q b1 where q: "broker_decide k d who reason e b = (q, b1)" by fastforce
  have "answers k b b1" using broker_decide_answers [OF q] by blast
  with DecideRequest q show ?thesis by (simp add: answers_grows)
qed (simp_all add: submit_grows consume_grows record_grows)

interpretation memory_broker: approval_interface broker_get_request stored_decision is_consumed broker_step
  using broker_step_grows
  by unfold_locales (auto simp: grows_def broker_get_request_def stored_decision_def is_consumed_def)

lemma broker_run_ok: "broker_ok b \<Longrightarrow> broker_ok (broker_run ops b)"
  unfolding broker_run_def
  by (induction ops arbitrary: b) (use broker_step_grows in \<open>auto simp: grows_def\<close>)

lemma broker_ok_answered:
  "broker_ok b \<Longrightarrow> stored_decision k b = Some d \<Longrightarrow>
   \<exists>r. broker_get_request k b = Some r \<and> ar_request_id r = k \<and> evidence_matches r d"
  unfolding broker_ok_def stored_decision_def broker_get_request_def by metis

section \<open>Properties\<close>

text \<open>
  Approval policies are evaluated restrictively. Approval is required exactly when some active
  policy requires it by default or by a matching rule, and the expiry of the decision is at most
  the expiry of every matching requiring rule of an active policy.
\<close>

theorem approval_policy_exact:
  assumes "approval_evaluate pols ex tool action (w, made) = (Inr d, s')"
  shows "(apd_required d \<longleftrightarrow>
            (\<exists>pol \<in> set pols. apol_lifecycle pol = Life_ACTIVE \<and>
               (apol_default_requires_approval pol \<or>
                (\<exists>r \<in> set (apol_rules pol). approval_rule_matches r ex tool action \<and>
                   apr_requires_approval r)))) \<and>
         (\<forall>pol \<in> set pols. \<forall>r \<in> set (apol_rules pol). \<forall>e.
            apol_lifecycle pol = Life_ACTIVE \<and> approval_rule_matches r ex tool action \<and>
            apr_requires_approval r \<and> apr_expiry r = Some e \<longrightarrow>
            (\<exists>x \<le> e. apd_expiry d = Some x))"
proof -
  let ?chosen = "filter (\<lambda>pol. apol_lifecycle pol = Life_ACTIVE \<and> policy_requires ex tool action pol) pols"
  let ?xs = "concat (map (policy_expiries ex tool action) ?chosen)"
  have d: "apd_required d = (?chosen \<noteq> [])" "apd_expiry d = (if ?xs = [] then None else Some (Min (set ?xs)))"
    using assms by (auto simp: approval_evaluate_def Let_def new_id_def split: if_splits)
  have req: "policy_requires ex tool action pol \<longleftrightarrow> apol_default_requires_approval pol \<or>
      (\<exists>r \<in> set (apol_rules pol). approval_rule_matches r ex tool action \<and> apr_requires_approval r)" for pol
    by (auto simp: policy_requires_def requiring_rules_def filter_eq_Nil_iff)
  have "\<exists>x \<le> e. apd_expiry d = Some x"
    if "pol \<in> set pols" "r \<in> set (apol_rules pol)" "apol_lifecycle pol = Life_ACTIVE"
      "approval_rule_matches r ex tool action" "apr_requires_approval r" "apr_expiry r = Some e" for pol r e
  proof -
    have "r \<in> set (requiring_rules ex tool action pol)" using that by (simp add: requiring_rules_def)
    then have "e \<in> set (rule_expiries (requiring_rules ex tool action pol))"
      using that(6) by (force simp: rule_expiries_def)
    then have "e \<in> set (policy_expiries ex tool action pol)"
      by (auto simp: policy_expiries_def Let_def)
    moreover have "pol \<in> set ?chosen" using that req by auto
    ultimately have "e \<in> set ?xs" by auto
    then have "?xs \<noteq> []" and "Min (set ?xs) \<le> e" by (auto intro: Min_le)
    with d(2) show ?thesis by simp
  qed
  with d(1) req show ?thesis by (auto simp: filter_eq_Nil_iff)
qed

text \<open>
  C25: evidence is immutable and exact. From a consistent broker, after any sequence of calls, a
  request or decision once stored is still stored unchanged, and every stored decision answers the
  stored request of its identifier with the same action digest, an approval not outliving it when
  both carry an expiry.
\<close>

theorem approval_evidence_immutable:
  assumes "broker_ok b" and "b' = broker_run ops b"
  shows "(\<forall>k r. broker_get_request k b = Some r \<longrightarrow> broker_get_request k b' = Some r) \<and>
         (\<forall>k d. stored_decision k b = Some d \<longrightarrow> stored_decision k b' = Some d) \<and>
         (\<forall>k d. stored_decision k b' = Some d \<longrightarrow>
            (\<exists>r. broker_get_request k b' = Some r \<and> ar_request_id r = k \<and> evidence_matches r d))"
  using assms(2) memory_broker.run_request [of _ b _ ops] memory_broker.run_decision [of _ b _ ops]
    broker_ok_answered [OF broker_run_ok [OF assms(1), of ops]]
  by (simp add: broker_run_def)

text \<open>
  C24: an approval is consumed at most once: after a successful consumption of a submitted request
  and any later calls, consuming it again raises.
\<close>

theorem approval_consumed_once:
  assumes "broker_consume k b = (Inr (), b1)" and "broker_get_request k b \<noteq> None" and "broker_ok b"
  shows "fst (broker_consume k (broker_run ops b1)) = Inl ValueError"
proof -
  have u: "is_consumed k b1"
    using assms(1,2) unfolding broker_consume_def broker_get_request_def is_consumed_def
    by (auto split: sum.splits option.splits prod.splits if_splits)
  have "broker_ok b1" using consume_grows [of b k] assms(1,3) by (simp add: grows_def)
  then have ok: "broker_ok (broker_run ops b1)" by (rule broker_run_ok)
  have u2: "is_consumed k (broker_run ops b1)"
    using memory_broker.run_used [OF u, of ops] by (simp add: broker_run_def)
  with ok obtain d where d: "map_of (ab_decisions (broker_run ops b1)) k = Some d"
    by (auto simp: broker_ok_def is_consumed_def)
  with broker_ok_answered [OF ok, of k d] obtain r where
    "map_of (ab_requests (broker_run ops b1)) k = Some r"
    by (auto simp: stored_decision_def broker_get_request_def)
  with d u2 show ?thesis by (simp add: broker_consume_def decision_locked_def is_consumed_def)
qed

text \<open>
  A fresh approval is in time. When \<open>decide\<close> answers an undecided request with an approval, the
  moment of the decision is before the expiry of the request and of the approval, and the approval
  expires no later than the request.
\<close>

theorem fresh_approval_in_time:
  assumes "broker_decide k dec who reason x b = (Inr d, b')"
    and "broker_get_request k b = Some r" and "stored_decision k b = None"
    and "ad_decision d = Approval_APPROVED"
  shows "\<not> expired (ar_expires_at r) (ad_decided_at d) \<and> \<not> expired (ad_expires_at d) (ad_decided_at d) \<and>
         (\<forall>e. ar_expires_at r = Some e \<longrightarrow> (\<exists>l \<le> e. ad_expires_at d = Some l)) \<and>
         ad_action_digest d = ar_action_digest r"
proof -
  obtain q b1 where q: "decision_locked k b = (q, b1)" by fastforce
  have no_exp: "expire_locked k' r' b2 \<noteq> (Inr d, b')" for k' r' b2
    using assms(4) by (auto simp: expire_locked_def store_decision_def split: prod.splits if_splits)
  have "q \<noteq> Inr (Some d)"
    using q assms(2-4)
    by (auto simp: decision_locked_def stored_decision_def broker_get_request_def expire_locked_def
        store_decision_def split: prod.splits if_splits sum.splits)
  with assms(1,2) q no_exp assms(4) show ?thesis
    unfolding broker_decide_def broker_get_request_def Let_def
    by (auto simp: store_decision_def expired_def split: sum.splits option.splits prod.splits if_splits)
qed

text \<open>
  The runtime acts on an approval only if it is for the exact request and action and neither the
  request nor the approval has expired at the moment of the check.
\<close>

theorem accepted_approval_exact:
  "fst (validate_approval t r d) = Some Approval_APPROVED \<longleftrightarrow>
     ad_request_id d = ar_request_id r \<and> ad_action_digest d = ar_action_digest r \<and>
     ad_decision d = Approval_APPROVED \<and> \<not> expired (ar_expires_at r) t \<and> \<not> expired (ad_expires_at d) t \<and>
     \<not> expired (ad_expires_at d) (ad_decided_at d) \<and> \<not> expired (ar_expires_at r) (ad_decided_at d) \<and>
     evidence_matches r d"
  by (auto simp: validate_approval_def expired_def evidence_matches_def split: option.splits)

section \<open>Concrete runs\<close>

definition sample_action :: action_proposal where
  "sample_action =
     \<lparr>ap_action_id = ''act'', ap_execution_id = ''x'',
      ap_tool_call = \<lparr>tc_call_id = None, tc_tool_id = ''mail'', tc_tool_version = None,
                      tc_arguments = [], tc_purpose = ''send'', tc_idempotency_key = None\<rparr>,
      ap_risk_level = Risk_HIGH, ap_requires_approval = True, ap_justification = ''j''\<rparr>"

definition sample_request :: approval_request where
  "sample_request =
     \<lparr>ar_request_id = ''q'', ar_execution_id = ''x'', ar_agent_id = ''a'', ar_agent_version = ''1.0.0'',
      ar_principal_id = ''p'', ar_tenant_id = ''t'', ar_action = sample_action,
      ar_action_digest = ''digest'', ar_reason = ''r'', ar_context = None,
      ar_approval_policy_id = None, ar_approval_policy_version = None, ar_approval_rule_ids = [],
      ar_expires_at = Some 900, ar_created_at = 0\<rparr>"

definition sample_broker :: approval_broker where
  "sample_broker =
     \<lparr>ab_requests = [(''q'', sample_request)], ab_decisions = [], ab_consumed = [],
      ab_world = \<lparr>make_id = (\<lambda>p n. p), id_calls = 0, clock_at = int, clock_calls = 0\<rparr>\<rparr>"

definition sample_approve :: "approval_broker \<Rightarrow> (exc + approval_decision) \<times> approval_broker" where
  "sample_approve = broker_decide ''q'' (Inl Approval_APPROVED) ''boss'' None None"

definition sample_approval_rule :: approval_policy_rule where
  "sample_approval_rule =
     \<lparr>apr_rule_id = ''high'', apr_tool_ids = [], apr_action_ids = [], apr_action_kinds = [],
      apr_risk_levels = [], apr_environments = [], apr_requires_approval = True,
      apr_expiry = Some 500\<rparr>"

definition sample_approval_policy :: approval_policy where
  "sample_approval_policy =
     \<lparr>apol_policy_id = ''pol'', apol_version = ''1.0.0'', apol_description = ''d'', apol_owner_id = ''o'',
      apol_default_requires_approval = False, apol_default_expiry = None,
      apol_rules = [sample_approval_rule], apol_lifecycle = Life_ACTIVE\<rparr>"

lemma sample_broker_ok: "broker_ok sample_broker"
  by (simp add: broker_ok_def sample_broker_def sample_request_def)

lemma sample_approved:
  obtains d b where "sample_approve sample_broker = (Inr d, b)" "ad_decision d = Approval_APPROVED"
    "broker_consume ''q'' b = (Inr (), snd (broker_consume ''q'' b))" "broker_ok b"
    "broker_get_request ''q'' b = Some sample_request"
proof -
  have c: "case sample_approve sample_broker of
          (Inr d, b) \<Rightarrow> ad_decision d = Approval_APPROVED \<and> fst (broker_consume ''q'' b) = Inr ()
        | _ \<Rightarrow> False"
    by code_simp
  then obtain d b where d: "sample_approve sample_broker = (Inr d, b)" "ad_decision d = Approval_APPROVED"
    "fst (broker_consume ''q'' b) = Inr ()" by (auto split: prod.splits sum.splits)
  have g: "grows sample_broker b"
    using broker_decide_answers [OF d(1) [unfolded sample_approve_def]] answers_grows by blast
  have "broker_get_request ''q'' sample_broker = Some sample_request"
    by (simp add: sample_broker_def broker_get_request_def)
  with g have "broker_get_request ''q'' b = Some sample_request"
    by (simp add: grows_def broker_get_request_def)
  moreover have "broker_ok b" using g sample_broker_ok by (simp add: grows_def)
  ultimately show thesis using that d by (metis prod.collapse)
qed

theorem approval_policy_exact_witness:
  "\<forall>ex (tool :: nat tool_definition).
     \<exists>d s. approval_evaluate [sample_approval_policy] ex tool sample_action
             (ab_world sample_broker, []) = (Inr d, s) \<and> apd_required d \<and>
           (\<exists>x \<le> 500. apd_expiry d = Some x)"
proof (intro allI)
  fix ex and tool :: "nat tool_definition"
  have m: "approval_rule_matches sample_approval_rule ex tool sample_action"
    by (simp add: approval_rule_matches_def sample_approval_rule_def)
  have "\<exists>d s. approval_evaluate [sample_approval_policy] ex tool sample_action
          (ab_world sample_broker, []) = (Inr d, s)"
    using m by (simp add: approval_evaluate_def policy_requires_def requiring_rules_def policy_expiries_def
        rule_expiries_def sample_approval_policy_def sample_approval_rule_def new_id_def sample_broker_def
        approval_policy_decision_ok_def opt_nonempty_def expiry_ok_def Let_def)
  then obtain d s where d: "approval_evaluate [sample_approval_policy] ex tool sample_action
      (ab_world sample_broker, []) = (Inr d, s)" by blast
  from approval_policy_exact [OF d] m d
  show "\<exists>d s. approval_evaluate [sample_approval_policy] ex tool sample_action
          (ab_world sample_broker, []) = (Inr d, s) \<and> apd_required d \<and>
        (\<exists>x \<le> 500. apd_expiry d = Some x)"
    by (simp add: sample_approval_policy_def sample_approval_rule_def)
qed

theorem approval_evidence_immutable_witness:
  "broker_get_request ''q'' (broker_run [GetDecision ''q''] sample_broker) = Some sample_request"
  using approval_evidence_immutable [OF sample_broker_ok refl, of "[GetDecision ''q'']"]
  by (simp add: sample_broker_def broker_get_request_def)

theorem approval_consumed_once_witness:
  "\<exists>d b b1. sample_approve sample_broker = (Inr d, b) \<and> broker_consume ''q'' b = (Inr (), b1) \<and>
     fst (broker_consume ''q'' (broker_run [GetDecision ''q''] b1)) = Inl ValueError"
proof -
  obtain d b where d: "sample_approve sample_broker = (Inr d, b)"
    "broker_consume ''q'' b = (Inr (), snd (broker_consume ''q'' b))" "broker_ok b"
    "broker_get_request ''q'' b = Some sample_request" by (rule sample_approved)
  from approval_consumed_once [OF d(2) _ d(3), of "[GetDecision ''q'']"] d show ?thesis by blast
qed

theorem fresh_approval_in_time_witness:
  "\<exists>d b. sample_approve sample_broker = (Inr d, b) \<and> (\<exists>l \<le> 900. ad_expires_at d = Some l) \<and>
     ad_action_digest d = ''digest''"
proof -
  obtain d b where d: "sample_approve sample_broker = (Inr d, b)" "ad_decision d = Approval_APPROVED"
    by (rule sample_approved)
  have "broker_get_request ''q'' sample_broker = Some sample_request" "stored_decision ''q'' sample_broker = None"
    by (simp_all add: sample_broker_def broker_get_request_def stored_decision_def)
  from fresh_approval_in_time [OF d(1) [unfolded sample_approve_def] this d(2)] d(1)
  show ?thesis by (auto simp: sample_request_def)
qed

end
