(* ===== verification/State_Store.thy ===== *)
theory State_Store
  imports Governance_Contracts
begin

text \<open>
  \<open>state/store.py\<close>: principal-bound workflow state. \<open>InMemoryStateStore\<close> is the dictionary
  \<open>_states\<close>; \<open>SQLiteStateStore\<close> is the table \<open>execution_states\<close> as a list of rows in rowid order,
  each write a transaction that is rolled back when its body raises.

  A text column that holds JSON is represented by the JSON value it denotes (the order of keys in
  the text, which no comparison of dictionaries sees, is not kept), and the column \<open>updated_at\<close> by
  the instant its ISO text denotes; timestamps are UTC, the default of the contract, whose texts
  sort like the instants. A state created by a store is stamped with the time \<open>t\<close> of \<open>utc_now\<close>.
\<close>

type_synonym store_key = "string \<times> string \<times> string \<times> string"

definition state_key :: "execution_state \<Rightarrow> store_key" where
  "state_key s = (es_tenant_id s, es_session_id s, es_agent_id s, es_state_id s)"

definition request_key :: "principal_context \<Rightarrow> string \<Rightarrow> string option \<Rightarrow> store_key" where
  "request_key p agent sid =
     (pc_tenant_id p, pc_session_id p, agent, or_else sid (pc_session_id p))"

definition owned_by :: "execution_state \<Rightarrow> principal_context \<Rightarrow> bool" where
  "owned_by s p \<longleftrightarrow> es_principal_id s = pc_principal_id p \<and> es_tenant_id s = pc_tenant_id p \<and>
     es_session_id s = pc_session_id p"

definition same_owner :: "execution_state \<Rightarrow> execution_state \<Rightarrow> bool" where
  "same_owner a b \<longleftrightarrow> es_principal_id a = es_principal_id b \<and> es_tenant_id a = es_tenant_id b \<and>
     es_session_id a = es_session_id b"

definition fresh_state ::
  "time \<Rightarrow> principal_context \<Rightarrow> string \<Rightarrow> string \<Rightarrow> string option \<Rightarrow> exc + execution_state" where
  "fresh_state t p agent version sid =
     (let i = or_else sid (pc_session_id p);
          s = \<lparr>es_schema_version = ''agent-state.v1'', es_state_id = i,
               es_execution_id = ''state_'' @ i, es_agent_id = agent, es_agent_version = version,
               es_principal_id = pc_principal_id p, es_tenant_id = pc_tenant_id p,
               es_session_id = pc_session_id p, es_status = State_PENDING, es_version = 0,
               es_data = [], es_updated_at = t\<rparr>
      in if execution_state_ok s then Inr s else Inl ValidationError)"

text \<open>The checks both stores make before a write, on the existing state.\<close>

definition check_save :: "execution_state option \<Rightarrow> execution_state \<Rightarrow> int option \<Rightarrow> exc + unit" where
  "check_save existing s expected =
     (case existing of
        None \<Rightarrow>
          if es_version s \<noteq> 0 then Inl StateConflictError
          else if expected \<noteq> None \<and> expected \<noteq> Some 0 then Inl StateConflictError
          else Inr ()
      | Some old \<Rightarrow>
          if \<not> same_owner old s then Inl StateOwnershipError
          else if (case expected of None \<Rightarrow> False | Some v \<Rightarrow> es_version old \<noteq> v)
          then Inl StateConflictError
          else if expected = None \<and> es_version s < es_version old then Inl StateConflictError
          else Inr ())"

definition check_open :: "execution_state \<Rightarrow> principal_context \<Rightarrow> string \<Rightarrow> exc + execution_state" where
  "check_open s p version =
     (if \<not> owned_by s p then Inl StateOwnershipError
      else if es_agent_version s \<noteq> version then Inl StateConflictError else Inr s)"

definition should_purge ::
  "time \<Rightarrow> duration option \<Rightarrow> (execution_state \<Rightarrow> bool) option \<Rightarrow> execution_state \<Rightarrow> bool" where
  "should_purge now' ttl hook s \<longleftrightarrow>
     (case ttl of None \<Rightarrow> False | Some d \<Rightarrow> now' \<ge> es_updated_at s + d) \<or>
     (case hook of None \<Rightarrow> False | Some keep \<Rightarrow> \<not> keep s)"

text \<open>\<open>max(matches, key=...)\<close>: the first of the greatest.\<close>

definition newer :: "execution_state \<Rightarrow> execution_state \<Rightarrow> bool" where
  "newer a b \<longleftrightarrow> es_version b < es_version a \<or>
     (es_version b = es_version a \<and> es_updated_at b < es_updated_at a)"

fun newest :: "execution_state list \<Rightarrow> execution_state option" where
  "newest [] = None"
| "newest (s # ss) = (case newest ss of None \<Rightarrow> Some s | Some r \<Rightarrow> if newer r s then Some r else Some s)"

section \<open>The in-memory store\<close>

type_synonym memory_store = "(store_key, execution_state) dict"

definition mem_get_or_create ::
  "time \<Rightarrow> principal_context \<Rightarrow> string \<Rightarrow> string \<Rightarrow> string option \<Rightarrow> memory_store \<Rightarrow>
   (exc + execution_state) \<times> memory_store" where
  "mem_get_or_create t p agent version sid st =
     (case map_of st (request_key p agent sid) of
        Some s \<Rightarrow> (check_open s p version, st)
      | None \<Rightarrow>
          (case fresh_state t p agent version sid of
             Inl e \<Rightarrow> (Inl e, st)
           | Inr s \<Rightarrow> (check_open s p version, AList.update (request_key p agent sid) s st)))"

definition mem_save :: "execution_state \<Rightarrow> int option \<Rightarrow> memory_store \<Rightarrow> (exc + unit) \<times> memory_store" where
  "mem_save s expected st =
     (case check_save (map_of st (state_key s)) s expected of
        Inl e \<Rightarrow> (Inl e, st)
      | Inr _ \<Rightarrow> (Inr (), AList.update (state_key s) s st))"

definition execution_matches :: "principal_context \<Rightarrow> string \<Rightarrow> execution_state \<Rightarrow> bool" where
  "execution_matches p x s \<longleftrightarrow> es_execution_id s = x \<and> owned_by s p"

definition mem_find :: "principal_context \<Rightarrow> string \<Rightarrow> memory_store \<Rightarrow> execution_state option" where
  "mem_find p x st = newest (filter (execution_matches p x) (map snd st))"

definition mem_purge ::
  "duration option \<Rightarrow> (execution_state \<Rightarrow> bool) option \<Rightarrow> time \<Rightarrow> memory_store \<Rightarrow> nat \<times> memory_store" where
  "mem_purge ttl hook now' st =
     (let keys = map fst (filter (\<lambda>(k, s). should_purge now' ttl hook s) st)
      in (length keys, dict_remove keys st))"

section \<open>The SQLite store\<close>

record sql_row =
  row_tenant_id :: string
  row_session_id :: string
  row_agent_id :: string
  row_state_id :: string
  row_execution_id :: string
  row_agent_version :: string
  row_principal_id :: string
  row_status :: string
  row_version :: int
  row_data :: pyval
  row_updated_at :: time
  row_schema_version :: string

type_synonym sql_table = "sql_row list"

definition row_key :: "sql_row \<Rightarrow> store_key" where
  "row_key r = (row_tenant_id r, row_session_id r, row_agent_id r, row_state_id r)"

text \<open>The values \<open>json.dumps\<close> accepts.\<close>

fun json_ok :: "pyval \<Rightarrow> bool" where
  "json_ok (PList xs) = list_all json_ok xs"
| "json_ok (PDict d) = list_all (\<lambda>v. json_ok v) (map snd d)"
| "json_ok (PObject _) = False"
| "json_ok _ = True"

definition encode_data :: "(string, pyval) dict \<Rightarrow> exc + pyval" where
  "encode_data d = (if json_ok (PDict d) then Inr (PDict d) else Inl StateSerializationError)"

definition state_row :: "execution_state \<Rightarrow> exc + sql_row" where
  "state_row s = bindE (encode_data (es_data s)) (\<lambda>j. Inr
     \<lparr>row_tenant_id = es_tenant_id s, row_session_id = es_session_id s,
      row_agent_id = es_agent_id s, row_state_id = es_state_id s,
      row_execution_id = es_execution_id s, row_agent_version = es_agent_version s,
      row_principal_id = es_principal_id s, row_status = execution_state_status_value (es_status s),
      row_version = es_version s, row_data = j, row_updated_at = es_updated_at s,
      row_schema_version = es_schema_version s\<rparr>)"

definition status_of_value :: "string \<Rightarrow> execution_state_status option" where
  "status_of_value v = find (\<lambda>st. execution_state_status_value st = v)
     [State_PENDING, State_RUNNING, State_PAUSED, State_COMPLETED, State_FAILED, State_REFUSED,
      State_ESCALATED]"

definition row_state :: "sql_row \<Rightarrow> exc + execution_state" where
  "row_state r =
     (case row_data r of
        PDict d \<Rightarrow>
          (case status_of_value (row_status r) of
             None \<Rightarrow> Inl ValidationError
           | Some st \<Rightarrow>
               (let s = \<lparr>es_schema_version = row_schema_version r, es_state_id = row_state_id r,
                         es_execution_id = row_execution_id r, es_agent_id = row_agent_id r,
                         es_agent_version = row_agent_version r, es_principal_id = row_principal_id r,
                         es_tenant_id = row_tenant_id r, es_session_id = row_session_id r,
                         es_status = st, es_version = row_version r, es_data = d,
                         es_updated_at = row_updated_at r\<rparr>
                in if execution_state_ok s then Inr s else Inl ValidationError))
      | _ \<Rightarrow> Inl StateSerializationError)"

definition select_key :: "store_key \<Rightarrow> sql_table \<Rightarrow> sql_row option" where
  "select_key k tbl = find (\<lambda>r. row_key r = k) tbl"

definition sql_insert :: "execution_state \<Rightarrow> sql_table \<Rightarrow> (exc + unit) \<times> sql_table" where
  "sql_insert s tbl = (case state_row s of Inl e \<Rightarrow> (Inl e, tbl) | Inr r \<Rightarrow> (Inr (), tbl @ [r]))"

definition sql_update :: "execution_state \<Rightarrow> sql_table \<Rightarrow> (exc + unit) \<times> sql_table" where
  "sql_update s tbl =
     (case state_row s of
        Inl e \<Rightarrow> (Inl e, tbl)
      | Inr r \<Rightarrow> (Inr (), map (\<lambda>x. if row_key x = state_key s then r else x) tbl))"

text \<open>\<open>BEGIN IMMEDIATE\<close>, the body, then \<open>COMMIT\<close>, or \<open>ROLLBACK\<close> when the body raises.\<close>

definition transact :: "(sql_table \<Rightarrow> (exc + 'a) \<times> sql_table) \<Rightarrow> sql_table \<Rightarrow> (exc + 'a) \<times> sql_table" where
  "transact body tbl = (case body tbl of (Inl e, _) \<Rightarrow> (Inl e, tbl) | (Inr x, tbl') \<Rightarrow> (Inr x, tbl'))"

definition sql_get_or_create ::
  "time \<Rightarrow> principal_context \<Rightarrow> string \<Rightarrow> string \<Rightarrow> string option \<Rightarrow> sql_table \<Rightarrow>
   (exc + execution_state) \<times> sql_table" where
  "sql_get_or_create t p agent version sid =
     transact (\<lambda>tbl.
       case select_key (request_key p agent sid) tbl of
         None \<Rightarrow>
           (case fresh_state t p agent version sid of
              Inl e \<Rightarrow> (Inl e, tbl)
            | Inr s \<Rightarrow> (case sql_insert s tbl of (Inl e, tbl1) \<Rightarrow> (Inl e, tbl1) | (Inr _, tbl1) \<Rightarrow> (Inr s, tbl1)))
       | Some r \<Rightarrow> (bindE (row_state r) (\<lambda>s. check_open s p version), tbl))"

definition sql_save :: "execution_state \<Rightarrow> int option \<Rightarrow> sql_table \<Rightarrow> (exc + unit) \<times> sql_table" where
  "sql_save s expected =
     transact (\<lambda>tbl.
       case select_key (state_key s) tbl of
         None \<Rightarrow>
           (case check_save None s expected of Inl e \<Rightarrow> (Inl e, tbl) | Inr _ \<Rightarrow> sql_insert s tbl)
       | Some r \<Rightarrow>
           (case row_state r of
              Inl e \<Rightarrow> (Inl e, tbl)
            | Inr old \<Rightarrow>
                (case check_save (Some old) s expected of
                   Inl e \<Rightarrow> (Inl e, tbl) | Inr _ \<Rightarrow> sql_update s tbl)))"

text \<open>The rows the \<open>SELECT\<close> of \<open>find_execution\<close> orders; ties keep the table's order.\<close>

definition sql_find :: "principal_context \<Rightarrow> string \<Rightarrow> sql_table \<Rightarrow> (exc + execution_state option)" where
  "sql_find p x tbl =
     (let rows = filter (\<lambda>r. row_execution_id r = x \<and> row_principal_id r = pc_principal_id p \<and>
                             row_tenant_id r = pc_tenant_id p \<and> row_session_id r = pc_session_id p) tbl;
          first = fold (\<lambda>r best. case best of None \<Rightarrow> Some r
                     | Some b \<Rightarrow> if row_version b < row_version r \<or>
                                   (row_version b = row_version r \<and> row_updated_at b < row_updated_at r)
                                 then Some r else Some b) rows None
      in case first of None \<Rightarrow> Inr None | Some r \<Rightarrow> bindE (row_state r) (\<lambda>s. Inr (Some s)))"

fun row_states :: "sql_table \<Rightarrow> exc + execution_state list" where
  "row_states [] = Inr []"
| "row_states (r # rs) = bindE (row_state r) (\<lambda>s. bindE (row_states rs) (\<lambda>ss. Inr (s # ss)))"

definition sql_purge ::
  "duration option \<Rightarrow> (execution_state \<Rightarrow> bool) option \<Rightarrow> time \<Rightarrow> sql_table \<Rightarrow> (exc + nat) \<times> sql_table" where
  "sql_purge ttl hook now' tbl =
     (if ttl = None \<and> hook = None then (Inr 0, tbl)
      else transact (\<lambda>tbl.
        case row_states tbl of
          Inl e \<Rightarrow> (Inl e, tbl)
        | Inr ss \<Rightarrow>
            (let gone = filter (should_purge now' ttl hook) ss
             in (Inr (length gone), filter (\<lambda>r. row_key r \<notin> state_key ` set gone) tbl))) tbl)"

section \<open>The contract of a state store\<close>

text \<open>
  What the runtime relies on of a \<open>StateStore\<close>: a successful save is what a later lookup returns,
  keeps the owner and respects the version it was given; opening a state returns the caller's own
  state of the requested agent version; other keys are not touched; and a failed call changes
  nothing. \<open>wf\<close> is the store's own invariant.
\<close>

locale state_store =
  fixes lookup :: "store_key \<Rightarrow> 's \<Rightarrow> execution_state option"
    and wf :: "'s \<Rightarrow> bool"
    and save :: "execution_state \<Rightarrow> int option \<Rightarrow> 's \<Rightarrow> (exc + unit) \<times> 's"
    and open_state :: "time \<Rightarrow> principal_context \<Rightarrow> string \<Rightarrow> string \<Rightarrow> string option \<Rightarrow> 's \<Rightarrow>
                       (exc + execution_state) \<times> 's"
  assumes save_wf: "wf st \<Longrightarrow> execution_state_ok s \<Longrightarrow> wf (snd (save s v st))"
    and save_done: "wf st \<Longrightarrow> execution_state_ok s \<Longrightarrow> save s v st = (Inr u, st') \<Longrightarrow>
      check_save (lookup (state_key s) st) s v = Inr () \<and>
      lookup k st' = (if k = state_key s then Some s else lookup k st)"
    and save_failed: "wf st \<Longrightarrow> execution_state_ok s \<Longrightarrow> save s v st = (Inl e, st') \<Longrightarrow>
      lookup k st' = lookup k st"
    and open_wf: "wf st \<Longrightarrow> wf (snd (open_state t p a av sid st))"
    and open_done: "wf st \<Longrightarrow> open_state t p a av sid st = (Inr s, st') \<Longrightarrow>
      owned_by s p \<and> es_agent_version s = av \<and> lookup (request_key p a sid) st' = Some s"
    and open_kept: "wf st \<Longrightarrow> lookup k st = Some s \<Longrightarrow> lookup k (snd (open_state t p a av sid st)) = Some s"
begin

lemma save_owner:
  assumes "wf st" "execution_state_ok s" "lookup k st = Some old"
  shows "\<exists>new. lookup k (snd (save s v st)) = Some new \<and> same_owner old new"
proof (cases "save s v st")
  case (Pair r st')
  show ?thesis
  proof (cases r)
    case (Inl e)
    with save_failed [OF assms(1,2)] Pair assms(3) show ?thesis by (auto simp: same_owner_def)
  next
    case (Inr u)
    from save_done [OF assms(1,2), of v u st' k] Pair Inr assms(3) show ?thesis
      by (auto simp: check_save_def same_owner_def split: if_splits)
  qed
qed

lemma stale_save_fails:
  assumes "wf st" "execution_state_ok s" "save s (Some v) st = (Inr u, st')" "es_version s \<noteq> v"
    and "execution_state_ok s2" "state_key s2 = state_key s"
  shows "\<exists>e. fst (save s2 (Some v) st') = Inl e"
proof -
  have wf': "wf st'" using save_wf [OF assms(1,2), of "Some v"] assms(3) by simp
  have l: "lookup (state_key s) st' = Some s" using save_done [OF assms(1,2,3)] by simp
  have "fst (save s2 (Some v) st') \<noteq> Inr u2" for u2
  proof
    assume "fst (save s2 (Some v) st') = Inr u2"
    then obtain st2 where "save s2 (Some v) st' = (Inr u2, st2)" by (metis prod.collapse)
    from save_done [OF wf' assms(5) this, THEN conjunct1] l assms(4,6) show False
      by (simp add: check_save_def split: if_splits)
  qed
  then show ?thesis by (cases "fst (save s2 (Some v) st')") auto
qed

end

section \<open>The in-memory store keeps the contract\<close>

definition mem_lookup :: "store_key \<Rightarrow> memory_store \<Rightarrow> execution_state option" where
  "mem_lookup k st = map_of st k"

text \<open>Every state is stored under its own key.\<close>

definition mem_wf :: "memory_store \<Rightarrow> bool" where
  "mem_wf st \<longleftrightarrow> dict_ok st \<and> (\<forall>(k, s) \<in> set st. k = state_key s \<and> execution_state_ok s)"

lemma mem_wf_update: "mem_wf st \<Longrightarrow> execution_state_ok s \<Longrightarrow> mem_wf (AList.update (state_key s) s st)"
  unfolding mem_wf_def
proof (elim conjE, intro conjI)
  show "dict_ok st \<Longrightarrow> dict_ok (AList.update (state_key s) s st)" by (rule dict_ok_update)
  assume "\<forall>(k, s) \<in> set st. k = state_key s \<and> execution_state_ok s" "execution_state_ok s"
  then show "\<forall>(k, s) \<in> set (AList.update (state_key s) s st). k = state_key s \<and> execution_state_ok s"
    by (induction st) (auto split: if_splits)
qed

lemma fresh_state_Inr:
  "fresh_state t p a v sid = Inr s \<Longrightarrow>
     execution_state_ok s \<and> state_key s = request_key p a sid \<and> owned_by s p \<and>
     es_agent_version s = v \<and> es_data s = [] \<and> es_version s = 0"
  by (auto simp: fresh_state_def Let_def state_key_def request_key_def owned_by_def split: if_splits)

lemma check_open_Inr: "check_open s p v = Inr s' \<longleftrightarrow> s' = s \<and> owned_by s p \<and> es_agent_version s = v"
  by (auto simp: check_open_def)

interpretation memory_state: state_store mem_lookup mem_wf mem_save mem_get_or_create
proof unfold_locales
  fix st s v
  assume "mem_wf st" "execution_state_ok s"
  then show "mem_wf (snd (mem_save s v st))"
    by (auto simp: mem_save_def mem_wf_update split: sum.splits)
next
  fix st t p a av sid
  assume "mem_wf st"
  then show "mem_wf (snd (mem_get_or_create t p a av sid st))"
    using mem_wf_update by (fastforce simp: mem_get_or_create_def split: option.splits sum.splits
        dest: fresh_state_Inr)
qed (auto simp: mem_lookup_def mem_save_def mem_get_or_create_def check_open_Inr
      split: sum.splits option.splits dest: fresh_state_Inr)

section \<open>The SQLite store refines it\<close>

definition represents :: "sql_table \<Rightarrow> memory_store \<Rightarrow> bool" where
  "represents tbl st \<longleftrightarrow> mem_wf st \<and>
     list_all2 (\<lambda>r (k, s). row_key r = k \<and> row_state r = Inr s) tbl st"

lemma status_roundtrip [simp]: "status_of_value (execution_state_status_value st) = Some st"
  by (cases st) (simp_all add: status_of_value_def)

text \<open>A state written to a row is read back unchanged.\<close>

lemma state_row_roundtrip:
  "state_row s = Inr r \<Longrightarrow> execution_state_ok s \<Longrightarrow> row_state r = Inr s \<and> row_key r = state_key s"
  by (auto simp: state_row_def encode_data_def bindE_Inr_iff row_state_def row_key_def state_key_def
      execution_state_ok_def Let_def split: if_splits)

lemma represents_select:
  assumes "represents tbl st"
  shows "(map_of st k = None \<longrightarrow> select_key k tbl = None) \<and>
         (\<forall>s. map_of st k = Some s \<longrightarrow> (\<exists>r. select_key k tbl = Some r \<and> row_state r = Inr s))"
proof -
  from assms have "list_all2 (\<lambda>r (k, s). row_key r = k \<and> row_state r = Inr s) tbl st"
    by (simp add: represents_def)
  then show ?thesis
    unfolding select_key_def by (induction rule: list_all2_induct) auto
qed

lemma update_new: "k \<notin> fst ` set d \<Longrightarrow> AList.update k v d = d @ [(k, v)]"
  by (induction d) auto

lemma update_old:
  "dict_ok d \<Longrightarrow> k \<in> fst ` set d \<Longrightarrow> AList.update k v d = map (\<lambda>(j, x). if j = k then (k, v) else (j, x)) d"
proof (induction d)
  case (Cons p d)
  obtain j x where p: "p = (j, x)" by (cases p)
  show ?case
  proof (cases "j = k")
    case True
    with Cons.prems p have "k \<notin> fst ` set d" by auto
    then have "map (\<lambda>(j, x). if j = k then (k, v) else (j, x)) d = d"
      by (intro map_idI) (auto simp: image_iff)
    with True p show ?thesis by simp
  next
    case False
    with Cons p show ?thesis by auto
  qed
qed simp

lemma insert_represents:
  assumes "represents tbl st" "map_of st (state_key s) = None" "execution_state_ok s"
    and "sql_insert s tbl = (Inr u, tbl')"
  shows "represents tbl' (AList.update (state_key s) s st)"
proof -
  from assms(4) obtain r where r: "state_row s = Inr r" "tbl' = tbl @ [r]"
    by (auto simp: sql_insert_def split: sum.splits)
  have n: "AList.update (state_key s) s st = st @ [(state_key s, s)]"
    using assms(2) by (intro update_new) (simp add: map_of_eq_None_iff)
  from assms(1,3) have "mem_wf (AList.update (state_key s) s st)"
    by (simp add: represents_def mem_wf_update)
  moreover from assms(1) state_row_roundtrip [OF r(1) assms(3)] r(2)
  have "list_all2 (\<lambda>r (k, s). row_key r = k \<and> row_state r = Inr s) tbl' (st @ [(state_key s, s)])"
    by (simp add: represents_def list_all2_appendI)
  ultimately show ?thesis unfolding represents_def using n by simp
qed

lemma update_represents:
  assumes "represents tbl st" "map_of st (state_key s) = Some old" "execution_state_ok s"
    and "sql_update s tbl = (Inr u, tbl')"
  shows "represents tbl' (AList.update (state_key s) s st)"
proof -
  from assms(4) obtain r where r: "state_row s = Inr r"
    "tbl' = map (\<lambda>x. if row_key x = state_key s then r else x) tbl"
    by (auto simp: sql_update_def split: sum.splits)
  have wf: "mem_wf st" using assms(1) by (simp add: represents_def)
  have n: "AList.update (state_key s) s st =
      map (\<lambda>(j, x). if j = state_key s then (state_key s, s) else (j, x)) st"
    using wf assms(2) by (intro update_old) (auto simp: mem_wf_def dest: map_of_SomeD intro: rev_image_eqI)
  have "list_all2 (\<lambda>r (k, s). row_key r = k \<and> row_state r = Inr s) tbl st"
    using assms(1) by (simp add: represents_def)
  then have "list_all2 (\<lambda>r (k, s). row_key r = k \<and> row_state r = Inr s) tbl'
      (map (\<lambda>(j, x). if j = state_key s then (state_key s, s) else (j, x)) st)"
    unfolding r(2) by (induction rule: list_all2_induct) (use state_row_roundtrip [OF r(1) assms(3)] in auto)
  then show ?thesis
    using n mem_wf_update [OF wf assms(3)] by (simp add: represents_def)
qed






lemma state_row_ok: "json_ok (PDict (es_data s)) \<Longrightarrow> \<exists>r. state_row s = Inr r"
  by (auto simp: state_row_def encode_data_def)

lemma sql_save_refines:
  assumes "represents tbl st" "execution_state_ok s" "json_ok (PDict (es_data s))"
    and "sql_save s v tbl = (r, tbl')"
  shows "\<exists>st'. mem_save s v st = (r, st') \<and> represents tbl' st'"
proof (cases "map_of st (state_key s)")
  case None
  with represents_select [OF assms(1)] have n: "select_key (state_key s) tbl = None" by blast
  show ?thesis
  proof (cases "check_save None s v")
    case (Inl e)
    with n have "sql_save s v tbl = (Inl e, tbl)" by (simp add: sql_save_def transact_def)
    with assms(4) have "r = Inl e" "tbl' = tbl" by simp_all
    with Inl None assms(1) show ?thesis by (simp add: mem_save_def)
  next
    case (Inr u)
    from state_row_ok [OF assms(3)] obtain tbl2 where t: "sql_insert s tbl = (Inr (), tbl2)"
      by (auto simp: sql_insert_def)
    with Inr n have "sql_save s v tbl = (Inr (), tbl2)" by (simp add: sql_save_def transact_def)
    with assms(4) have "r = Inr ()" "tbl' = tbl2" by simp_all
    with insert_represents [OF assms(1) None assms(2) t] Inr None show ?thesis
      by (simp add: mem_save_def)
  qed
next
  case (Some old)
  with represents_select [OF assms(1)] obtain row where
    n: "select_key (state_key s) tbl = Some row" "row_state row = Inr old" by blast
  show ?thesis
  proof (cases "check_save (Some old) s v")
    case (Inl e)
    with n have "sql_save s v tbl = (Inl e, tbl)" by (simp add: sql_save_def transact_def)
    with assms(4) have "r = Inl e" "tbl' = tbl" by simp_all
    with Inl Some assms(1) show ?thesis by (simp add: mem_save_def)
  next
    case (Inr u)
    from state_row_ok [OF assms(3)] obtain tbl2 where t: "sql_update s tbl = (Inr (), tbl2)"
      by (auto simp: sql_update_def)
    with Inr n have "sql_save s v tbl = (Inr (), tbl2)" by (simp add: sql_save_def transact_def)
    with assms(4) have "r = Inr ()" "tbl' = tbl2" by simp_all
    with update_represents [OF assms(1) Some assms(2) t] Inr Some show ?thesis
      by (simp add: mem_save_def)
  qed
qed

lemma sql_open_refines:
  assumes "represents tbl st" and "sql_get_or_create t p a v sid tbl = (r, tbl')"
  shows "\<exists>st'. mem_get_or_create t p a v sid st = (r, st') \<and> represents tbl' st'"
proof (cases "map_of st (request_key p a sid)")
  case None
  with represents_select [OF assms(1)] have n: "select_key (request_key p a sid) tbl = None" by blast
  show ?thesis
  proof (cases "fresh_state t p a v sid")
    case (Inl e)
    with n have "sql_get_or_create t p a v sid tbl = (Inl e, tbl)"
      by (simp add: sql_get_or_create_def transact_def)
    with assms(2) have "r = Inl e" "tbl' = tbl" by simp_all
    with Inl None assms(1) show ?thesis by (simp add: mem_get_or_create_def)
  next
    case (Inr s)
    note f = fresh_state_Inr [OF Inr]
    then have "json_ok (PDict (es_data s))" by simp
    from state_row_ok [OF this] obtain tbl2 where i: "sql_insert s tbl = (Inr (), tbl2)"
      by (auto simp: sql_insert_def)
    have "represents tbl2 (AList.update (state_key s) s st)"
      by (rule insert_represents [OF assms(1) _ _ i]) (use f None in auto)
    moreover from Inr n i have "sql_get_or_create t p a v sid tbl = (Inr s, tbl2)"
      by (simp add: sql_get_or_create_def transact_def)
    then have "r = Inr s" "tbl' = tbl2" using assms(2) by simp_all
    ultimately show ?thesis using Inr None f by (simp add: mem_get_or_create_def check_open_def)
  qed
next
  case (Some s)
  with represents_select [OF assms(1)] obtain row where
    n: "select_key (request_key p a sid) tbl = Some row" "row_state row = Inr s" by blast
  with Some assms show ?thesis
    by (cases "check_open s p v") (auto simp: sql_get_or_create_def transact_def mem_get_or_create_def)
qed





section \<open>The SQLite store keeps the contract\<close>

definition sql_lookup :: "store_key \<Rightarrow> sql_table \<Rightarrow> execution_state option" where
  "sql_lookup k tbl = Option.bind (select_key k tbl)
     (\<lambda>r. case row_state r of Inl _ \<Rightarrow> None | Inr s \<Rightarrow> Some s)"

definition sql_wf :: "sql_table \<Rightarrow> bool" where
  "sql_wf tbl \<longleftrightarrow> (\<exists>st. represents tbl st)"

lemma represents_lookup: "represents tbl st \<Longrightarrow> sql_lookup k tbl = map_of st k"
  using represents_select [of tbl st k] by (cases "map_of st k") (auto simp: sql_lookup_def)

lemma sql_save_cases:
  assumes "represents tbl st" "execution_state_ok s" "sql_save s v tbl = (r, tbl')"
  shows "(\<exists>st'. mem_save s v st = (r, st') \<and> represents tbl' st') \<or> (\<exists>e. r = Inl e \<and> tbl' = tbl)"
proof (cases "json_ok (PDict (es_data s))")
  case True
  with sql_save_refines [OF assms(1,2) _ assms(3)] show ?thesis by blast
next
  case False
  then have "sql_insert s tbl = (Inl StateSerializationError, tbl)"
    "sql_update s tbl = (Inl StateSerializationError, tbl)"
    by (simp_all add: sql_insert_def sql_update_def state_row_def encode_data_def)
  then have "\<exists>e. sql_save s v tbl = (Inl e, tbl)"
    by (auto simp: sql_save_def transact_def split: option.splits sum.splits)
  with assms(3) show ?thesis by auto
qed

interpretation sqlite_state: state_store sql_lookup sql_wf sql_save sql_get_or_create
proof unfold_locales
  fix tbl s v
  assume w: "sql_wf tbl" "execution_state_ok s"
  then obtain st where st: "represents tbl st" by (auto simp: sql_wf_def)
  show "sql_wf (snd (sql_save s v tbl))"
    using sql_save_cases [OF st w(2), of v] st by (cases "sql_save s v tbl") (auto simp: sql_wf_def)
next
  fix tbl s v u tbl' k
  assume w: "sql_wf tbl" "execution_state_ok s" and r: "sql_save s v tbl = (Inr u, tbl')"
  then obtain st where st: "represents tbl st" by (auto simp: sql_wf_def)
  from sql_save_cases [OF st w(2) r] obtain st' where
    st': "mem_save s v st = (Inr u, st')" "represents tbl' st'" by auto
  have "mem_wf st" using st by (simp add: represents_def)
  from memory_state.save_done [OF this w(2) st'(1), of k]
  show "check_save (sql_lookup (state_key s) tbl) s v = Inr () \<and>
        sql_lookup k tbl' = (if k = state_key s then Some s else sql_lookup k tbl)"
    by (simp add: represents_lookup [OF st] represents_lookup [OF st'(2)] mem_lookup_def)
next
  fix tbl s v e tbl' k
  assume w: "sql_wf tbl" "execution_state_ok s" and r: "sql_save s v tbl = (Inl e, tbl')"
  then show "sql_lookup k tbl' = sql_lookup k tbl"
    by (auto simp: sql_save_def transact_def split: prod.splits sum.splits)
next
  fix tbl t p a av sid
  assume "sql_wf tbl"
  then obtain st where st: "represents tbl st" by (auto simp: sql_wf_def)
  show "sql_wf (snd (sql_get_or_create t p a av sid tbl))"
    using sql_open_refines [OF st, of t p a av sid]
    by (cases "sql_get_or_create t p a av sid tbl") (auto simp: sql_wf_def)
next
  fix tbl t p a av sid s tbl'
  assume "sql_wf tbl" and r: "sql_get_or_create t p a av sid tbl = (Inr s, tbl')"
  then obtain st where st: "represents tbl st" by (auto simp: sql_wf_def)
  from sql_open_refines [OF st r] obtain st' where
    st': "mem_get_or_create t p a av sid st = (Inr s, st')" "represents tbl' st'" by blast
  have "mem_wf st" using st by (simp add: represents_def)
  from memory_state.open_done [OF this st'(1)]
  show "owned_by s p \<and> es_agent_version s = av \<and> sql_lookup (request_key p a sid) tbl' = Some s"
    by (simp add: represents_lookup [OF st'(2)] mem_lookup_def)
next
  fix tbl k s t p a av sid
  assume "sql_wf tbl" and l: "sql_lookup k tbl = Some s"
  then obtain st where st: "represents tbl st" by (auto simp: sql_wf_def)
  obtain r tbl' where r: "sql_get_or_create t p a av sid tbl = (r, tbl')" by fastforce
  from sql_open_refines [OF st r] obtain st' where
    st': "mem_get_or_create t p a av sid st = (r, st')" "represents tbl' st'" by blast
  have "mem_wf st" using st by (simp add: represents_def)
  from memory_state.open_kept [OF this, of k s t p a av sid] l st'(1)
  show "sql_lookup k (snd (sql_get_or_create t p a av sid tbl)) = Some s"
    by (simp add: r represents_lookup [OF st] represents_lookup [OF st'(2)] mem_lookup_def)
qed

section \<open>Properties\<close>


text \<open>
  C34: nobody takes over another principal's state. In either store, a state keeps its principal,
  tenant and session whatever valid state is saved over it, and opening it with \<open>get_or_create\<close>
  returns a state only to its own principal, tenant and session.
\<close>

theorem state_owner_isolated:
  assumes "mem_wf st" "mem_lookup k st = Some old" "sql_wf tbl" "sql_lookup k tbl = Some old'"
    and "execution_state_ok s"
  shows "(\<exists>new. mem_lookup k (snd (mem_save s v st)) = Some new \<and> same_owner old new) \<and>
         (\<exists>new. sql_lookup k (snd (sql_save s v tbl)) = Some new \<and> same_owner old' new) \<and>
         (\<forall>t p a av sid x st'. mem_get_or_create t p a av sid st = (Inr x, st') \<longrightarrow> owned_by x p) \<and>
         (\<forall>t p a av sid x tbl'. sql_get_or_create t p a av sid tbl = (Inr x, tbl') \<longrightarrow> owned_by x p)"
  using memory_state.save_owner [OF assms(1,5,2), of v] sqlite_state.save_owner [OF assms(3,5,4), of v]
    memory_state.open_done [OF assms(1)] sqlite_state.open_done [OF assms(3)] by blast

text \<open>
  Optimistic concurrency. When a save that expected version \<open>v\<close> stored a state of another version,
  a second save of the same state that also expected \<open>v\<close> is refused, in either store.
\<close>

theorem stale_save_refused:
  assumes "execution_state_ok s" "execution_state_ok s2" "state_key s2 = state_key s" "es_version s \<noteq> v"
    and "mem_wf st" "mem_save s (Some v) st = (Inr (), st')"
    and "sql_wf tbl" "sql_save s (Some v) tbl = (Inr (), tbl')"
  shows "(\<exists>e. fst (mem_save s2 (Some v) st') = Inl e) \<and> (\<exists>e. fst (sql_save s2 (Some v) tbl') = Inl e)"
  using memory_state.stale_save_fails [OF assms(5,1,6,4,2,3)]
    sqlite_state.stale_save_fails [OF assms(7,1,8,4,2,3)] by blast

lemma dom_dict_remove: "dom (map_of (dict_remove ks d)) = dom (map_of d) - set ks"
  by (auto simp: dom_def map_of_dict_remove split: if_splits)

lemma newer_irrefl: "\<not> newer s s"
  by (simp add: newer_def)

lemma newer_asym: "newer q s \<Longrightarrow> \<not> newer s q"
  by (auto simp: newer_def)

lemma newer_trans: "newer t s \<Longrightarrow> \<not> newer t q \<Longrightarrow> newer q s"
  by (auto simp: newer_def)

lemma newest_Some: "newest ss = Some r \<Longrightarrow> r \<in> set ss \<and> (\<forall>s \<in> set ss. \<not> newer s r)"
proof (induction ss arbitrary: r)
  case (Cons s ss)
  show ?case
  proof (cases "newest ss")
    case None
    then have "ss = []" by (cases ss) (auto split: option.splits if_splits)
    with Cons.prems None show ?thesis by (auto simp: newer_def)
  next
    case (Some q)
    note IH = Cons.IH [OF Some]
    show ?thesis
    proof (cases "newer q s")
      case True
      with Cons.prems Some have "r = q" by simp
      with IH newer_asym [OF True] show ?thesis by simp
    next
      case False
      with Cons.prems Some have "r = s" by simp
      moreover have "\<not> newer t s" if "t \<in> set ss" for t
      proof
        assume t: "newer t s"
        from IH that have "\<not> newer t q" by blast
        with newer_trans [OF t] False show False by blast
      qed
      ultimately show ?thesis by (simp add: newer_irrefl)
    qed
  qed
qed simp

lemma newest_None: "newest ss = None \<longleftrightarrow> ss = []"
  by (cases ss) (auto split: option.splits)

text \<open>
  \<open>find_execution\<close> answers only the owner and answers with the latest state: it returns nothing
  exactly when no stored state of the execution belongs to the principal, and otherwise a stored
  one of theirs with no greater version (or equal version and later update) beside it.
\<close>

theorem find_execution_exact:
  "(mem_find p x st = None \<longleftrightarrow> (\<forall>s \<in> snd ` set st. \<not> execution_matches p x s)) \<and>
   (\<forall>r. mem_find p x st = Some r \<longrightarrow> r \<in> snd ` set st \<and> es_execution_id r = x \<and> owned_by r p \<and>
      (\<forall>s \<in> snd ` set st. execution_matches p x s \<longrightarrow> \<not> newer s r))"
proof -
  let ?m = "filter (execution_matches p x) (map snd st)"
  have set: "set ?m = {s \<in> snd ` set st. execution_matches p x s}" by auto
  have "?m = [] \<longleftrightarrow> (\<forall>s \<in> snd ` set st. \<not> execution_matches p x s)"
    by (simp add: filter_eq_Nil_iff)
  moreover have "r \<in> snd ` set st \<and> es_execution_id r = x \<and> owned_by r p \<and>
      (\<forall>s \<in> snd ` set st. execution_matches p x s \<longrightarrow> \<not> newer s r)" if "newest ?m = Some r" for r
    using newest_Some [OF that] unfolding set by (simp add: execution_matches_def)
  ultimately show ?thesis unfolding mem_find_def newest_None by blast
qed

text \<open>
  Purging deletes exactly the states the retention settings reject and counts them; every
  other state stays.
\<close>

theorem purge_exact:
  assumes "mem_wf st" and "mem_purge ttl hook now' st = (n, st')"
  shows "(\<forall>k. mem_lookup k st' =
            (case mem_lookup k st of None \<Rightarrow> None
             | Some s \<Rightarrow> if should_purge now' ttl hook s then None else Some s)) \<and>
         n + card (dom (map_of st')) = card (dom (map_of st))"
proof -
  have d: "dict_ok st" using assms(1) by (simp add: mem_wf_def)
  let ?gone = "filter (\<lambda>(k, s). should_purge now' ttl hook s) st"
  have st': "st' = dict_remove (map fst ?gone) st" "n = length ?gone"
    using assms(2) by (auto simp: mem_purge_def Let_def)
  have keys: "k \<in> set (map fst ?gone) \<longleftrightarrow> (\<exists>s. map_of st k = Some s \<and> should_purge now' ttl hook s)" for k
    by (simp add: map_of_eq_Some_iff [OF d]) force
  have l: "mem_lookup k st' = (case mem_lookup k st of None \<Rightarrow> None
             | Some s \<Rightarrow> if should_purge now' ttl hook s then None else Some s)" for k
    using keys [of k] unfolding st'(1) mem_lookup_def map_of_dict_remove
    by (auto split: option.splits)
  have "distinct (map fst ?gone)" using d by (rule distinct_map_filter)
  then have n: "n = card (set (map fst ?gone))" using st'(2) by (metis distinct_card length_map)
  have sub: "set (map fst ?gone) \<subseteq> dom (map_of st)" using keys by blast
  have "dom (map_of st') = dom (map_of st) - set (map fst ?gone)"
    unfolding st'(1) by (rule dom_dict_remove)
  then have "n + card (dom (map_of st')) = card (dom (map_of st))"
    using n sub by (simp add: card_Diff_subset card_mono finite_dom_map_of)
  with l show ?thesis by blast
qed

section \<open>Concrete runs\<close>

definition sample_owner :: principal_context where
  "sample_owner = \<lparr>pc_principal_id = ''p'', pc_tenant_id = ''t'', pc_session_id = ''s''\<rparr>"

definition sample_exec_state :: "int \<Rightarrow> execution_state" where
  "sample_exec_state v =
     \<lparr>es_schema_version = ''agent-state.v1'', es_state_id = ''w'', es_execution_id = ''x'',
      es_agent_id = ''a'', es_agent_version = ''1.0.0'', es_principal_id = ''p'', es_tenant_id = ''t'',
      es_session_id = ''s'', es_status = State_RUNNING, es_version = v,
      es_data = [(''step'', PInt v)], es_updated_at = v\<rparr>"


definition sample_row :: sql_row where
  "sample_row = projr (state_row (sample_exec_state 0))"

lemma sample_exec_state_ok: "0 \<le> v \<Longrightarrow> execution_state_ok (sample_exec_state v)"
  by (simp add: execution_state_ok_def sample_exec_state_def)

lemma sample_represents:
  "represents [sample_row] [(state_key (sample_exec_state 0), sample_exec_state 0)]"
proof -
  have "state_row (sample_exec_state 0) = Inr sample_row"
    by (simp add: sample_row_def state_row_def encode_data_def sample_exec_state_def)
  from state_row_roundtrip [OF this sample_exec_state_ok] show ?thesis
    by (simp add: represents_def mem_wf_def sample_exec_state_ok)
qed

lemma sample_wf:
  "mem_wf [(state_key (sample_exec_state 0), sample_exec_state 0)]" "sql_wf [sample_row]"
  "sql_lookup (state_key (sample_exec_state 0)) [sample_row] = Some (sample_exec_state 0)"
  using sample_represents represents_lookup [OF sample_represents]
  by (auto simp: represents_def sql_wf_def)


theorem state_owner_isolated_witness:
  "\<exists>new. sql_lookup (state_key (sample_exec_state 0)) (snd (sql_save (sample_exec_state 1) None [sample_row])) =
         Some new \<and> es_principal_id new = ''p''"
proof -
  let ?k = "state_key (sample_exec_state 0)"
  have l: "mem_lookup ?k [(?k, sample_exec_state 0)] = Some (sample_exec_state 0)"
    by (simp add: mem_lookup_def)
  have "execution_state_ok (sample_exec_state 1)" by (simp add: sample_exec_state_ok)
  from state_owner_isolated [OF sample_wf(1) l sample_wf(2,3) this, of None]
  show ?thesis by (auto simp: same_owner_def sample_exec_state_def)
qed

theorem stale_save_refused_witness:
  "\<exists>e. fst (mem_save (sample_exec_state 2) (Some 0)
         (snd (mem_save (sample_exec_state 1) (Some 0) [(state_key (sample_exec_state 0), sample_exec_state 0)]))) = Inl e"
proof -
  let ?st = "[(state_key (sample_exec_state 0), sample_exec_state 0)]"
  let ?s = "sample_exec_state 1" and ?s2 = "sample_exec_state 2"
  have "fst (mem_save ?s (Some 0) ?st) = Inr ()" by code_simp
  then have m: "mem_save ?s (Some 0) ?st = (Inr (), snd (mem_save ?s (Some 0) ?st))" by (metis prod.collapse)
  have "fst (sql_save ?s (Some 0) [sample_row]) = Inr ()" by code_simp
  then have q: "sql_save ?s (Some 0) [sample_row] = (Inr (), snd (sql_save ?s (Some 0) [sample_row]))"
    by (metis prod.collapse)
  have k: "state_key ?s2 = state_key ?s" "es_version ?s \<noteq> 0"
    by (simp_all add: state_key_def sample_exec_state_def)
  show ?thesis
    using stale_save_refused [OF sample_exec_state_ok sample_exec_state_ok k sample_wf(1) m sample_wf(2) q]
    by simp
qed

theorem purge_exact_witness:
  "mem_lookup (state_key (sample_exec_state 0))
     (snd (mem_purge (Some 10) None 10 [(state_key (sample_exec_state 0), sample_exec_state 0)])) = None"
proof -
  let ?st = "[(state_key (sample_exec_state 0), sample_exec_state 0)]"
  obtain n st' where p: "mem_purge (Some 10) None 10 ?st = (n, st')" by fastforce
  let ?k = "state_key (sample_exec_state 0)"
  have l: "mem_lookup ?k ?st = Some (sample_exec_state 0)" by (simp add: mem_lookup_def)
  have "should_purge 10 (Some 10) None (sample_exec_state 0)"
    by (simp add: should_purge_def sample_exec_state_def)
  with purge_exact [OF sample_wf(1) p, THEN conjunct1, THEN spec, of ?k] l have "mem_lookup ?k st' = None"
    by simp
  with p show ?thesis by simp
qed

theorem find_execution_exact_witness:
  "\<exists>r. mem_find sample_owner ''x'' [(state_key (sample_exec_state 0), sample_exec_state 0)] = Some r \<and>
       owned_by r sample_owner"
proof -
  let ?st = "[(state_key (sample_exec_state 0), sample_exec_state 0)]"
  have "execution_matches sample_owner ''x'' (sample_exec_state 0)"
    by (simp add: execution_matches_def owned_by_def sample_owner_def sample_exec_state_def)
  then obtain r where r: "mem_find sample_owner ''x'' ?st = Some r"
    using find_execution_exact [THEN conjunct1, of sample_owner "''x''" ?st] by fastforce
  then show ?thesis using find_execution_exact [THEN conjunct2, THEN spec, of sample_owner "''x''" ?st r] by blast
qed

end
