(* ===== verification/Control.thy ===== *)
theory Control
  imports Errors
begin

text \<open>
  \<open>runtime/control.py\<close>: the budgets, the deadline and the cancellation of one execution. The
  cancellation signal and the monotonic clock belong to the caller and the operating system: each
  reading is an argument of the operation that makes it.
\<close>

section \<open>Execution control\<close>

record exec_control =
  xc_deadline :: "time option"
  xc_max_retries :: "int option"
  xc_remaining_retries :: "int option"
  xc_retry_count :: int
  xc_retry_budget_exhausted :: bool
  xc_execution_id :: "string option"
  xc_max_total_tokens :: "int option"
  xc_max_cost :: "rat option"
  xc_max_tool_invocations :: "int option"
  xc_total_tokens :: int
  xc_total_cost :: rat
  xc_tool_invocations :: int
  xc_budget_reason :: "string option"

definition mk_control ::
  "time \<Rightarrow> duration option \<Rightarrow> int option \<Rightarrow> int option \<Rightarrow> rat option \<Rightarrow> int option \<Rightarrow> exc + exec_control" where
  "mk_control started timeout max_retries max_tokens max_cost max_tools =
     (if (case timeout of None \<Rightarrow> False | Some d \<Rightarrow> d \<le> 0) then Inl ValueError
      else if (case max_retries of None \<Rightarrow> False | Some n \<Rightarrow> n < 0) then Inl ValueError
      else if (case max_tokens of None \<Rightarrow> False | Some n \<Rightarrow> n < 1) then Inl ValueError
      else if (case max_cost of None \<Rightarrow> False | Some n \<Rightarrow> n < 0) then Inl ValueError
      else if (case max_tools of None \<Rightarrow> False | Some n \<Rightarrow> n < 1) then Inl ValueError
      else Inr
        \<lparr>xc_deadline = map_option (\<lambda>d. started + d) timeout, xc_max_retries = max_retries,
         xc_remaining_retries = max_retries, xc_retry_count = 0, xc_retry_budget_exhausted = False,
         xc_execution_id = None, xc_max_total_tokens = max_tokens, xc_max_cost = max_cost,
         xc_max_tool_invocations = max_tools, xc_total_tokens = 0, xc_total_cost = 0,
         xc_tool_invocations = 0, xc_budget_reason = None\<rparr>)"

definition bind_execution :: "string \<Rightarrow> exec_control \<Rightarrow> (exc + unit) \<times> exec_control" where
  "bind_execution x c =
     (if xc_execution_id c \<noteq> None \<and> xc_execution_id c \<noteq> Some x then (Inl ValueError, c)
      else (Inr (), c\<lparr>xc_execution_id := Some x\<rparr>))"

text \<open>\<open>check\<close> with the reading of the cancellation signal and, when there is a deadline, of the clock.\<close>

definition control_check :: "bool \<Rightarrow> time \<Rightarrow> exec_control \<Rightarrow> exc + unit" where
  "control_check cancelled t c =
     (if cancelled then Inl ExecutionCancelledError
      else if (case xc_deadline c of None \<Rightarrow> False | Some d \<Rightarrow> t \<ge> d) then Inl ExecutionTimeoutError
      else Inr ())"

definition record_provider_usage ::
  "bool \<Rightarrow> time \<Rightarrow> int \<Rightarrow> int \<Rightarrow> rat \<Rightarrow> exec_control \<Rightarrow> (exc + unit) \<times> exec_control" where
  "record_provider_usage cancelled t input_tokens output_tokens cost c =
     (case control_check cancelled t c of
        Inl e \<Rightarrow> (Inl e, c)
      | Inr _ \<Rightarrow>
          (let c1 = c\<lparr>xc_total_tokens := xc_total_tokens c + (input_tokens + output_tokens),
                      xc_total_cost := xc_total_cost c + cost\<rparr>
           in if (case xc_max_total_tokens c1 of None \<Rightarrow> False | Some m \<Rightarrow> xc_total_tokens c1 > m)
              then (Inl BudgetExhaustedError, c1\<lparr>xc_budget_reason := Some ''max_total_tokens''\<rparr>)
              else if (case xc_max_cost c1 of None \<Rightarrow> False | Some m \<Rightarrow> xc_total_cost c1 > m)
              then (Inl BudgetExhaustedError, c1\<lparr>xc_budget_reason := Some ''max_cost''\<rparr>)
              else (Inr (), c1)))"

definition record_tool_invocation ::
  "bool \<Rightarrow> time \<Rightarrow> exec_control \<Rightarrow> (exc + unit) \<times> exec_control" where
  "record_tool_invocation cancelled t c =
     (case control_check cancelled t c of
        Inl e \<Rightarrow> (Inl e, c)
      | Inr _ \<Rightarrow>
          (let c1 = c\<lparr>xc_tool_invocations := xc_tool_invocations c + 1\<rparr>
           in if (case xc_max_tool_invocations c1 of None \<Rightarrow> False | Some m \<Rightarrow> xc_tool_invocations c1 > m)
              then (Inl BudgetExhaustedError, c1\<lparr>xc_budget_reason := Some ''max_tool_invocations''\<rparr>)
              else (Inr (), c1)))"

definition remaining_seconds :: "time \<Rightarrow> exec_control \<Rightarrow> duration option" where
  "remaining_seconds t c = map_option (\<lambda>d. max 0 (d - t)) (xc_deadline c)"

definition admit_retry :: "bool \<Rightarrow> time \<Rightarrow> exec_control \<Rightarrow> (exc + bool) \<times> exec_control" where
  "admit_retry cancelled t c =
     (case control_check cancelled t c of
        Inl e \<Rightarrow> (Inl e, c)
      | Inr _ \<Rightarrow>
          if (case xc_remaining_retries c of None \<Rightarrow> False | Some n \<Rightarrow> n \<le> 0)
          then (Inr False, c\<lparr>xc_retry_budget_exhausted := True\<rparr>)
          else (Inr True, c\<lparr>xc_remaining_retries := map_option (\<lambda>n. n - 1) (xc_remaining_retries c),
                           xc_retry_count := xc_retry_count c + 1\<rparr>))"

section \<open>Sequences of control calls\<close>

datatype control_op =
    AdmitRetry bool time
  | ToolInvocation bool time
  | ProviderUsage bool time nat nat rat

text \<open>A step and whether it was granted: an admitted retry, or a call that did not raise.\<close>

fun control_step :: "control_op \<Rightarrow> exec_control \<Rightarrow> bool \<times> exec_control" where
  "control_step (AdmitRetry b t) c = (case admit_retry b t c of (r, c1) \<Rightarrow> (r = Inr True, c1))"
| "control_step (ToolInvocation b t) c =
     (case record_tool_invocation b t c of (r, c1) \<Rightarrow> (r = Inr (), c1))"
| "control_step (ProviderUsage b t i out x) c =
     (case record_provider_usage b t (int i) (int out) x c of (r, c1) \<Rightarrow> (r = Inr (), c1))"

fun control_granted :: "control_op list \<Rightarrow> exec_control \<Rightarrow> control_op list" where
  "control_granted [] c = []"
| "control_granted (x # xs) c =
     (case control_step x c of (g, c1) \<Rightarrow> (if g then [x] else []) @ control_granted xs c1)"

fun op_retries :: "control_op \<Rightarrow> int" where
  "op_retries (AdmitRetry _ _) = 1" | "op_retries _ = 0"

fun op_tools :: "control_op \<Rightarrow> int" where
  "op_tools (ToolInvocation _ _) = 1" | "op_tools _ = 0"

fun op_tokens :: "control_op \<Rightarrow> int" where
  "op_tokens (ProviderUsage _ _ i out _) = int i + int out" | "op_tokens _ = 0"

text \<open>
  A budget: what is left of it (\<open>None\<close> without a limit), and what a granted call costs. The three
  limits of the control are interpretations of this one interface.
\<close>

locale budget =
  fixes room :: "exec_control \<Rightarrow> int option"
    and cost :: "control_op \<Rightarrow> int"
  assumes spend: "room c = Some n \<Longrightarrow> control_step x c = (g, c1) \<Longrightarrow>
      \<exists>n1. room c1 = Some n1 \<and> n1 + (if g then cost x else 0) \<le> n"
    and room_nonneg: "room c = Some n \<Longrightarrow> 0 \<le> n"
begin

lemma granted_within:
  "room c = Some n \<Longrightarrow> sum_list (map cost (control_granted xs c)) \<le> n"
proof (induction xs arbitrary: c n)
  case Nil
  then show ?case using room_nonneg by simp
next
  case (Cons x xs)
  obtain g c1 where g: "control_step x c = (g, c1)" by fastforce
  from spend [OF Cons.prems g] obtain n1 where
    "room c1 = Some n1" "n1 + (if g then cost x else 0) \<le> n" by blast
  with Cons.IH [of c1 n1] g show ?case by (cases g) simp_all
qed

end

definition retries_left :: "exec_control \<Rightarrow> int option" where
  "retries_left c = map_option (max 0) (xc_remaining_retries c)"

definition tools_left :: "exec_control \<Rightarrow> int option" where
  "tools_left c = map_option (\<lambda>m. max 0 (m - xc_tool_invocations c)) (xc_max_tool_invocations c)"

definition tokens_left :: "exec_control \<Rightarrow> int option" where
  "tokens_left c = map_option (\<lambda>m. max 0 (m - xc_total_tokens c)) (xc_max_total_tokens c)"

lemma control_check_cases:
  "control_check b t c = Inr () \<or> (\<exists>e. control_check b t c = Inl e)"
  by (simp add: control_check_def)

interpretation retry_budget: budget retries_left op_retries
proof unfold_locales
  fix c n x g c1
  assume n: "retries_left c = Some n" and s: "control_step x c = (g, c1)"
  show "\<exists>n1. retries_left c1 = Some n1 \<and> n1 + (if g then op_retries x else 0) \<le> n"
  proof (cases x)
    case (AdmitRetry b t)
    with s n control_check_cases [of b t c] show ?thesis
      by (auto simp: retries_left_def admit_retry_def split: if_splits)
  next
    case (ToolInvocation b t)
    with s n control_check_cases [of b t c] show ?thesis
      by (auto simp: retries_left_def record_tool_invocation_def Let_def split: if_splits)
  next
    case (ProviderUsage b t i out y)
    with s n control_check_cases [of b t c] show ?thesis
      by (auto simp: retries_left_def record_provider_usage_def Let_def split: if_splits)
  qed
qed (auto simp: retries_left_def)

interpretation tool_budget: budget tools_left op_tools
proof unfold_locales
  fix c n x g c1
  assume n: "tools_left c = Some n" and s: "control_step x c = (g, c1)"
  show "\<exists>n1. tools_left c1 = Some n1 \<and> n1 + (if g then op_tools x else 0) \<le> n"
  proof (cases x)
    case (AdmitRetry b t)
    with s n control_check_cases [of b t c] show ?thesis
      by (auto simp: tools_left_def admit_retry_def split: if_splits)
  next
    case (ToolInvocation b t)
    with s n control_check_cases [of b t c] show ?thesis
      by (auto simp: tools_left_def record_tool_invocation_def Let_def split: if_splits)
  next
    case (ProviderUsage b t i out y)
    with s n control_check_cases [of b t c] show ?thesis
      by (auto simp: tools_left_def record_provider_usage_def Let_def split: if_splits)
  qed
qed (auto simp: tools_left_def)

interpretation token_budget: budget tokens_left op_tokens
proof unfold_locales
  fix c n x g c1
  assume n: "tokens_left c = Some n" and s: "control_step x c = (g, c1)"
  show "\<exists>n1. tokens_left c1 = Some n1 \<and> n1 + (if g then op_tokens x else 0) \<le> n"
  proof (cases x)
    case (AdmitRetry b t)
    with s n control_check_cases [of b t c] show ?thesis
      by (auto simp: tokens_left_def admit_retry_def split: if_splits)
  next
    case (ToolInvocation b t)
    with s n control_check_cases [of b t c] show ?thesis
      by (auto simp: tokens_left_def record_tool_invocation_def Let_def split: if_splits)
  next
    case (ProviderUsage b t i out y)
    with s n control_check_cases [of b t c] show ?thesis
      by (auto simp: tokens_left_def record_provider_usage_def Let_def split: if_splits)
  qed
qed (auto simp: tokens_left_def)

text \<open>
  The budgets hold. Whatever sequence of retries, tool invocations and provider usages an
  execution asks for, and whenever it is cancelled or times out, the retries admitted, the tool
  invocations let through and the tokens of the usages accepted never exceed the configured limits.
\<close>

theorem budgets_hold:
  assumes "mk_control started timeout max_retries max_tokens max_cost max_tools = Inr c"
  shows "(\<forall>m. max_retries = Some m \<longrightarrow> sum_list (map op_retries (control_granted xs c)) \<le> m) \<and>
         (\<forall>m. max_tools = Some m \<longrightarrow> sum_list (map op_tools (control_granted xs c)) \<le> m) \<and>
         (\<forall>m. max_tokens = Some m \<longrightarrow> sum_list (map op_tokens (control_granted xs c)) \<le> m)"
proof -
  have "xc_remaining_retries c = max_retries" "xc_max_tool_invocations c = max_tools"
    "xc_max_total_tokens c = max_tokens" "xc_tool_invocations c = 0" "xc_total_tokens c = 0"
    "\<forall>m. max_retries = Some m \<longrightarrow> 0 \<le> m" "\<forall>m. max_tools = Some m \<longrightarrow> 1 \<le> m"
    "\<forall>m. max_tokens = Some m \<longrightarrow> 1 \<le> m"
    using assms by (auto simp: mk_control_def split: if_splits)
  then have "retries_left c = max_retries" "tools_left c = max_tools" "tokens_left c = max_tokens"
    by (auto simp: retries_left_def tools_left_def tokens_left_def split: option.splits
        intro!: option.map_ident_strong)
  then show ?thesis
    using retry_budget.granted_within [of c _ xs] tool_budget.granted_within [of c _ xs]
      token_budget.granted_within [of c _ xs] by simp
qed

definition sample_control :: exec_control where
  "sample_control = projr (mk_control 0 (Some 100) (Some 1) (Some 50) None (Some 1))"

theorem budgets_hold_witness:
  "sum_list (map op_retries (control_granted [AdmitRetry False 1, AdmitRetry False 2] sample_control)) \<le> 1 \<and>
   length (control_granted [AdmitRetry False 1, ProviderUsage False 2 30 10 0, ProviderUsage False 3 20 0 0]
     sample_control) = 2"
proof
  have "mk_control 0 (Some 100) (Some 1) (Some 50) None (Some 1) = Inr sample_control"
    by (simp add: sample_control_def mk_control_def)
  from budgets_hold [OF this, of "[AdmitRetry False 1, AdmitRetry False 2]"]
  show "sum_list (map op_retries (control_granted [AdmitRetry False 1, AdmitRetry False 2] sample_control)) \<le> 1"
    by simp
  show "length (control_granted [AdmitRetry False 1, ProviderUsage False 2 30 10 0,
          ProviderUsage False 3 20 0 0] sample_control) = 2"
    by code_simp
qed

end
