(* ===== verification/Provider_Invocation.thy ===== *)
theory Provider_Invocation
  imports Errors
begin

text \<open>
  \<open>providers/invocation.py\<close>: a provider call in a worker thread, polled under a timeout, a run
  deadline and a cancellation check, and retried under a policy.

  The thread, the clock and the cancellation signal are the environment: \<open>mo_now\<close> and
  \<open>mo_cancelled\<close> are their successive readings, and the \<open>k\<close>-th wait on the future gives
  \<open>poll k\<close>, the outcome of the call, or \<open>None\<close> when the wait timed out. A wait that times out and a
  call that raised \<open>TimeoutError\<close> are the same exception to the code (from Python 3.11 on), and the
  model treats them alike. The \<open>while True\<close> loop is a \<open>partial_function\<close>: not returning is \<open>None\<close>.
\<close>

section \<open>One call\<close>

record monitor =
  mo_now :: "nat \<Rightarrow> time"
  mo_now_calls :: nat
  mo_cancelled :: "nat \<Rightarrow> bool"
  mo_cancel_calls :: nat

definition mono_now :: "monitor \<Rightarrow> time \<times> monitor" where
  "mono_now m = (mo_now m (mo_now_calls m), m\<lparr>mo_now_calls := Suc (mo_now_calls m)\<rparr>)"

text \<open>\<open>cancellation_check is not None and cancellation_check()\<close>\<close>

definition check_cancel :: "bool \<Rightarrow> monitor \<Rightarrow> bool \<times> monitor" where
  "check_cancel on m =
     (if on then (mo_cancelled m (mo_cancel_calls m), m\<lparr>mo_cancel_calls := Suc (mo_cancel_calls m)\<rparr>)
      else (False, m))"

definition reached :: "time option \<Rightarrow> time \<Rightarrow> bool" where
  "reached d t \<longleftrightarrow> (case d of None \<Rightarrow> False | Some x \<Rightarrow> t \<ge> x)"

text \<open>The checks after the future returned a value.\<close>

definition after_value ::
  "bool \<Rightarrow> time option \<Rightarrow> time option \<Rightarrow> 'v \<Rightarrow> monitor \<Rightarrow> (exc + 'v) \<times> monitor" where
  "after_value on deadline local_deadline v m =
     (case check_cancel on m of (c, m1) \<Rightarrow>
        if c then (Inl ExecutionCancelledError, m1)
        else
          (case mono_now m1 of (t, m2) \<Rightarrow>
             if reached deadline t then (Inl ExecutionTimeoutError, m2)
             else if reached local_deadline t then (Inl ProviderTimeoutError, m2)
             else (Inr v, m2)))"

text \<open>The handler of \<open>FutureTimeoutError\<close>: an error to raise, or another pass of the loop.\<close>

definition after_timeout ::
  "time option \<Rightarrow> time option \<Rightarrow> monitor \<Rightarrow> (exc + 'v) option \<times> monitor" where
  "after_timeout deadline local_deadline m =
     (case mono_now m of (t, m1) \<Rightarrow>
        if (case deadline of None \<Rightarrow> False
            | Some d \<Rightarrow> (case local_deadline of None \<Rightarrow> True | Some l \<Rightarrow> d \<le> l) \<and> t \<ge> d)
        then (Some (Inl ExecutionTimeoutError), m1)
        else if reached local_deadline t then (Some (Inl ProviderTimeoutError), m1)
        else if reached deadline t then (Some (Inl ExecutionTimeoutError), m1)
        else (None, m1))"

text \<open>One pass of the loop: its result, or \<open>None\<close> for another pass.\<close>

definition poll_pass ::
  "(exc + 'v) option \<Rightarrow> bool \<Rightarrow> time option \<Rightarrow> time option \<Rightarrow> monitor \<Rightarrow> (exc + 'v) option \<times> monitor" where
  "poll_pass wait on deadline local_deadline m =
     (case check_cancel on m of (c, m1) \<Rightarrow>
        if c then (Some (Inl ExecutionCancelledError), m1)
        else
          (case mono_now m1 of (t, m2) \<Rightarrow>
             if reached deadline t then (Some (Inl ExecutionTimeoutError), m2)
             else if reached local_deadline t then (Some (Inl ProviderTimeoutError), m2)
             else
               (case wait of
                  None \<Rightarrow> after_timeout deadline local_deadline m2
                | Some (Inl e) \<Rightarrow>
                    if e = BuiltinTimeoutError then after_timeout deadline local_deadline m2
                    else (Some (Inl e), m2)
                | Some (Inr v) \<Rightarrow>
                    (case after_value on deadline local_deadline v m2 of (r, m3) \<Rightarrow> (Some r, m3)))))"

partial_function (option) poll_loop ::
  "(nat \<Rightarrow> (exc + 'v) option) \<Rightarrow> bool \<Rightarrow> time option \<Rightarrow> time option \<Rightarrow> nat \<Rightarrow> monitor \<Rightarrow>
   ((exc + 'v) \<times> monitor) option" where
  "poll_loop poll on deadline local_deadline k m =
     (case poll_pass (poll k) on deadline local_deadline m of
        (Some r, m1) \<Rightarrow> Some (r, m1)
      | (None, m1) \<Rightarrow> poll_loop poll on deadline local_deadline (Suc k) m1)"

definition run_with_timeout ::
  "(exc + 'v) \<Rightarrow> (nat \<Rightarrow> (exc + 'v) option) \<Rightarrow> duration option \<Rightarrow> bool \<Rightarrow> time option \<Rightarrow> monitor \<Rightarrow>
   ((exc + 'v) \<times> monitor) option" where
  "run_with_timeout direct poll timeout on deadline m =
     (if timeout = None \<and> \<not> on \<and> deadline = None then Some (direct, m)
      else
        (case timeout of
           None \<Rightarrow> poll_loop poll on deadline None 0 m
         | Some d \<Rightarrow>
             (case mono_now m of (t, m1) \<Rightarrow> poll_loop poll on deadline (Some (t + d)) 0 m1)))"

section \<open>Retries\<close>

text \<open>
  A policy is application code, and the runtime's own policy asks the retry budget of the run:
  \<open>should_retry\<close> may change the caller's state and may raise.
\<close>

record 'c provider_policy =
  pp_timeout :: "duration option"
  pp_max_attempts :: int
  pp_should_retry :: "exc \<Rightarrow> nat \<Rightarrow> 'c \<Rightarrow> (exc + bool) \<times> 'c"
  pp_backoff :: "exc \<Rightarrow> nat \<Rightarrow> duration"

definition default_provider_policy :: "duration \<Rightarrow> int \<Rightarrow> duration \<Rightarrow> 'c provider_policy" where
  "default_provider_policy timeout attempts backoff =
     \<lparr>pp_timeout = Some timeout, pp_max_attempts = attempts,
      pp_should_retry = (\<lambda>e n c. (Inr (\<not> int n \<ge> attempts \<and>
        (is_transport_error e \<or> e = ProviderTimeoutError \<or> exc_retryable e)), c)),
      pp_backoff = (\<lambda>e n. backoff)\<rparr>"

definition default_policy_ok :: "duration \<Rightarrow> int \<Rightarrow> duration \<Rightarrow> bool" where
  "default_policy_ok timeout attempts backoff \<longleftrightarrow> 0 < timeout \<and> 1 \<le> attempts \<and> 0 \<le> backoff"

text \<open>
  The outside world of a provider call: the outcome of the \<open>i\<close>-th attempt when it runs directly,
  the outcomes of the waits on it when it runs in the worker thread, and the application's \<open>sleep\<close>.
  The state is the monitor, the caller's state and what has been called.
\<close>

record 'v provider_world =
  vw_direct :: "nat \<Rightarrow> exc + 'v"
  vw_polls :: "nat \<Rightarrow> nat \<Rightarrow> (exc + 'v) option"
  vw_sleep :: "duration \<Rightarrow> exc + unit"

record 'c call_state =
  cs_monitor :: monitor
  cs_caller :: 'c
  cs_calls :: nat
  cs_sleeps :: "duration list"

text \<open>The \<open>while True\<close> of the controlled sleep, until \<open>stop\<close>.\<close>

partial_function (option) sleep_loop ::
  "bool \<Rightarrow> time option \<Rightarrow> time \<Rightarrow> monitor \<Rightarrow> ((exc + unit) \<times> monitor) option" where
  "sleep_loop on deadline stop m =
     (case check_cancel on m of (c, m1) \<Rightarrow>
        if c then Some (Inl ExecutionCancelledError, m1)
        else
          (case mono_now m1 of (t, m2) \<Rightarrow>
             if reached deadline t then Some (Inl ExecutionTimeoutError, m2)
             else if stop - t \<le> 0 then Some (Inr (), m2)
             else sleep_loop on deadline stop m2))"

definition sleep_with_control ::
  "'v provider_world \<Rightarrow> duration \<Rightarrow> bool \<Rightarrow> time option \<Rightarrow> 'c call_state \<Rightarrow>
   ((exc + unit) \<times> 'c call_state) option" where
  "sleep_with_control vw seconds on deadline s =
     (if \<not> on \<and> deadline = None
      then Some (vw_sleep vw seconds, s\<lparr>cs_sleeps := cs_sleeps s @ [seconds]\<rparr>)
      else
        (case mono_now (cs_monitor s) of (t, m) \<Rightarrow>
           (case sleep_loop on deadline (t + seconds) m of
              None \<Rightarrow> None
            | Some (r, m1) \<Rightarrow> Some (r, s\<lparr>cs_monitor := m1\<rparr>))))"

text \<open>One attempt: the call is handed over and awaited.\<close>

definition attempt_call ::
  "'v provider_world \<Rightarrow> duration option \<Rightarrow> bool \<Rightarrow> time option \<Rightarrow> nat \<Rightarrow> 'c call_state \<Rightarrow>
   ((exc + 'v) \<times> 'c call_state) option" where
  "attempt_call vw timeout on deadline attempt s =
     (case run_with_timeout (vw_direct vw attempt) (vw_polls vw attempt) timeout on deadline
             (cs_monitor s) of
        None \<Rightarrow> None
      | Some (r, m) \<Rightarrow> Some (r, s\<lparr>cs_monitor := m, cs_calls := Suc (cs_calls s)\<rparr>))"

definition ask_policy ::
  "'c provider_policy \<Rightarrow> exc \<Rightarrow> nat \<Rightarrow> 'c call_state \<Rightarrow> (exc + bool) \<times> 'c call_state" where
  "ask_policy pol e attempt s =
     (case pp_should_retry pol e attempt (cs_caller s) of (r, c) \<Rightarrow> (r, s\<lparr>cs_caller := c\<rparr>))"

text \<open>The error reported when no attempt succeeded.\<close>

definition final_provider_error :: "exc \<Rightarrow> exc" where
  "final_provider_error e =
     (if is_provider_error e then e else ProviderError PROVIDER_FAILED (exc_retryable e))"

text \<open>
  The \<open>for\<close> loop with \<open>n\<close> attempts left, the next being \<open>attempt\<close>, and \<open>prev\<close> the value of
  \<open>last_error\<close>; \<open>None\<close> is a call that never comes back. A result carries the number of the attempt.
\<close>

fun invoke_loop ::
  "'v provider_world \<Rightarrow> 'c provider_policy \<Rightarrow> bool \<Rightarrow> time option \<Rightarrow> nat \<Rightarrow> nat \<Rightarrow> exc \<Rightarrow> 'c call_state \<Rightarrow>
   ((exc + 'v \<times> nat) \<times> 'c call_state) option" where
  "invoke_loop vw pol on deadline 0 attempt prev s = Some (Inl (final_provider_error prev), s)"
| "invoke_loop vw pol on deadline (Suc n) attempt prev s =
     (case attempt_call vw (pp_timeout pol) on deadline attempt s of
        None \<Rightarrow> None
      | Some (Inr v, s1) \<Rightarrow> Some (Inr (v, attempt), s1)
      | Some (Inl e, s1) \<Rightarrow>
          if e = ExecutionCancelledError \<or> e = ExecutionTimeoutError \<or> e = ExitSignal
          then Some (Inl e, s1)
          else
            (case ask_policy pol e attempt s1 of
               (Inl x, s2) \<Rightarrow> Some (Inl x, s2)
             | (Inr False, s2) \<Rightarrow> Some (Inl (final_provider_error e), s2)
             | (Inr True, s2) \<Rightarrow>
                 if pp_backoff pol e attempt > 0 then
                   (case sleep_with_control vw (pp_backoff pol e attempt) on deadline s2 of
                      None \<Rightarrow> None
                    | Some (Inl x, s3) \<Rightarrow> Some (Inl x, s3)
                    | Some (Inr _, s3) \<Rightarrow> invoke_loop vw pol on deadline n (Suc attempt) e s3)
                 else invoke_loop vw pol on deadline n (Suc attempt) e s2))"

definition invoke_provider_call ::
  "'v provider_world \<Rightarrow> 'c provider_policy \<Rightarrow> bool \<Rightarrow> time option \<Rightarrow> 'c call_state \<Rightarrow>
   ((exc + 'v \<times> nat) \<times> 'c call_state) option" where
  "invoke_provider_call vw pol on deadline s =
     (if pp_max_attempts pol < 1 then Some (Inl ValueError, s)
      else invoke_loop vw pol on deadline (nat (pp_max_attempts pol)) 1 AssertionError s)"

section \<open>Lemmas\<close>

lemma mono_now_simps [simp]:
  "fst (mono_now m) = mo_now m (mo_now_calls m)"
  "snd (mono_now m) = m\<lparr>mo_now_calls := Suc (mo_now_calls m)\<rparr>"
  by (simp_all add: mono_now_def)

lemma check_cancel_same:
  "check_cancel on m = (c, m1) \<Longrightarrow> mo_now m1 = mo_now m \<and> mo_now_calls m1 = mo_now_calls m \<and>
     mo_cancelled m1 = mo_cancelled m"
  by (auto simp: check_cancel_def split: if_splits)

text \<open>A pass that goes on has read the clock twice, before every limit.\<close>

lemma poll_pass_again:
  assumes "poll_pass w on deadline local_deadline m = (None, m1)"
  shows "mo_now_calls m1 = mo_now_calls m + 2 \<and> mo_now m1 = mo_now m \<and> mo_cancelled m1 = mo_cancelled m \<and>
         \<not> reached deadline (mo_now m (mo_now_calls m)) \<and>
         \<not> reached local_deadline (mo_now m (mo_now_calls m))"
proof -
  obtain c m2 where c: "check_cancel on m = (c, m2)" by fastforce
  note same = check_cancel_same [OF c]
  from assms c same show ?thesis
    unfolding poll_pass_def after_timeout_def after_value_def mono_now_def
    by (auto split: if_splits option.splits sum.splits prod.splits)
qed

lemma poll_pass_clock:
  "poll_pass w on deadline local_deadline m = (q, m1) \<Longrightarrow> mo_now m1 = mo_now m"
  unfolding poll_pass_def after_timeout_def after_value_def mono_now_def
  by (auto dest!: check_cancel_same split: if_splits option.splits sum.splits prod.splits)

lemma poll_loop_returns:
  assumes "\<forall>n \<ge> N. mo_now m n \<ge> x" and "deadline = Some x \<or> local_deadline = Some x"
  shows "\<exists>r m'. poll_loop poll on deadline local_deadline k m = Some (r, m') \<and> mo_now m' = mo_now m"
  using assms(1)
proof (induction "N - mo_now_calls m" arbitrary: m k rule: less_induct)
  case less
  obtain q m1 where q: "poll_pass (poll k) on deadline local_deadline m = (q, m1)" by fastforce
  show ?case
  proof (cases q)
    case (Some r)
    then show ?thesis using q poll_pass_clock [OF q] by (subst poll_loop.simps) simp
  next
    case None
    note again = poll_pass_again [OF q [unfolded None]]
    have "mo_now_calls m < N"
    proof (rule ccontr)
      assume "\<not> mo_now_calls m < N"
      with less.prems have "x \<le> mo_now m (mo_now_calls m)" by simp
      with again assms(2) show False by (auto simp: reached_def)
    qed
    then have "N - mo_now_calls m1 < N - mo_now_calls m" using again by simp
    from less.hyps [OF this] less.prems again show ?thesis
      by (subst poll_loop.simps) (simp add: q None)
  qed
qed

text \<open>The clock passes every instant.\<close>

definition clock_advances :: "monitor \<Rightarrow> bool" where
  "clock_advances m \<longleftrightarrow> (\<forall>b. \<exists>N. \<forall>n \<ge> N. mo_now m n \<ge> b)"

lemma run_with_timeout_returns:
  assumes "clock_advances m" and "timeout \<noteq> None \<or> deadline \<noteq> None \<or> \<not> on"
  shows "\<exists>r m'. run_with_timeout direct poll timeout on deadline m = Some (r, m') \<and> mo_now m' = mo_now m"
proof (cases timeout)
  case None
  show ?thesis
  proof (cases deadline)
    case None
    with \<open>timeout = None\<close> assms(2) show ?thesis by (simp add: run_with_timeout_def)
  next
    case (Some x)
    from assms(1) obtain N where "\<forall>n \<ge> N. mo_now m n \<ge> x" unfolding clock_advances_def by blast
    from poll_loop_returns [OF this, of deadline None poll on 0] \<open>timeout = None\<close> Some show ?thesis
      by (simp add: run_with_timeout_def)
  qed
next
  case (Some d)
  let ?m = "m\<lparr>mo_now_calls := Suc (mo_now_calls m)\<rparr>" and ?x = "mo_now m (mo_now_calls m) + d"
  from assms(1) obtain N where "\<forall>n \<ge> N. mo_now ?m n \<ge> ?x" unfolding clock_advances_def by auto
  from poll_loop_returns [OF this, of deadline "Some ?x" poll on 0] Some show ?thesis
    by (simp add: run_with_timeout_def mono_now_def)
qed

lemma sleep_loop_returns:
  assumes "\<forall>n \<ge> N. mo_now m n \<ge> stop"
  shows "\<exists>r m'. sleep_loop on deadline stop m = Some (r, m') \<and> mo_now m' = mo_now m"
  using assms
proof (induction "N - mo_now_calls m" arbitrary: m rule: less_induct)
  case less
  obtain c m1 where c: "check_cancel on m = (c, m1)" by fastforce
  note same = check_cancel_same [OF c]
  let ?t = "mo_now m (mo_now_calls m)" and ?m2 = "m1\<lparr>mo_now_calls := Suc (mo_now_calls m1)\<rparr>"
  show ?case
  proof (cases "c \<or> reached deadline ?t \<or> stop - ?t \<le> 0")
    case True
    with c same show ?thesis by (subst sleep_loop.simps) (auto simp: mono_now_def)
  next
    case False
    have "mo_now_calls m < N"
    proof (rule ccontr)
      assume "\<not> mo_now_calls m < N"
      with less.prems have "stop \<le> ?t" by simp
      with False show False by simp
    qed
    then have "N - mo_now_calls ?m2 < N - mo_now_calls m" using same by simp
    from less.hyps [OF this] less.prems same c False show ?thesis
      by (subst sleep_loop.simps) (simp add: mono_now_def)
  qed
qed

lemma sleep_with_control_returns:
  assumes "clock_advances (cs_monitor s)"
  shows "\<exists>r s'. sleep_with_control vw d on deadline s = Some (r, s') \<and>
           mo_now (cs_monitor s') = mo_now (cs_monitor s)"
proof (cases "\<not> on \<and> deadline = None")
  case False
  let ?m = "(cs_monitor s)\<lparr>mo_now_calls := Suc (mo_now_calls (cs_monitor s))\<rparr>"
  let ?x = "mo_now (cs_monitor s) (mo_now_calls (cs_monitor s)) + d"
  from assms obtain N where "\<forall>n \<ge> N. mo_now ?m n \<ge> ?x" unfolding clock_advances_def by auto
  from sleep_loop_returns [OF this, of on deadline] False show ?thesis
    by (auto simp: sleep_with_control_def mono_now_def)
qed (simp add: sleep_with_control_def)

lemma attempt_call_returns:
  assumes "clock_advances (cs_monitor s)" and "timeout \<noteq> None \<or> deadline \<noteq> None \<or> \<not> on"
  shows "\<exists>r s'. attempt_call vw timeout on deadline i s = Some (r, s') \<and>
           mo_now (cs_monitor s') = mo_now (cs_monitor s)"
  using run_with_timeout_returns [OF assms, of "vw_direct vw i" "vw_polls vw i"]
  by (auto simp: attempt_call_def)

lemma invoke_loop_returns:
  assumes "pp_timeout pol \<noteq> None \<or> deadline \<noteq> None \<or> \<not> on"
  shows "clock_advances (cs_monitor s) \<Longrightarrow> \<exists>y. invoke_loop vw pol on deadline n a prev s = Some y"
proof (induction n arbitrary: a prev s)
  case (Suc n)
  obtain r s1 where s1: "attempt_call vw (pp_timeout pol) on deadline a s = Some (r, s1)"
    and c1: "clock_advances (cs_monitor s1)"
    using attempt_call_returns [OF Suc.prems assms] Suc.prems unfolding clock_advances_def by metis
  show ?case
  proof (cases r)
    case (Inl e)
    obtain b s3 where s3: "ask_policy pol e a s1 = (b, s3)" by fastforce
    then have c3: "clock_advances (cs_monitor s3)"
      using c1 by (auto simp: ask_policy_def split: prod.splits)
    obtain q s2 where s2: "sleep_with_control vw (pp_backoff pol e a) on deadline s3 = Some (q, s2)"
      and c2: "clock_advances (cs_monitor s2)"
      using sleep_with_control_returns [OF c3] c3 unfolding clock_advances_def by metis
    from Suc.IH [OF c3, of "Suc a" e] Suc.IH [OF c2, of "Suc a" e] show ?thesis
      by (simp add: s1 s2 s3 Inl split: sum.split bool.split)
  qed (simp add: s1)
qed simp

text \<open>What the loop returns for a call that has already raised \<open>TimeoutError\<close>, without a run deadline.\<close>

definition spins ::
  "(nat \<Rightarrow> (exc + 'v) option) \<Rightarrow> bool \<Rightarrow> time option \<Rightarrow> time option \<Rightarrow> nat \<Rightarrow> monitor \<Rightarrow>
   (exc + 'v) \<times> monitor \<Rightarrow> bool" where
  "spins poll on deadline local_deadline k m y \<longleftrightarrow>
     ((\<forall>j. poll j = Some (Inl BuiltinTimeoutError)) \<and> (\<forall>n. \<not> mo_cancelled m n) \<and> deadline = None \<longrightarrow>
      fst y = Inl ProviderTimeoutError \<and>
      (\<exists>n. mo_now_calls (snd y) = Suc n \<and> reached local_deadline (mo_now m n)))"

lemma failed_pass_result:
  assumes "poll_pass (Some (Inl BuiltinTimeoutError)) on None local_deadline m = (Some r, m1)"
    and "\<forall>n. \<not> mo_cancelled m n"
  shows "r = Inl ProviderTimeoutError \<and>
         (\<exists>n. mo_now_calls m1 = Suc n \<and> reached local_deadline (mo_now m n))"
proof -
  obtain c m2 where c: "check_cancel on m = (c, m2)" by fastforce
  note same = check_cancel_same [OF c]
  have "\<not> c" using c assms(2) by (auto simp: check_cancel_def split: if_splits)
  with assms(1) c same show ?thesis
    unfolding poll_pass_def after_timeout_def mono_now_def
    by (cases local_deadline) (auto simp: reached_def split: if_splits)
qed

lemma failed_poll_result:
  "poll_loop poll on deadline local_deadline k m = Some y \<Longrightarrow> spins poll on deadline local_deadline k m y"
proof (rule poll_loop.raw_induct [where P = spins], goal_cases)
  case (1 f poll on deadline local_deadline k m y)
  obtain q m1 where q: "poll_pass (poll k) on deadline local_deadline m = (q, m1)" by fastforce
  show ?case
  proof (cases q)
    case (Some r)
    with 1(3) q have "y = (r, m1)" by simp
    with failed_pass_result [of on local_deadline m r m1] q Some show ?thesis by (auto simp: spins_def)
  next
    case None
    with 1(3) q have "f poll on deadline local_deadline (Suc k) m1 = Some y" by simp
    from 1(2) [OF this] poll_pass_again [OF q [unfolded None]] show ?thesis by (auto simp: spins_def)
  qed
qed

section \<open>Properties\<close>


text \<open>
  C38: a call that fails at once with \<open>TimeoutError\<close> is polled until its time is up. The loop takes
  the call's own error for a wait that timed out, so with a timeout and no run deadline or
  cancellation the error is reported as a provider timeout and only at a clock reading at which
  the whole timeout has passed; with no timeout at all but a cancellation check the call never
  returns.
\<close>

theorem failed_call_polled_until_timeout:
  assumes "\<forall>j. poll j = Some (Inl BuiltinTimeoutError)" and "\<forall>n. \<not> mo_cancelled m n"
  shows "(\<forall>d r m1. run_with_timeout direct poll (Some d) on None m = Some (r, m1) \<longrightarrow>
            r = Inl ProviderTimeoutError \<and>
            (\<exists>n. mo_now_calls m1 = Suc n \<and> mo_now m n \<ge> mo_now m (mo_now_calls m) + d)) \<and>
         run_with_timeout direct poll None True None m = None"
proof -
  have "r = Inl ProviderTimeoutError \<and>
        (\<exists>n. mo_now_calls m1 = Suc n \<and> mo_now m n \<ge> mo_now m (mo_now_calls m) + d)"
    if "run_with_timeout direct poll (Some d) on None m = Some (r, m1)" for d r m1
  proof -
    from that have "poll_loop poll on None (Some (mo_now m (mo_now_calls m) + d)) 0
        (m\<lparr>mo_now_calls := Suc (mo_now_calls m)\<rparr>) = Some (r, m1)"
      by (simp add: run_with_timeout_def mono_now_def)
    from failed_poll_result [OF this] assms show ?thesis by (auto simp: spins_def reached_def)
  qed
  moreover have "poll_loop poll True None None 0 m \<noteq> Some y" for y
    using failed_poll_result [of poll True None None 0 m y] assms by (auto simp: spins_def reached_def)
  then have "poll_loop poll True None None 0 m = None" by (meson not_Some_eq)
  then have "run_with_timeout direct poll None True None m = None"
    by (simp add: run_with_timeout_def)
  ultimately show ?thesis by blast
qed

text \<open>How the loop can go on with \<open>Suc n\<close> attempts left.\<close>

lemma invoke_loop_cases:
  assumes "invoke_loop vw pol on deadline (Suc n) a prev s = Some (r, s')"
  obtains (ok) v where "attempt_call vw (pp_timeout pol) on deadline a s = Some (Inr v, s')" "r = Inr (v, a)"
  | (stop) e where "attempt_call vw (pp_timeout pol) on deadline a s = Some (Inl e, s')" "r = Inl e"
      "e = ExecutionCancelledError \<or> e = ExecutionTimeoutError \<or> e = ExitSignal"
  | (refused) e s1 x where "attempt_call vw (pp_timeout pol) on deadline a s = Some (Inl e, s1)"
      "ask_policy pol e a s1 = (Inl x, s')" "r = Inl x"
  | (failed) e s1 where "attempt_call vw (pp_timeout pol) on deadline a s = Some (Inl e, s1)"
      "ask_policy pol e a s1 = (Inr False, s')" "r = Inl (final_provider_error e)"
  | (woken) e s1 s2 x where "attempt_call vw (pp_timeout pol) on deadline a s = Some (Inl e, s1)"
      "ask_policy pol e a s1 = (Inr True, s2)"
      "sleep_with_control vw (pp_backoff pol e a) on deadline s2 = Some (Inl x, s')" "r = Inl x"
  | (slept) e s1 s2 s3 where "attempt_call vw (pp_timeout pol) on deadline a s = Some (Inl e, s1)"
      "ask_policy pol e a s1 = (Inr True, s2)"
      "sleep_with_control vw (pp_backoff pol e a) on deadline s2 = Some (Inr (), s3)"
      "invoke_loop vw pol on deadline n (Suc a) e s3 = Some (r, s')"
  | (again) e s1 s2 where "attempt_call vw (pp_timeout pol) on deadline a s = Some (Inl e, s1)"
      "ask_policy pol e a s1 = (Inr True, s2)"
      "invoke_loop vw pol on deadline n (Suc a) e s2 = Some (r, s')"
  using assms by (auto split: option.splits sum.splits prod.splits if_splits bool.splits)

lemma ask_policy_calls: "ask_policy pol e a s = (r, s') \<Longrightarrow> cs_calls s' = cs_calls s"
  by (auto simp: ask_policy_def split: prod.splits)

lemma attempt_call_counts:
  "attempt_call vw timeout on deadline a s = Some (r, s') \<Longrightarrow> cs_calls s' = Suc (cs_calls s)"
  by (auto simp: attempt_call_def split: option.splits prod.splits)

lemma sleep_calls_nothing:
  "sleep_with_control vw d on deadline s = Some (r, s') \<Longrightarrow> cs_calls s' = cs_calls s"
  by (auto simp: sleep_with_control_def split: option.splits prod.splits if_splits)

lemma invoke_loop_bound:
  "invoke_loop vw pol on deadline n a prev s = Some (r, s') \<Longrightarrow>
     cs_calls s' \<le> cs_calls s + n \<and>
     (\<forall>v k. r = Inr (v, k) \<longrightarrow> a \<le> k \<and> cs_calls s' + a = cs_calls s + k + 1)"
proof (induction n arbitrary: a prev s)
  case (Suc n)
  from Suc.prems show ?case
  proof (cases rule: invoke_loop_cases)
    case (slept e s1 s2 s3)
    show ?thesis
      using Suc.IH [OF slept(4)] attempt_call_counts [OF slept(1)] ask_policy_calls [OF slept(2)]
        sleep_calls_nothing [OF slept(3)] by auto
  next
    case (again e s1 s2)
    show ?thesis
      using Suc.IH [OF again(3)] attempt_call_counts [OF again(1)] ask_policy_calls [OF again(2)] by auto
  qed (auto dest!: attempt_call_counts sleep_calls_nothing ask_policy_calls)
qed auto

lemma final_provider_error: "is_provider_error (final_provider_error e)"
  by (simp add: final_provider_error_def ProviderError_def)

text \<open>What the controlled sleep can raise.\<close>

definition sleep_raises ::
  "'v provider_world \<Rightarrow> exc \<Rightarrow> bool" where
  "sleep_raises vw e \<longleftrightarrow> (\<exists>d. vw_sleep vw d = Inl e)"

definition control_error :: "((exc + unit) \<times> monitor) \<Rightarrow> bool" where
  "control_error y \<longleftrightarrow>
     (\<forall>e. fst y = Inl e \<longrightarrow> e = ExecutionCancelledError \<or> e = ExecutionTimeoutError)"

text \<open>What a policy can raise.\<close>

definition policy_raises :: "'c provider_policy \<Rightarrow> exc \<Rightarrow> bool" where
  "policy_raises pol x \<longleftrightarrow> (\<exists>e n c c1. pp_should_retry pol e n c = (Inl x, c1))"

lemma ask_policy_raises: "ask_policy pol e a s = (Inl x, s') \<Longrightarrow> policy_raises pol x"
  unfolding ask_policy_def policy_raises_def by (auto split: prod.splits)

lemma default_policy_silent: "\<not> policy_raises (default_provider_policy d n b) x"
  by (simp add: policy_raises_def default_provider_policy_def)

lemma sleep_loop_error: "sleep_loop on deadline stop m = Some y \<Longrightarrow> control_error y"
proof (rule sleep_loop.raw_induct [where P = "\<lambda>_ _ _ _ y. control_error y"], goal_cases)
  case (1 f on deadline stop m y)
  from 1(3) show ?case
    by (auto simp: control_error_def split: prod.splits if_splits
        dest: 1(2) [unfolded control_error_def, rule_format])
qed

lemma sleep_error:
  "sleep_with_control vw d on deadline s = Some (Inl e, s') \<Longrightarrow>
     e = ExecutionCancelledError \<or> e = ExecutionTimeoutError \<or> sleep_raises vw e"
  by (auto simp: sleep_with_control_def sleep_raises_def control_error_def
      dest!: sleep_loop_error split: option.splits prod.splits if_splits)

lemma invoke_loop_error:
  "invoke_loop vw pol on deadline n a prev s = Some (Inl e, s') \<Longrightarrow>
     is_provider_error e \<or> e = ExecutionCancelledError \<or> e = ExecutionTimeoutError \<or> e = ExitSignal \<or>
     sleep_raises vw e \<or> policy_raises pol e"
proof (induction n arbitrary: a prev s)
  case 0
  then show ?case by (auto simp: final_provider_error)
next
  case (Suc n)
  from Suc.prems show ?case
  proof (cases rule: invoke_loop_cases)
    case (failed e' s1)
    then show ?thesis by (simp add: final_provider_error)
  next
    case (refused e' s1 x)
    then show ?thesis using ask_policy_raises by blast
  next
    case (woken e' w1 w2 x)
    then show ?thesis using sleep_error by blast
  qed (use Suc.IH in auto)
qed

text \<open>
  Retries of a provider call are bounded and its errors are typed. A call that comes back has
  been handed to the provider at most \<open>max_attempts\<close> times and, on success, exactly as often as
  it reports; otherwise it raises a provider error, the run's own cancellation or timeout, an exit
  signal or an error of the application's \<open>sleep\<close> or policy, never the provider's raw exception.
\<close>

theorem provider_retries_bounded:
  assumes "1 \<le> pp_max_attempts pol" and "invoke_provider_call vw pol on deadline s = Some (r, s')"
  shows "int (cs_calls s') \<le> int (cs_calls s) + pp_max_attempts pol \<and>
         (\<forall>v k. r = Inr (v, k) \<longrightarrow> cs_calls s' = cs_calls s + k) \<and>
         (\<forall>e. r = Inl e \<longrightarrow> is_provider_error e \<or> e = ExecutionCancelledError \<or>
            e = ExecutionTimeoutError \<or> e = ExitSignal \<or> sleep_raises vw e \<or> policy_raises pol e)"
proof -
  have l: "invoke_loop vw pol on deadline (nat (pp_max_attempts pol)) 1 AssertionError s = Some (r, s')"
    using assms by (simp add: invoke_provider_call_def)
  have "is_provider_error e \<or> e = ExecutionCancelledError \<or> e = ExecutionTimeoutError \<or> e = ExitSignal \<or>
      sleep_raises vw e \<or> policy_raises pol e" if "r = Inl e" for e
    by (rule invoke_loop_error [OF l [unfolded that]])
  with invoke_loop_bound [OF l] assms(1) show ?thesis by auto
qed

text \<open>
  A permanent failure is not retried. Under the default policy an error that is no transport
  error, no provider timeout and not marked retryable ends the call after that attempt.
\<close>

theorem permanent_failure_not_retried:
  assumes "attempt_call vw (Some timeout) on deadline 1 s = Some (Inl e, s1)" and "1 \<le> attempts"
    and "\<not> is_transport_error e" and "e \<noteq> ProviderTimeoutError" and "\<not> exc_retryable e"
    and "e \<notin> {ExecutionCancelledError, ExecutionTimeoutError, ExitSignal}"
  shows "invoke_provider_call vw (default_provider_policy timeout attempts backoff) on deadline s =
           Some (Inl (final_provider_error e), s1) \<and> cs_calls s1 = Suc (cs_calls s)"
proof -
  obtain n where n: "nat attempts = Suc n" using assms(2) by (cases "nat attempts") auto
  have "invoke_provider_call vw (default_provider_policy timeout attempts backoff) on deadline s =
          Some (Inl (final_provider_error e), s1)"
    using assms n by (simp add: invoke_provider_call_def default_provider_policy_def ask_policy_def)
  with attempt_call_counts [OF assms(1)] show ?thesis by simp
qed

section \<open>Concrete calls\<close>

definition sample_monitor :: monitor where
  "sample_monitor = \<lparr>mo_now = int, mo_now_calls = 0, mo_cancelled = (\<lambda>_. False), mo_cancel_calls = 0\<rparr>"

text \<open>Attempts that fail with a transport error until the third one.\<close>

definition sample_calls :: "string provider_world" where
  "sample_calls =
     \<lparr>vw_direct = (\<lambda>i. Inr ''direct''),
      vw_polls = (\<lambda>i k. if k < 2 then None
                       else Some (if i < 3 then Inl (ForeignError False True) else Inr ''ok'')),
      vw_sleep = (\<lambda>d. Inr ())\<rparr>"

definition broken_calls :: "string provider_world" where
  "broken_calls = sample_calls\<lparr>vw_polls := (\<lambda>i k. Some (Inl ValueError))\<rparr>"

definition sample_call_state :: "unit call_state" where
  "sample_call_state = \<lparr>cs_monitor = sample_monitor, cs_caller = (), cs_calls = 0, cs_sleeps = []\<rparr>"

lemma sample_clock: "clock_advances sample_monitor"
proof -
  have "\<forall>n \<ge> nat b. mo_now sample_monitor n \<ge> b" for b by (auto simp: sample_monitor_def)
  then show ?thesis unfolding clock_advances_def by blast
qed

lemma sample_policy_bounded:
  "pp_timeout (default_provider_policy d n b) = Some d" "pp_max_attempts (default_provider_policy d n b) = n"
  by (simp_all add: default_provider_policy_def)


theorem failed_call_polled_until_timeout_witness:
  "run_with_timeout (Inr ''x'') (\<lambda>_. Some (Inl BuiltinTimeoutError)) None True None sample_monitor = None"
proof -
  have "\<forall>j. (\<lambda>_. Some (Inl BuiltinTimeoutError :: exc + string)) j = Some (Inl BuiltinTimeoutError)"
    "\<forall>n. \<not> mo_cancelled sample_monitor n"
    by (simp_all add: sample_monitor_def)
  from failed_call_polled_until_timeout [OF this] show ?thesis by blast
qed

theorem provider_retries_bounded_witness:
  "\<exists>r s. invoke_provider_call sample_calls (default_provider_policy 99 3 2) True None sample_call_state = Some (r, s) \<and>
     cs_calls s \<le> 3"
proof -
  let ?pol = "default_provider_policy 99 3 2"
  have "clock_advances (cs_monitor sample_call_state)" "pp_timeout ?pol \<noteq> None \<or> None \<noteq> None \<or> \<not> True"
    by (simp_all add: sample_clock sample_call_state_def sample_policy_bounded)
  then obtain r s where i: "invoke_provider_call sample_calls ?pol True None sample_call_state = Some (r, s)"
    using invoke_loop_returns [of ?pol None True sample_call_state sample_calls 3 1 AssertionError]
    by (auto simp: invoke_provider_call_def sample_policy_bounded)
  have "1 \<le> pp_max_attempts ?pol" by (simp add: sample_policy_bounded)
  from provider_retries_bounded [OF this i] i show ?thesis
    by (auto simp: sample_call_state_def sample_policy_bounded)
qed

theorem permanent_failure_not_retried_witness:
  "\<exists>s. invoke_provider_call broken_calls (default_provider_policy 9 3 2) True None sample_call_state =
         Some (Inl (ProviderError PROVIDER_FAILED False), s) \<and> cs_calls s = 1"
proof -
  obtain s1 where a: "attempt_call broken_calls (Some 9) True None 1 sample_call_state = Some (Inl ValueError, s1)"
  proof -
    show ?thesis
      by (rule that, simp add: attempt_call_def run_with_timeout_def sample_call_state_def sample_monitor_def
          broken_calls_def mono_now_def, subst poll_loop.simps,
          simp add: poll_pass_def check_cancel_def mono_now_def reached_def)
  qed
  from permanent_failure_not_retried [OF a, of 3 2] show ?thesis
    by (simp add: final_provider_error_def sample_call_state_def ProviderTimeoutError_def ProviderError_def
        ExecutionCancelledError_def ExecutionTimeoutError_def)
qed

end
