(* ===== verification/Tool_Registry.thy ===== *)
theory Tool_Registry
  imports Tool_Definitions "HOL-Library.List_Lexorder" "HOL-Library.Char_ord" "HOL-Library.Product_Lexorder"
begin

text \<open>
  \<open>tools/registry.py\<close>, the registry itself: registration of exact tool versions, lookup, and the
  lifecycle of a version, with the audit events of \<open>registry_audit.py\<close>. The idempotency table and
  the execution records belong to the same object; their operations are in \<open>Tool_Execution\<close>. A
  tool is immutable, so \<open>_copy_tool\<close> is the identity. An audit sink given by the application
  receives the events of \<open>tg_events\<close> in the same order and is not a field of its own.
\<close>

section \<open>State\<close>

record registry_event =
  rge_event_id :: string
  rge_registry_id :: string
  rge_operation :: string
  rge_component_kind :: string
  rge_component_id :: string
  rge_version :: string
  rge_from_status :: "agent_lifecycle_status option"
  rge_to_status :: "agent_lifecycle_status option"
  rge_occurred_at :: time
  rge_metadata :: "(string, string) dict"

definition registry_event_ok :: "registry_event \<Rightarrow> bool" where
  "registry_event_ok e \<longleftrightarrow>
     rge_event_id e \<noteq> [] \<and> rge_registry_id e \<noteq> [] \<and> rge_operation e \<noteq> [] \<and>
     rge_component_kind e \<noteq> [] \<and> rge_component_id e \<noteq> [] \<and> rge_version e \<noteq> []"

record tool_execution_record =
  ter_execution_id :: string
  ter_tool_id :: string
  ter_tool_version :: string
  ter_status :: tool_result_status
  ter_attempts :: int
  ter_retry_count :: int
  ter_timeout :: "duration option"
  ter_key_digest :: "string option"
  ter_error_code :: "string option"

text \<open>The validators of \<open>ToolExecutionRecord\<close>; its measured latency is left out.\<close>

definition tool_execution_record_ok :: "tool_execution_record \<Rightarrow> bool" where
  "tool_execution_record_ok r \<longleftrightarrow>
     ter_execution_id r \<noteq> [] \<and> ter_tool_id r \<noteq> [] \<and> ter_tool_version r \<noteq> [] \<and>
     1 \<le> ter_attempts r \<and> 0 \<le> ter_retry_count r \<and>
     (case ter_timeout r of None \<Rightarrow> True | Some d \<Rightarrow> 0 < d) \<and>
     ter_key_digest r \<noteq> Some [] \<and> ter_error_code r \<noteq> Some []"

record idempotency_entry =
  ide_argument_digest :: string
  ide_result :: tool_result

text \<open>Tenant, principal, tool, version and idempotency key.\<close>

type_synonym cache_key = "string \<times> string \<times> string \<times> string \<times> string"

record 'w tool_registry =
  tg_tools :: "(string \<times> string, 'w tool_definition) dict"
  tg_idempotency :: "(cache_key, idempotency_entry) dict"
  tg_records :: "tool_execution_record list"
  tg_events :: "registry_event list"
  tg_revision :: nat
  tg_world :: world

definition empty_registry :: "world \<Rightarrow> 'w tool_registry" where
  "empty_registry w =
     \<lparr>tg_tools = [], tg_idempotency = [], tg_records = [], tg_events = [], tg_revision = 0, tg_world = w\<rparr>"

section \<open>Changes and their events\<close>

definition registry_changed ::
  "string \<Rightarrow> string \<Rightarrow> string \<Rightarrow> agent_lifecycle_status option \<Rightarrow> agent_lifecycle_status option \<Rightarrow>
   'w tool_registry \<Rightarrow> (exc + unit) \<times> 'w tool_registry" where
  "registry_changed operation component_id version from_status to_status g =
     (let g1 = g\<lparr>tg_revision := Suc (tg_revision g)\<rparr>
      in case new_id ''registry_event'' (tg_world g1) of (i, w1) \<Rightarrow>
           case now w1 of (t, w2) \<Rightarrow>
             (let e = \<lparr>rge_event_id = i, rge_registry_id = ''tools'', rge_operation = operation,
                       rge_component_kind = ''tool'', rge_component_id = component_id,
                       rge_version = version, rge_from_status = from_status,
                       rge_to_status = to_status, rge_occurred_at = t, rge_metadata = []\<rparr>;
                  g2 = g1\<lparr>tg_world := w2\<rparr>
              in if registry_event_ok e then (Inr (), g2\<lparr>tg_events := tg_events g2 @ [e]\<rparr>)
                 else (Inl ValidationError, g2)))"

definition tool_key :: "'w tool_definition \<Rightarrow> string \<times> string" where
  "tool_key t = (td_tool_id t, td_version t)"

text \<open>\<open>register\<close>; \<open>replace_existing\<close> only selects the message of the same error.\<close>

definition register_tool ::
  "'w tool_definition \<Rightarrow> 'w tool_registry \<Rightarrow> (exc + 'w tool_definition) \<times> 'w tool_registry" where
  "register_tool t g =
     (if map_of (tg_tools g) (tool_key t) \<noteq> None then (Inl ValueError, g)
      else
        (case registry_changed ''registered'' (td_tool_id t) (td_version t) None (Some (td_lifecycle t))
                (g\<lparr>tg_tools := AList.update (tool_key t) t (tg_tools g)\<rparr>) of
           (Inl e, g1) \<Rightarrow> (Inl e, g1)
         | (Inr _, g1) \<Rightarrow> (Inr t, g1)))"

text \<open>\<open>ToolRegistry(tools)\<close>: the constructor registers the tools in their order.\<close>

fun register_tools ::
  "'w tool_definition list \<Rightarrow> 'w tool_registry \<Rightarrow> (exc + unit) \<times> 'w tool_registry" where
  "register_tools [] g = (Inr (), g)"
| "register_tools (t # ts) g =
     (case register_tool t g of (Inl e, g1) \<Rightarrow> (Inl e, g1) | (Inr _, g1) \<Rightarrow> register_tools ts g1)"

fun lifecycle_targets :: "agent_lifecycle_status \<Rightarrow> agent_lifecycle_status list" where
  "lifecycle_targets Life_DRAFT = [Life_DRAFT, Life_ACTIVE, Life_RETIRED]"
| "lifecycle_targets Life_VALIDATED = [Life_VALIDATED, Life_ACTIVE, Life_RETIRED]"
| "lifecycle_targets Life_ACTIVE = [Life_ACTIVE, Life_SUSPENDED, Life_DEPRECATED, Life_RETIRED]"
| "lifecycle_targets Life_SUSPENDED = [Life_SUSPENDED, Life_ACTIVE, Life_DEPRECATED, Life_RETIRED]"
| "lifecycle_targets Life_DEPRECATED = [Life_DEPRECATED, Life_RETIRED]"
| "lifecycle_targets Life_RETIRED = [Life_RETIRED]"

definition lifecycle_operation ::
  "agent_lifecycle_status \<Rightarrow> agent_lifecycle_status \<Rightarrow> string" where
  "lifecycle_operation current target =
     (if target = Life_ACTIVE then (if current = Life_SUSPENDED then ''reactivated'' else ''activated'')
      else lifecycle_value target)"

text \<open>
  \<open>_set_lifecycle\<close>, which \<open>deprecate\<close>, \<open>disable\<close>, \<open>activate\<close> and \<open>retire\<close> call with their
  target. The outer sum is an error of the event, the inner one the registry's own refusal.
\<close>

definition set_lifecycle ::
  "string \<Rightarrow> string \<Rightarrow> agent_lifecycle_status \<Rightarrow> 'w tool_registry \<Rightarrow>
   (exc + (tool_error + 'w tool_definition)) \<times> 'w tool_registry" where
  "set_lifecycle tool_id version lifecycle g =
     (case map_of (tg_tools g) (tool_id, version) of
        None \<Rightarrow> (Inr (Inl (caused_error ''unknown_tool'' False KeyError)), g)
      | Some current \<Rightarrow>
          if td_lifecycle current = Life_RETIRED \<and> lifecycle \<noteq> td_lifecycle current
          then (Inr (Inl (plain_error ''invalid_lifecycle_transition'')), g)
          else if lifecycle \<notin> set (lifecycle_targets (td_lifecycle current))
          then (Inr (Inl (plain_error ''invalid_lifecycle_transition'')), g)
          else if lifecycle = td_lifecycle current then (Inr (Inr current), g)
          else
            (let updated = current\<lparr>td_lifecycle := lifecycle\<rparr>
             in case registry_changed (lifecycle_operation (td_lifecycle current) lifecycle)
                       tool_id version (Some (td_lifecycle current)) (Some lifecycle)
                       (g\<lparr>tg_tools := AList.update (tool_id, version) updated (tg_tools g)\<rparr>) of
                  (Inl e, g1) \<Rightarrow> (Inl e, g1)
                | (Inr _, g1) \<Rightarrow> (Inr (Inr updated), g1)))"

section \<open>Lookup\<close>

definition assert_active :: "'w tool_definition \<Rightarrow> tool_error + unit" where
  "assert_active t =
     (if td_lifecycle t = Life_DEPRECATED then Inl (plain_error ''tool_deprecated'')
      else if td_lifecycle t = Life_SUSPENDED then Inl (plain_error ''tool_disabled'')
      else if td_lifecycle t = Life_RETIRED then Inl (plain_error ''tool_retired'')
      else if td_lifecycle t \<noteq> Life_ACTIVE then Inl (plain_error ''tool_not_active'')
      else Inr ())"

definition candidates :: "string \<Rightarrow> 'w tool_registry \<Rightarrow> 'w tool_definition list" where
  "candidates tool_id g = map snd (filter (\<lambda>((i, v), t). i = tool_id) (tg_tools g))"

definition get_tool ::
  "string \<Rightarrow> string option \<Rightarrow> bool \<Rightarrow> 'w tool_registry \<Rightarrow> tool_error + 'w tool_definition" where
  "get_tool tool_id version include_inactive g =
     (case version of
        Some v \<Rightarrow>
          (case map_of (tg_tools g) (tool_id, v) of
             None \<Rightarrow> Inl (caused_error ''unknown_tool'' False KeyError)
           | Some t \<Rightarrow>
               if include_inactive then Inr t
               else (case assert_active t of Inl e \<Rightarrow> Inl e | Inr _ \<Rightarrow> Inr t))
      | None \<Rightarrow>
          (let cs = candidates tool_id g;
               active = filter (\<lambda>t. td_lifecycle t = Life_ACTIVE) cs
           in if include_inactive then
                (case cs of
                   [] \<Rightarrow> Inl (plain_error ''unknown_tool'')
                 | [t] \<Rightarrow> Inr t
                 | _ \<Rightarrow> Inl (plain_error ''tool_version_required''))
              else
                (case active of
                   [] \<Rightarrow>
                     (case cs of
                        [] \<Rightarrow> Inl (plain_error ''unknown_tool'')
                      | t # _ \<Rightarrow>
                          (case assert_active t of
                             Inl e \<Rightarrow> Inl e | Inr _ \<Rightarrow> Inl (plain_error ''unknown_tool'')))
                 | [t] \<Rightarrow> Inr t
                 | _ \<Rightarrow> Inl (plain_error ''tool_version_required''))))"

text \<open>\<open>list\<close>, \<open>names\<close> and \<open>versions\<close>: text is ordered by code points.\<close>

definition list_tools :: "bool \<Rightarrow> 'w tool_registry \<Rightarrow> 'w tool_definition list" where
  "list_tools include_inactive g =
     sort_key tool_key
       (filter (\<lambda>t. include_inactive \<or> td_lifecycle t = Life_ACTIVE) (map snd (tg_tools g)))"

definition tool_names :: "bool \<Rightarrow> 'w tool_registry \<Rightarrow> string list" where
  "tool_names include_inactive g = sort (remdups (map td_tool_id (list_tools include_inactive g)))"

definition tool_versions :: "string \<Rightarrow> bool \<Rightarrow> 'w tool_registry \<Rightarrow> string list" where
  "tool_versions tool_id include_inactive g =
     map td_version (filter (\<lambda>t. td_tool_id t = tool_id) (list_tools include_inactive g))"

section \<open>Sequences of registry operations\<close>

datatype 'w registry_op =
    RegisterTool "'w tool_definition"
  | SetLifecycle string string agent_lifecycle_status

fun registry_step :: "'w registry_op \<Rightarrow> 'w tool_registry \<Rightarrow> 'w tool_registry" where
  "registry_step (RegisterTool t) g = snd (register_tool t g)"
| "registry_step (SetLifecycle i v l) g = snd (set_lifecycle i v l g)"

definition registry_run :: "'w registry_op list \<Rightarrow> 'w tool_registry \<Rightarrow> 'w tool_registry" where
  "registry_run xs g = fold registry_step xs g"

text \<open>
  The contract of a registry of versioned components: what is registered under a key stays, apart
  from its lifecycle, which moves along the transition table.
\<close>

locale versioned_registry =
  fixes status :: "'k \<Rightarrow> 'g \<Rightarrow> agent_lifecycle_status option"
    and body :: "'k \<Rightarrow> 'g \<Rightarrow> 'd option"
    and step :: "'o \<Rightarrow> 'g \<Rightarrow> 'g"
    and moves :: "agent_lifecycle_status \<Rightarrow> agent_lifecycle_status list"
  assumes body_kept: "body k g = Some d \<Longrightarrow> body k (step x g) = Some d"
    and status_moves: "status k g = Some s \<Longrightarrow> \<exists>s' \<in> set (moves s). status k (step x g) = Some s'"
    and no_way_back: "s \<in> {Life_DEPRECATED, Life_RETIRED} \<Longrightarrow> set (moves s) \<subseteq> {Life_DEPRECATED, Life_RETIRED}"
    and retired_stays: "set (moves Life_RETIRED) \<subseteq> {Life_RETIRED}"
begin

lemma run_body: "body k g = Some d \<Longrightarrow> body k (fold step xs g) = Some d"
  by (induction xs arbitrary: g) (auto intro: body_kept)

lemma run_withdrawn:
  "status k g = Some s \<Longrightarrow> s \<in> {Life_DEPRECATED, Life_RETIRED} \<Longrightarrow>
   \<exists>s' \<in> {Life_DEPRECATED, Life_RETIRED}. status k (fold step xs g) = Some s'"
proof (induction xs arbitrary: g s)
  case (Cons x xs)
  from status_moves [OF Cons.prems(1), of x] obtain s1 where
    s1: "s1 \<in> set (moves s)" "status k (step x g) = Some s1" by blast
  with no_way_back [OF Cons.prems(2)] have "s1 \<in> {Life_DEPRECATED, Life_RETIRED}" by blast
  from Cons.IH [OF s1(2) this] show ?case by simp
qed simp

lemma run_retired: "status k g = Some Life_RETIRED \<Longrightarrow> status k (fold step xs g) = Some Life_RETIRED"
proof (induction xs arbitrary: g)
  case (Cons x xs)
  from status_moves [OF Cons.prems, of x] retired_stays have "status k (step x g) = Some Life_RETIRED" by blast
  from Cons.IH [OF this] show ?case by simp
qed simp

end

definition tool_status :: "string \<times> string \<Rightarrow> 'w tool_registry \<Rightarrow> agent_lifecycle_status option" where
  "tool_status k g = map_option td_lifecycle (map_of (tg_tools g) k)"

text \<open>A tool without its lifecycle: the lifecycle is set to a fixed value.\<close>

definition tool_body :: "string \<times> string \<Rightarrow> 'w tool_registry \<Rightarrow> 'w tool_definition option" where
  "tool_body k g = map_option (\<lambda>t. t\<lparr>td_lifecycle := Life_ACTIVE\<rparr>) (map_of (tg_tools g) k)"

lemma registry_changed_keeps:
  "registry_changed op i v a b g = (r, g') \<Longrightarrow>
     tg_tools g' = tg_tools g \<and> tg_revision g' = Suc (tg_revision g) \<and>
     tg_idempotency g' = tg_idempotency g \<and> tg_records g' = tg_records g"
  by (auto simp: registry_changed_def new_id_def now_def Let_def split: if_splits)

lemma register_tool_tools:
  "tg_tools (snd (register_tool t g)) =
     (if map_of (tg_tools g) (tool_key t) \<noteq> None then tg_tools g
      else AList.update (tool_key t) t (tg_tools g))"
  by (auto simp: register_tool_def dest!: registry_changed_keeps split: prod.splits sum.splits)

lemma set_lifecycle_tools:
  "tg_tools (snd (set_lifecycle i v l g)) =
     (case map_of (tg_tools g) (i, v) of
        None \<Rightarrow> tg_tools g
      | Some t \<Rightarrow>
          if l \<in> set (lifecycle_targets (td_lifecycle t)) \<and> l \<noteq> td_lifecycle t
          then AList.update (i, v) (t\<lparr>td_lifecycle := l\<rparr>) (tg_tools g) else tg_tools g)"
proof (cases "map_of (tg_tools g) (i, v)")
  case (Some t)
  have "l \<in> set (lifecycle_targets (td_lifecycle t)) \<Longrightarrow> \<not> (td_lifecycle t = Life_RETIRED \<and> l \<noteq> td_lifecycle t)"
    by (cases "td_lifecycle t") auto
  with Some show ?thesis
    by (auto simp: set_lifecycle_def Let_def dest!: registry_changed_keeps split: prod.splits sum.splits)
qed (simp add: set_lifecycle_def)

lemma lifecycle_targets_self: "l \<in> set (lifecycle_targets l)"
  by (cases l) auto

interpretation tool_store: versioned_registry tool_status tool_body registry_step lifecycle_targets
proof unfold_locales
  fix k :: "string \<times> string" and g :: "'a tool_registry" and d x
  assume "tool_body k g = Some d"
  then show "tool_body k (registry_step x g) = Some d"
    by (cases x) (auto simp: tool_body_def register_tool_tools set_lifecycle_tools split: option.splits)
next
  fix k :: "string \<times> string" and g :: "'a tool_registry" and s x
  assume "tool_status k g = Some s"
  then show "\<exists>s' \<in> set (lifecycle_targets s). tool_status k (registry_step x g) = Some s'"
    using lifecycle_targets_self
    by (cases x) (auto simp: tool_status_def register_tool_tools set_lifecycle_tools split: option.splits)
qed auto

section \<open>Properties\<close>

text \<open>
  Registered tool versions are immutable. Whatever is registered, activated, suspended,
  deprecated or retired afterwards, a version keeps its definition, handler included; only its
  lifecycle can differ.
\<close>

theorem tool_version_immutable:
  assumes "get_tool i (Some v) True g = Inr t"
  shows "\<exists>l. get_tool i (Some v) True (registry_run xs g) = Inr (t\<lparr>td_lifecycle := l\<rparr>)"
proof -
  have "tool_body (i, v) g = Some (t\<lparr>td_lifecycle := Life_ACTIVE\<rparr>)"
    using assms by (auto simp: get_tool_def tool_body_def split: option.splits)
  from tool_store.run_body [OF this] obtain t' where
    t': "map_of (tg_tools (registry_run xs g)) (i, v) = Some t'"
    "t'\<lparr>td_lifecycle := Life_ACTIVE\<rparr> = t\<lparr>td_lifecycle := Life_ACTIVE\<rparr>"
    by (auto simp: tool_body_def registry_run_def)
  then have "t' = t\<lparr>td_lifecycle := td_lifecycle t'\<rparr>"
    by (metis tool_definition.surjective tool_definition.update_convs(15))
  with t'(1) show ?thesis by (auto simp: get_tool_def)
qed

text \<open>
  A withdrawn tool version never comes back. Once a version is deprecated or retired, no
  sequence of registry operations makes it resolvable for a call again.
\<close>

theorem withdrawn_tool_not_resolved:
  assumes "get_tool i (Some v) True g = Inr t" and "td_lifecycle t \<in> {Life_DEPRECATED, Life_RETIRED}"
  shows "\<exists>e. get_tool i (Some v) False (registry_run xs g) = Inl e \<and>
             te_code e \<in> {''tool_deprecated'', ''tool_retired''}"
proof -
  have "tool_status (i, v) g = Some (td_lifecycle t)"
    using assms(1) by (auto simp: get_tool_def tool_status_def split: option.splits)
  from tool_store.run_withdrawn [OF this assms(2)] obtain t' where
    "map_of (tg_tools (registry_run xs g)) (i, v) = Some t'"
    "td_lifecycle t' \<in> {Life_DEPRECATED, Life_RETIRED}"
    by (auto simp: tool_status_def registry_run_def)
  then show ?thesis by (auto simp: get_tool_def assert_active_def plain_error_def)
qed

section \<open>Concrete registries\<close>

text \<open>A tool that counts its calls and, like a write, needs an idempotency key.\<close>

definition counting_tool :: "nat tool_definition" where
  "counting_tool =
     \<lparr>td_tool_id = ''count'', td_version = ''1.0.0'', td_description = ''counts'',
      td_input = (\<lambda>d. Some (PDict d)), td_output = Some,
      td_handler = (\<lambda>c v n. (Inr (Plain (PInt (int n))), Suc n)),
      td_kind = Kind_WRITE, td_risk_level = Risk_LOW, td_required_permissions = [],
      td_requires_approval = False, td_idempotency_required = True, td_sensitive_argument_fields = [],
      td_owner_id = ''application'', td_tags = [], td_lifecycle = Life_ACTIVE, td_timeout = None,
      td_retryable = True, td_max_attempts = 3, td_retry_backoff = 0, td_dependencies = [],
      td_allowed_environments = [], td_retry_policy = None\<rparr>"

definition counting_registry :: "nat tool_registry" where
  "counting_registry =
     snd (register_tool counting_tool (empty_registry
       \<lparr>make_id = (\<lambda>p n. p), id_calls = 0, clock_at = int, clock_calls = 0\<rparr>))"

lemma counting_registry_tools: "tg_tools counting_registry = [((''count'', ''1.0.0''), counting_tool)]"
  by (simp add: counting_registry_def register_tool_tools empty_registry_def tool_key_def counting_tool_def)

theorem tool_version_immutable_witness:
  "\<exists>l. get_tool ''count'' (Some ''1.0.0'') True
         (registry_run [RegisterTool counting_tool, SetLifecycle ''count'' ''1.0.0'' Life_SUSPENDED] counting_registry) =
       Inr (counting_tool\<lparr>td_lifecycle := l\<rparr>)"
  by (rule tool_version_immutable) (simp add: get_tool_def counting_registry_tools)

theorem withdrawn_tool_not_resolved_witness:
  "\<exists>e. get_tool ''count'' (Some ''1.0.0'') False
         (registry_run [SetLifecycle ''count'' ''1.0.0'' Life_ACTIVE]
           (snd (set_lifecycle ''count'' ''1.0.0'' Life_RETIRED counting_registry))) = Inl e"
proof -
  let ?g = "snd (set_lifecycle ''count'' ''1.0.0'' Life_RETIRED counting_registry)"
  have "get_tool ''count'' (Some ''1.0.0'') True ?g = Inr (counting_tool\<lparr>td_lifecycle := Life_RETIRED\<rparr>)"
    by (simp add: get_tool_def set_lifecycle_tools counting_registry_tools) (simp add: counting_tool_def)
  from withdrawn_tool_not_resolved [OF this, of "[SetLifecycle ''count'' ''1.0.0'' Life_ACTIVE]"] show ?thesis
    by auto
qed

end
