(* ===== verification/Tool_Execution.thy ===== *)
theory Tool_Execution
  imports Tool_Registry Provider_Invocation
begin

text \<open>
  \<open>ToolRegistry.invoke\<close> of \<open>tools/registry.py\<close>: a guarded call of a registered tool with argument
  validation, an idempotency table, timeout, cancellation, retries and execution records.

  A call hands the handler to a worker thread and polls it. The handler's effect on the
  application's state is applied when the call is handed over, also when the wait for it ends
  early, because a running handler cannot be stopped. The clock and the cancellation signal are
  the \<open>monitor\<close> of \<open>Provider_Invocation\<close>, and \<open>xs_ready i k\<close> tells whether the \<open>k\<close>-th wait on the
  \<open>i\<close>-th call finds its result. The trace callback only records; the retry admission (in the
  runtime \<open>ExecutionControl.admit_retry\<close>) is a function on the caller's state.
\<close>

section \<open>State and parameters\<close>

text \<open>SHA-256, the JSON encoder and \<open>str\<close> of a number of seconds.\<close>

record tool_env =
  tv_sha256 :: "string \<Rightarrow> string"
  tv_dumps :: "pyval \<Rightarrow> string"
  tv_str_seconds :: "duration \<Rightarrow> string"

record 'c invoke_options =
  io_trace :: bool
  io_cancel :: bool
  io_deadline :: "time option"
  io_admission :: "('c \<Rightarrow> (exc + bool) \<times> 'c) option"

record ('w, 'c) tool_state =
  xs_registry :: "'w tool_registry"
  xs_app :: 'w
  xs_caller :: 'c
  xs_monitor :: monitor
  xs_ready :: "nat \<Rightarrow> nat \<Rightarrow> bool"
  xs_calls :: nat
  xs_trace :: "(string \<times> (string, string) dict) list"

text \<open>What a call can end with: an exception that is no tool error, a tool error, a result.\<close>

type_synonym tool_answer = "exc + (tool_error + tool_result)"

definition emit ::
  "'c invoke_options \<Rightarrow> string \<Rightarrow> (string, string) dict \<Rightarrow> ('w, 'c) tool_state \<Rightarrow> ('w, 'c) tool_state" where
  "emit opts event metadata s =
     (if io_trace opts then s\<lparr>xs_trace := xs_trace s @ [(event, metadata)]\<rparr> else s)"

section \<open>One call of the handler\<close>

definition tool_timeout_error :: "exc option \<Rightarrow> tool_error" where
  "tool_timeout_error cause = \<lparr>te_code = ''tool_timeout'', te_retryable = True, te_cause = cause\<rparr>"

text \<open>The handler of \<open>FutureTimeoutError\<close>; each limit that is set reads the clock.\<close>

definition tool_after_timeout ::
  "time option \<Rightarrow> time option \<Rightarrow> monitor \<Rightarrow> tool_answer option \<times> monitor" where
  "tool_after_timeout deadline local_deadline m =
     (let local_check = (\<lambda>m1. case local_deadline of
            None \<Rightarrow> (None, m1)
          | Some l \<Rightarrow> (case mono_now m1 of (t, m2) \<Rightarrow>
              if t \<ge> l then (Some (Inr (Inl (tool_timeout_error (Some BuiltinTimeoutError)))), m2)
              else (None, m2)))
      in case deadline of
           None \<Rightarrow> local_check m
         | Some d \<Rightarrow> (case mono_now m of (t, m1) \<Rightarrow>
             if t \<ge> d then (Some (Inl ExecutionTimeoutError), m1) else local_check m1))"

definition tool_after_result ::
  "bool \<Rightarrow> time option \<Rightarrow> time option \<Rightarrow> tool_result \<Rightarrow> monitor \<Rightarrow> tool_answer \<times> monitor" where
  "tool_after_result on deadline local_deadline r m =
     (case check_cancel on m of (c, m1) \<Rightarrow>
        if c then (Inl ExecutionCancelledError, m1)
        else
          (case mono_now m1 of (t, m2) \<Rightarrow>
             if reached deadline t then (Inl ExecutionTimeoutError, m2)
             else if reached local_deadline t then (Inr (Inl (tool_timeout_error None)), m2)
             else (Inr (Inr r), m2)))"

definition tool_poll_pass ::
  "tool_answer \<Rightarrow> bool \<Rightarrow> bool \<Rightarrow> time option \<Rightarrow> time option \<Rightarrow> monitor \<Rightarrow> tool_answer option \<times> monitor" where
  "tool_poll_pass outcome ready on deadline local_deadline m =
     (case check_cancel on m of (c, m1) \<Rightarrow>
        if c then (Some (Inl ExecutionCancelledError), m1)
        else
          (case mono_now m1 of (t, m2) \<Rightarrow>
             if reached deadline t then (Some (Inl ExecutionTimeoutError), m2)
             else if reached local_deadline t then (Some (Inr (Inl (tool_timeout_error None))), m2)
             else if \<not> ready then tool_after_timeout deadline local_deadline m2
             else
               (case outcome of
                  Inr (Inr r) \<Rightarrow>
                    (case tool_after_result on deadline local_deadline r m2 of (q, m3) \<Rightarrow> (Some q, m3))
                | failed \<Rightarrow> (Some failed, m2))))"

partial_function (option) tool_poll_loop ::
  "tool_answer \<Rightarrow> (nat \<Rightarrow> bool) \<Rightarrow> bool \<Rightarrow> time option \<Rightarrow> time option \<Rightarrow> nat \<Rightarrow> monitor \<Rightarrow>
   (tool_answer \<times> monitor) option" where
  "tool_poll_loop outcome ready on deadline local_deadline k m =
     (case tool_poll_pass outcome (ready k) on deadline local_deadline m of
        (Some q, m1) \<Rightarrow> Some (q, m1)
      | (None, m1) \<Rightarrow> tool_poll_loop outcome ready on deadline local_deadline (Suc k) m1)"

definition tool_run_with_timeout ::
  "tool_answer \<Rightarrow> (nat \<Rightarrow> bool) \<Rightarrow> duration option \<Rightarrow> bool \<Rightarrow> time option \<Rightarrow> monitor \<Rightarrow>
   (tool_answer \<times> monitor) option" where
  "tool_run_with_timeout outcome ready timeout on deadline m =
     (if timeout = None \<and> \<not> on \<and> deadline = None then Some (outcome, m)
      else
        (case timeout of
           None \<Rightarrow> tool_poll_loop outcome ready on deadline None 0 m
         | Some d \<Rightarrow>
             (case mono_now m of (t, m1) \<Rightarrow> tool_poll_loop outcome ready on deadline (Some (t + d)) 0 m1)))"

definition call_tool ::
  "'c invoke_options \<Rightarrow> 'w tool_definition \<Rightarrow> execution_context \<Rightarrow> (string, pyval) dict \<Rightarrow>
   ('w, 'c) tool_state \<Rightarrow> (tool_answer \<times> ('w, 'c) tool_state) option" where
  "call_tool opts t c arguments s =
     (case tool_invoke t c arguments (xs_app s) of
        (outcome, w) \<Rightarrow>
          (case tool_run_with_timeout outcome (xs_ready s (xs_calls s)) (td_timeout t) (io_cancel opts)
                  (io_deadline opts) (xs_monitor s) of
             None \<Rightarrow> None
           | Some (q, m) \<Rightarrow>
               Some (q, s\<lparr>xs_app := w, xs_monitor := m, xs_calls := Suc (xs_calls s)\<rparr>)))"

section \<open>Retry decisions\<close>

definition never_retried_codes :: "string list" where
  "never_retried_codes =
     [''invalid_arguments'', ''invalid_output'', ''invalid_result_identity'',
      ''invalid_idempotency_key'', ''idempotency_key_required'', ''idempotency_key_reused'']"

definition should_retry :: "'w tool_definition \<Rightarrow> tool_error \<Rightarrow> nat \<Rightarrow> bool \<Rightarrow> bool" where
  "should_retry t e attempt allowed \<longleftrightarrow>
     retry_enabled t \<and> allowed \<and> \<not> attempt \<ge> retry_max_attempts t \<and>
     te_code e \<notin> set never_retried_codes \<and>
     (te_retryable e \<or> td_retryable t \<or>
      (case te_cause e of
         None \<Rightarrow> False
       | Some x \<Rightarrow>
           exc_retryable x \<or>
           (case td_retry_policy t of
              None \<Rightarrow> is_transport_error x | Some p \<Rightarrow> rp_retryable_types p x)))"

definition should_retry_result :: "'w tool_definition \<Rightarrow> tool_result \<Rightarrow> nat \<Rightarrow> bool \<Rightarrow> bool" where
  "should_retry_result t r attempt allowed \<longleftrightarrow>
     retry_enabled t \<and> allowed \<and> \<not> attempt \<ge> retry_max_attempts t \<and>
     (td_retryable t \<or> map_of (tr_metadata r) ''retryable'' = Some ''true'')"

definition admit_tool_retry ::
  "'c invoke_options \<Rightarrow> 'w tool_definition \<Rightarrow> nat \<Rightarrow> ('w, 'c) tool_state \<Rightarrow>
   (exc + bool) \<times> ('w, 'c) tool_state" where
  "admit_tool_retry opts t attempt s =
     (case io_admission opts of
        None \<Rightarrow> (Inr True, s)
      | Some f \<Rightarrow>
          (case f (xs_caller s) of
             (Inl e, c) \<Rightarrow> (Inl e, s\<lparr>xs_caller := c\<rparr>)
           | (Inr True, c) \<Rightarrow> (Inr True, s\<lparr>xs_caller := c\<rparr>)
           | (Inr False, c) \<Rightarrow>
               (Inr False, emit opts ''retry_budget_exhausted''
                  [(''tool_id'', td_tool_id t), (''attempt'', str_nat attempt)] (s\<lparr>xs_caller := c\<rparr>))))"

text \<open>\<open>_sleep\<close>; its loop is that of the provider's controlled sleep.\<close>

definition tool_sleep ::
  "'c invoke_options \<Rightarrow> duration \<Rightarrow> ('w, 'c) tool_state \<Rightarrow> ((exc + unit) \<times> ('w, 'c) tool_state) option" where
  "tool_sleep opts seconds s =
     (if seconds \<le> 0 \<and> \<not> io_cancel opts \<and> io_deadline opts = None then Some (Inr (), s)
      else
        (case mono_now (xs_monitor s) of (t, m) \<Rightarrow>
           (case sleep_loop (io_cancel opts) (io_deadline opts) (t + max 0 seconds) m of
              None \<Rightarrow> None
            | Some (q, m1) \<Rightarrow> Some (q, s\<lparr>xs_monitor := m1\<rparr>))))"

definition retry_pause ::
  "'c invoke_options \<Rightarrow> 'w tool_definition \<Rightarrow> nat \<Rightarrow> string \<Rightarrow> ('w, 'c) tool_state \<Rightarrow>
   ((exc + unit) \<times> ('w, 'c) tool_state) option" where
  "retry_pause opts t attempt reason s =
     tool_sleep opts (retry_backoff t)
       (emit opts ''tool_retry_scheduled''
          [(''tool_id'', td_tool_id t), (''attempt'', str_nat attempt), (''reason_code'', reason)] s)"

section \<open>Records\<close>

definition digest_key :: "tool_env \<Rightarrow> cache_key option \<Rightarrow> string option" where
  "digest_key env key = map_option (\<lambda>(tenant, who, tool, version, k). tv_sha256 env k) key"

definition status_value :: "tool_result_status \<Rightarrow> string" where
  "status_value s =
     (case s of TR_SUCCEEDED \<Rightarrow> ''succeeded'' | TR_EMPTY \<Rightarrow> ''empty'' | TR_RESTRICTED \<Rightarrow> ''restricted''
      | TR_FAILED \<Rightarrow> ''failed'' | TR_INVALID_ARGUMENTS \<Rightarrow> ''invalid_arguments''
      | TR_PERMISSION_DENIED \<Rightarrow> ''permission_denied'' | TR_APPROVAL_REQUIRED \<Rightarrow> ''approval_required'')"

definition record_execution ::
  "'c invoke_options \<Rightarrow> execution_context \<Rightarrow> 'w tool_definition \<Rightarrow> tool_result_status \<Rightarrow> nat \<Rightarrow>
   string option \<Rightarrow> string option \<Rightarrow> ('w, 'c) tool_state \<Rightarrow> (exc + unit) \<times> ('w, 'c) tool_state" where
  "record_execution opts c t status attempts digest error_code s =
     (let r = \<lparr>ter_execution_id = ec_execution_id c, ter_tool_id = td_tool_id t,
               ter_tool_version = td_version t, ter_status = status, ter_attempts = int attempts,
               ter_retry_count = int attempts - 1, ter_timeout = td_timeout t,
               ter_key_digest = digest, ter_error_code = error_code\<rparr>
      in if \<not> tool_execution_record_ok r then (Inl ValidationError, s)
         else (Inr (),
           emit opts (if status = TR_SUCCEEDED \<or> status = TR_EMPTY then ''tool_execution_completed''
                      else ''tool_execution_failed'')
             [(''tool_id'', td_tool_id t), (''tool_version'', td_version t),
              (''status'', status_value status), (''attempts'', str_nat attempts),
              (''retry_count'', str_nat (attempts - 1))]
             (s\<lparr>xs_registry := (xs_registry s)\<lparr>tg_records := tg_records (xs_registry s) @ [r]\<rparr>\<rparr>)))"

text \<open>A record is written and \<open>answer\<close> returned or raised, unless writing the record raises.\<close>

definition recorded_answer ::
  "'c invoke_options \<Rightarrow> execution_context \<Rightarrow> 'w tool_definition \<Rightarrow> tool_result_status \<Rightarrow> nat \<Rightarrow>
   string option \<Rightarrow> string option \<Rightarrow> tool_answer \<Rightarrow> ('w, 'c) tool_state \<Rightarrow>
   tool_answer \<times> ('w, 'c) tool_state" where
  "recorded_answer opts c t status attempts digest error_code answer s =
     (case record_execution opts c t status attempts digest error_code s of
        (Inl e, s1) \<Rightarrow> (Inl e, s1) | (Inr _, s1) \<Rightarrow> (answer, s1))"

definition with_execution_metadata ::
  "tool_env \<Rightarrow> 'w tool_definition \<Rightarrow> nat \<Rightarrow> tool_result \<Rightarrow> tool_result" where
  "with_execution_metadata env t attempts r =
     (let md = AList.update ''retry_count'' (str_nat (attempts - 1))
                 (AList.update ''attempts'' (str_nat attempts) (tr_metadata r))
      in r\<lparr>tr_metadata := (case td_timeout t of
             None \<Rightarrow> md | Some d \<Rightarrow> AList.update ''timeout_seconds'' (tv_str_seconds env d) md)\<rparr>)"

definition remember_result ::
  "cache_key option \<Rightarrow> string \<Rightarrow> tool_result \<Rightarrow> ('w, 'c) tool_state \<Rightarrow> ('w, 'c) tool_state" where
  "remember_result key digest r s =
     (case key of
        None \<Rightarrow> s
      | Some k \<Rightarrow>
          if tr_status r = TR_SUCCEEDED \<or> tr_status r = TR_EMPTY
          then s\<lparr>xs_registry := (xs_registry s)\<lparr>tg_idempotency :=
                 AList.update k \<lparr>ide_argument_digest = digest, ide_result = r\<rparr>
                   (tg_idempotency (xs_registry s))\<rparr>\<rparr>
          else s)"

section \<open>The retry loop\<close>

definition tool_metadata :: "'w tool_definition \<Rightarrow> (string, string) dict" where
  "tool_metadata t = [(''tool_id'', td_tool_id t), (''tool_version'', td_version t)]"

definition retry_allowed :: "'w tool_definition \<Rightarrow> cache_key option \<Rightarrow> bool" where
  "retry_allowed t key \<longleftrightarrow> td_kind t = Kind_READ \<or> key \<noteq> None"

text \<open>
  \<open>_invoke_locked\<close> with \<open>n\<close> attempts left, \<open>attempts\<close> made and \<open>prev\<close> the value of \<open>last_error\<close>;
  \<open>None\<close> is a wait that never ends.
\<close>

fun tool_loop ::
  "tool_env \<Rightarrow> 'c invoke_options \<Rightarrow> 'w tool_definition \<Rightarrow> execution_context \<Rightarrow> (string, pyval) dict \<Rightarrow>
   cache_key option \<Rightarrow> string \<Rightarrow> nat \<Rightarrow> nat \<Rightarrow> tool_error option \<Rightarrow> ('w, 'c) tool_state \<Rightarrow>
   (tool_answer \<times> ('w, 'c) tool_state) option" where
  "tool_loop env opts t c arguments key digest 0 attempts prev s =
     Some (case prev of None \<Rightarrow> Inl AssertionError | Some e \<Rightarrow> Inr (Inl e), s)"
| "tool_loop env opts t c arguments key digest (Suc n) attempts prev s =
     (let a = Suc attempts;
          kd = digest_key env key;
          s0 = emit opts (if a = 1 then ''tool_execution_started'' else ''tool_retry_started'')
                 (tool_metadata t @ [(''attempt'', str_nat a)]) s
      in case call_tool opts t c arguments s0 of
           None \<Rightarrow> None
         | Some (Inl e, s1) \<Rightarrow>
             if e = ExecutionCancelledError then
               Some (recorded_answer opts c t TR_FAILED a kd (Some ''execution_cancelled'') (Inl e) s1)
             else if e = ExecutionTimeoutError then
               Some (recorded_answer opts c t TR_FAILED a kd (Some ''execution_timeout'') (Inl e) s1)
             else Some (Inl e, s1)
         | Some (Inr (Inl e), s1) \<Rightarrow>
             if \<not> should_retry t e a (retry_allowed t key) then
               Some (recorded_answer opts c t
                       (if te_code e = ''invalid_arguments'' then TR_INVALID_ARGUMENTS else TR_FAILED)
                       a kd (Some (te_code e)) (Inr (Inl e)) s1)
             else
               (case admit_tool_retry opts t a s1 of
                  (Inl x, s2) \<Rightarrow> Some (Inl x, s2)
                | (Inr False, s2) \<Rightarrow>
                    Some (recorded_answer opts c t TR_FAILED a kd (Some (te_code e)) (Inr (Inl e)) s2)
                | (Inr True, s2) \<Rightarrow>
                    (case retry_pause opts t a (te_code e) s2 of
                       None \<Rightarrow> None
                     | Some (Inl x, s3) \<Rightarrow> Some (Inl x, s3)
                     | Some (Inr _, s3) \<Rightarrow>
                         tool_loop env opts t c arguments key digest n a (Some e) s3))
         | Some (Inr (Inr r), s1) \<Rightarrow>
             let done = with_execution_metadata env t a r in
             if tr_status r = TR_FAILED \<and> should_retry_result t r a (retry_allowed t key) then
               (let e = \<lparr>te_code = or_else (tr_error_code r) ''tool_failed'', te_retryable = True,
                         te_cause = None\<rparr>
                in case admit_tool_retry opts t a s1 of
                     (Inl x, s2) \<Rightarrow> Some (Inl x, s2)
                   | (Inr False, s2) \<Rightarrow>
                       Some (recorded_answer opts c t (tr_status done) a kd (tr_error_code done)
                               (Inr (Inr done)) s2)
                   | (Inr True, s2) \<Rightarrow>
                       (case retry_pause opts t a (te_code e) s2 of
                          None \<Rightarrow> None
                        | Some (Inl x, s3) \<Rightarrow> Some (Inl x, s3)
                        | Some (Inr _, s3) \<Rightarrow>
                            tool_loop env opts t c arguments key digest n a (Some e) s3))
             else
               Some (recorded_answer opts c t (tr_status done) a kd (tr_error_code done)
                       (Inr (Inr done)) (remember_result key digest done s1)))"

declare tool_loop.simps [simp del]

section \<open>Invocation\<close>

definition call_cache_key ::
  "execution_context \<Rightarrow> 'w tool_definition \<Rightarrow> string option \<Rightarrow> cache_key option" where
  "call_cache_key c t idempotency_key =
     map_option (\<lambda>k. (pc_tenant_id (ec_principal c), pc_principal_id (ec_principal c),
                      td_tool_id t, td_version t, k)) idempotency_key"

definition replayed_result :: "execution_context \<Rightarrow> tool_result \<Rightarrow> tool_result" where
  "replayed_result c r =
     r\<lparr>tr_execution_id := Some (ec_execution_id c),
       tr_metadata := AList.update ''idempotent_replay'' ''true''
         (AList.update ''retry_count'' ''0'' (AList.update ''attempts'' ''1'' (tr_metadata r)))\<rparr>"

text \<open>A refusal before the handler is called: it is recorded and raised.\<close>

definition refuse_call ::
  "'c invoke_options \<Rightarrow> execution_context \<Rightarrow> 'w tool_definition \<Rightarrow> tool_result_status \<Rightarrow> string option \<Rightarrow>
   tool_error \<Rightarrow> ('w, 'c) tool_state \<Rightarrow> (tool_answer \<times> ('w, 'c) tool_state) option" where
  "refuse_call opts c t status digest e s =
     Some (recorded_answer opts c t status 1 digest (Some (te_code e)) (Inr (Inl e)) s)"

definition invoke_tool ::
  "tool_env \<Rightarrow> 'c invoke_options \<Rightarrow> string \<Rightarrow> execution_context \<Rightarrow> (string, pyval) dict \<Rightarrow> string option \<Rightarrow>
   string option \<Rightarrow> ('w, 'c) tool_state \<Rightarrow> (tool_answer \<times> ('w, 'c) tool_state) option" where
  "invoke_tool env opts tool_id c arguments version idempotency_key s =
     (case get_tool tool_id version False (xs_registry s) of
        Inl e \<Rightarrow> Some (Inr (Inl e), s)
      | Inr t \<Rightarrow>
          (case validate_arguments t arguments of
             Inl e \<Rightarrow> refuse_call opts c t TR_INVALID_ARGUMENTS None e s
           | Inr _ \<Rightarrow>
               if (case idempotency_key of None \<Rightarrow> False | Some k \<Rightarrow> blank k) then
                 refuse_call opts c t TR_FAILED None (plain_error ''invalid_idempotency_key'') s
               else if td_idempotency_required t \<and> idempotency_key = None then
                 refuse_call opts c t TR_PERMISSION_DENIED None (plain_error ''idempotency_key_required'') s
               else
                 (let digest = action_digest (tv_sha256 env) (tv_dumps env) t arguments;
                      key = call_cache_key c t idempotency_key;
                      run = tool_loop env opts t c arguments key digest
                              (if retry_enabled t then retry_max_attempts t else 1) 0 None s
                  in case key of
                       None \<Rightarrow> run
                     | Some k \<Rightarrow>
                         (case map_of (tg_idempotency (xs_registry s)) k of
                            None \<Rightarrow> run
                          | Some cached \<Rightarrow>
                              if ide_argument_digest cached \<noteq> digest then
                                refuse_call opts c t TR_FAILED (digest_key env key)
                                  (plain_error ''idempotency_key_reused'') s
                              else
                                (let r = replayed_result c (ide_result cached)
                                 in Some (recorded_answer opts c t (tr_status r) 1 (digest_key env key)
                                      (tr_error_code r) (Inr (Inr r))
                                      (emit opts ''tool_idempotency_replayed'' (tool_metadata t) s)))))))"

definition clear_idempotency :: "('w, 'c) tool_state \<Rightarrow> ('w, 'c) tool_state" where
  "clear_idempotency s = s\<lparr>xs_registry := (xs_registry s)\<lparr>tg_idempotency := []\<rparr>\<rparr>"

section \<open>Lemmas: one call\<close>

text \<open>The answers a wait can add to the outcome of the call.\<close>

definition waited :: "tool_answer \<Rightarrow> tool_answer \<Rightarrow> bool" where
  "waited outcome q \<longleftrightarrow>
     q = outcome \<or> q = Inl ExecutionCancelledError \<or> q = Inl ExecutionTimeoutError \<or>
     (\<exists>x. q = Inr (Inl (tool_timeout_error x)))"

lemma tool_poll_pass_waited:
  "tool_poll_pass outcome ready on deadline local_deadline m = (Some q, m1) \<Longrightarrow> waited outcome q"
  unfolding tool_poll_pass_def tool_after_timeout_def tool_after_result_def waited_def Let_def
  by (auto split: if_splits option.splits sum.splits prod.splits)

lemma tool_poll_loop_waited:
  "tool_poll_loop outcome ready on deadline local_deadline k m = Some y \<Longrightarrow> waited outcome (fst y)"
proof (rule tool_poll_loop.raw_induct [where P = "\<lambda>outcome _ _ _ _ _ _ y. waited outcome (fst y)"], goal_cases)
  case (1 f outcome ready on deadline local_deadline k m y)
  obtain q m1 where q: "tool_poll_pass outcome (ready k) on deadline local_deadline m = (q, m1)" by fastforce
  show ?case
  proof (cases q)
    case (Some x)
    with 1(3) q tool_poll_pass_waited [of outcome "ready k" on deadline local_deadline m x m1] show ?thesis by auto
  next
    case None
    with 1(3) q have "f outcome ready on deadline local_deadline (Suc k) m1 = Some y" by simp
    from 1(2) [OF this] show ?thesis .
  qed
qed

lemma tool_run_with_timeout_waited:
  "tool_run_with_timeout outcome ready timeout on deadline m = Some (q, m') \<Longrightarrow> waited outcome q"
  by (auto simp: tool_run_with_timeout_def waited_def [of q q] mono_now_def
      dest!: tool_poll_loop_waited split: if_splits option.splits)

lemma call_tool_effect:
  assumes "call_tool opts t c arguments s = Some (q, s')"
  shows "xs_calls s' = Suc (xs_calls s) \<and> xs_registry s' = xs_registry s \<and> xs_caller s' = xs_caller s \<and>
         xs_app s' = snd (tool_invoke t c arguments (xs_app s)) \<and>
         waited (fst (tool_invoke t c arguments (xs_app s))) q"
  using assms
  by (auto simp: call_tool_def dest!: tool_run_with_timeout_waited split: prod.splits option.splits)

lemma call_tool_result:
  assumes "call_tool opts t c arguments s = Some (Inr (Inr r), s')"
  shows "fst (tool_invoke t c arguments (xs_app s)) = Inr (Inr r)"
  using call_tool_effect [OF assms] by (auto simp: waited_def)

definition remembered :: "cache_key \<Rightarrow> ('w, 'c) tool_state \<Rightarrow> idempotency_entry option" where
  "remembered k s = map_of (tg_idempotency (xs_registry s)) k"

lemma call_tool_identity:
  assumes "call_tool opts t c arguments s = Some (Inr (Inr r), s')"
  shows "tr_tool_id r = td_tool_id t \<and> tr_tool_version r = Some (td_version t) \<and>
         tr_execution_id r = Some (ec_execution_id c)"
  using tool_invoke_Inr [of t c arguments "xs_app s" r] call_tool_result [OF assms] by (metis prod.collapse)

text \<open>What does not call the handler and does not touch the idempotency table.\<close>

definition quiet :: "('w, 'c) tool_state \<Rightarrow> ('w, 'c) tool_state \<Rightarrow> bool" where
  "quiet s s' \<longleftrightarrow>
     xs_calls s' = xs_calls s \<and> xs_app s' = xs_app s \<and>
     tg_idempotency (xs_registry s') = tg_idempotency (xs_registry s) \<and>
     tg_tools (xs_registry s') = tg_tools (xs_registry s)"

lemma quiet_refl [simp]: "quiet s s"
  by (simp add: quiet_def)

lemma quiet_trans: "quiet a b \<Longrightarrow> quiet b c \<Longrightarrow> quiet a c"
  by (simp add: quiet_def)

lemma emit_quiet [simp]: "quiet s (emit opts e md s)" "xs_registry (emit opts e md s) = xs_registry s"
  by (simp_all add: quiet_def emit_def)

lemma emit_fields [simp]:
  "xs_calls (emit opts e md s) = xs_calls s" "xs_app (emit opts e md s) = xs_app s"
  "remembered k (emit opts e md s) = remembered k s"
  by (simp_all add: emit_def remembered_def)

lemma quiet_emit_iff [simp]: "quiet a (emit opts e md b) \<longleftrightarrow> quiet a b" "quiet (emit opts e md a) b \<longleftrightarrow> quiet a b"
  by (simp_all add: quiet_def emit_def)

lemma record_execution_quiet: "record_execution opts c t st a d code s = (q, s') \<Longrightarrow> quiet s s'"
  unfolding record_execution_def Let_def by (auto simp: quiet_def emit_def split: if_splits)

lemma recorded_answer_quiet: "recorded_answer opts c t st a d code q s = (q', s') \<Longrightarrow> quiet s s'"
  by (auto simp: recorded_answer_def dest!: record_execution_quiet split: prod.splits sum.splits)

lemma recorded_answer_Inr:
  "recorded_answer opts c t st a d code q s = (Inr x, s') \<Longrightarrow>
     q = Inr x \<and> td_tool_id t \<noteq> [] \<and> td_version t \<noteq> [] \<and> d \<noteq> Some [] \<and> code \<noteq> Some [] \<and>
     (case td_timeout t of None \<Rightarrow> True | Some y \<Rightarrow> 0 < y)"
  by (auto simp: recorded_answer_def record_execution_def Let_def tool_execution_record_ok_def
      split: prod.splits sum.splits if_splits)

lemma admit_tool_retry_quiet: "admit_tool_retry opts t a s = (q, s') \<Longrightarrow> quiet s s'"
  by (auto simp: admit_tool_retry_def quiet_def emit_def split: option.splits prod.splits sum.splits bool.splits)

lemma retry_pause_quiet: "retry_pause opts t a code s = Some (q, s') \<Longrightarrow> quiet s s'"
  by (auto simp: retry_pause_def tool_sleep_def quiet_def emit_def
      split: option.splits prod.splits if_splits)

section \<open>Lemmas: the retry loop\<close>

text \<open>
  How one pass of the loop ends: without a result, with a result that is handed out (and, unless the
  retry was refused, remembered), or with another pass, which needs an action that may be retried.
\<close>

lemma tool_loop_cases:
  assumes "tool_loop env opts t c arguments key digest (Suc n) a prev s = Some (q, s')"
  obtains (stopped) s0 q0 s1 where "quiet s s0" "call_tool opts t c arguments s0 = Some (q0, s1)"
      "quiet s1 s'" "\<And>r. q \<noteq> Inr (Inr r)"
  | (handed) s0 r s1 s2 st where "quiet s s0" "call_tool opts t c arguments s0 = Some (Inr (Inr r), s1)"
      "s2 = remember_result key digest (with_execution_metadata env t (Suc a) r) s1 \<or>
       (quiet s1 s2 \<and> tr_status r = TR_FAILED)"
      "recorded_answer opts c t st (Suc a) (digest_key env key)
         (tr_error_code (with_execution_metadata env t (Suc a) r))
         (Inr (Inr (with_execution_metadata env t (Suc a) r))) s2 = (q, s')"
  | (again) s0 q0 s1 s3 e where "quiet s s0" "call_tool opts t c arguments s0 = Some (q0, s1)" "quiet s1 s3"
      "retry_allowed t key" "Suc a < retry_max_attempts t"
      "tool_loop env opts t c arguments key digest n (Suc a) (Some e) s3 = Some (q, s')"
proof -
  define s0 where "s0 = emit opts (if Suc a = 1 then ''tool_execution_started'' else ''tool_retry_started'')
                 (tool_metadata t @ [(''attempt'', str_nat (Suc a))]) s"
  have s0: "quiet s s0" by (simp add: s0_def)
  note step = assms [unfolded tool_loop.simps Let_def, folded s0_def]
  from step obtain q0 s1 where call: "call_tool opts t c arguments s0 = Some (q0, s1)"
    by (auto split: option.splits)
  show ?thesis
  proof (cases q0)
    case (Inl e)
    with step call have "(\<exists>st code. recorded_answer opts c t st (Suc a) (digest_key env key) (Some code) (Inl e) s1 = (q, s')) \<or>
        (q, s') = (Inl e, s1)"
      by (auto split: if_splits)
    then show ?thesis
      using stopped [OF s0 call] recorded_answer_Inr recorded_answer_quiet by (metis Inl_not_Inr Pair_inject quiet_refl)
  next
    case (Inr q1)
    show ?thesis
    proof (cases q1)
      case (Inl e)
      have stop: thesis if "recorded_answer opts c t st (Suc a) (digest_key env key) code (Inr (Inl e)) s2 = (q, s')"
        "quiet s1 s2" for st code s2
        using stopped [OF s0 call] recorded_answer_Inr [of opts c t st "Suc a" "digest_key env key" code "Inr (Inl e)" s2]
          recorded_answer_quiet [OF that(1)] that quiet_trans
        by (metis Inl_not_Inr sum.sel(2))
      have raised: thesis if "q = Inl x" "quiet s1 s'" for x
        using stopped [OF s0 call] that by blast
      show ?thesis
      proof (cases "should_retry t e (Suc a) (retry_allowed t key)")
        case False
        with step call Inr Inl stop show ?thesis by simp
      next
        case True
        then have ok: "retry_allowed t key" "Suc a < retry_max_attempts t" by (auto simp: should_retry_def)
        obtain adm s2 where adm: "admit_tool_retry opts t (Suc a) s1 = (adm, s2)" by fastforce
        note q2 = admit_tool_retry_quiet [OF adm]
        from step call Inr Inl True adm q2 ok show ?thesis
          by (auto split: sum.splits bool.splits option.splits prod.splits
              dest!: retry_pause_quiet intro: stop raised again [OF s0 call] quiet_trans)
      qed
    next
      case (Inr r)
      have call: "call_tool opts t c arguments s0 = Some (Inr (Inr r), s1)"
        using call \<open>q0 = Inr q1\<close> Inr by simp
      have raised: thesis if "q = Inl x" "quiet s1 s'" for x
        using stopped [OF s0 call] that by blast
      show ?thesis
      proof (cases "tr_status r = TR_FAILED \<and> should_retry_result t r (Suc a) (retry_allowed t key)")
        case False
        with step call show ?thesis by (intro handed [OF s0 call]) auto
      next
        case True
        then have ok: "retry_allowed t key" "Suc a < retry_max_attempts t" by (auto simp: should_retry_result_def)
        obtain adm s2 where adm: "admit_tool_retry opts t (Suc a) s1 = (adm, s2)" by fastforce
        note q2 = admit_tool_retry_quiet [OF adm]
        show ?thesis
        proof (cases "adm = Inr False")
          case False
          with step call True adm q2 ok show ?thesis
            by (auto split: sum.splits bool.splits option.splits prod.splits
                dest!: retry_pause_quiet intro: raised again [OF s0 call] quiet_trans)
        next
          case refused: True
          with step call True adm q2 show ?thesis by (intro handed [OF s0 call, of s2]) auto
        qed
      qed
    qed
  qed
qed

lemma quiet_remembered: "quiet s s' \<Longrightarrow> remembered k s' = remembered k s"
  by (simp add: quiet_def remembered_def)

lemma remember_result_effect [simp]:
  "xs_calls (remember_result key digest r s) = xs_calls s"
  "xs_app (remember_result key digest r s) = xs_app s"
  "tg_tools (xs_registry (remember_result key digest r s)) = tg_tools (xs_registry s)"
  "remembered k (remember_result key digest r s) =
     (if key = Some k \<and> (tr_status r = TR_SUCCEEDED \<or> tr_status r = TR_EMPTY)
      then Some \<lparr>ide_argument_digest = digest, ide_result = r\<rparr> else remembered k s)"
  by (auto simp: remember_result_def remembered_def split: option.splits)

lemma with_execution_metadata_fields [simp]:
  "tr_status (with_execution_metadata env t a r) = tr_status r"
  "tr_error_code (with_execution_metadata env t a r) = tr_error_code r"
  "tr_tool_id (with_execution_metadata env t a r) = tr_tool_id r"
  "tr_tool_version (with_execution_metadata env t a r) = tr_tool_version r"
  "tr_execution_id (with_execution_metadata env t a r) = tr_execution_id r"
  "tr_output (with_execution_metadata env t a r) = tr_output r"
  by (simp_all add: with_execution_metadata_def Let_def)

lemma tool_loop_calls:
  "tool_loop env opts t c arguments key digest n a prev s = Some (q, s') \<Longrightarrow>
     xs_calls s' \<le> xs_calls s + n \<and> (\<not> retry_allowed t key \<longrightarrow> xs_calls s' \<le> Suc (xs_calls s))"
proof (induction n arbitrary: a prev s)
  case (Suc n)
  from Suc.prems show ?case
  proof (cases rule: tool_loop_cases)
    case (stopped s0 q0 s1)
    then show ?thesis using call_tool_effect [OF stopped(2)] by (auto simp: quiet_def)
  next
    case (handed s0 r s1 s2 st)
    have "xs_calls s2 = xs_calls s1" using handed(3) by (auto simp: quiet_def)
    then show ?thesis
      using call_tool_effect [OF handed(2)] recorded_answer_quiet [OF handed(4)] handed(1) by (auto simp: quiet_def)
  next
    case (again s0 q0 s1 s3 e)
    then show ?thesis using call_tool_effect [OF again(2)] Suc.IH [OF again(6)] by (auto simp: quiet_def)
  qed
qed (auto simp: tool_loop.simps)

lemma quiet_tables:
  "quiet s s' \<Longrightarrow> tg_tools (xs_registry s') = tg_tools (xs_registry s) \<and> remembered k s' = remembered k s"
  by (simp add: quiet_def remembered_def)

lemma call_tool_tables:
  "call_tool opts t c arguments s = Some (q, s') \<Longrightarrow>
     tg_tools (xs_registry s') = tg_tools (xs_registry s) \<and> remembered k s' = remembered k s"
  using call_tool_effect by (fastforce simp: remembered_def)

lemma tool_loop_tables:
  "tool_loop env opts t c arguments key digest n a prev s = Some (q, s') \<Longrightarrow>
     tg_tools (xs_registry s') = tg_tools (xs_registry s) \<and>
     (remembered k s' = remembered k s \<or>
      key = Some k \<and> (\<exists>r. remembered k s' = Some \<lparr>ide_argument_digest = digest, ide_result = r\<rparr> \<and>
        tr_tool_id r = td_tool_id t \<and> tr_tool_version r = Some (td_version t)))"
proof (induction n arbitrary: a prev s)
  case (Suc n)
  from Suc.prems show ?case
  proof (cases rule: tool_loop_cases)
    case (stopped s0 q0 s1)
    then show ?thesis
      using quiet_tables [OF stopped(1), of k] call_tool_tables [OF stopped(2), of k]
        quiet_tables [OF stopped(3), of k] by simp
  next
    case (handed s0 r s1 s2 st)
    have "tg_tools (xs_registry s2) = tg_tools (xs_registry s1) \<and> (remembered k s2 = remembered k s1 \<or>
        key = Some k \<and> (\<exists>r. remembered k s2 = Some \<lparr>ide_argument_digest = digest, ide_result = r\<rparr> \<and>
          tr_tool_id r = td_tool_id t \<and> tr_tool_version r = Some (td_version t)))"
      using handed(3) quiet_tables [of s1 s2 k] call_tool_identity [OF handed(2)] by (auto split: if_splits)
    then show ?thesis
      using quiet_tables [OF handed(1), of k] call_tool_tables [OF handed(2), of k]
        quiet_tables [OF recorded_answer_quiet [OF handed(4)], of k] by auto
  next
    case (again s0 q0 s1 s3 e)
    then show ?thesis
      using quiet_tables [OF again(1), of k] call_tool_tables [OF again(2), of k]
        quiet_tables [OF again(3), of k] Suc.IH [OF again(6)] by auto
  qed
qed (auto simp: tool_loop.simps)

lemma tool_loop_result:
  "tool_loop env opts t c arguments key digest n a prev s = Some (Inr (Inr r), s') \<Longrightarrow>
     (\<exists>r0 w b. fst (tool_invoke t c arguments w) = Inr (Inr r0) \<and> r = with_execution_metadata env t b r0) \<and>
     td_tool_id t \<noteq> [] \<and> td_version t \<noteq> [] \<and> digest_key env key \<noteq> Some [] \<and> tr_error_code r \<noteq> Some [] \<and>
     (case td_timeout t of None \<Rightarrow> True | Some y \<Rightarrow> 0 < y) \<and>
     (\<forall>k. key = Some k \<and> (tr_status r = TR_SUCCEEDED \<or> tr_status r = TR_EMPTY) \<longrightarrow>
        remembered k s' = Some \<lparr>ide_argument_digest = digest, ide_result = r\<rparr>)"
proof (induction n arbitrary: a prev s)
  case (Suc n)
  from Suc.prems show ?case
  proof (cases rule: tool_loop_cases)
    case (handed s0 r0 s1 s2 st)
    note out = recorded_answer_Inr [OF handed(4)]
    then have r: "r = with_execution_metadata env t (Suc a) r0" by simp
    have "\<forall>k. key = Some k \<and> (tr_status r = TR_SUCCEEDED \<or> tr_status r = TR_EMPTY) \<longrightarrow>
        remembered k s' = Some \<lparr>ide_argument_digest = digest, ide_result = r\<rparr>"
      using handed(3) quiet_remembered [OF recorded_answer_quiet [OF handed(4)]] r by auto
    with call_tool_result [OF handed(2)] out r show ?thesis by auto
  next
    case (again s0 q0 s1 s3 e)
    then show ?thesis using Suc.IH by blast
  next
    case (stopped s0 q0 s1)
    then show ?thesis by blast
  qed
qed (auto simp: tool_loop.simps split: option.splits)

section \<open>Lemmas: invocation\<close>

definition key_valid :: "'w tool_definition \<Rightarrow> string option \<Rightarrow> bool" where
  "key_valid t key \<longleftrightarrow>
     (case key of None \<Rightarrow> \<not> td_idempotency_required t | Some k \<Rightarrow> \<not> blank k)"

lemma refuse_call_result:
  "refuse_call opts c t st d e s = Some (q, s') \<Longrightarrow> quiet s s' \<and> q \<noteq> Inr (Inr r)"
  using recorded_answer_Inr recorded_answer_quiet unfolding refuse_call_def
  by (metis Inl_not_Inr Inr_inject option.inject)

lemma invoke_tool_cases:
  assumes "invoke_tool env opts i c arguments v key s = Some (q, s')"
  obtains (unknown) e where "get_tool i v False (xs_registry s) = Inl e" "q = Inr (Inl e)" "s' = s"
  | (refused) t where "get_tool i v False (xs_registry s) = Inr t" "quiet s s'" "\<And>r. q \<noteq> Inr (Inr r)"
  | (replayed) t k cached where "get_tool i v False (xs_registry s) = Inr t" "td_input t arguments \<noteq> None"
      "key_valid t key" "call_cache_key c t key = Some k" "remembered k s = Some cached"
      "ide_argument_digest cached = action_digest (tv_sha256 env) (tv_dumps env) t arguments"
      "recorded_answer opts c t (tr_status (ide_result cached)) 1 (digest_key env (Some k))
         (tr_error_code (ide_result cached)) (Inr (Inr (replayed_result c (ide_result cached))))
         (emit opts ''tool_idempotency_replayed'' (tool_metadata t) s) = (q, s')"
  | (ran) t where "get_tool i v False (xs_registry s) = Inr t" "td_input t arguments \<noteq> None"
      "key_valid t key" "\<And>k. call_cache_key c t key = Some k \<Longrightarrow> remembered k s = None"
      "tool_loop env opts t c arguments (call_cache_key c t key)
         (action_digest (tv_sha256 env) (tv_dumps env) t arguments)
         (if retry_enabled t then retry_max_attempts t else 1) 0 None s = Some (q, s')"
proof (cases "get_tool i v False (xs_registry s)")
  case (Inl e)
  with assms have "q = Inr (Inl e)" "s' = s" by (simp_all add: invoke_tool_def)
  then show ?thesis by (rule unknown [OF Inl])
next
  case (Inr t)
  have out: thesis if "refuse_call opts c t st d e s = Some (q, s')" for st d e
    by (rule refused [OF Inr]) (simp_all add: refuse_call_result [OF that])
  show ?thesis
  proof (cases "td_input t arguments")
    case None
    with assms Inr have "refuse_call opts c t TR_INVALID_ARGUMENTS None
        (caused_error ''invalid_arguments'' False ValidationError) s = Some (q, s')"
      by (simp add: invoke_tool_def validate_arguments_def)
    then show ?thesis by (rule out)
  next
    case (Some parsed)
    then have ok: "td_input t arguments \<noteq> None" by simp
    note body = assms [unfolded invoke_tool_def Inr sum.case validate_arguments_def Some option.case]
    show ?thesis
    proof (cases "key_valid t key")
      case False
      then consider k where "key = Some k" "blank k" | "key = None" "td_idempotency_required t"
        by (auto simp: key_valid_def split: option.splits)
      then show ?thesis
      proof cases
        case 1
        with body show ?thesis by (intro out) simp
      next
        case 2
        with body show ?thesis by (intro out) simp
      qed
    next
      case True
      then have nb: "\<not> (case key of None \<Rightarrow> False | Some k \<Rightarrow> blank k)" "\<not> (td_idempotency_required t \<and> key = None)"
        by (auto simp: key_valid_def split: option.splits)
      show ?thesis
      proof (cases "\<exists>k. call_cache_key c t key = Some k \<and> remembered k s \<noteq> None")
        case False
        with body nb show ?thesis
          by (intro ran [OF Inr ok True]) (auto simp: Let_def remembered_def split: option.splits)
      next
        case hit: True
        then obtain k cached where k: "call_cache_key c t key = Some k" "remembered k s = Some cached" by auto
        show ?thesis
        proof (cases "ide_argument_digest cached = action_digest (tv_sha256 env) (tv_dumps env) t arguments")
          case False
          with body nb k show ?thesis by (intro out) (simp add: Let_def remembered_def)
        next
          case same: True
          have "tr_status (replayed_result c r) = tr_status r \<and> tr_error_code (replayed_result c r) = tr_error_code r" for r
            by (simp add: replayed_result_def)
          with body nb k same show ?thesis
            by (intro replayed [OF Inr ok True k same]) (simp add: Let_def remembered_def)
        qed
      qed
    qed
  qed
qed

lemma get_tool_active: "get_tool i v False g = Inr t \<Longrightarrow> td_lifecycle t = Life_ACTIVE"
  by (auto simp: get_tool_def Let_def assert_active_def filter_eq_Cons_iff
      split: option.splits if_splits list.splits sum.splits)

lemma invoke_tool_tables:
  assumes "invoke_tool env opts i c arguments v key s = Some (q, s')"
  shows "tg_tools (xs_registry s') = tg_tools (xs_registry s) \<and>
         (remembered k s \<noteq> None \<longrightarrow> remembered k s' = remembered k s)"
  using assms
proof (cases rule: invoke_tool_cases)
  case (refused t)
  then show ?thesis using quiet_tables by blast
next
  case (replayed t j cached)
  then show ?thesis using quiet_tables [OF recorded_answer_quiet [OF replayed(7)], of k] by (simp add: remembered_def)
next
  case (ran t)
  then show ?thesis using tool_loop_tables [OF ran(5), of k] by fastforce
qed simp

lemma get_tool_tools:
  assumes "tg_tools g = tg_tools h"
  shows "get_tool i v b g = get_tool i v b h"
proof -
  have "candidates i g = candidates i h" by (simp add: candidates_def assms)
  with assms show ?thesis by (simp only: get_tool_def)
qed

section \<open>Sequences of calls\<close>

record 'c tool_request =
  tq_options :: "'c invoke_options"
  tq_tool_id :: string
  tq_context :: execution_context
  tq_arguments :: "(string, pyval) dict"
  tq_version :: "string option"
  tq_key :: "string option"

fun serve :: "tool_env \<Rightarrow> 'c tool_request list \<Rightarrow> ('w, 'c) tool_state \<Rightarrow> ('w, 'c) tool_state option" where
  "serve env [] s = Some s"
| "serve env (q # qs) s =
     (case invoke_tool env (tq_options q) (tq_tool_id q) (tq_context q) (tq_arguments q) (tq_version q)
             (tq_key q) s of
        None \<Rightarrow> None
      | Some (_, s1) \<Rightarrow> serve env qs s1)"

lemma serve_tables:
  "serve env qs s = Some s' \<Longrightarrow>
     tg_tools (xs_registry s') = tg_tools (xs_registry s) \<and>
     (remembered k s \<noteq> None \<longrightarrow> remembered k s' = remembered k s)"
proof (induction qs arbitrary: s)
  case (Cons q qs)
  then obtain a s1 where s1: "invoke_tool env (tq_options q) (tq_tool_id q) (tq_context q) (tq_arguments q)
      (tq_version q) (tq_key q) s = Some (a, s1)" "serve env qs s1 = Some s'"
    by (auto split: option.splits prod.splits)
  from invoke_tool_tables [OF s1(1), of k] Cons.IH [OF s1(2)] show ?case by auto
qed simp

section \<open>Properties\<close>

text \<open>
  C39: a tool is called only as registered. Whenever a call reaches the handler, the tool resolves
  to an active version, its arguments have passed the input model, a required idempotency key is
  there and not blank, and no earlier result is remembered for that key.
\<close>

theorem handler_called_only_when_valid:
  assumes "invoke_tool env opts i c arguments v key s = Some (q, s')" and "xs_calls s' \<noteq> xs_calls s"
  shows "\<exists>t. get_tool i v False (xs_registry s) = Inr t \<and> td_lifecycle t = Life_ACTIVE \<and>
           td_input t arguments \<noteq> None \<and> key_valid t key \<and>
           (\<forall>k. call_cache_key c t key = Some k \<longrightarrow> remembered k s = None)"
  using assms(1)
proof (cases rule: invoke_tool_cases)
  case (ran t)
  with get_tool_active [OF ran(1)] show ?thesis by blast
qed (use assms(2) in \<open>auto simp: quiet_def dest!: recorded_answer_quiet\<close>)

text \<open>
  Retries of a tool are bounded, and an unkeyed action is never repeated. A call runs the
  handler at most as often as the tool's retry policy says, never more than ten times, and a tool
  that is not read-only runs at most once when no idempotency key was given.
\<close>

theorem tool_attempts_bounded:
  assumes "invoke_tool env opts i c arguments v key s = Some (q, s')"
    and "get_tool i v False (xs_registry s) = Inr t" and "tool_definition_ok t"
  shows "xs_calls s' \<le> xs_calls s + (if retry_enabled t then retry_max_attempts t else 1) \<and>
         xs_calls s' \<le> xs_calls s + 10 \<and>
         (td_kind t \<noteq> Kind_READ \<and> key = None \<longrightarrow> xs_calls s' \<le> xs_calls s + 1)"
  using assms(1)
proof (cases rule: invoke_tool_cases)
  case (ran t')
  then have t': "t' = t" using assms(2) by simp
  have "retry_max_attempts t \<le> 10"
    using assms(3) by (auto simp: tool_definition_ok_def retry_max_attempts_def tool_retry_policy_ok_def
        split: option.splits)
  with tool_loop_calls [OF ran(5)] t' show ?thesis
    by (auto simp: retry_allowed_def call_cache_key_def split: if_splits)
qed (auto simp: quiet_def dest!: recorded_answer_quiet)

text \<open>
  The idempotency table holds under each key a result of the tool version of the key.
\<close>

definition cache_ok :: "('w, 'c) tool_state \<Rightarrow> bool" where
  "cache_ok s \<longleftrightarrow>
     (\<forall>tenant who i v k e. remembered (tenant, who, i, v, k) s = Some e \<longrightarrow>
        tr_tool_id (ide_result e) = i \<and> tr_tool_version (ide_result e) = Some v)"

lemma call_cache_key_Some:
  "call_cache_key c t key = Some (tenant, who, i, v, k) \<Longrightarrow>
     tenant = pc_tenant_id (ec_principal c) \<and> who = pc_principal_id (ec_principal c) \<and>
     i = td_tool_id t \<and> v = td_version t \<and> key = Some k"
  by (auto simp: call_cache_key_def)

lemma invoke_tool_cache_ok:
  assumes "invoke_tool env opts i c arguments v key s = Some (q, s')" and "cache_ok s"
  shows "cache_ok s'"
proof -
  have "tr_tool_id (ide_result e) = j \<and> tr_tool_version (ide_result e) = Some w"
    if e: "remembered (tenant, who, j, w, k) s' = Some e" for tenant who j w k e
    using assms(1)
  proof (cases rule: invoke_tool_cases)
    case unknown
    with e assms(2) show ?thesis by (simp add: cache_ok_def)
  next
    case (refused t)
    with e assms(2) quiet_tables [of s s' "(tenant, who, j, w, k)"] show ?thesis by (simp add: cache_ok_def)
  next
    case (replayed t x cached)
    from quiet_tables [OF recorded_answer_quiet [OF replayed(7)], of "(tenant, who, j, w, k)"] e assms(2)
    show ?thesis by (simp add: cache_ok_def)
  next
    case (ran t)
    from tool_loop_tables [OF ran(5), of "(tenant, who, j, w, k)"] e assms(2) call_cache_key_Some [of c t key]
    show ?thesis by (auto simp: cache_ok_def)
  qed
  then show ?thesis unfolding cache_ok_def by blast
qed

text \<open>
  A result is the result of the called tool. A call that returns a result names the resolved
  tool, its version and the caller's execution, also when the result is replayed, because the
  idempotency table holds under each key only results of the tool version of that key.
\<close>

theorem tool_result_exact:
  assumes "invoke_tool env opts i c arguments v key s = Some (Inr (Inr r), s')" and "cache_ok s"
  shows "\<exists>t. get_tool i v False (xs_registry s) = Inr t \<and> tr_tool_id r = td_tool_id t \<and>
           tr_tool_version r = Some (td_version t) \<and> tr_execution_id r = Some (ec_execution_id c) \<and>
           cache_ok s'"
  using assms(1)
proof (cases rule: invoke_tool_cases)
  case (replayed t k cached)
  obtain tenant who j w x where k: "k = (tenant, who, j, w, x)" by (cases k)
  from recorded_answer_Inr [OF replayed(7)] have r: "r = replayed_result c (ide_result cached)" by simp
  have "tr_tool_id (ide_result cached) = j \<and> tr_tool_version (ide_result cached) = Some w"
    using assms(2) replayed(5) unfolding k cache_ok_def by blast
  with r replayed(1) call_cache_key_Some [OF replayed(4) [unfolded k]] invoke_tool_cache_ok [OF assms]
  show ?thesis by (simp add: replayed_result_def)
next
  case (ran t)
  from tool_loop_result [OF ran(5)] obtain r0 w b where
    r0: "fst (tool_invoke t c arguments w) = Inr (Inr r0)" "r = with_execution_metadata env t b r0" by blast
  then have "tool_invoke t c arguments w = (Inr (Inr r0), snd (tool_invoke t c arguments w))"
    by (metis prod.collapse)
  from tool_invoke_Inr [OF this] r0(2) ran(1) invoke_tool_cache_ok [OF assms] show ?thesis by simp
qed auto

lemma update_same: "map_of d k = Some v \<Longrightarrow> AList.update k v d = d"
  by (induction d) (auto split: if_splits)

lemma replayed_result_twice: "replayed_result c2 (replayed_result c r) = replayed_result c2 r"
  by (simp add: replayed_result_def update_same)

lemma invoke_tool_replay:
  assumes "get_tool i v False (xs_registry s) = Inr t" and "td_input t arguments \<noteq> None"
    and "key_valid t key" and "call_cache_key c t key = Some kk" and "remembered kk s = Some e"
    and "ide_argument_digest e = action_digest (tv_sha256 env) (tv_dumps env) t arguments"
    and "td_tool_id t \<noteq> []" "td_version t \<noteq> []" "digest_key env (Some kk) \<noteq> Some []"
    and "tr_error_code (ide_result e) \<noteq> Some []" and "ec_execution_id c \<noteq> []"
    and "case td_timeout t of None \<Rightarrow> True | Some y \<Rightarrow> 0 < y"
  shows "\<exists>s3. invoke_tool env opts i c arguments v key s =
           Some (Inr (Inr (replayed_result c (ide_result e))), s3) \<and> quiet s s3"
proof -
  let ?s = "emit opts ''tool_idempotency_replayed'' (tool_metadata t) s"
  let ?q = "Inr (Inr (replayed_result c (ide_result e))) :: tool_answer"
  have fields: "tr_status (replayed_result c (ide_result e)) = tr_status (ide_result e)"
    "tr_error_code (replayed_result c (ide_result e)) = tr_error_code (ide_result e)"
    by (simp_all add: replayed_result_def)
  obtain q s3 where rec: "recorded_answer opts c t (tr_status (ide_result e)) 1 (digest_key env (Some kk))
      (tr_error_code (ide_result e)) ?q ?s = (q, s3)" by fastforce
  then have "q = ?q"
    using assms(7-12) by (auto simp: recorded_answer_def record_execution_def tool_execution_record_ok_def Let_def)
  moreover have "invoke_tool env opts i c arguments v key s = Some (q, s3)"
    using assms(1-6) rec fields
    by (auto simp: invoke_tool_def validate_arguments_def key_valid_def remembered_def Let_def split: option.splits)
  moreover have "quiet s s3" using recorded_answer_quiet [OF rec] by simp
  ultimately show ?thesis by blast
qed

text \<open>
  C14: a keyed call takes effect once. After a call with an idempotency key succeeded, any sequence
  of further calls by anyone leaves it so that the same call by the same principal returns the
  same result, marked as replayed, without running the handler.
\<close>

theorem idempotent_replay:
  assumes "invoke_tool env opts i c arguments v (Some k) s = Some (Inr (Inr r), s1)"
    and "tr_status r = TR_SUCCEEDED \<or> tr_status r = TR_EMPTY"
    and "serve env qs s1 = Some s2"
    and "ec_principal c2 = ec_principal c" and "ec_execution_id c2 \<noteq> []"
  shows "\<exists>s3. invoke_tool env opts2 i c2 arguments v (Some k) s2 = Some (Inr (Inr (replayed_result c2 r)), s3) \<and>
           xs_app s3 = xs_app s2 \<and> xs_calls s3 = xs_calls s2"
proof -
  obtain t kk e where t: "get_tool i v False (xs_registry s) = Inr t" "td_input t arguments \<noteq> None"
      "key_valid t (Some k)" "call_cache_key c t (Some k) = Some kk" "remembered kk s1 = Some e"
      "ide_argument_digest e = action_digest (tv_sha256 env) (tv_dumps env) t arguments"
    and ids: "td_tool_id t \<noteq> []" "td_version t \<noteq> []" "digest_key env (Some kk) \<noteq> Some []"
      "tr_error_code (ide_result e) \<noteq> Some []" "case td_timeout t of None \<Rightarrow> True | Some y \<Rightarrow> 0 < y"
    and r: "replayed_result c2 (ide_result e) = replayed_result c2 r"
    using assms(1)
  proof (cases rule: invoke_tool_cases)
    case (replayed t kk cached)
    note out = recorded_answer_Inr [OF replayed(7)]
    from invoke_tool_tables [OF assms(1), of kk] replayed(5) have "remembered kk s1 = Some cached" by simp
    with replayed out replayed_result_twice [of c2 c "ide_result cached"] show ?thesis
      by (intro that [of t kk cached]) simp_all
  next
    case (ran t)
    obtain kk where kk: "call_cache_key c t (Some k) = Some kk" by (simp add: call_cache_key_def)
    from tool_loop_result [OF ran(5)] assms(2) kk ran(1-3) show ?thesis
      by (intro that [of t kk "\<lparr>ide_argument_digest = action_digest (tv_sha256 env) (tv_dumps env) t arguments,
          ide_result = r\<rparr>"]) simp_all
  next
    case (refused t)
    then show ?thesis by blast
  qed simp
  have "tg_tools (xs_registry s2) = tg_tools (xs_registry s)" "remembered kk s2 = Some e"
    using serve_tables [OF assms(3), of kk] invoke_tool_tables [OF assms(1), of kk] t(5) by auto
  moreover from this(1) t(1) have "get_tool i v False (xs_registry s2) = Inr t" by (metis get_tool_tools)
  moreover have "call_cache_key c2 t (Some k) = Some kk" using t(4) assms(4) by (simp add: call_cache_key_def)
  ultimately obtain s3 where "invoke_tool env opts2 i c2 arguments v (Some k) s2 =
      Some (Inr (Inr (replayed_result c2 (ide_result e))), s3)" "quiet s2 s3"
    using invoke_tool_replay [of i v s2 t arguments "Some k" c2 kk e env] t ids assms(5) by blast
  with r show ?thesis by (auto simp: quiet_def)
qed

text \<open>
  A result with an empty error code is lost. The result model accepts an empty error code, the
  execution record does not. When a handler that is called directly returns a successful result
  with one, the call raises a validation error although the handler has run, nothing is recorded,
  and under an idempotency key the result is remembered all the same.
\<close>

theorem empty_error_code_raises:
  assumes "get_tool i v False (xs_registry s) = Inr t" and "tool_definition_ok t"
    and "td_input t arguments \<noteq> None" and "key_valid t key"
    and "\<forall>k. call_cache_key c t key = Some k \<longrightarrow> remembered k s = None"
    and "td_timeout t = None" and "\<not> io_cancel opts" and "io_deadline opts = None"
    and "tool_invoke t c arguments (xs_app s) = (Inr (Inr r), w)"
    and "tr_status r = TR_SUCCEEDED" and "tr_error_code r = Some []"
  shows "\<exists>s'. invoke_tool env opts i c arguments v key s = Some (Inl ValidationError, s') \<and>
           xs_app s' = w \<and> xs_calls s' = Suc (xs_calls s) \<and>
           tg_records (xs_registry s') = tg_records (xs_registry s) \<and>
           (\<forall>k. call_cache_key c t key = Some k \<longrightarrow> remembered k s' \<noteq> None)"
proof -
  have "(if retry_enabled t then retry_max_attempts t else 1) \<noteq> 0"
    using retry_max_attempts_pos [OF assms(2)] by simp
  then obtain n where n: "(if retry_enabled t then retry_max_attempts t else 1) = Suc n"
    using not0_implies_Suc by blast
  let ?kk = "call_cache_key c t key" and ?d = "action_digest (tv_sha256 env) (tv_dumps env) t arguments"
  let ?s0 = "emit opts ''tool_execution_started'' (tool_metadata t @ [(''attempt'', str_nat 1)]) s"
  let ?s1 = "?s0\<lparr>xs_app := w, xs_calls := Suc (xs_calls s)\<rparr>"
  let ?s2 = "remember_result ?kk ?d (with_execution_metadata env t 1 r) ?s1"
  have call: "call_tool opts t c arguments ?s0 = Some (Inr (Inr r), ?s1)"
    using assms(6-9) by (simp add: call_tool_def tool_run_with_timeout_def emit_def)
  have rec: "recorded_answer opts c t st 1 kd (Some []) q s2 = (Inl ValidationError, s2)" for st kd q s2
    by (simp add: recorded_answer_def record_execution_def tool_execution_record_ok_def)
  have "invoke_tool env opts i c arguments v key s =
      tool_loop env opts t c arguments ?kk ?d (Suc n) 0 None s"
    using assms(1,3-5) n
    by (auto simp: invoke_tool_def validate_arguments_def key_valid_def remembered_def Let_def
        split: option.splits)
  also have "\<dots> = Some (Inl ValidationError, ?s2)"
    using call rec assms(10,11) by (simp add: tool_loop.simps Let_def)
  finally have inv: "invoke_tool env opts i c arguments v key s = Some (Inl ValidationError, ?s2)" .
  have "tg_records (xs_registry ?s2) = tg_records (xs_registry s)"
    by (simp add: remember_result_def emit_def split: option.split)
  moreover have "xs_app ?s2 = w" "xs_calls ?s2 = Suc (xs_calls s)" by simp_all
  moreover have "\<forall>k. ?kk = Some k \<longrightarrow> remembered k ?s2 \<noteq> None" using assms(10) by simp
  ultimately show ?thesis using inv by blast
qed

section \<open>Concrete calls\<close>

definition nameless_result :: tool_result where
  "nameless_result =
     \<lparr>tr_tool_id = ''count'', tr_tool_version = None, tr_execution_id = None,
      tr_status = TR_SUCCEEDED, tr_output = Some PNone, tr_confidence = 1, tr_evidence = [],
      tr_restricted = False, tr_conflicts = [], tr_injection_flags = [], tr_error_code = Some [],
      tr_metadata = []\<rparr>"

definition nameless_tool :: "nat tool_definition" where
  "nameless_tool = counting_tool\<lparr>td_handler := (\<lambda>c v n. (Inr (Enveloped nameless_result), Suc n))\<rparr>"

definition calling_context :: "string \<Rightarrow> execution_context" where
  "calling_context x =
     \<lparr>ec_execution_id = x, ec_agent_id = ''a'', ec_agent_version = ''1.0.0'',
      ec_principal = \<lparr>pc_principal_id = ''p'', pc_tenant_id = ''t'', pc_session_id = ''s''\<rparr>,
      ec_authorized_tool_ids = [''count''], ec_authorized_tool_versions = [], ec_granted_permissions = [],
      ec_approved_action_digests = [], ec_max_steps = 3, ec_state_id = ''st'', ec_environment = ''dev'',
      ec_max_risk_level = Risk_HIGH, ec_correlation_id = ''c'', ec_parent_execution_id = None,
      ec_delegation_id = None, ec_delegation_depth = 0, ec_delegation_path = [], ec_event_id = None,
      ec_trigger_id = None, ec_causation_id = None, ec_attempt = 0\<rparr>"

definition plain_options :: "unit invoke_options" where
  "plain_options = \<lparr>io_trace = True, io_cancel = False, io_deadline = None, io_admission = None\<rparr>"

definition plain_env :: tool_env where
  "plain_env = \<lparr>tv_sha256 = (\<lambda>s. ''#'' @ s), tv_dumps = (\<lambda>v. ''json''), tv_str_seconds = (\<lambda>d. ''0'')\<rparr>"

definition registry_with :: "nat tool_definition \<Rightarrow> (nat, unit) tool_state" where
  "registry_with t =
     \<lparr>xs_registry = snd (register_tool t (empty_registry
        \<lparr>make_id = (\<lambda>p n. p), id_calls = 0, clock_at = int, clock_calls = 0\<rparr>)),
      xs_app = 0, xs_caller = (), xs_monitor = sample_monitor, xs_ready = (\<lambda>_ _. True), xs_calls = 0,
      xs_trace = []\<rparr>"

definition count_call :: "string \<Rightarrow> (nat, unit) tool_state \<Rightarrow> (tool_answer \<times> (nat, unit) tool_state) option" where
  "count_call x =
     invoke_tool plain_env plain_options ''count'' (calling_context x) [] None (Some ''k'')"

definition succeeded_with :: "pyval \<Rightarrow> tool_answer \<Rightarrow> bool" where
  "succeeded_with v q \<longleftrightarrow>
     (case q of Inr (Inr r) \<Rightarrow> tr_status r = TR_SUCCEEDED \<and> tr_output r = Some v | _ \<Rightarrow> False)"

lemma count_call_done:
  "map_option (\<lambda>(q, s). (succeeded_with (PInt 0) q, xs_calls s)) (count_call ''x'' (registry_with counting_tool)) =
     Some (True, 1)"
  by code_simp

lemma count_call_result:
  obtains r s1 where "count_call ''x'' (registry_with counting_tool) = Some (Inr (Inr r), s1)"
    "tr_status r = TR_SUCCEEDED" "xs_calls s1 = 1"
proof -
  obtain q s1 where q: "count_call ''x'' (registry_with counting_tool) = Some (q, s1)"
    "succeeded_with (PInt 0) q" "xs_calls s1 = 1"
    using count_call_done by auto
  then obtain r where "q = Inr (Inr r)" "tr_status r = TR_SUCCEEDED"
    by (auto simp: succeeded_with_def split: sum.splits)
  with q that show ?thesis by simp
qed

lemma counting_tool_found:
  "get_tool ''count'' None False (xs_registry (registry_with counting_tool)) = Inr counting_tool"
  "get_tool ''count'' None False (xs_registry (registry_with nameless_tool)) = Inr nameless_tool"
  by (simp_all add: registry_with_def register_tool_def empty_registry_def registry_changed_def
      registry_event_ok_def new_id_def now_def Let_def get_tool_def candidates_def tool_key_def
      counting_tool_def nameless_tool_def)

lemma counting_tool_ok: "tool_definition_ok counting_tool" "tool_definition_ok nameless_tool"
  by (simp_all add: tool_definition_ok_def counting_tool_def nameless_tool_def blank_iff is_space_def)

theorem handler_called_only_when_valid_witness:
  "\<exists>t. get_tool ''count'' None False (xs_registry (registry_with counting_tool)) = Inr t \<and>
       td_lifecycle t = Life_ACTIVE"
proof -
  obtain r s1 where c: "count_call ''x'' (registry_with counting_tool) = Some (Inr (Inr r), s1)" "xs_calls s1 = 1"
    by (rule count_call_result)
  have "xs_calls s1 \<noteq> xs_calls (registry_with counting_tool)" using c(2) by (simp add: registry_with_def)
  from handler_called_only_when_valid [OF c(1) [unfolded count_call_def] this] show ?thesis by blast
qed

theorem tool_attempts_bounded_witness:
  "\<exists>q s1. count_call ''x'' (registry_with counting_tool) = Some (q, s1) \<and> xs_calls s1 \<le> 3"
proof -
  obtain r s1 where c: "count_call ''x'' (registry_with counting_tool) = Some (Inr (Inr r), s1)"
    by (rule count_call_result)
  from tool_attempts_bounded [OF c [unfolded count_call_def] counting_tool_found(1) counting_tool_ok(1)] c
  show ?thesis by (auto simp: registry_with_def retry_enabled_def retry_max_attempts_def counting_tool_def)
qed

lemma registry_with_empty_cache: "remembered k (registry_with t) = None"
  by (auto simp: remembered_def registry_with_def register_tool_def empty_registry_def
      dest!: registry_changed_keeps split: prod.split sum.split)

theorem tool_result_exact_witness:
  "\<exists>r s1. count_call ''x'' (registry_with counting_tool) = Some (Inr (Inr r), s1) \<and>
          tr_tool_id r = ''count'' \<and> tr_execution_id r = Some ''x''"
proof -
  obtain r s1 where c: "count_call ''x'' (registry_with counting_tool) = Some (Inr (Inr r), s1)"
    by (rule count_call_result)
  have "cache_ok (registry_with counting_tool)" by (simp add: cache_ok_def registry_with_empty_cache)
  from tool_result_exact [OF c [unfolded count_call_def] this] counting_tool_found(1) c show ?thesis
    by (auto simp: counting_tool_def calling_context_def)
qed

theorem idempotent_replay_witness:
  "\<exists>r s1 s3. count_call ''x'' (registry_with counting_tool) = Some (Inr (Inr r), s1) \<and>
     count_call ''y'' s1 = Some (Inr (Inr (replayed_result (calling_context ''y'') r)), s3) \<and>
     xs_calls s3 = 1"
proof -
  obtain r s1 where c: "count_call ''x'' (registry_with counting_tool) = Some (Inr (Inr r), s1)"
    "tr_status r = TR_SUCCEEDED" "xs_calls s1 = 1"
    by (rule count_call_result)
  have "serve plain_env [] s1 = Some s1" by simp
  from idempotent_replay [OF c(1) [unfolded count_call_def] disjI1 [OF c(2)] this, of "calling_context ''y''" plain_options]
    c show ?thesis by (auto simp: calling_context_def count_call_def)
qed

theorem empty_error_code_raises_witness:
  "\<exists>s'. count_call ''x'' (registry_with nameless_tool) = Some (Inl ValidationError, s') \<and> xs_calls s' = 1"
proof -
  let ?c = "calling_context ''x''"
  have "\<exists>r. tool_invoke nameless_tool ?c [] (xs_app (registry_with nameless_tool)) = (Inr (Inr r), 1) \<and>
      tr_status r = TR_SUCCEEDED \<and> tr_error_code r = Some []"
    by (simp add: tool_invoke_def validate_arguments_def nameless_tool_def counting_tool_def registry_with_def
        finish_enveloped_def enveloped_identity_ok_def nameless_result_def validate_output_def Let_def)
  then obtain r where r: "tool_invoke nameless_tool ?c [] (xs_app (registry_with nameless_tool)) = (Inr (Inr r), 1)"
    "tr_status r = TR_SUCCEEDED" "tr_error_code r = Some []" by blast
  have "td_input nameless_tool [] \<noteq> None" "key_valid nameless_tool (Some ''k'')" "td_timeout nameless_tool = None"
    by (simp_all add: nameless_tool_def counting_tool_def key_valid_def blank_iff is_space_def)
  moreover have "\<not> io_cancel plain_options" "io_deadline plain_options = None" by (simp_all add: plain_options_def)
  moreover have "\<forall>k. call_cache_key ?c nameless_tool (Some ''k'') = Some k \<longrightarrow>
      remembered k (registry_with nameless_tool) = None"
    by (simp add: registry_with_empty_cache)
  ultimately obtain s' where "invoke_tool plain_env plain_options ''count'' ?c [] None (Some ''k'')
      (registry_with nameless_tool) = Some (Inl ValidationError, s')"
    "xs_calls s' = Suc (xs_calls (registry_with nameless_tool))"
    using empty_error_code_raises [OF counting_tool_found(2) counting_tool_ok(2) _ _ _ _ _ _ r, of "Some ''k''" plain_options plain_env]
    by blast
  then show ?thesis by (simp add: count_call_def registry_with_def)
qed

end
