(* ===== verification/Json.thy ===== *)
theory Json
  imports Prelude "HOL-Library.Char_ord" "HOL-Library.List_Lexorder"
begin

text \<open>
  \<open>json.dumps\<close> with \<open>sort_keys=True\<close>, \<open>default=str\<close> and the default separators, on the values of
  untyped fields. Two renderings of the standard library are left as arguments: \<open>fr\<close> is
  \<open>float.__repr__\<close> and \<open>os\<close> is \<open>str\<close> of a value that is not JSON data.
\<close>

section \<open>Encoding\<close>

text \<open>One hexadecimal digit, \<open>'\u{:04x}'\<close> of a code point below 256, and \<open>ESCAPE_ASCII\<close>.\<close>

definition hex_digit :: "nat \<Rightarrow> char" where
  "hex_digit n = (if n < 10 then char_of (48 + n) else char_of (87 + n))"

definition escape_char :: "char \<Rightarrow> string" where
  "escape_char c =
     (let n = (of_char c :: nat)
      in if n = 34 then [CHR 0x5C, CHR 0x22]
         else if n = 92 then [CHR 0x5C, CHR 0x5C]
         else if n = 10 then [CHR 0x5C, CHR ''n'']
         else if n = 13 then [CHR 0x5C, CHR ''r'']
         else if n = 9 then [CHR 0x5C, CHR ''t'']
         else if n = 8 then [CHR 0x5C, CHR ''b'']
         else if n = 12 then [CHR 0x5C, CHR ''f'']
         else if 32 \<le> n \<and> n \<le> 126 then [c]
         else [CHR 0x5C, CHR ''u'', CHR ''0'', CHR ''0'', hex_digit (n div 16), hex_digit (n mod 16)])"

definition json_string :: "string \<Rightarrow> string" where
  "json_string s = CHR 0x22 # concat (map escape_char s) @ [CHR 0x22]"

definition str_int :: "int \<Rightarrow> string" where
  "str_int i = (if i < 0 then ''-'' @ str_nat (nat (- i)) else str_nat (nat i))"

fun join_with :: "string \<Rightarrow> string list \<Rightarrow> string" where
  "join_with sep [] = []"
| "join_with sep [x] = x"
| "join_with sep (x # y # ys) = x @ sep @ join_with sep (y # ys)"

fun json_text :: "(rat \<Rightarrow> string) \<Rightarrow> (nat \<Rightarrow> string) \<Rightarrow> pyval \<Rightarrow> string" where
  "json_text fr os PNone = ''null''"
| "json_text fr os (PBool b) = (if b then ''true'' else ''false'')"
| "json_text fr os (PInt i) = str_int i"
| "json_text fr os (PFloat q) = fr q"
| "json_text fr os (PStr s) = json_string s"
| "json_text fr os (PObject n) = json_string (os n)"
| "json_text fr os (PList vs) = ''['' @ join_with '', '' (map (json_text fr os) vs) @ '']''"
| "json_text fr os (PDict kvs) =
     ''{'' @ join_with '', '' (map (\<lambda>(k, t). json_string k @ '': '' @ t)
        (sort_key fst (map (\<lambda>(k, v). (k, json_text fr os v)) kvs))) @ ''}''"

section \<open>Strings inside a document\<close>

text \<open>The strings of a value: its texts and its keys, at any depth.\<close>

fun pyval_strings :: "pyval \<Rightarrow> string set" where
  "pyval_strings (PStr s) = {s}"
| "pyval_strings (PList vs) = (\<Union>v \<in> set vs. pyval_strings v)"
| "pyval_strings (PDict kvs) = (\<Union>(k, v) \<in> set kvs. insert k (pyval_strings v))"
| "pyval_strings _ = {}"

definition infix_of :: "string \<Rightarrow> string \<Rightarrow> bool" where
  "infix_of s t \<longleftrightarrow> (\<exists>u v. t = u @ s @ v)"

lemma infix_of_refl [simp]: "infix_of s s"
  unfolding infix_of_def by (intro exI [of _ "[]"]) simp

lemma infix_of_append: "infix_of s t \<Longrightarrow> infix_of s (u @ t @ v)"
  unfolding infix_of_def by (metis append.assoc)

lemma infix_of_prepend: "infix_of s t \<Longrightarrow> infix_of s (u @ t)"
  using infix_of_append [of s t u "[]"] by simp

lemma infix_of_extend: "infix_of s t \<Longrightarrow> infix_of s (t @ v)"
  using infix_of_append [of s t "[]" v] by simp

lemma infix_of_Cons: "infix_of s t \<Longrightarrow> infix_of s (c # t)"
  using infix_of_prepend [of s t "[c]"] by simp

lemma infix_of_join: "t \<in> set ts \<Longrightarrow> infix_of s t \<Longrightarrow> infix_of s (join_with sep ts)"
  by (induction sep ts rule: join_with.induct) (auto intro: infix_of_prepend infix_of_extend)

lemma json_string_inside: "s \<in> pyval_strings v \<Longrightarrow> infix_of (json_string s) (json_text fr os v)"
proof (induction v)
  case (PList vs)
  then obtain v where "v \<in> set vs" "infix_of (json_string s) (json_text fr os v)" by auto
  then show ?case
    by (auto intro!: infix_of_Cons infix_of_extend infix_of_join [of "json_text fr os v"])
next
  case (PDict kvs)
  then obtain k v where kv: "(k, v) \<in> set kvs" "s = k \<or> s \<in> pyval_strings v" by auto
  have "infix_of (json_string s) (json_string k @ '': '' @ json_text fr os v)"
  proof (cases "s = k")
    case True
    then show ?thesis by (auto intro: infix_of_extend)
  next
    case False
    with kv PDict.IH [of "(k, v)" v] show ?thesis by (auto intro!: infix_of_Cons infix_of_prepend)
  qed
  moreover have "json_string k @ '': '' @ json_text fr os v \<in>
      set (map (\<lambda>(k, t). json_string k @ '': '' @ t)
        (sort_key fst (map (\<lambda>(k, v). (k, json_text fr os v)) kvs)))"
    using kv(1) by (force simp: image_iff)
  ultimately show ?case
    unfolding json_text.simps by (intro infix_of_prepend infix_of_extend infix_of_join)
qed auto

text \<open>Text that the encoder writes as it is.\<close>

definition printable :: "char \<Rightarrow> bool" where
  "printable c \<longleftrightarrow> (let n = (of_char c :: nat) in 32 \<le> n \<and> n \<le> 126 \<and> n \<noteq> 34 \<and> n \<noteq> 92)"

lemma json_string_printable: "list_all printable s \<Longrightarrow> json_string s = CHR 0x22 # s @ [CHR 0x22]"
proof -
  assume "list_all printable s"
  then have "concat (map escape_char s) = s"
    by (induction s) (auto simp: escape_char_def printable_def Let_def)
  then show ?thesis by (simp add: json_string_def)
qed

end
