(* ===== verification/Actions.thy ===== *)
theory Actions
  imports Errors
begin

text \<open>
  Sequencing for the runtime: an action takes the state, and either never returns (\<open>None\<close>), raises or
  returns a value; the state reached is kept in both cases. \<open>run_ok P m Q E\<close> says what holds when
  \<open>m\<close>, started in a state with \<open>P\<close>, returns (\<open>Q\<close>) or raises (\<open>E\<close>); \<open>runs t I m Q\<close> that it keeps an
  invariant. Their rules follow the shape of the code.
\<close>

type_synonym ('a, 's) act = "'s \<Rightarrow> ((exc + 'a) \<times> 's) option"

definition ret :: "'a \<Rightarrow> ('a, 's) act" where
  "ret x s = Some (Inr x, s)"

definition fail :: "exc \<Rightarrow> ('a, 's) act" where
  "fail e s = Some (Inl e, s)"

definition bind_act :: "('a, 's) act \<Rightarrow> ('a \<Rightarrow> ('b, 's) act) \<Rightarrow> ('b, 's) act" where
  "bind_act m f s =
     (case m s of
        None \<Rightarrow> None
      | Some (Inl e, s1) \<Rightarrow> Some (Inl e, s1)
      | Some (Inr x, s1) \<Rightarrow> f x s1)"

definition and_then :: "('a, 's) act \<Rightarrow> ('b, 's) act \<Rightarrow> ('b, 's) act" where
  "and_then m n = bind_act m (\<lambda>_. n)"

definition read_state :: "('s \<Rightarrow> 'a) \<Rightarrow> ('a, 's) act" where
  "read_state f s = Some (Inr (f s), s)"

definition change_state :: "('s \<Rightarrow> 's) \<Rightarrow> (unit, 's) act" where
  "change_state f s = Some (Inr (), f s)"

text \<open>\<open>try: m except ... as e: h(e)\<close>, for the exceptions with \<open>p\<close>; \<open>except Exception\<close> passes exit signals.\<close>

definition catch_if ::
  "(exc \<Rightarrow> bool) \<Rightarrow> ('a, 's) act \<Rightarrow> (exc \<Rightarrow> ('a, 's) act) \<Rightarrow> ('a, 's) act" where
  "catch_if p m h s =
     (case m s of
        Some (Inl e, s1) \<Rightarrow> if p e then h e s1 else Some (Inl e, s1)
      | r \<Rightarrow> r)"

definition catch :: "('a, 's) act \<Rightarrow> (exc \<Rightarrow> ('a, 's) act) \<Rightarrow> ('a, 's) act" where
  "catch m h = catch_if (\<lambda>e. e \<noteq> ExitSignal) m h"

text \<open>\<open>try: m finally: f\<close>\<close>

definition finally_do :: "('a, 's) act \<Rightarrow> ('s \<Rightarrow> 's) \<Rightarrow> ('a, 's) act" where
  "finally_do m f s = (case m s of None \<Rightarrow> None | Some (r, s1) \<Rightarrow> Some (r, f s1))"

definition when_do :: "bool \<Rightarrow> (unit, 's) act \<Rightarrow> (unit, 's) act" where
  "when_do b m = (if b then m else ret ())"

text \<open>An operation that always returns, and a result without state.\<close>

definition lift_op :: "('s \<Rightarrow> (exc + 'a) \<times> 's) \<Rightarrow> ('a, 's) act" where
  "lift_op f s = Some (f s)"

definition lift_result :: "exc + 'a \<Rightarrow> ('a, 's) act" where
  "lift_result r s = Some (r, s)"

section \<open>Triples\<close>

definition run_ok ::
  "('s \<Rightarrow> bool) \<Rightarrow> ('a, 's) act \<Rightarrow> ('a \<Rightarrow> 's \<Rightarrow> bool) \<Rightarrow> (exc \<Rightarrow> 's \<Rightarrow> bool) \<Rightarrow> bool" where
  "run_ok P m Q E \<longleftrightarrow>
     (\<forall>s r s1. P s \<longrightarrow> m s = Some (r, s1) \<longrightarrow> (case r of Inl e \<Rightarrow> E e s1 | Inr x \<Rightarrow> Q x s1))"

lemma run_okI:
  assumes "\<And>s x s1. P s \<Longrightarrow> m s = Some (Inr x, s1) \<Longrightarrow> Q x s1"
    and "\<And>s e s1. P s \<Longrightarrow> m s = Some (Inl e, s1) \<Longrightarrow> E e s1"
  shows "run_ok P m Q E"
  unfolding run_ok_def
proof (intro allI impI)
  fix s r s1
  assume "P s" "m s = Some (r, s1)"
  with assms show "case r of Inl e \<Rightarrow> E e s1 | Inr x \<Rightarrow> Q x s1" by (cases r) auto
qed

lemma run_ok_return: "run_ok P m Q E \<Longrightarrow> P s \<Longrightarrow> m s = Some (Inr x, s1) \<Longrightarrow> Q x s1"
  and run_ok_raise: "run_ok P m Q E \<Longrightarrow> P s \<Longrightarrow> m s = Some (Inl e, s1) \<Longrightarrow> E e s1"
  unfolding run_ok_def by (metis sum.case)+

lemma run_ok_weaken:
  assumes "run_ok P m Q E" "\<And>s. P1 s \<Longrightarrow> P s" "\<And>x s. Q x s \<Longrightarrow> Q1 x s" "\<And>e s. E e s \<Longrightarrow> E1 e s"
  shows "run_ok P1 m Q1 E1"
proof (rule run_okI)
  show "Q1 x s1" if "P1 s" "m s = Some (Inr x, s1)" for s x s1
    using that assms(2,3) run_ok_return [OF assms(1)] by blast
  show "E1 e s1" if "P1 s" "m s = Some (Inl e, s1)" for s e s1
    using that assms(2,4) run_ok_raise [OF assms(1)] by blast
qed

lemma bind_act_cases:
  assumes "bind_act m f s = Some (r, s2)"
  obtains (raised) e where "m s = Some (Inl e, s2)" "r = Inl e"
  | (returned) x s1 where "m s = Some (Inr x, s1)" "f x s1 = Some (r, s2)"
  using assms unfolding bind_act_def by (auto split: option.splits sum.splits prod.splits)

lemma run_ok_bind:
  assumes m: "run_ok P m R E" and f: "\<And>x. run_ok (R x) (f x) Q E"
  shows "run_ok P (bind_act m f) Q E"
proof (rule run_okI)
  fix s x s2
  assume s: "P s" "bind_act m f s = Some (Inr x, s2)"
  from s(2) show "Q x s2"
  proof (cases rule: bind_act_cases)
    case (returned y s1)
    from run_ok_return [OF f run_ok_return [OF m s(1) returned(1)] returned(2)] show ?thesis .
  qed simp
next
  fix s e s2
  assume s: "P s" "bind_act m f s = Some (Inl e, s2)"
  from s(2) show "E e s2"
  proof (cases rule: bind_act_cases)
    case (raised e')
    with run_ok_raise [OF m s(1) raised(1)] show ?thesis by simp
  next
    case (returned y s1)
    from run_ok_raise [OF f run_ok_return [OF m s(1) returned(1)] returned(2)] show ?thesis .
  qed
qed

section \<open>Invariants\<close>

text \<open>
  An action that keeps the invariant \<open>I\<close>, however it ends, and whose result, when there is one, has the
  property \<open>Q\<close>; with \<open>t\<close> it always comes back.
\<close>

definition runs :: "bool \<Rightarrow> ('s \<Rightarrow> bool) \<Rightarrow> ('a, 's) act \<Rightarrow> ('a \<Rightarrow> bool) \<Rightarrow> bool" where
  "runs t I m Q \<longleftrightarrow>
     (\<forall>s. I s \<longrightarrow> (case m s of None \<Rightarrow> \<not> t
        | Some (r, s1) \<Rightarrow> I s1 \<and> (case r of Inl e \<Rightarrow> True | Inr x \<Rightarrow> Q x)))"

abbreviation keeps :: "bool \<Rightarrow> ('s \<Rightarrow> bool) \<Rightarrow> ('a, 's) act \<Rightarrow> bool" where
  "keeps t I m \<equiv> runs t I m (\<lambda>_. True)"

named_theorems runs_rules \<open>actions that keep the invariant\<close>

lemma runs_returned: "runs t I m Q \<Longrightarrow> I s \<Longrightarrow> m s = Some (Inr x, s1) \<Longrightarrow> I s1 \<and> Q x"
  and runs_ended: "runs t I m Q \<Longrightarrow> I s \<Longrightarrow> m s = Some (r, s1) \<Longrightarrow> I s1"
  unfolding runs_def by (force split: sum.splits)+

lemma runs_comes_back: "runs True I m Q \<Longrightarrow> I s \<Longrightarrow> \<exists>r s1. m s = Some (r, s1) \<and> I s1"
  unfolding runs_def by (cases "m s") force+

lemma runsI:
  assumes "\<And>s. I s \<Longrightarrow> t \<Longrightarrow> m s \<noteq> None"
    and "\<And>s r s1. I s \<Longrightarrow> m s = Some (r, s1) \<Longrightarrow> I s1"
    and "\<And>s x s1. I s \<Longrightarrow> m s = Some (Inr x, s1) \<Longrightarrow> Q x"
  shows "runs t I m Q"
  unfolding runs_def
proof (intro allI impI)
  fix s
  assume s: "I s"
  show "case m s of None \<Rightarrow> \<not> t | Some (r, s1) \<Rightarrow> I s1 \<and> (case r of Inl e \<Rightarrow> True | Inr x \<Rightarrow> Q x)"
  proof (cases "m s")
    case None
    with assms(1) [OF s] show ?thesis by auto
  next
    case (Some p)
    obtain r s1 where p: "p = (r, s1)" by (cases p)
    from assms(2) [OF s] assms(3) [OF s] Some p show ?thesis by (cases r) auto
  qed
qed

lemma runs_weaken: "runs t I m R \<Longrightarrow> (\<And>x. R x \<Longrightarrow> Q x) \<Longrightarrow> runs t I m Q"
  unfolding runs_def by (fastforce split: option.splits sum.splits)

lemma runs_value: "keeps t I m \<Longrightarrow> (\<And>s x s1. m s = Some (Inr x, s1) \<Longrightarrow> Q x) \<Longrightarrow> runs t I m Q"
  unfolding runs_def by (fastforce split: option.splits sum.splits)

lemma runs_any: "runs t I m Q \<Longrightarrow> keeps t I m"
  by (erule runs_weaken) simp

lemma runs_bind:
  assumes m: "runs t I m R" and f: "\<And>x. R x \<Longrightarrow> runs t I (f x) Q"
  shows "runs t I (bind_act m f) Q"
proof (rule runsI)
  show "bind_act m f s \<noteq> None" if s: "I s" and t: t for s
  proof -
    from m t have "runs True I m R" by simp
    from runs_comes_back [OF this s] obtain r s1 where r: "m s = Some (r, s1)" "I s1" by blast
    show ?thesis
    proof (cases r)
      case (Inr x)
      with runs_returned [OF m s] r f t have "runs True I (f x) Q" by simp
      from runs_comes_back [OF this r(2)] r(1) Inr show ?thesis by (auto simp: bind_act_def)
    qed (simp add: bind_act_def r)
  qed
  show "I s2" if s: "I s" "bind_act m f s = Some (r, s2)" for s r s2
    using s(2)
  proof (cases rule: bind_act_cases)
    case (raised e)
    from runs_ended [OF m s(1) this(1)] show ?thesis .
  next
    case (returned x s1)
    with runs_returned [OF m s(1) returned(1)] f show ?thesis by (blast dest: runs_ended)
  qed
  show "Q y" if s: "I s" "bind_act m f s = Some (Inr y, s2)" for s y s2
    using s(2)
  proof (cases rule: bind_act_cases)
    case (returned x s1)
    with runs_returned [OF m s(1) returned(1)] f show ?thesis by (blast dest: runs_returned)
  qed simp
qed

lemma runs_bind_any [runs_rules]:
  "keeps t I m \<Longrightarrow> (\<And>x. runs t I (f x) Q) \<Longrightarrow> runs t I (bind_act m f) Q"
  by (rule runs_bind)

lemma runs_then [runs_rules]: "keeps t I m \<Longrightarrow> runs t I n Q \<Longrightarrow> runs t I (and_then m n) Q"
  unfolding and_then_def by (rule runs_bind_any)

lemma runs_ret [runs_rules]: "Q x \<Longrightarrow> runs t I (ret x) Q"
  and runs_fail [runs_rules]: "runs t I (fail e) Q"
  and runs_read [runs_rules]: "keeps t I (read_state f)"
  and runs_result [runs_rules]: "keeps t I (lift_result q)"
  by (simp_all add: runs_def ret_def fail_def read_state_def lift_result_def split: sum.splits)

lemma runs_read_value: "(\<And>s. Q (f s)) \<Longrightarrow> runs t I (read_state f) Q"
  and runs_result_value: "(\<And>x. q = Inr x \<Longrightarrow> Q x) \<Longrightarrow> runs t I (lift_result q) Q"
  by (simp_all add: runs_def read_state_def lift_result_def split: sum.splits)

lemma runs_change: "(\<And>s. I s \<Longrightarrow> I (g s)) \<Longrightarrow> keeps t I (change_state g)"
  by (simp add: runs_def change_state_def)

lemma runs_op: "(\<And>s. I s \<Longrightarrow> I (snd (h s))) \<Longrightarrow> keeps t I (lift_op h)"
  by (simp add: runs_def lift_op_def split: sum.splits prod.splits) (metis snd_conv)

lemma runs_catch_if [runs_rules]:
  assumes m: "runs t I m Q" and h: "\<And>e. runs t I (h e) Q"
  shows "runs t I (catch_if p m h) Q"
proof (rule runsI)
  show "catch_if p m h s \<noteq> None" if s: "I s" and t: t for s
  proof -
    from m t have "runs True I m Q" by simp
    from runs_comes_back [OF this s] obtain r s1 where r: "m s = Some (r, s1)" "I s1" by blast
    from h t have "runs True I (h e) Q" for e by simp
    from runs_comes_back [OF this r(2)] r show ?thesis
      by (fastforce simp: catch_if_def split: sum.splits)
  qed
  fix s r s2
  assume s: "I s" "catch_if p m h s = Some (r, s2)"
  then obtain q s1 where q: "m s = Some (q, s1)" "I s1"
    by (auto simp: catch_if_def dest: runs_ended [OF m] split: option.splits)
  show "I s2" using s q
    by (auto simp: catch_if_def dest: runs_ended [OF h] split: sum.splits if_splits)
next
  fix s x s2
  assume s: "I s" "catch_if p m h s = Some (Inr x, s2)"
  then obtain q s1 where q: "m s = Some (q, s1)" "I s1"
    by (auto simp: catch_if_def dest: runs_ended [OF m] split: option.splits)
  show "Q x"
  proof (cases q)
    case (Inl e)
    with s q show ?thesis
      by (auto simp: catch_if_def dest: runs_returned [OF h] split: if_splits)
  next
    case (Inr y)
    with s q runs_returned [OF m s(1)] show ?thesis by (auto simp: catch_if_def)
  qed
qed

lemma runs_catch [runs_rules]:
  "runs t I m Q \<Longrightarrow> (\<And>e. runs t I (h e) Q) \<Longrightarrow> runs t I (catch m h) Q"
  unfolding catch_def by (rule runs_catch_if)

lemma runs_finally:
  "runs t I m Q \<Longrightarrow> (\<And>s. I s \<Longrightarrow> I (f s)) \<Longrightarrow> runs t I (finally_do m f) Q"
  unfolding runs_def finally_do_def by (fastforce split: option.splits)

lemma runs_when [runs_rules]: "keeps t I m \<Longrightarrow> keeps t I (when_do b m)"
  by (simp add: when_do_def runs_ret)

lemma runs_if [runs_rules]:
  "(b \<Longrightarrow> runs t I m Q) \<Longrightarrow> (\<not> b \<Longrightarrow> runs t I n Q) \<Longrightarrow> runs t I (if b then m else n) Q"
  by simp

lemma runs_option [runs_rules]:
  "(x = None \<Longrightarrow> runs t I m Q) \<Longrightarrow> (\<And>y. x = Some y \<Longrightarrow> runs t I (f y) Q) \<Longrightarrow>
     runs t I (case x of None \<Rightarrow> m | Some y \<Rightarrow> f y) Q"
  by (cases x) simp_all

lemma runs_list [runs_rules]:
  "(x = [] \<Longrightarrow> runs t I m Q) \<Longrightarrow> (\<And>y ys. x = y # ys \<Longrightarrow> runs t I (f y ys) Q) \<Longrightarrow>
     runs t I (case x of [] \<Rightarrow> m | y # ys \<Rightarrow> f y ys) Q"
  by (cases x) simp_all

lemma runs_sum [runs_rules]:
  "(\<And>y. x = Inl y \<Longrightarrow> runs t I (f y) Q) \<Longrightarrow> (\<And>y. x = Inr y \<Longrightarrow> runs t I (g y) Q) \<Longrightarrow>
     runs t I (case x of Inl y \<Rightarrow> f y | Inr y \<Rightarrow> g y) Q"
  by (cases x) simp_all

lemma runs_prod [runs_rules]:
  "(\<And>a b. p = (a, b) \<Longrightarrow> runs t I (f a b) Q) \<Longrightarrow> runs t I (case p of (a, b) \<Rightarrow> f a b) Q"
  by (cases p) simp

lemma runs_let [runs_rules]: "runs t I (f x) Q \<Longrightarrow> runs t I (let y = x in f y) Q"
  by simp

end
