(* ===== verification/Plan_Contracts.thy ===== *)
theory Plan_Contracts
  imports Governance_Contracts
begin

text \<open>
  The plan of a provider (\<open>PlanStep\<close> and \<open>AgentPlan\<close> of \<open>contracts.py\<close>) and the requests, responses
  and call metadata of \<open>providers/contracts.py\<close>. Measured latencies are left out. The tools a
  provider sees are the pairs of id and version of their descriptors.
\<close>

section \<open>Plans\<close>

record plan_step =
  ps_step_id :: string
  ps_tool_id :: string
  ps_tool_version :: "string option"
  ps_purpose :: string
  ps_arguments :: "(string, pyval) dict"
  ps_required :: bool
  ps_idempotency_key :: "string option"

definition plan_step_ok :: "plan_step \<Rightarrow> bool" where
  "plan_step_ok s \<longleftrightarrow> ps_step_id s \<noteq> [] \<and> ps_tool_id s \<noteq> [] \<and> ps_purpose s \<noteq> []"

record agent_plan =
  plan_steps :: "plan_step list"
  plan_stop_reason :: "string option"

definition agent_plan_ok :: "agent_plan \<Rightarrow> bool" where
  "agent_plan_ok p \<longleftrightarrow> distinct (map ps_step_id (plan_steps p))"

definition mk_plan :: "plan_step list \<Rightarrow> string option \<Rightarrow> exc + agent_plan" where
  "mk_plan steps reason =
     (let p = \<lparr>plan_steps = steps, plan_stop_reason = reason\<rparr>
      in if agent_plan_ok p then Inr p else Inl ValidationError)"

definition mk_step :: "plan_step \<Rightarrow> exc + plan_step" where
  "mk_step s = (if plan_step_ok s then Inr s else Inl ValidationError)"

section \<open>Provider contracts\<close>

datatype provider_operation = Op_INTERPRET | Op_PLAN | Op_COMPOSE

fun provider_operation_value :: "provider_operation \<Rightarrow> string" where
  "provider_operation_value Op_INTERPRET = ''interpret''"
| "provider_operation_value Op_PLAN = ''plan''"
| "provider_operation_value Op_COMPOSE = ''compose''"

record provider_call_metadata =
  pcm_provider_id :: string
  pcm_provider_version :: string
  pcm_model :: string
  pcm_request_id :: "string option"
  pcm_retry_count :: int
  pcm_input_tokens :: "int option"
  pcm_output_tokens :: "int option"
  pcm_total_tokens :: "int option"
  pcm_metadata :: "(string, string) dict"

definition default_call_metadata :: provider_call_metadata where
  "default_call_metadata =
     \<lparr>pcm_provider_id = ''unknown'', pcm_provider_version = ''unknown'', pcm_model = ''unknown'',
      pcm_request_id = None, pcm_retry_count = 0, pcm_input_tokens = None,
      pcm_output_tokens = None, pcm_total_tokens = None, pcm_metadata = []\<rparr>"

definition nonnegative :: "int option \<Rightarrow> bool" where
  "nonnegative x \<longleftrightarrow> (case x of None \<Rightarrow> True | Some n \<Rightarrow> 0 \<le> n)"

definition provider_call_metadata_ok :: "provider_call_metadata \<Rightarrow> bool" where
  "provider_call_metadata_ok m \<longleftrightarrow>
     pcm_provider_id m \<noteq> [] \<and> pcm_provider_version m \<noteq> [] \<and> pcm_model m \<noteq> [] \<and>
     opt_nonempty (pcm_request_id m) \<and> 0 \<le> pcm_retry_count m \<and>
     nonnegative (pcm_input_tokens m) \<and> nonnegative (pcm_output_tokens m) \<and>
     nonnegative (pcm_total_tokens m)"

record provider_call_record =
  pcr_operation :: provider_operation
  pcr_metadata :: provider_call_metadata

record interpretation_proposal =
  ip_intent :: string
  ip_parameters :: "(string, pyval) dict"
  ip_constraints :: "string list"
  ip_confidence :: rat

record interpretation_response =
  ir_proposal :: interpretation_proposal
  ir_metadata :: provider_call_metadata

record interpretation_request =
  iq_request_id :: string
  iq_context :: compiled_context
  iq_execution :: execution_context
  iq_prompt :: "prompt_definition option"
  iq_skills :: "skill_definition list"
  iq_tools :: "(string \<times> string) list"

record planning_request =
  pq_request_id :: string
  pq_context :: compiled_context
  pq_execution :: execution_context
  pq_prompt :: "prompt_definition option"
  pq_skills :: "skill_definition list"
  pq_tools :: "(string \<times> string) list"
  pq_interpretation :: "interpretation_response option"

record planning_response =
  pr_plan :: agent_plan
  pr_metadata :: provider_call_metadata

record composition_request =
  cq_request_id :: string
  cq_context :: compiled_context
  cq_execution :: execution_context
  cq_plan :: agent_plan
  cq_tool_results :: "tool_result list"

record composition_response =
  cp_proposal :: outcome_proposal
  cp_metadata :: provider_call_metadata

end
