(* ===== verification/Normalization.thy ===== *)
theory Normalization
  imports Plan_Contracts
begin

text \<open>
  \<open>providers/normalization.py\<close>: what a provider returned becomes a response of the runtime's
  contracts. A returned value is an instance of one of the contracts, a mapping, a sequence other
  than text, or anything else (\<open>RLeaf\<close>). The pydantic models that parse a mapping, \<open>json.loads\<close>
  and \<open>str\<close> of a value that is no text are the fields of \<open>norm_env\<close>.
\<close>

section \<open>Returned values\<close>

datatype raw =
    RInterpretationResponse interpretation_response
  | RInterpretationProposal interpretation_proposal
  | RPlanningResponse planning_response
  | RAgentPlan agent_plan
  | RPlanStep plan_step
  | RToolCall tool_call
  | RCompositionResponse composition_response
  | ROutcomeProposal outcome_proposal
  | RMap "(string \<times> raw) list"
  | RSeq "raw list"
  | RLeaf pyval

text \<open>A value in an untyped field; a contract's instance is an opaque object there.\<close>

fun raw_value :: "raw \<Rightarrow> pyval" where
  "raw_value (RMap kvs) = PDict (map (\<lambda>(k, v). (k, raw_value v)) kvs)"
| "raw_value (RSeq vs) = PList (map raw_value vs)"
| "raw_value (RLeaf v) = v"
| "raw_value _ = PObject 0"

record norm_env =
  ne_interpretation :: "raw \<Rightarrow> interpretation_proposal option"
  ne_outcome :: "raw \<Rightarrow> outcome_proposal option"
  ne_metadata :: "raw \<Rightarrow> provider_call_metadata option"
  ne_loads :: "string \<Rightarrow> raw option"
  ne_str :: "raw \<Rightarrow> string"

section \<open>Helpers\<close>

definition as_mapping :: "raw \<Rightarrow> exc + (string, raw) dict" where
  "as_mapping v = (case v of RMap kvs \<Rightarrow> Inr kvs | _ \<Rightarrow> Inl ProviderOutputError)"

definition call_metadata :: "norm_env \<Rightarrow> raw option \<Rightarrow> exc + provider_call_metadata" where
  "call_metadata env v =
     (case v of
        None \<Rightarrow> Inr default_call_metadata
      | Some (RLeaf PNone) \<Rightarrow> Inr default_call_metadata
      | Some x \<Rightarrow> (case ne_metadata env x of None \<Rightarrow> Inl ProviderOutputError | Some m \<Rightarrow> Inr m))"

text \<open>\<open>_first_string\<close>: the first text that is not blank, stripped.\<close>

fun first_string :: "raw option list \<Rightarrow> string option" where
  "first_string [] = None"
| "first_string (Some (RLeaf (PStr s)) # vs) = (if blank s then first_string vs else Some (strip s))"
| "first_string (_ # vs) = first_string vs"

definition call_arguments :: "norm_env \<Rightarrow> raw \<Rightarrow> exc + (string, pyval) dict" where
  "call_arguments env v =
     (case (case v of
              RLeaf (PStr s) \<Rightarrow> (case ne_loads env s of None \<Rightarrow> Inl ProviderOutputError | Some x \<Rightarrow> Inr x)
            | _ \<Rightarrow> Inr v) of
        Inl e \<Rightarrow> Inl e
      | Inr (RMap kvs) \<Rightarrow> Inr (map (\<lambda>(k, x). (k, raw_value x)) kvs)
      | Inr _ \<Rightarrow> Inl ProviderOutputError)"

text \<open>The first of the keys that is present.\<close>

fun first_present :: "string list \<Rightarrow> (string, raw) dict \<Rightarrow> raw option" where
  "first_present [] m = None"
| "first_present (k # ks) m = (case map_of m k of Some v \<Rightarrow> Some v | None \<Rightarrow> first_present ks m)"

lemma map_of_size: "map_of m k = Some v \<Longrightarrow> size v < size_list (size_prod (\<lambda>_. 0) size) m"
  by (induction m) (auto split: if_splits)

text \<open>
  \<open>_tool_call_collection\<close> and its loop over \<open>choices\<close>, which skips what is no mapping and what holds
  no calls.
\<close>

function (sequential) tool_call_collection :: "(string \<times> raw) list \<Rightarrow> exc + raw"
  and choice_calls :: "raw list \<Rightarrow> raw list" where
  "tool_call_collection m =
     (case first_present [''steps'', ''tool_calls'', ''calls'', ''content'', ''output''] m of
        Some v \<Rightarrow> Inr v
      | None \<Rightarrow>
          (case first_present [''function_call'', ''functionCall'', ''tool_call''] m of
             Some v \<Rightarrow> Inr (RSeq [v])
           | None \<Rightarrow>
               (let calls = (case map_of m ''choices'' of Some (RSeq cs) \<Rightarrow> choice_calls cs | _ \<Rightarrow> [])
                in if calls \<noteq> [] then Inr (RSeq calls)
                   else if first_present [''tool_id'', ''tool_name'', ''name'', ''tool'', ''function'',
                                          ''function_call''] m \<noteq> None
                   then Inr (RSeq [RMap m])
                   else Inl ProviderOutputError)))"
| "choice_calls [] = []"
| "choice_calls (RMap c # cs) =
     (case (case map_of c ''message'' of None \<Rightarrow> RMap c | Some v \<Rightarrow> v) of
        RMap m \<Rightarrow>
          (case tool_call_collection m of
             Inl e \<Rightarrow> []
           | Inr (RSeq vs) \<Rightarrow> vs
           | Inr v \<Rightarrow> [v])
      | _ \<Rightarrow> []) @ choice_calls cs"
| "choice_calls (_ # cs) = choice_calls cs"
  by pat_completeness auto

termination
proof (relation "measure (case_sum (size_list (size_prod (\<lambda>_. 0) size)) (size_list size))", goal_cases)
  case 1
  then show ?case by simp
next
  case (2 m v cs)
  from map_of_size [OF 2(3)] 2(4) show ?case by simp
next
  case (3 c cs m)
  then show ?case
    by (cases "map_of c ''message''") (auto dest!: map_of_size)
qed auto

declare tool_call_collection.simps [simp del]

section \<open>Normalization\<close>

text \<open>The arguments of a raw tool call, before they are parsed.\<close>

definition raw_arguments :: "(string, raw) dict \<Rightarrow> (string, raw) dict \<Rightarrow> raw" where
  "raw_arguments m fm =
     (case map_of m ''arguments'' of
        Some v \<Rightarrow> v
      | None \<Rightarrow>
          (case first_present [''arguments'', ''input'', ''args''] fm of
             Some v \<Rightarrow> v
           | None \<Rightarrow>
               (case first_present [''args'', ''input'', ''parameters''] m of
                  Some v \<Rightarrow> v | None \<Rightarrow> RMap [])))"

definition step_name :: "nat \<Rightarrow> string" where
  "step_name n = ''step_'' @ str_nat n"

definition normalize_tool_call :: "norm_env \<Rightarrow> nat \<Rightarrow> raw \<Rightarrow> exc + plan_step" where
  "normalize_tool_call env n v =
     (case v of
        RPlanStep s \<Rightarrow> Inr s
      | RToolCall c \<Rightarrow>
          mk_step \<lparr>ps_step_id = or_else (tc_call_id c) (step_name n), ps_tool_id = tc_tool_id c,
                   ps_tool_version = tc_tool_version c, ps_purpose = tc_purpose c,
                   ps_arguments = tc_arguments c, ps_required = True,
                   ps_idempotency_key = tc_idempotency_key c\<rparr>
      | _ \<Rightarrow>
          bindE (as_mapping v) (\<lambda>m.
            let fm = (case first_present [''function'', ''function_call'', ''functionCall''] m of
                        Some (RMap f) \<Rightarrow> f | _ \<Rightarrow> [])
            in case first_string [map_of m ''tool_id'', map_of m ''tool_name'', map_of m ''name'',
                                  map_of m ''tool'', map_of fm ''name''] of
                 None \<Rightarrow> Inl ProviderOutputError
               | Some tool_id \<Rightarrow>
                   bindE (call_arguments env (raw_arguments m fm)) (\<lambda>arguments.
                     mk_step
                       \<lparr>ps_step_id = or_else (first_string [map_of m ''step_id'', map_of m ''call_id'',
                                                           map_of m ''id'']) (step_name n),
                        ps_tool_id = tool_id,
                        ps_tool_version = first_string [map_of m ''tool_version'', map_of m ''version''],
                        ps_purpose = or_else (first_string [map_of m ''purpose'', map_of m ''reason'',
                                                           map_of m ''description''])
                                       ''Provider-proposed tool call.'',
                        ps_arguments = arguments, ps_required = True,
                        ps_idempotency_key = first_string [map_of m ''idempotency_key'']\<rparr>)))"

fun normalize_items :: "norm_env \<Rightarrow> nat \<Rightarrow> raw list \<Rightarrow> exc + plan_step list" where
  "normalize_items env n [] = Inr []"
| "normalize_items env n (v # vs) =
     bindE (normalize_tool_call env n v) (\<lambda>s.
       bindE (normalize_items env (Suc n) vs) (\<lambda>ss. Inr (s # ss)))"

definition call_values :: "raw \<Rightarrow> exc + raw" where
  "call_values v =
     (case v of
        RAgentPlan p \<Rightarrow> Inr (RSeq (map RPlanStep (plan_steps p)))
      | RPlanningResponse r \<Rightarrow> Inr (RSeq (map RPlanStep (plan_steps (pr_plan r))))
      | RMap m \<Rightarrow> tool_call_collection m
      | _ \<Rightarrow> Inr v)"

definition normalize_tool_calls :: "norm_env \<Rightarrow> raw \<Rightarrow> exc + plan_step list" where
  "normalize_tool_calls env v =
     bindE (call_values v)
       (\<lambda>values. case values of RSeq vs \<Rightarrow> normalize_items env 1 vs | _ \<Rightarrow> Inl ProviderOutputError)"

text \<open>\<open>str(v) if v is not None else None\<close> of a possibly absent value.\<close>

definition reason_text :: "norm_env \<Rightarrow> raw option \<Rightarrow> string option" where
  "reason_text env v =
     (case v of
        None \<Rightarrow> None
      | Some (RLeaf PNone) \<Rightarrow> None
      | Some (RLeaf (PStr s)) \<Rightarrow> Some s
      | Some x \<Rightarrow> Some (ne_str env x))"

text \<open>The stop reason beside or inside the value of \<open>plan\<close>.\<close>

definition plan_reason :: "norm_env \<Rightarrow> (string, raw) dict \<Rightarrow> raw \<Rightarrow> string option" where
  "plan_reason env m pv =
     (case pv of
        RAgentPlan p \<Rightarrow> plan_stop_reason p
      | _ \<Rightarrow>
          (case (case pv of RMap pm \<Rightarrow> reason_text env (map_of pm ''stop_reason'') | _ \<Rightarrow> None) of
             Some t \<Rightarrow> Some t
           | None \<Rightarrow> reason_text env (map_of m ''stop_reason'')))"

definition planned :: "plan_step list \<Rightarrow> string option \<Rightarrow> provider_call_metadata \<Rightarrow> exc + planning_response" where
  "planned steps reason md = bindE (mk_plan steps reason) (\<lambda>p. Inr \<lparr>pr_plan = p, pr_metadata = md\<rparr>)"

definition normalize_plan :: "norm_env \<Rightarrow> raw \<Rightarrow> exc + planning_response" where
  "normalize_plan env v =
     (case v of
        RPlanningResponse r \<Rightarrow>
          bindE (normalize_tool_calls env (RSeq (map RPlanStep (plan_steps (pr_plan r))))) (\<lambda>steps.
            planned steps (plan_stop_reason (pr_plan r)) (pr_metadata r))
      | RAgentPlan p \<Rightarrow>
          bindE (normalize_tool_calls env (RSeq (map RPlanStep (plan_steps p)))) (\<lambda>steps.
            planned steps (plan_stop_reason p) default_call_metadata)
      | RMap m \<Rightarrow>
          bindE (call_metadata env (map_of m ''metadata'')) (\<lambda>md.
            case map_of m ''plan'' of
              Some pv \<Rightarrow>
                bindE (normalize_tool_calls env pv) (\<lambda>steps. planned steps (plan_reason env m pv) md)
            | None \<Rightarrow>
                bindE (normalize_tool_calls env v) (\<lambda>steps.
                  planned steps (reason_text env (map_of m ''stop_reason'')) md))
      | _ \<Rightarrow> bindE (normalize_tool_calls env v) (\<lambda>steps. planned steps None default_call_metadata))"

text \<open>\<open>mapping.get("proposal", the mapping without metadata)\<close>\<close>

definition proposal_value :: "(string, raw) dict \<Rightarrow> raw" where
  "proposal_value m =
     (case map_of m ''proposal'' of Some v \<Rightarrow> v | None \<Rightarrow> RMap (filter (\<lambda>(k, x). k \<noteq> ''metadata'') m))"

definition normalize_interpretation :: "norm_env \<Rightarrow> raw \<Rightarrow> exc + interpretation_response" where
  "normalize_interpretation env v =
     (case v of
        RInterpretationResponse r \<Rightarrow> Inr r
      | RInterpretationProposal p \<Rightarrow> Inr \<lparr>ir_proposal = p, ir_metadata = default_call_metadata\<rparr>
      | _ \<Rightarrow>
          bindE (as_mapping v) (\<lambda>m.
            bindE (call_metadata env (map_of m ''metadata'')) (\<lambda>md.
              case ne_interpretation env (proposal_value m) of
                None \<Rightarrow> Inl ProviderOutputError
              | Some p \<Rightarrow> Inr \<lparr>ir_proposal = p, ir_metadata = md\<rparr>)))"

definition normalize_composition :: "norm_env \<Rightarrow> raw \<Rightarrow> exc + composition_response" where
  "normalize_composition env v =
     (case v of
        RCompositionResponse r \<Rightarrow> Inr r
      | ROutcomeProposal p \<Rightarrow> Inr \<lparr>cp_proposal = p, cp_metadata = default_call_metadata\<rparr>
      | _ \<Rightarrow>
          bindE (as_mapping v) (\<lambda>m.
            bindE (call_metadata env (map_of m ''metadata'')) (\<lambda>md.
              case ne_outcome env (proposal_value m) of
                None \<Rightarrow> Inl ProviderOutputError
              | Some p \<Rightarrow> Inr \<lparr>cp_proposal = p, cp_metadata = md\<rparr>)))"

section \<open>Lemmas\<close>

lemma bindE_Inr: "bindE m f = Inr y \<longleftrightarrow> (\<exists>x. m = Inr x \<and> f x = Inr y)"
  by (cases m) (auto simp: bindE_def)

lemma bindE_Inl: "bindE m f = Inl e \<longleftrightarrow> m = Inl e \<or> (\<exists>x. m = Inr x \<and> f x = Inl e)"
  by (cases m) (auto simp: bindE_def)

lemma normalize_items_steps: "normalize_items env n (map RPlanStep ss) = Inr ss"
  by (induction ss arbitrary: n) (simp_all add: normalize_tool_call_def bindE_def)

lemma normalize_given_steps: "normalize_tool_calls env (RSeq (map RPlanStep ss)) = Inr ss"
  by (simp add: normalize_tool_calls_def call_values_def normalize_items_steps bindE_def)

lemma planned_ok: "planned steps reason md = Inr r \<Longrightarrow>
    agent_plan_ok (pr_plan r) \<and> r = \<lparr>pr_plan = pr_plan r, pr_metadata = pr_metadata r\<rparr>"
  by (auto simp: planned_def mk_plan_def bindE_Inr Let_def split: if_splits)

lemma normalize_plan_planned:
  "normalize_plan env v = Inr r \<Longrightarrow> \<exists>steps reason md. planned steps reason md = Inr r"
  unfolding normalize_plan_def
  by (cases v; auto simp: bindE_Inr split: option.splits; blast)

lemma normalize_response:
  assumes "agent_plan_ok (pr_plan r)"
  shows "normalize_plan env (RPlanningResponse r) = Inr r"
  using assms by (cases r; cases "pr_plan r")
    (simp add: normalize_plan_def normalize_given_steps planned_def mk_plan_def bindE_def Let_def)

text \<open>The errors of a normalization.\<close>

definition shape_error :: "exc \<Rightarrow> bool" where
  "shape_error e \<longleftrightarrow> e = ProviderOutputError \<or> e = ValidationError"

lemma shape_errors [simp]: "shape_error ProviderOutputError" "shape_error ValidationError"
  by (simp_all add: shape_error_def)

lemma mk_step_error: "mk_step s = Inl e \<Longrightarrow> shape_error e"
  by (auto simp: mk_step_def split: if_splits)

lemma as_mapping_error: "as_mapping v = Inl e \<Longrightarrow> shape_error e"
  by (auto simp: as_mapping_def split: raw.splits)

lemma call_arguments_error: "call_arguments env v = Inl e \<Longrightarrow> shape_error e"
  by (auto simp: call_arguments_def split: raw.splits pyval.splits option.splits sum.splits)

lemma call_metadata_error: "call_metadata env v = Inl e \<Longrightarrow> shape_error e"
  by (auto simp: call_metadata_def split: raw.splits pyval.splits option.splits)

lemma normalize_tool_call_error: "normalize_tool_call env n v = Inl e \<Longrightarrow> shape_error e"
  unfolding normalize_tool_call_def Let_def
  by (cases v)
    (auto simp: bindE_Inl split: option.splits
      dest: mk_step_error as_mapping_error call_arguments_error)

lemma normalize_items_error: "normalize_items env n vs = Inl e \<Longrightarrow> shape_error e"
  by (induction env n vs rule: normalize_items.induct)
    (auto simp: bindE_Inl dest: normalize_tool_call_error)

lemma collection_error: "tool_call_collection m = Inl e \<Longrightarrow> shape_error e"
  by (subst (asm) tool_call_collection.simps) (auto simp: Let_def split: option.splits if_splits)

lemma normalize_tool_calls_error: "normalize_tool_calls env v = Inl e \<Longrightarrow> shape_error e"
proof -
  have "shape_error e" if "call_values v = Inl e"
    using that collection_error by (cases v) (auto simp: call_values_def)
  moreover have "shape_error e" if "(case x of RSeq vs \<Rightarrow> normalize_items env 1 vs | _ \<Rightarrow> Inl ProviderOutputError) = Inl e" for x
    using that normalize_items_error by (cases x) auto
  moreover assume "normalize_tool_calls env v = Inl e"
  ultimately show "shape_error e" by (auto simp: normalize_tool_calls_def bindE_Inl)
qed

lemma planned_error: "planned steps reason md = Inl e \<Longrightarrow> shape_error e"
  by (auto simp: planned_def mk_plan_def bindE_Inl Let_def split: if_splits)

lemma normalize_plan_error: "normalize_plan env v = Inl e \<Longrightarrow> shape_error e"
  unfolding normalize_plan_def
  by (cases v)
    (auto simp: bindE_Inl split: option.splits
      dest: normalize_tool_calls_error planned_error call_metadata_error)

section \<open>The JSON form of a plan\<close>














section \<open>Properties\<close>

text \<open>
  Normalization gives a plan or a typed error, and is idempotent. What \<open>normalize_plan\<close> returns
  has distinct step ids and is left unchanged by a second normalization; a value it cannot use
  raises \<open>ProviderOutputError\<close> or the contract's \<open>ValidationError\<close>, whatever the provider sent.
\<close>

theorem normalize_plan_exact:
  "case normalize_plan env v of
     Inl e \<Rightarrow> e \<in> {ProviderOutputError, ValidationError}
   | Inr r \<Rightarrow> agent_plan_ok (pr_plan r) \<and> normalize_plan env (RPlanningResponse r) = Inr r"
proof (cases "normalize_plan env v")
  case (Inl e)
  with normalize_plan_error show ?thesis by (auto simp: shape_error_def)
next
  case (Inr r)
  from normalize_plan_planned [OF this] planned_ok have "agent_plan_ok (pr_plan r)" by blast
  with Inr normalize_response show ?thesis by simp
qed




end
