(* ===== verification/Tracing.thy ===== *)
theory Tracing
  imports Plan_Contracts Tool_Registry Observability
begin

text \<open>
  \<open>observability/tracing.py\<close>, \<open>observability/metrics.py\<close> and the trace contracts of
  \<open>evaluation/contracts.py\<close>, with the runtime's functions that join traces of a paused and a resumed
  run. Measured latencies are left out, and the sink is the in-memory one, whose \<open>append\<close> does not
  fail. Costs are rationals; \<open>round8\<close> is \<open>round(x, 8)\<close>, to even in the middle.
\<close>

section \<open>Usage metrics\<close>

record provider_usage_metric =
  pum_provider_id :: string
  pum_provider_version :: string
  pum_model :: string
  pum_calls :: int
  pum_input_tokens :: int
  pum_output_tokens :: int
  pum_total_tokens :: int
  pum_cost :: rat

record tool_usage_metric =
  tum_tool_id :: string
  tum_tool_version :: string
  tum_invocations :: int

record execution_metrics =
  em_execution_id :: string
  em_correlation_id :: string
  em_agent_id :: string
  em_agent_version :: string
  em_attempt :: int
  em_provider_calls :: int
  em_tool_invocations :: int
  em_total_input_tokens :: int
  em_total_output_tokens :: int
  em_total_tokens :: int
  em_total_cost :: rat
  em_providers :: "provider_usage_metric list"
  em_tools :: "tool_usage_metric list"

definition round8 :: "rat \<Rightarrow> rat" where
  "round8 x =
     (let y = x * 10 ^ 8; f = \<lfloor>y\<rfloor>; d = y - of_int f;
          n = (if d < 1 / 2 then f else if d > 1 / 2 then f + 1 else if even f then f else f + 1)
      in of_int n / 10 ^ 8)"

text \<open>A cost model prices the input and output tokens of a provider's model.\<close>

type_synonym cost_model = "string \<Rightarrow> string \<Rightarrow> int \<Rightarrow> int \<Rightarrow> rat"

definition static_token_cost :: "rat \<Rightarrow> rat \<Rightarrow> exc + cost_model" where
  "static_token_cost input_rate output_rate =
     (if input_rate < 0 \<or> output_rate < 0 then Inl ValueError
      else Inr (\<lambda>provider model i out.
        round8 (of_int i / 1000 * input_rate + of_int out / 1000 * output_rate)))"

definition token_count :: "int option \<Rightarrow> int" where
  "token_count x = (case x of None \<Rightarrow> 0 | Some n \<Rightarrow> n)"

definition call_cost :: "cost_model option \<Rightarrow> provider_call_metadata \<Rightarrow> rat" where
  "call_cost cm m =
     (case cm of
        None \<Rightarrow> 0
      | Some f \<Rightarrow> f (pcm_provider_id m) (pcm_model m) (token_count (pcm_input_tokens m))
                  (token_count (pcm_output_tokens m)))"

text \<open>One pass of the loop over the provider calls: the entry of the call's model is updated.\<close>

definition add_provider_call ::
  "cost_model option \<Rightarrow> provider_call_record \<Rightarrow>
   (string \<times> string \<times> string, provider_usage_metric) dict \<Rightarrow>
   (string \<times> string \<times> string, provider_usage_metric) dict" where
  "add_provider_call cm r d =
     (let m = pcr_metadata r;
          i = token_count (pcm_input_tokens m); out = token_count (pcm_output_tokens m);
          k = (pcm_provider_id m, pcm_provider_version m, pcm_model m);
          old = (case map_of d k of
                   Some x \<Rightarrow> x
                 | None \<Rightarrow>
                     \<lparr>pum_provider_id = pcm_provider_id m, pum_provider_version = pcm_provider_version m,
                      pum_model = pcm_model m, pum_calls = 0, pum_input_tokens = 0,
                      pum_output_tokens = 0, pum_total_tokens = 0, pum_cost = 0\<rparr>)
      in AList.update k
           (old\<lparr>pum_calls := pum_calls old + 1, pum_input_tokens := pum_input_tokens old + i,
                pum_output_tokens := pum_output_tokens old + out,
                pum_total_tokens := pum_total_tokens old + i + out,
                pum_cost := round8 (pum_cost old + call_cost cm m)\<rparr>) d)"

definition add_tool_execution ::
  "tool_execution_record \<Rightarrow> (string \<times> string, tool_usage_metric) dict \<Rightarrow>
   (string \<times> string, tool_usage_metric) dict" where
  "add_tool_execution r d =
     (let k = (ter_tool_id r, ter_tool_version r);
          old = (case map_of d k of
                   Some x \<Rightarrow> x
                 | None \<Rightarrow> \<lparr>tum_tool_id = ter_tool_id r, tum_tool_version = ter_tool_version r,
                           tum_invocations = 0\<rparr>)
      in AList.update k (old\<lparr>tum_invocations := tum_invocations old + 1\<rparr>) d)"

definition aggregate_metrics ::
  "string \<Rightarrow> string \<Rightarrow> string \<Rightarrow> string \<Rightarrow> int \<Rightarrow> provider_call_record list \<Rightarrow>
   tool_execution_record list \<Rightarrow> cost_model option \<Rightarrow> execution_metrics" where
  "aggregate_metrics execution_id correlation_id agent_id agent_version attempt calls tools cm =
     (let input = sum_list (map (\<lambda>r. token_count (pcm_input_tokens (pcr_metadata r))) calls);
          output = sum_list (map (\<lambda>r. token_count (pcm_output_tokens (pcr_metadata r))) calls)
      in \<lparr>em_execution_id = execution_id, em_correlation_id = correlation_id, em_agent_id = agent_id,
          em_agent_version = agent_version, em_attempt = attempt,
          em_provider_calls = int (length calls), em_tool_invocations = int (length tools),
          em_total_input_tokens = input, em_total_output_tokens = output,
          em_total_tokens = input + output,
          em_total_cost = round8 (sum_list (map (\<lambda>r. call_cost cm (pcr_metadata r)) calls)),
          em_providers = map snd (fold (add_provider_call cm) calls []),
          em_tools = map snd (fold add_tool_execution tools [])\<rparr>)"

section \<open>Traces\<close>

record trace_event =
  tev_event_id :: string
  tev_execution_id :: string
  tev_sequence :: nat
  tev_stage :: string
  tev_event_type :: string
  tev_occurred_at :: time
  tev_metadata :: "(string, string) dict"

text \<open>What a runtime is built from, named in its audit events and traces.\<close>

record run_identity =
  rid_manifest_id :: "string option"
  rid_manifest_digest :: "string option"
  rid_registry_snapshot_id :: "string option"
  rid_prompt_ref :: "component_reference option"
  rid_skill_refs :: "component_reference list"

record run_trace =
  rt_trace_id :: string
  rt_execution :: execution_context
  rt_input_fingerprint :: string
  rt_identity :: run_identity
  rt_event_id :: "string option"
  rt_trigger_id :: "string option"
  rt_causation_id :: "string option"
  rt_attempt :: int
  rt_events :: "trace_event list"
  rt_provider_calls :: "provider_call_record list"
  rt_policy_decisions :: "policy_decision list"
  rt_tool_executions :: "tool_execution_record list"
  rt_metrics :: "execution_metrics option"
  rt_final_status :: "outcome_status option"
  rt_generated_at :: time

text \<open>
  A trace copies the identifiers of its execution; they are read off \<open>rt_execution\<close>. The validator
  asks for sequence numbers from one on without a gap, and for references of the right type.
\<close>

definition contiguous :: "trace_event list \<Rightarrow> bool" where
  "contiguous es \<longleftrightarrow> map tev_sequence es = [1..<Suc (length es)]"

definition run_trace_ok :: "run_trace \<Rightarrow> bool" where
  "run_trace_ok t \<longleftrightarrow>
     rt_trace_id t \<noteq> [] \<and> execution_context_ok (rt_execution t) \<and> rt_input_fingerprint t \<noteq> [] \<and>
     opt_nonempty (rid_manifest_id (rt_identity t)) \<and> opt_nonempty (rid_manifest_digest (rt_identity t)) \<and>
     opt_nonempty (rid_registry_snapshot_id (rt_identity t)) \<and> 0 \<le> rt_attempt t \<and>
     contiguous (rt_events t) \<and>
     (case rid_prompt_ref (rt_identity t) of
        None \<Rightarrow> True | Some r \<Rightarrow> cr_component_type r = Component_PROMPT) \<and>
     list_all (\<lambda>r. cr_component_type r = Component_SKILL) (rid_skill_refs (rt_identity t))"

section \<open>The recorder\<close>

record trace_recorder =
  rec_execution :: execution_context
  rec_identity :: run_identity
  rec_input_fingerprint :: string
  rec_events :: "trace_event list"
  rec_provider_calls :: "provider_call_record list"
  rec_policy_decisions :: "policy_decision list"
  rec_tool_executions :: "tool_execution_record list"

text \<open>The identifiers of an execution that a trace copies.\<close>

definition traced_identity :: "execution_context \<Rightarrow>
    (string \<times> string \<times> principal_context \<times> string \<times> string) \<times>
    (string option \<times> string option \<times> int \<times> string list)" where
  "traced_identity e =
     ((ec_execution_id e, ec_agent_id e, ec_principal e, ec_agent_version e, ec_correlation_id e),
      (ec_parent_execution_id e, ec_delegation_id e, ec_delegation_depth e, ec_delegation_path e))"

definition new_recorder ::
  "(string \<Rightarrow> string) \<Rightarrow> execution_context \<Rightarrow> string \<Rightarrow> run_identity \<Rightarrow> run_trace option \<Rightarrow>
   exc + trace_recorder" where
  "new_recorder sha256 e input_text rid initial =
     (case initial of
        None \<Rightarrow> Inr \<lparr>rec_execution = e, rec_identity = rid, rec_input_fingerprint = sha256 input_text,
                    rec_events = [], rec_provider_calls = [], rec_policy_decisions = [],
                    rec_tool_executions = []\<rparr>
      | Some t \<Rightarrow>
          if traced_identity (rt_execution t) \<noteq> traced_identity e \<or>
             rt_input_fingerprint t \<noteq> sha256 input_text \<or>
             rt_event_id t \<noteq> ec_event_id e \<or> rt_trigger_id t \<noteq> ec_trigger_id e \<or>
             rt_causation_id t \<noteq> ec_causation_id e \<or> rt_attempt t \<noteq> ec_attempt e \<or>
             rt_identity t \<noteq> rid
          then Inl ValueError
          else Inr \<lparr>rec_execution = e, rec_identity = rid, rec_input_fingerprint = sha256 input_text,
                    rec_events = rt_events t, rec_provider_calls = rt_provider_calls t,
                    rec_policy_decisions = rt_policy_decisions t,
                    rec_tool_executions = rt_tool_executions t\<rparr>)"

definition record_event ::
  "redactor \<Rightarrow> string \<Rightarrow> string \<Rightarrow> (string, string) dict \<Rightarrow>
   trace_recorder \<times> world \<times> trace_event list \<Rightarrow> trace_recorder \<times> world \<times> trace_event list" where
  "record_event red stage event_type metadata s =
     (case s of (tr, w, sink) \<Rightarrow>
        let (i, w1) = new_id ''trace_event'' w; (t, w2) = now w1;
            e = \<lparr>tev_event_id = i, tev_execution_id = ec_execution_id (rec_execution tr),
                 tev_sequence = length (rec_events tr) + 1, tev_stage = stage,
                 tev_event_type = event_type, tev_occurred_at = t,
                 tev_metadata = safe_metadata red metadata\<rparr>
        in (tr\<lparr>rec_events := rec_events tr @ [e]\<rparr>, w2, sink @ [e]))"

definition record_provider_call ::
  "provider_operation \<Rightarrow> provider_call_metadata \<Rightarrow> trace_recorder \<Rightarrow> trace_recorder" where
  "record_provider_call op m tr =
     tr\<lparr>rec_provider_calls := rec_provider_calls tr @ [\<lparr>pcr_operation = op, pcr_metadata = m\<rparr>]\<rparr>"

definition record_policy_decision :: "policy_decision \<Rightarrow> trace_recorder \<Rightarrow> trace_recorder" where
  "record_policy_decision d tr = tr\<lparr>rec_policy_decisions := rec_policy_decisions tr @ [d]\<rparr>"

definition record_tool_execution :: "tool_execution_record \<Rightarrow> trace_recorder \<Rightarrow> trace_recorder" where
  "record_tool_execution r tr = tr\<lparr>rec_tool_executions := rec_tool_executions tr @ [r]\<rparr>"

definition export_trace ::
  "cost_model option \<Rightarrow> outcome_status option \<Rightarrow> trace_recorder \<Rightarrow> world \<Rightarrow> run_trace \<times> world" where
  "export_trace cm status tr w =
     (let e = rec_execution tr;
          metrics = aggregate_metrics (ec_execution_id e) (ec_correlation_id e) (ec_agent_id e)
                      (ec_agent_version e) (ec_attempt e) (rec_provider_calls tr)
                      (rec_tool_executions tr) cm;
          (i, w1) = new_id ''trace'' w; (t, w2) = now w1
      in (\<lparr>rt_trace_id = i, rt_execution = e, rt_input_fingerprint = rec_input_fingerprint tr,
           rt_identity = rec_identity tr, rt_event_id = ec_event_id e, rt_trigger_id = ec_trigger_id e,
           rt_causation_id = ec_causation_id e, rt_attempt = ec_attempt e,
           rt_events = rec_events tr, rt_provider_calls = rec_provider_calls tr,
           rt_policy_decisions = rec_policy_decisions tr, rt_tool_executions = rec_tool_executions tr,
           rt_metrics = Some metrics, rt_final_status = status, rt_generated_at = t\<rparr>, w2))"

section \<open>Joining traces\<close>

definition shift_events :: "nat \<Rightarrow> trace_event list \<Rightarrow> trace_event list" where
  "shift_events offset es = map (\<lambda>e. e\<lparr>tev_sequence := tev_sequence e + offset\<rparr>) es"

definition append_trace_events :: "run_trace \<Rightarrow> trace_event list \<Rightarrow> time \<Rightarrow> run_trace" where
  "append_trace_events t es generated_at =
     t\<lparr>rt_events := rt_events t @ shift_events (length (rt_events t)) es,
       rt_generated_at := generated_at\<rparr>"

definition opt_or :: "'a option \<Rightarrow> 'a option \<Rightarrow> 'a option" where
  "opt_or x y = (case x of None \<Rightarrow> y | Some _ \<Rightarrow> x)"

text \<open>The merged trace of \<open>_merge_trace_bundle\<close>.\<close>

definition merge_traces :: "cost_model option \<Rightarrow> run_trace \<Rightarrow> run_trace \<Rightarrow> exc + run_trace" where
  "merge_traces cm previous current =
     (let p = rt_execution previous; c = rt_execution current
      in if ec_execution_id c \<noteq> ec_execution_id p \<or> ec_agent_id c \<noteq> ec_agent_id p \<or>
            ec_agent_version c \<noteq> ec_agent_version p \<or> ec_correlation_id c \<noteq> ec_correlation_id p
         then Inl ValueError
         else
           (let calls = rt_provider_calls previous @ rt_provider_calls current;
                tools = rt_tool_executions previous @ rt_tool_executions current;
                attempt = max (rt_attempt previous) (rt_attempt current)
            in Inr (current
                 \<lparr>rt_events := rt_events previous @
                    shift_events (length (rt_events previous)) (rt_events current),
                  rt_provider_calls := calls,
                  rt_policy_decisions := rt_policy_decisions previous @ rt_policy_decisions current,
                  rt_tool_executions := tools,
                  rt_event_id := opt_or (rt_event_id previous) (rt_event_id current),
                  rt_trigger_id := opt_or (rt_trigger_id previous) (rt_trigger_id current),
                  rt_causation_id := opt_or (rt_causation_id previous) (rt_causation_id current),
                  rt_attempt := attempt,
                  rt_metrics := Some (aggregate_metrics (ec_execution_id c) (ec_correlation_id c)
                    (ec_agent_id c) (ec_agent_version c) attempt calls tools cm)\<rparr>)))"

section \<open>Sequences of recorder calls\<close>

datatype trace_op =
    TraceEvent string string "(string, string) dict"
  | TraceCall provider_operation provider_call_metadata
  | TraceDecision policy_decision
  | TraceTool tool_execution_record

fun trace_step :: "redactor \<Rightarrow> trace_op \<Rightarrow> trace_recorder \<times> world \<times> trace_event list \<Rightarrow>
    trace_recorder \<times> world \<times> trace_event list" where
  "trace_step red (TraceEvent stage ty md) s = record_event red stage ty md s"
| "trace_step red (TraceCall op m) (tr, ws) = (record_provider_call op m tr, ws)"
| "trace_step red (TraceDecision d) (tr, ws) = (record_policy_decision d tr, ws)"
| "trace_step red (TraceTool r) (tr, ws) = (record_tool_execution r tr, ws)"

definition trace_run :: "redactor \<Rightarrow> trace_op list \<Rightarrow> trace_recorder \<times> world \<times> trace_event list \<Rightarrow>
    trace_recorder \<times> world \<times> trace_event list" where
  "trace_run red ops s = fold (trace_step red) ops s"

lemma contiguous_Nil [simp]: "contiguous []"
  by (simp add: contiguous_def)

lemma contiguous_nth: "contiguous es \<longleftrightarrow> (\<forall>i < length es. tev_sequence (es ! i) = Suc i)"
  unfolding contiguous_def list_eq_iff_nth_eq by (simp del: upt_Suc)

lemma contiguous_append:
  "contiguous xs \<Longrightarrow> contiguous ys \<Longrightarrow> contiguous (xs @ shift_events (length xs) ys)"
  unfolding contiguous_nth by (auto simp: nth_append shift_events_def)

lemma contiguous_snoc:
  "contiguous xs \<Longrightarrow> tev_sequence e = Suc (length xs) \<Longrightarrow> contiguous (xs @ [e])"
  by (simp add: contiguous_def)

lemma trace_step_ok:
  assumes "contiguous (rec_events tr)" "trace_step red op (tr, w, sink) = (tr', w', sink')"
  shows "contiguous (rec_events tr')"
proof (cases "\<exists>stage ty md. op = TraceEvent stage ty md")
  case True
  with assms(2) obtain e where "rec_events tr' = rec_events tr @ [e]" "tev_sequence e = Suc (length (rec_events tr))"
    by (auto simp: record_event_def Let_def new_id_def now_def)
  with contiguous_snoc [OF assms(1)] show ?thesis by simp
next
  case False
  with assms show ?thesis
    by (cases op) (auto simp: record_provider_call_def record_policy_decision_def record_tool_execution_def)
qed

lemma trace_run_ok:
  "contiguous (rec_events tr) \<Longrightarrow> trace_run red ops (tr, w, sink) = (tr', w', sink') \<Longrightarrow>
     contiguous (rec_events tr')"
proof (induction ops arbitrary: tr w sink)
  case Nil
  then show ?case by (simp add: trace_run_def)
next
  case (Cons op ops)
  obtain tr1 w1 sink1 where s: "trace_step red op (tr, w, sink) = (tr1, w1, sink1)"
    by (metis prod_cases3)
  with Cons.prems(2) have "trace_run red ops (tr1, w1, sink1) = (tr', w', sink')"
    by (simp add: trace_run_def)
  from Cons.IH [OF trace_step_ok [OF Cons.prems(1) s] this] show ?case .
qed

section \<open>Lemmas on the metrics\<close>

lemma sum_update_values:
  fixes f :: "'v \<Rightarrow> int"
  assumes "dict_ok d"
  shows "sum_list (map (f \<circ> snd) (AList.update k v d)) =
     sum_list (map (f \<circ> snd) d) - (case map_of d k of None \<Rightarrow> 0 | Some x \<Rightarrow> f x) + f v"
  using assms
proof (induction d)
  case Nil
  then show ?case by simp
next
  case (Cons p d)
  obtain k1 v1 where p: "p = (k1, v1)" by fastforce
  show ?case
  proof (cases "k1 = k")
    case True
    with Cons.prems p have "map_of d k = None" by (simp add: map_of_eq_None_iff)
    with True p show ?thesis by simp
  next
    case False
    with Cons p show ?thesis by simp
  qed
qed

definition metric_sum :: "('v \<Rightarrow> int) \<Rightarrow> ('k, 'v) dict \<Rightarrow> int" where
  "metric_sum f d = sum_list (map (f \<circ> snd) d)"

lemma add_provider_call_sums:
  assumes "dict_ok d"
  shows "dict_ok (add_provider_call cm r d)"
    "metric_sum pum_calls (add_provider_call cm r d) = metric_sum pum_calls d + 1"
    "metric_sum pum_total_tokens (add_provider_call cm r d) = metric_sum pum_total_tokens d +
       (token_count (pcm_input_tokens (pcr_metadata r)) + token_count (pcm_output_tokens (pcr_metadata r)))"
  using assms dict_ok_update [OF assms]
  unfolding add_provider_call_def Let_def metric_sum_def
  by (auto simp: sum_update_values split: option.splits)

lemma fold_provider_calls:
  "dict_ok d \<Longrightarrow>
     metric_sum pum_calls (fold (add_provider_call cm) calls d) = metric_sum pum_calls d + int (length calls) \<and>
     metric_sum pum_total_tokens (fold (add_provider_call cm) calls d) = metric_sum pum_total_tokens d +
       sum_list (map (\<lambda>r. token_count (pcm_input_tokens (pcr_metadata r)) +
         token_count (pcm_output_tokens (pcr_metadata r))) calls)"
  by (induction calls arbitrary: d) (simp_all add: add_provider_call_sums)

lemma add_tool_execution_sums:
  assumes "dict_ok d"
  shows "dict_ok (add_tool_execution r d)"
    "metric_sum tum_invocations (add_tool_execution r d) = metric_sum tum_invocations d + 1"
  using assms dict_ok_update [OF assms]
  unfolding add_tool_execution_def Let_def metric_sum_def
  by (auto simp: sum_update_values split: option.splits)

lemma fold_tool_executions:
  "dict_ok d \<Longrightarrow>
     metric_sum tum_invocations (fold add_tool_execution tools d) =
       metric_sum tum_invocations d + int (length tools)"
  by (induction tools arbitrary: d) (simp_all add: add_tool_execution_sums)

section \<open>Properties\<close>

text \<open>
  Traces have no gap. However events, calls, decisions and tool executions are recorded in any
  order on a recorder that starts empty or from a valid trace, the exported events are numbered from
  one on without a gap; and so are those of the trace joined to an earlier one of the same run.
\<close>

theorem trace_contiguous:
  assumes "new_recorder sha256 e input_text rid initial = Inr tr"
    and "\<forall>t. initial = Some t \<longrightarrow> contiguous (rt_events t)"
    and "trace_run red ops (tr, w, sink) = (tr', w', sink')"
    and "contiguous (rt_events previous)"
  shows "contiguous (rt_events (fst (export_trace cm status tr' w'))) \<and>
     (\<forall>merged. merge_traces cm previous (fst (export_trace cm status tr' w')) = Inr merged \<longrightarrow>
        contiguous (rt_events merged) \<and>
        length (rt_events merged) = length (rt_events previous) + length (rec_events tr'))"
proof -
  have "contiguous (rec_events tr)"
    using assms(1,2) by (auto simp: new_recorder_def split: option.splits if_splits)
  from trace_run_ok [OF this assms(3)] have ok: "contiguous (rec_events tr')" .
  have ev: "rt_events (fst (export_trace cm status tr' w')) = rec_events tr'"
    by (simp add: export_trace_def Let_def new_id_def now_def)
  from contiguous_append [OF assms(4) ok] ok ev show ?thesis
    by (auto simp: merge_traces_def Let_def shift_events_def split: if_splits)
qed

text \<open>
  The metrics add up. The calls and tokens attributed to the provider models are those of the
  whole run, and so are the invocations attributed to the tools.
\<close>

theorem metrics_add_up:
  "let m = aggregate_metrics x c a v n calls tools cm in
     sum_list (map pum_calls (em_providers m)) = em_provider_calls m \<and>
     sum_list (map pum_total_tokens (em_providers m)) = em_total_tokens m \<and>
     em_total_tokens m = em_total_input_tokens m + em_total_output_tokens m \<and>
     sum_list (map tum_invocations (em_tools m)) = em_tool_invocations m"
proof -
  have "dict_ok ([] :: (string \<times> string \<times> string, provider_usage_metric) dict)"
    "dict_ok ([] :: (string \<times> string, tool_usage_metric) dict)" by simp_all
  from fold_provider_calls [OF this(1), of cm calls] fold_tool_executions [OF this(2), of tools]
  show ?thesis
    by (simp add: aggregate_metrics_def Let_def metric_sum_def sum_list_addf)
qed

definition sample_execution :: execution_context where
  "sample_execution =
     \<lparr>ec_execution_id = ''x'', ec_agent_id = ''a'', ec_agent_version = ''1'',
      ec_principal = \<lparr>pc_principal_id = ''p'', pc_tenant_id = ''t'', pc_session_id = ''s''\<rparr>,
      ec_authorized_tool_ids = [], ec_authorized_tool_versions = [],
      ec_granted_permissions = [], ec_approved_action_digests = [], ec_max_steps = 3,
      ec_state_id = ''st'', ec_environment = ''dev'', ec_max_risk_level = Risk_LOW,
      ec_correlation_id = ''x'', ec_parent_execution_id = None, ec_delegation_id = None,
      ec_delegation_depth = 0, ec_delegation_path = [], ec_event_id = None,
      ec_trigger_id = None, ec_causation_id = None, ec_attempt = 0\<rparr>"

definition no_identity :: run_identity where
  "no_identity = \<lparr>rid_manifest_id = None, rid_manifest_digest = None, rid_registry_snapshot_id = None,
     rid_prompt_ref = None, rid_skill_refs = []\<rparr>"

definition still_world :: world where
  "still_world = \<lparr>make_id = (\<lambda>p n. p), id_calls = 0, clock_at = (\<lambda>n. 0), clock_calls = 0\<rparr>"

theorem trace_contiguous_witness:
  "\<exists>tr. new_recorder (\<lambda>s. s) sample_execution ''hi'' no_identity None = Inr tr \<and>
     (case trace_run default_redactor [TraceEvent ''a'' ''b'' [], TraceEvent ''c'' ''d'' []] (tr, still_world, []) of
        (tr', w', sink') \<Rightarrow>
          contiguous (rt_events (fst (export_trace None None tr' w'))) \<and> length (rec_events tr') = 2)"
proof -
  obtain tr where tr: "new_recorder (\<lambda>s. s) sample_execution ''hi'' no_identity None = Inr tr" "rec_events tr = []"
    by (simp add: new_recorder_def)
  obtain tr' w' sink' where r: "trace_run default_redactor [TraceEvent ''a'' ''b'' [], TraceEvent ''c'' ''d'' []]
      (tr, still_world, []) = (tr', w', sink')" by (metis prod_cases3)
  then have len: "length (rec_events tr') = 2"
    using tr(2) by (auto simp: trace_run_def record_event_def Let_def new_id_def now_def)
  have "rt_events (fst (export_trace None None tr still_world)) = []"
    using tr(2) by (simp add: export_trace_def Let_def new_id_def now_def)
  then have "contiguous (rt_events (fst (export_trace None None tr still_world)))" by simp
  from trace_contiguous [OF tr(1) _ r this, of None None]
  have "contiguous (rt_events (fst (export_trace None None tr' w')))" by simp
  with tr(1) r len show ?thesis by simp
qed

end
