(* ===== verification/Runtime_Base.thy ===== *)
theory Runtime_Base
  imports Actions Permissions Approvals Context_Compiler Safety Control Normalization Tracing Tool_Execution
begin

text \<open>
  \<open>runtime/execution.py\<close>, first part: what a runtime is built from, its state, and the helpers of
  \<open>AgentRuntime\<close> that authorize a call, record traces and audit events, and finish a run.

  The provider, the permission and approval brokers, the approval policy, the state store, the memory
  and the execution guard are interfaces of the source; here they are functions on the state \<open>'w\<close> of
  the application, which the tool handlers share, so they may do anything to it. The record
  \<open>runtime\<close> holds them with the configuration, \<open>runtime_state\<close> the fields the runtime changes. One run
  is active at a time: its recorder and its list of tool calls, which the code shares with the entry
  of \<open>_active\<close>, are the fields \<open>rs_trace\<close> and \<open>rs_calls\<close>.
\<close>

section \<open>Contracts\<close>

definition tool_call_ok :: "tool_call \<Rightarrow> bool" where
  "tool_call_ok c \<longleftrightarrow>
     opt_nonempty (tc_call_id c) \<and> tc_tool_id c \<noteq> [] \<and> opt_nonempty (tc_tool_version c) \<and>
     tc_purpose c \<noteq> [] \<and> opt_nonempty (tc_idempotency_key c)"

definition action_proposal_ok :: "action_proposal \<Rightarrow> bool" where
  "action_proposal_ok a \<longleftrightarrow>
     ap_action_id a \<noteq> [] \<and> ap_execution_id a \<noteq> [] \<and> tool_call_ok (ap_tool_call a) \<and>
     ap_justification a \<noteq> []"

definition tool_call_record_ok :: "tool_call_record \<Rightarrow> bool" where
  "tool_call_record_ok r \<longleftrightarrow>
     tcr_call_id r \<noteq> [] \<and> tcr_step_id r \<noteq> [] \<and> tcr_tool_id r \<noteq> [] \<and> tcr_tool_version r \<noteq> []"

definition agent_outcome_ok :: "agent_outcome \<Rightarrow> bool" where
  "agent_outcome_ok x \<longleftrightarrow>
     ao_outcome_id x \<noteq> [] \<and> ao_execution_id x \<noteq> [] \<and> ao_agent_id x \<noteq> [] \<and> ao_agent_version x \<noteq> [] \<and>
     ao_session_id x \<noteq> [] \<and> ao_principal_id x \<noteq> [] \<and> ao_tenant_id x \<noteq> [] \<and> ao_summary x \<noteq> [] \<and>
     0 \<le> ao_confidence x \<and> ao_confidence x \<le> 1"

record checkpoint =
  ck_checkpoint_id :: string
  ck_execution :: execution_context
  ck_input_text :: string
  ck_resource :: "resource_context option"
  ck_plan :: agent_plan
  ck_resume_plan :: agent_plan
  ck_tool_calls :: "tool_call_record list"
  ck_tool_results :: "tool_result list"
  ck_highest_risk :: risk_level
  ck_approval_request :: approval_request
  ck_outcome :: agent_outcome
  ck_trace :: "run_trace option"
  ck_created_at :: time
  ck_updated_at :: time

definition checkpoint_ok :: "checkpoint \<Rightarrow> bool" where
  "checkpoint_ok c \<longleftrightarrow>
     ck_checkpoint_id c \<noteq> [] \<and> ck_input_text c \<noteq> [] \<and>
     ar_execution_id (ck_approval_request c) = ec_execution_id (ck_execution c) \<and>
     ao_execution_id (ck_outcome c) = ec_execution_id (ck_execution c) \<and>
     pc_principal_id (ec_principal (ck_execution c)) = ar_principal_id (ck_approval_request c) \<and>
     pc_tenant_id (ec_principal (ck_execution c)) = ar_tenant_id (ck_approval_request c) \<and>
     \<not> ck_updated_at c < ck_created_at c"

text \<open>Constructing a contract: it is valid, or \<open>ValidationError\<close> is raised.\<close>

definition constructed :: "('a \<Rightarrow> bool) \<Rightarrow> 'a \<Rightarrow> exc + 'a" where
  "constructed ok x = (if ok x then Inr x else Inl ValidationError)"

section \<open>Values of enums\<close>

fun outcome_status_value :: "outcome_status \<Rightarrow> string" where
  "outcome_status_value Outcome_COMPLETED = ''completed''"
| "outcome_status_value Outcome_PARTIAL = ''partial''"
| "outcome_status_value Outcome_NEEDS_INPUT = ''needs_input''"
| "outcome_status_value Outcome_REFUSED = ''refused''"
| "outcome_status_value Outcome_ESCALATED = ''escalated''"
| "outcome_status_value Outcome_FAILED = ''failed''"
| "outcome_status_value Outcome_TIMED_OUT = ''timed_out''"
| "outcome_status_value Outcome_CANCELLED = ''cancelled''"

fun approval_status_value :: "approval_decision_status \<Rightarrow> string" where
  "approval_status_value Approval_APPROVED = ''approved''"
| "approval_status_value Approval_REJECTED = ''rejected''"
| "approval_status_value Approval_REQUEST_CHANGES = ''request_changes''"
| "approval_status_value Approval_EXPIRED = ''expired''"

fun state_status :: "outcome_status \<Rightarrow> execution_state_status" where
  "state_status Outcome_COMPLETED = State_COMPLETED"
| "state_status Outcome_PARTIAL = State_PAUSED"
| "state_status Outcome_NEEDS_INPUT = State_PAUSED"
| "state_status Outcome_REFUSED = State_REFUSED"
| "state_status Outcome_ESCALATED = State_ESCALATED"
| "state_status Outcome_FAILED = State_FAILED"
| "state_status Outcome_TIMED_OUT = State_FAILED"
| "state_status Outcome_CANCELLED = State_PAUSED"

fun recovery_for_status :: "outcome_status \<Rightarrow> recovery_action" where
  "recovery_for_status Outcome_COMPLETED = Recovery_NONE"
| "recovery_for_status Outcome_PARTIAL = Recovery_REQUEST_INPUT"
| "recovery_for_status Outcome_NEEDS_INPUT = Recovery_REQUEST_INPUT"
| "recovery_for_status Outcome_REFUSED = Recovery_REFUSE"
| "recovery_for_status Outcome_ESCALATED = Recovery_ESCALATE"
| "recovery_for_status Outcome_FAILED = Recovery_ABORT"
| "recovery_for_status Outcome_TIMED_OUT = Recovery_ABORT"
| "recovery_for_status Outcome_CANCELLED = Recovery_ABORT"

definition summary_for_decision :: "outcome_proposal \<Rightarrow> safety_decision \<Rightarrow> string" where
  "summary_for_decision p d =
     (case sd_status d of
        Outcome_NEEDS_INPUT \<Rightarrow>
          ''The runtime needs more input or usable tool data before it can complete the execution.''
      | Outcome_REFUSED \<Rightarrow>
          ''The runtime refused the execution because it crossed a configured safety boundary.''
      | Outcome_ESCALATED \<Rightarrow>
          ''The runtime requires human review before it can complete this execution.''
      | Outcome_FAILED \<Rightarrow>
          ''The execution failed before it reached a safe completed outcome.''
      | Outcome_PARTIAL \<Rightarrow> op_summary p @ '' The result is partial and requires review.''
      | _ \<Rightarrow> op_summary p)"

definition approval_transition ::
  "approval_decision_status option \<Rightarrow> string option \<Rightarrow> string" where
  "approval_transition status error_code =
     (if error_code = Some ''approval_expired'' \<or> status = Some Approval_EXPIRED then ''approval_expired''
      else if error_code \<noteq> None then ''approval_stale''
      else
        (case status of
           Some Approval_REJECTED \<Rightarrow> ''approval_rejected''
         | Some Approval_REQUEST_CHANGES \<Rightarrow> ''approval_changes_requested''
         | Some Approval_EXPIRED \<Rightarrow> ''approval_expired''
         | Some Approval_APPROVED \<Rightarrow> ''approval_approved''
         | None \<Rightarrow> ''approval_stale''))"

definition higher_risk :: "risk_level \<Rightarrow> risk_level \<Rightarrow> risk_level" where
  "higher_risk left right = (if risk_order right > risk_order left then right else left)"

lemma higher_risk_max: "higher_risk a b = max a b"
  by (cases a; cases b) (simp_all add: higher_risk_def max_def less_eq_risk_level_def)

definition provider_error_code :: "exc \<Rightarrow> string" where
  "provider_error_code e = (case e of HarnessError c r \<Rightarrow> error_code_value c | _ \<Rightarrow> ''provider_failed'')"

text \<open>
  \<open>int(s)\<close> for a text: outer white space, a sign, digits with single underscores between them.
\<close>

definition digit_value :: "char \<Rightarrow> nat option" where
  "digit_value c = (let n = (of_char c :: nat) in if 48 \<le> n \<and> n \<le> 57 then Some (n - 48) else None)"

fun digits_value :: "nat \<Rightarrow> bool \<Rightarrow> string \<Rightarrow> nat option" where
  "digits_value acc after_digit [] = (if after_digit then Some acc else None)"
| "digits_value acc after_digit (c # cs) =
     (case digit_value c of
        Some d \<Rightarrow> digits_value (10 * acc + d) True cs
      | None \<Rightarrow> if c = CHR ''_'' \<and> after_digit then digits_value acc False cs else None)"

definition python_int :: "string \<Rightarrow> int option" where
  "python_int s =
     (case strip s of
        [] \<Rightarrow> None
      | c # cs \<Rightarrow>
          if c = CHR ''-'' then map_option (\<lambda>n. - int n) (digits_value 0 False cs)
          else if c = CHR ''+'' then map_option int (digits_value 0 False cs)
          else map_option int (digits_value 0 False (c # cs)))"

definition metadata_int :: "(string, string) dict \<Rightarrow> string \<Rightarrow> int \<Rightarrow> int" where
  "metadata_int md key dflt =
     (case python_int (case map_of md key of Some s \<Rightarrow> s | None \<Rightarrow> str_int dflt) of
        None \<Rightarrow> dflt | Some n \<Rightarrow> max 0 n)"

section \<open>Control of a run\<close>

text \<open>
  The control of the run and the readings it makes; \<open>rcl_signal\<close> tells whether the caller gave a
  cancellation signal.
\<close>

record run_control =
  rcl_control :: exec_control
  rcl_monitor :: monitor
  rcl_signal :: bool

text \<open>The readings of one \<open>check\<close>: the signal, and the clock unless the run is cancelled or has no deadline.\<close>

definition read_control :: "run_control \<Rightarrow> (bool \<times> time) \<times> run_control" where
  "read_control r =
     (case check_cancel (rcl_signal r) (rcl_monitor r) of
        (c, m1) \<Rightarrow>
          if c \<or> xc_deadline (rcl_control r) = None then ((c, 0), r\<lparr>rcl_monitor := m1\<rparr>)
          else (case mono_now m1 of (t, m2) \<Rightarrow> ((c, t), r\<lparr>rcl_monitor := m2\<rparr>)))"

definition rc_check :: "run_control \<Rightarrow> (exc + unit) \<times> run_control" where
  "rc_check r = (case read_control r of ((c, t), r1) \<Rightarrow> (control_check c t (rcl_control r1), r1))"

definition rc_op ::
  "(bool \<Rightarrow> time \<Rightarrow> exec_control \<Rightarrow> (exc + 'a) \<times> exec_control) \<Rightarrow> run_control \<Rightarrow> (exc + 'a) \<times> run_control" where
  "rc_op f r =
     (case read_control r of
        ((c, t), r1) \<Rightarrow> (case f c t (rcl_control r1) of (q, x) \<Rightarrow> (q, r1\<lparr>rcl_control := x\<rparr>)))"

definition rc_tool_invocation :: "run_control \<Rightarrow> (exc + unit) \<times> run_control" where
  "rc_tool_invocation = rc_op record_tool_invocation"

definition rc_admit :: "run_control \<Rightarrow> (exc + bool) \<times> run_control" where
  "rc_admit = rc_op admit_retry"

definition rc_usage :: "int \<Rightarrow> int \<Rightarrow> rat \<Rightarrow> run_control \<Rightarrow> (exc + unit) \<times> run_control" where
  "rc_usage i out cost = rc_op (\<lambda>c t. record_provider_usage c t i out cost)"

text \<open>\<open>_ControlledProviderCallPolicy\<close>: the application's policy, then the retry budget of the run.\<close>

definition controlled_policy :: "unit provider_policy \<Rightarrow> run_control provider_policy" where
  "controlled_policy p =
     \<lparr>pp_timeout = pp_timeout p, pp_max_attempts = pp_max_attempts p,
      pp_should_retry = (\<lambda>e n r.
        (case fst (pp_should_retry p e n ()) of
           Inl x \<Rightarrow> (Inl x, r)
         | Inr b \<Rightarrow> if \<not> b then (Inr False, r) else rc_admit r)),
      pp_backoff = pp_backoff p\<rparr>"

section \<open>The runtime and its state\<close>

type_synonym ('a, 'w) app_op = "'w \<Rightarrow> (exc + 'a) \<times> 'w"

record 'w approval_port =
  apt_submit :: "approval_request \<Rightarrow> (approval_decision option, 'w) app_op"
  apt_get_decision :: "string \<Rightarrow> (approval_decision option, 'w) app_op"
  apt_consume :: "(string \<Rightarrow> (unit, 'w) app_op) option"

record 'w state_port =
  sp_find :: "principal_context \<Rightarrow> string \<Rightarrow> (execution_state option, 'w) app_op"
  sp_open :: "principal_context \<Rightarrow> string \<Rightarrow> string \<Rightarrow> string option \<Rightarrow> (execution_state, 'w) app_op"
  sp_save :: "execution_state \<Rightarrow> int option \<Rightarrow> (unit, 'w) app_op"

text \<open>A provider call: how its attempts will go, and what handing over the request does.\<close>

type_synonym ('q, 'w) provider_call = "'q \<Rightarrow> 'w \<Rightarrow> raw provider_world \<times> 'w"

record 'w provider_port =
  pv_interpret :: "(interpretation_request, 'w) provider_call option"
  pv_plan :: "(planning_request, 'w) provider_call"
  pv_compose :: "(composition_request, 'w) provider_call"
  pv_policy :: "provider_operation \<Rightarrow> unit provider_policy"

text \<open>
  Renderings of the standard library, the parsers of \<open>Normalization\<close>, and \<open>model_dump\<close> and
  \<open>model_validate\<close> of a checkpoint.
\<close>

record library_env =
  le_tool :: tool_env
  le_float_repr :: "rat \<Rightarrow> string"
  le_object_str :: "nat \<Rightarrow> string"
  le_isoformat :: "time \<Rightarrow> string"
  le_three_digits :: "rat \<Rightarrow> string"
  le_norm :: norm_env
  le_encode :: "checkpoint \<Rightarrow> pyval"
  le_decode :: "pyval \<Rightarrow> checkpoint option"

record 'w runtime =
  rd_lib :: library_env
  rd_config :: runtime_config
  rd_prompt :: "prompt_definition option"
  rd_skills :: "skill_definition list"
  rd_identity :: run_identity
  rd_redactor :: redactor
  rd_cost_model :: "cost_model option"
  rd_bound :: "(string \<times> string) option"
  rd_guard :: "(string \<Rightarrow> string \<Rightarrow> (bool, 'w) app_op) option"
  rd_permission :: "'w proposal \<Rightarrow> (permission_decision, 'w) app_op"
  rd_broker :: "'w approval_port option"
  rd_approval_policy :: "(principal_context \<Rightarrow> execution_context \<Rightarrow> 'w tool_definition \<Rightarrow> action_proposal \<Rightarrow>
    (approval_policy_decision, 'w) app_op) option"
  rd_store :: "'w state_port"
  rd_memory :: "(principal_context \<Rightarrow> (memory_item list, 'w) app_op) option"
  rd_provider :: "'w provider_port"

text \<open>
  The checks of the constructor: an identity is bound with its version, and the prompt and the skills
  are those of the references.
\<close>

definition mk_runtime :: "string option \<Rightarrow> string option \<Rightarrow> 'w runtime \<Rightarrow> exc + 'w runtime" where
  "mk_runtime bound_id bound_version d =
     (let rid = rd_identity d in
      if (bound_id = None) \<noteq> (bound_version = None) then Inl ValueError
      else if (case (rd_prompt d, rid_prompt_ref rid) of
                 (Some p, Some r) \<Rightarrow> (pmt_prompt_id p, pmt_version p) \<noteq> (cr_component_id r, cr_version r)
               | _ \<Rightarrow> False) then Inl ValueError
      else if rid_skill_refs rid \<noteq> [] \<and>
              map (\<lambda>k. (sk_skill_id k, sk_version k)) (rd_skills d) \<noteq>
              map (\<lambda>r. (cr_component_id r, cr_version r)) (rid_skill_refs rid) then Inl ValueError
      else Inr (d\<lparr>rd_bound := (case (bound_id, bound_version) of
                     (Some i, Some v) \<Rightarrow> Some (i, v) | _ \<Rightarrow> None)\<rparr>))"

record pending_approval =
  pa_principal :: principal_context
  pa_execution :: execution_context
  pa_input_text :: string
  pa_resource :: "resource_context option"
  pa_plan :: agent_plan
  pa_resume_plan :: agent_plan
  pa_tool_calls :: "tool_call_record list"
  pa_tool_results :: "tool_result list"
  pa_highest_risk :: risk_level
  pa_request :: approval_request
  pa_outcome :: agent_outcome
  pa_trace :: trace_recorder
  pa_trace_prefix :: "run_trace option"
  pa_prefix_event_count :: nat

record 'w active_run =
  ax_principal :: principal_context
  ax_execution :: execution_context
  ax_state :: execution_state
  ax_step :: "plan_step option"
  ax_tool :: "'w tool_definition option"

record 'w runtime_state =
  rs_tools :: "('w, run_control) tool_state"
  rs_world :: world
  rs_audit :: "audit_event list"
  rs_sink :: "trace_event list"
  rs_traces :: "(string, run_trace) dict"
  rs_active :: "'w active_run option"
  rs_trace :: trace_recorder
  rs_calls :: "tool_call_record list"
  rs_pending :: "(string, pending_approval) dict"
  rs_consumed :: "string list"

type_synonym ('a, 'w) rt = "('a, 'w runtime_state) act"

section \<open>Basic actions\<close>

definition app_do :: "('a, 'w) app_op \<Rightarrow> ('a, 'w) rt" where
  "app_do f = lift_op (\<lambda>s. case f (xs_app (rs_tools s)) of
     (r, w) \<Rightarrow> (r, s\<lparr>rs_tools := (rs_tools s)\<lparr>xs_app := w\<rparr>\<rparr>))"

definition control_do :: "(run_control \<Rightarrow> (exc + 'a) \<times> run_control) \<Rightarrow> ('a, 'w) rt" where
  "control_do f = lift_op (\<lambda>s. case f (xs_caller (rs_tools s)) of
     (r, c) \<Rightarrow> (r, s\<lparr>rs_tools := (rs_tools s)\<lparr>xs_caller := c\<rparr>\<rparr>))"

definition fresh_id :: "string \<Rightarrow> (string, 'w) rt" where
  "fresh_id p = lift_op (\<lambda>s. case new_id p (rs_world s) of (i, w) \<Rightarrow> (Inr i, s\<lparr>rs_world := w\<rparr>))"

definition read_clock :: "(time, 'w) rt" where
  "read_clock = lift_op (\<lambda>s. case now (rs_world s) of (t, w) \<Rightarrow> (Inr t, s\<lparr>rs_world := w\<rparr>))"

definition get_control :: "(exec_control, 'w) rt" where
  "get_control = read_state (\<lambda>s. rcl_control (xs_caller (rs_tools s)))"

text \<open>\<open>trace.record\<close> on the recorder of the active run.\<close>

definition event_state ::
  "'w runtime \<Rightarrow> string \<Rightarrow> string \<Rightarrow> (string, string) dict \<Rightarrow> 'w runtime_state \<Rightarrow> 'w runtime_state" where
  "event_state d stage event_type md s =
     (case record_event (rd_redactor d) stage event_type md (rs_trace s, rs_world s, rs_sink s) of
       (tr, w, sink) \<Rightarrow> s\<lparr>rs_trace := tr, rs_world := w, rs_sink := sink\<rparr>)"

definition tr_event :: "'w runtime \<Rightarrow> string \<Rightarrow> string \<Rightarrow> (string, string) dict \<Rightarrow> (unit, 'w) rt" where
  "tr_event d stage event_type md = change_state (event_state d stage event_type md)"

definition tr_update :: "(trace_recorder \<Rightarrow> trace_recorder) \<Rightarrow> (unit, 'w) rt" where
  "tr_update f = change_state (\<lambda>s. s\<lparr>rs_trace := f (rs_trace s)\<rparr>)"

definition add_call :: "tool_call_record \<Rightarrow> (unit, 'w) rt" where
  "add_call r =
     bind_act (lift_result (constructed tool_call_record_ok r)) (\<lambda>c.
       change_state (\<lambda>s. s\<lparr>rs_calls := rs_calls s @ [c]\<rparr>))"

text \<open>\<open>_audit\<close>\<close>

definition run_audit ::
  "'w runtime \<Rightarrow> string \<Rightarrow> principal_context \<Rightarrow> execution_context \<Rightarrow> outcome_status option \<Rightarrow>
   safety_flag list \<Rightarrow> string list \<Rightarrow> (string, string) dict \<Rightarrow> (unit, 'w) rt" where
  "run_audit d event_type who x status flags tool_ids md = change_state (\<lambda>s.
     let rid = rd_identity d;
         e = (audit_args event_type who (ec_execution_id x) (ec_agent_id x) (ec_correlation_id x))
           \<lparr>ae_manifest_id := rid_manifest_id rid, ae_manifest_digest := rid_manifest_digest rid,
            ae_registry_snapshot_id := rid_registry_snapshot_id rid,
            ae_prompt_ref := rid_prompt_ref rid, ae_skill_refs := rid_skill_refs rid,
            ae_parent_execution_id := ec_parent_execution_id x, ae_delegation_id := ec_delegation_id x,
            ae_delegation_depth := ec_delegation_depth x, ae_source_event_id := ec_event_id x,
            ae_trigger_id := ec_trigger_id x, ae_causation_id := ec_causation_id x,
            ae_attempt := ec_attempt x, ae_outcome_status := status, ae_safety_flags := flags,
            ae_tool_ids := tool_ids, ae_metadata := md\<rparr>
     in case audit_record (rd_redactor d) e (rs_world s, rs_audit s) of
          (w, sink) \<Rightarrow> s\<lparr>rs_world := w, rs_audit := sink\<rparr>)"

definition str_bool :: "bool \<Rightarrow> string" where
  "str_bool b = (if b then ''true'' else ''false'')"

text \<open>\<open>digest_mapping\<close>\<close>

definition digest_mapping :: "'w runtime \<Rightarrow> (string, pyval) dict \<Rightarrow> string" where
  "digest_mapping d m = tv_sha256 (le_tool (rd_lib d)) (tv_dumps (le_tool (rd_lib d)) (PDict m))"

definition step_digest :: "'w runtime \<Rightarrow> 'w tool_definition \<Rightarrow> (string, pyval) dict \<Rightarrow> string" where
  "step_digest d tool arguments =
     action_digest (tv_sha256 (le_tool (rd_lib d))) (tv_dumps (le_tool (rd_lib d))) tool arguments"

definition approval_metadata ::
  "'w runtime \<Rightarrow> approval_request \<Rightarrow> approval_decision option \<Rightarrow> (string, string) dict" where
  "approval_metadata d r dec =
     [(''request_id'', ar_request_id r), (''action_digest'', ar_action_digest r),
      (''tool_id'', tc_tool_id (ap_tool_call (ar_action r)))] @
     (case ar_expires_at r of None \<Rightarrow> [] | Some t \<Rightarrow> [(''expires_at'', le_isoformat (rd_lib d) t)]) @
     (case dec of
        None \<Rightarrow> []
      | Some x \<Rightarrow> [(''approval_id'', ad_approval_id x),
                  (''decision'', approval_status_value (ad_decision x)),
                  (''decided_by'', ad_decided_by x)])"

end
