(* ===== verification/Runtime_Authority.thy ===== *)
theory Runtime_Authority
  imports Runtime_Base
begin

text \<open>
  The governance of one tool call in \<open>runtime/execution.py\<close>: \<open>_authorize\<close> asks the permission broker
  and enforces the authority ceiling of the execution whatever the broker says; \<open>_action_proposal\<close>,
  \<open>_approval_policy_decision\<close> and \<open>_approval_request\<close> put the action to the approval broker;
  \<open>_validate_approval_decision\<close> checks what comes back. The answers of the application's ports are
  those of \<open>model_validate\<close>: a port returns a contract, or raises.
\<close>

section \<open>Permission\<close>

definition runtime_policy_decision ::
  "principal_context \<Rightarrow> execution_context \<Rightarrow> 'w tool_definition \<Rightarrow> bool \<Rightarrow> string \<Rightarrow> bool \<Rightarrow>
   resource_context option \<Rightarrow> (policy_decision, 'w) rt" where
  "runtime_policy_decision who x tool allowed reason approval res =
     bind_act (fresh_id ''policy_decision'') (\<lambda>i.
       lift_result (constructed policy_decision_ok
         \<lparr>pd_decision_id = i, pd_allowed = allowed, pd_principal_id = pc_principal_id who,
          pd_tenant_id = pc_tenant_id who, pd_agent_id = ec_agent_id x, pd_tool_id = td_tool_id tool,
          pd_environment = ec_environment x, pd_risk_level = td_risk_level tool,
          pd_reason_code = reason, pd_policy_id = None, pd_policy_version = None, pd_rule_id = None,
          pd_matched_rule_ids = [], pd_approval_required = approval,
          pd_resource_type = map_option rc_resource_type res,
          pd_resource_id = Option.bind res rc_resource_id, pd_metadata = []\<rparr>))"

definition deny_permission ::
  "permission_decision \<Rightarrow> principal_context \<Rightarrow> execution_context \<Rightarrow> 'w tool_definition \<Rightarrow> string \<Rightarrow> bool \<Rightarrow>
   (permission_decision, 'w) rt" where
  "deny_permission p who x tool reason approval =
     bind_act
       (case pm_policy_decision p of
          None \<Rightarrow> runtime_policy_decision who x tool False reason approval None
        | Some pd \<Rightarrow> ret (pd\<lparr>pd_allowed := False, pd_reason_code := reason,
                            pd_approval_required := approval\<rparr>))
       (\<lambda>pd. ret (p\<lparr>pm_allowed := False, pm_reason_code := reason, pm_approval_required := approval,
                     pm_agent_id := Some (ec_agent_id x), pm_environment := Some (ec_environment x),
                     pm_risk_level := Some (td_risk_level tool), pm_policy_decision := Some pd\<rparr>))"

text \<open>The checks of \<open>_authorize\<close> against the execution, after the broker allowed the call.\<close>

definition ceiling_denial :: "execution_context \<Rightarrow> 'w tool_definition \<Rightarrow> string option" where
  "ceiling_denial x tool =
     (if td_tool_id tool \<notin> set (ec_authorized_tool_ids x) then Some ''tool_not_authorized''
      else if \<not> list_all (\<lambda>p. p \<in> set (ec_granted_permissions x)) (td_required_permissions tool)
      then Some ''required_permission_missing''
      else if td_allowed_environments tool \<noteq> [] \<and> ec_environment x \<notin> set (td_allowed_environments tool)
      then Some ''tool_not_allowed_in_environment''
      else if risk_exceeds (td_risk_level tool) (ec_max_risk_level x)
      then Some ''risk_exceeds_execution_limit''
      else None)"

definition needs_approval :: "permission_decision \<Rightarrow> 'w tool_definition \<Rightarrow> bool" where
  "needs_approval p tool \<longleftrightarrow>
     pm_approval_required p \<or> td_requires_approval tool \<or>
     (case pm_policy_decision p of None \<Rightarrow> False | Some pd \<Rightarrow> pd_approval_required pd)"

definition approved_exactly ::
  "'w runtime \<Rightarrow> execution_context \<Rightarrow> 'w tool_definition \<Rightarrow> (string, pyval) dict \<Rightarrow> bool" where
  "approved_exactly d x tool arguments \<longleftrightarrow>
     step_digest d tool arguments \<in> set (ec_approved_action_digests x)"

definition enforce_ceiling ::
  "'w runtime \<Rightarrow> permission_decision \<Rightarrow> principal_context \<Rightarrow> execution_context \<Rightarrow> 'w tool_definition \<Rightarrow>
   (string, pyval) dict \<Rightarrow> (permission_decision, 'w) rt" where
  "enforce_ceiling d p who x tool arguments =
     (if \<not> pm_allowed p then ret p
      else
        (case ceiling_denial x tool of
           Some reason \<Rightarrow> deny_permission p who x tool reason False
         | None \<Rightarrow>
             if needs_approval p tool then
               (if \<not> approved_exactly d x tool arguments
                then deny_permission p who x tool ''approval_required'' True
                else ret (p\<lparr>pm_reason_code := ''allowed_by_exact_approval'',
                            pm_approval_required := False\<rparr>))
             else ret (p\<lparr>pm_agent_id := Some (ec_agent_id x), pm_environment := Some (ec_environment x),
                         pm_risk_level := Some (td_risk_level tool)\<rparr>)))"

definition permission_for :: "permission_decision \<Rightarrow> principal_context \<Rightarrow> 'w tool_definition \<Rightarrow> bool" where
  "permission_for p who tool \<longleftrightarrow>
     pm_principal_id p = pc_principal_id who \<and> pm_tenant_id p = pc_tenant_id who \<and>
     pm_tool_id p = td_tool_id tool"

definition authorize_step ::
  "'w runtime \<Rightarrow> principal_context \<Rightarrow> execution_context \<Rightarrow> 'w tool_definition \<Rightarrow> (string, pyval) dict \<Rightarrow>
   resource_context option \<Rightarrow> (permission_decision, 'w) rt" where
  "authorize_step d who x tool arguments res =
     bind_act (app_do (rd_permission d
         \<lparr>pr_principal = who, pr_execution = x, pr_tool = tool, pr_arguments = arguments,
          pr_resource = res\<rparr>)) (\<lambda>p.
       if \<not> permission_for p who tool
       then deny_permission p who x tool ''invalid_permission_decision'' False
       else
         (case pm_policy_decision p of
            None \<Rightarrow>
              bind_act (runtime_policy_decision who x tool (pm_allowed p) (pm_reason_code p)
                          (pm_approval_required p) res) (\<lambda>pd.
                enforce_ceiling d (p\<lparr>pm_policy_decision := Some pd\<rparr>) who x tool arguments)
          | Some pd \<Rightarrow>
              if \<not> pd_allowed pd
              then ret (p\<lparr>pm_allowed := False, pm_reason_code := pd_reason_code pd,
                          pm_approval_required := False\<rparr>)
              else enforce_ceiling d p who x tool arguments))"

section \<open>Approval\<close>

definition make_action_proposal ::
  "execution_context \<Rightarrow> 'w tool_definition \<Rightarrow> plan_step \<Rightarrow> string option \<Rightarrow> exc + action_proposal" where
  "make_action_proposal x tool step call_id =
     constructed action_proposal_ok
       \<lparr>ap_action_id = ps_step_id step, ap_execution_id = ec_execution_id x,
        ap_tool_call = \<lparr>tc_call_id = call_id, tc_tool_id = td_tool_id tool,
                        tc_tool_version = Some (td_version tool), tc_arguments = ps_arguments step,
                        tc_purpose = ps_purpose step,
                        tc_idempotency_key = ps_idempotency_key step\<rparr>,
        ap_risk_level = td_risk_level tool, ap_requires_approval = True,
        ap_justification = ps_purpose step\<rparr>"

definition ask_approval_policy ::
  "'w runtime \<Rightarrow> principal_context \<Rightarrow> execution_context \<Rightarrow> 'w tool_definition \<Rightarrow> action_proposal \<Rightarrow>
   (approval_policy_decision option, 'w) rt" where
  "ask_approval_policy d who x tool action =
     (case rd_approval_policy d of
        None \<Rightarrow> ret None
      | Some f \<Rightarrow> bind_act (app_do (f who x tool action)) (\<lambda>r. ret (Some r)))"

definition request_expiry :: "'w runtime \<Rightarrow> approval_policy_decision option \<Rightarrow> duration option" where
  "request_expiry d pol =
     (case Option.bind pol apd_expiry of Some e \<Rightarrow> Some e | None \<Rightarrow> cfg_approval_expiry (rd_config d))"

definition make_approval_request ::
  "'w runtime \<Rightarrow> execution_context \<Rightarrow> action_proposal \<Rightarrow> string \<Rightarrow> compiled_context \<Rightarrow> string \<Rightarrow>
   approval_policy_decision option \<Rightarrow> (approval_request, 'w) rt" where
  "make_approval_request d x action digest ctx reason pol =
     bind_act read_clock (\<lambda>created.
       bind_act (fresh_id ''approval_request'') (\<lambda>i.
         lift_result (constructed approval_request_ok
           \<lparr>ar_request_id = i, ar_execution_id = ec_execution_id x, ar_agent_id = ec_agent_id x,
            ar_agent_version = ec_agent_version x,
            ar_principal_id = pc_principal_id (ec_principal x),
            ar_tenant_id = pc_tenant_id (ec_principal x), ar_action = action,
            ar_action_digest = digest, ar_reason = reason, ar_context = Some ctx,
            ar_approval_policy_id = Option.bind pol apd_policy_id,
            ar_approval_policy_version = Option.bind pol apd_policy_version,
            ar_approval_rule_ids = (case pol of None \<Rightarrow> [] | Some p \<Rightarrow> apd_matched_rule_ids p),
            ar_expires_at = map_option (\<lambda>e. created + e) (request_expiry d pol),
            ar_created_at = created\<rparr>)))"

text \<open>\<open>_validate_approval_decision\<close> reads the clock only for an approval of the exact request.\<close>

definition check_approval ::
  "approval_request \<Rightarrow> approval_decision \<Rightarrow> (approval_decision_status option \<times> string option, 'w) rt" where
  "check_approval r dec =
     (if ad_request_id dec \<noteq> ar_request_id r \<or> ad_action_digest dec \<noteq> ar_action_digest r \<or>
         ad_decision dec \<noteq> Approval_APPROVED
      then ret (validate_approval 0 r dec)
      else bind_act read_clock (\<lambda>t. ret (validate_approval t r dec)))"

text \<open>What the governance of a step found out.\<close>

record verdict =
  vd_permission :: permission_decision
  vd_execution :: execution_context
  vd_request :: "approval_request option"
  vd_decision :: "approval_decision option"
  vd_status :: "approval_decision_status option"
  vd_error :: "string option"
  vd_call_id :: "string option"

definition plain_verdict :: "permission_decision \<Rightarrow> execution_context \<Rightarrow> verdict" where
  "plain_verdict p x =
     \<lparr>vd_permission = p, vd_execution = x, vd_request = None, vd_decision = None, vd_status = None,
      vd_error = None, vd_call_id = None\<rparr>"

definition approve_digest :: "string \<Rightarrow> execution_context \<Rightarrow> execution_context" where
  "approve_digest g x =
     x\<lparr>ec_approved_action_digests :=
         rev (remdups (rev (ec_approved_action_digests x @ [g])))\<rparr>"

text \<open>The decision of the broker on the request: an approval is recorded and the call authorized again.\<close>

definition apply_decision ::
  "'w runtime \<Rightarrow> principal_context \<Rightarrow> execution_context \<Rightarrow> 'w tool_definition \<Rightarrow> plan_step \<Rightarrow>
   resource_context option \<Rightarrow> verdict \<Rightarrow> approval_request \<Rightarrow> approval_decision \<Rightarrow> (verdict, 'w) rt" where
  "apply_decision d who x tool step res v r dec =
     bind_act (check_approval r dec) (\<lambda>(status, error).
       let v1 = v\<lparr>vd_decision := Some dec, vd_status := status, vd_error := error\<rparr>
       in if error = None \<and> status = Some Approval_APPROVED then
            and_then (tr_event d ''approval'' ''approval_approved'' (approval_metadata d r (Some dec)))
              (and_then (run_audit d ''approval_approved'' who x None [] [td_tool_id tool]
                           (approval_metadata d r (Some dec)))
                (let x1 = approve_digest (ar_action_digest r) x
                 in bind_act (authorize_step d who x1 tool (ps_arguments step) res) (\<lambda>p.
                      ret (v1\<lparr>vd_permission := p, vd_execution := x1,
                              vd_status := (if pm_allowed p then status else None)\<rparr>))))
          else ret v1)"

definition request_approval ::
  "'w runtime \<Rightarrow> 'w approval_port \<Rightarrow> principal_context \<Rightarrow> execution_context \<Rightarrow> 'w tool_definition \<Rightarrow>
   plan_step \<Rightarrow> resource_context option \<Rightarrow> compiled_context \<Rightarrow> permission_decision \<Rightarrow>
   approval_policy_decision option \<Rightarrow> (verdict, 'w) rt" where
  "request_approval d broker who x tool step res ctx p pol =
     bind_act (fresh_id ''call'') (\<lambda>call_id.
       bind_act (lift_result (make_action_proposal x tool step (Some call_id))) (\<lambda>action.
         bind_act (make_approval_request d x action (step_digest d tool (ps_arguments step)) ctx
                     (pm_reason_code p) pol) (\<lambda>r.
           and_then (tr_event d ''approval'' ''approval_requested'' (approval_metadata d r None))
             (and_then (run_audit d ''approval_requested'' who x None [] [td_tool_id tool]
                          (approval_metadata d r None))
               (bind_act (app_do (apt_submit broker r)) (\<lambda>answer.
                  let v = (plain_verdict p x)\<lparr>vd_request := Some r, vd_call_id := Some call_id\<rparr>
                  in case answer of
                       None \<Rightarrow> ret v
                     | Some dec \<Rightarrow> apply_decision d who x tool step res v r dec))))))"

definition policy_metadata :: "approval_policy_decision \<Rightarrow> (string, string) dict" where
  "policy_metadata r =
     [(''required'', str_bool (apd_required r)), (''reason_code'', apd_reason_code r),
      (''policy_id'', or_else (apd_policy_id r) ''none'')]"

definition record_approval_policy ::
  "'w runtime \<Rightarrow> principal_context \<Rightarrow> execution_context \<Rightarrow> 'w tool_definition \<Rightarrow>
   approval_policy_decision option \<Rightarrow> (unit, 'w) rt" where
  "record_approval_policy d who x tool pol =
     (case pol of
        None \<Rightarrow> ret ()
      | Some r \<Rightarrow>
          and_then (tr_event d ''approval'' ''approval_policy_decision''
              (policy_metadata r @ [(''matched_rule_count'', str_nat (length (apd_matched_rule_ids r)))]))
            (run_audit d ''approval_policy_decision'' who x None [] [td_tool_id tool] (policy_metadata r)))"

text \<open>The governance of a step, up to the decision whether it runs.\<close>

definition judge_step ::
  "'w runtime \<Rightarrow> principal_context \<Rightarrow> execution_context \<Rightarrow> 'w tool_definition \<Rightarrow> plan_step \<Rightarrow>
   resource_context option \<Rightarrow> compiled_context \<Rightarrow> (verdict, 'w) rt" where
  "judge_step d who x tool step res ctx =
     bind_act (authorize_step d who x tool (ps_arguments step) res) (\<lambda>p0.
       bind_act (lift_result (make_action_proposal x tool step None)) (\<lambda>action.
         bind_act (ask_approval_policy d who x tool action) (\<lambda>pol.
           and_then (record_approval_policy d who x tool pol)
             (bind_act
               (if pm_allowed p0 \<and> (case pol of None \<Rightarrow> False | Some r \<Rightarrow> apd_required r) \<and>
                   \<not> approved_exactly d x tool (ps_arguments step)
                then deny_permission p0 who x tool ''approval_required'' True
                else ret p0) (\<lambda>p.
                  case rd_broker d of
                    None \<Rightarrow> ret (plain_verdict p x)
                  | Some broker \<Rightarrow>
                      if \<not> pm_allowed p \<and> pm_approval_required p
                      then request_approval d broker who x tool step res ctx p pol
                      else ret (plain_verdict p x))))))"

end
