(* ===== verification/Runtime_Outcome.thy ===== *)
theory Runtime_Outcome
  imports Runtime_Authority
begin

text \<open>
  How a run ends in \<open>runtime/execution.py\<close>: \<open>_decision_outcome\<close>, \<open>_finish\<close>, \<open>_provider_failure\<close> and
  \<open>_control_failure\<close>; and the continuation of a paused run: \<open>_remember_pending_approval\<close>,
  \<open>_persist_pending_checkpoint\<close> and \<open>_restore_pending_approval\<close>.
\<close>

section \<open>Outcomes\<close>

definition blank_outcome ::
  "string \<Rightarrow> time \<Rightarrow> execution_context \<Rightarrow> outcome_status \<Rightarrow> string \<Rightarrow> agent_outcome" where
  "blank_outcome i t x status summary =
     \<lparr>ao_outcome_id = i, ao_execution_id = ec_execution_id x, ao_agent_id = ec_agent_id x,
      ao_agent_version = ec_agent_version x, ao_session_id = pc_session_id (ec_principal x),
      ao_principal_id = pc_principal_id (ec_principal x),
      ao_tenant_id = pc_tenant_id (ec_principal x), ao_status = status, ao_summary = summary,
      ao_evidence_ids = [], ao_safety_flags = [], ao_tool_calls = [], ao_verification = None,
      ao_recovery = Recovery_NONE, ao_human_review_required = False, ao_confidence = 0,
      ao_error_code = None, ao_trace_id = None, ao_created_at = t\<rparr>"

text \<open>\<open>_decision_outcome\<close>; \<open>upd\<close> sets the optional arguments of the call.\<close>

definition decision_outcome ::
  "execution_context \<Rightarrow> outcome_status \<Rightarrow> string \<Rightarrow> (agent_outcome \<Rightarrow> agent_outcome) \<Rightarrow>
   (agent_outcome, 'w) rt" where
  "decision_outcome x status summary upd =
     bind_act (fresh_id ''outcome'') (\<lambda>i.
       bind_act read_clock (\<lambda>t.
         lift_result (constructed agent_outcome_ok (upd (blank_outcome i t x status summary)))))"

definition finished_state ::
  "execution_context \<Rightarrow> execution_state \<Rightarrow> agent_outcome \<Rightarrow> time \<Rightarrow> execution_state" where
  "finished_state x st o1 t =
     st\<lparr>es_execution_id := ec_execution_id x, es_status := state_status (ao_status o1),
        es_version := es_version st + 1,
        es_data := [(''last_outcome_id'', PStr (ao_outcome_id o1)),
                    (''last_status'', PStr (outcome_status_value (ao_status o1))),
                    (''last_tool_ids'', PStr (join_with '','' (map tcr_tool_id (ao_tool_calls o1))))],
        es_updated_at := t\<rparr>"

definition conflicted :: "agent_outcome \<Rightarrow> agent_outcome" where
  "conflicted o1 =
     o1\<lparr>ao_status := Outcome_FAILED,
        ao_summary := ''The runtime could not commit workflow state safely.'',
        ao_error_code := Some ''state_conflict'', ao_recovery := Recovery_ABORT\<rparr>"

definition save_outcome ::
  "'w runtime \<Rightarrow> execution_context \<Rightarrow> execution_state \<Rightarrow> agent_outcome \<Rightarrow> (agent_outcome, 'w) rt" where
  "save_outcome d x st o1 =
     bind_act read_clock (\<lambda>t.
       let n = finished_state x st o1 t
       in catch_if (\<lambda>e. e = StateConflictError)
            (and_then (app_do (sp_save (rd_store d) n (Some (es_version st))))
              (and_then (tr_event d ''state'' ''state_transitioned''
                   [(''status'', execution_state_status_value (es_status n)),
                    (''version'', str_int (es_version n))])
                (ret o1)))
            (\<lambda>e. and_then (tr_event d ''state'' ''state_transition_failed''
                   [(''reason_code'', ''state_conflict'')])
                (ret (conflicted o1))))"

definition injection_flagged :: "agent_outcome \<Rightarrow> bool" where
  "injection_flagged o1 \<longleftrightarrow>
     list_ex (\<lambda>f. f = Flag_DIRECT_PROMPT_INJECTION \<or> f = Flag_INDIRECT_PROMPT_INJECTION)
       (ao_safety_flags o1)"

definition export_run :: "'w runtime \<Rightarrow> outcome_status option \<Rightarrow> (run_trace, 'w) rt" where
  "export_run d status = lift_op (\<lambda>s.
     case export_trace (rd_cost_model d) status (rs_trace s) (rs_world s) of
       (t, w) \<Rightarrow> (Inr t, s\<lparr>rs_world := w\<rparr>))"

definition store_trace :: "string \<Rightarrow> run_trace \<Rightarrow> (unit, 'w) rt" where
  "store_trace i t = change_state (\<lambda>s. s\<lparr>rs_traces := AList.update i t (rs_traces s)\<rparr>)"

definition delegation_end :: "'w runtime \<Rightarrow> execution_context \<Rightarrow> outcome_status \<Rightarrow> (unit, 'w) rt" where
  "delegation_end d x status =
     when_do (ec_parent_execution_id x \<noteq> None)
       (tr_event d ''delegation'' ''delegation_completed''
         ((''status'', outcome_status_value status) #
          (case ec_delegation_id x of None \<Rightarrow> [] | Some i \<Rightarrow> [(''delegation_id'', i)])))"

definition finish ::
  "'w runtime \<Rightarrow> principal_context \<Rightarrow> execution_context \<Rightarrow> execution_state \<Rightarrow> agent_outcome \<Rightarrow> bool \<Rightarrow>
   (agent_outcome, 'w) rt" where
  "finish d who x st o0 save =
     bind_act (if save then save_outcome d x st o0 else ret o0) (\<lambda>o1.
       let status = [(''status'', outcome_status_value (ao_status o1))]
       in and_then (delegation_end d x (ao_status o1))
         (and_then (tr_event d ''runtime'' ''execution_terminal'' status)
           (and_then (tr_event d ''outcome'' ''outcome_decided'' status)
             (bind_act (export_run d (Some (ao_status o1))) (\<lambda>t.
                let o2 = o1\<lparr>ao_trace_id := Some (rt_trace_id t)\<rparr>
                in and_then (store_trace (ec_execution_id x) t)
                  (and_then (when_do (injection_flagged o2)
                       (run_audit d ''prompt_injection_flagged'' who x None (ao_safety_flags o2) [] status))
                    (and_then (run_audit d ''outcome_issued'' who x (Some (ao_status o2)) (ao_safety_flags o2)
                         (map tcr_tool_id (ao_tool_calls o2)) [(''trace_id'', rt_trace_id t)])
                      (ret o2))))))))"

section \<open>Failures\<close>

text \<open>\<open>isinstance\<close> with the three control errors, and with the two provider errors.\<close>

fun is_control_error :: "exc \<Rightarrow> bool" where
  "is_control_error (HarnessError c r) =
     (c = EXECUTION_TIMEOUT \<or> c = EXECUTION_CANCELLED \<or> c = BUDGET_EXHAUSTED)"
| "is_control_error _ = False"

fun has_code :: "error_code \<Rightarrow> exc \<Rightarrow> bool" where
  "has_code c (HarnessError c' r) = (c = c')"
| "has_code c _ = False"

definition provider_failure_flags :: "exec_control \<Rightarrow> exc \<Rightarrow> safety_flag list" where
  "provider_failure_flags c e =
     Flag_PROVIDER_FAILURE #
     (if xc_retry_budget_exhausted c then [Flag_RETRY_BUDGET_EXHAUSTED] else []) @
     (if has_code PROVIDER_TIMEOUT e then [Flag_PROVIDER_TIMEOUT] else []) @
     (if has_code PROVIDER_OUTPUT_INVALID e then [Flag_PROVIDER_OUTPUT_INVALID] else [])"

definition provider_failure_status :: "exc \<Rightarrow> outcome_status" where
  "provider_failure_status e =
     (if has_code PROVIDER_TIMEOUT e then Outcome_TIMED_OUT else Outcome_FAILED)"

definition provider_failure ::
  "'w runtime \<Rightarrow> principal_context \<Rightarrow> execution_context \<Rightarrow> execution_state \<Rightarrow> provider_operation \<Rightarrow>
   tool_call_record list \<Rightarrow> exc \<Rightarrow> (agent_outcome, 'w) rt" where
  "provider_failure d who x st op calls e =
     (if is_control_error e then fail e
      else
        bind_act get_control (\<lambda>c.
          let flags = provider_failure_flags c e;
              md = [(''operation'', provider_operation_value op), (''error_code'', provider_error_code e)]
          in and_then (tr_event d (provider_operation_value op) ''provider_call_failed'' md)
            (and_then (run_audit d ''provider_call_failed'' who x (Some (provider_failure_status e)) flags [] md)
              (bind_act (decision_outcome x (provider_failure_status e)
                  ''The provider could not return a valid proposal.''
                  (\<lambda>o1. o1\<lparr>ao_safety_flags := flags, ao_tool_calls := calls,
                          ao_recovery := Recovery_ABORT,
                          ao_error_code := Some (provider_error_code e)\<rparr>))
                (\<lambda>o1. finish d who x st o1 True)))))"

definition control_status :: "exc \<Rightarrow> outcome_status" where
  "control_status e =
     (if has_code BUDGET_EXHAUSTED e then Outcome_FAILED
      else if has_code EXECUTION_TIMEOUT e then Outcome_TIMED_OUT else Outcome_CANCELLED)"

definition control_flag :: "exc \<Rightarrow> safety_flag" where
  "control_flag e =
     (if has_code BUDGET_EXHAUSTED e then Flag_BUDGET_EXHAUSTED
      else if has_code EXECUTION_TIMEOUT e then Flag_EXECUTION_TIMEOUT else Flag_EXECUTION_CANCELLED)"

definition control_event :: "exc \<Rightarrow> string" where
  "control_event e =
     (if has_code BUDGET_EXHAUSTED e then ''budget_exhausted''
      else if has_code EXECUTION_TIMEOUT e then ''execution_timed_out'' else ''execution_cancelled'')"

definition control_summary :: "exc \<Rightarrow> string" where
  "control_summary e =
     (case control_status e of
        Outcome_TIMED_OUT \<Rightarrow> ''The execution exceeded its configured time limit.''
      | Outcome_FAILED \<Rightarrow> ''The execution exceeded a configured execution budget.''
      | _ \<Rightarrow> ''The execution was cancelled by its caller.'')"

definition execution_record ::
  "execution_context \<Rightarrow> 'w tool_definition \<Rightarrow> tool_result_status \<Rightarrow> tool_execution_record" where
  "execution_record x tool status =
     \<lparr>ter_execution_id = ec_execution_id x, ter_tool_id = td_tool_id tool,
      ter_tool_version = td_version tool, ter_status = status, ter_attempts = 1, ter_retry_count = 0,
      ter_timeout = None, ter_key_digest = None, ter_error_code = None\<rparr>"

definition trace_execution :: "tool_execution_record \<Rightarrow> (unit, 'w) rt" where
  "trace_execution r =
     bind_act (lift_result (constructed tool_execution_record_ok r)) (\<lambda>r1.
       tr_update (record_tool_execution r1))"

text \<open>The \<open>ToolCallRecord\<close> of a step, with the defaults of the optional fields.\<close>

definition call_record ::
  "string \<Rightarrow> 'w tool_definition \<Rightarrow> plan_step \<Rightarrow> tool_result_status \<Rightarrow> string option \<Rightarrow> tool_call_record" where
  "call_record i tool step status reason =
     \<lparr>tcr_call_id = i, tcr_step_id = ps_step_id step, tcr_tool_id = td_tool_id tool,
      tcr_tool_version = td_version tool, tcr_arguments = redact_arguments tool (ps_arguments step),
      tcr_result_status = status, tcr_evidence_ids = [], tcr_retry_count = 0,
      tcr_permission_reason_code = reason\<rparr>"

definition close_interrupted_step ::
  "'w runtime \<Rightarrow> 'w active_run \<Rightarrow> string \<Rightarrow> (unit, 'w) rt" where
  "close_interrupted_step d a code =
     (case (ax_step a, ax_tool a) of
        (Some step, Some tool) \<Rightarrow>
          bind_act (fresh_id ''call'') (\<lambda>i.
            and_then (add_call (call_record i tool step TR_FAILED (Some code)))
              (and_then (trace_execution ((execution_record (ax_execution a) tool TR_FAILED)
                   \<lparr>ter_timeout := td_timeout tool, ter_error_code := Some code\<rparr>))
                (tr_event d ''execution'' ''step_interrupted''
                   [(''step_id'', ps_step_id step), (''tool_id'', td_tool_id tool)])))
      | _ \<Rightarrow> ret ())"

definition control_failure :: "'w runtime \<Rightarrow> 'w active_run \<Rightarrow> exc \<Rightarrow> (agent_outcome, 'w) rt" where
  "control_failure d a e =
     (let code = provider_error_code e; x = ax_execution a; md = [(''error_code'', code)]
      in and_then (close_interrupted_step d a code)
        (and_then (tr_event d ''runtime'' (control_event e) md)
          (bind_act (read_state rs_calls) (\<lambda>calls.
            and_then (run_audit d (control_event e) (ax_principal a) x (Some (control_status e))
                 [control_flag e] (map tcr_tool_id calls) md)
              (bind_act (decision_outcome x (control_status e) (control_summary e)
                  (\<lambda>o1. o1\<lparr>ao_safety_flags := [control_flag e], ao_tool_calls := calls,
                          ao_recovery := Recovery_ABORT, ao_error_code := Some code\<rparr>))
                (\<lambda>o1. finish d (ax_principal a) x (ax_state a) o1 True))))))"

section \<open>Paused runs\<close>

definition checkpoint_of :: "pending_approval \<Rightarrow> run_trace \<Rightarrow> time \<Rightarrow> checkpoint" where
  "checkpoint_of p t updated =
     \<lparr>ck_checkpoint_id = ''checkpoint:'' @ ar_request_id (pa_request p),
      ck_execution = pa_execution p, ck_input_text = pa_input_text p, ck_resource = pa_resource p,
      ck_plan = pa_plan p, ck_resume_plan = pa_resume_plan p, ck_tool_calls = pa_tool_calls p,
      ck_tool_results = pa_tool_results p, ck_highest_risk = pa_highest_risk p,
      ck_approval_request = pa_request p, ck_outcome = pa_outcome p, ck_trace = Some t,
      ck_created_at = ar_created_at (pa_request p), ck_updated_at = updated\<rparr>"

definition paused_state :: "'w runtime \<Rightarrow> execution_state \<Rightarrow> checkpoint \<Rightarrow> time \<Rightarrow> execution_state" where
  "paused_state d st c t =
     st\<lparr>es_status := State_PAUSED, es_version := es_version st + 1,
        es_data := AList.update ''checkpoint'' (le_encode (rd_lib d) c) (es_data st),
        es_updated_at := t\<rparr>"

text \<open>\<open>pending.trace.export(...)\<close>\<close>

definition export_pending ::
  "'w runtime \<Rightarrow> pending_approval \<Rightarrow> outcome_status option \<Rightarrow> (run_trace, 'w) rt" where
  "export_pending d p status = lift_op (\<lambda>s.
     case export_trace (rd_cost_model d) status (pa_trace p) (rs_world s) of
       (t, w) \<Rightarrow> (Inr t, s\<lparr>rs_world := w\<rparr>))"

definition persist_checkpoint ::
  "'w runtime \<Rightarrow> pending_approval \<Rightarrow> run_trace option \<Rightarrow> (unit, 'w) rt" where
  "persist_checkpoint d p trace =
     bind_act (app_do (sp_find (rd_store d) (pa_principal p) (ec_execution_id (pa_execution p))))
       (\<lambda>found. case found of
          None \<Rightarrow> fail StateConflictError
        | Some st \<Rightarrow>
            if es_status st \<noteq> State_ESCALATED \<and> es_status st \<noteq> State_PAUSED
            then fail StateConflictError
            else
              bind_act (case trace of
                  Some t \<Rightarrow> ret t
                | None \<Rightarrow> export_pending d p (Some (ao_status (pa_outcome p)))) (\<lambda>t.
                bind_act read_clock (\<lambda>updated.
                  bind_act (lift_result (constructed checkpoint_ok (checkpoint_of p t updated))) (\<lambda>c.
                    bind_act read_clock (\<lambda>t2.
                      app_do (sp_save (rd_store d) (paused_state d st c t2) (Some (es_version st))))))))"

definition set_pending :: "string \<Rightarrow> pending_approval \<Rightarrow> (unit, 'w) rt" where
  "set_pending i p = change_state (\<lambda>s. s\<lparr>rs_pending := AList.update i p (rs_pending s)\<rparr>)"

definition remember_pending :: "'w runtime \<Rightarrow> pending_approval \<Rightarrow> (unit, 'w) rt" where
  "remember_pending d p =
     and_then (set_pending (ec_execution_id (pa_execution p)) p) (persist_checkpoint d p None)"

text \<open>\<open>_restore_pending_approval\<close>: what a state of the store says about the paused execution.\<close>

definition checkpoint_in :: "'w runtime \<Rightarrow> string \<Rightarrow> execution_state \<Rightarrow> exc + checkpoint option" where
  "checkpoint_in d i st =
     (if es_status st \<noteq> State_PAUSED \<or> es_execution_id st \<noteq> i then Inr None
      else
        (case map_of (es_data st) ''checkpoint'' of
           Some (PDict kvs) \<Rightarrow>
             (case le_decode (rd_lib d) (PDict kvs) of
                None \<Rightarrow> Inl ValidationError | Some c \<Rightarrow> Inr (Some c))
         | _ \<Rightarrow> Inr None))"

definition checkpoint_fits ::
  "principal_context \<Rightarrow> string \<Rightarrow> execution_state \<Rightarrow> checkpoint \<Rightarrow> bool" where
  "checkpoint_fits who i st c \<longleftrightarrow>
     (let x = ck_execution c
      in ec_execution_id x = i \<and> ec_principal x = who \<and> ec_agent_id x = es_agent_id st \<and>
         ec_agent_version x = es_agent_version st \<and> ec_state_id x = es_state_id st)"

definition pending_of :: "principal_context \<Rightarrow> checkpoint \<Rightarrow> trace_recorder \<Rightarrow> pending_approval" where
  "pending_of who c tr =
     \<lparr>pa_principal = who, pa_execution = ck_execution c, pa_input_text = ck_input_text c,
      pa_resource = ck_resource c, pa_plan = ck_plan c, pa_resume_plan = ck_resume_plan c,
      pa_tool_calls = ck_tool_calls c, pa_tool_results = ck_tool_results c,
      pa_highest_risk = ck_highest_risk c, pa_request = ck_approval_request c,
      pa_outcome = ck_outcome c, pa_trace = tr, pa_trace_prefix = None, pa_prefix_event_count = 0\<rparr>"

definition restored :: "'w runtime \<Rightarrow> principal_context \<Rightarrow> string \<Rightarrow> execution_state \<Rightarrow>
    exc + pending_approval option" where
  "restored d who i st =
     bindE (checkpoint_in d i st) (\<lambda>found. case found of
        None \<Rightarrow> Inr None
      | Some c \<Rightarrow>
          if \<not> checkpoint_fits who i st c then Inl ValueError
          else bindE (new_recorder (tv_sha256 (le_tool (rd_lib d))) (ck_execution c) (ck_input_text c)
                        (rd_identity d) (ck_trace c)) (\<lambda>tr. Inr (Some (pending_of who c tr))))"

definition restore_pending ::
  "'w runtime \<Rightarrow> principal_context \<Rightarrow> string \<Rightarrow> (pending_approval option, 'w) rt" where
  "restore_pending d who i =
     bind_act (app_do (sp_find (rd_store d) who i)) (\<lambda>found. case found of
        None \<Rightarrow> ret None
      | Some st \<Rightarrow>
          bind_act (lift_result (restored d who i st)) (\<lambda>r. case r of
             None \<Rightarrow> ret None
           | Some p \<Rightarrow>
               bind_act (read_state (\<lambda>s. map_of (rs_pending s) i)) (\<lambda>current. case current of
                  Some q \<Rightarrow> ret (Some q)
                | None \<Rightarrow> and_then (set_pending i p) (ret (Some p)))))"

end
