(* ===== verification/Runtime_Steps.thy ===== *)
theory Runtime_Steps
  imports Runtime_Outcome
begin

text \<open>
  The loop over the steps of a plan in \<open>_execute\<close>: each step is proposed, judged, and refused, paused
  or run. The Python list of tool results and the execution context, which an approval replaces, are
  passed along; the list of tool calls is \<open>rs_calls\<close>. A step ends the run with an outcome (\<open>Inl\<close>) or
  lets it go on (\<open>Inr\<close>).
\<close>

text \<open>What stays the same during a run.\<close>

record run_frame =
  rf_principal :: principal_context
  rf_state :: execution_state
  rf_text :: string
  rf_resource :: "resource_context option"
  rf_context :: compiled_context
  rf_stop_reason :: "string option"
  rf_composition_plan :: agent_plan

section \<open>Refusing a step\<close>

record refusal =
  ref_status :: outcome_status
  ref_summary :: string
  ref_recovery :: recovery_action
  ref_human_review :: bool
  ref_error :: string

definition permission_refusal :: "permission_decision \<Rightarrow> refusal" where
  "permission_refusal p =
     (if pm_approval_required p
      then \<lparr>ref_status = Outcome_ESCALATED,
            ref_summary = ''The action requires exact human approval before execution.'',
            ref_recovery = Recovery_ESCALATE, ref_human_review = True,
            ref_error = pm_reason_code p\<rparr>
      else \<lparr>ref_status = Outcome_REFUSED,
            ref_summary = ''The proposed tool call is not authorized for this execution.'',
            ref_recovery = Recovery_REFUSE, ref_human_review = False,
            ref_error = pm_reason_code p\<rparr>)"

definition paused :: "verdict \<Rightarrow> bool" where
  "paused v \<longleftrightarrow> vd_request v \<noteq> None \<and> vd_decision v = None"

definition turned_down :: "verdict \<Rightarrow> bool" where
  "turned_down v \<longleftrightarrow>
     vd_request v \<noteq> None \<and> vd_decision v \<noteq> None \<and>
     (vd_error v \<noteq> None \<or>
      vd_status v \<in> {Some Approval_REJECTED, Some Approval_REQUEST_CHANGES, Some Approval_EXPIRED})"

definition approval_refusal :: "verdict \<Rightarrow> refusal" where
  "approval_refusal v =
     (case vd_error v of
        Some code \<Rightarrow>
          \<lparr>ref_status = Outcome_REFUSED,
           ref_summary = ''The approval evidence does not match the reviewed action.'',
           ref_recovery = Recovery_REFUSE, ref_human_review = False, ref_error = code\<rparr>
      | None \<Rightarrow>
          (case vd_status v of
             Some Approval_REJECTED \<Rightarrow>
               \<lparr>ref_status = Outcome_REFUSED, ref_summary = ''The reviewer rejected the proposed action.'',
                ref_recovery = Recovery_REFUSE, ref_human_review = False,
                ref_error = ''approval_rejected''\<rparr>
           | Some Approval_REQUEST_CHANGES \<Rightarrow>
               \<lparr>ref_status = Outcome_NEEDS_INPUT,
                ref_summary = ''The reviewer requested changes before the action can run.'',
                ref_recovery = Recovery_REQUEST_INPUT, ref_human_review = True,
                ref_error = ''approval_changes_requested''\<rparr>
           | Some Approval_EXPIRED \<Rightarrow>
               \<lparr>ref_status = Outcome_ESCALATED,
                ref_summary = ''The approval expired before the action could run.'',
                ref_recovery = Recovery_ESCALATE, ref_human_review = True,
                ref_error = ''approval_expired''\<rparr>
           | _ \<Rightarrow> permission_refusal (vd_permission v)))"

definition refusal_of :: "verdict \<Rightarrow> refusal" where
  "refusal_of v = (if turned_down v then approval_refusal v else permission_refusal (vd_permission v))"

definition denial_flag :: "permission_decision \<Rightarrow> safety_flag" where
  "denial_flag p = (if pm_approval_required p then Flag_APPROVAL_REQUIRED else Flag_PERMISSION_DENIED)"

definition record_policy ::
  "'w runtime \<Rightarrow> principal_context \<Rightarrow> verdict \<Rightarrow> 'w tool_definition \<Rightarrow> (unit, 'w) rt" where
  "record_policy d who v tool =
     (case pm_policy_decision (vd_permission v) of
        None \<Rightarrow> ret ()
      | Some pd \<Rightarrow>
          and_then (tr_update (record_policy_decision pd))
            (and_then (tr_event d ''policy'' ''policy_decision''
                [(''tool_id'', td_tool_id tool), (''allowed'', str_bool (pd_allowed pd)),
                 (''reason_code'', pd_reason_code pd)])
              (run_audit d ''policy_decision'' who (vd_execution v) None
                (if pd_allowed pd then [] else [Flag_PERMISSION_DENIED]) [td_tool_id tool]
                [(''allowed'', str_bool (pd_allowed pd)), (''reason_code'', pd_reason_code pd),
                 (''approval_required'', str_bool (pd_approval_required pd))])))"

definition call_id_for :: "string option \<Rightarrow> (string, 'w) rt" where
  "call_id_for i = (case or_else i [] of [] \<Rightarrow> fresh_id ''call'' | c # cs \<Rightarrow> ret (c # cs))"

text \<open>The events of a pause, or of a decision that turns the action down.\<close>

definition record_refusal ::
  "'w runtime \<Rightarrow> principal_context \<Rightarrow> verdict \<Rightarrow> 'w tool_definition \<Rightarrow> (unit, 'w) rt" where
  "record_refusal d who v tool =
     (case vd_request v of
        None \<Rightarrow> ret ()
      | Some r \<Rightarrow>
          if paused v then
            tr_event d ''runtime'' ''execution_paused''
              [(''reason_code'', ''approval_required''), (''request_id'', ar_request_id r)]
          else if turned_down v then
            (let t = approval_transition (vd_status v) (vd_error v);
                 md = approval_metadata d r (vd_decision v) @ [(''error_code'', t)]
             in and_then (tr_event d ''approval'' t md)
                  (run_audit d t who (vd_execution v) None [Flag_APPROVAL_REQUIRED] [td_tool_id tool] md))
          else ret ())"

definition pause_run ::
  "'w runtime \<Rightarrow> run_frame \<Rightarrow> verdict \<Rightarrow> plan_step list \<Rightarrow> tool_result list \<Rightarrow> risk_level \<Rightarrow>
   agent_outcome \<Rightarrow> (unit, 'w) rt" where
  "pause_run d f v steps results risk o1 =
     (case vd_request v of
        None \<Rightarrow> ret ()
      | Some r \<Rightarrow>
          bind_act (lift_result (mk_plan steps (rf_stop_reason f))) (\<lambda>resume_plan.
            bind_act (read_state (\<lambda>s. (butlast (rs_calls s), rs_trace s))) (\<lambda>(calls, tr).
              remember_pending d
                \<lparr>pa_principal = rf_principal f, pa_execution = vd_execution v, pa_input_text = rf_text f,
                 pa_resource = rf_resource f, pa_plan = rf_composition_plan f,
                 pa_resume_plan = resume_plan, pa_tool_calls = calls, pa_tool_results = results,
                 pa_highest_risk = risk, pa_request = r, pa_outcome = o1, pa_trace = tr,
                 pa_trace_prefix = None, pa_prefix_event_count = 0\<rparr>)))"

definition refuse_step ::
  "'w runtime \<Rightarrow> run_frame \<Rightarrow> verdict \<Rightarrow> 'w tool_definition \<Rightarrow> plan_step \<Rightarrow> plan_step list \<Rightarrow>
   tool_result list \<Rightarrow> risk_level \<Rightarrow> (agent_outcome, 'w) rt" where
  "refuse_step d f v tool step rest results risk =
     (let p = vd_permission v; x = vd_execution v; who = rf_principal f; why = refusal_of v
      in bind_act (call_id_for (vd_call_id v)) (\<lambda>i.
        and_then (add_call (call_record i tool step
            (if pm_approval_required p then TR_APPROVAL_REQUIRED else TR_PERMISSION_DENIED)
            (Some (pm_reason_code p))))
          (and_then (tr_event d ''permission'' ''permission_denied''
              [(''tool_id'', td_tool_id tool), (''reason_code'', pm_reason_code p)])
            (and_then (run_audit d ''permission_denied'' who x None [denial_flag p] [td_tool_id tool]
                [(''reason_code'', pm_reason_code p)])
              (and_then (record_refusal d who v tool)
                (bind_act (read_state rs_calls) (\<lambda>calls.
                  bind_act (decision_outcome x (ref_status why) (ref_summary why)
                      (\<lambda>o1. o1\<lparr>ao_safety_flags := [denial_flag p], ao_tool_calls := calls,
                              ao_recovery := ref_recovery why,
                              ao_human_review_required := ref_human_review why,
                              ao_error_code := Some (ref_error why)\<rparr>)) (\<lambda>o1.
                    bind_act (finish d who x (rf_state f) o1 True) (\<lambda>o2.
                      and_then (when_do (paused v) (pause_run d f v (step # rest) results risk o2))
                        (ret o2))))))))))"

definition refuse_idempotency ::
  "'w runtime \<Rightarrow> run_frame \<Rightarrow> execution_context \<Rightarrow> 'w tool_definition \<Rightarrow> plan_step \<Rightarrow> (agent_outcome, 'w) rt" where
  "refuse_idempotency d f x tool step =
     (let code = ''idempotency_key_required''
      in bind_act (fresh_id ''call'') (\<lambda>i.
        and_then (add_call (call_record i tool step TR_PERMISSION_DENIED (Some code)))
          (and_then (trace_execution ((execution_record x tool TR_PERMISSION_DENIED)
              \<lparr>ter_error_code := Some code\<rparr>))
            (and_then (tr_event d ''tool'' ''tool_rejected''
                [(''tool_id'', td_tool_id tool), (''reason_code'', code)])
              (bind_act (read_state rs_calls) (\<lambda>calls.
                bind_act (decision_outcome x Outcome_REFUSED
                    ''The write operation does not have an idempotency key.''
                    (\<lambda>o1. o1\<lparr>ao_safety_flags := [Flag_PERMISSION_DENIED], ao_tool_calls := calls,
                            ao_recovery := Recovery_REFUSE, ao_error_code := Some code\<rparr>))
                  (\<lambda>o1. finish d (rf_principal f) x (rf_state f) o1 True)))))))"

section \<open>Running a step\<close>

text \<open>
  The callback of the invocation only records trace events of the run; they are collected in
  \<open>xs_trace\<close> and recorded when the invocation has ended, also when it raised.
\<close>

definition replay_events :: "'w runtime \<Rightarrow> 'w runtime_state \<Rightarrow> 'w runtime_state" where
  "replay_events d s =
     fold (\<lambda>(event_type, md). event_state d ''tool'' event_type md) (xs_trace (rs_tools s)) s"

definition run_options :: "exec_control \<Rightarrow> run_control invoke_options" where
  "run_options c =
     \<lparr>io_trace = True, io_cancel = True, io_deadline = xc_deadline c, io_admission = Some rc_admit\<rparr>"

definition invoke_step ::
  "'w runtime \<Rightarrow> execution_context \<Rightarrow> 'w tool_definition \<Rightarrow> plan_step \<Rightarrow> (tool_error + tool_result, 'w) rt" where
  "invoke_step d x tool step s =
     (let ts = (rs_tools s)\<lparr>xs_trace := []\<rparr>
      in case invoke_tool (le_tool (rd_lib d)) (run_options (rcl_control (xs_caller ts)))
                (td_tool_id tool) x (ps_arguments step) (Some (td_version tool))
                (ps_idempotency_key step) ts of
           None \<Rightarrow> None
         | Some (q, ts1) \<Rightarrow> Some (q, s\<lparr>rs_tools := ts1\<rparr>))"

definition last_record_metadata :: "execution_context \<Rightarrow> tool_execution_record list \<Rightarrow> (string, string) dict" where
  "last_record_metadata x records =
     (if records \<noteq> [] \<and> ter_execution_id (last records) = ec_execution_id x
      then [(''attempts'', str_int (ter_attempts (last records))),
            (''retry_count'', str_int (ter_retry_count (last records)))]
      else [])"

definition failed_result ::
  "execution_context \<Rightarrow> 'w tool_definition \<Rightarrow> tool_error \<Rightarrow> (string, string) dict \<Rightarrow> tool_result" where
  "failed_result x tool e md =
     \<lparr>tr_tool_id = td_tool_id tool, tr_tool_version = Some (td_version tool),
      tr_execution_id = Some (ec_execution_id x),
      tr_status = (if te_code e = ''invalid_arguments'' then TR_INVALID_ARGUMENTS else TR_FAILED),
      tr_output = None, tr_confidence = 1, tr_evidence = [], tr_restricted = False, tr_conflicts = [],
      tr_injection_flags = [], tr_error_code = Some (te_code e), tr_metadata = md\<rparr>"

definition run_tool ::
  "'w runtime \<Rightarrow> execution_context \<Rightarrow> 'w tool_definition \<Rightarrow> plan_step \<Rightarrow> (tool_result, 'w) rt" where
  "run_tool d x tool step =
     bind_act
       (case validate_arguments tool (ps_arguments step) of
          Inl e \<Rightarrow> ret (Inl e)
        | Inr _ \<Rightarrow>
            and_then (tr_event d ''tool'' ''tool_arguments_validated''
                [(''tool_id'', td_tool_id tool), (''step_id'', ps_step_id step)])
              (finally_do (invoke_step d x tool step) (replay_events d)))
       (\<lambda>q. case q of
          Inr r \<Rightarrow> ret (detect_indirect_injection (le_float_repr (rd_lib d)) (le_object_str (rd_lib d)) r)
        | Inl e \<Rightarrow>
            and_then (tr_event d ''tool'' ''tool_invocation_failed''
                [(''tool_id'', td_tool_id tool), (''reason_code'', te_code e)])
              (bind_act (read_state (\<lambda>s. tg_records (xs_registry (rs_tools s)))) (\<lambda>records.
                 lift_result (constructed tool_result_ok
                   (failed_result x tool e (last_record_metadata x records))))))"

definition step_metadata :: "plan_step \<Rightarrow> nat \<Rightarrow> (string, string) dict" where
  "step_metadata step n = [(''step_id'', ps_step_id step), (''step_index'', str_nat n)]"

definition set_active_step ::
  "plan_step option \<Rightarrow> 'w tool_definition option \<Rightarrow> (unit, 'w) rt" where
  "set_active_step step tool = change_state (\<lambda>s.
     s\<lparr>rs_active := map_option (\<lambda>a. a\<lparr>ax_step := step, ax_tool := tool\<rparr>) (rs_active s)\<rparr>)"

definition record_result ::
  "'w runtime \<Rightarrow> principal_context \<Rightarrow> execution_context \<Rightarrow> 'w tool_definition \<Rightarrow> plan_step \<Rightarrow> nat \<Rightarrow>
   string option \<Rightarrow> tool_result \<Rightarrow> (unit, 'w) rt" where
  "record_result d who x tool step n call_id r =
     (let status = status_value (tr_status r);
          found = [(''result_status'', status), (''evidence_count'', str_nat (length (tr_evidence r)))];
          retries = metadata_int (tr_metadata r) ''retry_count'' 0
      in bind_act (call_id_for call_id) (\<lambda>i.
        and_then (add_call ((call_record i tool step (tr_status r) None)
            \<lparr>tcr_evidence_ids := map ev_evidence_id (tr_evidence r), tcr_retry_count := nat retries\<rparr>))
          (and_then (trace_execution ((execution_record x tool (tr_status r))
              \<lparr>ter_attempts := metadata_int (tr_metadata r) ''attempts'' 1, ter_retry_count := retries,
               ter_timeout := td_timeout tool, ter_error_code := tr_error_code r\<rparr>))
            (and_then (tr_event d ''tool'' ''tool_result_recorded'' ((''tool_id'', td_tool_id tool) # found))
              (and_then (run_audit d ''tool_result_recorded'' who x None
                  (if tr_injection_flags r \<noteq> [] then [Flag_INDIRECT_PROMPT_INJECTION] else [])
                  [td_tool_id tool] found)
                (and_then (tr_event d ''execution'' ''step_completed''
                    (step_metadata step n @ [(''result_status'', status)]))
                  (and_then (set_active_step None None) (control_do rc_check))))))))"

section \<open>One step\<close>

definition propose_step :: "'w runtime \<Rightarrow> nat \<Rightarrow> plan_step \<Rightarrow> ('w tool_definition, 'w) rt" where
  "propose_step d n step =
     and_then (control_do rc_check)
       (and_then (control_do rc_tool_invocation)
         (and_then (tr_event d ''execution'' ''step_started'' (step_metadata step n))
           (bind_act (read_state (\<lambda>s. get_tool (ps_tool_id step) (ps_tool_version step) False
                (xs_registry (rs_tools s)))) (\<lambda>q. case q of
              Inl e \<Rightarrow> fail (tool_exc e)
            | Inr tool \<Rightarrow>
                and_then (set_active_step (Some step) (Some tool))
                  (and_then (tr_event d ''tool'' ''tool_proposed''
                      [(''tool_id'', td_tool_id tool), (''tool_version'', td_version tool),
                       (''step_id'', ps_step_id step),
                       (''argument_keys'', join_with '','' (sort (map fst (ps_arguments step)))),
                       (''argument_digest'', digest_mapping d (ps_arguments step))])
                    (ret tool))))))"

text \<open>An absent key and an empty one are the same to \<open>not step.idempotency_key\<close>.\<close>

definition lacks_key :: "'w tool_definition \<Rightarrow> plan_step \<Rightarrow> bool" where
  "lacks_key tool step \<longleftrightarrow>
     td_idempotency_required tool \<and> or_else (ps_idempotency_key step) [] = []"

definition allowed_step ::
  "'w runtime \<Rightarrow> run_frame \<Rightarrow> nat \<Rightarrow> verdict \<Rightarrow> 'w tool_definition \<Rightarrow> plan_step \<Rightarrow>
   (agent_outcome + tool_result, 'w) rt" where
  "allowed_step d f n v tool step =
     and_then (tr_event d ''permission'' ''permission_allowed''
         [(''tool_id'', td_tool_id tool), (''reason_code'', pm_reason_code (vd_permission v))])
       (if lacks_key tool step
        then bind_act (refuse_idempotency d f (vd_execution v) tool step) (\<lambda>o1. ret (Inl o1))
        else bind_act (run_tool d (vd_execution v) tool step) (\<lambda>r.
          and_then (record_result d (rf_principal f) (vd_execution v) tool step n (vd_call_id v) r)
            (ret (Inr r))))"

type_synonym progress = "execution_context \<times> tool_result list \<times> risk_level"

definition run_step ::
  "'w runtime \<Rightarrow> run_frame \<Rightarrow> nat \<Rightarrow> plan_step \<Rightarrow> plan_step list \<Rightarrow> progress \<Rightarrow>
   (agent_outcome + progress, 'w) rt" where
  "run_step d f n step rest g =
     (case g of (x, results, risk0) \<Rightarrow>
        bind_act (propose_step d n step) (\<lambda>tool.
          let risk = higher_risk risk0 (td_risk_level tool)
          in bind_act (judge_step d (rf_principal f) x tool step (rf_resource f) (rf_context f)) (\<lambda>v.
            and_then (record_policy d (rf_principal f) v tool)
              (if \<not> pm_allowed (vd_permission v)
               then bind_act (refuse_step d f v tool step rest results risk) (\<lambda>o1. ret (Inl o1))
               else bind_act (allowed_step d f n v tool step) (\<lambda>q.
                 ret (case q of Inl o1 \<Rightarrow> Inl o1
                      | Inr r \<Rightarrow> Inr (vd_execution v, results @ [r], risk)))))))"

fun run_steps ::
  "'w runtime \<Rightarrow> run_frame \<Rightarrow> nat \<Rightarrow> plan_step list \<Rightarrow> progress \<Rightarrow> (agent_outcome + progress, 'w) rt" where
  "run_steps d f n [] g = ret (Inr g)"
| "run_steps d f n (step # rest) g =
     bind_act (run_step d f n step rest g) (\<lambda>q. case q of
        Inl o1 \<Rightarrow> ret (Inl o1)
      | Inr g1 \<Rightarrow> run_steps d f (Suc n) rest g1)"

end
