(* ===== verification/Runtime_Execute.thy ===== *)
theory Runtime_Execute
  imports Runtime_Steps Events
begin

text \<open>
  \<open>execute\<close> and \<open>_execute\<close> of \<open>runtime/execution.py\<close>: a run is opened and traced, its input inspected,
  its context compiled, the provider asked to interpret and to plan, the plan validated and its steps
  run, the provider asked to compose an answer, and the outcome decided from the tool results.
\<close>

section \<open>Arguments\<close>

record run_args =
  ra_principal :: principal_context
  ra_input_text :: string
  ra_agent_id :: string
  ra_agent_version :: string
  ra_authorized_tool_ids :: "string list"
  ra_authorized_tool_versions :: "string list"
  ra_granted_permissions :: "string list"
  ra_approved_action_digests :: "string list"
  ra_state_id :: "string option"
  ra_execution_id :: "string option"
  ra_environment :: "string option"
  ra_max_risk_level :: "risk_level option"
  ra_max_steps :: "int option"
  ra_correlation_id :: "string option"
  ra_parent_execution_id :: "string option"
  ra_delegation_id :: "string option"
  ra_delegation_depth :: int
  ra_delegation_path :: "string list"
  ra_event_id :: "string option"
  ra_trigger_id :: "string option"
  ra_causation_id :: "string option"
  ra_attempt :: int
  ra_resource :: "resource_context option"
  ra_timeout :: "duration option"
  ra_cancellation_event :: bool
  ra_cancel_event :: bool
  ra_plan_override :: "agent_plan option"
  ra_composition_override :: "agent_plan option"
  ra_initial_calls :: "tool_call_record list"
  ra_initial_results :: "tool_result list"
  ra_initial_risk :: risk_level
  ra_allow_existing :: bool

definition execution_of :: "'w runtime \<Rightarrow> run_args \<Rightarrow> string \<Rightarrow> string \<Rightarrow> execution_context" where
  "execution_of d a i state_id =
     \<lparr>ec_execution_id = i, ec_agent_id = ra_agent_id a, ec_agent_version = ra_agent_version a,
      ec_principal = ra_principal a, ec_authorized_tool_ids = ra_authorized_tool_ids a,
      ec_authorized_tool_versions = ra_authorized_tool_versions a,
      ec_granted_permissions = ra_granted_permissions a,
      ec_approved_action_digests = ra_approved_action_digests a,
      ec_max_steps = (case ra_max_steps a of None \<Rightarrow> cfg_max_plan_steps (rd_config d) | Some n \<Rightarrow> n),
      ec_state_id = state_id,
      ec_environment = or_else (ra_environment a) (cfg_environment (rd_config d)),
      ec_max_risk_level =
        (case ra_max_risk_level a of None \<Rightarrow> cfg_max_risk_level (rd_config d) | Some r \<Rightarrow> r),
      ec_correlation_id = or_else (ra_correlation_id a) i,
      ec_parent_execution_id = ra_parent_execution_id a, ec_delegation_id = ra_delegation_id a,
      ec_delegation_depth = ra_delegation_depth a, ec_delegation_path = ra_delegation_path a,
      ec_event_id = ra_event_id a, ec_trigger_id = ra_trigger_id a,
      ec_causation_id = ra_causation_id a, ec_attempt = ra_attempt a\<rparr>"

section \<open>Opening a run\<close>

text \<open>\<open>_assert_execution_authority\<close>; the guard answers \<open>False\<close> to refuse.\<close>

definition assert_authority :: "'w runtime \<Rightarrow> string \<Rightarrow> string \<Rightarrow> (unit, 'w) rt" where
  "assert_authority d agent_id version =
     (if (case rd_bound d of None \<Rightarrow> False | Some b \<Rightarrow> b \<noteq> (agent_id, version))
      then fail RuntimeAuthorizationError
      else
        (case rd_guard d of
           None \<Rightarrow> ret ()
         | Some g \<Rightarrow>
             bind_act (catch (app_do (g agent_id version)) (\<lambda>e. fail RuntimeAuthorizationError)) (\<lambda>ok.
               if ok then ret () else fail RuntimeAuthorizationError)))"

definition optional :: "string \<Rightarrow> string option \<Rightarrow> (string, string) dict" where
  "optional key x = (case x of None \<Rightarrow> [] | Some s \<Rightarrow> [(key, s)])"

definition start_metadata :: "'w runtime \<Rightarrow> string \<Rightarrow> execution_context \<Rightarrow> (string, string) dict" where
  "start_metadata d text_in x =
     (let rid = rd_identity d in
      [(''input_length'', str_nat (length text_in))] @
      optional ''manifest_id'' (rid_manifest_id rid) @
      optional ''registry_snapshot_id'' (rid_registry_snapshot_id rid) @
      optional ''prompt_ref'' (map_option reference_identity (rid_prompt_ref rid)) @
      (if rid_skill_refs rid \<noteq> []
       then [(''skill_refs'', join_with '','' (map reference_identity (rid_skill_refs rid)))] else []) @
      optional ''event_id'' (ec_event_id x) @ optional ''trigger_id'' (ec_trigger_id x) @
      optional ''causation_id'' (ec_causation_id x) @
      (if ec_attempt x \<noteq> 0 then [(''attempt'', str_int (ec_attempt x))] else []) @
      (case ec_parent_execution_id x of
         None \<Rightarrow> []
       | Some p \<Rightarrow> [(''parent_execution_id'', p), (''delegation_depth'', str_int (ec_delegation_depth x))] @
                  optional ''delegation_id'' (ec_delegation_id x)))"

definition refuse_reuse :: "'w runtime \<Rightarrow> principal_context \<Rightarrow> string \<Rightarrow> (unit, 'w) rt" where
  "refuse_reuse d who i =
     bind_act (read_state (\<lambda>s. map_of (rs_traces s) i)) (\<lambda>t.
       if t \<noteq> None then fail ValueError
       else bind_act (app_do (sp_find (rd_store d) who i)) (\<lambda>found.
         if found \<noteq> None then fail ValueError else ret ()))"

definition activate ::
  "'w runtime \<Rightarrow> run_args \<Rightarrow> execution_context \<Rightarrow> execution_state \<Rightarrow> string \<Rightarrow> (unit, 'w) rt" where
  "activate d a x st text_in =
     bind_act (lift_result (new_recorder (tv_sha256 (le_tool (rd_lib d))) x text_in (rd_identity d) None))
       (\<lambda>tr. change_state (\<lambda>s. s\<lparr>rs_trace := tr, rs_calls := ra_initial_calls a,
          rs_active := Some \<lparr>ax_principal = ra_principal a, ax_execution = x, ax_state = st,
                            ax_step = None, ax_tool = None\<rparr>\<rparr>))"

definition record_start ::
  "'w runtime \<Rightarrow> principal_context \<Rightarrow> execution_context \<Rightarrow> string \<Rightarrow> (unit, 'w) rt" where
  "record_start d who x text_in =
     (let md = start_metadata d text_in x
      in and_then (tr_event d ''runtime'' ''execution_started'' md)
        (and_then (when_do (ec_parent_execution_id x \<noteq> None)
             (tr_event d ''delegation'' ''delegation_started'' md))
          (run_audit d ''execution_started'' who x None [] [] md)))"

definition open_run ::
  "'w runtime \<Rightarrow> run_args \<Rightarrow> string \<Rightarrow> (execution_context \<times> execution_state, 'w) rt" where
  "open_run d a text_in =
     bind_act (case or_else (ra_execution_id a) [] of [] \<Rightarrow> fresh_id ''execution'' | c # cs \<Rightarrow> ret (c # cs))
       (\<lambda>i.
         and_then (when_do (\<not> ra_allow_existing a) (refuse_reuse d (ra_principal a) i))
           (bind_act (app_do (sp_open (rd_store d) (ra_principal a) (ra_agent_id a) (ra_agent_version a)
                (ra_state_id a))) (\<lambda>st.
              bind_act (read_state (\<lambda>s. map_of (rs_pending s) i)) (\<lambda>p.
                if p \<noteq> None then fail ValueError
                else
                  and_then (control_do (\<lambda>r. case bind_execution i (rcl_control r) of
                      (q, c) \<Rightarrow> (q, r\<lparr>rcl_control := c\<rparr>)))
                    (bind_act (lift_result (constructed execution_context_ok
                        (execution_of d a i (es_state_id st)))) (\<lambda>x.
                      and_then (activate d a x st text_in)
                        (and_then (record_start d (ra_principal a) x text_in) (ret (x, st)))))))))"

section \<open>The provider\<close>

text \<open>
  \<open>_invoke_provider\<close>. The effect of the call on the application's state is applied once, when the
  provider was called at all.
\<close>

definition invoke_provider ::
  "'w runtime \<Rightarrow> provider_operation \<Rightarrow> ('w \<Rightarrow> raw provider_world \<times> 'w) \<Rightarrow> (raw \<times> nat, 'w) rt" where
  "invoke_provider d op call s =
     (let ts = rs_tools s; (vw, w) = call (xs_app ts)
      in case invoke_provider_call vw (controlled_policy (pv_policy (rd_provider d) op)) True
                (xc_deadline (rcl_control (xs_caller ts)))
                \<lparr>cs_monitor = xs_monitor ts, cs_caller = xs_caller ts, cs_calls = 0, cs_sleeps = []\<rparr> of
           None \<Rightarrow> None
         | Some (r, c) \<Rightarrow>
             Some (r, s\<lparr>rs_tools := ts\<lparr>xs_app := (if cs_calls c = 0 then xs_app ts else w),
                                      xs_monitor := cs_monitor c, xs_caller := cs_caller c\<rparr>\<rparr>))"

definition record_budget :: "'w runtime \<Rightarrow> provider_call_metadata \<Rightarrow> (unit, 'w) rt" where
  "record_budget d m =
     control_do (rc_usage (token_count (pcm_input_tokens m)) (token_count (pcm_output_tokens m))
       (call_cost (rd_cost_model d) m))"

definition stage_name :: "provider_operation \<Rightarrow> string" where
  "stage_name op =
     (case op of Op_INTERPRET \<Rightarrow> ''interpretation'' | Op_PLAN \<Rightarrow> ''planning'' | Op_COMPOSE \<Rightarrow> ''composition'')"

text \<open>The body of the \<open>try\<close> around a provider call; \<open>part\<close> reads and updates the response's metadata.\<close>

definition provider_try ::
  "'w runtime \<Rightarrow> provider_operation \<Rightarrow> ('w \<Rightarrow> raw provider_world \<times> 'w) \<Rightarrow> (raw \<Rightarrow> exc + 'r) \<Rightarrow>
   ('r \<Rightarrow> provider_call_metadata) \<times> (provider_call_metadata \<Rightarrow> 'r \<Rightarrow> 'r) \<Rightarrow> ('r, 'w) rt" where
  "provider_try d op call reader part =
     (let md = [(''operation'', provider_operation_value op)]
      in and_then (tr_event d (stage_name op) ''provider_call_started'' md)
        (bind_act (invoke_provider d op call) (\<lambda>(v, attempts).
          bind_act (lift_result (reader v)) (\<lambda>r0.
            let m = (fst part r0)\<lparr>pcm_retry_count := int attempts - 1\<rparr>
            in and_then (control_do rc_check)
              (and_then (tr_update (record_provider_call op m))
                (and_then (record_budget d m)
                  (and_then (tr_event d (stage_name op) ''provider_call_completed'' md)
                    (ret (snd part m r0)))))))))"

definition provider_stage ::
  "'w runtime \<Rightarrow> principal_context \<Rightarrow> execution_context \<Rightarrow> execution_state \<Rightarrow> provider_operation \<Rightarrow>
   (tool_call_record list, 'w) rt \<Rightarrow> ('r, 'w) rt \<Rightarrow> (agent_outcome + 'r, 'w) rt" where
  "provider_stage d who x st op calls body =
     catch (bind_act body (\<lambda>r. ret (Inr r)))
       (\<lambda>e. bind_act calls (\<lambda>cs. bind_act (provider_failure d who x st op cs e) (\<lambda>o1. ret (Inl o1))))"

definition visible_tools :: "execution_context \<Rightarrow> 'w tool_registry \<Rightarrow> (string \<times> string) list" where
  "visible_tools x g =
     map tool_key
       (filter (\<lambda>t. td_tool_id t \<in> set (ec_authorized_tool_ids x) \<and>
                    (ec_authorized_tool_versions x = [] \<or>
                     td_tool_id t @ ''@'' @ td_version t \<in> set (ec_authorized_tool_versions x)))
         (list_tools False g))"

definition get_visible_tools :: "execution_context \<Rightarrow> ((string \<times> string) list, 'w) rt" where
  "get_visible_tools x = read_state (\<lambda>s. visible_tools x (xs_registry (rs_tools s)))"

definition interpret_stage ::
  "'w runtime \<Rightarrow> principal_context \<Rightarrow> execution_context \<Rightarrow> execution_state \<Rightarrow> compiled_context \<Rightarrow>
   (agent_outcome + interpretation_response option, 'w) rt" where
  "interpret_stage d who x st ctx =
     (case pv_interpret (rd_provider d) of
        None \<Rightarrow> ret (Inr None)
      | Some f \<Rightarrow>
          bind_act (fresh_id ''provider_request'') (\<lambda>i.
            bind_act (get_visible_tools x) (\<lambda>tools.
              bind_act (provider_stage d who x st Op_INTERPRET (ret [])
                  (provider_try d Op_INTERPRET
                     (f \<lparr>iq_request_id = i, iq_context = ctx, iq_execution = x, iq_prompt = rd_prompt d,
                         iq_skills = rd_skills d, iq_tools = tools\<rparr>)
                     (normalize_interpretation (le_norm (rd_lib d)))
                     (ir_metadata, \<lambda>m r. r\<lparr>ir_metadata := m\<rparr>)))
                (\<lambda>q. ret (case q of Inl o1 \<Rightarrow> Inl o1 | Inr r \<Rightarrow> Inr (Some r))))))"

definition plan_stage ::
  "'w runtime \<Rightarrow> principal_context \<Rightarrow> execution_context \<Rightarrow> execution_state \<Rightarrow> compiled_context \<Rightarrow>
   interpretation_response option \<Rightarrow> (agent_outcome + agent_plan, 'w) rt" where
  "plan_stage d who x st ctx interpretation =
     bind_act (fresh_id ''provider_request'') (\<lambda>i.
       bind_act (get_visible_tools x) (\<lambda>tools.
         bind_act (provider_stage d who x st Op_PLAN (ret [])
             (provider_try d Op_PLAN
                (pv_plan (rd_provider d)
                   \<lparr>pq_request_id = i, pq_context = ctx, pq_execution = x, pq_prompt = rd_prompt d,
                    pq_skills = rd_skills d, pq_tools = tools, pq_interpretation = interpretation\<rparr>)
                (normalize_plan (le_norm (rd_lib d)))
                (pr_metadata, \<lambda>m r. r\<lparr>pr_metadata := m\<rparr>)))
           (\<lambda>q. ret (case q of Inl o1 \<Rightarrow> Inl o1 | Inr r \<Rightarrow> Inr (pr_plan r)))))"

text \<open>The plan to run and the plan the composition sees.\<close>

definition obtain_plan ::
  "'w runtime \<Rightarrow> run_args \<Rightarrow> execution_context \<Rightarrow> execution_state \<Rightarrow> compiled_context \<Rightarrow>
   (agent_outcome + agent_plan \<times> agent_plan, 'w) rt" where
  "obtain_plan d a x st ctx =
     (case ra_plan_override a of
        Some plan \<Rightarrow>
          and_then (tr_event d ''planning'' ''plan_resumed''
              [(''step_count'', str_nat (length (plan_steps plan)))])
            (ret (Inr (plan, case ra_composition_override a of None \<Rightarrow> plan | Some p \<Rightarrow> p)))
      | None \<Rightarrow>
          bind_act (interpret_stage d (ra_principal a) x st ctx) (\<lambda>q. case q of
             Inl o1 \<Rightarrow> ret (Inl o1)
           | Inr interpretation \<Rightarrow>
               bind_act (plan_stage d (ra_principal a) x st ctx interpretation) (\<lambda>q1.
                 ret (case q1 of Inl o1 \<Rightarrow> Inl o1 | Inr plan \<Rightarrow> Inr (plan, plan)))))"

section \<open>The plan\<close>

fun validate_steps ::
  "execution_context \<Rightarrow> 'w tool_registry \<Rightarrow> plan_step list \<Rightarrow> tool_error + unit" where
  "validate_steps x g [] = Inr ()"
| "validate_steps x g (p # ps) =
     (if ec_authorized_tool_versions x \<noteq> [] \<and>
         ps_tool_id p @ ''@'' @ (case ps_tool_version p of None \<Rightarrow> ''None'' | Some v \<Rightarrow> v)
           \<notin> set (ec_authorized_tool_versions x)
      then Inl (plain_error ''tool_version_not_authorized'')
      else
        (case get_tool (ps_tool_id p) (ps_tool_version p) False g of
           Inl e \<Rightarrow> Inl e
         | Inr _ \<Rightarrow> validate_steps x g ps))"

definition validate_plan ::
  "'w runtime \<Rightarrow> agent_plan \<Rightarrow> execution_context \<Rightarrow> 'w tool_registry \<Rightarrow> tool_error + unit" where
  "validate_plan d plan x g =
     (if int (length (plan_steps plan)) > min (cfg_max_plan_steps (rd_config d)) (ec_max_steps x)
      then Inl (plain_error ''plan_too_long'')
      else validate_steps x g (plan_steps plan))"

definition compile_run ::
  "'w runtime \<Rightarrow> principal_context \<Rightarrow> execution_context \<Rightarrow> execution_state \<Rightarrow> string \<Rightarrow> tool_result list \<Rightarrow>
   (compiled_context, 'w) rt" where
  "compile_run d who x st text_in results =
     bind_act (case rd_memory d of None \<Rightarrow> ret [] | Some f \<Rightarrow> app_do (f who)) (\<lambda>memory.
       lift_result (compile_context (rd_config d) (le_float_repr (rd_lib d)) (le_object_str (rd_lib d))
         \<lparr>ci_principal = who, ci_execution = x, ci_input_text = text_in, ci_state = Some st,
          ci_prompt = rd_prompt d, ci_skills = rd_skills d, ci_memory = memory,
          ci_tool_results = results\<rparr>))"

definition context_metadata :: "compiled_context \<Rightarrow> (string, string) dict" where
  "context_metadata c =
     [(''trusted_block_count'', str_nat (length (trusted_blocks c))),
      (''untrusted_block_count'', str_nat (length (untrusted_blocks c))),
      (''dropped_block_count'', str_nat (length (cc_dropped_block_ids c)))]"

definition refuse_plan ::
  "'w runtime \<Rightarrow> principal_context \<Rightarrow> execution_context \<Rightarrow> execution_state \<Rightarrow> tool_error \<Rightarrow>
   (agent_outcome, 'w) rt" where
  "refuse_plan d who x st e =
     and_then (tr_event d ''planning'' ''plan_rejected'' [(''reason_code'', te_code e)])
       (bind_act (decision_outcome x Outcome_REFUSED
           ''The proposed plan is outside the configured runtime boundary.''
           (\<lambda>o1. o1\<lparr>ao_safety_flags := [Flag_PLAN_VALIDATION_FAILED], ao_recovery := Recovery_REFUSE,
                   ao_error_code := Some (te_code e)\<rparr>))
         (\<lambda>o1. finish d who x st o1 True))"

definition reason_digest :: "'w runtime \<Rightarrow> string \<Rightarrow> string" where
  "reason_digest d reason = digest_mapping d [(''reason'', PStr reason)]"

definition stop_without_steps ::
  "'w runtime \<Rightarrow> principal_context \<Rightarrow> execution_context \<Rightarrow> execution_state \<Rightarrow> string \<Rightarrow>
   (agent_outcome, 'w) rt" where
  "stop_without_steps d who x st reason =
     and_then (tr_event d ''planning'' ''plan_stopped''
         [(''reason_code'', if reason \<noteq> [] then reason_digest d reason else ''no_steps'')])
       (bind_act (decision_outcome x Outcome_NEEDS_INPUT ''The provider returned no executable tool step.''
           (\<lambda>o1. o1\<lparr>ao_safety_flags := [Flag_NO_RESULT], ao_recovery := Recovery_REQUEST_INPUT,
                   ao_error_code := Some ''plan_stopped_without_tool_result''\<rparr>))
         (\<lambda>o1. finish d who x st o1 True))"

section \<open>The answer\<close>

definition outcome_flags :: "safety_decision \<Rightarrow> exec_control \<Rightarrow> safety_flag list" where
  "outcome_flags dec c =
     (if xc_retry_budget_exhausted c \<and> Flag_RETRY_BUDGET_EXHAUSTED \<notin> set (sd_flags dec)
      then sd_flags dec @ [Flag_RETRY_BUDGET_EXHAUSTED] else sd_flags dec)"

definition issued_evidence ::
  "outcome_proposal \<Rightarrow> verification_result \<Rightarrow> safety_decision \<Rightarrow> string list" where
  "issued_evidence p v dec =
     (if vr_supported v \<and>
         sd_status dec \<in> {Outcome_COMPLETED, Outcome_PARTIAL, Outcome_ESCALATED}
      then op_evidence_ids p else [])"

definition issue_answer ::
  "'w runtime \<Rightarrow> run_frame \<Rightarrow> progress \<Rightarrow> outcome_proposal \<Rightarrow> (agent_outcome, 'w) rt" where
  "issue_answer d f g p =
     (case g of (x, results, risk) \<Rightarrow>
        let v = verify_outcome p results; dec = decide (rd_config d) results p v risk
        in and_then (tr_event d ''verification'' ''outcome_verified''
             [(''supported'', str_bool (vr_supported v)),
              (''evidence_coverage'', le_three_digits (rd_lib d) (vr_evidence_coverage v))])
          (bind_act get_control (\<lambda>c.
            bind_act (read_state rs_calls) (\<lambda>calls.
              bind_act (decision_outcome x (sd_status dec) (summary_for_decision p dec)
                  (\<lambda>o1. o1\<lparr>ao_evidence_ids := issued_evidence p v dec,
                          ao_safety_flags := outcome_flags dec c, ao_tool_calls := calls,
                          ao_verification := Some v,
                          ao_recovery := recovery_for_status (sd_status dec),
                          ao_human_review_required := sd_human_review_required dec,
                          ao_confidence := op_confidence p,
                          ao_error_code := sd_escalation_code dec\<rparr>))
                (\<lambda>o1. finish d (rf_principal f) x (rf_state f) o1 True)))))"

definition compose_answer ::
  "'w runtime \<Rightarrow> run_frame \<Rightarrow> progress \<Rightarrow> (agent_outcome, 'w) rt" where
  "compose_answer d f g =
     (case g of (x, results, risk) \<Rightarrow>
        bind_act (compile_run d (rf_principal f) x (rf_state f) (rf_text f) results) (\<lambda>ctx.
          and_then (tr_event d ''context'' ''result_context_compiled'' (context_metadata ctx))
            (and_then (control_do rc_check)
              (bind_act (fresh_id ''provider_request'') (\<lambda>i.
                bind_act (provider_stage d (rf_principal f) x (rf_state f) Op_COMPOSE (read_state rs_calls)
                    (provider_try d Op_COMPOSE
                       (pv_compose (rd_provider d)
                          \<lparr>cq_request_id = i, cq_context = ctx, cq_execution = x,
                           cq_plan = rf_composition_plan f, cq_tool_results = results\<rparr>)
                       (normalize_composition (le_norm (rd_lib d)))
                       (cp_metadata, \<lambda>m r. r\<lparr>cp_metadata := m\<rparr>)))
                  (\<lambda>q. case q of
                     Inl o1 \<Rightarrow> ret o1
                   | Inr r \<Rightarrow> issue_answer d f g (cp_proposal r)))))))"

definition run_plan ::
  "'w runtime \<Rightarrow> run_args \<Rightarrow> run_frame \<Rightarrow> execution_context \<Rightarrow> agent_plan \<Rightarrow> (agent_outcome, 'w) rt" where
  "run_plan d a f x plan =
     (let who = rf_principal f; st = rf_state f; n = str_nat (length (plan_steps plan));
          reason = or_else (plan_stop_reason plan) []
      in bind_act (read_state (\<lambda>s. validate_plan d plan x (xs_registry (rs_tools s)))) (\<lambda>q. case q of
           Inl e \<Rightarrow> refuse_plan d who x st e
         | Inr _ \<Rightarrow>
             and_then (tr_event d ''planning'' ''plan_accepted'' [(''step_count'', n)])
               (and_then (when_do (reason \<noteq> [])
                    (tr_event d ''planning'' ''plan_stop_condition_declared''
                      [(''reason_digest'', reason_digest d reason)]))
                 (if plan_steps plan = [] then stop_without_steps d who x st reason
                  else
                    bind_act (run_steps d f 1 (plan_steps plan)
                        (x, ra_initial_results a, ra_initial_risk a)) (\<lambda>q1. case q1 of
                      Inl o1 \<Rightarrow> ret o1
                    | Inr g \<Rightarrow>
                        and_then (tr_event d ''execution'' ''plan_steps_exhausted'' [(''step_count'', n)])
                          (compose_answer d f g))))))"

section \<open>A run\<close>

definition refuse_input ::
  "'w runtime \<Rightarrow> principal_context \<Rightarrow> execution_context \<Rightarrow> execution_state \<Rightarrow> safety_decision \<Rightarrow>
   (agent_outcome, 'w) rt" where
  "refuse_input d who x st dec =
     and_then (tr_event d ''safety'' ''direct_injection_refused''
         [(''reason_code'', or_else (sd_escalation_code dec) ''direct_injection'')])
       (bind_act (decision_outcome x (sd_status dec) ''The input is outside the runtime safety boundary.''
           (\<lambda>o1. o1\<lparr>ao_safety_flags := sd_flags dec, ao_recovery := Recovery_REFUSE,
                   ao_human_review_required := sd_human_review_required dec,
                   ao_error_code := sd_escalation_code dec\<rparr>))
         (\<lambda>o1. finish d who x st o1 False))"

definition governed_run ::
  "'w runtime \<Rightarrow> run_args \<Rightarrow> string \<Rightarrow> execution_context \<Rightarrow> execution_state \<Rightarrow> (agent_outcome, 'w) rt" where
  "governed_run d a text_in x st =
     (let who = ra_principal a
      in bind_act (compile_run d who x st text_in []) (\<lambda>ctx.
        and_then (tr_event d ''context'' ''context_compiled'' (context_metadata ctx))
          (bind_act (obtain_plan d a x st ctx) (\<lambda>q. case q of
             Inl o1 \<Rightarrow> ret o1
           | Inr (plan, composition_plan) \<Rightarrow>
               run_plan d a
                 \<lparr>rf_principal = who, rf_state = st, rf_text = text_in, rf_resource = ra_resource a,
                  rf_context = ctx, rf_stop_reason = plan_stop_reason plan,
                  rf_composition_plan = composition_plan\<rparr> x plan))))"

definition execute_body :: "'w runtime \<Rightarrow> run_args \<Rightarrow> (agent_outcome, 'w) rt" where
  "execute_body d a =
     (let text_in = strip (ra_input_text a)
      in if text_in = [] then fail ValueError
         else
           bind_act (open_run d a text_in) (\<lambda>(x, st).
             and_then (control_do rc_check)
               (case inspect_input text_in of
                  Some dec \<Rightarrow> refuse_input d (ra_principal a) x st dec
                | None \<Rightarrow> governed_run d a text_in x st)))"

text \<open>\<open>ExecutionControl(...)\<close>: the constructor checks its limits, then reads the clock.\<close>

definition run_timeout :: "'w runtime \<Rightarrow> run_args \<Rightarrow> duration option" where
  "run_timeout d a =
     (case ra_timeout a of None \<Rightarrow> cfg_execution_timeout (rd_config d) | Some t \<Rightarrow> Some t)"

definition begin_control :: "'w runtime \<Rightarrow> run_args \<Rightarrow> (unit, 'w) rt" where
  "begin_control d a =
     control_do (\<lambda>r. case mono_now (rcl_monitor r) of (t, m) \<Rightarrow>
       (let cfg = rd_config d
        in case mk_control t (run_timeout d a) (Some (cfg_max_retries cfg)) (cfg_max_total_tokens cfg)
                  (cfg_max_cost cfg) (cfg_max_tool_invocations cfg) of
             Inl e \<Rightarrow> (Inl e, r)
           | Inr c \<Rightarrow> (Inr (), \<lparr>rcl_control = c, rcl_monitor = m,
                              rcl_signal = (ra_cancellation_event a \<or> ra_cancel_event a)\<rparr>)))"

definition controlled_run :: "'w runtime \<Rightarrow> run_args \<Rightarrow> (agent_outcome, 'w) rt" where
  "controlled_run d a =
     finally_do
       (catch_if is_control_error (execute_body d a)
          (\<lambda>e. bind_act (read_state rs_active) (\<lambda>active. case active of
             None \<Rightarrow> fail e | Some r \<Rightarrow> control_failure d r e)))
       (\<lambda>s. s\<lparr>rs_active := None\<rparr>)"

definition execute :: "'w runtime \<Rightarrow> run_args \<Rightarrow> (agent_outcome, 'w) rt" where
  "execute d a =
     and_then (assert_authority d (ra_agent_id a) (ra_agent_version a))
       (if ra_cancellation_event a \<and> ra_cancel_event a then fail ValueError
        else if (case ra_max_steps a of None \<Rightarrow> False
                 | Some n \<Rightarrow> \<not> (1 \<le> n \<and> n \<le> cfg_max_plan_steps (rd_config d))) then fail ValueError
        else and_then (begin_control d a) (controlled_run d a))"

text \<open>\<open>execute_event\<close>: the identities of the event are forced on the arguments.\<close>

definition event_input ::
  "event_envelope \<Rightarrow> string option \<Rightarrow> (event_envelope \<Rightarrow> string option) option \<Rightarrow> string" where
  "event_input e given extractor =
     (case given of
        Some t \<Rightarrow> t
      | None \<Rightarrow>
          (case Option.bind extractor (\<lambda>f. f e) of
             Some t \<Rightarrow> t
           | None \<Rightarrow> ee_source e @ '':'' @ ee_event_type e @ '':'' @ ee_event_id e))"

definition execute_event ::
  "'w runtime \<Rightarrow> event_envelope \<Rightarrow> principal_context \<Rightarrow> string option \<Rightarrow>
   (event_envelope \<Rightarrow> string option) option \<Rightarrow> event_trigger option \<Rightarrow> int \<Rightarrow> run_args \<Rightarrow>
   (agent_outcome, 'w) rt" where
  "execute_event d e who given extractor trigger attempt a =
     (let t = event_input e given extractor
      in if blank t then fail ValueError
         else execute d (a
           \<lparr>ra_principal := who, ra_input_text := t,
            ra_correlation_id := Some (or_else (ee_correlation_id e) (''event:'' @ ee_event_id e)),
            ra_event_id := Some (ee_event_id e),
            ra_trigger_id := Some (case trigger of
              None \<Rightarrow> ee_source e @ '':'' @ ee_event_type e | Some g \<Rightarrow> et_trigger_id g),
            ra_causation_id := ee_causation_id e, ra_attempt := attempt\<rparr>))"

end
