(* ===== verification/Runtime_Resume.thy ===== *)
theory Runtime_Resume
  imports Runtime_Execute
begin

text \<open>
  \<open>resume\<close> of \<open>runtime/execution.py\<close>: a paused run is found in memory or restored from its checkpoint,
  its request is decided, and an exact approval runs the rest of the plan with the approved digest;
  every other decision closes the run. The traces before and after the pause are joined.
\<close>

section \<open>Closing a paused run\<close>

text \<open>The recorder of the pending run is put in place of the active one.\<close>

definition take_trace :: "pending_approval \<Rightarrow> (unit, 'w) rt" where
  "take_trace p = tr_update (\<lambda>_. pa_trace p)"

definition drop_pending :: "string \<Rightarrow> (unit, 'w) rt" where
  "drop_pending i = change_state (\<lambda>s. s\<lparr>rs_pending := AList.delete i (rs_pending s)\<rparr>)"

definition trace_for :: "string \<Rightarrow> (run_trace, 'w) rt" where
  "trace_for i =
     bind_act (read_state (\<lambda>s. map_of (rs_traces s) i)) (\<lambda>t. case t of
        None \<Rightarrow> fail KeyError | Some x \<Rightarrow> ret x)"

definition pending_history ::
  "'w runtime \<Rightarrow> pending_approval \<Rightarrow> outcome_status \<Rightarrow> (run_trace, 'w) rt" where
  "pending_history d p status =
     bind_act (export_pending d p (Some status)) (\<lambda>current. ret
       (case pa_trace_prefix p of
          None \<Rightarrow> current
        | Some before \<Rightarrow>
            (let extra = drop (pa_prefix_event_count p) (rt_events current)
             in if extra = [] then before
                else append_trace_events before extra (rt_generated_at current))))"

text \<open>What a decision that does not approve closes the run with.\<close>

record closure =
  cls_status :: outcome_status
  cls_summary :: string
  cls_error :: string
  cls_event :: string
  cls_recovery :: "recovery_action option"
  cls_review :: "bool option"

definition closed_outcome :: "closure \<Rightarrow> string \<Rightarrow> agent_outcome \<Rightarrow> agent_outcome" where
  "closed_outcome c i o1 =
     o1\<lparr>ao_outcome_id := i, ao_status := cls_status c, ao_summary := cls_summary c,
        ao_recovery := (case cls_recovery c of None \<Rightarrow> recovery_for_status (cls_status c) | Some r \<Rightarrow> r),
        ao_human_review_required := (case cls_review c of
          None \<Rightarrow> cls_status c = Outcome_ESCALATED | Some b \<Rightarrow> b),
        ao_error_code := Some (cls_error c)\<rparr>"

definition join_closed_trace ::
  "'w runtime \<Rightarrow> pending_approval \<Rightarrow> agent_outcome \<Rightarrow> (agent_outcome, 'w) rt" where
  "join_closed_trace d p o1 =
     (if pa_trace_prefix p = None then ret o1
      else
        bind_act (read_state rs_trace) (\<lambda>tr.
          bind_act (pending_history d (p\<lparr>pa_trace := tr\<rparr>) (ao_status o1)) (\<lambda>history.
            bind_act (trace_for (ao_execution_id o1)) (\<lambda>current.
              let merged = history\<lparr>rt_trace_id := rt_trace_id current,
                                  rt_final_status := rt_final_status current,
                                  rt_generated_at := rt_generated_at current\<rparr>
              in and_then (store_trace (ao_execution_id o1) merged)
                   (ret (o1\<lparr>ao_trace_id := Some (rt_trace_id merged)\<rparr>))))))"

text \<open>
  The recorder of a paused run is one object: what is recorded on it before an error is on the pending
  entry as well.
\<close>

definition share_trace :: "string \<Rightarrow> 'w runtime_state \<Rightarrow> 'w runtime_state" where
  "share_trace i s =
     (case map_of (rs_pending s) i of
        None \<Rightarrow> s
      | Some p \<Rightarrow> s\<lparr>rs_pending := AList.update i (p\<lparr>pa_trace := rs_trace s\<rparr>) (rs_pending s)\<rparr>)"

definition close_pending ::
  "'w runtime \<Rightarrow> pending_approval \<Rightarrow> closure \<Rightarrow> approval_decision \<Rightarrow> (agent_outcome, 'w) rt" where
  "close_pending d p c dec =
     (let x = pa_execution p; who = pa_principal p;
          md = approval_metadata d (pa_request p) (Some dec) @ [(''error_code'', cls_error c)]
      in finally_do (and_then (take_trace p)
        (and_then (tr_event d ''approval'' (cls_event c) md)
          (and_then (run_audit d (cls_event c) who x (Some (cls_status c)) [Flag_APPROVAL_REQUIRED]
               [tc_tool_id (ap_tool_call (ar_action (pa_request p)))] md)
            (bind_act (app_do (sp_open (rd_store d) who (ec_agent_id x) (ec_agent_version x)
                 (Some (ec_state_id x)))) (\<lambda>st.
              bind_act (fresh_id ''outcome'') (\<lambda>i.
                bind_act (finish d who x st (closed_outcome c i (pa_outcome p)) True) (\<lambda>o1.
                  bind_act (join_closed_trace d p o1) (\<lambda>o2.
                    and_then (drop_pending (ec_execution_id x)) (ret o2)))))))))
           (share_trace (ec_execution_id x)))"

definition stale_closure :: "string \<Rightarrow> closure" where
  "stale_closure code =
     \<lparr>cls_status = Outcome_REFUSED,
      cls_summary = ''The approval evidence does not match the reviewed action.'', cls_error = code,
      cls_event = ''approval_stale'', cls_recovery = None, cls_review = None\<rparr>"

definition rejected_closure :: closure where
  "rejected_closure =
     \<lparr>cls_status = Outcome_REFUSED, cls_summary = ''The reviewer rejected the proposed action.'',
      cls_error = ''approval_rejected'', cls_event = ''approval_rejected'', cls_recovery = None,
      cls_review = None\<rparr>"

definition changes_closure :: closure where
  "changes_closure =
     \<lparr>cls_status = Outcome_NEEDS_INPUT,
      cls_summary = ''The reviewer requested changes before the action can run.'',
      cls_error = ''approval_changes_requested'', cls_event = ''approval_changes_requested'',
      cls_recovery = None, cls_review = None\<rparr>"

definition expired_closure :: closure where
  "expired_closure =
     \<lparr>cls_status = Outcome_ESCALATED,
      cls_summary = ''The approval expired before the action could run.'',
      cls_error = ''approval_expired'', cls_event = ''approval_expired'',
      cls_recovery = Some Recovery_ESCALATE, cls_review = Some True\<rparr>"

text \<open>How a checked decision closes the run; \<open>None\<close> lets it go on.\<close>

definition closure_of :: "approval_decision_status option \<Rightarrow> string option \<Rightarrow> closure option" where
  "closure_of status error =
     (case error of
        Some code \<Rightarrow> Some (stale_closure code)
      | None \<Rightarrow>
          (case status of
             Some Approval_REJECTED \<Rightarrow> Some rejected_closure
           | Some Approval_REQUEST_CHANGES \<Rightarrow> Some changes_closure
           | Some Approval_EXPIRED \<Rightarrow> Some expired_closure
           | _ \<Rightarrow> None))"

section \<open>Running on\<close>

definition resume_args :: "pending_approval \<Rightarrow> run_args" where
  "resume_args p =
     (let x = pa_execution p in
      \<lparr>ra_principal = pa_principal p, ra_input_text = pa_input_text p, ra_agent_id = ec_agent_id x,
       ra_agent_version = ec_agent_version x, ra_authorized_tool_ids = ec_authorized_tool_ids x,
       ra_authorized_tool_versions = ec_authorized_tool_versions x,
       ra_granted_permissions = ec_granted_permissions x,
       ra_approved_action_digests = ec_approved_action_digests x @ [ar_action_digest (pa_request p)],
       ra_state_id = Some (ec_state_id x), ra_execution_id = Some (ec_execution_id x),
       ra_environment = Some (ec_environment x), ra_max_risk_level = Some (ec_max_risk_level x),
       ra_max_steps = Some (ec_max_steps x), ra_correlation_id = Some (ec_correlation_id x),
       ra_parent_execution_id = ec_parent_execution_id x, ra_delegation_id = ec_delegation_id x,
       ra_delegation_depth = ec_delegation_depth x, ra_delegation_path = ec_delegation_path x,
       ra_event_id = ec_event_id x, ra_trigger_id = ec_trigger_id x,
       ra_causation_id = ec_causation_id x, ra_attempt = ec_attempt x, ra_resource = pa_resource p,
       ra_timeout = None, ra_cancellation_event = False, ra_cancel_event = False,
       ra_plan_override = Some (pa_resume_plan p), ra_composition_override = Some (pa_plan p),
       ra_initial_calls = pa_tool_calls p, ra_initial_results = pa_tool_results p,
       ra_initial_risk = pa_highest_risk p, ra_allow_existing = True\<rparr>)"

definition merge_bundle :: "'w runtime \<Rightarrow> run_trace \<Rightarrow> agent_outcome \<Rightarrow> (agent_outcome, 'w) rt" where
  "merge_bundle d previous o1 =
     bind_act (trace_for (ao_execution_id o1)) (\<lambda>current.
       bind_act (lift_result (merge_traces (rd_cost_model d) previous current)) (\<lambda>merged.
         and_then (store_trace (ao_execution_id o1) merged)
           (ret (o1\<lparr>ao_trace_id := Some (rt_trace_id merged)\<rparr>))))"

text \<open>A run that paused again keeps the joined trace as the prefix of its next continuation.\<close>

definition carry_prefix :: "'w runtime \<Rightarrow> string \<Rightarrow> run_trace \<Rightarrow> (unit, 'w) rt" where
  "carry_prefix d i merged =
     bind_act (read_state (\<lambda>s. map_of (rs_pending s) i)) (\<lambda>paused_again. case paused_again of
        None \<Rightarrow> ret ()
      | Some q \<Rightarrow>
          bind_act (export_pending d q None) (\<lambda>t.
            let q1 = q\<lparr>pa_trace_prefix := Some merged, pa_prefix_event_count := length (rt_events t)\<rparr>
            in and_then (set_pending i q1) (persist_checkpoint d q1 (Some merged))))"

definition merge_resumed ::
  "'w runtime \<Rightarrow> pending_approval \<Rightarrow> agent_outcome \<Rightarrow> (agent_outcome, 'w) rt" where
  "merge_resumed d p o1 =
     bind_act (pending_history d p (ao_status (pa_outcome p))) (\<lambda>previous.
       bind_act (merge_bundle d previous o1) (\<lambda>o2.
         bind_act (trace_for (ao_execution_id o1)) (\<lambda>merged.
           and_then (carry_prefix d (ao_execution_id o1) merged) (ret o2))))"

definition mark_consumed :: "string \<Rightarrow> (unit, 'w) rt" where
  "mark_consumed i =
     bind_act (read_state (\<lambda>s. i \<in> set (rs_consumed s))) (\<lambda>used.
       if used then fail ValueError
       else change_state (\<lambda>s. s\<lparr>rs_consumed := i # rs_consumed s\<rparr>))"

definition consume_request :: "'w runtime \<Rightarrow> string \<Rightarrow> (unit, 'w) rt" where
  "consume_request d i =
     (case Option.bind (rd_broker d) apt_consume of None \<Rightarrow> ret () | Some f \<Rightarrow> app_do (f i))"

definition record_approval ::
  "'w runtime \<Rightarrow> pending_approval \<Rightarrow> approval_decision \<Rightarrow> (pending_approval, 'w) rt" where
  "record_approval d p dec =
     (let md = approval_metadata d (pa_request p) (Some dec)
      in and_then (take_trace p)
        (and_then (tr_event d ''approval'' ''approval_approved'' md)
          (and_then (run_audit d ''approval_approved'' (pa_principal p) (pa_execution p) None []
               [tc_tool_id (ap_tool_call (ar_action (pa_request p)))] md)
            (bind_act (read_state rs_trace) (\<lambda>tr. ret (p\<lparr>pa_trace := tr\<rparr>))))))"

definition continue_run ::
  "'w runtime \<Rightarrow> string \<Rightarrow> pending_approval \<Rightarrow> approval_decision \<Rightarrow> (agent_outcome, 'w) rt" where
  "continue_run d i p dec =
     bind_act (record_approval d p dec) (\<lambda>p1.
       and_then (drop_pending i)
         (bind_act (catch (execute d (resume_args p1)) (\<lambda>e. and_then (set_pending i p1) (fail e))) (\<lambda>o1.
           and_then (mark_consumed (ar_request_id (pa_request p1)))
             (and_then (consume_request d (ar_request_id (pa_request p1)))
               (merge_resumed d p1 o1)))))"

section \<open>Resuming\<close>

definition find_pending ::
  "'w runtime \<Rightarrow> string \<Rightarrow> principal_context option \<Rightarrow> (pending_approval, 'w) rt" where
  "find_pending d i who =
     bind_act (read_state (\<lambda>s. map_of (rs_pending s) i)) (\<lambda>q.
       bind_act (case (q, who) of
           (None, Some w) \<Rightarrow> restore_pending d w i
         | _ \<Rightarrow> ret q) (\<lambda>r. case r of
            None \<Rightarrow> fail KeyError
          | Some p \<Rightarrow>
              if (case who of None \<Rightarrow> False | Some w \<Rightarrow> pa_principal p \<noteq> w) then fail ValueError
              else ret p))"

definition find_decision ::
  "'w runtime \<Rightarrow> approval_request \<Rightarrow> approval_decision option \<Rightarrow> (approval_decision option, 'w) rt" where
  "find_decision d r given =
     (case given of
        Some dec \<Rightarrow> ret (Some dec)
      | None \<Rightarrow>
          (case rd_broker d of
             None \<Rightarrow> ret None
           | Some b \<Rightarrow> app_do (apt_get_decision b (ar_request_id r))))"

text \<open>\<open>approval_decision or approval\<close>; two decisions are an error.\<close>

definition resume ::
  "'w runtime \<Rightarrow> string \<Rightarrow> approval_decision option \<Rightarrow> approval_decision option \<Rightarrow>
   principal_context option \<Rightarrow> (agent_outcome, 'w) rt" where
  "resume d i decision approval who =
     (if decision \<noteq> None \<and> approval \<noteq> None then fail ValueError
      else
        bind_act (find_pending d i who) (\<lambda>p.
          and_then (assert_authority d (ec_agent_id (pa_execution p)) (ec_agent_version (pa_execution p)))
            (bind_act (find_decision d (pa_request p) (opt_or decision approval)) (\<lambda>found. case found of
               None \<Rightarrow> ret (pa_outcome p)
             | Some dec \<Rightarrow>
                 bind_act (check_approval (pa_request p) dec) (\<lambda>(status, error).
                   case closure_of status error of
                     Some c \<Rightarrow> close_pending d p c dec
                   | None \<Rightarrow> continue_run d i p dec)))))"

definition pending_request :: "string \<Rightarrow> (approval_request option, 'w) rt" where
  "pending_request i = read_state (\<lambda>s. map_option pa_request (map_of (rs_pending s) i))"

end
