(* ===== verification/Runtime_Invariant.thy ===== *)
theory Runtime_Invariant
  imports Runtime_Resume
begin

text \<open>
  What every run of the runtime keeps. The locales are the interface between the runtime and what it
  is plugged into: an invariant that the application's ports (\<open>port_invariant\<close>), the provider and the
  handlers of granted calls (\<open>call_invariant\<close>) keep, and that does not look at the runtime's own list
  of tool calls (\<open>run_invariant\<close>). Inside them every action of a run, in the order of the code, is
  shown to keep the invariant, and with \<open>t\<close> to come back.
\<close>

section \<open>Granted calls\<close>

text \<open>A digest a broker approves: it answers some request for it with an approval of exactly that request.\<close>

definition broker_approves :: "'w runtime \<Rightarrow> string \<Rightarrow> bool" where
  "broker_approves d g \<longleftrightarrow>
     (\<exists>b r w dec w'. rd_broker d = Some b \<and> apt_submit b r w = (Inr (Some dec), w') \<and>
        ar_action_digest r = g \<and> ad_action_digest dec = g \<and> ad_request_id dec = ar_request_id r \<and>
        ad_decision dec = Approval_APPROVED)"

text \<open>An execution context of the run: the caller's authority, plus digests the broker approved.\<close>

definition acts_for :: "'w runtime \<Rightarrow> run_args \<Rightarrow> execution_context \<Rightarrow> bool" where
  "acts_for d a x \<longleftrightarrow>
     (\<exists>i state_id. x\<lparr>ec_approved_action_digests := []\<rparr> =
        (execution_of d a i state_id)\<lparr>ec_approved_action_digests := []\<rparr>) \<and>
     (\<forall>g \<in> set (ec_approved_action_digests x).
        g \<in> set (ra_approved_action_digests a) \<or> broker_approves d g)"

definition call_granted ::
  "'w runtime \<Rightarrow> run_args \<Rightarrow> execution_context \<Rightarrow> 'w tool_definition \<Rightarrow> (string, pyval) dict \<Rightarrow> bool" where
  "call_granted d a x tool arguments \<longleftrightarrow>
     acts_for d a x \<and> ceiling_denial x tool = None \<and>
     (td_requires_approval tool \<longrightarrow> approved_exactly d x tool arguments)"

lemma ceiling_denial_None:
  "ceiling_denial x tool = None \<longleftrightarrow>
     td_tool_id tool \<in> set (ec_authorized_tool_ids x) \<and>
     set (td_required_permissions tool) \<subseteq> set (ec_granted_permissions x) \<and>
     (td_allowed_environments tool = [] \<or> ec_environment x \<in> set (td_allowed_environments tool)) \<and>
     td_risk_level tool \<le> ec_max_risk_level x"
  by (auto simp: ceiling_denial_def list_all_iff not_less [symmetric])

lemma acts_for_approve:
  "acts_for d a x \<Longrightarrow> broker_approves d g \<Longrightarrow> acts_for d a (approve_digest g x)"
  by (auto simp: acts_for_def approve_digest_def)

section \<open>What recording leaves alone\<close>

lemma event_state_same [simp]:
  "rs_tools (event_state d stage ty md s) = rs_tools s \<and> rs_calls (event_state d stage ty md s) = rs_calls s"
  by (simp add: event_state_def split: prod.splits)

lemma replay_events_same [simp]:
  "rs_tools (replay_events d s) = rs_tools s \<and> rs_calls (replay_events d s) = rs_calls s"
proof -
  have "rs_tools (fold (\<lambda>(ty, md). event_state d ''tool'' ty md) es s) = rs_tools s \<and>
      rs_calls (fold (\<lambda>(ty, md). event_state d ''tool'' ty md) es s) = rs_calls s" for es
    by (induction es arbitrary: s) (simp_all split: prod.splits)
  then show ?thesis by (simp add: replay_events_def)
qed

section \<open>The interface\<close>

definition port_keeps :: "('w \<Rightarrow> bool) \<Rightarrow> ('a, 'w) app_op \<Rightarrow> bool" where
  "port_keeps P f \<longleftrightarrow> (\<forall>w. P w \<longrightarrow> P (snd (f w)))"

definition governance_keeps :: "('w \<Rightarrow> bool) \<Rightarrow> 'w runtime \<Rightarrow> bool" where
  "governance_keeps P d \<longleftrightarrow>
     (\<forall>p. port_keeps P (rd_permission d p)) \<and>
     (\<forall>f who x tool action. rd_approval_policy d = Some f \<longrightarrow> port_keeps P (f who x tool action)) \<and>
     (\<forall>b. rd_broker d = Some b \<longrightarrow> (\<forall>r. port_keeps P (apt_submit b r)) \<and>
        (\<forall>i. port_keeps P (apt_get_decision b i)) \<and>
        (\<forall>f i. apt_consume b = Some f \<longrightarrow> port_keeps P (f i)))"

definition services_keep :: "('w \<Rightarrow> bool) \<Rightarrow> 'w runtime \<Rightarrow> bool" where
  "services_keep P d \<longleftrightarrow>
     (\<forall>g i v. rd_guard d = Some g \<longrightarrow> port_keeps P (g i v)) \<and>
     (\<forall>who i. port_keeps P (sp_find (rd_store d) who i)) \<and>
     (\<forall>who i v sid. port_keeps P (sp_open (rd_store d) who i v sid)) \<and>
     (\<forall>st v. port_keeps P (sp_save (rd_store d) st v)) \<and>
     (\<forall>f who. rd_memory d = Some f \<longrightarrow> port_keeps P (f who))"

text \<open>
  \<open>P\<close> is the invariant of the application's state that the ports keep, and \<open>I\<close> that of the runtime,
  which depends on the tools and the recorded calls only.
\<close>

locale port_invariant =
  fixes t :: bool and d :: "'w runtime" and P :: "'w \<Rightarrow> bool" and I :: "'w runtime_state \<Rightarrow> bool"
  assumes governance: "governance_keeps P d"
    and services: "services_keep P d"
    and app: "I s \<Longrightarrow> P (xs_app (rs_tools s))"
    and app_change: "I s \<Longrightarrow> P w \<Longrightarrow> I (s\<lparr>rs_tools := (rs_tools s)\<lparr>xs_app := w\<rparr>\<rparr>)"
    and control: "I s \<Longrightarrow> xc_deadline (rcl_control c) = xc_deadline (rcl_control (xs_caller (rs_tools s))) \<Longrightarrow>
      I (s\<lparr>rs_tools := (rs_tools s)\<lparr>xs_caller := c\<rparr>\<rparr>)"
    and quiet: "I s \<Longrightarrow> rs_tools s' = rs_tools s \<Longrightarrow> rs_calls s' = rs_calls s \<Longrightarrow> I s'"
begin

section \<open>Basic actions\<close>

lemma app_runs: "port_keeps P f \<Longrightarrow> keeps t I (app_do f)"
  unfolding app_do_def by (rule runs_op) (simp add: port_keeps_def case_prod_beta app app_change)

lemma app_value: "port_keeps P f \<Longrightarrow> runs t I (app_do f) (\<lambda>v. \<exists>w w'. f w = (Inr v, w'))"
  by (rule runs_value [OF app_runs]) (auto simp: app_do_def lift_op_def split: prod.splits)

lemma permission_runs [runs_rules]: "keeps t I (app_do (rd_permission d p))"
  using governance by (intro app_runs) (simp add: governance_keeps_def)

lemma find_runs [runs_rules]: "keeps t I (app_do (sp_find (rd_store d) who i))"
  and open_runs [runs_rules]: "keeps t I (app_do (sp_open (rd_store d) who i v sid))"
  and save_runs [runs_rules]: "keeps t I (app_do (sp_save (rd_store d) st w))"
  using services by (simp_all add: app_runs services_keep_def)

lemma control_runs: "(\<And>r. xc_deadline (rcl_control (snd (f r))) = xc_deadline (rcl_control r)) \<Longrightarrow>
    keeps t I (control_do f)"
  unfolding control_do_def by (rule runs_op) (simp add: control case_prod_beta)

lemma read_control_deadline:
  "read_control r = (q, r1) \<Longrightarrow> rcl_control r1 = rcl_control r"
  by (auto simp: read_control_def split: prod.splits if_splits)

lemma check_runs [runs_rules]: "keeps t I (control_do rc_check)"
  by (rule control_runs) (auto simp: rc_check_def dest: read_control_deadline split: prod.splits)

lemma invocation_runs [runs_rules]: "keeps t I (control_do rc_tool_invocation)"
  by (rule control_runs)
    (auto simp: rc_tool_invocation_def rc_op_def record_tool_invocation_def Let_def
      dest!: read_control_deadline split: prod.splits sum.splits if_splits)

lemma usage_runs [runs_rules]: "keeps t I (control_do (rc_usage i out cost))"
  by (rule control_runs)
    (auto simp: rc_usage_def rc_op_def record_provider_usage_def Let_def
      dest!: read_control_deadline split: prod.splits sum.splits if_splits)

lemma bind_runs [runs_rules]:
  "keeps t I (control_do (\<lambda>r. case bind_execution i (rcl_control r) of (q, c) \<Rightarrow> (q, r\<lparr>rcl_control := c\<rparr>)))"
  by (rule control_runs) (auto simp: bind_execution_def split: prod.splits if_splits)

lemma quiet_runs: "(\<And>s. rs_tools (f s) = rs_tools s \<and> rs_calls (f s) = rs_calls s) \<Longrightarrow> keeps t I (change_state f)"
  by (rule runs_change) (metis quiet)

lemma quiet_op: "(\<And>s. rs_tools (snd (f s)) = rs_tools s \<and> rs_calls (snd (f s)) = rs_calls s) \<Longrightarrow> keeps t I (lift_op f)"
  by (rule runs_op) (metis quiet)

lemma recording_runs [runs_rules]:
  "keeps t I (tr_event d stage ty md)" "keeps t I (tr_update f)"
  "keeps t I (run_audit d et who x st fl ids md)" "keeps t I (set_pending i p)"
  "keeps t I (store_trace i tr)" "keeps t I (set_active_step step tool)" "keeps t I (drop_pending i)"
  unfolding tr_event_def tr_update_def run_audit_def set_pending_def store_trace_def set_active_step_def
    drop_pending_def
  by (rule quiet_runs; simp add: Let_def split: prod.splits)+

lemma reading_runs [runs_rules]:
  "keeps t I (fresh_id p)" "keeps t I read_clock" "keeps t I (export_run d st)"
  "keeps t I (export_pending d q st)" "keeps t I get_control"
  unfolding fresh_id_def read_clock_def export_run_def export_pending_def get_control_def
  by (rule quiet_op runs_read; simp split: prod.splits)+

lemma trace_execution_runs [runs_rules]: "keeps t I (trace_execution r)"
  unfolding trace_execution_def by (intro runs_rules)

lemma call_id_runs [runs_rules]: "keeps t I (call_id_for i)"
  unfolding call_id_for_def by (intro runs_rules) simp

section \<open>Governance\<close>

definition step_ok :: "execution_context \<Rightarrow> 'w tool_definition \<Rightarrow> (string, pyval) dict \<Rightarrow> bool" where
  "step_ok x tool arguments \<longleftrightarrow>
     ceiling_denial x tool = None \<and> (td_requires_approval tool \<longrightarrow> approved_exactly d x tool arguments)"

lemma policy_decision_runs [runs_rules]: "keeps t I (runtime_policy_decision who x tool al re ap res)"
  unfolding runtime_policy_decision_def by (intro runs_rules)

lemma deny_runs: "runs t I (deny_permission p who x tool reason ap) (\<lambda>p. \<not> pm_allowed p)"
  unfolding deny_permission_def by (intro runs_rules) simp_all

lemma enforce_runs:
  "runs t I (enforce_ceiling d p who x tool arguments) (\<lambda>p. pm_allowed p \<longrightarrow> step_ok x tool arguments)"
  unfolding enforce_ceiling_def
  by (intro runs_rules runs_weaken [OF deny_runs]) (auto simp: step_ok_def needs_approval_def)

lemma authorize_runs:
  "runs t I (authorize_step d who x tool arguments res) (\<lambda>p. pm_allowed p \<longrightarrow> step_ok x tool arguments)"
  unfolding authorize_step_def
  by (intro runs_rules runs_weaken [OF deny_runs] enforce_runs) auto

lemma check_approval_runs:
  "runs t I (check_approval r dec) (\<lambda>q. fst q = Some Approval_APPROVED \<longrightarrow>
     ad_request_id dec = ar_request_id r \<and> ad_action_digest dec = ar_action_digest r \<and>
     ad_decision dec = Approval_APPROVED)"
  unfolding check_approval_def
  by (intro runs_rules) (simp_all add: accepted_approval_exact)

section \<open>Ending a run\<close>

lemma decision_outcome_runs [runs_rules]: "keeps t I (decision_outcome x st summary upd)"
  unfolding decision_outcome_def by (intro runs_rules)

lemma save_outcome_runs [runs_rules]: "keeps t I (save_outcome d x st o1)"
  unfolding save_outcome_def by (intro runs_rules) simp_all

lemma delegation_end_runs [runs_rules]: "keeps t I (delegation_end d x st)"
  unfolding delegation_end_def by (intro runs_rules)

lemma finish_runs [runs_rules]: "keeps t I (finish d who x st o1 save)"
  unfolding finish_def by (intro runs_rules) simp_all

lemma provider_failure_runs [runs_rules]: "keeps t I (provider_failure d who x st op calls e)"
  unfolding provider_failure_def by (intro runs_rules)

lemma persist_runs [runs_rules]: "keeps t I (persist_checkpoint d p tr)"
  unfolding persist_checkpoint_def by (intro runs_rules) simp_all

lemma remember_runs [runs_rules]: "keeps t I (remember_pending d p)"
  unfolding remember_pending_def by (intro runs_rules)

lemma restore_runs [runs_rules]: "keeps t I (restore_pending d who i)"
  unfolding restore_pending_def by (intro runs_rules) simp_all

lemma authority_runs [runs_rules]: "keeps t I (assert_authority d i v)"
  unfolding assert_authority_def
  by (intro runs_rules app_runs) (use services in \<open>auto simp: services_keep_def\<close>)

section \<open>Closing a paused run\<close>

lemma trace_for_runs [runs_rules]: "keeps t I (trace_for i)"
  unfolding trace_for_def by (intro runs_rules) simp

lemma history_runs [runs_rules]: "keeps t I (pending_history d p st)"
  unfolding pending_history_def by (intro runs_rules) simp

lemma join_closed_runs [runs_rules]: "keeps t I (join_closed_trace d p o1)"
  unfolding join_closed_trace_def by (intro runs_rules) simp_all

lemma take_trace_runs [runs_rules]: "keeps t I (take_trace p)"
  unfolding take_trace_def by (intro runs_rules)

lemma close_pending_runs [runs_rules]: "keeps t I (close_pending d p c dec)"
  unfolding close_pending_def Let_def
  by (intro runs_finally runs_rules) (auto simp: share_trace_def elim!: quiet split: option.splits)

lemma merge_bundle_runs [runs_rules]: "keeps t I (merge_bundle d tr o1)"
  unfolding merge_bundle_def by (intro runs_rules) simp_all

lemma carry_prefix_runs [runs_rules]: "keeps t I (carry_prefix d i tr)"
  unfolding carry_prefix_def by (intro runs_rules) simp_all

lemma merge_resumed_runs [runs_rules]: "keeps t I (merge_resumed d p o1)"
  unfolding merge_resumed_def by (intro runs_rules) simp_all

lemma mark_consumed_runs [runs_rules]: "keeps t I (mark_consumed i)"
  unfolding mark_consumed_def by (intro runs_rules quiet_runs) simp_all

lemma consume_runs [runs_rules]: "keeps t I (consume_request d i)"
  unfolding consume_request_def
  by (intro runs_rules app_runs)
    (use governance in \<open>auto simp: governance_keeps_def split: Option.bind_splits\<close>)

end

section \<open>Governance of a step\<close>

text \<open>
  A run also calls the provider and the handlers of granted calls; \<open>known\<close> holds of the tools a registry
  in such a state resolves.
\<close>

locale call_invariant = port_invariant t d P I
  for t :: bool and d :: "'w runtime" and P :: "'w \<Rightarrow> bool" and I :: "'w runtime_state \<Rightarrow> bool" +
  fixes a :: run_args and known :: "'w tool_definition \<Rightarrow> bool"
  assumes resolved: "I s \<Longrightarrow> get_tool i v False (xs_registry (rs_tools s)) = Inr tool \<Longrightarrow> known tool"
    and interpret_call: "pv_interpret (rd_provider d) = Some f \<Longrightarrow>
      keeps t I (invoke_provider d Op_INTERPRET (f iq))"
    and plan_call: "keeps t I (invoke_provider d Op_PLAN (pv_plan (rd_provider d) pq))"
    and compose_call: "keeps t I (invoke_provider d Op_COMPOSE (pv_compose (rd_provider d) cq))"
    and tool_call: "known tool \<Longrightarrow> call_granted d a x tool (ps_arguments step) \<Longrightarrow>
      keeps t I (invoke_step d x tool step)"
begin

text \<open>What the governance of a step guarantees of its verdict.\<close>

definition verdict_ok :: "'w tool_definition \<Rightarrow> plan_step \<Rightarrow> verdict \<Rightarrow> bool" where
  "verdict_ok tool step v \<longleftrightarrow>
     acts_for d a (vd_execution v) \<and>
     (pm_allowed (vd_permission v) \<longrightarrow> step_ok (vd_execution v) tool (ps_arguments step))"

lemma apply_decision_runs:
  assumes "rd_broker d = Some b" "apt_submit b r w = (Inr (Some dec), w')"
    and v: "verdict_ok tool step v" and x: "acts_for d a x"
  shows "runs t I (apply_decision d who x tool step res v r dec) (verdict_ok tool step)"
  unfolding apply_decision_def
proof (rule runs_bind [OF check_approval_runs], rule runs_prod, rule runs_let, rule runs_if)
  fix q and status :: "approval_decision_status option" and error :: "string option"
  assume q: "fst q = Some Approval_APPROVED \<longrightarrow>
     ad_request_id dec = ar_request_id r \<and> ad_action_digest dec = ar_action_digest r \<and>
     ad_decision dec = Approval_APPROVED" "q = (status, error)"
    and ok: "error = None \<and> status = Some Approval_APPROVED"
  with assms(1,2) have "broker_approves d (ar_action_digest r)" unfolding broker_approves_def by fastforce
  with x have "acts_for d a (approve_digest (ar_action_digest r) x)" by (rule acts_for_approve)
  then show "runs t I
      (and_then (tr_event d ''approval'' ''approval_approved'' (approval_metadata d r (Some dec)))
        (and_then (run_audit d ''approval_approved'' who x None [] [td_tool_id tool]
             (approval_metadata d r (Some dec)))
          (let x1 = approve_digest (ar_action_digest r) x
           in bind_act (authorize_step d who x1 tool (ps_arguments step) res) (\<lambda>p.
                ret ((v\<lparr>vd_decision := Some dec, vd_status := status, vd_error := error\<rparr>)
                  \<lparr>vd_permission := p, vd_execution := x1,
                   vd_status := (if pm_allowed p then status else None)\<rparr>)))))
      (verdict_ok tool step)"
    unfolding Let_def
    by (intro runs_then recording_runs runs_bind [OF authorize_runs] runs_ret)
      (auto simp: verdict_ok_def)
next
  fix status :: "approval_decision_status option" and error :: "string option"
  show "runs t I (ret (v\<lparr>vd_decision := Some dec, vd_status := status, vd_error := error\<rparr>))
     (verdict_ok tool step)"
    using v by (intro runs_ret) (simp add: verdict_ok_def)
qed

lemma request_approval_runs:
  assumes b: "rd_broker d = Some b" and x: "acts_for d a x" and p: "\<not> pm_allowed p"
  shows "runs t I (request_approval d b who x tool step res ctx p pol) (verdict_ok tool step)"
proof -
  have submit: "runs t I (app_do (apt_submit b r)) (\<lambda>q. \<exists>w w'. apt_submit b r w = (Inr q, w'))" for r
    using governance b by (intro app_value) (simp add: governance_keeps_def)
  have plain: "verdict_ok tool step ((plain_verdict p x)\<lparr>vd_request := r, vd_call_id := i\<rparr>)" for r i
    using x p by (simp add: verdict_ok_def plain_verdict_def)
  have answered: "runs t I
      (let v = (plain_verdict p x)\<lparr>vd_request := Some r, vd_call_id := Some i\<rparr>
       in case q of None \<Rightarrow> ret v | Some dec \<Rightarrow> apply_decision d who x tool step res v r dec)
      (verdict_ok tool step)" if "\<exists>w w'. apt_submit b r w = (Inr q, w')" for r i q
    using that unfolding Let_def
    by (intro runs_option runs_ret plain) (auto intro: apply_decision_runs [OF b _ plain x])
  show ?thesis
    unfolding request_approval_def make_approval_request_def
    by (intro runs_bind_any runs_then runs_rules runs_bind [OF submit answered])
qed

lemma record_approval_policy_runs [runs_rules]: "keeps t I (record_approval_policy d who x tool pol)"
  unfolding record_approval_policy_def by (intro runs_rules) simp_all

lemma ask_approval_policy_runs [runs_rules]: "keeps t I (ask_approval_policy d who x tool action)"
  unfolding ask_approval_policy_def
  by (intro runs_rules app_runs) (use governance in \<open>auto simp: governance_keeps_def\<close>)

lemma judge_step_runs:
  assumes x: "acts_for d a x"
  shows "runs t I (judge_step d who x tool step res ctx) (verdict_ok tool step)"
proof -
  have plain: "verdict_ok tool step (plain_verdict p x)"
    if "pm_allowed p \<longrightarrow> step_ok x tool (ps_arguments step)" for p
    using x that by (simp add: verdict_ok_def plain_verdict_def)
  have denied: "runs t I
      (if b then deny_permission p0 who x tool ''approval_required'' True else ret p0)
      (\<lambda>p. pm_allowed p \<longrightarrow> step_ok x tool (ps_arguments step))"
    if "pm_allowed p0 \<longrightarrow> step_ok x tool (ps_arguments step)" for b p0
    using that by (intro runs_if runs_ret runs_weaken [OF deny_runs]) simp_all
  show ?thesis
    unfolding judge_step_def
    by (rule runs_bind [OF authorize_runs], rule runs_bind_any [OF runs_result],
        rule runs_bind_any [OF ask_approval_policy_runs], rule runs_then [OF record_approval_policy_runs],
        erule runs_bind [OF denied], intro runs_option runs_if runs_ret plain)
      (auto intro: request_approval_runs x)
qed

section \<open>Steps and provider calls\<close>

lemma record_policy_runs [runs_rules]: "keeps t I (record_policy d who v tool)"
  unfolding record_policy_def by (intro runs_rules) simp_all

lemma record_refusal_runs [runs_rules]: "keeps t I (record_refusal d who v tool)"
  unfolding record_refusal_def by (intro runs_rules) simp_all

lemma pause_runs [runs_rules]: "keeps t I (pause_run d f v steps results risk o1)"
  unfolding pause_run_def by (intro runs_rules) simp_all

lemma run_tool_runs:
  "known tool \<Longrightarrow> call_granted d a x tool (ps_arguments step) \<Longrightarrow> keeps t I (run_tool d x tool step)"
  unfolding run_tool_def
  by (intro runs_bind_any runs_sum runs_then runs_rules runs_finally tool_call) (auto elim: quiet)

lemma propose_runs: "runs t I (propose_step d n step) known"
proof -
  have found: "runs t I (read_state (\<lambda>s. get_tool i v False (xs_registry (rs_tools s))))
      (\<lambda>q. \<forall>tool. q = Inr tool \<longrightarrow> known tool)" for i v
    by (rule runsI) (auto simp: read_state_def dest: resolved)
  show ?thesis
    unfolding propose_step_def
    by (intro runs_then runs_rules runs_bind [OF found]) simp_all
qed

lemma compile_runs [runs_rules]: "keeps t I (compile_run d who x st txt results)"
  unfolding compile_run_def
  by (intro runs_rules app_runs) (use services in \<open>auto simp: services_keep_def\<close>)

lemma budget_runs [runs_rules]: "keeps t I (record_budget d m)"
  unfolding record_budget_def by (intro runs_rules)

lemma provider_try_runs:
  "keeps t I (invoke_provider d op call) \<Longrightarrow> keeps t I (provider_try d op call reader part)"
  unfolding provider_try_def by (intro runs_rules) simp_all

lemma provider_stage_runs:
  "keeps t I calls \<Longrightarrow> keeps t I body \<Longrightarrow> keeps t I (provider_stage d who x st op calls body)"
  unfolding provider_stage_def by (intro runs_rules) simp_all

lemma visible_runs [runs_rules]: "keeps t I (get_visible_tools x)"
  unfolding get_visible_tools_def by (intro runs_rules)

lemma interpret_stage_runs [runs_rules]: "keeps t I (interpret_stage d who x st ctx)"
  unfolding interpret_stage_def
  by (intro runs_rules provider_stage_runs provider_try_runs interpret_call) simp_all

lemma plan_stage_runs [runs_rules]: "keeps t I (plan_stage d who x st ctx i)"
  unfolding plan_stage_def
  by (intro runs_rules provider_stage_runs provider_try_runs plan_call) simp_all

lemma obtain_plan_runs [runs_rules]: "keeps t I (obtain_plan d a x st ctx)"
  unfolding obtain_plan_def by (intro runs_rules) simp_all

lemma refuse_plan_runs [runs_rules]:
  "keeps t I (refuse_plan d who x st e)" "keeps t I (stop_without_steps d who x st reason)"
  "keeps t I (refuse_input d who x st dec)"
  unfolding refuse_plan_def stop_without_steps_def refuse_input_def by (intro runs_rules)+

lemma issue_answer_runs [runs_rules]: "keeps t I (issue_answer d f g p)"
  unfolding issue_answer_def by (intro runs_rules)

lemma compose_answer_runs [runs_rules]: "keeps t I (compose_answer d f g)"
  unfolding compose_answer_def
  by (intro runs_rules provider_stage_runs provider_try_runs compose_call) simp_all

end

section \<open>Runs\<close>

text \<open>Whole runs change the list of tool calls, which the invariant may not depend on any more.\<close>

locale run_invariant = call_invariant t d P I a known
  for t :: bool and d :: "'w runtime" and P :: "'w \<Rightarrow> bool" and I :: "'w runtime_state \<Rightarrow> bool"
    and a :: run_args and known :: "'w tool_definition \<Rightarrow> bool" +
  assumes same_tools: "I s \<Longrightarrow> rs_tools s' = rs_tools s \<Longrightarrow> I s'"
begin

lemma add_call_runs [runs_rules]: "keeps t I (add_call r)"
  unfolding add_call_def by (intro runs_rules runs_change) (auto elim: same_tools)

lemma close_interrupted_runs [runs_rules]: "keeps t I (close_interrupted_step d r code)"
  unfolding close_interrupted_step_def by (cases "ax_step r"; cases "ax_tool r")
    (simp_all add: runs_rules)

lemma control_failure_runs [runs_rules]: "keeps t I (control_failure d r e)"
  unfolding control_failure_def by (intro runs_rules)

lemma refuse_step_runs [runs_rules]: "keeps t I (refuse_step d f v tool step rest results risk)"
  unfolding refuse_step_def by (intro runs_rules) simp_all

lemma refuse_idempotency_runs [runs_rules]: "keeps t I (refuse_idempotency d f x tool step)"
  unfolding refuse_idempotency_def by (intro runs_rules)

lemma record_result_runs [runs_rules]: "keeps t I (record_result d who x tool step n i r)"
  unfolding record_result_def by (intro runs_rules)

lemma allowed_step_runs:
  "known tool \<Longrightarrow> call_granted d a (vd_execution v) tool (ps_arguments step) \<Longrightarrow>
     keeps t I (allowed_step d f n v tool step)"
  unfolding allowed_step_def by (intro runs_rules run_tool_runs) simp_all

definition progress_ok :: "agent_outcome + progress \<Rightarrow> bool" where
  "progress_ok q \<longleftrightarrow> (case q of Inl o1 \<Rightarrow> True | Inr (x, rs, risk) \<Rightarrow> acts_for d a x)"

lemma run_step_runs:
  assumes "acts_for d a x"
  shows "runs t I (run_step d f n step rest (x, results, risk)) progress_ok"
proof -
  have granted: "call_granted d a (vd_execution v) tool (ps_arguments step)"
    if "verdict_ok tool step v" "pm_allowed (vd_permission v)" for v tool
    using that by (simp add: verdict_ok_def step_ok_def call_granted_def)
  have judged: "runs t I
      (and_then (record_policy d (rf_principal f) v tool)
        (if \<not> pm_allowed (vd_permission v)
         then bind_act (refuse_step d f v tool step rest results r) (\<lambda>o1. ret (Inl o1))
         else bind_act (allowed_step d f n v tool step) (\<lambda>q.
           ret (case q of Inl o1 \<Rightarrow> Inl o1 | Inr y \<Rightarrow> Inr (vd_execution v, results @ [y], r)))))
      progress_ok" if "known tool" "verdict_ok tool step v" for v tool r
    using that
    by (intro runs_then record_policy_runs runs_if runs_bind_any refuse_step_runs runs_ret
          allowed_step_runs granted)
      (auto simp: progress_ok_def verdict_ok_def split: sum.splits)
  show ?thesis
    unfolding run_step_def Let_def prod.case
    by (intro runs_bind [OF propose_runs] runs_bind [OF judge_step_runs [OF assms]] judged)
qed

lemma run_steps_runs:
  "acts_for d a (fst g) \<Longrightarrow> runs t I (run_steps d f n steps g) progress_ok"
proof (induction steps arbitrary: n g)
  case Nil
  then show ?case by (cases g) (simp add: runs_ret progress_ok_def)
next
  case (Cons step rest)
  obtain x results risk where g: "g = (x, results, risk)" by (cases g)
  with Cons.prems have "acts_for d a x" by simp
  from run_step_runs [OF this] show ?case
    unfolding g run_steps.simps
  proof (rule runs_bind)
    fix q
    assume "progress_ok q"
    then show "runs t I (case q of Inl o1 \<Rightarrow> ret (Inl o1) | Inr g1 \<Rightarrow> run_steps d f (Suc n) rest g1) progress_ok"
      by (intro runs_sum runs_ret Cons.IH) (auto simp: progress_ok_def)
  qed
qed

section \<open>The run\<close>

lemma run_plan_runs: "acts_for d a x \<Longrightarrow> keeps t I (run_plan d a f x plan)"
  unfolding run_plan_def
  by (intro runs_let runs_bind_any [OF runs_read] runs_sum runs_then runs_if runs_rules
      runs_bind_any [OF runs_any [OF run_steps_runs]]) simp_all

lemma governed_run_runs: "acts_for d a x \<Longrightarrow> keeps t I (governed_run d a txt x st)"
  unfolding governed_run_def by (intro runs_rules run_plan_runs) simp_all

lemma open_run_runs: "runs t I (open_run d a txt) (\<lambda>(x, st). acts_for d a x)"
proof -
  have acts: "acts_for d a x" if "constructed execution_context_ok (execution_of d a i sid) = Inr x" for x i sid
    using that by (auto simp: constructed_def acts_for_def execution_of_def split: if_splits)
  have rest: "keeps t I (activate d a x st txt)" "keeps t I (record_start d (ra_principal a) x txt)"
      "keeps t I (refuse_reuse d (ra_principal a) i)" for x st i
    unfolding activate_def record_start_def refuse_reuse_def
    by (intro runs_rules runs_change; auto elim: same_tools)+
  show ?thesis
    unfolding open_run_def
    by (intro runs_bind_any runs_then runs_if runs_rules rest runs_bind [OF runs_result_value [OF acts]])
      auto
qed

lemma execute_body_runs: "keeps t I (execute_body d a)"
  unfolding execute_body_def Let_def
  by (intro runs_if runs_fail runs_bind [OF open_run_runs] runs_prod runs_then runs_option runs_rules
      governed_run_runs) auto

lemma controlled_runs: "keeps t I (controlled_run d a)"
  unfolding controlled_run_def
  by (intro runs_finally runs_rules execute_body_runs) (auto elim: same_tools)

end

end
