(* ===== verification/Runtime_Effects.thy ===== *)
theory Runtime_Effects
  imports Runtime_Invariant
begin

text \<open>
  No unauthorised effect: whatever the provider plans and the brokers answer, a run changes the
  application only through its own ports and through handlers of calls within the authority of the
  caller; and a paused run goes on only with an approval of exactly its request.
\<close>

section \<open>Whole runs\<close>

locale whole_run = run_invariant t d P I a known
  for t :: bool and d :: "'w runtime" and P :: "'w \<Rightarrow> bool" and I :: "'w runtime_state \<Rightarrow> bool"
    and a :: run_args and known :: "'w tool_definition \<Rightarrow> bool" +
  assumes new_control: "I s \<Longrightarrow> I (s\<lparr>rs_tools := (rs_tools s)\<lparr>xs_caller := c\<rparr>\<rparr>)"
begin

lemma begin_runs [runs_rules]: "keeps t I (begin_control d a0)"
  unfolding begin_control_def control_do_def
  by (rule runs_op) (simp add: new_control case_prod_beta)

lemma execute_runs: "keeps t I (execute d a)"
  unfolding execute_def by (intro runs_rules controlled_runs)

lemma record_approval_runs: "runs t I (record_approval d p dec) (\<lambda>q. resume_args q = resume_args p)"
proof -
  have "resume_args (p\<lparr>pa_trace := tr\<rparr>) = resume_args p" for tr
    by (simp add: resume_args_def)
  then show ?thesis
    unfolding record_approval_def by (intro runs_let runs_then runs_bind_any runs_rules) simp
qed

lemma continue_runs: "resume_args p = a \<Longrightarrow> keeps t I (continue_run d i p dec)"
  unfolding continue_run_def
  by (intro runs_bind [OF record_approval_runs] runs_rules) (use execute_runs in simp_all)

end

section \<open>The handlers that run\<close>

lemma tool_invoke_app:
  assumes "\<And>v. td_input t arguments = Some v \<Longrightarrow> P (snd (td_handler t c v w))" and "P w"
  shows "P (snd (tool_invoke t c arguments w))"
proof (cases "td_input t arguments")
  case None
  with assms(2) show ?thesis by (simp add: tool_invoke_def validate_arguments_def)
next
  case (Some v)
  obtain q w1 where q: "td_handler t c v w = (q, w1)" by fastforce
  with assms(1) [OF Some] have "P w1" by simp
  with Some q show ?thesis
    by (cases q) (auto simp: tool_invoke_def validate_arguments_def split: exc.splits handler_return.splits)
qed

lemma tool_loop_app:
  assumes "\<And>v w. td_input t arguments = Some v \<Longrightarrow> P w \<Longrightarrow> P (snd (td_handler t c v w))"
  shows "tool_loop env opts t c arguments key digest n a prev s = Some (q, s') \<Longrightarrow> P (xs_app s) \<Longrightarrow> P (xs_app s')"
proof (induction n arbitrary: a prev s)
  case (Suc n)
  have called: "P (xs_app s2)" if "P (xs_app s1)" "call_tool opts t c arguments s1 = Some (q1, s2)" for s1 q1 s2
    using call_tool_effect [OF that(2)] tool_invoke_app [of t arguments P c "xs_app s1"] assms that(1) by simp
  from Suc.prems(1) show ?case
  proof (cases rule: tool_loop_cases)
    case (stopped s0 q0 s1)
    with Suc.prems(2) have "P (xs_app s0)" by (simp add: quiet_def)
    from called [OF this stopped(2)] stopped(3) show ?thesis by (simp add: quiet_def)
  next
    case (handed s0 r s1 s2 st)
    from handed(3) have "xs_app s2 = xs_app s1" by (auto simp: quiet_def)
    with called [OF _ handed(2)] handed(1) recorded_answer_quiet [OF handed(4)] Suc.prems(2)
    show ?thesis by (simp add: quiet_def)
  next
    case (again s0 q0 s1 s3 e)
    with Suc.prems(2) have "P (xs_app s0)" by (simp add: quiet_def)
    from called [OF this again(2)] again(3) have "P (xs_app s3)" by (simp add: quiet_def)
    with Suc.IH again(6) show ?thesis by blast
  qed
qed (simp add: tool_loop.simps)

lemma invoke_tool_app:
  assumes "invoke_tool env opts i c arguments v key s = Some (q, s')" and "P (xs_app s)"
    and "\<And>t x w. get_tool i v False (xs_registry s) = Inr t \<Longrightarrow> td_input t arguments = Some x \<Longrightarrow> P w \<Longrightarrow>
          P (snd (td_handler t c x w))"
  shows "P (xs_app s')"
  using assms(1)
proof (cases rule: invoke_tool_cases)
  case (ran t)
  show ?thesis
    by (rule tool_loop_app [where P = P, OF _ ran(5) assms(2)]) (rule assms(3) [OF ran(1)])
next
  case (replayed t k cached)
  from recorded_answer_quiet [OF replayed(7)] assms(2) show ?thesis by (simp add: quiet_def)
qed (use assms(2) in \<open>auto simp: quiet_def\<close>)

section \<open>The invariant\<close>

definition keyed :: "(string \<times> string, 'w tool_definition) dict \<Rightarrow> bool" where
  "keyed G \<longleftrightarrow> distinct (map fst G) \<and> (\<forall>(k, t) \<in> set G. tool_key t = k)"

definition registered :: "(string \<times> string, 'w tool_definition) dict \<Rightarrow> 'w tool_definition \<Rightarrow> bool" where
  "registered G t \<longleftrightarrow> map_of G (tool_key t) = Some t \<and> td_lifecycle t = Life_ACTIVE"

lemma get_tool_registered:
  assumes "keyed (tg_tools g)" "get_tool i v False g = Inr t"
  shows "registered (tg_tools g) t"
proof -
  have "\<exists>k. (k, t) \<in> set (tg_tools g)"
  proof (cases v)
    case (Some x)
    with assms(2) have "map_of (tg_tools g) (i, x) = Some t"
      by (auto simp: get_tool_def split: option.splits sum.splits)
    then show ?thesis by (blast dest: map_of_SomeD)
  next
    case None
    with assms(2) have "t \<in> set (candidates i g)"
      by (auto simp: get_tool_def Let_def filter_eq_Cons_iff
          split: list.splits if_splits sum.splits)
    then show ?thesis by (force simp: candidates_def)
  qed
  with assms(1) get_tool_active [OF assms(2)] show ?thesis
    by (auto simp: registered_def keyed_def map_of_eq_Some_iff)
qed

lemma get_tool_exact:
  "registered (tg_tools g) t \<Longrightarrow> get_tool (td_tool_id t) (Some (td_version t)) False g = Inr t"
  by (simp add: registered_def get_tool_def assert_active_def tool_key_def)

definition effect_inv ::
  "('w \<Rightarrow> bool) \<Rightarrow> (string \<times> string, 'w tool_definition) dict \<Rightarrow> ('w, run_control) tool_state \<Rightarrow> bool" where
  "effect_inv P G ts \<longleftrightarrow> P (xs_app ts) \<and> tg_tools (xs_registry ts) = G"

lemma effect_inv_change [simp]:
  "effect_inv P G (ts\<lparr>xs_caller := c\<rparr>) = effect_inv P G ts"
  by (simp add: effect_inv_def)

lemma effect_inv_app:
  "effect_inv P G ts \<Longrightarrow> P (xs_app ts)" "effect_inv P G ts \<Longrightarrow> P w \<Longrightarrow> effect_inv P G (ts\<lparr>xs_app := w\<rparr>)"
  by (simp_all add: effect_inv_def)

lemma invoke_step_keeps:
  assumes "\<And>ts q ts1. J ts \<Longrightarrow> invoke_tool (le_tool (rd_lib d)) (run_options (rcl_control (xs_caller ts)))
      (td_tool_id tool) x (ps_arguments step) (Some (td_version tool)) (ps_idempotency_key step)
      (ts\<lparr>xs_trace := []\<rparr>) = Some (q, ts1) \<Longrightarrow> J ts1"
  shows "keeps False (\<lambda>s. J (rs_tools s)) (invoke_step d x tool step)"
  by (rule runsI) (use assms in \<open>auto simp: invoke_step_def Let_def split: option.splits\<close>)

lemma invoke_provider_keeps:
  assumes "\<And>w. P w \<Longrightarrow> P (snd (call w))"
  shows "keeps False (\<lambda>s. effect_inv P G (rs_tools s)) (invoke_provider d op call)"
proof (rule runsI)
  fix s r s1
  assume s: "effect_inv P G (rs_tools s)" "invoke_provider d op call s = Some (r, s1)"
  then have "P (snd (call (xs_app (rs_tools s))))" using assms by (simp add: effect_inv_def)
  with s show "effect_inv P G (rs_tools s1)"
    by (auto simp: invoke_provider_def effect_inv_def Let_def split: option.splits prod.splits)
qed simp_all

text \<open>The tools of the registry stay as they are during any run of any runtime.\<close>

lemma port_True: "port_keeps (\<lambda>_. True) f"
  by (simp add: port_keeps_def)

interpretation tools_stay: whole_run False d "\<lambda>_. True" "\<lambda>s. effect_inv (\<lambda>_. True) G (rs_tools s)" a "\<lambda>_. True"
  for d :: "'w runtime" and G a
proof unfold_locales
  show "governance_keeps (\<lambda>_. True) d" "services_keep (\<lambda>_. True) d"
    by (simp_all add: governance_keeps_def services_keep_def port_True)
  show "keeps False (\<lambda>s. effect_inv (\<lambda>_. True) G (rs_tools s)) (invoke_step d x tool step)" for x tool step
    by (rule invoke_step_keeps) (auto simp: effect_inv_def dest: invoke_tool_tables)
qed (simp_all add: invoke_provider_keeps effect_inv_app)

section \<open>No unauthorised effect\<close>

definition provider_keeps :: "('w \<Rightarrow> bool) \<Rightarrow> 'w runtime \<Rightarrow> bool" where
  "provider_keeps P d \<longleftrightarrow>
     (\<forall>f q w. pv_interpret (rd_provider d) = Some f \<longrightarrow> P w \<longrightarrow> P (snd (f q w))) \<and>
     (\<forall>q w. P w \<longrightarrow> P (snd (pv_plan (rd_provider d) q w))) \<and>
     (\<forall>q w. P w \<longrightarrow> P (snd (pv_compose (rd_provider d) q w)))"

definition ports_keep :: "('w \<Rightarrow> bool) \<Rightarrow> 'w runtime \<Rightarrow> bool" where
  "ports_keep P d \<longleftrightarrow> governance_keeps P d \<and> services_keep P d \<and> provider_keeps P d"

definition granted_calls_keep ::
  "('w \<Rightarrow> bool) \<Rightarrow> 'w runtime \<Rightarrow> run_args \<Rightarrow> (string \<times> string, 'w tool_definition) dict \<Rightarrow> bool" where
  "granted_calls_keep P d a G \<longleftrightarrow>
     (\<forall>t x arguments v w. registered G t \<and> call_granted d a x t arguments \<and>
        td_input t arguments = Some v \<and> P w \<longrightarrow> P (snd (td_handler t x v w)))"

lemma effects_whole_run:
  assumes ports: "ports_keep P d" and calls: "granted_calls_keep P d a G" and G: "keyed G"
  shows "whole_run False d P (\<lambda>s. effect_inv P G (rs_tools s)) a (registered G)"
proof unfold_locales
  show "governance_keeps P d" "services_keep P d" using ports by (simp_all add: ports_keep_def)
  show "keeps False (\<lambda>s. effect_inv P G (rs_tools s)) (invoke_provider d Op_INTERPRET (f iq))"
    if "pv_interpret (rd_provider d) = Some f" for f iq
    using ports that by (intro invoke_provider_keeps) (simp add: ports_keep_def provider_keeps_def)
  show "keeps False (\<lambda>s. effect_inv P G (rs_tools s)) (invoke_provider d Op_PLAN (pv_plan (rd_provider d) pq))" for pq
    using ports by (intro invoke_provider_keeps) (simp add: ports_keep_def provider_keeps_def)
  show "keeps False (\<lambda>s. effect_inv P G (rs_tools s)) (invoke_provider d Op_COMPOSE (pv_compose (rd_provider d) cq))" for cq
    using ports by (intro invoke_provider_keeps) (simp add: ports_keep_def provider_keeps_def)
  show "keeps False (\<lambda>s. effect_inv P G (rs_tools s)) (invoke_step d x tool step)"
    if t: "registered G tool" "call_granted d a x tool (ps_arguments step)" for tool x step
  proof (rule invoke_step_keeps)
    fix ts q ts1
    assume J: "effect_inv P G ts" and run: "invoke_tool (le_tool (rd_lib d)) (run_options (rcl_control (xs_caller ts)))
      (td_tool_id tool) x (ps_arguments step) (Some (td_version tool)) (ps_idempotency_key step)
      (ts\<lparr>xs_trace := []\<rparr>) = Some (q, ts1)"
    have same: "t' = tool" if "get_tool (td_tool_id tool) (Some (td_version tool)) False (xs_registry ts) = Inr t'" for t'
      using that get_tool_exact [of "xs_registry ts" tool] t(1) J by (simp add: effect_inv_def)
    have "P (snd (td_handler tool x v w))" if "td_input tool (ps_arguments step) = Some v" "P w" for v w
      using calls t that unfolding granted_calls_keep_def by blast
    with invoke_tool_app [OF run, of P] same J have "P (xs_app ts1)" by (auto simp: effect_inv_def)
    with invoke_tool_tables [OF run] J show "effect_inv P G ts1" by (simp add: effect_inv_def)
  qed
qed (use G get_tool_registered in \<open>auto simp: effect_inv_def\<close>)

text \<open>Whatever a run does, the application's state stays within what its granted calls keep.\<close>

lemma execute_effects:
  assumes "ports_keep P d" and "keyed (tg_tools (xs_registry (rs_tools s)))"
    and "granted_calls_keep P d a (tg_tools (xs_registry (rs_tools s)))"
    and "P (xs_app (rs_tools s))" and "execute d a s = Some (r, s')"
  shows "P (xs_app (rs_tools s'))"
proof -
  let ?G = "tg_tools (xs_registry (rs_tools s))"
  from whole_run.execute_runs [OF effects_whole_run [OF assms(1,3,2)]]
  have "keeps False (\<lambda>s. effect_inv P ?G (rs_tools s)) (execute d a)" .
  from runs_ended [OF this _ assms(5)] assms(4) have "effect_inv P ?G (rs_tools s')"
    by (simp add: effect_inv_def)
  then show ?thesis by (simp add: effect_inv_def)
qed

end
