(* ===== verification/Runtime_Returns.thy ===== *)
theory Runtime_Returns
  imports Runtime_Effects
begin

text \<open>
  Every run comes back: with an execution timeout and a clock that passes every instant, the waits for
  the provider and for the tools end, so \<open>execute\<close> returns or raises whatever they do.
\<close>

section \<open>The provider\<close>

lemma attempt_call_caller:
  "attempt_call vw timeout on deadline i s = Some (r, s') \<Longrightarrow> cs_caller s' = cs_caller s"
  by (auto simp: attempt_call_def split: option.splits prod.splits)

lemma sleep_caller: "sleep_with_control vw x on deadline s = Some (r, s') \<Longrightarrow> cs_caller s' = cs_caller s"
  by (auto simp: sleep_with_control_def split: option.splits prod.splits if_splits)

definition live_call :: "('c \<Rightarrow> bool) \<Rightarrow> 'c call_state \<Rightarrow> bool" where
  "live_call C s \<longleftrightarrow> clock_advances (cs_monitor s) \<and> C (cs_caller s)"

lemma invoke_loop_live:
  assumes limit: "pp_timeout pol \<noteq> None \<or> deadline \<noteq> None \<or> \<not> on"
    and pol: "\<And>e n c. C c \<Longrightarrow> C (snd (pp_should_retry pol e n c))"
  shows "live_call C s \<Longrightarrow> \<exists>r s'. invoke_loop vw pol on deadline n a prev s = Some (r, s') \<and> live_call C s'"
proof (induction n arbitrary: a prev s)
  case (Suc n)
  then have clock: "clock_advances (cs_monitor s)" and C: "C (cs_caller s)" by (simp_all add: live_call_def)
  from attempt_call_returns [OF clock limit] obtain r s1 where s1:
    "attempt_call vw (pp_timeout pol) on deadline a s = Some (r, s1)" "mo_now (cs_monitor s1) = mo_now (cs_monitor s)"
    by blast
  have l1: "live_call C s1"
    using clock C s1(2) attempt_call_caller [OF s1(1)] by (simp add: live_call_def clock_advances_def)
  show ?case
  proof (cases r)
    case (Inl e)
    obtain b s2 where s2: "ask_policy pol e a s1 = (b, s2)" by fastforce
    have l2: "live_call C s2"
      using s2 l1 pol [of "cs_caller s1" e a] by (auto simp: ask_policy_def live_call_def split: prod.splits)
    then have "clock_advances (cs_monitor s2)" by (simp add: live_call_def)
    from sleep_with_control_returns [OF this] obtain q s3 where s3:
      "sleep_with_control vw (pp_backoff pol e a) on deadline s2 = Some (q, s3)"
      "mo_now (cs_monitor s3) = mo_now (cs_monitor s2)" by blast
    have l3: "live_call C s3"
      using l2 s3(2) sleep_caller [OF s3(1)] by (simp add: live_call_def clock_advances_def)
    show ?thesis
      using Suc.IH [OF l2, of "Suc a" e] Suc.IH [OF l3, of "Suc a" e] l1 l2 l3
      by (cases b; cases q) (auto simp: s1 s2 s3 Inl split: bool.split)
  qed (use l1 in \<open>simp add: s1\<close>)
qed simp

lemma invoke_provider_live:
  assumes "pp_timeout pol \<noteq> None \<or> deadline \<noteq> None \<or> \<not> on"
    and "\<And>e n c. C c \<Longrightarrow> C (snd (pp_should_retry pol e n c))" and "live_call C s"
  shows "\<exists>r s'. invoke_provider_call vw pol on deadline s = Some (r, s') \<and> live_call C s'"
proof (cases "pp_max_attempts pol < 1")
  case True
  with assms(3) show ?thesis by (simp add: invoke_provider_call_def)
next
  case False
  have "\<exists>r s'. invoke_loop vw pol on deadline (nat (pp_max_attempts pol)) 1 AssertionError s = Some (r, s') \<and>
      live_call C s'"
    by (rule invoke_loop_live [where C = C]) (use assms in simp_all)
  with False show ?thesis by (simp add: invoke_provider_call_def)
qed

section \<open>The tools\<close>

lemma tool_poll_pass_again:
  assumes "tool_poll_pass outcome ready on deadline local_deadline m = (q, m1)"
  shows "mo_now m1 = mo_now m \<and> (q = None \<longrightarrow> mo_now_calls m < mo_now_calls m1 \<and>
    \<not> reached deadline (mo_now m (mo_now_calls m)))"
proof -
  obtain c m2 where c: "check_cancel on m = (c, m2)" by fastforce
  note same = check_cancel_same [OF c]
  have later: "tool_after_timeout dl ll m3 = (q1, m4) \<Longrightarrow>
      mo_now m4 = mo_now m3 \<and> mo_now_calls m3 \<le> mo_now_calls m4" for dl ll m3 q1 m4
    by (auto simp: tool_after_timeout_def mono_now_def Let_def split: option.splits if_splits)
  have after: "tool_after_result on dl ll r m3 = (q1, m4) \<Longrightarrow> mo_now m4 = mo_now m3" for dl ll r m3 q1 m4
    by (auto simp: tool_after_result_def mono_now_def split: prod.splits if_splits
        dest: check_cancel_same)
  from assms c same show ?thesis
    unfolding tool_poll_pass_def mono_now_def
    by (auto split: if_splits sum.splits prod.splits dest!: later after)
qed

lemma tool_poll_loop_returns:
  assumes "\<forall>n \<ge> N. mo_now m n \<ge> x"
  shows "\<exists>q m'. tool_poll_loop outcome ready on (Some x) local_deadline k m = Some (q, m') \<and>
    mo_now m' = mo_now m"
  using assms
proof (induction "N - mo_now_calls m" arbitrary: m k rule: less_induct)
  case less
  obtain q m1 where q: "tool_poll_pass outcome (ready k) on (Some x) local_deadline m = (q, m1)" by fastforce
  note again = tool_poll_pass_again [OF q]
  show ?case
  proof (cases q)
    case (Some r)
    then show ?thesis using q again by (subst tool_poll_loop.simps) simp
  next
    case None
    have "mo_now_calls m < N"
    proof (rule ccontr)
      assume "\<not> mo_now_calls m < N"
      with less.prems have "x \<le> mo_now m (mo_now_calls m)" by simp
      with again None show False by (auto simp: reached_def)
    qed
    then have "N - mo_now_calls m1 < N - mo_now_calls m" using again None by (intro diff_less_mono2) simp_all
    from less.hyps [OF this] less.prems again show ?thesis
      by (subst tool_poll_loop.simps) (simp add: q None)
  qed
qed

lemma tool_run_returns:
  assumes "clock_advances m"
  shows "\<exists>q m'. tool_run_with_timeout outcome ready timeout on (Some x) m = Some (q, m') \<and>
    mo_now m' = mo_now m"
proof -
  from assms obtain N where N: "\<forall>n \<ge> N. mo_now m n \<ge> x" unfolding clock_advances_def by blast
  let ?m = "m\<lparr>mo_now_calls := Suc (mo_now_calls m)\<rparr>"
  from N have "\<forall>n \<ge> N. mo_now ?m n \<ge> x" by simp
  from tool_poll_loop_returns [OF this] tool_poll_loop_returns [OF N] show ?thesis
    by (cases timeout) (simp_all add: tool_run_with_timeout_def mono_now_def)
qed

definition live_tools :: "('c \<Rightarrow> bool) \<Rightarrow> ('w, 'c) tool_state \<Rightarrow> bool" where
  "live_tools C s \<longleftrightarrow> clock_advances (xs_monitor s) \<and> C (xs_caller s)"

lemma call_tool_live:
  assumes "live_tools C s" "io_deadline opts = Some x"
  shows "\<exists>q s'. call_tool opts t c arguments s = Some (q, s') \<and> live_tools C s'"
proof -
  obtain outcome w where o: "tool_invoke t c arguments (xs_app s) = (outcome, w)" by fastforce
  from tool_run_returns [of "xs_monitor s" outcome "xs_ready s (xs_calls s)" "td_timeout t" "io_cancel opts" x]
    assms(1) obtain q m where
    "tool_run_with_timeout outcome (xs_ready s (xs_calls s)) (td_timeout t) (io_cancel opts) (Some x)
       (xs_monitor s) = Some (q, m)" "mo_now m = mo_now (xs_monitor s)"
    by (auto simp: live_tools_def)
  with assms o show ?thesis by (simp add: call_tool_def live_tools_def clock_advances_def)
qed

lemma emit_live [simp]: "live_tools C (emit opts e md s) = live_tools C s"
  by (simp add: live_tools_def emit_def)

lemma record_live: "recorded_answer opts c t st n dg code q s = (q', s') \<Longrightarrow> live_tools C s' = live_tools C s"
  by (auto simp: recorded_answer_def record_execution_def Let_def live_tools_def emit_def
      split: if_splits prod.splits sum.splits)

lemma recorded_live:
  "live_tools C s \<Longrightarrow> \<exists>q' s'. recorded_answer opts c t st n dg code q s = (q', s') \<and> live_tools C s'"
  by (metis record_live prod.collapse)

lemma remember_live [simp]: "live_tools C (remember_result key dg r s) = live_tools C s"
  by (simp add: remember_result_def live_tools_def split: option.split)

lemma pause_live:
  assumes "live_tools C s" "io_deadline opts = Some x"
  shows "\<exists>q s'. retry_pause opts t a reason s = Some (q, s') \<and> live_tools C s'"
proof -
  define s0 where "s0 = emit opts ''tool_retry_scheduled''
      [(''tool_id'', td_tool_id t), (''attempt'', str_nat a), (''reason_code'', reason)] s"
  have l0: "live_tools C s0" using assms(1) by (simp add: s0_def)
  let ?m = "xs_monitor s0"
  let ?m1 = "?m\<lparr>mo_now_calls := Suc (mo_now_calls ?m)\<rparr>"
  let ?stop = "mo_now ?m (mo_now_calls ?m) + max 0 (retry_backoff t)"
  from l0 obtain N where "\<forall>n \<ge> N. mo_now ?m1 n \<ge> ?stop" unfolding live_tools_def clock_advances_def by auto
  from sleep_loop_returns [OF this, of "io_cancel opts" "io_deadline opts"] obtain q m2 where
    "sleep_loop (io_cancel opts) (io_deadline opts) ?stop ?m1 = Some (q, m2)" "mo_now m2 = mo_now ?m" by auto
  with assms(2) l0 show ?thesis
    by (simp add: retry_pause_def s0_def [symmetric] tool_sleep_def mono_now_def live_tools_def clock_advances_def)
qed

lemma admit_live:
  assumes "live_tools C s" "\<And>f c. io_admission opts = Some f \<Longrightarrow> C c \<Longrightarrow> C (snd (f c))"
    and "admit_tool_retry opts t a s = (q, s')"
  shows "live_tools C s'"
proof (cases "io_admission opts")
  case (Some f)
  obtain y c where y: "f (xs_caller s) = (y, c)" by fastforce
  with assms(2) [OF Some, of "xs_caller s"] assms(1) have "C c" by (simp add: live_tools_def)
  with assms(1,3) Some y show ?thesis
    by (auto simp: admit_tool_retry_def live_tools_def emit_def split: sum.splits bool.splits)
qed (use assms in \<open>simp add: admit_tool_retry_def\<close>)

lemma tool_loop_live:
  assumes dl: "io_deadline opts = Some x"
    and adm: "\<And>f c. io_admission opts = Some f \<Longrightarrow> C c \<Longrightarrow> C (snd (f c))"
  shows "live_tools C s \<Longrightarrow>
    \<exists>q s'. tool_loop env opts t c arguments key digest n a prev s = Some (q, s') \<and> live_tools C s'"
proof (induction n arbitrary: a prev s)
  case (Suc n)
  define s0 where "s0 = emit opts (if Suc a = 1 then ''tool_execution_started'' else ''tool_retry_started'')
                 (tool_metadata t @ [(''attempt'', str_nat (Suc a))]) s"
  have "live_tools C s0" using Suc.prems by (simp add: s0_def)
  from call_tool_live [OF this dl] obtain q s1 where s1:
    "call_tool opts t c arguments s0 = Some (q, s1)" "live_tools C s1" by blast
  have retried: "\<exists>q s'. (case admit_tool_retry opts t (Suc a) s1 of
        (Inl y, s2) \<Rightarrow> Some (Inl y, s2)
      | (Inr False, s2) \<Rightarrow> Some (g s2)
      | (Inr True, s2) \<Rightarrow>
          (case retry_pause opts t (Suc a) (te_code e) s2 of
             None \<Rightarrow> None
           | Some (Inl y, s3) \<Rightarrow> Some (Inl y, s3)
           | Some (Inr _, s3) \<Rightarrow> tool_loop env opts t c arguments key digest n (Suc a) (Some e) s3)) =
      Some (q, s') \<and> live_tools C s'"
    if g: "\<And>s2. live_tools C s2 \<Longrightarrow> \<exists>q s'. g s2 = (q, s') \<and> live_tools C s'" for e g
  proof -
    obtain b s2 where b: "admit_tool_retry opts t (Suc a) s1 = (b, s2)" by fastforce
    from s1(2) adm b have l2: "live_tools C s2" by (rule admit_live)
    from pause_live [OF l2 dl] obtain y s3 where s3:
      "retry_pause opts t (Suc a) (te_code e) s2 = Some (y, s3)" "live_tools C s3" by blast
    from g [OF l2] Suc.IH [OF s3(2), of "Suc a" "Some e"] l2 s3 show ?thesis
      by (cases b; cases y) (auto simp: b split: bool.splits)
  qed
  show ?case
    unfolding tool_loop.simps Let_def s0_def [symmetric]
    by (cases q)
      (auto simp: s1 intro: recorded_live retried split: sum.splits)
qed (simp add: tool_loop.simps)

lemma invoke_tool_live:
  assumes live: "live_tools C s" and dl: "io_deadline opts = Some x"
    and adm: "\<And>f c. io_admission opts = Some f \<Longrightarrow> C c \<Longrightarrow> C (snd (f c))"
  shows "\<exists>q s'. invoke_tool env opts i c arguments v key s = Some (q, s') \<and> live_tools C s'"
proof -
  have refused: "\<exists>q s'. refuse_call opts c t st dg e s = Some (q, s') \<and> live_tools C s'" for t st dg e
    using recorded_live [OF live] by (simp add: refuse_call_def)
  have ran: "\<exists>q s'. tool_loop env opts t c arguments k dg n 0 None s = Some (q, s') \<and> live_tools C s'" for t k dg n
    by (rule tool_loop_live [OF dl]) (use adm live in simp_all)
  have replayed: "\<exists>q s'. recorded_answer opts c t st n dg code r (emit opts e md s) = (q, s') \<and> live_tools C s'"
    for t st n dg code r e md
    using live by (intro recorded_live) simp
  show ?thesis
    unfolding invoke_tool_def Let_def
    by (auto simp: live intro: refused ran replayed split: sum.splits option.splits)
qed

section \<open>The run\<close>

definition has_deadline :: "run_control \<Rightarrow> bool" where
  "has_deadline c \<longleftrightarrow> xc_deadline (rcl_control c) \<noteq> None"

lemma rc_admit_deadline: "xc_deadline (rcl_control (snd (rc_admit r))) = xc_deadline (rcl_control r)"
proof -
  obtain c n r1 where r1: "read_control r = ((c, n), r1)" by (metis prod.collapse)
  then have same: "rcl_control r1 = rcl_control r"
    by (auto simp: read_control_def split: prod.splits if_splits)
  have "xc_deadline (snd (admit_retry c n x)) = xc_deadline x" for x
    by (simp add: admit_retry_def split: sum.split)
  then show ?thesis by (simp add: rc_admit_def rc_op_def r1 same split: prod.split) (metis snd_conv same)
qed

lemma rc_admit_live: "has_deadline r \<Longrightarrow> has_deadline (snd (rc_admit r))"
  by (simp add: has_deadline_def rc_admit_deadline)

lemma controlled_policy_live:
  "has_deadline c \<Longrightarrow> has_deadline (snd (pp_should_retry (controlled_policy p) e n c))"
  by (auto simp: controlled_policy_def rc_admit_live split: sum.splits)

lemma invoke_provider_comes_back:
  "keeps True (\<lambda>s. live_tools has_deadline (rs_tools s)) (invoke_provider d op call)"
proof -
  have one: "\<exists>r s1. invoke_provider d op call s = Some (r, s1) \<and> live_tools has_deadline (rs_tools s1)"
    if live: "live_tools has_deadline (rs_tools s)" for s
  proof -
    let ?ts = "rs_tools s"
    let ?cs = "\<lparr>cs_monitor = xs_monitor ?ts, cs_caller = xs_caller ?ts, cs_calls = 0, cs_sleeps = []\<rparr>"
    obtain vw w where call: "call (xs_app ?ts) = (vw, w)" by fastforce
    have "\<exists>r c. invoke_provider_call vw (controlled_policy (pv_policy (rd_provider d) op)) True
        (xc_deadline (rcl_control (xs_caller ?ts))) ?cs = Some (r, c) \<and> live_call has_deadline c"
      by (rule invoke_provider_live [where C = has_deadline])
        (use live controlled_policy_live in \<open>auto simp: live_tools_def live_call_def has_deadline_def\<close>)
    then show ?thesis
      by (auto simp: invoke_provider_def call Let_def live_tools_def live_call_def)
  qed
  show ?thesis by (rule runsI) (use one in fastforce)+
qed

lemma invoke_step_comes_back:
  "keeps True (\<lambda>s. live_tools has_deadline (rs_tools s)) (invoke_step d x tool step)"
proof -
  have one: "\<exists>r s1. invoke_step d x tool step s = Some (r, s1) \<and> live_tools has_deadline (rs_tools s1)"
    if live: "live_tools has_deadline (rs_tools s)" for s
  proof -
    let ?ts = "(rs_tools s)\<lparr>xs_trace := []\<rparr>"
    have ts: "live_tools has_deadline ?ts" using live by (simp add: live_tools_def)
    obtain y where y: "xc_deadline (rcl_control (xs_caller ?ts)) = Some y"
      using live by (auto simp: live_tools_def has_deadline_def)
    have "\<exists>q s'. invoke_tool (le_tool (rd_lib d)) (run_options (rcl_control (xs_caller ?ts)))
        (td_tool_id tool) x (ps_arguments step) (Some (td_version tool)) (ps_idempotency_key step) ?ts =
        Some (q, s') \<and> live_tools has_deadline s'"
      by (rule invoke_tool_live [OF ts, of _ y])
        (use y in \<open>auto simp: run_options_def rc_admit_live\<close>)
    then show ?thesis by (auto simp: invoke_step_def Let_def)
  qed
  show ?thesis by (rule runsI) (use one in fastforce)+
qed

interpretation live_run: run_invariant True d "\<lambda>_. True" "\<lambda>s. live_tools has_deadline (rs_tools s)" a "\<lambda>_. True"
  for d :: "'w runtime" and a
proof unfold_locales
  show "governance_keeps (\<lambda>_. True) d" "services_keep (\<lambda>_. True) d"
    by (simp_all add: governance_keeps_def services_keep_def port_True)
qed (rule invoke_provider_comes_back invoke_step_comes_back | simp add: live_tools_def has_deadline_def)+

lemma app_clock: "keeps True (\<lambda>s. clock_advances (xs_monitor (rs_tools s))) (app_do f)"
  unfolding app_do_def by (rule runs_op) (simp split: prod.splits)

lemma execute_comes_back:
  assumes "run_timeout d a \<noteq> None" and "clock_advances (xs_monitor (rs_tools s))"
  shows "\<exists>r s'. execute d a s = Some (r, s')"
proof -
  let ?I = "\<lambda>s. clock_advances (xs_monitor (rs_tools s))"
  have "keeps True ?I (assert_authority d i v)" for i v
    unfolding assert_authority_def by (intro runs_rules app_clock) simp_all
  from runs_comes_back [OF this assms(2)] obtain r s1 where s1:
    "assert_authority d (ra_agent_id a) (ra_agent_version a) s = Some (r, s1)" "?I s1" by blast
  obtain q s2 where s2: "begin_control d a s1 = Some (q, s2)"
    by (fastforce simp: begin_control_def control_do_def lift_op_def)
  have "live_tools has_deadline (rs_tools s2)" if "q = Inr u" for u
    using s2 s1(2) assms(1) that
    by (auto simp: begin_control_def control_do_def lift_op_def mk_control_def live_tools_def
        has_deadline_def Let_def split: prod.splits sum.splits if_splits)
  with runs_comes_back [OF live_run.controlled_runs, of s2 d a]
  have "\<exists>r s3. and_then (begin_control d a) (controlled_run d a) s1 = Some (r, s3)"
    using s2 by (cases q) (auto simp: and_then_def bind_act_def)
  with s1 show ?thesis
    by (cases r) (auto simp: execute_def and_then_def bind_act_def fail_def)
qed

end
