(* ===== verification/Runtime_Correct.thy ===== *)
theory Runtime_Correct
  imports Runtime_Returns
begin

text \<open>
  The properties of whole runs, with a small runtime to apply them to: a provider that always plans
  one call of the counting tool, and a broker that allows everything.
\<close>

section \<open>A runtime\<close>

definition sample_lib :: library_env where
  "sample_lib =
     \<lparr>le_tool = plain_env, le_float_repr = (\<lambda>q. []), le_object_str = (\<lambda>n. []), le_isoformat = str_int,
      le_three_digits = (\<lambda>q. ''0.000''),
      le_norm = \<lparr>ne_interpretation = (\<lambda>_. None), ne_outcome = (\<lambda>_. None), ne_metadata = (\<lambda>_. None),
                 ne_loads = (\<lambda>_. None), ne_str = (\<lambda>_. [])\<rparr>,
      le_encode = (\<lambda>_. PDict []), le_decode = (\<lambda>_. None)\<rparr>"

definition count_step :: plan_step where
  "count_step =
     \<lparr>ps_step_id = ''s1'', ps_tool_id = ''count'', ps_tool_version = Some ''1.0.0'',
      ps_purpose = ''count'', ps_arguments = [], ps_required = True, ps_idempotency_key = Some ''k''\<rparr>"

definition steady_call :: "raw \<Rightarrow> raw provider_world" where
  "steady_call v =
     \<lparr>vw_direct = (\<lambda>_. Inr v), vw_polls = (\<lambda>_ _. Some (Inr v)), vw_sleep = (\<lambda>_. Inr ())\<rparr>"

definition sample_provider :: "nat provider_port" where
  "sample_provider =
     \<lparr>pv_interpret = None,
      pv_plan = (\<lambda>q w. (steady_call (RAgentPlan \<lparr>plan_steps = [count_step], plan_stop_reason = None\<rparr>), w)),
      pv_compose = (\<lambda>q w. (steady_call (ROutcomeProposal
        \<lparr>op_summary = ''done'', op_confidence = 1, op_evidence_ids = [], op_output = []\<rparr>), w)),
      pv_policy = (\<lambda>op. default_provider_policy 100 1 0)\<rparr>"

definition allow_all :: "nat proposal \<Rightarrow> (permission_decision, nat) app_op" where
  "allow_all p w =
     (Inr \<lparr>pm_allowed = True, pm_principal_id = pc_principal_id (pr_principal p),
           pm_tenant_id = pc_tenant_id (pr_principal p), pm_tool_id = td_tool_id (pr_tool p),
           pm_reason_code = ''allowed'', pm_approval_required = False, pm_agent_id = None,
           pm_environment = None, pm_risk_level = None, pm_policy_decision = None\<rparr>, w)"

definition sample_execution_state :: "principal_context \<Rightarrow> string \<Rightarrow> string \<Rightarrow> execution_state" where
  "sample_execution_state who agent version =
     \<lparr>es_schema_version = ''v1'', es_state_id = ''state'', es_execution_id = ''x'', es_agent_id = agent,
      es_agent_version = version, es_principal_id = pc_principal_id who,
      es_tenant_id = pc_tenant_id who, es_session_id = pc_session_id who, es_status = State_PENDING,
      es_version = 0, es_data = [], es_updated_at = 0\<rparr>"

definition sample_store :: "nat state_port" where
  "sample_store =
     \<lparr>sp_find = (\<lambda>who i w. (Inr None, w)),
      sp_open = (\<lambda>who agent version sid w. (Inr (sample_execution_state who agent version), w)),
      sp_save = (\<lambda>st v w. (Inr (), w))\<rparr>"

definition sample_runtime :: "nat runtime" where
  "sample_runtime =
     \<lparr>rd_lib = sample_lib, rd_config = default_runtime_config, rd_prompt = None, rd_skills = [],
      rd_identity = \<lparr>rid_manifest_id = None, rid_manifest_digest = None, rid_registry_snapshot_id = None,
                     rid_prompt_ref = None, rid_skill_refs = []\<rparr>,
      rd_redactor = default_redactor, rd_cost_model = None, rd_bound = None, rd_guard = None,
      rd_permission = allow_all, rd_broker = None, rd_approval_policy = None,
      rd_store = sample_store, rd_memory = None, rd_provider = sample_provider\<rparr>"

definition sample_args :: "string list \<Rightarrow> run_args" where
  "sample_args tools =
     \<lparr>ra_principal = \<lparr>pc_principal_id = ''p'', pc_tenant_id = ''t'', pc_session_id = ''s''\<rparr>,
      ra_input_text = ''hello'', ra_agent_id = ''agent'', ra_agent_version = ''1.0.0'',
      ra_authorized_tool_ids = tools, ra_authorized_tool_versions = [], ra_granted_permissions = [],
      ra_approved_action_digests = [], ra_state_id = None, ra_execution_id = Some ''run'',
      ra_environment = None, ra_max_risk_level = None, ra_max_steps = None, ra_correlation_id = None,
      ra_parent_execution_id = None, ra_delegation_id = None, ra_delegation_depth = 0,
      ra_delegation_path = [], ra_event_id = None, ra_trigger_id = None, ra_causation_id = None,
      ra_attempt = 0, ra_resource = None, ra_timeout = None, ra_cancellation_event = False,
      ra_cancel_event = False, ra_plan_override = None, ra_composition_override = None,
      ra_initial_calls = [], ra_initial_results = [], ra_initial_risk = Risk_LOW,
      ra_allow_existing = False\<rparr>"

definition sample_monitor :: monitor where
  "sample_monitor =
     \<lparr>mo_now = int, mo_now_calls = 0, mo_cancelled = (\<lambda>_. False), mo_cancel_calls = 0\<rparr>"

definition sample_run_control :: run_control where
  "sample_run_control =
     \<lparr>rcl_control = sample_control, rcl_monitor = sample_monitor, rcl_signal = False\<rparr>"

definition idle_recorder :: trace_recorder where
  "idle_recorder = projr (new_recorder (\<lambda>s. s)
     (execution_of sample_runtime (sample_args []) ''run'' ''state'') ''hello'' (rd_identity sample_runtime) None)"

definition sample_runtime_state :: "nat runtime_state" where
  "sample_runtime_state =
     \<lparr>rs_tools = \<lparr>xs_registry = counting_registry, xs_app = 0, xs_caller = sample_run_control,
                 xs_monitor = sample_monitor, xs_ready = (\<lambda>_ _. True), xs_calls = 0, xs_trace = []\<rparr>,
      rs_world = \<lparr>make_id = (\<lambda>p n. p), id_calls = 0, clock_at = int, clock_calls = 0\<rparr>,
      rs_audit = [], rs_sink = [], rs_traces = [], rs_active = None, rs_trace = idle_recorder,
      rs_calls = [], rs_pending = [], rs_consumed = []\<rparr>"

lemma counting_tools: "tg_tools counting_registry = [((''count'', ''1.0.0''), counting_tool)]"
  by (rule counting_registry_tools)

lemma sample_keyed: "keyed (tg_tools counting_registry)"
  by (simp add: counting_tools keyed_def tool_key_def counting_tool_def)

lemma sample_ports: "ports_keep P sample_runtime"
  by (simp add: ports_keep_def governance_keeps_def services_keep_def provider_keeps_def port_keeps_def
      sample_runtime_def sample_provider_def sample_store_def allow_all_def)

lemma sample_runtime_clock: "clock_advances (xs_monitor (rs_tools sample_runtime_state))"
  unfolding clock_advances_def
proof
  fix b :: int
  have "\<forall>n \<ge> nat b. b \<le> int n" by auto
  then show "\<exists>N. \<forall>n \<ge> N. b \<le> mo_now (xs_monitor (rs_tools sample_runtime_state)) n"
    unfolding sample_runtime_state_def sample_monitor_def by auto
qed

text \<open>
  C35: every run comes back. When a run has a timeout and the monotonic clock passes every instant,
  \<open>execute\<close> returns an outcome or raises, whatever plan the provider proposes and however long the
  provider or a tool would take: no wait, retry or back-off goes on for ever.
\<close>

theorem execute_returns:
  assumes "run_timeout d a \<noteq> None" and "clock_advances (xs_monitor (rs_tools s))"
  shows "\<exists>r s'. execute d a s = Some (r, s')"
  by (rule execute_comes_back [OF assms])

theorem execute_returns_witness:
  "\<exists>r s'. execute sample_runtime (sample_args [''count'']) sample_runtime_state = Some (r, s')"
  by (rule execute_returns [OF _ sample_runtime_clock])
    (simp add: run_timeout_def sample_args_def sample_runtime_def default_runtime_config_def)

section \<open>No unauthorised effect\<close>

text \<open>
  C1: no unauthorised effect. Let \<open>P\<close> be any property of the application's state that its own ports
  and the provider keep, and that the handler of a registered active tool keeps when it is called with
  validated arguments, in an execution context with the authority the caller gave, for a tool in the
  caller's list, with its permissions granted, in an allowed environment, within the risk limit, and,
  where the tool requires approval, with a digest of exactly that call which the caller or the approval
  broker approved. Then a run keeps \<open>P\<close>, however it ends: the provider's plan, the permission
  broker's answers and the plan's arguments cannot make any other handler call happen.
\<close>

theorem no_unauthorised_effect:
  assumes "ports_keep P d" and "keyed (tg_tools (xs_registry (rs_tools s)))"
    and "granted_calls_keep P d a (tg_tools (xs_registry (rs_tools s)))"
    and "P (xs_app (rs_tools s))" and "execute d a s = Some (r, s')"
  shows "P (xs_app (rs_tools s'))"
  by (rule execute_effects [OF assms])

text \<open>The broker allows everything and the provider plans the call, but the caller did not authorize the tool.\<close>

theorem no_unauthorised_effect_witness:
  "\<exists>r s'. execute sample_runtime (sample_args []) sample_runtime_state = Some (r, s') \<and>
     xs_app (rs_tools s') = 0"
proof -
  obtain r s' where run: "execute sample_runtime (sample_args []) sample_runtime_state = Some (r, s')"
    using execute_comes_back [OF _ sample_runtime_clock, of sample_runtime "sample_args []"]
    by (auto simp: run_timeout_def sample_args_def sample_runtime_def default_runtime_config_def)
  have reg: "xs_registry (rs_tools sample_runtime_state) = counting_registry"
    "xs_app (rs_tools sample_runtime_state) = 0" by (simp_all add: sample_runtime_state_def)
  have "granted_calls_keep (\<lambda>n. n = 0) sample_runtime (sample_args []) (tg_tools counting_registry)"
  proof -
    have "ec_authorized_tool_ids x = []" if "acts_for sample_runtime (sample_args []) x" for x
    proof -
      from that obtain i j where "x\<lparr>ec_approved_action_digests := []\<rparr> =
          (execution_of sample_runtime (sample_args []) i j)\<lparr>ec_approved_action_digests := []\<rparr>"
        by (auto simp: acts_for_def)
      then have "ec_authorized_tool_ids (x\<lparr>ec_approved_action_digests := []\<rparr>) =
          ec_authorized_tool_ids ((execution_of sample_runtime (sample_args []) i j)\<lparr>ec_approved_action_digests := []\<rparr>)"
        by simp
      then show ?thesis by (simp add: execution_of_def sample_args_def)
    qed
    then show ?thesis
      by (auto simp: granted_calls_keep_def call_granted_def ceiling_denial_None)
  qed
  with no_unauthorised_effect [OF sample_ports _ _ _ run, of "\<lambda>n. n = 0"] reg sample_keyed
  have "xs_app (rs_tools s') = 0" by simp
  with run show ?thesis by blast
qed

section \<open>Resuming\<close>

text \<open>Closing a paused run comes back, whatever the runtime.\<close>

interpretation closing: port_invariant True d "\<lambda>_. True" "\<lambda>_. True" for d :: "'w runtime"
  by unfold_locales (simp_all add: governance_keeps_def services_keep_def port_True)

lemma check_approval_value:
  assumes "check_approval r dec s = Some (q, s1)"
  shows "\<exists>t. q = Inr (validate_approval t r dec)" "rs_tools s1 = rs_tools s"
  using assms
  by (auto simp: check_approval_def ret_def bind_act_def read_clock_def lift_op_def now_def
      split: if_splits)

lemma closure_of_None:
  "closure_of st er = None \<Longrightarrow> er = None \<and> (st = None \<or> st = Some Approval_APPROVED)"
  by (auto simp: closure_of_def split: option.splits approval_decision_status.splits)

lemma validate_approval_status: "snd (validate_approval t r dec) = None \<Longrightarrow> fst (validate_approval t r dec) \<noteq> None"
  by (auto simp: validate_approval_def split: option.splits if_splits)

text \<open>The part of \<open>resume\<close> that follows the lookup of the paused run.\<close>

definition resume_decided ::
  "'w runtime \<Rightarrow> string \<Rightarrow> pending_approval \<Rightarrow> approval_decision \<Rightarrow> (agent_outcome, 'w) rt" where
  "resume_decided d i p dec =
     and_then (assert_authority d (ec_agent_id (pa_execution p)) (ec_agent_version (pa_execution p)))
       (bind_act (check_approval (pa_request p) dec) (\<lambda>(st, er). case closure_of st er of
          Some c \<Rightarrow> close_pending d p c dec | None \<Rightarrow> continue_run d i p dec))"

lemma resume_of_pending:
  assumes "map_of (rs_pending s) i = Some p" and "resume d i (Some dec) None who s = Some (r, s')"
  shows "r = Inl ValueError \<and> s' = s \<or> resume_decided d i p dec s = Some (r, s')"
  using assms
  by (auto simp: resume_def resume_decided_def find_pending_def find_decision_def opt_or_def bind_act_def
      read_state_def ret_def fail_def and_then_def split: if_splits option.splits sum.splits prod.splits)

text \<open>Without authorized tools no call is granted, so every ending of a run that runs no tool keeps \<open>P\<close>.\<close>

lemma no_tools_granted: "granted_calls_keep P d (a\<lparr>ra_authorized_tool_ids := []\<rparr>) G"
proof -
  have "ec_authorized_tool_ids x = []" if "acts_for d (a\<lparr>ra_authorized_tool_ids := []\<rparr>) x" for x
  proof -
    from that obtain k j where "x\<lparr>ec_approved_action_digests := []\<rparr> =
        (execution_of d (a\<lparr>ra_authorized_tool_ids := []\<rparr>) k j)\<lparr>ec_approved_action_digests := []\<rparr>"
      by (auto simp: acts_for_def)
    from arg_cong [OF this, of ec_authorized_tool_ids] show ?thesis by (simp add: execution_of_def)
  qed
  then show ?thesis by (auto simp: granted_calls_keep_def call_granted_def ceiling_denial_None)
qed

lemma approved_decision:
  assumes "closure_of st er = None" and "(st, er) = validate_approval t r dec"
  shows "validate_approval t r dec = (Some Approval_APPROVED, None)"
  using closure_of_None [OF assms(1)] validate_approval_status [of t r dec] assms(2)
  by (cases "validate_approval t r dec") auto

lemma resume_decided_keeps:
  assumes "ports_keep P d" and "keyed G"
    and "\<forall>t. validate_approval t (pa_request p) dec = (Some Approval_APPROVED, None) \<longrightarrow>
      granted_calls_keep P d (resume_args p) G"
  shows "keeps False (\<lambda>s. effect_inv P G (rs_tools s)) (resume_decided d i p dec)"
proof -
  let ?I = "\<lambda>s. effect_inv P G (rs_tools s)"
  note idle = effects_whole_run [OF assms(1) no_tools_granted assms(2), of "resume_args p"]
  note ports = call_invariant.axioms(1) [OF run_invariant.axioms(1) [OF whole_run.axioms(1) [OF idle]]]
  have checked: "runs False ?I (check_approval (pa_request p) dec)
      (\<lambda>q. \<exists>t. q = validate_approval t (pa_request p) dec)"
    by (rule runs_value [OF runs_any [OF port_invariant.check_approval_runs [OF ports]]])
      (auto dest: check_approval_value(1))
  have decided: "keeps False ?I (case closure_of st er of
        Some c \<Rightarrow> close_pending d p c dec | None \<Rightarrow> continue_run d i p dec)"
    if q: "(st, er) = validate_approval t (pa_request p) dec" for st er t
  proof (rule runs_option)
    assume "closure_of st er = None"
    from approved_decision [OF this q] assms(3) have "granted_calls_keep P d (resume_args p) G" by blast
    from whole_run.continue_runs [OF effects_whole_run [OF assms(1) this assms(2)] refl]
    show "keeps False ?I (continue_run d i p dec)" .
  qed (rule port_invariant.close_pending_runs [OF ports])
  have "keeps False ?I (case q of (st, er) \<Rightarrow> (case closure_of st er of
        Some c \<Rightarrow> close_pending d p c dec | None \<Rightarrow> continue_run d i p dec))"
    if "\<exists>t. q = validate_approval t (pa_request p) dec" for q
    using that by (cases q) (auto intro: decided)
  then show ?thesis
    unfolding resume_decided_def
    by (intro runs_then port_invariant.authority_runs [OF ports] runs_bind [OF checked])
qed

text \<open>
  C4: a paused run goes on only with an approval of exactly its request. Resume a run that is paused in
  memory with some decision, and let \<open>P\<close> be a property that the ports and the provider keep, and, only
  if the decision can pass as a timely approval with the identity and the digest of the pending
  request, also the handlers of the calls granted to the continuation. Then \<open>resume\<close> keeps \<open>P\<close>: a
  rejection, an expired approval or one for another request or digest makes no handler run at all.
\<close>

theorem resume_needs_exact_approval:
  assumes "ports_keep P d" and "keyed (tg_tools (xs_registry (rs_tools s)))"
    and "P (xs_app (rs_tools s))" and "map_of (rs_pending s) i = Some p"
    and "\<forall>t. validate_approval t (pa_request p) dec = (Some Approval_APPROVED, None) \<longrightarrow>
      granted_calls_keep P d (resume_args p) (tg_tools (xs_registry (rs_tools s)))"
    and "resume d i (Some dec) None who s = Some (r, s')"
  shows "P (xs_app (rs_tools s'))"
proof -
  note kept = resume_decided_keeps [OF assms(1,2,5), of i]
  from resume_of_pending [OF assms(4,6)] assms(3) runs_ended [OF kept, of s r s']
  show ?thesis by (auto simp: effect_inv_def)
qed

text \<open>A paused run of the sample runtime, and an approval of another action.\<close>

definition sample_pending :: pending_approval where
  "sample_pending =
     (let x = execution_of sample_runtime (sample_args [''count'']) ''run'' ''state'';
          plan = \<lparr>plan_steps = [count_step], plan_stop_reason = None\<rparr> in
      \<lparr>pa_principal = ra_principal (sample_args []), pa_execution = x, pa_input_text = ''hello'',
       pa_resource = None, pa_plan = plan, pa_resume_plan = plan, pa_tool_calls = [],
       pa_tool_results = [], pa_highest_risk = Risk_LOW, pa_request = sample_request,
       pa_outcome = blank_outcome ''o'' 0 x Outcome_ESCALATED ''paused'', pa_trace = idle_recorder,
       pa_trace_prefix = None, pa_prefix_event_count = 0\<rparr>)"

definition sample_paused_state :: "nat runtime_state" where
  "sample_paused_state = sample_runtime_state\<lparr>rs_pending := [(''run'', sample_pending)]\<rparr>"

definition other_approval :: approval_decision where
  "other_approval =
     \<lparr>ad_approval_id = ''a'', ad_request_id = ''q'', ad_action_digest = ''other'',
      ad_decision = Approval_APPROVED, ad_decided_by = ''boss'', ad_reason_code = ''ok'',
      ad_expires_at = None, ad_decided_at = 1\<rparr>"

lemma sample_resume_returns:
  "resume sample_runtime ''run'' (Some other_approval) None None sample_paused_state \<noteq> None"
proof -
  let ?s = sample_paused_state
  have "find_pending sample_runtime ''run'' None ?s = Some (Inr sample_pending, ?s)"
    by (simp add: find_pending_def bind_act_def read_state_def ret_def sample_paused_state_def)
  moreover have "assert_authority sample_runtime i v ?s = Some (Inr (), ?s)" for i v
    by (simp add: assert_authority_def sample_runtime_def ret_def)
  moreover have "check_approval (pa_request sample_pending) other_approval ?s =
      Some (Inr (None, Some ''approval_action_mismatch''), ?s)"
    by (simp add: check_approval_def validate_approval_def other_approval_def sample_pending_def
        sample_request_def Let_def ret_def)
  moreover have "close_pending sample_runtime sample_pending c other_approval s \<noteq> None" for c s
    using runs_comes_back [OF closing.close_pending_runs [of sample_runtime sample_pending c other_approval], of s]
    by fastforce
  ultimately show ?thesis
    by (simp add: resume_def find_decision_def opt_or_def bind_act_def and_then_def ret_def closure_of_def)
qed

theorem resume_needs_exact_approval_witness:
  "\<exists>r s'. resume sample_runtime ''run'' (Some other_approval) None None sample_paused_state = Some (r, s') \<and>
     xs_app (rs_tools s') = 0"
proof -
  obtain r s' where run:
    "resume sample_runtime ''run'' (Some other_approval) None None sample_paused_state = Some (r, s')"
    using sample_resume_returns by fast
  have reg: "xs_registry (rs_tools sample_paused_state) = counting_registry"
    "xs_app (rs_tools sample_paused_state) = 0"
    "map_of (rs_pending sample_paused_state) ''run'' = Some sample_pending"
    by (simp_all add: sample_paused_state_def sample_runtime_state_def)
  have "validate_approval t (pa_request sample_pending) other_approval \<noteq> (Some Approval_APPROVED, None)" for t
    by (simp add: validate_approval_def other_approval_def sample_pending_def sample_request_def Let_def)
  with resume_needs_exact_approval [OF sample_ports _ _ reg(3) _ run, of "\<lambda>n. n = 0"] reg sample_keyed
  have "xs_app (rs_tools s') = 0" by simp
  with run show ?thesis by blast
qed

end
