(* ===== verification/Runtime_Grounded.thy ===== *)
theory Runtime_Grounded
  imports Runtime_Effects
begin

text \<open>
  A COMPLETED outcome is grounded in the tool calls it lists: every step of a run appends one result
  and one call record that say the same, the answer is decided over these results, and nothing after
  the decision changes the outcome but its trace, or its status to FAILED.
\<close>

section \<open>Results and call records\<close>

definition record_fits :: "tool_call_record \<Rightarrow> tool_result \<Rightarrow> bool" where
  "record_fits c r \<longleftrightarrow>
     tcr_result_status c = tr_status r \<and> tcr_evidence_ids c = map ev_evidence_id (tr_evidence r)"

definition records_fit :: "tool_call_record list \<Rightarrow> tool_result list \<Rightarrow> bool" where
  "records_fit cs rs \<longleftrightarrow> list_all2 record_fits cs rs"

lemma records_fit_snoc:
  "records_fit cs rs \<Longrightarrow> record_fits c r \<Longrightarrow> records_fit (cs @ [c]) (rs @ [r])"
  by (simp add: records_fit_def list_all2_appendI)

lemma records_fit_statuses: "records_fit cs rs \<Longrightarrow> map tcr_result_status cs = map tr_status rs"
  unfolding records_fit_def by (induction rule: list_all2_induct) (simp_all add: record_fits_def)

lemma records_fit_evidence:
  "records_fit cs rs \<Longrightarrow> concat (map tcr_evidence_ids cs) = returned_ids rs"
  unfolding records_fit_def returned_ids_def by (induction rule: list_all2_induct) (simp_all add: record_fits_def)

section \<open>Triples on the call records\<close>

text \<open>\<open>holds_after\<close> is a triple about returned values only; what was raised does not matter.\<close>

definition holds_after ::
  "('s \<Rightarrow> bool) \<Rightarrow> ('a, 's) act \<Rightarrow> ('a \<Rightarrow> 's \<Rightarrow> bool) \<Rightarrow> bool" where
  "holds_after P m Q \<longleftrightarrow> run_ok P m Q (\<lambda>_ _. True)"

lemma after_keeps: "runs False I m Q \<Longrightarrow> holds_after I m (\<lambda>x s. I s \<and> Q x)"
  unfolding holds_after_def by (rule run_okI) (auto dest: runs_returned)

lemma after_bind:
  "holds_after P m R \<Longrightarrow> (\<And>x. holds_after (R x) (f x) Q) \<Longrightarrow> holds_after P (bind_act m f) Q"
  unfolding holds_after_def by (rule run_ok_bind)

lemma after_bind_keeps:
  assumes "runs False I m R" "\<And>x. R x \<Longrightarrow> holds_after I (f x) Q"
  shows "holds_after I (bind_act m f) Q"
proof (rule after_bind [OF after_keeps [OF assms(1)]])
  show "holds_after (\<lambda>s. I s \<and> R x) (f x) Q" for x
    using assms(2) [of x] unfolding holds_after_def run_ok_def by blast
qed

lemma after_then_keeps:
  "keeps False I m \<Longrightarrow> holds_after I n Q \<Longrightarrow> holds_after I (and_then m n) Q"
  unfolding and_then_def by (rule after_bind_keeps)

lemma after_ret: "(\<And>s. P s \<Longrightarrow> Q x s) \<Longrightarrow> holds_after P (ret x) Q"
  by (simp add: holds_after_def run_ok_def ret_def)

lemma after_fail: "holds_after P (fail e) Q"
  by (simp add: holds_after_def run_ok_def fail_def)

lemma after_if:
  "(b \<Longrightarrow> holds_after P m Q) \<Longrightarrow> (\<not> b \<Longrightarrow> holds_after P n Q) \<Longrightarrow> holds_after P (if b then m else n) Q"
  by simp

lemma after_weaken:
  "holds_after P m Q \<Longrightarrow> (\<And>x s. Q x s \<Longrightarrow> Q1 x s) \<Longrightarrow> holds_after P m Q1"
  unfolding holds_after_def by (erule run_ok_weaken) auto

lemma after_from: "holds_after P m Q \<Longrightarrow> (\<And>s. P1 s \<Longrightarrow> P s) \<Longrightarrow> holds_after P1 m Q"
  unfolding holds_after_def by (erule run_ok_weaken) auto

lemma after_returned: "holds_after P m Q \<Longrightarrow> P s \<Longrightarrow> m s = Some (Inr x, s1) \<Longrightarrow> Q x s1"
  unfolding holds_after_def by (rule run_ok_return)

section \<open>What is returned\<close>

definition incomplete :: "agent_outcome \<Rightarrow> bool" where
  "incomplete o1 \<longleftrightarrow> ao_status o1 \<noteq> Outcome_COMPLETED"

context port_invariant
begin

lemma decision_value:
  "runs t I (decision_outcome x st summary upd) (\<lambda>o1. \<exists>i u. o1 = upd (blank_outcome i u x st summary))"
  unfolding decision_outcome_def
  by (intro runs_bind_any reading_runs runs_result_value) (auto simp: constructed_def split: if_splits)

lemma save_outcome_value:
  "runs t I (save_outcome d x st o0) (\<lambda>o1. o1 = o0 \<or> incomplete o1)"
  unfolding save_outcome_def
  by (intro runs_rules) (simp_all add: incomplete_def conflicted_def)

lemma finish_value:
  "runs t I (finish d who x st o0 save) (\<lambda>o1. incomplete o1 \<or> (\<exists>i. o1 = o0\<lparr>ao_trace_id := i\<rparr>))"
proof -
  have saved: "runs t I (if save then save_outcome d x st o0 else ret o0) (\<lambda>o1. o1 = o0 \<or> incomplete o1)"
    by (intro runs_if save_outcome_value runs_ret) simp
  show ?thesis
    unfolding finish_def
    by (intro runs_bind [OF saved] runs_let runs_then runs_bind_any runs_rules) (auto simp: incomplete_def)
qed

lemma finish_incomplete: "incomplete o0 \<Longrightarrow> runs t I (finish d who x st o0 save) incomplete"
  by (rule runs_weaken [OF finish_value]) (auto simp: incomplete_def)

lemma decided_incomplete:
  assumes "\<And>i u. incomplete (upd (blank_outcome i u x st summary))"
  shows "runs t I (bind_act (decision_outcome x st summary upd) (\<lambda>o1. finish d who x s0 o1 save)) incomplete"
  by (rule runs_bind [OF decision_value finish_incomplete]) (use assms in auto)

lemma blank_incomplete: "st \<noteq> Outcome_COMPLETED \<Longrightarrow> incomplete (blank_outcome i u x st summary)"
  by (simp add: incomplete_def blank_outcome_def)

lemma provider_failure_value: "runs t I (provider_failure d who x st op cs e) incomplete"
  unfolding provider_failure_def Let_def
  by (intro runs_if runs_fail runs_then runs_bind_any decided_incomplete runs_rules)
    (simp_all add: incomplete_def blank_outcome_def provider_failure_status_def)

lemma provider_stage_value:
  "keeps t I calls \<Longrightarrow> keeps t I body \<Longrightarrow>
     runs t I (provider_stage d who x st op calls body) (case_sum incomplete (\<lambda>_. True))"
  unfolding provider_stage_def
  by (intro runs_catch runs_bind_any runs_bind [OF provider_failure_value] runs_ret) simp_all

lemma refused_value:
  "runs t I (refuse_plan d who x st e) incomplete" "runs t I (stop_without_steps d who x st reason) incomplete"
  unfolding refuse_plan_def stop_without_steps_def
  by (intro runs_then decided_incomplete runs_rules; simp add: incomplete_def blank_outcome_def)+

lemma refuse_input_value: "inspect_input txt = Some dec \<Longrightarrow> runs t I (refuse_input d who x st dec) incomplete"
  unfolding refuse_input_def
  by (intro runs_then decided_incomplete runs_rules)
    (auto simp: incomplete_def blank_outcome_def inspect_input_def Let_def split: if_splits)

end

context call_invariant
begin

lemma interpret_stage_value: "runs t I (interpret_stage d who x st ctx) (case_sum incomplete (\<lambda>_. True))"
proof -
  have called: "runs t I
      (provider_stage d who x st Op_INTERPRET (ret []) (provider_try d Op_INTERPRET (f q) reader part))
      (case_sum incomplete (\<lambda>_. True))"
    if "pv_interpret (rd_provider d) = Some f" for f q reader and part :: "('r \<Rightarrow> _) \<times> _"
    by (intro provider_stage_value runs_ret provider_try_runs interpret_call that) simp
  show ?thesis
    unfolding interpret_stage_def
    by (intro runs_option runs_ret runs_bind_any reading_runs visible_runs runs_bind [OF called])
      (auto split: sum.splits)
qed

lemma plan_stage_value: "runs t I (plan_stage d who x st ctx i) (case_sum incomplete (\<lambda>_. True))"
proof -
  have called: "runs t I
      (provider_stage d who x st Op_PLAN (ret [])
        (provider_try d Op_PLAN (pv_plan (rd_provider d) q) reader part))
      (case_sum incomplete (\<lambda>_. True))" for q reader and part :: "('r \<Rightarrow> _) \<times> _"
    by (intro provider_stage_value runs_ret provider_try_runs plan_call) simp
  show ?thesis
    unfolding plan_stage_def
    by (intro runs_bind_any reading_runs visible_runs runs_bind [OF called] runs_ret)
      (auto split: sum.splits)
qed

lemma obtain_plan_value: "runs t I (obtain_plan d a x st ctx) (case_sum incomplete (\<lambda>_. True))"
  unfolding obtain_plan_def
  by (intro runs_option runs_bind [OF interpret_stage_value] runs_sum runs_bind [OF plan_stage_value]
      runs_then recording_runs runs_ret) (auto split: sum.splits)

end

context run_invariant
begin

lemma refuse_step_value: "runs t I (refuse_step d f v tool step rest results risk) incomplete"
proof -
  have "ref_status (refusal_of v) \<noteq> Outcome_COMPLETED"
    by (auto simp: refusal_of_def approval_refusal_def permission_refusal_def
        split: option.splits approval_decision_status.splits)
  then have blank: "incomplete ((blank_outcome i u x (ref_status (refusal_of v)) s)
      \<lparr>ao_safety_flags := fl, ao_tool_calls := cs, ao_recovery := rc, ao_human_review_required := hr,
       ao_error_code := er\<rparr>)" for i u x s fl cs rc hr er
    by (simp add: incomplete_def blank_outcome_def)
  show ?thesis
    unfolding refuse_step_def Let_def
    by (intro runs_bind_any [OF call_id_runs] runs_bind_any [OF runs_read] runs_then runs_when pause_runs
        record_refusal_runs add_call_runs recording_runs runs_bind [OF decision_value]
        runs_bind [OF finish_incomplete] runs_ret) (auto simp: blank)
qed

lemma refuse_idempotency_value: "runs t I (refuse_idempotency d f x tool step) incomplete"
  unfolding refuse_idempotency_def Let_def
  by (intro runs_bind_any runs_then decided_incomplete runs_rules)
    (simp_all add: incomplete_def blank_outcome_def)

lemma control_failure_value: "runs t I (control_failure d r e) incomplete"
  unfolding control_failure_def Let_def
  by (intro runs_bind_any runs_then decided_incomplete runs_rules)
    (simp_all add: incomplete_def blank_outcome_def control_status_def)

end

section \<open>The call records of a run\<close>

lemma calls_keep:
  assumes "\<And>s r s1. m s = Some (r, s1) \<Longrightarrow> rs_calls s1 = rs_calls s"
  shows "keeps False (\<lambda>s. records_fit (rs_calls s) rs) m"
  by (rule runsI) (use assms in fastforce)+

interpretation fitting: call_invariant False d "\<lambda>_. True" "\<lambda>s. records_fit (rs_calls s) rs" a "\<lambda>_. True"
  for d :: "'w runtime" and rs a
proof unfold_locales
  show "governance_keeps (\<lambda>_. True) d" "services_keep (\<lambda>_. True) d"
    by (simp_all add: governance_keeps_def services_keep_def port_True)
  show "keeps False (\<lambda>s. records_fit (rs_calls s) rs) (invoke_step d x tool step)" for x tool step
    by (rule calls_keep) (auto simp: invoke_step_def Let_def split: option.splits)
  have "keeps False (\<lambda>s. records_fit (rs_calls s) rs) (invoke_provider d op call)" for op call
    by (rule calls_keep) (auto simp: invoke_provider_def Let_def split: option.splits prod.splits)
  then show "keeps False (\<lambda>s. records_fit (rs_calls s) rs) (invoke_provider d Op_INTERPRET (f iq))"
    "keeps False (\<lambda>s. records_fit (rs_calls s) rs) (invoke_provider d Op_PLAN (pv_plan (rd_provider d) pq))"
    "keeps False (\<lambda>s. records_fit (rs_calls s) rs) (invoke_provider d Op_COMPOSE (pv_compose (rd_provider d) cq))"
    for f iq pq cq by blast+
qed simp_all

lemma anything_keeps: "keeps False (\<lambda>_. True) m"
  by (simp add: runs_def split: option.split sum.split)

interpretation anything: run_invariant False d "\<lambda>_. True" "\<lambda>_. True" a "\<lambda>_. True"
  for d :: "'w runtime" and a
  by unfold_locales (simp_all add: governance_keeps_def services_keep_def port_True anything_keeps)

lemma after_value: "runs False (\<lambda>_. True) m Q \<Longrightarrow> holds_after P m (\<lambda>x s. Q x)"
  unfolding holds_after_def by (rule run_okI) (auto dest: runs_returned)

lemma add_call_fits:
  assumes "record_fits c r"
  shows "holds_after (\<lambda>s. records_fit (rs_calls s) rs) (add_call c) (\<lambda>_ s. records_fit (rs_calls s) (rs @ [r]))"
  unfolding holds_after_def
  by (rule run_okI)
    (use assms in \<open>auto simp: add_call_def lift_result_def constructed_def bind_act_def change_state_def
       records_fit_snoc split: if_splits\<close>)

lemma record_result_fits:
  "holds_after (\<lambda>s. records_fit (rs_calls s) rs) (record_result d who x tool step n i r)
     (\<lambda>_ s. records_fit (rs_calls s) (rs @ [r]))"
proof -
  have fits: "record_fits ((call_record c tool step (tr_status r) None)
      \<lparr>tcr_evidence_ids := map ev_evidence_id (tr_evidence r), tcr_retry_count := k\<rparr>) r" for c k
    by (simp add: record_fits_def call_record_def)
  have rest: "holds_after (\<lambda>s. records_fit (rs_calls s) (rs @ [r])) m (\<lambda>_ s. records_fit (rs_calls s) (rs @ [r]))"
    if "keeps False (\<lambda>s. records_fit (rs_calls s) (rs @ [r])) m" for m :: "(unit, 'w) rt"
    by (rule after_weaken [OF after_keeps [OF that]]) simp
  show ?thesis
    unfolding record_result_def Let_def
    by (rule after_bind_keeps [OF fitting.call_id_runs], subst and_then_def,
        rule after_bind [OF add_call_fits [OF fits]], rule rest,
        intro runs_then fitting.trace_execution_runs fitting.recording_runs fitting.check_runs)
qed

definition step_fits :: "tool_result list \<Rightarrow> agent_outcome + tool_result \<Rightarrow> 'w runtime_state \<Rightarrow> bool" where
  "step_fits rs q s \<longleftrightarrow>
     (case q of Inl o1 \<Rightarrow> incomplete o1 | Inr r \<Rightarrow> records_fit (rs_calls s) (rs @ [r]))"

definition progress_fits :: "agent_outcome + progress \<Rightarrow> 'w runtime_state \<Rightarrow> bool" where
  "progress_fits q s \<longleftrightarrow>
     (case q of Inl o1 \<Rightarrow> incomplete o1 | Inr (x, rs, k) \<Rightarrow> records_fit (rs_calls s) rs)"

lemma ended_incomplete:
  assumes "runs False (\<lambda>_. True) m incomplete"
  shows "holds_after P (bind_act m (\<lambda>o1. ret (Inl o1))) (\<lambda>q s. \<exists>o1. q = Inl o1 \<and> incomplete o1)"
  by (rule after_bind [OF after_value [OF assms]]) (auto intro: after_ret)

lemma allowed_step_fits:
  "holds_after (\<lambda>s. records_fit (rs_calls s) rs) (allowed_step d f n v tool step) (step_fits rs)"
proof -
  have run: "keeps False (\<lambda>s. records_fit (rs_calls s) rs) (run_tool d (vd_execution v) tool step)"
    unfolding run_tool_def
    by (intro runs_bind_any runs_sum runs_then runs_rules runs_finally fitting.recording_runs calls_keep)
      (auto simp: invoke_step_def Let_def split: option.splits)
  have refused: "holds_after (\<lambda>s. records_fit (rs_calls s) rs)
      (bind_act (refuse_idempotency d f (vd_execution v) tool step) (\<lambda>o1. ret (Inl o1))) (step_fits rs)"
    by (rule after_weaken [OF ended_incomplete [OF anything.refuse_idempotency_value]])
      (auto simp: step_fits_def)
  have ran: "holds_after (\<lambda>s. records_fit (rs_calls s) rs)
      (bind_act (run_tool d (vd_execution v) tool step) (\<lambda>r.
        and_then (record_result d (rf_principal f) (vd_execution v) tool step n (vd_call_id v) r)
          (ret (Inr r)))) (step_fits rs)"
    by (rule after_bind_keeps [OF run], subst and_then_def,
        rule after_bind [OF record_result_fits], rule after_ret) (simp add: step_fits_def)
  show ?thesis
    unfolding allowed_step_def
    by (rule after_then_keeps [OF fitting.recording_runs(1)]) (simp add: refused ran)
qed

lemma run_step_fits:
  assumes "acts_for d a x"
  shows "holds_after (\<lambda>s. records_fit (rs_calls s) rs) (run_step d f n step rest (x, rs, risk)) progress_fits"
proof -
  have refused: "holds_after (\<lambda>s. records_fit (rs_calls s) rs)
      (bind_act (refuse_step d f v tool step rest rs k) (\<lambda>o1. ret (Inl o1))) progress_fits" for v tool k
    by (rule after_weaken [OF ended_incomplete [OF anything.refuse_step_value]])
      (auto simp: progress_fits_def)
  have ran: "holds_after (\<lambda>s. records_fit (rs_calls s) rs)
      (bind_act (allowed_step d f n v tool step) (\<lambda>q.
         ret (case q of Inl o1 \<Rightarrow> Inl o1 | Inr r \<Rightarrow> Inr (vd_execution v, rs @ [r], k)))) progress_fits" for v tool k
    by (rule after_bind [OF allowed_step_fits after_ret])
      (auto simp: step_fits_def progress_fits_def split: sum.splits)
  show ?thesis
    unfolding run_step_def Let_def prod.case
    by (rule after_bind_keeps [OF fitting.propose_runs], rule after_bind_keeps [OF fitting.judge_step_runs [OF assms]],
        rule after_then_keeps [OF fitting.record_policy_runs]) (simp add: refused ran)
qed

lemma run_step_authority:
  "acts_for d a x \<Longrightarrow>
     runs False (\<lambda>_. True) (run_step d f n step rest (x, rs, risk)) (\<lambda>q. \<forall>y. q = Inr y \<longrightarrow> acts_for d a (fst y))"
  by (rule runs_weaken [OF anything.run_step_runs]) (auto simp: anything.progress_ok_def)

lemma after_both:
  "holds_after P m Q \<Longrightarrow> runs False (\<lambda>_. True) m R \<Longrightarrow> holds_after P m (\<lambda>x s. Q x s \<and> R x)"
  using after_value [of m R P] unfolding holds_after_def run_ok_def by (auto split: sum.splits)

lemma run_steps_fits:
  "acts_for d a (fst g) \<Longrightarrow>
     holds_after (\<lambda>s. records_fit (rs_calls s) (fst (snd g))) (run_steps d f n steps g) progress_fits"
proof (induction steps arbitrary: n g)
  case Nil
  show ?case by (cases g) (auto intro!: after_ret simp: progress_fits_def)
next
  case (Cons step rest)
  obtain x rs risk where g: "g = (x, rs, risk)" by (cases g)
  with Cons.prems have x: "acts_for d a x" by simp
  show ?case
    unfolding g run_steps.simps fst_conv snd_conv
  proof (rule after_bind [OF after_both [OF run_step_fits [OF x] run_step_authority [OF x]]])
    fix q
    show "holds_after (\<lambda>s. progress_fits q s \<and> (\<forall>y. q = Inr y \<longrightarrow> acts_for d a (fst y)))
        (case q of Inl o1 \<Rightarrow> ret (Inl o1) | Inr g1 \<Rightarrow> run_steps d f (Suc n) rest g1) progress_fits"
    proof (cases q)
      case (Inl o1)
      then show ?thesis by (auto intro: after_ret simp: progress_fits_def)
    next
      case (Inr g1)
      show ?thesis
      proof (cases "acts_for d a (fst g1)")
        case True
        show ?thesis
          unfolding Inr sum.case
          by (rule after_from [OF Cons.IH [OF True]]) (auto simp: progress_fits_def split: prod.splits)
      qed (simp add: Inr holds_after_def run_ok_def)
    qed
  qed
qed

section \<open>The answer\<close>

text \<open>What an outcome says of itself when it is COMPLETED.\<close>

definition grounded :: "runtime_config \<Rightarrow> agent_outcome \<Rightarrow> bool" where
  "grounded cfg o1 \<longleftrightarrow>
     (\<exists>v. ao_verification o1 = Some v \<and> vr_supported v) \<and>
     set (ao_evidence_ids o1) \<subseteq> set (concat (map tcr_evidence_ids (ao_tool_calls o1))) \<and>
     TR_SUCCEEDED \<in> set (map tcr_result_status (ao_tool_calls o1)) \<and>
     set (map tcr_result_status (ao_tool_calls o1)) \<inter> {TR_FAILED, TR_INVALID_ARGUMENTS, TR_RESTRICTED} = {} \<and>
     max (cfg_minimum_confidence_threshold cfg) (cfg_high_confidence_threshold cfg) \<le> ao_confidence o1"

definition completed_grounded :: "runtime_config \<Rightarrow> agent_outcome \<Rightarrow> bool" where
  "completed_grounded cfg o1 \<longleftrightarrow> (ao_status o1 = Outcome_COMPLETED \<longrightarrow> grounded cfg o1)"

lemma incomplete_grounded: "incomplete o1 \<Longrightarrow> completed_grounded cfg o1"
  by (simp add: incomplete_def completed_grounded_def)

lemma answer_grounded:
  assumes "records_fit cs rs" and "v = verify_outcome p rs" and "dec = decide cfg rs p v risk"
    and "ao_status o1 = sd_status dec" "ao_verification o1 = Some v" "ao_tool_calls o1 = cs"
    and "ao_evidence_ids o1 = issued_evidence p v dec" "ao_confidence o1 = op_confidence p"
  shows "completed_grounded cfg o1"
proof -
  have statuses: "set (map tcr_result_status cs) = tr_status ` set rs"
    using records_fit_statuses [OF assms(1)] by (metis set_map)
  have evidence: "set (op_evidence_ids p) \<subseteq> set (concat (map tcr_evidence_ids cs))"
    if "vr_invalid_evidence_ids v = []"
    using that invalid_ids_empty_iff [of p rs] records_fit_evidence [OF assms(1)] assms(2) by simp
  have "vr_supported v" if "vr_invalid_evidence_ids v = []"
    using that assms(2) by (simp add: verify_outcome_def Let_def)
  then show ?thesis
    using assms(3-) evidence
    by (auto simp: completed_grounded_def grounded_def decide_completed_iff issued_evidence_def statuses
        results_clean_def result_failed_def result_restricted_def result_succeeded_def simp del: set_map set_concat
        intro: rev_image_eqI [OF _ sym])
qed

text \<open>From here on, what a run returns is COMPLETED only if it is grounded.\<close>

lemma returned_incomplete: "incomplete o1 \<Longrightarrow> holds_after P (ret o1) (\<lambda>o1 s. completed_grounded cfg o1)"
  by (rule after_ret) (simp add: incomplete_grounded)

lemma value_grounded:
  "runs False (\<lambda>_. True) m incomplete \<Longrightarrow> holds_after P m (\<lambda>o1 s. completed_grounded cfg o1)"
  by (rule after_value, erule runs_weaken) (rule incomplete_grounded)

lemma issue_answer_grounded:
  "holds_after (\<lambda>s. records_fit (rs_calls s) rs) (issue_answer d f (x, rs, risk) p)
     (\<lambda>o1 s. completed_grounded (rd_config d) o1)"
proof -
  have calls: "runs False (\<lambda>s. records_fit (rs_calls s) rs) (read_state rs_calls) (\<lambda>cs. records_fit cs rs)"
    by (rule runsI) (auto simp: read_state_def)
  have issued: "runs False (\<lambda>s. records_fit (rs_calls s) rs) (finish d who y st o0 save)
      (completed_grounded (rd_config d))" if "completed_grounded (rd_config d) o0" for who y st o0 save
  proof (rule runs_weaken [OF fitting.finish_value], elim disjE exE)
    show "completed_grounded (rd_config d) o1" if "incomplete o1" for o1
      using that by (rule incomplete_grounded)
    show "completed_grounded (rd_config d) o1" if "o1 = o0\<lparr>ao_trace_id := i\<rparr>" for o1 i
      using \<open>completed_grounded (rd_config d) o0\<close> that by (simp add: completed_grounded_def grounded_def)
  qed
  have decided: "completed_grounded (rd_config d) o0"
    if cs: "records_fit cs rs" and o0: "\<exists>i u. o0 = (blank_outcome i u x (sd_status dec) summary)
      \<lparr>ao_evidence_ids := issued_evidence p v dec, ao_safety_flags := fl, ao_tool_calls := cs,
       ao_verification := Some v, ao_recovery := rc, ao_human_review_required := hr,
       ao_confidence := op_confidence p, ao_error_code := er\<rparr>"
      and v: "v = verify_outcome p rs" and dec: "dec = decide (rd_config d) rs p v risk"
    for o0 cs summary fl rc hr er v dec
    using o0 by (elim exE, intro answer_grounded [OF cs v dec]) (simp_all add: blank_outcome_def)
  show ?thesis
    unfolding issue_answer_def Let_def prod.case
    by (rule after_then_keeps [OF fitting.recording_runs(1)], rule after_bind_keeps [OF fitting.reading_runs(5)],
        rule after_bind_keeps [OF calls], rule after_bind_keeps [OF fitting.decision_value],
        rule after_weaken [OF after_keeps [OF issued [OF decided]]])
      (assumption | rule refl | erule conjunct2)+
qed

lemma compose_answer_grounded:
  "holds_after (\<lambda>s. records_fit (rs_calls s) rs) (compose_answer d f (x, rs, risk))
     (\<lambda>o1 s. completed_grounded (rd_config d) o1)"
proof -
  have composed: "runs False (\<lambda>s. records_fit (rs_calls s) rs)
      (provider_stage d who y st Op_COMPOSE (read_state rs_calls)
        (provider_try d Op_COMPOSE (pv_compose (rd_provider d) q) reader part))
      (case_sum incomplete (\<lambda>_. True))" for who y st q reader and part :: "('r \<Rightarrow> _) \<times> _"
    by (intro fitting.provider_stage_value runs_read fitting.provider_try_runs fitting.compose_call)
  show ?thesis
    unfolding compose_answer_def Let_def prod.case
    by (rule after_bind_keeps [OF fitting.compile_runs], rule after_then_keeps [OF fitting.recording_runs(1)],
        rule after_then_keeps [OF fitting.check_runs], rule after_bind_keeps [OF fitting.reading_runs(1)],
        rule after_bind_keeps [OF composed])
      (auto intro: returned_incomplete issue_answer_grounded split: sum.splits)
qed

lemma run_plan_grounded:
  assumes "acts_for d a x"
  shows "holds_after (\<lambda>s. records_fit (rs_calls s) (ra_initial_results a)) (run_plan d a f x plan)
     (\<lambda>o1 s. completed_grounded (rd_config d) o1)"
proof -
  have answered: "holds_after (progress_fits q)
      (case q of Inl o1 \<Rightarrow> ret o1
       | Inr g \<Rightarrow> and_then (tr_event d ''execution'' ''plan_steps_exhausted'' md) (compose_answer d f g))
      (\<lambda>o1 s. completed_grounded (rd_config d) o1)" for q md
  proof (cases q)
    case (Inl o1)
    then show ?thesis by (auto intro!: after_ret simp: progress_fits_def incomplete_grounded)
  next
    case (Inr g)
    obtain y rs k where g: "g = (y, rs, k)" by (cases g)
    have "holds_after (\<lambda>s. records_fit (rs_calls s) rs)
        (and_then (tr_event d ''execution'' ''plan_steps_exhausted'' md) (compose_answer d f (y, rs, k)))
        (\<lambda>o1 s. completed_grounded (rd_config d) o1)"
      by (rule after_then_keeps [OF fitting.recording_runs(1) compose_answer_grounded])
    then show ?thesis
      unfolding Inr g sum.case by (rule after_from) (simp add: progress_fits_def)
  qed
  have steps: "holds_after (\<lambda>s. records_fit (rs_calls s) (ra_initial_results a))
      (run_steps d f 1 steps (x, ra_initial_results a, ra_initial_risk a)) progress_fits" for steps
    using run_steps_fits [of d a "(x, ra_initial_results a, ra_initial_risk a)"] assms by simp
  have ran: "holds_after (\<lambda>s. records_fit (rs_calls s) (ra_initial_results a))
      (bind_act (run_steps d f 1 steps (x, ra_initial_results a, ra_initial_risk a)) (\<lambda>q.
         case q of Inl o1 \<Rightarrow> ret o1
         | Inr g \<Rightarrow> and_then (tr_event d ''execution'' ''plan_steps_exhausted'' md) (compose_answer d f g)))
      (\<lambda>o1 s. completed_grounded (rd_config d) o1)" for steps md
    by (rule after_bind [OF steps answered])
  note refused = value_grounded [OF anything.refused_value(1)] value_grounded [OF anything.refused_value(2)]
  show ?thesis
    unfolding run_plan_def Let_def
    by (rule after_bind_keeps [OF runs_read])
      (auto split: sum.splits simp: refused ran simp del: One_nat_def
        intro!: after_then_keeps fitting.recording_runs runs_when)
qed

lemma governed_run_grounded:
  assumes "acts_for d a x"
  shows "holds_after (\<lambda>s. records_fit (rs_calls s) (ra_initial_results a)) (governed_run d a txt x st)
     (\<lambda>o1 s. completed_grounded (rd_config d) o1)"
  unfolding governed_run_def Let_def
  by (rule after_bind_keeps [OF fitting.compile_runs], rule after_then_keeps [OF fitting.recording_runs(1)],
      rule after_bind_keeps [OF fitting.obtain_plan_value])
    (auto intro: returned_incomplete run_plan_grounded assms split: sum.splits)

lemma activate_calls:
  "holds_after P (activate d a x st txt) (\<lambda>_ s. rs_calls s = ra_initial_calls a)"
  unfolding holds_after_def activate_def
  by (rule run_okI) (auto simp: bind_act_def lift_result_def change_state_def split: sum.splits)

lemma open_run_fits:
  assumes fit: "records_fit (ra_initial_calls a) (ra_initial_results a)"
  shows "holds_after (\<lambda>_. True) (open_run d a txt)
     (\<lambda>q s. acts_for d a (fst q) \<and> records_fit (rs_calls s) (ra_initial_results a))"
proof -
  have acts: "acts_for d a x" if "constructed execution_context_ok (execution_of d a i sid) = Inr x" for x i sid
    using that by (auto simp: constructed_def acts_for_def execution_of_def split: if_splits)
  have started: "keeps False (\<lambda>s. records_fit (rs_calls s) rs) (record_start d who x txt)" for rs who x
    unfolding record_start_def Let_def by (intro runs_then runs_when fitting.recording_runs)
  have opened: "holds_after (\<lambda>_. True)
      (and_then (activate d a x st txt) (and_then (record_start d (ra_principal a) x txt) (ret (x, st))))
      (\<lambda>q s. acts_for d a (fst q) \<and> records_fit (rs_calls s) (ra_initial_results a))"
    if "acts_for d a x" for x st
  proof (subst and_then_def, rule after_bind [OF activate_calls])
    have "holds_after (\<lambda>s. records_fit (rs_calls s) (ra_initial_results a))
        (and_then (record_start d (ra_principal a) x txt) (ret (x, st)))
        (\<lambda>q s. acts_for d a (fst q) \<and> records_fit (rs_calls s) (ra_initial_results a))"
      by (rule after_then_keeps [OF started after_ret]) (simp add: that)
    then show "holds_after (\<lambda>s. rs_calls s = ra_initial_calls a)
        (and_then (record_start d (ra_principal a) x txt) (ret (x, st)))
        (\<lambda>q s. acts_for d a (fst q) \<and> records_fit (rs_calls s) (ra_initial_results a))"
      by (rule after_from) (simp add: fit)
  qed
  show ?thesis
    unfolding open_run_def
    by (intro after_if after_fail after_bind_keeps [OF anything_keeps] after_then_keeps [OF anything_keeps]
        after_bind_keeps [OF runs_result_value [OF acts]] opened)
qed

lemma execute_body_grounded:
  assumes "records_fit (ra_initial_calls a) (ra_initial_results a)"
  shows "holds_after (\<lambda>_. True) (execute_body d a) (\<lambda>o1 s. completed_grounded (rd_config d) o1)"
proof -
  have checked: "holds_after (\<lambda>s. acts_for d a x \<and> records_fit (rs_calls s) (ra_initial_results a))
      (and_then (control_do rc_check)
        (case inspect_input inp of
           Some dec \<Rightarrow> refuse_input d (ra_principal a) x st dec
         | None \<Rightarrow> governed_run d a inp x st))
      (\<lambda>o1 s. completed_grounded (rd_config d) o1)" for x st inp
  proof (cases "acts_for d a x")
    case True
    have "holds_after (\<lambda>s. records_fit (rs_calls s) (ra_initial_results a))
      (and_then (control_do rc_check)
        (case inspect_input inp of
           Some dec \<Rightarrow> refuse_input d (ra_principal a) x st dec
         | None \<Rightarrow> governed_run d a inp x st))
      (\<lambda>o1 s. completed_grounded (rd_config d) o1)"
      by (rule after_then_keeps [OF fitting.check_runs])
        (auto intro: value_grounded anything.refuse_input_value governed_run_grounded True split: option.splits)
    then show ?thesis by (rule after_from) simp
  qed (simp add: holds_after_def run_ok_def)
  show ?thesis
    unfolding execute_body_def Let_def
    by (auto intro!: after_fail after_bind [OF open_run_fits [OF assms]] checked split: prod.splits)
qed

section \<open>Completed runs\<close>

lemma execute_grounded:
  assumes "records_fit (ra_initial_calls a) (ra_initial_results a)"
  shows "holds_after (\<lambda>_. True) (execute d a) (\<lambda>o1 s. completed_grounded (rd_config d) o1)"
proof -
  have interrupted: "completed_grounded (rd_config d) o1"
    if "control_failure d r e s = Some (Inr o1, s1)" for o1 r e s s1
    using runs_returned [OF anything.control_failure_value TrueI that] by (simp add: incomplete_grounded)
  have "holds_after (\<lambda>_. True) (controlled_run d a) (\<lambda>o1 s. completed_grounded (rd_config d) o1)"
    unfolding holds_after_def
  proof (rule run_okI)
    fix s o1 s1
    assume run: "controlled_run d a s = Some (Inr o1, s1)"
    have body: "completed_grounded (rd_config d) o2" if "execute_body d a s = Some (Inr o2, s2)" for o2 s2
      using after_returned [OF execute_body_grounded [OF assms] TrueI that] .
    from run body interrupted show "completed_grounded (rd_config d) o1"
      by (fastforce simp: controlled_run_def finally_do_def catch_if_def bind_act_def read_state_def fail_def
          split: option.splits sum.splits prod.splits if_splits)
  qed simp
  then show ?thesis
    unfolding execute_def
    by (intro after_then_keeps [OF anything_keeps] after_if after_fail)
qed

end
