(* ===== verification/Runtime_Completes.thy ===== *)
theory Runtime_Completes
  imports Runtime_Grounded
begin

text \<open>
  Runs that complete. When the ports answer, the clock stands within every time limit, the steps of
  the plan are granted and their handlers return sound results, and the provider's answer is grounded
  and confident, \<open>execute\<close> returns a COMPLETED outcome. \<open>returns I m Q\<close> says that \<open>m\<close>, started in a
  state with \<open>I\<close>, returns a value with \<open>Q\<close> in a state with \<open>I\<close>: it neither raises nor diverges.
\<close>

section \<open>Actions that return\<close>

definition returns :: "('s \<Rightarrow> bool) \<Rightarrow> ('a, 's) act \<Rightarrow> ('a \<Rightarrow> bool) \<Rightarrow> bool" where
  "returns I m Q \<longleftrightarrow> (\<forall>s. I s \<longrightarrow> (\<exists>x s1. m s = Some (Inr x, s1) \<and> I s1 \<and> Q x))"

abbreviation passes :: "('s \<Rightarrow> bool) \<Rightarrow> ('a, 's) act \<Rightarrow> bool" where
  "passes I m \<equiv> returns I m (\<lambda>_. True)"

named_theorems returns_rules \<open>actions that return\<close>

lemma returnsD: "returns I m Q \<Longrightarrow> I s \<Longrightarrow> \<exists>x s1. m s = Some (Inr x, s1) \<and> I s1 \<and> Q x"
  by (simp add: returns_def)

lemma returns_weaken: "returns I m R \<Longrightarrow> (\<And>x. R x \<Longrightarrow> Q x) \<Longrightarrow> returns I m Q"
  unfolding returns_def by blast

lemma returns_bind:
  assumes "returns I m R" "\<And>x. R x \<Longrightarrow> returns I (f x) Q"
  shows "returns I (bind_act m f) Q"
  unfolding returns_def
proof (intro allI impI)
  fix s
  assume "I s"
  from returnsD [OF assms(1) this] obtain x s1 where x: "m s = Some (Inr x, s1)" "I s1" "R x" by blast
  from returnsD [OF assms(2) [OF x(3)] x(2)] x(1)
  show "\<exists>y s2. bind_act m f s = Some (Inr y, s2) \<and> I s2 \<and> Q y" by (auto simp: bind_act_def)
qed

lemma returns_bind_any [returns_rules]:
  "passes I m \<Longrightarrow> (\<And>x. returns I (f x) Q) \<Longrightarrow> returns I (bind_act m f) Q"
  by (rule returns_bind)

lemma returns_then [returns_rules]: "passes I m \<Longrightarrow> returns I n Q \<Longrightarrow> returns I (and_then m n) Q"
  unfolding and_then_def by (rule returns_bind_any)

lemma returns_ret [returns_rules]: "Q x \<Longrightarrow> returns I (ret x) Q"
  and returns_read: "(\<And>s. I s \<Longrightarrow> Q (f s)) \<Longrightarrow> returns I (read_state f) Q"
  and returns_change: "(\<And>s. I s \<Longrightarrow> I (g s)) \<Longrightarrow> passes I (change_state g)"
  and returns_result: "q = Inr x \<Longrightarrow> Q x \<Longrightarrow> returns I (lift_result q) Q"
  by (simp_all add: returns_def ret_def read_state_def change_state_def lift_result_def)

lemma returns_bind_ret: "returns I (f x) Q \<Longrightarrow> returns I (bind_act (ret x) f) Q"
  by (simp add: returns_def bind_act_def ret_def)

lemma returns_read_any [returns_rules]: "passes I (read_state f)"
  by (simp add: returns_read)

lemma returns_constructed: "ok x \<Longrightarrow> Q x \<Longrightarrow> returns I (lift_result (constructed ok x)) Q"
  by (rule returns_result) (simp_all add: constructed_def)

lemma returns_op:
  "(\<And>s. I s \<Longrightarrow> \<exists>x s1. h s = (Inr x, s1) \<and> I s1 \<and> Q x) \<Longrightarrow> returns I (lift_op h) Q"
  by (simp add: returns_def lift_op_def)

lemma returns_catch_if [returns_rules]: "returns I m Q \<Longrightarrow> returns I (catch_if p m h) Q"
  unfolding returns_def catch_if_def by fastforce

lemma returns_catch [returns_rules]: "returns I m Q \<Longrightarrow> returns I (catch m h) Q"
  unfolding catch_def by (rule returns_catch_if)

lemma returns_finally: "returns I m Q \<Longrightarrow> (\<And>s. I s \<Longrightarrow> I (f s)) \<Longrightarrow> returns I (finally_do m f) Q"
  unfolding returns_def finally_do_def by fastforce

lemma returns_when [returns_rules]: "(b \<Longrightarrow> passes I m) \<Longrightarrow> passes I (when_do b m)"
  by (simp add: when_do_def returns_ret)

lemma returns_let [returns_rules]: "returns I (f x) Q \<Longrightarrow> returns I (let y = x in f y) Q"
  by simp

lemma returns_option [returns_rules]:
  "(x = None \<Longrightarrow> returns I m Q) \<Longrightarrow> (\<And>y. x = Some y \<Longrightarrow> returns I (f y) Q) \<Longrightarrow>
     returns I (case x of None \<Rightarrow> m | Some y \<Rightarrow> f y) Q"
  by (cases x) simp_all

lemma returns_list [returns_rules]:
  "(x = [] \<Longrightarrow> returns I m Q) \<Longrightarrow> (\<And>y ys. x = y # ys \<Longrightarrow> returns I (f y ys) Q) \<Longrightarrow>
     returns I (case x of [] \<Rightarrow> m | y # ys \<Rightarrow> f y ys) Q"
  by (cases x) simp_all

section \<open>A calm setting\<close>

text \<open>
  The invariant of the application, the earliest and latest reading of the clock, the registered tools
  and the identifier of the run.
\<close>

record 'w calm =
  cm_app :: "'w \<Rightarrow> bool"
  cm_lo :: time
  cm_hi :: time
  cm_registry :: "'w tool_registry"
  cm_id :: string

definition calm_monitor :: "'w calm \<Rightarrow> monitor \<Rightarrow> bool" where
  "calm_monitor k m \<longleftrightarrow>
     (\<forall>n. cm_lo k \<le> mo_now m n \<and> mo_now m n \<le> cm_hi k) \<and> (\<forall>n. \<not> mo_cancelled m n)"

definition later :: "'w calm \<Rightarrow> time option \<Rightarrow> bool" where
  "later k d \<longleftrightarrow> (case d of None \<Rightarrow> True | Some t \<Rightarrow> cm_hi k < t)"

definition within_limits :: "'w calm \<Rightarrow> exec_control \<Rightarrow> bool" where
  "within_limits k c \<longleftrightarrow>
     later k (xc_deadline c) \<and> xc_max_total_tokens c = None \<and> xc_max_cost c = None \<and> xc_max_tool_invocations c = None \<and>
     xc_execution_id c \<in> {None, Some (cm_id k)}"

definition calm_tools :: "'w calm \<Rightarrow> ('w, run_control) tool_state \<Rightarrow> bool" where
  "calm_tools k ts \<longleftrightarrow>
     cm_app k (xs_app ts) \<and> calm_monitor k (xs_monitor ts) \<and>
     calm_monitor k (rcl_monitor (xs_caller ts)) \<and> within_limits k (rcl_control (xs_caller ts)) \<and>
     tg_tools (xs_registry ts) = tg_tools (cm_registry k) \<and> (\<forall>n. xs_ready ts n 0)"

text \<open>\<open>fresh\<close>: the identifier of the run has no paused run and no trace.\<close>

definition calm_state :: "'w calm \<Rightarrow> bool \<Rightarrow> 'w runtime_state \<Rightarrow> bool" where
  "calm_state k fresh s \<longleftrightarrow>
     calm_tools k (rs_tools s) \<and> (\<forall>p n. make_id (rs_world s) p n \<noteq> []) \<and>
     (fresh \<longrightarrow> map_of (rs_pending s) (cm_id k) = None \<and> map_of (rs_traces s) (cm_id k) = None)"

text \<open>A time limit longer than the clock moves.\<close>

definition long_enough :: "'w calm \<Rightarrow> duration option \<Rightarrow> bool" where
  "long_enough k limit \<longleftrightarrow> (case limit of None \<Rightarrow> True | Some t \<Rightarrow> cm_hi k - cm_lo k < t)"

definition answers :: "('w \<Rightarrow> bool) \<Rightarrow> ('a, 'w) app_op \<Rightarrow> ('a \<Rightarrow> bool) \<Rightarrow> bool" where
  "answers A f Q \<longleftrightarrow> (\<forall>w. A w \<longrightarrow> (\<exists>v w1. f w = (Inr v, w1) \<and> A w1 \<and> Q v))"

section \<open>Basic actions\<close>

lemma app_returns: "answers (cm_app k) f Q \<Longrightarrow> returns (calm_state k b) (app_do f) Q"
  unfolding app_do_def by (rule returns_op) (fastforce simp: answers_def calm_state_def calm_tools_def)

lemma quiet_calm:
  "calm_state k b s \<Longrightarrow> rs_tools s1 = rs_tools s \<Longrightarrow> make_id (rs_world s1) = make_id (rs_world s) \<Longrightarrow>
     rs_pending s1 = rs_pending s \<Longrightarrow> rs_traces s1 = rs_traces s \<Longrightarrow> calm_state k b s1"
  by (simp add: calm_state_def)

lemma event_state_calm: "calm_state k b s \<Longrightarrow> calm_state k b (event_state d stage ty md s)"
  by (erule quiet_calm)
    (simp_all add: event_state_def record_event_def new_id_def now_def Let_def split: prod.splits)

lemma recording_returns [returns_rules]:
  "passes (calm_state k b) (tr_event d stage ty md)" "passes (calm_state k b) (tr_update f)"
  "passes (calm_state k b) (run_audit d et who x st fl ids md)"
  "passes (calm_state k b) (set_active_step step tool)"
  unfolding tr_event_def tr_update_def run_audit_def set_active_step_def
  by (rule returns_change; (erule event_state_calm)?;
      (erule quiet_calm; simp add: audit_record_def new_id_def now_def Let_def split: prod.splits)?)+

lemma store_trace_returns [returns_rules]: "passes (calm_state k False) (store_trace i t)"
  unfolding store_trace_def by (rule returns_change) (simp add: calm_state_def)

lemma fresh_id_returns: "returns (calm_state k b) (fresh_id p) (\<lambda>i. i \<noteq> [])"
  unfolding fresh_id_def by (rule returns_op) (auto simp: new_id_def calm_state_def)

lemma reading_returns [returns_rules]:
  "passes (calm_state k b) read_clock" "passes (calm_state k b) (export_run d st)"
  "passes (calm_state k b) get_control"
  unfolding read_clock_def export_run_def get_control_def
  by (rule returns_op returns_read; auto simp: calm_state_def now_def new_id_def export_trace_def Let_def)+

section \<open>Control\<close>

lemma calm_cancel: "calm_monitor k m \<Longrightarrow> check_cancel on m = (c, m1) \<Longrightarrow> \<not> c \<and> calm_monitor k m1"
  by (auto simp: check_cancel_def calm_monitor_def split: if_splits)

lemma calm_now: "calm_monitor k m \<Longrightarrow> mono_now m = (t, m1) \<Longrightarrow> cm_lo k \<le> t \<and> t \<le> cm_hi k \<and> calm_monitor k m1"
  by (auto simp: mono_now_def calm_monitor_def)

lemma read_control_calm:
  assumes "calm_monitor k (rcl_monitor r)" "within_limits k (rcl_control r)" "read_control r = ((c, t), r1)"
  shows "control_check c t (rcl_control r) = Inr () \<and> calm_monitor k (rcl_monitor r1) \<and> rcl_control r1 = rcl_control r"
proof -
  obtain q m1 where q: "check_cancel (rcl_signal r) (rcl_monitor r) = (q, m1)" by fastforce
  obtain t2 m2 where t2: "mono_now m1 = (t2, m2)" by fastforce
  note m = calm_cancel [OF assms(1) q]
  with calm_now [of k m1, OF _ t2] assms q t2 show ?thesis
    by (auto simp: read_control_def control_check_def within_limits_def later_def split: if_splits option.splits)
qed

lemma control_returns:
  assumes "\<And>r. calm_monitor k (rcl_monitor r) \<Longrightarrow> within_limits k (rcl_control r) \<Longrightarrow>
    \<exists>v r1. f r = (Inr v, r1) \<and> calm_monitor k (rcl_monitor r1) \<and> within_limits k (rcl_control r1)"
  shows "passes (calm_state k b) (control_do f)"
  unfolding control_do_def
proof (rule returns_op)
  fix s
  assume s: "calm_state k b s"
  with assms [of "xs_caller (rs_tools s)"] obtain v r1 where
    "f (xs_caller (rs_tools s)) = (Inr v, r1)" "calm_monitor k (rcl_monitor r1)" "within_limits k (rcl_control r1)"
    by (auto simp: calm_state_def calm_tools_def)
  with s show "\<exists>x s1. (case f (xs_caller (rs_tools s)) of
      (r, c) \<Rightarrow> (r, s\<lparr>rs_tools := (rs_tools s)\<lparr>xs_caller := c\<rparr>\<rparr>)) = (Inr x, s1) \<and> calm_state k b s1 \<and> True"
    by (simp add: calm_state_def calm_tools_def)
qed

lemma check_returns [returns_rules]: "passes (calm_state k b) (control_do rc_check)"
proof (rule control_returns)
  fix r :: run_control
  assume r: "calm_monitor k (rcl_monitor r)" "within_limits k (rcl_control r)"
  obtain c t r1 where q: "read_control r = ((c, t), r1)" by (metis prod.exhaust)
  from read_control_calm [OF r q] r(2) q
  show "\<exists>v r1. rc_check r = (Inr v, r1) \<and> calm_monitor k (rcl_monitor r1) \<and> within_limits k (rcl_control r1)"
    by (simp add: rc_check_def)
qed

lemma rc_op_calm:
  assumes "calm_monitor k (rcl_monitor r)" "within_limits k (rcl_control r)"
    and "\<And>c t. control_check c t (rcl_control r) = Inr () \<Longrightarrow>
      \<exists>v x. f c t (rcl_control r) = (Inr v, x) \<and> within_limits k x"
  shows "\<exists>v r1. rc_op f r = (Inr v, r1) \<and> calm_monitor k (rcl_monitor r1) \<and> within_limits k (rcl_control r1)"
proof -
  obtain c t r1 where q: "read_control r = ((c, t), r1)" by (metis prod.exhaust)
  note r1 = read_control_calm [OF assms(1,2) q]
  with assms(3) obtain v x where "f c t (rcl_control r) = (Inr v, x)" "within_limits k x" by blast
  with r1 q show ?thesis by (simp add: rc_op_def)
qed

lemma counting_returns [returns_rules]:
  "passes (calm_state k b) (control_do rc_tool_invocation)"
  "passes (calm_state k b) (control_do (rc_usage i out cost))"
  unfolding rc_tool_invocation_def rc_usage_def
  by (intro control_returns rc_op_calm;
      auto simp: record_tool_invocation_def record_provider_usage_def within_limits_def Let_def)+

lemma bind_returns [returns_rules]: "passes (calm_state k b)
    (control_do (\<lambda>r. case bind_execution (cm_id k) (rcl_control r) of (q, c) \<Rightarrow> (q, r\<lparr>rcl_control := c\<rparr>)))"
  by (rule control_returns) (auto simp: bind_execution_def within_limits_def)

section \<open>Ending a run\<close>

lemma decision_returns:
  assumes "\<And>i t. i \<noteq> [] \<Longrightarrow> agent_outcome_ok (upd (blank_outcome i t x st summary)) \<and> Q (upd (blank_outcome i t x st summary))"
  shows "returns (calm_state k b) (decision_outcome x st summary upd) Q"
  unfolding decision_outcome_def
  by (intro returns_bind [OF fresh_id_returns] returns_bind_any returns_constructed returns_rules)
    (use assms in auto)

lemma save_returns:
  assumes "\<And>st v. answers (cm_app k) (sp_save (rd_store d) st v) (\<lambda>_. True)"
  shows "returns (calm_state k b) (save_outcome d x st o1) (\<lambda>o2. o2 = o1)"
  unfolding save_outcome_def
  by (intro returns_bind_any returns_let returns_catch_if returns_then returns_ret app_returns
      recording_returns reading_returns assms refl)

lemma finish_returns:
  assumes "\<And>st v. answers (cm_app k) (sp_save (rd_store d) st v) (\<lambda>_. True)"
  shows "returns (calm_state k False) (finish d who x st o1 True) (\<lambda>o2. ao_status o2 = ao_status o1)"
  unfolding finish_def delegation_end_def if_True
  by (intro returns_bind [OF save_returns [OF assms]] returns_let returns_then returns_bind_any returns_when
      returns_ret returns_rules) simp

section \<open>Calling the provider\<close>

lemma not_reached: "later k d \<Longrightarrow> t \<le> cm_hi k \<Longrightarrow> \<not> reached d t"
  by (auto simp: later_def reached_def split: option.splits)

lemma long_later: "long_enough k limit \<Longrightarrow> cm_lo k \<le> t \<Longrightarrow> later k (map_option (\<lambda>x. t + x) limit)"
  by (auto simp: later_def long_enough_def split: option.splits)

lemma poll_calm:
  assumes m: "calm_monitor k m" and d: "later k d" "later k l"
  shows "\<exists>m1. poll_pass (Some (Inr v)) on d l m = (Some (Inr v), m1) \<and> calm_monitor k m1"
proof -
  obtain c1 m1 where c1: "check_cancel on m = (c1, m1)" by fastforce
  note m1 = calm_cancel [OF m c1]
  obtain t2 m2 where t2: "mono_now m1 = (t2, m2)" by fastforce
  from m1 t2 have m2: "t2 \<le> cm_hi k" "calm_monitor k m2" by (auto dest: calm_now)
  obtain c3 m3 where c3: "check_cancel on m2 = (c3, m3)" by fastforce
  note m3 = calm_cancel [OF m2(2) c3]
  obtain t4 m4 where t4: "mono_now m3 = (t4, m4)" by fastforce
  from m3 t4 have m4: "t4 \<le> cm_hi k" "calm_monitor k m4" by (auto dest: calm_now)
  from c1 m1 t2 m2 c3 m3 t4 m4 show ?thesis
    by (simp add: poll_pass_def after_value_def not_reached [OF d(1)] not_reached [OF d(2)])
qed

lemma run_with_timeout_calm:
  assumes m: "calm_monitor k m" and d: "later k d" "long_enough k limit"
  shows "\<exists>m1. run_with_timeout direct (\<lambda>n. if n = 0 then Some (Inr v) else f n) limit True d m = Some (Inr v, m1) \<and>
    calm_monitor k m1"
proof (cases limit)
  case None
  from poll_calm [OF m d(1), of None v True] None show ?thesis
    by (subst run_with_timeout_def) (auto simp: poll_loop.simps later_def)
next
  case (Some x)
  obtain t2 m2 where t2: "mono_now m = (t2, m2)" by fastforce
  with m have m2: "cm_lo k \<le> t2" "calm_monitor k m2" by (auto dest: calm_now)
  from long_later [OF d(2) m2(1)] Some have "later k (Some (t2 + x))" by simp
  from poll_calm [OF m2(2) d(1) this, of v True] Some t2 show ?thesis
    by (subst run_with_timeout_def) (auto simp: poll_loop.simps)
qed

definition ready_call ::
  "'w calm \<Rightarrow> ('w \<Rightarrow> raw provider_world \<times> 'w) \<Rightarrow> (raw \<Rightarrow> exc + 'r) \<Rightarrow> ('r \<Rightarrow> bool) \<Rightarrow> bool" where
  "ready_call k call reader Q \<longleftrightarrow>
     (\<forall>w. cm_app k w \<longrightarrow> (\<exists>vw w1 v r. call w = (vw, w1) \<and> cm_app k w1 \<and>
        vw_polls vw 1 0 = Some (Inr v) \<and> reader v = Inr r \<and> Q r))"

definition patient_policy :: "'w calm \<Rightarrow> unit provider_policy \<Rightarrow> bool" where
  "patient_policy k p \<longleftrightarrow> long_enough k (pp_timeout p) \<and> 1 \<le> pp_max_attempts p"

lemma invoke_provider_returns:
  assumes "ready_call k call reader Q" "patient_policy k (pv_policy (rd_provider d) op)"
  shows "returns (calm_state k b) (invoke_provider d op call)
    (\<lambda>(v, n). n = 1 \<and> (\<exists>r. reader v = Inr r \<and> Q r))"
  unfolding returns_def
proof (intro allI impI)
  fix s
  assume s: "calm_state k b s"
  let ?ts = "rs_tools s" and ?pol = "controlled_policy (pv_policy (rd_provider d) op)"
  from s have ts: "cm_app k (xs_app ?ts)" "calm_monitor k (xs_monitor ?ts)"
    "later k (xc_deadline (rcl_control (xs_caller ?ts)))"
    by (simp_all add: calm_state_def calm_tools_def within_limits_def)
  from assms(1) ts(1) obtain vw w1 v r where call: "call (xs_app ?ts) = (vw, w1)" "cm_app k w1"
    "vw_polls vw 1 0 = Some (Inr v)" "reader v = Inr r" "Q r" unfolding ready_call_def by blast
  have f: "vw_polls vw 1 = (\<lambda>n. if n = 0 then Some (Inr v) else vw_polls vw 1 n)"
    using call(3) by auto
  from assms(2) have p: "long_enough k (pp_timeout ?pol)" "1 \<le> pp_max_attempts ?pol"
    by (simp_all add: patient_policy_def controlled_policy_def)
  from run_with_timeout_calm [OF ts(2,3) p(1), of "vw_direct vw 1" v "vw_polls vw 1"]
  obtain m1 where m1: "run_with_timeout (vw_direct vw 1) (vw_polls vw 1) (pp_timeout ?pol) True
      (xc_deadline (rcl_control (xs_caller ?ts))) (xs_monitor ?ts) = Some (Inr v, m1)" "calm_monitor k m1"
    unfolding f [symmetric] by blast
  obtain n where n: "nat (pp_max_attempts ?pol) = Suc n" using p(2) by (cases "nat (pp_max_attempts ?pol)") auto
  have "invoke_provider d op call s = Some (Inr (v, 1), s\<lparr>rs_tools := ?ts\<lparr>xs_app := w1, xs_monitor := m1\<rparr>\<rparr>)"
    using p(2) m1(1) by (simp add: invoke_provider_def call(1) invoke_provider_call_def n attempt_call_def)
  with s call m1(2) show "\<exists>x s1. invoke_provider d op call s = Some (Inr x, s1) \<and> calm_state k b s1 \<and>
      (case x of (v, n) \<Rightarrow> n = 1 \<and> (\<exists>r. reader v = Inr r \<and> Q r))"
    by (auto simp: calm_state_def calm_tools_def)
qed

lemma provider_try_returns:
  assumes "ready_call k call reader Q" "patient_policy k (pv_policy (rd_provider d) op)"
    and part: "\<And>m r. Q r \<Longrightarrow> Q (snd part m r)"
  shows "returns (calm_state k b) (provider_try d op call reader part) Q"
  unfolding provider_try_def record_budget_def
proof (intro returns_let returns_then recording_returns, rule returns_bind [OF invoke_provider_returns [OF assms(1,2)]],
    clarify)
  fix v n r
  assume r: "reader v = Inr r" "Q r"
  then show "returns (calm_state k b)
      (bind_act (lift_result (reader v)) (\<lambda>r0.
         let m = (fst part r0)\<lparr>pcm_retry_count := int 1 - 1\<rparr>
         in and_then (control_do rc_check)
            (and_then (tr_update (record_provider_call op m))
              (and_then (control_do (rc_usage (token_count (pcm_input_tokens m)) (token_count (pcm_output_tokens m))
                   (call_cost (rd_cost_model d) m)))
                (and_then (tr_event d (stage_name op) ''provider_call_completed'' [(''operation'', provider_operation_value op)])
                  (ret (snd part m r0))))))) Q"
    by (intro returns_bind [OF returns_result [where Q = "\<lambda>x. x = r"]] returns_let returns_then returns_ret returns_rules)
      (auto intro: part)
qed

lemma provider_stage_returns:
  "returns (calm_state k b) body Q \<Longrightarrow>
     returns (calm_state k b) (provider_stage d who x st op calls body) (case_sum (\<lambda>_. False) Q)"
  unfolding provider_stage_def by (intro returns_catch returns_bind [OF _ returns_ret]) simp_all

section \<open>The context\<close>

definition services_answer :: "'w calm \<Rightarrow> 'w runtime \<Rightarrow> run_args \<Rightarrow> bool" where
  "services_answer k d a \<longleftrightarrow>
     rd_bound d \<in> {None, Some (ra_agent_id a, ra_agent_version a)} \<and>
     (\<forall>g. rd_guard d = Some g \<longrightarrow> answers (cm_app k) (g (ra_agent_id a) (ra_agent_version a)) (\<lambda>ok. ok)) \<and>
     (\<forall>i. answers (cm_app k) (sp_find (rd_store d) (ra_principal a) i) (\<lambda>st. st = None)) \<and>
     answers (cm_app k) (sp_open (rd_store d) (ra_principal a) (ra_agent_id a) (ra_agent_version a)
       (ra_state_id a)) (\<lambda>st. es_state_id st \<noteq> []) \<and>
     (\<forall>st v. answers (cm_app k) (sp_save (rd_store d) st v) (\<lambda>_. True)) \<and>
     (\<forall>f. rd_memory d = Some f \<longrightarrow> answers (cm_app k) (f (ra_principal a)) (\<lambda>_. True))"

text \<open>The blocks that are always in a context fit the budget.\<close>

definition context_fits :: "'w runtime \<Rightarrow> principal_context \<Rightarrow> bool" where
  "context_fits d who \<longleftrightarrow>
     length policy_text + length (principal_content who) +
       (case rd_prompt d of None \<Rightarrow> 0 | Some p \<Rightarrow> length (prompt_content p))
     < cfg_max_context_characters (rd_config d)"

lemma compile_run_returns:
  assumes "services_answer k d a" "context_fits d (ra_principal a)" "\<not> blank txt"
    and "execution_context_ok x" "ec_principal x = ra_principal a" "list_all tool_result_ok results"
  shows "passes (calm_state k b) (compile_run d (ra_principal a) x st txt results)"
proof -
  have "\<exists>c. compile_context (rd_config d) fr os
      \<lparr>ci_principal = ra_principal a, ci_execution = x, ci_input_text = txt, ci_state = Some st,
       ci_prompt = rd_prompt d, ci_skills = rd_skills d, ci_memory = memory, ci_tool_results = results\<rparr> = Inr c"
    (is "\<exists>c. compile_context _ fr os ?ci = Inr c") for memory fr os
  proof -
    have "required_characters ?ci < cfg_max_context_characters (rd_config d)"
      using assms(2) by (simp add: required_characters_def context_fits_def)
    from apply_budget_fits [OF this, of fr os] obtain sel dropped where
      "apply_budget (cfg_max_context_characters (rd_config d)) (parts fr os ?ci) = Inr (sel, dropped)" by blast
    moreover have "context_inputs_ok ?ci"
      using assms(4-6) by (auto simp: context_inputs_ok_def execution_context_ok_def)
    ultimately show ?thesis using assms(3,5) by (simp add: compile_cases)
  qed
  then have c: "passes (calm_state k b) (lift_result (compile_context (rd_config d) fr os
      \<lparr>ci_principal = ra_principal a, ci_execution = x, ci_input_text = txt, ci_state = Some st,
       ci_prompt = rd_prompt d, ci_skills = rd_skills d, ci_memory = memory, ci_tool_results = results\<rparr>))"
    for memory fr os by (metis (no_types, lifting) returns_result)
  show ?thesis
    unfolding compile_run_def
    by (intro returns_bind_any returns_option returns_ret app_returns c)
      (use assms(1) in \<open>auto simp: services_answer_def\<close>)
qed

section \<open>Governance\<close>

definition grants :: "'w proposal \<Rightarrow> permission_decision \<Rightarrow> bool" where
  "grants p q \<longleftrightarrow>
     permission_for q (pr_principal p) (pr_tool p) \<and> pm_allowed q \<and> \<not> pm_approval_required q \<and>
     pm_reason_code q \<noteq> [] \<and>
     (case pm_policy_decision q of None \<Rightarrow> True | Some pd \<Rightarrow> pd_allowed pd \<and> \<not> pd_approval_required pd)"

definition governance_grants :: "'w calm \<Rightarrow> 'w runtime \<Rightarrow> bool" where
  "governance_grants k d \<longleftrightarrow>
     (\<forall>p. answers (cm_app k) (rd_permission d p) (grants p)) \<and>
     (\<forall>f who x tool action. rd_approval_policy d = Some f \<longrightarrow>
        answers (cm_app k) (f who x tool action) (\<lambda>r. \<not> apd_required r))"

definition resource_named :: "resource_context option \<Rightarrow> bool" where
  "resource_named res \<longleftrightarrow>
     opt_nonempty (map_option rc_resource_type res) \<and> opt_nonempty (Option.bind res rc_resource_id)"

lemma authorize_returns:
  assumes "governance_grants k d" "execution_context_ok x" "principal_context_ok who"
    and tool: "tool_definition_ok tool" "ceiling_denial x tool = None" "\<not> td_requires_approval tool"
    and res: "resource_named res"
  shows "returns (calm_state k b) (authorize_step d who x tool arguments res) pm_allowed"
proof -
  let ?p = "\<lparr>pr_principal = who, pr_execution = x, pr_tool = tool, pr_arguments = arguments, pr_resource = res\<rparr>"
  have ask: "returns (calm_state k b) (app_do (rd_permission d ?p)) (grants ?p)"
    using assms(1) by (intro app_returns) (simp add: governance_grants_def)
  have ceiling: "returns (calm_state k b) (enforce_ceiling d p who x tool arguments) pm_allowed"
    if "pm_allowed p" "\<not> needs_approval p tool" for p
    using that assms(5) by (simp add: enforce_ceiling_def returns_ret)
  have decision: "returns (calm_state k b)
      (runtime_policy_decision who x tool True reason False res) (\<lambda>pd. \<not> pd_approval_required pd)"
    if "reason \<noteq> []" for reason
    unfolding runtime_policy_decision_def
    by (intro returns_bind [OF fresh_id_returns] returns_constructed)
      (use that assms(2,3) tool(1) res in \<open>auto simp: policy_decision_ok_def execution_context_ok_def
        principal_context_ok_def tool_definition_ok_def opt_nonempty_def resource_named_def\<close>)
  have cont: "returns (calm_state k b)
      (if \<not> permission_for p who tool
       then deny_permission p who x tool ''invalid_permission_decision'' False
       else
         (case pm_policy_decision p of
            None \<Rightarrow>
              bind_act (runtime_policy_decision who x tool (pm_allowed p) (pm_reason_code p)
                          (pm_approval_required p) res) (\<lambda>pd.
                enforce_ceiling d (p\<lparr>pm_policy_decision := Some pd\<rparr>) who x tool arguments)
          | Some pd \<Rightarrow>
              if \<not> pd_allowed pd
              then ret (p\<lparr>pm_allowed := False, pm_reason_code := pd_reason_code pd,
                          pm_approval_required := False\<rparr>)
              else enforce_ceiling d p who x tool arguments)) pm_allowed" if p: "grants ?p p" for p
  proof (cases "pm_policy_decision p")
    case None
    with p have "permission_for p who tool" "pm_allowed p" "\<not> pm_approval_required p" "pm_reason_code p \<noteq> []"
      by (simp_all add: grants_def)
    with None show ?thesis
      by (simp, intro returns_bind [OF decision] ceiling) (use tool(3) in \<open>simp_all add: needs_approval_def\<close>)
  next
    case (Some pd)
    with p tool(3) show ?thesis by (simp add: grants_def ceiling needs_approval_def)
  qed
  show ?thesis unfolding authorize_step_def by (rule returns_bind [OF ask cont])
qed

definition nameable :: "execution_context \<Rightarrow> 'w tool_definition \<Rightarrow> plan_step \<Rightarrow> bool" where
  "nameable x tool p \<longleftrightarrow>
     execution_context_ok x \<and> tool_definition_ok tool \<and> ps_step_id p \<noteq> [] \<and> ps_purpose p \<noteq> [] \<and>
     ps_idempotency_key p = None"

lemma judge_returns:
  assumes "governance_grants k d" "principal_context_ok who" "nameable x tool step"
    and tool: "ceiling_denial x tool = None" "\<not> td_requires_approval tool" and res: "resource_named res"
  shows "returns (calm_state k b) (judge_step d who x tool step res ctx)
    (\<lambda>v. pm_allowed (vd_permission v) \<and> vd_execution v = x \<and> vd_call_id v = None)"
proof -
  from assms(3) have ok: "execution_context_ok x" "tool_definition_ok tool" by (simp_all add: nameable_def)
  have proposal: "passes (calm_state k b) (lift_result (make_action_proposal x tool step None))"
    unfolding make_action_proposal_def
    by (rule returns_constructed)
      (use assms(3) in \<open>auto simp: nameable_def action_proposal_ok_def tool_call_ok_def execution_context_ok_def
        tool_definition_ok_def opt_nonempty_def\<close>)
  have policy: "returns (calm_state k b) (ask_approval_policy d who x tool action)
      (\<lambda>q. case q of None \<Rightarrow> True | Some r \<Rightarrow> \<not> apd_required r)" for action
    unfolding ask_approval_policy_def
    by (intro returns_option returns_ret returns_bind [where R = "\<lambda>r. \<not> apd_required r"] app_returns)
      (use assms(1) in \<open>auto simp: governance_grants_def\<close>)
  have noted: "passes (calm_state k b) (record_approval_policy d who x tool pol)" for pol
    unfolding record_approval_policy_def by (intro returns_rules) simp
  show ?thesis
    unfolding judge_step_def
    by (rule returns_bind [OF authorize_returns [OF assms(1) ok(1) assms(2) ok(2) tool res]],
        rule returns_bind [OF proposal], rule returns_bind [OF policy], rule returns_then [OF noted],
        rule returns_bind [where R = pm_allowed])
      (auto intro!: returns_option returns_ret simp: plain_verdict_def split: option.splits)
qed

lemma record_policy_returns [returns_rules]: "passes (calm_state k b) (record_policy d who v tool)"
  unfolding record_policy_def by (intro returns_rules) simp

section \<open>Calling a tool\<close>

text \<open>A result that says it succeeded, raises no doubt and holds no instruction-like text.\<close>

definition sound_result :: "library_env \<Rightarrow> tool_result \<Rightarrow> bool" where
  "sound_result l r \<longleftrightarrow>
     tr_status r = TR_SUCCEEDED \<and> \<not> tr_restricted r \<and> tr_conflicts r = [] \<and> tr_injection_flags r = [] \<and>
     indirect_injection_matches (serialized_output (le_float_repr l) (le_object_str l) r) = [] \<and>
     tool_result_ok r \<and> tr_error_code r \<noteq> Some []"

definition sound_handler ::
  "'w calm \<Rightarrow> library_env \<Rightarrow> execution_context \<Rightarrow> 'w tool_definition \<Rightarrow> (string, pyval) dict \<Rightarrow> bool" where
  "sound_handler k l x tool arguments \<longleftrightarrow>
     validate_arguments tool arguments \<in> range Inr \<and>
     (\<forall>w. cm_app k w \<longrightarrow> (\<exists>r w1. tool_invoke tool x arguments w = (Inr (Inr r), w1) \<and>
        cm_app k w1 \<and> sound_result l r))"

lemma sound_metadata [simp]: "sound_result l (r\<lparr>tr_metadata := md\<rparr>) = sound_result l r"
  by (simp add: sound_result_def tool_result_ok_def serialized_output_def)

lemma sound_detected: "sound_result l r \<Longrightarrow> detect_indirect_injection (le_float_repr l) (le_object_str l) r = r"
  by (simp add: detect_indirect_injection_def sound_result_def)

definition calm_call :: "'w calm \<Rightarrow> 'w runtime \<Rightarrow> execution_context \<Rightarrow> 'w tool_definition \<Rightarrow> plan_step \<Rightarrow> bool" where
  "calm_call k d x tool p \<longleftrightarrow>
     registered (tg_tools (cm_registry k)) tool \<and> nameable x tool p \<and>
     ceiling_denial x tool = None \<and> \<not> td_requires_approval tool \<and> \<not> td_idempotency_required tool \<and>
     long_enough k (td_timeout tool) \<and> sound_handler k (rd_lib d) x tool (ps_arguments p)"

lemma tool_poll_calm:
  assumes m: "calm_monitor k m" and d: "later k d" "later k l"
  shows "\<exists>m1. tool_poll_pass (Inr (Inr r)) True on d l m = (Some (Inr (Inr r)), m1) \<and> calm_monitor k m1"
proof -
  obtain c1 m1 where c1: "check_cancel on m = (c1, m1)" by fastforce
  note m1 = calm_cancel [OF m c1]
  obtain t2 m2 where t2: "mono_now m1 = (t2, m2)" by fastforce
  from m1 t2 have m2: "t2 \<le> cm_hi k" "calm_monitor k m2" by (auto dest: calm_now)
  obtain c3 m3 where c3: "check_cancel on m2 = (c3, m3)" by fastforce
  note m3 = calm_cancel [OF m2(2) c3]
  obtain t4 m4 where t4: "mono_now m3 = (t4, m4)" by fastforce
  from m3 t4 have m4: "t4 \<le> cm_hi k" "calm_monitor k m4" by (auto dest: calm_now)
  from c1 m1 t2 m2 c3 m3 t4 m4 show ?thesis
    by (simp add: tool_poll_pass_def tool_after_result_def not_reached [OF d(1)] not_reached [OF d(2)])
qed

lemma tool_run_calm:
  assumes m: "calm_monitor k m" and d: "later k d" "long_enough k limit" and ready: "ready 0"
  shows "\<exists>m1. tool_run_with_timeout (Inr (Inr r)) ready limit True d m = Some (Inr (Inr r), m1) \<and> calm_monitor k m1"
proof (cases limit)
  case None
  from tool_poll_calm [OF m d(1), of None r True] None ready show ?thesis
    by (subst tool_run_with_timeout_def) (auto simp: tool_poll_loop.simps later_def)
next
  case (Some x)
  obtain t2 m2 where t2: "mono_now m = (t2, m2)" by fastforce
  with m have m2: "cm_lo k \<le> t2" "calm_monitor k m2" by (auto dest: calm_now)
  from long_later [OF d(2) m2(1)] Some have "later k (Some (t2 + x))" by simp
  from tool_poll_calm [OF m2(2) d(1) this, of r True] Some t2 ready show ?thesis
    by (subst tool_run_with_timeout_def) (auto simp: tool_poll_loop.simps)
qed

lemma attempts_positive:
  "tool_definition_ok t \<Longrightarrow> \<exists>n. (if retry_enabled t then retry_max_attempts t else 1) = Suc n"
  by (cases "retry_max_attempts t")
    (auto simp: tool_definition_ok_def retry_max_attempts_def tool_retry_policy_ok_def split: option.splits)

lemma record_calm:
  assumes "calm_tools k ts" "ec_execution_id x \<noteq> []" "tool_definition_ok tool" "code \<noteq> Some []"
  shows "\<exists>ts1. record_execution opts x tool TR_SUCCEEDED 1 None code ts = (Inr (), ts1) \<and> calm_tools k ts1"
proof -
  have "td_tool_id tool \<noteq> []" "td_version tool \<noteq> []"
    "case td_timeout tool of None \<Rightarrow> True | Some d \<Rightarrow> 0 < d"
    using assms(3) by (auto simp: tool_definition_ok_def)
  with assms show ?thesis
    by (simp add: record_execution_def tool_execution_record_ok_def Let_def emit_def calm_tools_def)
qed

lemma invoke_tool_calm:
  assumes ts: "calm_tools k ts" and c: "calm_call k d x tool p"
    and opts: "io_cancel opts" "later k (io_deadline opts)" and nonempty: "ec_execution_id x \<noteq> []"
  shows "\<exists>r ts1. invoke_tool env opts (td_tool_id tool) x (ps_arguments p) (Some (td_version tool))
      (ps_idempotency_key p) ts = Some (Inr (Inr (with_execution_metadata env tool 1 r)), ts1) \<and>
    calm_tools k ts1 \<and> sound_result (rd_lib d) r"
proof -
  let ?ts0 = "emit opts ''tool_execution_started'' (tool_metadata tool @ [(''attempt'', str_nat 1)]) ts"
  have ts0: "calm_tools k ?ts0" using ts by (simp add: emit_def calm_tools_def)
  from c have ok: "tool_definition_ok tool" "ps_idempotency_key p = None" "\<not> td_idempotency_required tool"
    by (simp_all add: calm_call_def nameable_def)
  from c ts0 obtain r w1 where r: "tool_invoke tool x (ps_arguments p) (xs_app ?ts0) = (Inr (Inr r), w1)"
    "cm_app k w1" "sound_result (rd_lib d) r"
    by (fastforce simp: calm_call_def sound_handler_def calm_tools_def)
  from ts0 have m: "calm_monitor k (xs_monitor ?ts0)" "xs_ready ?ts0 (xs_calls ?ts0) 0"
    by (simp_all add: calm_tools_def)
  from tool_run_calm [where ready = "xs_ready ?ts0 (xs_calls ?ts0)", OF m(1) opts(2) _ m(2), of "td_timeout tool" r] c
  obtain m1 where m1: "tool_run_with_timeout (Inr (Inr r)) (xs_ready ?ts0 (xs_calls ?ts0)) (td_timeout tool)
      True (io_deadline opts) (xs_monitor ?ts0) = Some (Inr (Inr r), m1)" "calm_monitor k m1"
    by (auto simp: calm_call_def)
  let ?ts1 = "?ts0\<lparr>xs_app := w1, xs_monitor := m1, xs_calls := Suc (xs_calls ?ts0)\<rparr>"
  have called: "call_tool opts tool x (ps_arguments p) ?ts0 = Some (Inr (Inr r), ?ts1)"
    using m1(1) opts(1) r(1) by (simp add: call_tool_def)
  have ts1: "calm_tools k ?ts1" using ts0 r(2) m1(2) by (simp add: calm_tools_def)
  let ?done = "with_execution_metadata env tool 1 r"
  have st: "tr_status r = TR_SUCCEEDED" "tr_status ?done = TR_SUCCEEDED" "tr_error_code ?done \<noteq> Some []"
    using r(3) by (simp_all add: sound_result_def with_execution_metadata_def Let_def)
  from record_calm [OF ts1 nonempty ok(1) st(3)] obtain ts2 where
    ts2: "record_execution opts x tool TR_SUCCEEDED 1 None (tr_error_code ?done) ?ts1 = (Inr (), ts2)"
      "calm_tools k ts2" by blast
  have loop: "tool_loop env opts tool x (ps_arguments p) None g (Suc n) 0 prev ts = Some (Inr (Inr ?done), ts2)"
    for g n prev
    using called ts2(1) st
    by (simp add: tool_loop.simps recorded_answer_def remember_result_def digest_key_def Let_def)
  obtain n where n: "(if retry_enabled tool then retry_max_attempts tool else 1) = Suc n"
    using attempts_positive [OF ok(1)] by blast
  from c ts have g: "registered (tg_tools (xs_registry ts)) tool" by (simp add: calm_call_def calm_tools_def)
  from c obtain v where v: "validate_arguments tool (ps_arguments p) = Inr v"
    by (auto simp: calm_call_def sound_handler_def)
  have "tool_loop env opts tool x (ps_arguments p) None g
      (if retry_enabled tool then retry_max_attempts tool else 1) 0 None ts = Some (Inr (Inr ?done), ts2)" for g
    unfolding n by (rule loop)
  then have "invoke_tool env opts (td_tool_id tool) x (ps_arguments p) (Some (td_version tool))
      (ps_idempotency_key p) ts = Some (Inr (Inr ?done), ts2)"
    by (simp add: invoke_tool_def get_tool_exact [OF g] v ok call_cache_key_def Let_def split del: if_split)
  with ts2(2) r(3) show ?thesis by blast
qed

lemma replay_calm: "calm_state k b s \<Longrightarrow> calm_state k b (replay_events d s)"
proof -
  have "calm_state k b s \<Longrightarrow> calm_state k b (fold (\<lambda>(ty, md). event_state d ''tool'' ty md) es s)" for es
    by (induction es arbitrary: s) (auto simp: event_state_calm)
  then show "calm_state k b s \<Longrightarrow> calm_state k b (replay_events d s)" by (simp add: replay_events_def)
qed

lemma invoke_step_returns:
  assumes "calm_call k d x tool p" "ec_execution_id x \<noteq> []"
  shows "returns (calm_state k b) (invoke_step d x tool p) (\<lambda>q. \<exists>r.
    q = Inr (with_execution_metadata (le_tool (rd_lib d)) tool 1 r) \<and> sound_result (rd_lib d) r)"
  unfolding returns_def
proof (intro allI impI)
  fix s
  assume s: "calm_state k b s"
  let ?ts = "(rs_tools s)\<lparr>xs_trace := []\<rparr>"
  from s have ts: "calm_tools k ?ts" by (simp add: calm_state_def calm_tools_def)
  then have "later k (io_deadline (run_options (rcl_control (xs_caller ?ts))))"
    by (simp add: run_options_def calm_tools_def within_limits_def)
  from invoke_tool_calm [OF ts assms(1) _ this assms(2), of "le_tool (rd_lib d)"] s
  show "\<exists>q s1. invoke_step d x tool p s = Some (Inr q, s1) \<and> calm_state k b s1 \<and>
      (\<exists>r. q = Inr (with_execution_metadata (le_tool (rd_lib d)) tool 1 r) \<and> sound_result (rd_lib d) r)"
    by (fastforce simp: invoke_step_def run_options_def Let_def calm_state_def)
qed

text \<open>A sound result as the registry returns it: after one attempt.\<close>

definition recorded_once :: "library_env \<Rightarrow> tool_result \<Rightarrow> bool" where
  "recorded_once l r \<longleftrightarrow>
     sound_result l r \<and> metadata_int (tr_metadata r) ''attempts'' 1 = 1 \<and>
     metadata_int (tr_metadata r) ''retry_count'' 0 = 0"

lemma first_attempt: "sound_result l r \<Longrightarrow> recorded_once l (with_execution_metadata env tool 1 r)"
proof -
  have "python_int (str_nat 1) = Some 1" "python_int (str_nat 0) = Some 0" by code_simp+
  then show "sound_result l r \<Longrightarrow> recorded_once l (with_execution_metadata env tool 1 r)"
    by (simp add: recorded_once_def with_execution_metadata_def metadata_int_def Let_def update_conv split: option.split)
qed

lemma run_tool_returns:
  assumes c: "calm_call k d x tool p"
  shows "returns (calm_state k b) (run_tool d x tool p) (recorded_once (rd_lib d))"
proof -
  from c obtain v where v: "validate_arguments tool (ps_arguments p) = Inr v"
    by (auto simp: calm_call_def sound_handler_def)
  from c have x: "ec_execution_id x \<noteq> []" by (simp add: calm_call_def nameable_def execution_context_ok_def)
  have found: "recorded_once (rd_lib d) (detect_indirect_injection (le_float_repr (rd_lib d)) (le_object_str (rd_lib d)) r)"
    if "recorded_once (rd_lib d) r" for r
    using that by (simp add: recorded_once_def sound_detected)
  show ?thesis
    unfolding run_tool_def v sum.case
    by (rule returns_bind [OF returns_then [OF recording_returns(1) returns_finally [OF invoke_step_returns [OF c x] replay_calm]]])
      (auto intro!: returns_ret found first_attempt simp del: One_nat_def)
qed

section \<open>The steps\<close>

lemma call_id_returns: "returns (calm_state k b) (call_id_for None) (\<lambda>i. i \<noteq> [])"
  unfolding call_id_for_def by (simp add: or_else_def fresh_id_returns)

lemma add_call_returns: "tool_call_record_ok r \<Longrightarrow> passes (calm_state k b) (add_call r)"
  unfolding add_call_def
  by (intro returns_bind_any returns_constructed returns_change) (simp_all add: calm_state_def)

lemma record_result_returns:
  assumes "nameable x tool p" "recorded_once (rd_lib d) r"
  shows "passes (calm_state k b) (record_result d who x tool p n None r)"
proof -
  have tool: "td_tool_id tool \<noteq> []" "td_version tool \<noteq> []" "ps_step_id p \<noteq> []" "ec_execution_id x \<noteq> []"
    "case td_timeout tool of None \<Rightarrow> True | Some d \<Rightarrow> 0 < d"
    using assms(1) by (auto simp: nameable_def tool_definition_ok_def execution_context_ok_def)
  have added: "passes (calm_state k b) (add_call ((call_record i tool p (tr_status r) None)
      \<lparr>tcr_evidence_ids := es, tcr_retry_count := m\<rparr>))" if "i \<noteq> []" for i es m
    using that tool by (intro add_call_returns) (simp add: tool_call_record_ok_def call_record_def)
  have traced: "passes (calm_state k b) (trace_execution ((execution_record x tool (tr_status r))
      \<lparr>ter_attempts := metadata_int (tr_metadata r) ''attempts'' 1,
       ter_retry_count := metadata_int (tr_metadata r) ''retry_count'' 0,
       ter_timeout := td_timeout tool, ter_error_code := tr_error_code r\<rparr>))"
    unfolding trace_execution_def
    by (intro returns_bind_any returns_constructed recording_returns)
      (use assms(2) tool in \<open>auto simp: tool_execution_record_ok_def execution_record_def recorded_once_def sound_result_def\<close>)
  show ?thesis
    unfolding record_result_def Let_def
    by (intro returns_bind [OF call_id_returns] returns_then added traced returns_rules)
qed

lemma calm_get_tool:
  "calm_state k b s \<Longrightarrow> get_tool i v c (xs_registry (rs_tools s)) = get_tool i v c (cm_registry k)"
  by (rule get_tool_tools) (simp add: calm_state_def calm_tools_def)

lemma propose_returns:
  assumes "get_tool (ps_tool_id p) (ps_tool_version p) False (cm_registry k) = Inr tool"
  shows "returns (calm_state k b) (propose_step d n p) (\<lambda>t. t = tool)"
proof -
  have found: "returns (calm_state k b) (read_state (\<lambda>s. get_tool (ps_tool_id p) (ps_tool_version p) False
      (xs_registry (rs_tools s)))) (\<lambda>q. q = Inr tool)"
    by (rule returns_read) (simp add: calm_get_tool assms)
  show ?thesis
    unfolding propose_step_def
    by (intro returns_then returns_bind [OF found] returns_rules) (auto intro!: returns_then returns_ret returns_rules)
qed

text \<open>The arguments of a run that stay the same: the setting, the runtime, and whom it acts for.\<close>

definition governed :: "'w calm \<Rightarrow> 'w runtime \<Rightarrow> run_frame \<Rightarrow> bool" where
  "governed k d f \<longleftrightarrow>
     governance_grants k d \<and> principal_context_ok (rf_principal f) \<and> resource_named (rf_resource f)"

definition calm_step :: "'w calm \<Rightarrow> 'w runtime \<Rightarrow> execution_context \<Rightarrow> plan_step \<Rightarrow> bool" where
  "calm_step k d x p \<longleftrightarrow>
     (\<exists>tool. get_tool (ps_tool_id p) (ps_tool_version p) False (cm_registry k) = Inr tool \<and> calm_call k d x tool p) \<and>
     (ec_authorized_tool_versions x = [] \<or>
      ps_tool_id p @ ''@'' @ (case ps_tool_version p of None \<Rightarrow> ''None'' | Some v \<Rightarrow> v)
        \<in> set (ec_authorized_tool_versions x))"

lemma allowed_returns:
  assumes "calm_call k d x tool p" "vd_execution v = x" "vd_call_id v = None"
  shows "returns (calm_state k b) (allowed_step d f n v tool p) (\<lambda>q. \<exists>r. q = Inr r \<and> recorded_once (rd_lib d) r)"
proof -
  have "\<not> lacks_key tool p" "nameable x tool p"
    using assms(1) by (simp_all add: lacks_key_def calm_call_def)
  then show ?thesis
    unfolding allowed_step_def assms(2,3)
    by simp (intro returns_then returns_bind [OF run_tool_returns [OF assms(1)]] record_result_returns
        returns_ret recording_returns; simp)
qed

lemma run_step_returns:
  assumes "governed k d f" "calm_step k d x p"
  shows "returns (calm_state k b) (run_step d f n p rest (x, results, risk))
    (\<lambda>q. \<exists>r risk1. q = Inr (x, results @ [r], risk1) \<and> recorded_once (rd_lib d) r)"
proof -
  from assms(2) obtain tool where tool: "get_tool (ps_tool_id p) (ps_tool_version p) False (cm_registry k) = Inr tool"
    "calm_call k d x tool p" by (auto simp: calm_step_def)
  from tool(2) have c: "nameable x tool p" "ceiling_denial x tool = None" "\<not> td_requires_approval tool"
    by (simp_all add: calm_call_def)
  have judged: "returns (calm_state k b)
      (judge_step d (rf_principal f) x tool p (rf_resource f) (rf_context f))
      (\<lambda>v. pm_allowed (vd_permission v) \<and> vd_execution v = x \<and> vd_call_id v = None)"
    by (rule judge_returns) (use assms(1) c in \<open>auto simp: governed_def\<close>)
  show ?thesis
    unfolding run_step_def prod.case Let_def
  proof (rule returns_bind [OF propose_returns [OF tool(1)]], clarify, rule returns_bind [OF judged],
      rule returns_then [OF record_policy_returns])
    fix v :: verdict
    assume v: "pm_allowed (vd_permission v) \<and> vd_execution v = x \<and> vd_call_id v = None"
    from v have "returns (calm_state k b) (bind_act (allowed_step d f n v tool p) (\<lambda>q.
          ret (case q of Inl o1 \<Rightarrow> Inl o1
               | Inr r \<Rightarrow> Inr (vd_execution v, results @ [r], higher_risk risk (td_risk_level tool)))))
        (\<lambda>q. \<exists>r risk1. q = Inr (x, results @ [r], risk1) \<and> recorded_once (rd_lib d) r)"
      by (intro returns_bind [OF allowed_returns [OF tool(2)]] returns_ret) auto
    with v show "returns (calm_state k b)
        (if \<not> pm_allowed (vd_permission v)
         then bind_act (refuse_step d f v tool p rest results (higher_risk risk (td_risk_level tool)))
                (\<lambda>o1. ret (Inl o1))
         else bind_act (allowed_step d f n v tool p) (\<lambda>q.
                ret (case q of Inl o1 \<Rightarrow> Inl o1
                     | Inr r \<Rightarrow> Inr (vd_execution v, results @ [r], higher_risk risk (td_risk_level tool)))))
        (\<lambda>q. \<exists>r risk1. q = Inr (x, results @ [r], risk1) \<and> recorded_once (rd_lib d) r)"
      by simp
  qed
qed

lemma run_steps_returns:
  assumes "governed k d f" "list_all (calm_step k d x) steps"
  shows "returns (calm_state k b) (run_steps d f n steps (x, results, risk))
    (\<lambda>q. \<exists>rs risk1. q = Inr (x, results @ rs, risk1) \<and> length rs = length steps \<and> list_all (recorded_once (rd_lib d)) rs)"
  using assms(2)
proof (induction steps arbitrary: n results risk)
  case Nil
  show ?case by (simp add: returns_ret)
next
  case (Cons p steps)
  from Cons.prems have p: "calm_step k d x p" and rest: "list_all (calm_step k d x) steps" by simp_all
  show ?case
    unfolding run_steps.simps
  proof (rule returns_bind [OF run_step_returns [OF assms(1) p]], clarify)
    fix r risk1
    assume r: "recorded_once (rd_lib d) r"
    show "returns (calm_state k b)
        (case Inr (x, results @ [r], risk1) of
           Inl o1 \<Rightarrow> ret (Inl o1) | Inr g1 \<Rightarrow> run_steps d f (Suc n) steps g1)
        (\<lambda>q. \<exists>rs risk1. q = Inr (x, results @ rs, risk1) \<and> length rs = length (p # steps) \<and>
           list_all (recorded_once (rd_lib d)) rs)"
      unfolding sum.case
    proof (rule returns_weaken [OF Cons.IH [OF rest]], clarify)
      fix rs risk2
      assume "length rs = length steps" "list_all (recorded_once (rd_lib d)) rs"
      with r have "length (r # rs) = length (p # steps)" "list_all (recorded_once (rd_lib d)) (r # rs)" by simp_all
      then show "\<exists>rs1 risk1. Inr (x, (results @ [r]) @ rs, risk2) = Inr (x, results @ rs1, risk1) \<and>
          length rs1 = length (p # steps) \<and> list_all (recorded_once (rd_lib d)) rs1"
        by (intro exI [of _ "r # rs"]) simp
    qed
  qed
qed

section \<open>The answer\<close>

text \<open>A proposal that cites only what the tools returned, and is confident.\<close>

definition grounded_proposal :: "runtime_config \<Rightarrow> tool_result list \<Rightarrow> outcome_proposal \<Rightarrow> bool" where
  "grounded_proposal cfg rs p \<longleftrightarrow>
     set (op_evidence_ids p) \<subseteq> set (returned_ids rs) \<and> op_summary p \<noteq> [] \<and>
     cfg_minimum_confidence_threshold cfg \<le> op_confidence p \<and>
     cfg_high_confidence_threshold cfg \<le> op_confidence p \<and> 0 \<le> op_confidence p \<and> op_confidence p \<le> 1"

definition provider_ready :: "'w calm \<Rightarrow> 'w runtime \<Rightarrow> agent_plan \<Rightarrow> bool" where
  "provider_ready k d plan \<longleftrightarrow>
     (\<forall>op. patient_policy k (pv_policy (rd_provider d) op)) \<and>
     (\<forall>f q. pv_interpret (rd_provider d) = Some f \<longrightarrow>
        ready_call k (f q) (normalize_interpretation (le_norm (rd_lib d))) (\<lambda>_. True)) \<and>
     (\<forall>q. ready_call k (pv_plan (rd_provider d) q) (normalize_plan (le_norm (rd_lib d)))
        (\<lambda>r. pr_plan r = plan)) \<and>
     (\<forall>q. cq_tool_results q \<noteq> [] \<and> list_all (sound_result (rd_lib d)) (cq_tool_results q) \<longrightarrow>
        ready_call k (pv_compose (rd_provider d) q) (normalize_composition (le_norm (rd_lib d)))
          (\<lambda>r. grounded_proposal (rd_config d) (cq_tool_results q) (cp_proposal r)))"

lemma sound_clean: "rs \<noteq> [] \<Longrightarrow> list_all (sound_result l) rs \<Longrightarrow> results_clean rs"
  by (auto simp: results_clean_def list_all_iff sound_result_def result_restricted_def result_failed_def
      result_succeeded_def neq_Nil_conv)

lemma issue_returns:
  assumes "services_answer k d a" "execution_context_ok x"
    and rs: "rs \<noteq> []" "list_all (sound_result (rd_lib d)) rs" and p: "grounded_proposal (rd_config d) rs p"
  shows "returns (calm_state k False) (issue_answer d f (x, rs, risk) p) (\<lambda>o1. ao_status o1 = Outcome_COMPLETED)"
proof -
  let ?v = "verify_outcome p rs"
  let ?dec = "decide (rd_config d) rs p ?v risk"
  have dec: "sd_status ?dec = Outcome_COMPLETED"
    using p sound_clean [OF rs] by (simp add: decide_completed_iff invalid_ids_empty_iff grounded_proposal_def)
  then have "summary_for_decision p ?dec = op_summary p" by (simp add: summary_for_decision_def)
  with p assms(2) have ok: "agent_outcome_ok ((blank_outcome i t x (sd_status ?dec) (summary_for_decision p ?dec))
      \<lparr>ao_evidence_ids := es, ao_safety_flags := fl, ao_tool_calls := cs, ao_verification := v,
       ao_recovery := re, ao_human_review_required := h, ao_confidence := op_confidence p, ao_error_code := e\<rparr>)"
    if "i \<noteq> []" for i t es fl cs v re h e
    using that by (auto simp: agent_outcome_ok_def blank_outcome_def grounded_proposal_def
        execution_context_ok_def principal_context_ok_def)
  have saves: "answers (cm_app k) (sp_save (rd_store d) st v) (\<lambda>_. True)" for st v
    using assms(1) by (simp add: services_answer_def)
  have ended: "returns (calm_state k False) (finish d who x st o1 True) (\<lambda>o2. ao_status o2 = Outcome_COMPLETED)"
    if "ao_status o1 = Outcome_COMPLETED" for who st o1
    using returns_weaken [OF finish_returns [OF saves]] that by simp
  show ?thesis
    unfolding issue_answer_def prod.case Let_def
  proof (rule returns_then [OF recording_returns(1)], rule returns_bind_any [OF reading_returns(3)],
      rule returns_bind_any [OF returns_read_any], rule returns_bind [OF decision_returns ended])
    fix c calls i t
    assume "i \<noteq> ([] :: char list)"
    then show "agent_outcome_ok ((blank_outcome i t x (sd_status ?dec) (summary_for_decision p ?dec))
        \<lparr>ao_evidence_ids := issued_evidence p ?v ?dec, ao_safety_flags := outcome_flags ?dec c,
         ao_tool_calls := calls, ao_verification := Some ?v,
         ao_recovery := recovery_for_status (sd_status ?dec),
         ao_human_review_required := sd_human_review_required ?dec, ao_confidence := op_confidence p,
         ao_error_code := sd_escalation_code ?dec\<rparr>) \<and>
      ao_status ((blank_outcome i t x (sd_status ?dec) (summary_for_decision p ?dec))
        \<lparr>ao_evidence_ids := issued_evidence p ?v ?dec, ao_safety_flags := outcome_flags ?dec c,
         ao_tool_calls := calls, ao_verification := Some ?v,
         ao_recovery := recovery_for_status (sd_status ?dec),
         ao_human_review_required := sd_human_review_required ?dec, ao_confidence := op_confidence p,
         ao_error_code := sd_escalation_code ?dec\<rparr>) = Outcome_COMPLETED"
      by (intro conjI ok) (simp_all add: blank_outcome_def dec)
  qed
qed

lemma compose_returns:
  assumes "services_answer k d a" "provider_ready k d plan" "context_fits d (ra_principal a)"
    and x: "execution_context_ok x" "ec_principal x = ra_principal a"
    and f: "rf_principal f = ra_principal a" "\<not> blank (rf_text f)"
    and rs: "rs \<noteq> []" "list_all (sound_result (rd_lib d)) rs"
  shows "returns (calm_state k False) (compose_answer d f (x, rs, risk)) (\<lambda>o1. ao_status o1 = Outcome_COMPLETED)"
proof -
  have ok: "list_all tool_result_ok rs" using rs(2) by (simp add: list_all_iff sound_result_def)
  have stage: "returns (calm_state k False) (provider_stage d who x st Op_COMPOSE calls
      (provider_try d Op_COMPOSE (pv_compose (rd_provider d)
          \<lparr>cq_request_id = i, cq_context = ctx, cq_execution = x, cq_plan = pl, cq_tool_results = rs\<rparr>)
        (normalize_composition (le_norm (rd_lib d))) (cp_metadata, \<lambda>m r. r\<lparr>cp_metadata := m\<rparr>)))
      (case_sum (\<lambda>_. False) (\<lambda>r. grounded_proposal (rd_config d) rs (cp_proposal r)))" for i ctx pl calls who st
  proof (intro provider_stage_returns provider_try_returns)
    let ?q = "\<lparr>cq_request_id = i, cq_context = ctx, cq_execution = x, cq_plan = pl, cq_tool_results = rs\<rparr>"
    have "cq_tool_results ?q \<noteq> [] \<and> list_all (sound_result (rd_lib d)) (cq_tool_results ?q) \<longrightarrow>
        ready_call k (pv_compose (rd_provider d) ?q) (normalize_composition (le_norm (rd_lib d)))
          (\<lambda>r. grounded_proposal (rd_config d) (cq_tool_results ?q) (cp_proposal r))"
      using assms(2) unfolding provider_ready_def by blast
    with rs show "ready_call k (pv_compose (rd_provider d) ?q) (normalize_composition (le_norm (rd_lib d)))
        (\<lambda>r. grounded_proposal (rd_config d) rs (cp_proposal r))" by simp
  qed (use assms(2) in \<open>simp_all add: provider_ready_def\<close>)
  show ?thesis
    unfolding compose_answer_def prod.case f(1)
    by (intro returns_bind_any compile_run_returns [OF assms(1,3) f(2) x ok] returns_then recording_returns check_returns
        returns_bind [OF stage] fresh_id_returns [THEN returns_weaken])
      (auto split: sum.splits intro: issue_returns [OF assms(1) x(1) rs])
qed

section \<open>The plan\<close>

lemma interpret_returns:
  assumes "provider_ready k d plan"
  shows "returns (calm_state k b) (interpret_stage d who x st ctx) (\<lambda>q. \<exists>i. q = Inr i)"
proof -
  have stage: "returns (calm_state k b) (provider_stage d who x st Op_INTERPRET (ret [])
      (provider_try d Op_INTERPRET (f q) (normalize_interpretation (le_norm (rd_lib d)))
        (ir_metadata, \<lambda>m r. r\<lparr>ir_metadata := m\<rparr>))) (case_sum (\<lambda>_. False) (\<lambda>_. True))"
    if "pv_interpret (rd_provider d) = Some f" for f q
    using assms that by (intro provider_stage_returns provider_try_returns) (simp_all add: provider_ready_def)
  show ?thesis
    unfolding interpret_stage_def get_visible_tools_def
    by (intro returns_option returns_ret returns_bind_any [OF fresh_id_returns [THEN returns_weaken]]
        returns_bind_any [OF returns_read_any] returns_bind [OF stage]) (auto split: sum.splits)
qed

lemma plan_stage_returns:
  assumes "provider_ready k d plan"
  shows "returns (calm_state k b) (plan_stage d who x st ctx i) (\<lambda>q. q = Inr plan)"
proof -
  have stage: "returns (calm_state k b) (provider_stage d who x st Op_PLAN (ret [])
      (provider_try d Op_PLAN (pv_plan (rd_provider d) q) (normalize_plan (le_norm (rd_lib d)))
        (pr_metadata, \<lambda>m r. r\<lparr>pr_metadata := m\<rparr>))) (case_sum (\<lambda>_. False) (\<lambda>r. pr_plan r = plan))" for q
    using assms by (intro provider_stage_returns provider_try_returns) (simp_all add: provider_ready_def)
  show ?thesis
    unfolding plan_stage_def get_visible_tools_def
    by (intro returns_bind_any [OF fresh_id_returns [THEN returns_weaken]] returns_bind_any [OF returns_read_any]
        returns_bind [OF stage] returns_ret) (auto split: sum.splits)
qed

lemma obtain_returns:
  assumes "provider_ready k d plan" "ra_plan_override a = None"
  shows "returns (calm_state k b) (obtain_plan d a x st ctx) (\<lambda>q. q = Inr (plan, plan))"
  unfolding obtain_plan_def assms(2) option.case
  by (rule returns_bind [OF interpret_returns [OF assms(1)]], clarify, unfold sum.case,
      rule returns_bind [OF plan_stage_returns [OF assms(1)]]) (simp add: returns_ret)

text \<open>A plan within the bounds whose steps are granted and sound.\<close>

definition calm_plan :: "'w calm \<Rightarrow> 'w runtime \<Rightarrow> execution_context \<Rightarrow> agent_plan \<Rightarrow> bool" where
  "calm_plan k d x plan \<longleftrightarrow>
     plan_steps plan \<noteq> [] \<and>
     int (length (plan_steps plan)) \<le> min (cfg_max_plan_steps (rd_config d)) (ec_max_steps x) \<and>
     list_all (calm_step k d x) (plan_steps plan)"

lemma validate_calm:
  assumes "\<And>i v c. get_tool i v c g = get_tool i v c (cm_registry k)"
  shows "list_all (calm_step k d x) ps \<Longrightarrow> validate_steps x g ps = Inr ()"
  by (induction ps) (auto simp: calm_step_def assms)

lemma run_plan_returns:
  assumes h: "services_answer k d a" "provider_ready k d plan" "context_fits d (ra_principal a)"
    and x: "execution_context_ok x" "ec_principal x = ra_principal a"
    and f: "rf_principal f = ra_principal a" "\<not> blank (rf_text f)" "governed k d f"
    and plan: "calm_plan k d x plan" "ra_initial_results a = []"
  shows "returns (calm_state k False) (run_plan d a f x plan) (\<lambda>o1. ao_status o1 = Outcome_COMPLETED)"
proof -
  from plan(1) have steps: "plan_steps plan \<noteq> []" "list_all (calm_step k d x) (plan_steps plan)"
    by (simp_all add: calm_plan_def)
  have valid: "returns (calm_state k False) (read_state (\<lambda>s. validate_plan d plan x (xs_registry (rs_tools s))))
      (\<lambda>q. q = Inr ())"
  proof (rule returns_read)
    fix s
    assume "calm_state k False s"
    from validate_calm [OF calm_get_tool [OF this] steps(2)] plan(1)
    show "validate_plan d plan x (xs_registry (rs_tools s)) = Inr ()"
      by (auto simp: validate_plan_def calm_plan_def)
  qed
  have ran: "returns (calm_state k False) (run_steps d f 1 (plan_steps plan) (x, [], ra_initial_risk a))
      (\<lambda>q. \<exists>rs risk1. q = Inr (x, rs, risk1) \<and> rs \<noteq> [] \<and> list_all (sound_result (rd_lib d)) rs)"
    by (rule returns_weaken [OF run_steps_returns [OF f(3) steps(2)]])
      (use steps(1) in \<open>force simp: list_all_iff recorded_once_def\<close>)
  have composed: "returns (calm_state k False) (case q of Inl o1 \<Rightarrow> ret o1
      | Inr g \<Rightarrow> and_then (tr_event d ''execution'' ''plan_steps_exhausted'' md) (compose_answer d f g))
      (\<lambda>o1. ao_status o1 = Outcome_COMPLETED)"
    if "\<exists>rs risk1. q = Inr (x, rs, risk1) \<and> rs \<noteq> [] \<and> list_all (sound_result (rd_lib d)) rs" for q md
    using that by (auto intro!: returns_then recording_returns compose_returns [OF h x f(1,2)])
  show ?thesis
    unfolding run_plan_def Let_def plan(2) if_not_P [OF steps(1)]
  proof (rule returns_bind [OF valid], hypsubst, unfold sum.case, intro returns_then returns_when recording_returns)
    show "returns (calm_state k False) (bind_act (run_steps d f 1 (plan_steps plan) (x, [], ra_initial_risk a)) (\<lambda>q.
        case q of Inl o1 \<Rightarrow> ret o1
        | Inr g \<Rightarrow> and_then (tr_event d ''execution'' ''plan_steps_exhausted''
              [(''step_count'', str_nat (length (plan_steps plan)))]) (compose_answer d f g)))
        (\<lambda>o1. ao_status o1 = Outcome_COMPLETED)"
      by (rule returns_bind [OF ran composed])
  qed
qed

section \<open>A whole run\<close>

text \<open>The arguments of the run, its limits, and the plan in every execution context it can get.\<close>

definition calm_args :: "'w calm \<Rightarrow> 'w runtime \<Rightarrow> run_args \<Rightarrow> agent_plan \<Rightarrow> bool" where
  "calm_args k d a plan \<longleftrightarrow>
     cm_id k \<noteq> [] \<and> ra_execution_id a = Some (cm_id k) \<and>
     \<not> blank (ra_input_text a) \<and> inspect_input (strip (ra_input_text a)) = None \<and>
     ra_plan_override a = None \<and> ra_initial_results a = [] \<and> resource_named (ra_resource a) \<and>
     \<not> (ra_cancellation_event a \<and> ra_cancel_event a) \<and>
     (case ra_max_steps a of None \<Rightarrow> True | Some n \<Rightarrow> 1 \<le> n \<and> n \<le> cfg_max_plan_steps (rd_config d)) \<and>
     (\<forall>i. i \<noteq> [] \<longrightarrow> (let x = execution_of d a (cm_id k) i in execution_context_ok x \<and> calm_plan k d x plan))"

definition generous :: "'w calm \<Rightarrow> 'w runtime \<Rightarrow> run_args \<Rightarrow> bool" where
  "generous k d a \<longleftrightarrow>
     long_enough k (run_timeout d a) \<and> 0 \<le> cfg_max_retries (rd_config d) \<and>
     cfg_max_total_tokens (rd_config d) = None \<and> cfg_max_cost (rd_config d) = None \<and>
     cfg_max_tool_invocations (rd_config d) = None"

lemma dropWhile_keeps: "c \<in> set s \<Longrightarrow> \<not> p c \<Longrightarrow> c \<in> set (dropWhile p s)"
  by (induction s) auto

lemma blank_strip: "blank (strip s) \<longleftrightarrow> blank s"
proof
  assume b: "blank (strip s)"
  have "is_space c" if "c \<in> set s" for c
  proof (rule ccontr)
    assume "\<not> is_space c"
    with that have "c \<in> set (strip s)" by (simp add: strip_def dropWhile_keeps)
    with b \<open>\<not> is_space c\<close> show False by (auto simp: blank_iff)
  qed
  then show "blank s" by (simp add: blank_iff)
next
  assume "blank s"
  then have "strip s = []" by (simp add: blank_def)
  then show "blank (strip s)" by simp
qed

lemma open_returns:
  assumes "services_answer k d a" "calm_args k d a plan"
  shows "returns (calm_state k True) (open_run d a txt)
    (\<lambda>(x, st). es_state_id st \<noteq> [] \<and> x = execution_of d a (cm_id k) (es_state_id st))"
proof -
  from assms(1) have find: "answers (cm_app k) (sp_find (rd_store d) (ra_principal a) i) (\<lambda>st. st = None)"
    and op: "answers (cm_app k) (sp_open (rd_store d) (ra_principal a) (ra_agent_id a) (ra_agent_version a)
       (ra_state_id a)) (\<lambda>st. es_state_id st \<noteq> [])" for i
    by (simp_all add: services_answer_def)
  from assms(2) have i: "or_else (ra_execution_id a) [] = cm_id k" "cm_id k \<noteq> []"
    by (simp_all add: calm_args_def or_else_def)
  have unused: "returns (calm_state k True) (read_state (\<lambda>s. map_of (rs_traces s) (cm_id k))) (\<lambda>t. t = None)"
    "returns (calm_state k True) (read_state (\<lambda>s. map_of (rs_pending s) (cm_id k))) (\<lambda>p. p = None)"
    by (rule returns_read; simp add: calm_state_def)+
  have free: "passes (calm_state k True) (refuse_reuse d (ra_principal a) (cm_id k))"
    unfolding refuse_reuse_def
    by (rule returns_bind [OF unused(1)], simp, rule returns_bind [OF app_returns [OF find]]) (simp add: returns_ret)
  have active: "passes (calm_state k True) (activate d a x st txt)" for x st
    unfolding activate_def new_recorder_def option.case
    by (intro returns_bind [OF returns_result [OF refl, where Q = "\<lambda>_. True"]] returns_change)
      (simp_all add: calm_state_def)
  have start: "passes (calm_state k True) (record_start d who x txt)" for who x
    unfolding record_start_def by (intro returns_rules)
  have ok: "execution_context_ok (execution_of d a (cm_id k) i)" if "i \<noteq> []" for i
    using assms(2) that by (simp add: calm_args_def Let_def)
  have rest: "returns (calm_state k True)
      (bind_act (app_do (sp_open (rd_store d) (ra_principal a) (ra_agent_id a) (ra_agent_version a) (ra_state_id a)))
        (\<lambda>st. bind_act (read_state (\<lambda>s. map_of (rs_pending s) (cm_id k))) (\<lambda>p.
           if p \<noteq> None then fail ValueError
           else
             and_then (control_do (\<lambda>r. case bind_execution (cm_id k) (rcl_control r) of
                 (q, c) \<Rightarrow> (q, r\<lparr>rcl_control := c\<rparr>)))
               (bind_act (lift_result (constructed execution_context_ok (execution_of d a (cm_id k) (es_state_id st))))
                 (\<lambda>x. and_then (activate d a x st txt)
                   (and_then (record_start d (ra_principal a) x txt) (ret (x, st))))))))
      (\<lambda>(x, st). es_state_id st \<noteq> [] \<and> x = execution_of d a (cm_id k) (es_state_id st))"
  proof (rule returns_bind [OF app_returns [OF op]], rule returns_bind [OF unused(2)], simp, rule returns_then [OF bind_returns])
    fix st :: execution_state
    assume st: "es_state_id st \<noteq> []"
    then have made: "returns (calm_state k True) (lift_result (constructed execution_context_ok
        (execution_of d a (cm_id k) (es_state_id st)))) (\<lambda>x. x = execution_of d a (cm_id k) (es_state_id st))"
      by (intro returns_constructed ok refl)
    show "returns (calm_state k True)
        (bind_act (lift_result (constructed execution_context_ok (execution_of d a (cm_id k) (es_state_id st))))
          (\<lambda>x. and_then (activate d a x st txt) (and_then (record_start d (ra_principal a) x txt) (ret (x, st)))))
        (\<lambda>(x, st). es_state_id st \<noteq> [] \<and> x = execution_of d a (cm_id k) (es_state_id st))"
      by (intro returns_bind [OF made] returns_then active start returns_ret) (simp add: st)
  qed
  obtain c cs where id: "cm_id k = c # cs" using i(2) by (cases "cm_id k") auto
  show ?thesis
    unfolding open_run_def i(1) id list.case
    unfolding id [symmetric]
    by (rule returns_bind_ret, rule returns_then [OF returns_when [OF free] rest])
qed

lemma governed_returns:
  assumes h: "services_answer k d a" "governance_grants k d" "provider_ready k d plan"
      "context_fits d (ra_principal a)" "calm_args k d a plan"
    and x: "x = execution_of d a (cm_id k) i" "i \<noteq> []"
  shows "returns (calm_state k False) (governed_run d a (strip (ra_input_text a)) x st)
    (\<lambda>o1. ao_status o1 = Outcome_COMPLETED)"
proof -
  from h(5) x have ok: "execution_context_ok x" "calm_plan k d x plan" by (simp_all add: calm_args_def Let_def)
  have who: "ec_principal x = ra_principal a" using x by (simp add: execution_of_def)
  from h(5) have a: "ra_plan_override a = None" "ra_initial_results a = []" "\<not> blank (strip (ra_input_text a))"
    by (simp_all add: calm_args_def blank_strip)
  have gov: "governed k d \<lparr>rf_principal = ra_principal a, rf_state = st, rf_text = tx, rf_resource = ra_resource a,
      rf_context = ctx, rf_stop_reason = r, rf_composition_plan = p\<rparr>" for ctx r p tx
    using h(2,5) ok(1) who by (simp add: governed_def calm_args_def execution_context_ok_def)
  show ?thesis
    unfolding governed_run_def Let_def
  proof (rule returns_bind_any [OF compile_run_returns [OF h(1,4) a(3) ok(1) who]], simp, rule returns_then [OF recording_returns(1)],
      rule returns_bind [OF obtain_returns [OF h(3) a(1)]], hypsubst, unfold sum.case prod.case)
    fix ctx
    show "returns (calm_state k False) (run_plan d a
        \<lparr>rf_principal = ra_principal a, rf_state = st, rf_text = strip (ra_input_text a), rf_resource = ra_resource a,
         rf_context = ctx, rf_stop_reason = plan_stop_reason plan, rf_composition_plan = plan\<rparr> x plan)
        (\<lambda>o1. ao_status o1 = Outcome_COMPLETED)"
      by (rule run_plan_returns [OF h(1,3,4) ok(1) who _ _ gov ok(2) a(2)]) (simp_all add: a(3))
  qed
qed

lemma body_completes:
  assumes h: "services_answer k d a" "governance_grants k d" "provider_ready k d plan"
      "context_fits d (ra_principal a)" "calm_args k d a plan" and s: "calm_state k True s"
  shows "\<exists>o1 s1. execute_body d a s = Some (Inr o1, s1) \<and> ao_status o1 = Outcome_COMPLETED"
proof -
  from returnsD [OF open_returns [OF h(1,5), of "strip (ra_input_text a)"] s] obtain i st s1 where
    opened: "open_run d a (strip (ra_input_text a)) s = Some (Inr (execution_of d a (cm_id k) i, st), s1)"
      "calm_state k True s1" "i \<noteq> []" by auto
  from returnsD [OF check_returns opened(2)] obtain u s2 where
    checked: "control_do rc_check s1 = Some (Inr u, s2)" "calm_state k True s2" by blast
  from checked(2) have "calm_state k False s2" by (simp add: calm_state_def)
  from returnsD [OF governed_returns [OF h refl opened(3)] this] obtain o1 s3 where
    ran: "governed_run d a (strip (ra_input_text a)) (execution_of d a (cm_id k) i) st s2 = Some (Inr o1, s3)"
      "ao_status o1 = Outcome_COMPLETED" by blast
  from h(5) have "strip (ra_input_text a) \<noteq> []" "inspect_input (strip (ra_input_text a)) = None"
    by (simp_all add: calm_args_def blank_def)
  with opened(1) checked(1) ran show ?thesis
    by (simp add: execute_body_def Let_def bind_act_def and_then_def)
qed

lemma authority_returns:
  assumes "services_answer k d a"
  shows "passes (calm_state k b) (assert_authority d (ra_agent_id a) (ra_agent_version a))"
proof -
  have guard: "returns (calm_state k b) (catch (app_do (g (ra_agent_id a) (ra_agent_version a)))
      (\<lambda>e. fail RuntimeAuthorizationError)) (\<lambda>ok. ok)" if "rd_guard d = Some g" for g
    by (intro returns_catch app_returns) (use assms that in \<open>simp add: services_answer_def\<close>)
  have "passes (calm_state k b) (case rd_guard d of None \<Rightarrow> ret ()
      | Some g \<Rightarrow> bind_act (catch (app_do (g (ra_agent_id a) (ra_agent_version a)))
          (\<lambda>e. fail RuntimeAuthorizationError)) (\<lambda>ok. if ok then ret () else fail RuntimeAuthorizationError))"
    by (intro returns_option returns_ret returns_bind [OF guard]) (simp_all add: returns_ret)
  then show ?thesis
    using assms by (auto simp: assert_authority_def services_answer_def)
qed

lemma begin_returns:
  assumes "generous k d a"
  shows "passes (calm_state k b) (begin_control d a)"
  unfolding begin_control_def
proof (rule control_returns)
  fix r :: run_control
  assume r: "calm_monitor k (rcl_monitor r)"
  obtain t m where t: "mono_now (rcl_monitor r) = (t, m)" by fastforce
  from calm_now [OF r t] have m: "cm_lo k \<le> t" "t \<le> cm_hi k" "calm_monitor k m" by auto
  from assms m have "case run_timeout d a of None \<Rightarrow> True | Some x \<Rightarrow> 0 < x \<and> cm_hi k < t + x"
    by (auto simp: generous_def long_enough_def split: option.splits)
  with assms t m(3) show "\<exists>v r1. (case mono_now (rcl_monitor r) of (t, m) \<Rightarrow>
       (let cfg = rd_config d
        in case mk_control t (run_timeout d a) (Some (cfg_max_retries cfg)) (cfg_max_total_tokens cfg)
                  (cfg_max_cost cfg) (cfg_max_tool_invocations cfg) of
             Inl e \<Rightarrow> (Inl e, r)
           | Inr c \<Rightarrow> (Inr (), \<lparr>rcl_control = c, rcl_monitor = m,
                              rcl_signal = (ra_cancellation_event a \<or> ra_cancel_event a)\<rparr>))) = (Inr v, r1) \<and>
      calm_monitor k (rcl_monitor r1) \<and> within_limits k (rcl_control r1)"
    by (cases "run_timeout d a")
      (auto simp: generous_def mk_control_def within_limits_def later_def Let_def)
qed

lemma execute_completes:
  assumes h: "services_answer k d a" "governance_grants k d" "provider_ready k d plan"
      "context_fits d (ra_principal a)" "calm_args k d a plan" "generous k d a" and s: "calm_state k True s"
  shows "\<exists>o1 s1. execute d a s = Some (Inr o1, s1) \<and> ao_status o1 = Outcome_COMPLETED"
proof -
  from returnsD [OF authority_returns [OF h(1)] s] obtain u1 s1 where
    s1: "assert_authority d (ra_agent_id a) (ra_agent_version a) s = Some (Inr u1, s1)" "calm_state k True s1" by blast
  from returnsD [OF begin_returns [OF h(6)] s1(2)] obtain u2 s2 where
    s2: "begin_control d a s1 = Some (Inr u2, s2)" "calm_state k True s2" by blast
  from body_completes [OF h(1-5) s2(2)] obtain o1 s3 where
    s3: "execute_body d a s2 = Some (Inr o1, s3)" "ao_status o1 = Outcome_COMPLETED" by blast
  from h(5) have "\<not> (ra_cancellation_event a \<and> ra_cancel_event a)"
    "\<not> (case ra_max_steps a of None \<Rightarrow> False | Some n \<Rightarrow> \<not> (1 \<le> n \<and> n \<le> cfg_max_plan_steps (rd_config d)))"
    by (auto simp: calm_args_def split: option.splits)
  with s1(1) s2(1) s3 show ?thesis
    by (simp add: execute_def controlled_run_def and_then_def bind_act_def finally_do_def catch_if_def
        del: not_le de_Morgan_conj)
qed

end
