(* ===== verification/Runtime_Completed.thy ===== *)
theory Runtime_Completed
  imports Runtime_Correct Runtime_Completes
begin

text \<open>
  The properties of completed runs, with a runtime to apply them to: a provider that plans one call of
  a reading tool, a broker that allows everything, and a clock that stands still.
\<close>

section \<open>A calm runtime\<close>

definition reading_tool :: "nat tool_definition" where
  "reading_tool = counting_tool\<lparr>td_handler := (\<lambda>c v n. (Inr (Plain (PInt 0)), n)), td_kind := Kind_READ,
     td_idempotency_required := False\<rparr>"

definition reading_registry :: "nat tool_registry" where
  "reading_registry = counting_registry\<lparr>tg_tools := [((''count'', ''1.0.0''), reading_tool)]\<rparr>"

definition reading_plan :: agent_plan where
  "reading_plan = \<lparr>plan_steps = [count_step\<lparr>ps_idempotency_key := None\<rparr>], plan_stop_reason = None\<rparr>"

definition reading_runtime :: "nat runtime" where
  "reading_runtime = sample_runtime\<lparr>rd_provider := sample_provider
     \<lparr>pv_plan := (\<lambda>q w. (steady_call (RAgentPlan reading_plan), w))\<rparr>\<rparr>"

definition still_monitor :: monitor where
  "still_monitor = \<lparr>mo_now = (\<lambda>_. 0), mo_now_calls = 0, mo_cancelled = (\<lambda>_. False), mo_cancel_calls = 0\<rparr>"

definition reading_state :: "nat runtime_state" where
  "reading_state = sample_runtime_state
     \<lparr>rs_world := \<lparr>make_id = (\<lambda>p n. ''id''), id_calls = 0, clock_at = int, clock_calls = 0\<rparr>, rs_tools := (rs_tools sample_runtime_state)
     \<lparr>xs_registry := reading_registry, xs_monitor := still_monitor,
      xs_caller := sample_run_control\<lparr>rcl_control := projr (mk_control 0 None None None None None),
        rcl_monitor := still_monitor\<rparr>\<rparr>\<rparr>"

definition reading_setting :: "nat calm" where
  "reading_setting = \<lparr>cm_app = (\<lambda>_. True), cm_lo = 0, cm_hi = 0, cm_registry = reading_registry, cm_id = ''run''\<rparr>"

lemma reading_services: "services_answer reading_setting reading_runtime (sample_args [''count''])"
  by (simp add: services_answer_def answers_def reading_setting_def reading_runtime_def sample_runtime_def
      sample_store_def sample_execution_state_def)

lemma reading_governance: "governance_grants reading_setting reading_runtime"
  by (simp add: governance_grants_def answers_def reading_setting_def reading_runtime_def sample_runtime_def
      allow_all_def grants_def permission_for_def)

lemma reading_normal:
  "normalize_plan (le_norm sample_lib) (RAgentPlan reading_plan) =
     Inr \<lparr>pr_plan = reading_plan, pr_metadata = default_call_metadata\<rparr>"
  "normalize_composition (le_norm sample_lib) (ROutcomeProposal
      \<lparr>op_summary = ''done'', op_confidence = 1, op_evidence_ids = [], op_output = []\<rparr>) =
     Inr \<lparr>cp_proposal = \<lparr>op_summary = ''done'', op_confidence = 1, op_evidence_ids = [], op_output = []\<rparr>,
          cp_metadata = default_call_metadata\<rparr>"
  by code_simp+

lemma reading_provider: "provider_ready reading_setting reading_runtime reading_plan"
  by (simp add: provider_ready_def patient_policy_def long_enough_def ready_call_def grounded_proposal_def
      reading_setting_def reading_runtime_def sample_runtime_def sample_provider_def default_provider_policy_def
      steady_call_def reading_normal default_runtime_config_def)

lemma reading_fits: "context_fits reading_runtime (ra_principal (sample_args [''count'']))"
  by (simp add: context_fits_def reading_runtime_def sample_runtime_def sample_args_def policy_text_def
      principal_content_def default_runtime_config_def)

lemma reading_generous: "generous reading_setting reading_runtime (sample_args [''count''])"
  by (simp add: generous_def long_enough_def reading_setting_def reading_runtime_def sample_runtime_def
      sample_args_def run_timeout_def default_runtime_config_def)

lemma reading_calm: "calm_state reading_setting True reading_state"
  by (simp add: calm_state_def calm_tools_def calm_monitor_def within_limits_def later_def reading_setting_def
      reading_state_def sample_runtime_state_def still_monitor_def sample_run_control_def mk_control_def)

lemma reading_found:
  "get_tool ''count'' (Some ''1.0.0'') False reading_registry = Inr reading_tool"
  "registered (tg_tools reading_registry) reading_tool"
  by (simp_all add: get_tool_def reading_registry_def assert_active_def registered_def tool_key_def
      reading_tool_def counting_tool_def)

lemma reading_result: "sound_result sample_lib (succeeded_result reading_tool x (PInt 0))"
proof -
  have "indirect_injection_matches (serialized_output (\<lambda>q. []) (\<lambda>n. []) (succeeded_result reading_tool x (PInt 0))) =
      indirect_injection_matches (json_text (\<lambda>q. []) (\<lambda>n. []) (PInt 0))"
    by (simp add: serialized_output_def succeeded_result_def)
  also have "\<dots> = []" by code_simp
  finally show ?thesis
    by (simp add: sound_result_def tool_result_ok_def sample_lib_def) (simp add: succeeded_result_def reading_tool_def counting_tool_def)
qed

lemma reading_step:
  assumes "i \<noteq> []"
  defines "x \<equiv> execution_of reading_runtime (sample_args [''count'']) ''run'' i"
  shows "execution_context_ok x" "calm_plan reading_setting reading_runtime x reading_plan"
proof -
  show x: "execution_context_ok x"
    using assms(1) by (simp add: x_def execution_of_def execution_context_ok_def principal_context_ok_def
        sample_args_def opt_nonempty_def or_else_def reading_runtime_def sample_runtime_def default_runtime_config_def)
  have handler: "sound_handler reading_setting sample_lib x reading_tool []"
    using reading_result [of x]
    by (simp add: sound_handler_def reading_setting_def tool_invoke_def validate_arguments_def validate_output_def
        reading_tool_def counting_tool_def)
  have "ceiling_denial x reading_tool = None"
    by (simp add: ceiling_denial_def x_def execution_of_def sample_args_def reading_tool_def counting_tool_def
        reading_runtime_def sample_runtime_def default_runtime_config_def less_risk_level_def)
  moreover have "tool_definition_ok reading_tool" by code_simp
  ultimately have "calm_call reading_setting reading_runtime x reading_tool (count_step\<lparr>ps_idempotency_key := None\<rparr>)"
    using handler x reading_found(2)
    by (simp add: calm_call_def nameable_def count_step_def reading_setting_def reading_runtime_def sample_runtime_def
        long_enough_def) (simp add: reading_tool_def counting_tool_def)
  then have "calm_step reading_setting reading_runtime x (count_step\<lparr>ps_idempotency_key := None\<rparr>)"
    using reading_found(1)
    by (simp add: calm_step_def reading_setting_def count_step_def x_def execution_of_def sample_args_def)
  then show "calm_plan reading_setting reading_runtime x reading_plan"
    by (simp add: calm_plan_def reading_plan_def x_def execution_of_def sample_args_def reading_runtime_def
        sample_runtime_def default_runtime_config_def)
qed

lemma reading_args: "calm_args reading_setting reading_runtime (sample_args [''count'']) reading_plan"
proof -
  have "inspect_input ''hello'' = None" "strip ''hello'' = ''hello''" by code_simp+
  with reading_step show ?thesis
    by (simp add: calm_args_def reading_setting_def resource_named_def opt_nonempty_def Let_def blank_def)
      (simp add: sample_args_def blank_def)
qed

section \<open>Completion\<close>



text \<open>
  C5: a completed outcome is grounded. Whatever the provider, the brokers and the tools do, an outcome that
  \<open>execute\<close> returns as COMPLETED carries a supporting verification, cites only evidence of the tool calls it
  lists, lists a call that succeeded and none that failed, was rejected or restricted, and has the
  configured confidence. The recorded calls the run starts from must fit the results given with them.
\<close>

theorem completed_outcome_grounded:
  assumes "records_fit (ra_initial_calls a) (ra_initial_results a)"
    and "execute d a s = Some (Inr o1, s1)" and "ao_status o1 = Outcome_COMPLETED"
  shows "grounded (rd_config d) o1"
  using after_returned [OF execute_grounded [OF assms(1)] TrueI assms(2)] assms(3)
  by (simp add: completed_grounded_def)

theorem completed_outcome_grounded_witness:
  "\<exists>o1 s1. execute reading_runtime (sample_args [''count'']) reading_state = Some (Inr o1, s1) \<and>
     grounded default_runtime_config o1"
proof -
  obtain o1 s1 where run: "execute reading_runtime (sample_args [''count'']) reading_state = Some (Inr o1, s1)"
    "ao_status o1 = Outcome_COMPLETED"
    using execute_completes [OF reading_services reading_governance reading_provider reading_fits
        reading_args reading_generous reading_calm] by blast
  have "records_fit (ra_initial_calls (sample_args [''count''])) (ra_initial_results (sample_args [''count'']))"
    by (simp add: sample_args_def records_fit_def)
  from completed_outcome_grounded [OF this run] run(1) show ?thesis
    by (auto simp: reading_runtime_def sample_runtime_def)
qed

end
