(* ===== verification/Component_Contracts.thy ===== *)
theory Component_Contracts
  imports Tool_Registry
begin

text \<open>
  The contracts of \<open>contracts.py\<close> that describe agents and the graph of their components: agent
  definitions and configurations, runtime profiles, dependency edges, registry snapshots and the
  manifest of a build. As elsewhere the constant \<open>schema_version\<close> is left out, the validators of a
  model are its predicate \<open>..._ok\<close>, and durations are microseconds. The PEP 440 parser is the
  package \<open>packaging\<close>: a parameter that maps a text to the segments of its release and its
  normalised spelling, or to \<open>None\<close>.
\<close>

section \<open>Versions\<close>

definition component_version ::
  "(string \<Rightarrow> (nat list \<times> string) option) \<Rightarrow> string \<Rightarrow> exc + string" where
  "component_version pep440 value =
     (case pep440 value of
        None \<Rightarrow> Inl ValueError
      | Some (release, text) \<Rightarrow> if length release \<noteq> 3 then Inl ValueError else Inr text)"

section \<open>Agents\<close>

datatype agent_template =
    Template_READ_ONLY_ANALYST | Template_ACTION_AGENT | Template_APPROVAL_GATED_OPERATOR
  | Template_ROUTER

definition runtime_config_ok :: "runtime_config \<Rightarrow> bool" where
  "runtime_config_ok c \<longleftrightarrow>
     1 \<le> cfg_max_plan_steps c \<and> cfg_max_plan_steps c \<le> 100 \<and>
     256 \<le> cfg_max_context_characters c \<and> cfg_max_context_characters c \<le> 100000 \<and>
     0 \<le> cfg_high_confidence_threshold c \<and> cfg_high_confidence_threshold c \<le> 1 \<and>
     0 \<le> cfg_minimum_confidence_threshold c \<and> cfg_minimum_confidence_threshold c \<le> 1 \<and>
     0 < cfg_provider_timeout c \<and> cfg_provider_timeout c \<le> 600 * 1000000 \<and>
     1 \<le> cfg_provider_max_attempts c \<and> cfg_provider_max_attempts c \<le> 10 \<and>
     0 \<le> cfg_provider_retry_backoff c \<and> cfg_provider_retry_backoff c \<le> 60 * 1000000 \<and>
     (case cfg_execution_timeout c of None \<Rightarrow> True | Some d \<Rightarrow> 0 < d \<and> d \<le> 3600 * 1000000) \<and>
     0 \<le> cfg_max_retries c \<and> cfg_max_retries c \<le> 100 \<and>
     expiry_ok (cfg_approval_expiry c) \<and>
     (case cfg_max_total_tokens c of None \<Rightarrow> True | Some n \<Rightarrow> 1 \<le> n \<and> n \<le> 100000000) \<and>
     (case cfg_max_cost c of None \<Rightarrow> True | Some x \<Rightarrow> 0 \<le> x) \<and>
     (case cfg_max_tool_invocations c of None \<Rightarrow> True | Some n \<Rightarrow> 1 \<le> n \<and> n \<le> 1000000) \<and>
     cfg_environment c \<noteq> []"

record agent_version =
  agv_agent_id :: string
  agv_version :: string

definition agent_version_ok :: "agent_version \<Rightarrow> bool" where
  "agent_version_ok v \<longleftrightarrow> slug_ok (agv_agent_id v) \<and> agv_version v \<noteq> []"

definition agent_identity :: "agent_version \<Rightarrow> string" where
  "agent_identity v = agv_agent_id v @ ''@'' @ agv_version v"

record provider_profile =
  pp_provider_id :: string
  pp_version :: string
  pp_model :: string
  pp_options :: "(string, pyval) dict"

definition provider_profile_ok :: "provider_profile \<Rightarrow> bool" where
  "provider_profile_ok p \<longleftrightarrow> pp_provider_id p \<noteq> [] \<and> pp_version p \<noteq> [] \<and> pp_model p \<noteq> []"

record agent_definition =
  ag_identity :: agent_version
  ag_goal :: string
  ag_supported_intents :: "string list"
  ag_supported_languages :: "string list"
  ag_prompt_ref :: component_reference
  ag_skill_refs :: "component_reference list"
  ag_tool_refs :: "component_reference list"
  ag_policy_refs :: "component_reference list"
  ag_provider_profile :: provider_profile
  ag_runtime_limits :: runtime_config
  ag_risk_level :: risk_level
  ag_approval_requirements :: "string list"
  ag_state_strategy :: "string option"
  ag_memory_strategy :: "string option"
  ag_owner_id :: string
  ag_lifecycle :: agent_lifecycle_status
  ag_performance_metadata :: "(string, pyval) dict"

definition ag_agent_id :: "agent_definition \<Rightarrow> string" where
  "ag_agent_id a = agv_agent_id (ag_identity a)"

definition ag_version :: "agent_definition \<Rightarrow> string" where
  "ag_version a = agv_version (ag_identity a)"

text \<open>What \<open>references_are_unique\<close> asks of an agent definition and of an agent configuration.\<close>

definition references_ok ::
  "component_reference \<Rightarrow> component_reference list \<Rightarrow> component_reference list \<Rightarrow>
   component_reference list \<Rightarrow> bool" where
  "references_ok prompt_ref skill_refs tool_refs policy_refs \<longleftrightarrow>
     distinct (map reference_key skill_refs) \<and> distinct (map reference_key tool_refs) \<and>
     distinct (map reference_key policy_refs) \<and>
     cr_component_type prompt_ref = Component_PROMPT \<and>
     (\<forall>r \<in> set skill_refs. cr_component_type r = Component_SKILL) \<and>
     (\<forall>r \<in> set tool_refs. cr_component_type r = Component_TOOL) \<and>
     (\<forall>r \<in> set policy_refs. cr_component_type r = Component_POLICY)"

definition agent_definition_ok :: "agent_definition \<Rightarrow> bool" where
  "agent_definition_ok a \<longleftrightarrow>
     agent_version_ok (ag_identity a) \<and> ag_goal a \<noteq> [] \<and>
     provider_profile_ok (ag_provider_profile a) \<and> runtime_config_ok (ag_runtime_limits a) \<and>
     opt_nonempty (ag_state_strategy a) \<and> opt_nonempty (ag_memory_strategy a) \<and>
     ag_owner_id a \<noteq> [] \<and>
     distinct (ag_supported_intents a) \<and> distinct (ag_supported_languages a) \<and>
     distinct (ag_approval_requirements a) \<and>
     references_ok (ag_prompt_ref a) (ag_skill_refs a) (ag_tool_refs a) (ag_policy_refs a)"

record profile_reference =
  pfr_profile_id :: string
  pfr_version :: string

record agent_config =
  cf_identity :: agent_version
  cf_goal :: string
  cf_supported_intents :: "string list"
  cf_supported_languages :: "string list"
  cf_prompt_ref :: component_reference
  cf_skill_refs :: "component_reference list"
  cf_tool_refs :: "component_reference list"
  cf_policy_refs :: "component_reference list"
  cf_provider_profile :: provider_profile
  cf_runtime_profile :: "profile_reference option"
  cf_runtime_limits :: "runtime_config option"
  cf_risk_level :: risk_level
  cf_approval_requirements :: "string list"
  cf_state_strategy :: "string option"
  cf_memory_strategy :: "string option"
  cf_owner_id :: string
  cf_template :: "agent_template option"
  cf_performance_metadata :: "(string, pyval) dict"

definition agent_config_ok :: "agent_config \<Rightarrow> bool" where
  "agent_config_ok c \<longleftrightarrow>
     agent_version_ok (cf_identity c) \<and> cf_goal c \<noteq> [] \<and>
     provider_profile_ok (cf_provider_profile c) \<and>
     (case cf_runtime_profile c of None \<Rightarrow> True
      | Some r \<Rightarrow> slug_ok (pfr_profile_id r) \<and> pfr_version r \<noteq> []) \<and>
     (case cf_runtime_limits c of None \<Rightarrow> True | Some l \<Rightarrow> runtime_config_ok l) \<and>
     opt_nonempty (cf_state_strategy c) \<and> opt_nonempty (cf_memory_strategy c) \<and>
     cf_owner_id c \<noteq> [] \<and>
     distinct (cf_supported_intents c) \<and> distinct (cf_supported_languages c) \<and>
     distinct (cf_approval_requirements c) \<and>
     references_ok (cf_prompt_ref c) (cf_skill_refs c) (cf_tool_refs c) (cf_policy_refs c)"

record runtime_profile =
  rpf_profile_id :: string
  rpf_version :: string
  rpf_description :: string
  rpf_runtime_limits :: runtime_config
  rpf_owner_id :: string
  rpf_lifecycle :: agent_lifecycle_status

section \<open>Tool descriptors\<close>

text \<open>
  Provider-facing metadata of a tool. The field names and JSON schemas of the pydantic models are
  generated by pydantic and left out.
\<close>

record tool_descriptor =
  tds_tool_id :: string
  tds_version :: string
  tds_description :: string
  tds_kind :: tool_kind
  tds_risk_level :: risk_level
  tds_required_permissions :: "string list"
  tds_requires_approval :: bool
  tds_idempotency_required :: bool
  tds_owner_id :: string
  tds_tags :: "string list"
  tds_lifecycle :: agent_lifecycle_status
  tds_timeout :: "duration option"
  tds_retryable :: bool
  tds_max_attempts :: nat
  tds_retry_backoff :: duration
  tds_dependencies :: "component_reference list"
  tds_allowed_environments :: "string list"

definition tool_descriptor_of :: "'w tool_definition \<Rightarrow> tool_descriptor" where
  "tool_descriptor_of t =
     \<lparr>tds_tool_id = td_tool_id t, tds_version = td_version t, tds_description = td_description t,
      tds_kind = td_kind t, tds_risk_level = td_risk_level t,
      tds_required_permissions = td_required_permissions t,
      tds_requires_approval = td_requires_approval t,
      tds_idempotency_required = td_idempotency_required t, tds_owner_id = td_owner_id t,
      tds_tags = td_tags t, tds_lifecycle = td_lifecycle t, tds_timeout = td_timeout t,
      tds_retryable = retry_enabled t, tds_max_attempts = retry_max_attempts t,
      tds_retry_backoff = retry_backoff t, tds_dependencies = td_dependencies t,
      tds_allowed_environments = td_allowed_environments t\<rparr>"

definition descriptor_key :: "tool_descriptor \<Rightarrow> string \<times> string" where
  "descriptor_key d = (tds_tool_id d, tds_version d)"

definition tool_descriptors ::
  "string list option \<Rightarrow> bool \<Rightarrow> 'w tool_registry \<Rightarrow> tool_descriptor list" where
  "tool_descriptors allowed include_inactive g =
     sort_key descriptor_key
       (map tool_descriptor_of
         (filter (\<lambda>t. case allowed of None \<Rightarrow> True | Some ids \<Rightarrow> td_tool_id t \<in> set ids)
           (list_tools include_inactive g)))"

section \<open>Snapshots and manifests\<close>

record registry_dependency =
  rdp_source_kind :: string
  rdp_source_id :: string
  rdp_source_version :: string
  rdp_target_kind :: string
  rdp_target_id :: string
  rdp_target_version :: string
  rdp_relation :: string

definition component_kinds :: "string list" where
  "component_kinds =
     map component_type_value
       [Component_AGENT, Component_PROMPT, Component_SKILL, Component_TOOL, Component_POLICY]"

definition registry_dependency_ok :: "registry_dependency \<Rightarrow> bool" where
  "registry_dependency_ok d \<longleftrightarrow>
     rdp_source_id d \<noteq> [] \<and> rdp_source_version d \<noteq> [] \<and>
     rdp_target_id d \<noteq> [] \<and> rdp_target_version d \<noteq> [] \<and> rdp_relation d \<noteq> [] \<and>
     rdp_source_kind d \<in> set component_kinds \<and> rdp_target_kind d \<in> set component_kinds"

text \<open>A snapshot; the moment of its generation is read from the system clock and left out.\<close>

record registry_snapshot =
  rsn_snapshot_id :: string
  rsn_revision :: nat
  rsn_agent_revision :: nat
  rsn_prompt_revision :: nat
  rsn_skill_revision :: nat
  rsn_tool_revision :: nat
  rsn_agents :: "agent_definition list"
  rsn_prompts :: "prompt_definition list"
  rsn_skills :: "skill_definition list"
  rsn_tools :: "tool_descriptor list"
  rsn_policies :: "policy_definition list"
  rsn_dependencies :: "registry_dependency list"

record resolved_manifest =
  mf_manifest_id :: string
  mf_manifest_digest :: string
  mf_source :: agent_config
  mf_agent :: agent_definition
  mf_prompt_ref :: component_reference
  mf_skill_refs :: "component_reference list"
  mf_tool_refs :: "component_reference list"
  mf_policy_refs :: "component_reference list"
  mf_provider_profile :: provider_profile
  mf_runtime_profile :: "runtime_profile option"
  mf_runtime_limits :: runtime_config
  mf_registry_snapshot_id :: string
  mf_state_strategy :: "string option"
  mf_memory_strategy :: "string option"
  mf_template :: "agent_template option"
  mf_resolved_at :: time

definition resolved_manifest_ok :: "resolved_manifest \<Rightarrow> bool" where
  "resolved_manifest_ok m \<longleftrightarrow>
     mf_manifest_id m \<noteq> [] \<and> mf_manifest_digest m \<noteq> [] \<and> mf_registry_snapshot_id m \<noteq> [] \<and>
     cr_component_type (mf_prompt_ref m) = Component_PROMPT \<and>
     (\<forall>r \<in> set (mf_skill_refs m). cr_component_type r = Component_SKILL) \<and>
     (\<forall>r \<in> set (mf_tool_refs m). cr_component_type r = Component_TOOL) \<and>
     (\<forall>r \<in> set (mf_policy_refs m). cr_component_type r = Component_POLICY)"

definition skill_versions_of :: "resolved_manifest \<Rightarrow> string list" where
  "skill_versions_of m = map (\<lambda>r. cr_component_id r @ ''@'' @ cr_version r) (mf_skill_refs m)"

end
