(* ===== verification/Catalog.thy ===== *)
theory Catalog
  imports Component_Contracts Observability
begin

text \<open>
  What \<open>PromptRegistry\<close>, \<open>SkillRegistry\<close> and \<open>AgentRegistry\<close> of \<open>registries.py\<close> have in common. The
  three classes repeat one body of code for exact versions of a component: registration, lookup,
  the lifecycle of a version with its audit events, listing and snapshots. Here that code is stated
  once, over a \<open>catalog_kind\<close> that tells the key and the lifecycle field of the component, and the
  prompt registry, which checks no dependency, is its first instance. The lock is held throughout
  every operation and has no counterpart. A definition is a value, so the deep copies the code
  hands out are the definition itself. An audit sink of the application receives the events of
  \<open>ct_events\<close> in the same order and is not a field of its own.
\<close>

section \<open>State\<close>

record 'd catalog =
  ct_items :: "(string \<times> string, 'd) dict"
  ct_events :: "registry_event list"
  ct_revision :: nat
  ct_world :: world

definition empty_catalog :: "world \<Rightarrow> 'd catalog" where
  "empty_catalog w = \<lparr>ct_items = [], ct_events = [], ct_revision = 0, ct_world = w\<rparr>"

record 'd catalog_kind =
  kd_registry_id :: string
  kd_component :: component_type
  kd_key :: "'d \<Rightarrow> string \<times> string"
  kd_status :: "'d \<Rightarrow> agent_lifecycle_status"
  kd_with_status :: "agent_lifecycle_status \<Rightarrow> 'd \<Rightarrow> 'd"

text \<open>A check of the dependencies of a component, given the lifecycle states they may have.\<close>

type_synonym 'd dependency_check = "agent_lifecycle_status list \<Rightarrow> 'd \<Rightarrow> exc + unit"

section \<open>Changes and their events\<close>

definition append_event ::
  "string \<Rightarrow> string \<Rightarrow> string \<Rightarrow> string \<Rightarrow> string \<Rightarrow> agent_lifecycle_status option \<Rightarrow>
   agent_lifecycle_status option \<Rightarrow> (string, string) dict \<Rightarrow> 'd catalog \<Rightarrow> (exc + unit) \<times> 'd catalog" where
  "append_event registry_id operation kind component_id version from_status to_status metadata c =
     (case new_id ''registry_event'' (ct_world c) of (i, w1) \<Rightarrow>
        case now w1 of (t, w2) \<Rightarrow>
          (let e = \<lparr>rge_event_id = i, rge_registry_id = registry_id, rge_operation = operation,
                    rge_component_kind = kind, rge_component_id = component_id,
                    rge_version = version, rge_from_status = from_status,
                    rge_to_status = to_status, rge_occurred_at = t, rge_metadata = metadata\<rparr>;
               c1 = c\<lparr>ct_world := w2\<rparr>
           in if registry_event_ok e then (Inr (), c1\<lparr>ct_events := ct_events c1 @ [e]\<rparr>)
              else (Inl ValidationError, c1)))"

definition catalog_changed ::
  "'d catalog_kind \<Rightarrow> string \<Rightarrow> string \<times> string \<Rightarrow> agent_lifecycle_status option \<Rightarrow>
   agent_lifecycle_status option \<Rightarrow> 'd catalog \<Rightarrow> (exc + unit) \<times> 'd catalog" where
  "catalog_changed K operation k from_status to_status c =
     append_event (kd_registry_id K) operation (component_type_value (kd_component K)) (fst k) (snd k)
       from_status to_status [] (c\<lparr>ct_revision := Suc (ct_revision c)\<rparr>)"

definition catalog_record_snapshot ::
  "'d catalog_kind \<Rightarrow> registry_snapshot \<Rightarrow> (string, string) dict \<Rightarrow> 'd catalog \<Rightarrow> (exc + unit) \<times> 'd catalog" where
  "catalog_record_snapshot K s metadata c =
     append_event (kd_registry_id K) ''snapshot_created'' ''snapshot'' (rsn_snapshot_id s)
       (str_nat (rsn_revision s)) None None metadata c"

section \<open>Registration and lookup\<close>

text \<open>
  The check runs on a candidate that claims to be validated or active; prompts have none. A
  candidate whose event cannot be built stays registered while the error is raised.
\<close>

definition allowed_statuses :: "agent_lifecycle_status \<Rightarrow> agent_lifecycle_status list" where
  "allowed_statuses s = (if s = Life_ACTIVE then [Life_ACTIVE] else [Life_VALIDATED, Life_ACTIVE])"

definition catalog_register ::
  "'d catalog_kind \<Rightarrow> 'd dependency_check \<Rightarrow> bool \<Rightarrow> 'd \<Rightarrow> 'd catalog \<Rightarrow> (exc + 'd) \<times> 'd catalog" where
  "catalog_register K check replace_existing d c =
     (if map_of (ct_items c) (kd_key K d) \<noteq> None
      then (Inl (RegistryError (if replace_existing then StaleRegistration else DuplicateRegistration)), c)
      else
        case (if kd_status K d \<in> {Life_VALIDATED, Life_ACTIVE}
              then check (allowed_statuses (kd_status K d)) d else Inr ()) of
          Inl e \<Rightarrow> (Inl e, c)
        | Inr _ \<Rightarrow>
            bindS (catalog_changed K ''registered'' (kd_key K d) None (Some (kd_status K d))
                    (c\<lparr>ct_items := AList.update (kd_key K d) d (ct_items c)\<rparr>))
              (\<lambda>_ c1. (Inr d, c1)))"

definition catalog_get :: "string \<times> string \<Rightarrow> 'd catalog \<Rightarrow> exc + 'd" where
  "catalog_get k c =
     (case map_of (ct_items c) k of None \<Rightarrow> Inl (RegistryError RegistryBase) | Some d \<Rightarrow> Inr d)"

definition active_versions :: "'d catalog_kind \<Rightarrow> string \<Rightarrow> 'd catalog \<Rightarrow> 'd list" where
  "active_versions K component_id c =
     map snd (filter (\<lambda>((i, v), d). i = component_id \<and> kd_status K d = Life_ACTIVE) (ct_items c))"

definition catalog_resolve ::
  "'d catalog_kind \<Rightarrow> 'd dependency_check \<Rightarrow> string \<Rightarrow> string option \<Rightarrow> 'd catalog \<Rightarrow> exc + 'd" where
  "catalog_resolve K check component_id version c =
     (case version of
        Some v \<Rightarrow>
          (case map_of (ct_items c) (component_id, v) of
             None \<Rightarrow> Inl (RegistryError RegistryBase)
           | Some d \<Rightarrow>
               if kd_status K d \<noteq> Life_ACTIVE then Inl (RegistryError RegistryBase)
               else bindE (check [Life_ACTIVE] d) (\<lambda>_. Inr d))
      | None \<Rightarrow>
          (case active_versions K component_id c of
             [d] \<Rightarrow> bindE (check [Life_ACTIVE] d) (\<lambda>_. Inr d)
           | _ \<Rightarrow> Inl (RegistryError RegistryBase)))"

section \<open>Lifecycle\<close>

definition catalog_transition ::
  "'d catalog_kind \<Rightarrow> 'd \<Rightarrow> agent_lifecycle_status \<Rightarrow> string \<Rightarrow> 'd catalog \<Rightarrow> (exc + 'd) \<times> 'd catalog" where
  "catalog_transition K current target operation c =
     (let updated = kd_with_status K target current
      in bindS (catalog_changed K operation (kd_key K current) (Some (kd_status K current)) (Some target)
                 (c\<lparr>ct_items := AList.update (kd_key K current) updated (ct_items c)\<rparr>))
           (\<lambda>_ c1. (Inr updated, c1)))"

definition catalog_transition_by_key ::
  "'d catalog_kind \<Rightarrow> string \<times> string \<Rightarrow> agent_lifecycle_status \<Rightarrow> string \<Rightarrow>
   agent_lifecycle_status list \<Rightarrow> 'd catalog \<Rightarrow> (exc + 'd) \<times> 'd catalog" where
  "catalog_transition_by_key K k target operation allowed_from c =
     (case catalog_get k c of
        Inl e \<Rightarrow> (Inl e, c)
      | Inr current \<Rightarrow>
          if kd_status K current \<notin> set allowed_from then (Inl (RegistryError RegistryLifecycle), c)
          else catalog_transition K current target operation c)"

definition catalog_validate ::
  "'d catalog_kind \<Rightarrow> 'd dependency_check \<Rightarrow> string \<times> string \<Rightarrow> 'd catalog \<Rightarrow> (exc + 'd) \<times> 'd catalog" where
  "catalog_validate K check k c =
     (case catalog_get k c of
        Inl e \<Rightarrow> (Inl e, c)
      | Inr current \<Rightarrow>
          (case check [Life_VALIDATED, Life_ACTIVE] current of
             Inl e \<Rightarrow> (Inl e, c)
           | Inr _ \<Rightarrow>
               if kd_status K current = Life_DRAFT
               then catalog_transition K current Life_VALIDATED ''validated'' c
               else if kd_status K current \<in> {Life_VALIDATED, Life_ACTIVE} then (Inr current, c)
               else (Inl (RegistryError RegistryLifecycle), c)))"

text \<open>A draft is first moved to validated; each of the two moves has its own event.\<close>

definition activate_checked ::
  "'d catalog_kind \<Rightarrow> 'd \<Rightarrow> 'd catalog \<Rightarrow> (exc + 'd) \<times> 'd catalog" where
  "activate_checked K current c =
     (if kd_status K current = Life_VALIDATED then catalog_transition K current Life_ACTIVE ''activated'' c
      else if kd_status K current = Life_SUSPENDED
      then catalog_transition K current Life_ACTIVE ''reactivated'' c
      else if kd_status K current = Life_ACTIVE then (Inr current, c)
      else (Inl (RegistryError RegistryLifecycle), c))"

definition catalog_activate ::
  "'d catalog_kind \<Rightarrow> 'd dependency_check \<Rightarrow> string \<times> string \<Rightarrow> 'd catalog \<Rightarrow> (exc + 'd) \<times> 'd catalog" where
  "catalog_activate K check k c =
     (case catalog_get k c of
        Inl e \<Rightarrow> (Inl e, c)
      | Inr current \<Rightarrow>
          (case check [Life_ACTIVE] current of
             Inl e \<Rightarrow> (Inl e, c)
           | Inr _ \<Rightarrow>
               if kd_status K current = Life_DRAFT
               then bindS (catalog_transition K current Life_VALIDATED ''validated'' c) (activate_checked K)
               else activate_checked K current c))"

definition catalog_suspend ::
  "'d catalog_kind \<Rightarrow> string \<times> string \<Rightarrow> 'd catalog \<Rightarrow> (exc + 'd) \<times> 'd catalog" where
  "catalog_suspend K k = catalog_transition_by_key K k Life_SUSPENDED ''suspended'' [Life_ACTIVE]"

definition catalog_deprecate ::
  "'d catalog_kind \<Rightarrow> string \<times> string \<Rightarrow> 'd catalog \<Rightarrow> (exc + 'd) \<times> 'd catalog" where
  "catalog_deprecate K k =
     catalog_transition_by_key K k Life_DEPRECATED ''deprecated'' [Life_VALIDATED, Life_ACTIVE, Life_SUSPENDED]"

definition catalog_retire ::
  "'d catalog_kind \<Rightarrow> string \<times> string \<Rightarrow> 'd catalog \<Rightarrow> (exc + 'd) \<times> 'd catalog" where
  "catalog_retire K k =
     catalog_transition_by_key K k Life_RETIRED ''retired''
       [Life_DRAFT, Life_VALIDATED, Life_ACTIVE, Life_SUSPENDED, Life_DEPRECATED]"

section \<open>Listing\<close>

text \<open>
  The key \<open>_component_sort_key\<close> sorts by: the identity, then the parsed version, a version that
  does not parse coming after those that do. \<open>version_rank\<close> stands for the order of the package
  \<open>packaging\<close>: \<open>None\<close> for an invalid version.
\<close>

datatype 'v version_key = Parsed 'v | Unparsed string

instantiation version_key :: (linorder) linorder
begin

fun less_eq_version_key :: "'a version_key \<Rightarrow> 'a version_key \<Rightarrow> bool" where
  "less_eq_version_key (Parsed a) (Parsed b) \<longleftrightarrow> a \<le> b"
| "less_eq_version_key (Parsed a) (Unparsed t) \<longleftrightarrow> True"
| "less_eq_version_key (Unparsed s) (Parsed b) \<longleftrightarrow> False"
| "less_eq_version_key (Unparsed s) (Unparsed t) \<longleftrightarrow> s \<le> t"

definition less_version_key :: "'a version_key \<Rightarrow> 'a version_key \<Rightarrow> bool" where
  "less_version_key a b \<longleftrightarrow> a \<le> b \<and> \<not> b \<le> a"

instance
proof
  fix a b c :: "'a version_key"
  show "a < b \<longleftrightarrow> a \<le> b \<and> \<not> b \<le> a" by (rule less_version_key_def)
  show "a \<le> a" by (cases a) simp_all
  show "a \<le> b \<Longrightarrow> b \<le> c \<Longrightarrow> a \<le> c" by (cases a; cases b; cases c) auto
  show "a \<le> b \<Longrightarrow> b \<le> a \<Longrightarrow> a = b" by (cases a; cases b) auto
  show "a \<le> b \<or> b \<le> a" by (cases a; cases b) auto
qed

end

definition component_sort_key ::
  "(string \<Rightarrow> 'v::linorder option) \<Rightarrow> string \<times> string \<Rightarrow> string \<times> 'v version_key" where
  "component_sort_key version_rank k =
     (fst k, case version_rank (snd k) of None \<Rightarrow> Unparsed (snd k) | Some r \<Rightarrow> Parsed r)"

definition catalog_list ::
  "'d catalog_kind \<Rightarrow> (string \<Rightarrow> 'v::linorder option) \<Rightarrow> bool \<Rightarrow> 'd catalog \<Rightarrow> 'd list" where
  "catalog_list K version_rank include_inactive c =
     sort_key (\<lambda>d. component_sort_key version_rank (kd_key K d))
       (filter (\<lambda>d. include_inactive \<or> kd_status K d = Life_ACTIVE) (map snd (ct_items c)))"

definition catalog_versions ::
  "'d catalog_kind \<Rightarrow> (string \<Rightarrow> 'v::linorder option) \<Rightarrow> string \<Rightarrow> bool \<Rightarrow> 'd catalog \<Rightarrow> string list" where
  "catalog_versions K version_rank component_id include_inactive c =
     map (snd \<circ> kd_key K)
       (filter (\<lambda>d. fst (kd_key K d) = component_id) (catalog_list K version_rank include_inactive c))"

text \<open>
  \<open>_stable_snapshot_id\<close>: the first 24 digits of the SHA-256 of the JSON encoding of the records;
  \<open>digest\<close> stands for both.
\<close>

definition stable_snapshot_id :: "('p \<Rightarrow> string) \<Rightarrow> string \<Rightarrow> 'p \<Rightarrow> string" where
  "stable_snapshot_id digest scope payload = scope @ ''_'' @ take 24 (digest payload)"

text \<open>An optional filter of a search, and \<open>any(text in value.lower() for value in values)\<close>.\<close>

definition wanted :: "'a option \<Rightarrow> ('a \<Rightarrow> bool) \<Rightarrow> bool" where
  "wanted x P \<longleftrightarrow> (case x of None \<Rightarrow> True | Some a \<Rightarrow> P a)"

definition mentions :: "string \<Rightarrow> string list \<Rightarrow> bool" where
  "mentions query values \<longleftrightarrow> list_ex (\<lambda>v. contains (lower v) (lower query)) values"

definition names_one :: "string \<Rightarrow> string list \<Rightarrow> bool" where
  "names_one text values \<longleftrightarrow> list_ex (\<lambda>v. lower text = lower v) values"

section \<open>The prompt registry\<close>

definition prompt_kind :: "prompt_definition catalog_kind" where
  "prompt_kind =
     \<lparr>kd_registry_id = ''prompts'', kd_component = Component_PROMPT,
      kd_key = (\<lambda>p. (pmt_prompt_id p, pmt_version p)), kd_status = pmt_lifecycle,
      kd_with_status = (\<lambda>s p. p\<lparr>pmt_lifecycle := s\<rparr>)\<rparr>"

definition no_check :: "'d dependency_check" where
  "no_check statuses d = Inr ()"

definition register_prompt ::
  "bool \<Rightarrow> prompt_definition \<Rightarrow> prompt_definition catalog \<Rightarrow>
   (exc + prompt_definition) \<times> prompt_definition catalog" where
  "register_prompt = catalog_register prompt_kind no_check"

fun register_prompts ::
  "prompt_definition list \<Rightarrow> prompt_definition catalog \<Rightarrow> (exc + unit) \<times> prompt_definition catalog" where
  "register_prompts [] c = (Inr (), c)"
| "register_prompts (p # ps) c = bindS (register_prompt False p c) (\<lambda>_. register_prompts ps)"

definition resolve_prompt ::
  "string \<Rightarrow> string option \<Rightarrow> prompt_definition catalog \<Rightarrow> exc + prompt_definition" where
  "resolve_prompt = catalog_resolve prompt_kind no_check"

definition validate_prompt ::
  "string \<times> string \<Rightarrow> prompt_definition catalog \<Rightarrow>
   (exc + prompt_definition) \<times> prompt_definition catalog" where
  "validate_prompt = catalog_validate prompt_kind no_check"

definition activate_prompt ::
  "string \<times> string \<Rightarrow> prompt_definition catalog \<Rightarrow>
   (exc + prompt_definition) \<times> prompt_definition catalog" where
  "activate_prompt = catalog_activate prompt_kind no_check"

text \<open>\<open>str_of\<close> is Python's \<open>str\<close> on the values of the metadata.\<close>

definition search_prompts ::
  "(string \<Rightarrow> 'v::linorder option) \<Rightarrow> (pyval \<Rightarrow> string) \<Rightarrow> string option \<Rightarrow> string option \<Rightarrow>
   string option \<Rightarrow> bool \<Rightarrow> prompt_definition catalog \<Rightarrow> prompt_definition list" where
  "search_prompts version_rank str_of query purpose owner_id include_inactive c =
     filter (\<lambda>p.
         wanted query (\<lambda>q. mentions q ([pmt_prompt_id p, pmt_purpose p, pmt_instructions p] @
                                       map (str_of \<circ> snd) (pmt_metadata p))) \<and>
         wanted purpose (\<lambda>t. mentions t [pmt_purpose p]) \<and>
         wanted owner_id (\<lambda>o1. pmt_owner_id p = o1))
       (catalog_list prompt_kind version_rank include_inactive c)"

definition snapshot_prompts ::
  "(string \<Rightarrow> 'v::linorder option) \<Rightarrow> (prompt_definition list \<Rightarrow> string) \<Rightarrow> bool \<Rightarrow>
   prompt_definition catalog \<Rightarrow> (exc + registry_snapshot) \<times> prompt_definition catalog" where
  "snapshot_prompts version_rank digest include_inactive c =
     (let prompts = catalog_list prompt_kind version_rank include_inactive c;
          s = \<lparr>rsn_snapshot_id = stable_snapshot_id digest ''prompt_registry'' prompts,
               rsn_revision = ct_revision c, rsn_agent_revision = 0,
               rsn_prompt_revision = ct_revision c, rsn_skill_revision = 0, rsn_tool_revision = 0,
               rsn_agents = [], rsn_prompts = prompts, rsn_skills = [], rsn_tools = [],
               rsn_policies = [], rsn_dependencies = []\<rparr>
      in bindS (catalog_record_snapshot prompt_kind s [(''prompt_count'', str_nat (length prompts))] c)
           (\<lambda>_ c1. (Inr s, c1)))"

end
