(* ===== verification/Component_Registries.thy ===== *)
theory Component_Registries
  imports Catalog
begin

text \<open>
  \<open>SkillRegistry\<close> and \<open>AgentRegistry\<close> of \<open>registries.py\<close> and the checks of the component graph: what
  a skill needs of its tools, the transitive check of tool dependencies, and what an agent needs of
  its prompt, skills, tools and policies. The four registries an agent registry works on are one
  record; its constructor makes the skill registry share its tools, which is why the record holds
  one tool registry. Operations of the skill registry take the tool registry as an argument,
  \<open>None\<close> when it has none.
\<close>

section \<open>Tool dependencies\<close>

definition get_tool_for_reference ::
  "'w tool_registry \<Rightarrow> component_reference \<Rightarrow> exc + 'w tool_definition" where
  "get_tool_for_reference tools r =
     (case get_tool (cr_component_id r) (Some (cr_version r)) True tools of
        Inl e \<Rightarrow> Inl (RegistryError IncompatibleRegistration)
      | Inr t \<Rightarrow> Inr t)"

text \<open>What is asked of one dependency: a lifecycle state among those required, and its risk.\<close>

definition usable_tool ::
  "agent_lifecycle_status list \<Rightarrow> risk_level option \<Rightarrow> 'w tool_definition \<Rightarrow> bool" where
  "usable_tool statuses maximum_risk t \<longleftrightarrow>
     td_lifecycle t \<in> set statuses \<and>
     \<not> (case maximum_risk of None \<Rightarrow> False | Some m \<Rightarrow> risk_exceeds (td_risk_level t) m)"

text \<open>
  The two nested loops of \<open>_validate_tool_dependencies\<close>. A node is in \<open>visiting\<close> exactly while its
  own loop runs, so the set is passed down; \<open>visited\<close> is threaded through.
\<close>

definition registry_keys :: "'w tool_registry \<Rightarrow> (string \<times> string) set" where
  "registry_keys tools = tool_key ` set (map snd (tg_tools tools))"

function (sequential)
  visit_tool :: "'w tool_registry \<Rightarrow> agent_lifecycle_status list \<Rightarrow> risk_level option \<Rightarrow>
    'w tool_definition \<Rightarrow> (string \<times> string) list \<Rightarrow> (string \<times> string) list \<Rightarrow>
    exc + (string \<times> string) list" and
  visit_references :: "'w tool_registry \<Rightarrow> agent_lifecycle_status list \<Rightarrow> risk_level option \<Rightarrow>
    component_reference list \<Rightarrow> (string \<times> string) list \<Rightarrow> (string \<times> string) list \<Rightarrow>
    exc + (string \<times> string) list" where
  "visit_tool tools statuses maximum_risk t visiting visited =
     (if tool_key t \<in> set visiting then Inl (RegistryError IncompatibleRegistration)
      else if tool_key t \<in> set visited then Inr visited
      else
        (case visit_references tools statuses maximum_risk (td_dependencies t) (tool_key t # visiting) visited of
           Inl e \<Rightarrow> Inl e
         | Inr visited' \<Rightarrow> Inr (tool_key t # visited')))"
| "visit_references tools statuses maximum_risk [] visiting visited = Inr visited"
| "visit_references tools statuses maximum_risk (r # rs) visiting visited =
     (case get_tool_for_reference tools r of
        Inl e \<Rightarrow> Inl e
      | Inr dependency \<Rightarrow>
          if \<not> usable_tool statuses maximum_risk dependency
          then Inl (RegistryError IncompatibleRegistration)
          else
            (case visit_tool tools statuses maximum_risk dependency visiting visited of
               Inl e \<Rightarrow> Inl e
             | Inr visited' \<Rightarrow> visit_references tools statuses maximum_risk rs visiting visited'))"
  by pat_completeness auto

lemma finite_registry_keys: "finite (registry_keys tools)"
  by (simp add: registry_keys_def)

lemma referenced_tool_key: "get_tool_for_reference tools r = Inr t \<Longrightarrow> tool_key t \<in> registry_keys tools"
  by (force simp: get_tool_for_reference_def get_tool_def registry_keys_def dest: map_of_SomeD
        split: option.splits sum.splits)

termination visit_tool
proof (relation "measures
    [\<lambda>x. case x of Inl (tools, _, _, t, visiting, _) \<Rightarrow> card (insert (tool_key t) (registry_keys tools) - set visiting)
         | Inr (tools, _, _, _, visiting, _) \<Rightarrow> card (registry_keys tools - set visiting),
     \<lambda>x. case x of Inl _ \<Rightarrow> 0 | Inr (_, _, _, rs, _, _) \<Rightarrow> length rs]", goal_cases)
  case (2 tools statuses maximum_risk t visiting visited)
  then have "registry_keys tools - set (tool_key t # visiting) \<subset> insert (tool_key t) (registry_keys tools) - set visiting"
    by auto
  then show ?case by (simp add: psubset_card_mono finite_registry_keys)
qed (auto dest: referenced_tool_key simp: insert_absorb)

definition validate_tool_dependencies ::
  "'w tool_registry \<Rightarrow> agent_lifecycle_status list \<Rightarrow> risk_level option \<Rightarrow> 'w tool_definition \<Rightarrow> exc + unit" where
  "validate_tool_dependencies tools statuses maximum_risk start =
     bindE (visit_tool tools statuses maximum_risk start [] []) (\<lambda>_. Inr ())"

section \<open>The skill registry\<close>

definition skill_kind :: "skill_definition catalog_kind" where
  "skill_kind =
     \<lparr>kd_registry_id = ''skills'', kd_component = Component_SKILL,
      kd_key = (\<lambda>s. (sk_skill_id s, sk_version s)), kd_status = sk_lifecycle,
      kd_with_status = (\<lambda>l s. s\<lparr>sk_lifecycle := l\<rparr>)\<rparr>"

definition validate_required_tool ::
  "'w tool_registry \<Rightarrow> agent_lifecycle_status list \<Rightarrow> skill_definition \<Rightarrow> component_reference \<Rightarrow> exc + unit" where
  "validate_required_tool tools statuses s r =
     bindE (get_tool_for_reference tools r) (\<lambda>tool.
       if td_lifecycle tool \<notin> set statuses then Inl (RegistryError IncompatibleRegistration)
       else if risk_exceeds (td_risk_level tool) (sk_risk_level s)
       then Inl (RegistryError IncompatibleRegistration)
       else validate_tool_dependencies tools statuses (Some (sk_risk_level s)) tool)"

text \<open>An optional tool that is missing or not in a required state is passed over.\<close>

definition validate_optional_tool ::
  "'w tool_registry \<Rightarrow> agent_lifecycle_status list \<Rightarrow> skill_definition \<Rightarrow> component_reference \<Rightarrow> exc + unit" where
  "validate_optional_tool tools statuses s r =
     (case get_tool_for_reference tools r of
        Inl _ \<Rightarrow> Inr ()
      | Inr tool \<Rightarrow>
          if td_lifecycle tool \<notin> set statuses then Inr ()
          else if risk_exceeds (td_risk_level tool) (sk_risk_level s)
          then Inl (RegistryError IncompatibleRegistration)
          else validate_tool_dependencies tools statuses (Some (sk_risk_level s)) tool)"

definition validate_skill_tools ::
  "'w tool_registry option \<Rightarrow> skill_definition dependency_check" where
  "validate_skill_tools tools statuses s =
     (case tools of
        None \<Rightarrow>
          if sk_required_tool_refs s \<noteq> [] then Inl (RegistryError IncompatibleRegistration) else Inr ()
      | Some g \<Rightarrow>
          bindE (each (validate_required_tool g statuses s) (sk_required_tool_refs s)) (\<lambda>_.
            each (validate_optional_tool g statuses s) (sk_optional_tool_refs s)))"

definition register_skill ::
  "'w tool_registry option \<Rightarrow> bool \<Rightarrow> skill_definition \<Rightarrow> skill_definition catalog \<Rightarrow>
   (exc + skill_definition) \<times> skill_definition catalog" where
  "register_skill tools = catalog_register skill_kind (validate_skill_tools tools)"

definition get_skill :: "string \<times> string \<Rightarrow> skill_definition catalog \<Rightarrow> exc + skill_definition" where
  "get_skill = catalog_get"

definition resolve_skill ::
  "'w tool_registry option \<Rightarrow> string \<Rightarrow> string option \<Rightarrow> skill_definition catalog \<Rightarrow> exc + skill_definition" where
  "resolve_skill tools = catalog_resolve skill_kind (validate_skill_tools tools)"

definition list_skills ::
  "(string \<Rightarrow> 'v::linorder option) \<Rightarrow> bool \<Rightarrow> skill_definition catalog \<Rightarrow> skill_definition list" where
  "list_skills = catalog_list skill_kind"

definition skill_versions ::
  "(string \<Rightarrow> 'v::linorder option) \<Rightarrow> string \<Rightarrow> bool \<Rightarrow> skill_definition catalog \<Rightarrow> string list" where
  "skill_versions = catalog_versions skill_kind"

definition search_skills ::
  "(string \<Rightarrow> 'v::linorder option) \<Rightarrow> string option \<Rightarrow> string option \<Rightarrow> string option \<Rightarrow> string option \<Rightarrow>
   risk_level option \<Rightarrow> bool \<Rightarrow> skill_definition catalog \<Rightarrow> skill_definition list" where
  "search_skills version_rank query intent tool_id language risk include_inactive c =
     filter (\<lambda>s.
         wanted query (\<lambda>q. mentions q ([sk_skill_id s, sk_name s, sk_description s] @
                             sk_supported_operations s @ sk_supported_intents s @ sk_tags s)) \<and>
         wanted intent (\<lambda>t. names_one t (sk_supported_intents s) \<or> names_one t (sk_supported_operations s)) \<and>
         wanted tool_id (\<lambda>i. list_ex (\<lambda>r. cr_component_id r = i) (skill_tool_refs s)) \<and>
         wanted language (\<lambda>t. names_one t (sk_supported_languages s)) \<and>
         wanted risk (\<lambda>r. sk_risk_level s = r))
       (list_skills version_rank include_inactive c)"

fun linked_tools ::
  "'w tool_registry \<Rightarrow> component_reference list \<Rightarrow> bool \<Rightarrow> component_reference list \<Rightarrow>
   exc + tool_descriptor list" where
  "linked_tools tools optional include_inactive [] = Inr []"
| "linked_tools tools optional include_inactive (r # rs) =
     (case get_tool (cr_component_id r) (Some (cr_version r)) include_inactive tools of
        Inl _ \<Rightarrow>
          if r \<in> set optional then linked_tools tools optional include_inactive rs
          else Inl (RegistryError RegistryBase)
      | Inr t \<Rightarrow>
          bindE (linked_tools tools optional include_inactive rs) (\<lambda>ds. Inr (tool_descriptor_of t # ds)))"

definition tools_for_skill ::
  "'w tool_registry option \<Rightarrow> string \<times> string \<Rightarrow> bool \<Rightarrow> skill_definition catalog \<Rightarrow>
   exc + tool_descriptor list" where
  "tools_for_skill tools k include_inactive c =
     bindE (get_skill k c) (\<lambda>s.
       case tools of
         None \<Rightarrow> if sk_required_tool_refs s \<noteq> [] then Inl (RegistryError RegistryBase) else Inr []
       | Some g \<Rightarrow>
           bindE (linked_tools g (sk_optional_tool_refs s) include_inactive (skill_tool_refs s))
             (\<lambda>ds. Inr (sort_key descriptor_key ds)))"

definition skills_using_tool ::
  "(string \<Rightarrow> 'v::linorder option) \<Rightarrow> string \<times> string \<Rightarrow> bool \<Rightarrow> skill_definition catalog \<Rightarrow>
   skill_definition list" where
  "skills_using_tool version_rank k include_inactive c =
     filter (\<lambda>s. k \<in> reference_key ` set (skill_tool_refs s)) (list_skills version_rank include_inactive c)"

definition validate_skill ::
  "'w tool_registry option \<Rightarrow> string \<times> string \<Rightarrow> skill_definition catalog \<Rightarrow>
   (exc + skill_definition) \<times> skill_definition catalog" where
  "validate_skill tools = catalog_validate skill_kind (validate_skill_tools tools)"

definition activate_skill ::
  "'w tool_registry option \<Rightarrow> string \<times> string \<Rightarrow> skill_definition catalog \<Rightarrow>
   (exc + skill_definition) \<times> skill_definition catalog" where
  "activate_skill tools = catalog_activate skill_kind (validate_skill_tools tools)"

definition skill_transition_by_key ::
  "string \<times> string \<Rightarrow> agent_lifecycle_status \<Rightarrow> string \<Rightarrow> agent_lifecycle_status list \<Rightarrow>
   skill_definition catalog \<Rightarrow> (exc + skill_definition) \<times> skill_definition catalog" where
  "skill_transition_by_key = catalog_transition_by_key skill_kind"

definition suspend_skill ::
  "string \<times> string \<Rightarrow> skill_definition catalog \<Rightarrow> (exc + skill_definition) \<times> skill_definition catalog" where
  "suspend_skill k = skill_transition_by_key k Life_SUSPENDED ''suspended'' [Life_ACTIVE]"

definition deprecate_skill ::
  "string \<times> string \<Rightarrow> skill_definition catalog \<Rightarrow> (exc + skill_definition) \<times> skill_definition catalog" where
  "deprecate_skill k =
     skill_transition_by_key k Life_DEPRECATED ''deprecated'' [Life_VALIDATED, Life_ACTIVE, Life_SUSPENDED]"

definition retire_skill ::
  "string \<times> string \<Rightarrow> skill_definition catalog \<Rightarrow> (exc + skill_definition) \<times> skill_definition catalog" where
  "retire_skill k =
     skill_transition_by_key k Life_RETIRED ''retired''
       [Life_DRAFT, Life_VALIDATED, Life_ACTIVE, Life_SUSPENDED, Life_DEPRECATED]"

section \<open>Dependency edges\<close>

definition edge ::
  "component_type \<Rightarrow> string \<times> string \<Rightarrow> component_type \<Rightarrow> string \<Rightarrow> component_reference \<Rightarrow> registry_dependency" where
  "edge source k target relation r =
     \<lparr>rdp_source_kind = component_type_value source, rdp_source_id = fst k, rdp_source_version = snd k,
      rdp_target_kind = component_type_value target, rdp_target_id = cr_component_id r,
      rdp_target_version = cr_version r, rdp_relation = relation\<rparr>"

definition skill_dependencies :: "skill_definition list \<Rightarrow> registry_dependency list" where
  "skill_dependencies skills =
     concat (map (\<lambda>s.
       map (edge Component_SKILL (kd_key skill_kind s) Component_TOOL ''requires_tool'') (sk_required_tool_refs s) @
       map (edge Component_SKILL (kd_key skill_kind s) Component_TOOL ''optional_tool'') (sk_optional_tool_refs s))
       skills)"

definition tool_dependencies :: "tool_descriptor list \<Rightarrow> registry_dependency list" where
  "tool_dependencies tools =
     concat (map (\<lambda>t. map (edge Component_TOOL (descriptor_key t) Component_TOOL ''depends_on'')
                        (tds_dependencies t)) tools)"

definition dependency_sort_key :: "registry_dependency \<Rightarrow> string list" where
  "dependency_sort_key d =
     [rdp_source_kind d, rdp_source_id d, rdp_source_version d, rdp_target_kind d,
      rdp_target_id d, rdp_target_version d, rdp_relation d]"

definition snapshot_skills ::
  "(string \<Rightarrow> 'v::linorder option) \<Rightarrow>
   (skill_definition list \<times> tool_descriptor list \<times> registry_dependency list \<Rightarrow> string) \<Rightarrow> bool \<Rightarrow>
   'w tool_registry option \<Rightarrow> skill_definition catalog \<Rightarrow>
   (exc + registry_snapshot) \<times> skill_definition catalog" where
  "snapshot_skills version_rank digest include_inactive tools c =
     (let skills = list_skills version_rank include_inactive c;
          descriptors = (case tools of None \<Rightarrow> [] | Some g \<Rightarrow> tool_descriptors None include_inactive g);
          tool_revision = (case tools of None \<Rightarrow> 0 | Some g \<Rightarrow> tg_revision g);
          dependencies = sort_key dependency_sort_key
                           (skill_dependencies skills @ tool_dependencies descriptors);
          s = \<lparr>rsn_snapshot_id = stable_snapshot_id digest ''skill_registry'' (skills, descriptors, dependencies),
               rsn_revision = ct_revision c + tool_revision, rsn_agent_revision = 0,
               rsn_prompt_revision = 0, rsn_skill_revision = ct_revision c,
               rsn_tool_revision = tool_revision,
               rsn_agents = [], rsn_prompts = [], rsn_skills = skills, rsn_tools = descriptors,
               rsn_policies = [], rsn_dependencies = dependencies\<rparr>
      in bindS (catalog_record_snapshot skill_kind s
                  [(''skill_count'', str_nat (length skills)), (''tool_count'', str_nat (length descriptors))] c)
           (\<lambda>_ c1. (Inr s, c1)))"

end
