(* ===== verification/Agent_Registry.thy ===== *)
theory Agent_Registry
  imports Component_Registries
begin

text \<open>
  \<open>AgentRegistry\<close> of \<open>registries.py\<close> over the graph of agents, prompts, skills, tools and policies:
  the check of an agent against its exact components, its lifecycle, the discovery queries and the
  snapshot of the whole graph.
\<close>

section \<open>State\<close>

record 'w component_registries =
  cg_agents :: "agent_definition catalog"
  cg_prompts :: "prompt_definition catalog"
  cg_skills :: "skill_definition catalog"
  cg_tools :: "'w tool_registry"
  cg_policies :: "(string \<times> string, policy_definition) dict"

definition agent_kind :: "agent_definition catalog_kind" where
  "agent_kind =
     \<lparr>kd_registry_id = ''agents'', kd_component = Component_AGENT,
      kd_key = (\<lambda>a. (ag_agent_id a, ag_version a)), kd_status = ag_lifecycle,
      kd_with_status = (\<lambda>s a. a\<lparr>ag_lifecycle := s\<rparr>)\<rparr>"

definition policy_key :: "policy_definition \<Rightarrow> string \<times> string" where
  "policy_key p = (pol_policy_id p, pol_version p)"

text \<open>
  The constructor. That the skill registry shares the tool registry is the shape of the record.
\<close>

definition new_registries ::
  "prompt_definition catalog \<Rightarrow> skill_definition catalog \<Rightarrow> 'w tool_registry \<Rightarrow>
   policy_definition list \<Rightarrow> world \<Rightarrow> exc + 'w component_registries" where
  "new_registries prompts skills tools policies w =
     (if \<not> distinct (map policy_key policies) then Inl (RegistryError DuplicateRegistration)
      else Inr \<lparr>cg_agents = empty_catalog w, cg_prompts = prompts, cg_skills = skills,
                cg_tools = tools, cg_policies = map (\<lambda>p. (policy_key p, p)) policies\<rparr>)"

definition policy_catalog ::
  "(string \<Rightarrow> 'v::linorder option) \<Rightarrow> 'w component_registries \<Rightarrow> policy_definition list" where
  "policy_catalog version_rank g =
     sort_key (\<lambda>p. component_sort_key version_rank (policy_key p)) (map snd (cg_policies g))"

section \<open>The check of an agent\<close>

fun collect :: "('a \<Rightarrow> exc + 'b) \<Rightarrow> 'a list \<Rightarrow> exc + 'b list" where
  "collect f [] = Inr []"
| "collect f (x # xs) = bindE (f x) (\<lambda>y. bindE (collect f xs) (\<lambda>ys. Inr (y # ys)))"

definition agent_prompt ::
  "'w component_registries \<Rightarrow> agent_lifecycle_status list \<Rightarrow> agent_definition \<Rightarrow> exc + unit" where
  "agent_prompt g statuses a =
     bindE (catalog_get (reference_key (ag_prompt_ref a)) (cg_prompts g)) (\<lambda>p.
       require (pmt_lifecycle p \<in> set statuses) (RegistryError IncompatibleRegistration))"

definition agent_skill ::
  "'w component_registries \<Rightarrow> agent_lifecycle_status list \<Rightarrow> agent_definition \<Rightarrow>
   component_reference \<Rightarrow> exc + skill_definition" where
  "agent_skill g statuses a r =
     (case get_skill (reference_key r) (cg_skills g) of
        Inl _ \<Rightarrow> Inl (RegistryError IncompatibleRegistration)
      | Inr s \<Rightarrow>
          if sk_lifecycle s \<notin> set statuses then Inl (RegistryError IncompatibleRegistration)
          else if risk_exceeds (sk_risk_level s) (ag_risk_level a)
          then Inl (RegistryError IncompatibleRegistration)
          else bindE (validate_skill_tools (Some (cg_tools g)) statuses s) (\<lambda>_. Inr s))"

definition agent_tool ::
  "'w component_registries \<Rightarrow> agent_lifecycle_status list \<Rightarrow> agent_definition \<Rightarrow>
   component_reference \<Rightarrow> exc + 'w tool_definition" where
  "agent_tool g statuses a r =
     (case get_tool (cr_component_id r) (Some (cr_version r)) True (cg_tools g) of
        Inl _ \<Rightarrow> Inl (RegistryError IncompatibleRegistration)
      | Inr t \<Rightarrow>
          if td_lifecycle t \<notin> set statuses then Inl (RegistryError IncompatibleRegistration)
          else if risk_exceeds (td_risk_level t) (ag_risk_level a)
          then Inl (RegistryError IncompatibleRegistration)
          else bindE (validate_tool_dependencies (cg_tools g) statuses (Some (ag_risk_level a)) t) (\<lambda>_. Inr t))"

definition agent_policy ::
  "'w component_registries \<Rightarrow> agent_lifecycle_status list \<Rightarrow> component_reference \<Rightarrow> exc + unit" where
  "agent_policy g statuses r =
     (case map_of (cg_policies g) (reference_key r) of
        None \<Rightarrow> Inl (RegistryError IncompatibleRegistration)
      | Some p \<Rightarrow> require (pol_lifecycle p \<in> set statuses) (RegistryError IncompatibleRegistration))"

text \<open>Every tool a skill requires must be one the agent itself declares.\<close>

definition skill_covered ::
  "'w tool_definition list \<Rightarrow> skill_definition \<Rightarrow> exc + unit" where
  "skill_covered tools s =
     require (filter (\<lambda>r. reference_key r \<notin> set (map tool_key tools)) (sk_required_tool_refs s) = [])
       (RegistryError IncompatibleRegistration)"

definition validate_agent_components ::
  "'w component_registries \<Rightarrow> agent_definition dependency_check" where
  "validate_agent_components g statuses a =
     bindE (agent_prompt g statuses a) (\<lambda>_.
     bindE (collect (agent_skill g statuses a) (ag_skill_refs a)) (\<lambda>skills.
     bindE (collect (agent_tool g statuses a) (ag_tool_refs a)) (\<lambda>tools.
     bindE (each (agent_policy g statuses) (ag_policy_refs a)) (\<lambda>_.
     each (skill_covered tools) skills))))"

definition check_compatibility ::
  "'w component_registries \<Rightarrow> bool \<Rightarrow> agent_definition \<Rightarrow> exc + unit" where
  "check_compatibility g require_active a =
     validate_agent_components g
       (if require_active then [Life_ACTIVE] else [Life_VALIDATED, Life_ACTIVE]) a"

section \<open>Operations\<close>

text \<open>An operation on the agents of a graph leaves its other registries alone.\<close>

definition on_agents ::
  "(agent_definition catalog \<Rightarrow> (exc + 'a) \<times> agent_definition catalog) \<Rightarrow> 'w component_registries \<Rightarrow>
   (exc + 'a) \<times> 'w component_registries" where
  "on_agents f g = (case f (cg_agents g) of (r, c) \<Rightarrow> (r, g\<lparr>cg_agents := c\<rparr>))"

definition register_agent ::
  "bool \<Rightarrow> agent_definition \<Rightarrow> 'w component_registries \<Rightarrow>
   (exc + agent_definition) \<times> 'w component_registries" where
  "register_agent replace_existing a g =
     on_agents (catalog_register agent_kind (validate_agent_components g) replace_existing a) g"

definition get_agent :: "string \<times> string \<Rightarrow> 'w component_registries \<Rightarrow> exc + agent_definition" where
  "get_agent k g = catalog_get k (cg_agents g)"

definition resolve_agent ::
  "string \<Rightarrow> string option \<Rightarrow> 'w component_registries \<Rightarrow> exc + agent_definition" where
  "resolve_agent agent_id version g =
     catalog_resolve agent_kind (validate_agent_components g) agent_id version (cg_agents g)"

definition list_agents ::
  "(string \<Rightarrow> 'v::linorder option) \<Rightarrow> bool \<Rightarrow> 'w component_registries \<Rightarrow> agent_definition list" where
  "list_agents version_rank include_inactive g =
     catalog_list agent_kind version_rank include_inactive (cg_agents g)"

definition agent_versions ::
  "(string \<Rightarrow> 'v::linorder option) \<Rightarrow> string \<Rightarrow> bool \<Rightarrow> 'w component_registries \<Rightarrow> string list" where
  "agent_versions version_rank agent_id include_inactive g =
     catalog_versions agent_kind version_rank agent_id include_inactive (cg_agents g)"

definition validate_agent ::
  "string \<times> string \<Rightarrow> 'w component_registries \<Rightarrow> (exc + agent_definition) \<times> 'w component_registries" where
  "validate_agent k g = on_agents (catalog_validate agent_kind (validate_agent_components g) k) g"

definition activate_agent ::
  "string \<times> string \<Rightarrow> 'w component_registries \<Rightarrow> (exc + agent_definition) \<times> 'w component_registries" where
  "activate_agent k g = on_agents (catalog_activate agent_kind (validate_agent_components g) k) g"

definition agent_transition_by_key ::
  "string \<times> string \<Rightarrow> agent_lifecycle_status \<Rightarrow> string \<Rightarrow> agent_lifecycle_status list \<Rightarrow>
   'w component_registries \<Rightarrow> (exc + agent_definition) \<times> 'w component_registries" where
  "agent_transition_by_key k target operation allowed_from g =
     on_agents (catalog_transition_by_key agent_kind k target operation allowed_from) g"

definition suspend_agent ::
  "string \<times> string \<Rightarrow> 'w component_registries \<Rightarrow> (exc + agent_definition) \<times> 'w component_registries" where
  "suspend_agent k = agent_transition_by_key k Life_SUSPENDED ''suspended'' [Life_ACTIVE]"

definition deprecate_agent ::
  "string \<times> string \<Rightarrow> 'w component_registries \<Rightarrow> (exc + agent_definition) \<times> 'w component_registries" where
  "deprecate_agent k =
     agent_transition_by_key k Life_DEPRECATED ''deprecated'' [Life_VALIDATED, Life_ACTIVE, Life_SUSPENDED]"

definition retire_agent ::
  "string \<times> string \<Rightarrow> 'w component_registries \<Rightarrow> (exc + agent_definition) \<times> 'w component_registries" where
  "retire_agent k =
     agent_transition_by_key k Life_RETIRED ''retired''
       [Life_DRAFT, Life_VALIDATED, Life_ACTIVE, Life_SUSPENDED, Life_DEPRECATED]"

section \<open>Discovery\<close>

definition search_agents ::
  "(string \<Rightarrow> 'v::linorder option) \<Rightarrow> string option \<Rightarrow> string option \<Rightarrow> string option \<Rightarrow>
   risk_level option \<Rightarrow> bool \<Rightarrow> 'w component_registries \<Rightarrow> agent_definition list" where
  "search_agents version_rank query intent language risk include_inactive g =
     filter (\<lambda>a.
         wanted query (\<lambda>q. mentions q ([ag_agent_id a, ag_goal a] @ ag_supported_intents a)) \<and>
         wanted intent (\<lambda>t. names_one t (ag_supported_intents a)) \<and>
         wanted language (\<lambda>t. names_one t (ag_supported_languages a)) \<and>
         wanted risk (\<lambda>r. ag_risk_level a = r))
       (list_agents version_rank include_inactive g)"

definition skills_for_agent ::
  "(string \<Rightarrow> 'v::linorder option) \<Rightarrow> string \<times> string \<Rightarrow> bool \<Rightarrow> 'w component_registries \<Rightarrow>
   exc + skill_definition list" where
  "skills_for_agent version_rank k include_inactive g =
     bindE (get_agent k g) (\<lambda>a.
     bindE (collect (\<lambda>r. get_skill (reference_key r) (cg_skills g)) (ag_skill_refs a)) (\<lambda>skills.
     Inr (sort_key (\<lambda>s. component_sort_key version_rank (kd_key skill_kind s))
            (filter (\<lambda>s. include_inactive \<or> sk_lifecycle s = Life_ACTIVE) skills))))"

definition agent_tools_for_skill ::
  "string \<times> string \<Rightarrow> bool \<Rightarrow> 'w component_registries \<Rightarrow> exc + tool_descriptor list" where
  "agent_tools_for_skill k include_inactive g =
     tools_for_skill (Some (cg_tools g)) k include_inactive (cg_skills g)"

definition agents_using_skill ::
  "(string \<Rightarrow> 'v::linorder option) \<Rightarrow> string \<times> string \<Rightarrow> bool \<Rightarrow> 'w component_registries \<Rightarrow> agent_definition list" where
  "agents_using_skill version_rank k include_inactive g =
     filter (\<lambda>a. k \<in> reference_key ` set (ag_skill_refs a)) (list_agents version_rank include_inactive g)"

definition agents_using_tool ::
  "(string \<Rightarrow> 'v::linorder option) \<Rightarrow> string \<times> string \<Rightarrow> bool \<Rightarrow> 'w component_registries \<Rightarrow> agent_definition list" where
  "agents_using_tool version_rank k include_inactive g =
     filter (\<lambda>a. k \<in> reference_key ` set (ag_tool_refs a)) (list_agents version_rank include_inactive g)"

definition agents_with_skill_referencing_tool ::
  "(string \<Rightarrow> 'v::linorder option) \<Rightarrow> string \<times> string \<Rightarrow> bool \<Rightarrow> 'w component_registries \<Rightarrow> agent_definition list" where
  "agents_with_skill_referencing_tool version_rank k include_inactive g =
     (let skill_keys = kd_key skill_kind ` set (skills_using_tool version_rank k include_inactive (cg_skills g))
      in filter (\<lambda>a. list_ex (\<lambda>r. reference_key r \<in> skill_keys) (ag_skill_refs a))
           (list_agents version_rank include_inactive g))"

definition agents_using_prompt ::
  "(string \<Rightarrow> 'v::linorder option) \<Rightarrow> string \<times> string \<Rightarrow> bool \<Rightarrow> 'w component_registries \<Rightarrow> agent_definition list" where
  "agents_using_prompt version_rank k include_inactive g =
     filter (\<lambda>a. reference_key (ag_prompt_ref a) = k) (list_agents version_rank include_inactive g)"

section \<open>Snapshots of the graph\<close>

definition agent_dependencies ::
  "agent_definition list \<Rightarrow> skill_definition list \<Rightarrow> tool_descriptor list \<Rightarrow> registry_dependency list" where
  "agent_dependencies agents skills tools =
     sort_key dependency_sort_key
       (concat (map (\<lambda>a.
          [edge Component_AGENT (kd_key agent_kind a) Component_PROMPT ''uses_prompt'' (ag_prompt_ref a)] @
          map (edge Component_AGENT (kd_key agent_kind a) Component_SKILL ''uses_skill'') (ag_skill_refs a) @
          map (edge Component_AGENT (kd_key agent_kind a) Component_TOOL ''allows_tool'') (ag_tool_refs a) @
          map (edge Component_AGENT (kd_key agent_kind a) Component_POLICY ''uses_policy'') (ag_policy_refs a))
          agents) @
        skill_dependencies skills @ tool_dependencies tools)"

record graph_payload =
  gp_agents :: "agent_definition list"
  gp_prompts :: "prompt_definition list"
  gp_skills :: "skill_definition list"
  gp_tools :: "tool_descriptor list"
  gp_policies :: "policy_definition list"
  gp_dependencies :: "registry_dependency list"

definition graph_view ::
  "(string \<Rightarrow> 'v::linorder option) \<Rightarrow> bool \<Rightarrow> agent_definition list \<Rightarrow> 'w component_registries \<Rightarrow> graph_payload" where
  "graph_view version_rank include_inactive overrides g =
     (let listed = list_agents version_rank include_inactive g;
          by_key = fold (\<lambda>a d. AList.update (kd_key agent_kind a) a d) overrides
                     (map (\<lambda>a. (kd_key agent_kind a, a)) listed);
          agents = sort_key (\<lambda>a. component_sort_key version_rank (kd_key agent_kind a)) (map snd by_key);
          prompts = catalog_list prompt_kind version_rank include_inactive (cg_prompts g);
          skills = list_skills version_rank include_inactive (cg_skills g);
          tools = tool_descriptors None include_inactive (cg_tools g);
          policies = filter (\<lambda>p. include_inactive \<or> pol_lifecycle p = Life_ACTIVE) (policy_catalog version_rank g)
      in \<lparr>gp_agents = agents, gp_prompts = prompts, gp_skills = skills, gp_tools = tools,
          gp_policies = policies, gp_dependencies = agent_dependencies agents skills tools\<rparr>)"

definition snapshot_agents ::
  "(string \<Rightarrow> 'v::linorder option) \<Rightarrow> (graph_payload \<Rightarrow> string) \<Rightarrow> bool \<Rightarrow> agent_definition list \<Rightarrow>
   'w component_registries \<Rightarrow> (exc + registry_snapshot) \<times> 'w component_registries" where
  "snapshot_agents version_rank digest include_inactive overrides g =
     (let p = graph_view version_rank include_inactive overrides g;
          s = \<lparr>rsn_snapshot_id = stable_snapshot_id digest ''agent_registry'' p,
               rsn_revision = ct_revision (cg_agents g) + ct_revision (cg_prompts g) +
                              ct_revision (cg_skills g) + tg_revision (cg_tools g),
               rsn_agent_revision = ct_revision (cg_agents g),
               rsn_prompt_revision = ct_revision (cg_prompts g),
               rsn_skill_revision = ct_revision (cg_skills g),
               rsn_tool_revision = tg_revision (cg_tools g),
               rsn_agents = gp_agents p, rsn_prompts = gp_prompts p, rsn_skills = gp_skills p,
               rsn_tools = gp_tools p, rsn_policies = gp_policies p,
               rsn_dependencies = gp_dependencies p\<rparr>
      in on_agents (\<lambda>c.
           bindS (catalog_record_snapshot agent_kind s
                    [(''agent_count'', str_nat (length (gp_agents p))),
                     (''prompt_count'', str_nat (length (gp_prompts p))),
                     (''skill_count'', str_nat (length (gp_skills p))),
                     (''tool_count'', str_nat (length (gp_tools p))),
                     (''policy_count'', str_nat (length (gp_policies p)))] c)
             (\<lambda>_ c1. (Inr s, c1))) g)"

section \<open>Sequences of operations on the graph\<close>

datatype 'd catalog_op =
    CatalogRegister bool 'd | CatalogValidate "string \<times> string" | CatalogActivate "string \<times> string"
  | CatalogSuspend "string \<times> string" | CatalogDeprecate "string \<times> string"
  | CatalogRetire "string \<times> string"

fun catalog_step ::
  "'d catalog_kind \<Rightarrow> 'd dependency_check \<Rightarrow> 'd catalog_op \<Rightarrow> 'd catalog \<Rightarrow> (exc + 'd) \<times> 'd catalog" where
  "catalog_step K check (CatalogRegister b d) = catalog_register K check b d"
| "catalog_step K check (CatalogValidate k) = catalog_validate K check k"
| "catalog_step K check (CatalogActivate k) = catalog_activate K check k"
| "catalog_step K check (CatalogSuspend k) = catalog_suspend K k"
| "catalog_step K check (CatalogDeprecate k) = catalog_deprecate K k"
| "catalog_step K check (CatalogRetire k) = catalog_retire K k"

datatype 'w graph_op =
    AgentOp "agent_definition catalog_op" | PromptOp "prompt_definition catalog_op"
  | SkillOp "skill_definition catalog_op" | ToolOp "'w registry_op"

fun graph_step :: "'w graph_op \<Rightarrow> 'w component_registries \<Rightarrow> 'w component_registries" where
  "graph_step (AgentOp x) g =
     g\<lparr>cg_agents := snd (catalog_step agent_kind (validate_agent_components g) x (cg_agents g))\<rparr>"
| "graph_step (PromptOp x) g =
     g\<lparr>cg_prompts := snd (catalog_step prompt_kind no_check x (cg_prompts g))\<rparr>"
| "graph_step (SkillOp x) g =
     g\<lparr>cg_skills := snd (catalog_step skill_kind (validate_skill_tools (Some (cg_tools g))) x (cg_skills g))\<rparr>"
| "graph_step (ToolOp x) g = g\<lparr>cg_tools := registry_step x (cg_tools g)\<rparr>"

definition graph_run :: "'w graph_op list \<Rightarrow> 'w component_registries \<Rightarrow> 'w component_registries" where
  "graph_run xs g = fold graph_step xs g"

end
