(* ===== verification/Factory.thy ===== *)
theory Factory
  imports Agent_Registry Runtime_Resume
begin

text \<open>
  \<open>factory.py\<close>: the registries of provider adapters and runtime profiles, the resolution of a
  declarative configuration against the component registries, templates, manifests, and the agent
  that is built from them, which runs its runtime within the authority captured at build time.

  The registries are one object that the factory, every runtime it builds and the application share.
  Building changes them, so it takes and returns them; while an agent runs they are part of the
  application's state, and \<open>fa_live\<close> reads them there. The SHA-256 of the JSON dump of a manifest is
  the parameter \<open>digest\<close>, which raises where the dump does. Registries given to the constructor as
  mappings are converted by it and are dictionaries here from the start.
\<close>

section \<open>Provider adapters and runtime profiles\<close>

definition provider_key :: "provider_profile \<Rightarrow> string \<times> string" where
  "provider_key p = (pp_provider_id p, pp_version p)"

definition register_provider ::
  "provider_profile \<Rightarrow> 'p \<Rightarrow> (string \<times> string, 'p) dict \<Rightarrow> (exc + 'p) \<times> (string \<times> string, 'p) dict" where
  "register_provider profile provider ps =
     (if map_of ps (provider_key profile) \<noteq> None then (Inl (FactoryError FactoryBase), ps)
      else (Inr provider, AList.update (provider_key profile) provider ps))"

definition resolve_provider :: "provider_profile \<Rightarrow> (string \<times> string, 'p) dict \<Rightarrow> exc + 'p" where
  "resolve_provider profile ps =
     (case map_of ps (provider_key profile) of
        None \<Rightarrow> Inl (FactoryError FactoryDependency)
      | Some p \<Rightarrow> Inr p)"

definition register_profile ::
  "runtime_profile \<Rightarrow> (string \<times> string, runtime_profile) dict \<Rightarrow>
   (exc + runtime_profile) \<times> (string \<times> string, runtime_profile) dict" where
  "register_profile profile ps =
     (let k = (rpf_profile_id profile, rpf_version profile) in
      if map_of ps k \<noteq> None then (Inl (FactoryError FactoryBase), ps)
      else (Inr profile, AList.update k profile ps))"

definition resolve_profile ::
  "string \<Rightarrow> string \<Rightarrow> (string \<times> string, runtime_profile) dict \<Rightarrow> exc + runtime_profile" where
  "resolve_profile profile_id version ps =
     (case map_of ps (profile_id, version) of
        None \<Rightarrow> Inl (FactoryError FactoryDependency)
      | Some p \<Rightarrow>
          if rpf_lifecycle p \<noteq> Life_ACTIVE then Inl (FactoryError FactoryDependency) else Inr p)"

section \<open>Manifests\<close>

record manifest_payload =
  mp_manifest_id :: string
  mp_source :: agent_config
  mp_agent :: agent_definition
  mp_prompt_ref :: component_reference
  mp_skill_refs :: "component_reference list"
  mp_tool_refs :: "component_reference list"
  mp_policy_refs :: "component_reference list"
  mp_registry_snapshot_id :: string
  mp_provider_profile :: provider_profile
  mp_runtime_profile :: "runtime_profile option"
  mp_runtime_limits :: runtime_config
  mp_template :: "agent_template option"

type_synonym manifest_digest = "manifest_payload \<Rightarrow> exc + string"

text \<open>What \<open>_calculate_manifest_digest\<close> encodes, for a manifest whose digest is not yet known.\<close>

definition manifest_payload_of :: "resolved_manifest \<Rightarrow> manifest_payload" where
  "manifest_payload_of m =
     \<lparr>mp_manifest_id = mf_manifest_id m, mp_source = mf_source m, mp_agent = mf_agent m,
      mp_prompt_ref = mf_prompt_ref m, mp_skill_refs = mf_skill_refs m, mp_tool_refs = mf_tool_refs m,
      mp_policy_refs = mf_policy_refs m, mp_registry_snapshot_id = mf_registry_snapshot_id m,
      mp_provider_profile = mf_provider_profile m, mp_runtime_profile = mf_runtime_profile m,
      mp_runtime_limits = mf_runtime_limits m, mp_template = mf_template m\<rparr>"

definition tool_reference :: "string \<Rightarrow> string \<Rightarrow> string" where
  "tool_reference tool_id version = tool_id @ ''@'' @ version"

text \<open>\<open>reference.split("@", 1)[0]\<close>\<close>

definition referenced_id :: "string \<Rightarrow> string" where
  "referenced_id reference = takeWhile (\<lambda>c. c \<noteq> CHR ''@'') reference"

record manifest_authority =
  mau_manifest_digest :: string
  mau_agent_id :: string
  mau_agent_version :: string
  mau_allowed_tool_ids :: "string list"
  mau_allowed_tool_versions :: "string list"
  mau_tool_permissions :: "(string \<times> string list) list"
  mau_risk_level :: risk_level
  mau_max_plan_steps :: int

definition authority_of ::
  "resolved_manifest \<Rightarrow> agent_definition \<Rightarrow> 'w tool_definition list \<Rightarrow> runtime_config \<Rightarrow> manifest_authority" where
  "authority_of m a tools limits =
     \<lparr>mau_manifest_digest = mf_manifest_digest m, mau_agent_id = ag_agent_id a,
      mau_agent_version = ag_version a,
      mau_allowed_tool_ids = first_occurrences (map cr_component_id (ag_tool_refs a)),
      mau_allowed_tool_versions =
        map (\<lambda>r. tool_reference (cr_component_id r) (cr_version r)) (ag_tool_refs a),
      mau_tool_permissions =
        sort (map (\<lambda>t. (tool_reference (td_tool_id t) (td_version t), td_required_permissions t)) tools),
      mau_risk_level = ag_risk_level a, mau_max_plan_steps = cfg_max_plan_steps limits\<rparr>"

section \<open>Built agents\<close>

record 'w built_agent =
  ba_manifest :: resolved_manifest
  ba_runtime :: "'w runtime option"
  ba_registered :: bool
  ba_dry_run :: bool
  ba_registry :: "('w \<Rightarrow> 'w component_registries) option"
  ba_authority :: "manifest_authority option"

definition require_authority :: "'w built_agent \<Rightarrow> exc + manifest_authority" where
  "require_authority b =
     (case ba_authority b of
        None \<Rightarrow> Inl (FactoryError FactoryAuthorization)
      | Some u \<Rightarrow> Inr u)"

definition assert_manifest_integrity :: "manifest_digest \<Rightarrow> 'w built_agent \<Rightarrow> exc + unit" where
  "assert_manifest_integrity digest b =
     bindE (require_authority b) (\<lambda>u.
       case digest (manifest_payload_of (ba_manifest b)) of
         Inl _ \<Rightarrow> Inl (FactoryError FactoryAuthorization)
       | Inr calculated \<Rightarrow>
           require (mf_manifest_digest (ba_manifest b) = mau_manifest_digest u \<and>
                    calculated = mau_manifest_digest u) (FactoryError FactoryAuthorization))"

text \<open>
  The arguments of \<open>BuiltAgent.execute\<close>: the named ones, an identity among the others, which is
  refused, and the others themselves, as the arguments of the runtime they are handed to.
\<close>

record built_call =
  bc_tool_ids :: "string list option"
  bc_tool_versions :: "string list option"
  bc_max_risk_level :: "risk_level option"
  bc_names_identity :: bool
  bc_rest :: run_args

definition selected_tool_ids :: "manifest_authority \<Rightarrow> built_call \<Rightarrow> exc + string list" where
  "selected_tool_ids u c =
     (case bc_tool_ids c of
        None \<Rightarrow> Inr (mau_allowed_tool_ids u)
      | Some ids \<Rightarrow>
          bindE (require (set ids \<subseteq> set (mau_allowed_tool_ids u)) (FactoryError FactoryAuthorization))
            (\<lambda>_. Inr ids))"

definition selected_tool_versions ::
  "manifest_authority \<Rightarrow> string list \<Rightarrow> built_call \<Rightarrow> exc + string list" where
  "selected_tool_versions u ids c =
     (case bc_tool_versions c of
        None \<Rightarrow> Inr (filter (\<lambda>r. referenced_id r \<in> set ids) (mau_allowed_tool_versions u))
      | Some versions \<Rightarrow>
          bindE (require (set versions \<subseteq> set (mau_allowed_tool_versions u)) (FactoryError FactoryAuthorization)) (\<lambda>_.
          bindE (require (\<forall>r \<in> set versions. referenced_id r \<in> set ids) (FactoryError FactoryAuthorization)) (\<lambda>_.
            Inr versions)))"

definition effective_risk :: "manifest_authority \<Rightarrow> built_call \<Rightarrow> exc + risk_level" where
  "effective_risk u c =
     (case bc_max_risk_level c of
        None \<Rightarrow> Inr (mau_risk_level u)
      | Some r \<Rightarrow>
          if risk_exceeds r (mau_risk_level u) then Inl (FactoryError FactoryAuthorization) else Inr r)"

definition built_args :: "manifest_authority \<Rightarrow> built_call \<Rightarrow> exc + run_args" where
  "built_args u c =
     bindE (selected_tool_ids u c) (\<lambda>ids.
     bindE (selected_tool_versions u ids c) (\<lambda>versions.
     bindE (effective_risk u c) (\<lambda>risk.
       Inr ((bc_rest c)\<lparr>ra_agent_id := mau_agent_id u, ra_agent_version := mau_agent_version u,
              ra_authorized_tool_ids := ids, ra_authorized_tool_versions := versions,
              ra_max_risk_level := Some risk\<rparr>))))"

definition still_registered :: "('w \<Rightarrow> 'w component_registries) option \<Rightarrow> manifest_authority \<Rightarrow> (unit, 'w) rt" where
  "still_registered live u =
     (case live of
        None \<Rightarrow> ret ()
      | Some read \<Rightarrow>
          bind_act (app_do (\<lambda>w. (Inr (resolve_agent (mau_agent_id u) (Some (mau_agent_version u)) (read w)), w)))
            (\<lambda>r. case r of
                   Inl e \<Rightarrow> fail (if is_registry_error e then FactoryError FactoryAuthorization else e)
                 | Inr _ \<Rightarrow> ret ()))"

definition built_execute :: "manifest_digest \<Rightarrow> 'w built_agent \<Rightarrow> built_call \<Rightarrow> (agent_outcome, 'w) rt" where
  "built_execute digest b c =
     (case ba_runtime b of
        None \<Rightarrow> fail (FactoryError FactoryBase)
      | Some d \<Rightarrow>
          if bc_names_identity c then fail (FactoryError FactoryAuthorization)
          else
            and_then (lift_result (assert_manifest_integrity digest b))
              (bind_act (lift_result (require_authority b)) (\<lambda>u.
                 and_then (still_registered (ba_registry b) u)
                   (bind_act (lift_result (built_args u c)) (execute d)))))"

definition built_trace_for :: "'w built_agent \<Rightarrow> string \<Rightarrow> (run_trace, 'w) rt" where
  "built_trace_for b i =
     (case ba_runtime b of None \<Rightarrow> fail (FactoryError FactoryBase) | Some d \<Rightarrow> trace_for i)"

section \<open>The factory\<close>

text \<open>
  The collaborators of a factory. \<open>fa_version_rank\<close> is the order of component versions, \<open>fa_lib\<close> what
  a runtime uses of the standard library, \<open>fa_default_store\<close> the store a runtime uses when none is
  given. The default permission broker keeps its decisions in the application's state, which
  \<open>fa_engine_get\<close> and \<open>fa_engine_put\<close> access.
\<close>

type_synonym 'w memory_port = "principal_context \<Rightarrow> (memory_item list, 'w) app_op"

record 'w factory =
  fa_live :: "'w \<Rightarrow> 'w component_registries"
  fa_version_rank :: "string \<Rightarrow> rat option"
  fa_snapshot_digest :: "graph_payload \<Rightarrow> string"
  fa_digest :: manifest_digest
  fa_lib :: library_env
  fa_providers :: "(string \<times> string, 'w provider_port) dict"
  fa_profiles :: "(string \<times> string, runtime_profile) dict"
  fa_memory :: "(string, 'w memory_port) dict"
  fa_stores :: "(string, 'w state_port) dict"
  fa_default_store :: "'w state_port"
  fa_permission :: "('w proposal \<Rightarrow> (permission_decision, 'w) app_op) option"
  fa_engine_get :: "'w \<Rightarrow> engine_state"
  fa_engine_put :: "engine_state \<Rightarrow> 'w \<Rightarrow> 'w"
  fa_broker :: "'w approval_port option"
  fa_approval_policy :: "(principal_context \<Rightarrow> execution_context \<Rightarrow> 'w tool_definition \<Rightarrow> action_proposal \<Rightarrow>
    (approval_policy_decision, 'w) app_op) option"
  fa_call_policy :: "(provider_operation \<Rightarrow> unit provider_policy) option"

record 'w factory_state =
  fst_graph :: "'w component_registries"
  fst_world :: world
  fst_built :: "(string \<times> string, 'w built_agent) dict"

record 'w resolved_components =
  rsc_definition :: agent_definition
  rsc_provider :: "'w provider_port"
  rsc_runtime_profile :: "runtime_profile option"
  rsc_runtime_limits :: runtime_config
  rsc_prompt :: prompt_definition
  rsc_skills :: "skill_definition list"
  rsc_tools :: "'w tool_definition list"
  rsc_policies :: "policy_definition list"
  rsc_memory :: "'w memory_port option"
  rsc_store :: "'w state_port"

section \<open>Resolving components\<close>

definition as_dependency :: "exc + 'a \<Rightarrow> exc + 'a" where
  "as_dependency m =
     (case m of
        Inl e \<Rightarrow> Inl (if is_registry_error e then FactoryError FactoryDependency else e)
      | Inr x \<Rightarrow> Inr x)"

definition validated :: "agent_lifecycle_status \<Rightarrow> bool" where
  "validated s \<longleftrightarrow> s \<in> {Life_VALIDATED, Life_ACTIVE}"

definition resolve_prompt_ref :: "bool \<Rightarrow> component_reference \<Rightarrow> 'w component_registries \<Rightarrow> exc + prompt_definition" where
  "resolve_prompt_ref require_active r g =
     as_dependency
       (if require_active then resolve_prompt (cr_component_id r) (Some (cr_version r)) (cg_prompts g)
        else bindE (catalog_get (reference_key r) (cg_prompts g)) (\<lambda>p.
          if validated (pmt_lifecycle p) then Inr p else Inl (RegistryError RegistryBase)))"

definition resolve_skill_ref :: "bool \<Rightarrow> 'w component_registries \<Rightarrow> component_reference \<Rightarrow> exc + skill_definition" where
  "resolve_skill_ref require_active g r =
     as_dependency
       (if require_active
        then resolve_skill (Some (cg_tools g)) (cr_component_id r) (Some (cr_version r)) (cg_skills g)
        else bindE (get_skill (reference_key r) (cg_skills g)) (\<lambda>s.
          if validated (sk_lifecycle s) then Inr s else Inl (RegistryError RegistryBase)))"

definition resolve_tool_ref :: "bool \<Rightarrow> 'w component_registries \<Rightarrow> component_reference \<Rightarrow> exc + 'w tool_definition" where
  "resolve_tool_ref require_active g r =
     (case get_tool (cr_component_id r) (Some (cr_version r)) (\<not> require_active) (cg_tools g) of
        Inl _ \<Rightarrow> Inl (FactoryError FactoryDependency)
      | Inr t \<Rightarrow>
          if \<not> require_active \<and> \<not> validated (td_lifecycle t) then Inl (FactoryError FactoryDependency)
          else Inr t)"

definition resolve_policy_ref ::
  "(string \<Rightarrow> rat option) \<Rightarrow> bool \<Rightarrow> 'w component_registries \<Rightarrow> component_reference \<Rightarrow> exc + policy_definition" where
  "resolve_policy_ref version_rank require_active g r =
     (case find (\<lambda>p. policy_key p = reference_key r) (policy_catalog version_rank g) of
        None \<Rightarrow> Inl (FactoryError FactoryDependency)
      | Some p \<Rightarrow>
          if (if require_active then pol_lifecycle p = Life_ACTIVE else validated (pol_lifecycle p)) then Inr p
          else Inl (FactoryError FactoryDependency))"

definition resolve_memory :: "string option \<Rightarrow> 'w factory \<Rightarrow> exc + 'w memory_port option" where
  "resolve_memory strategy f =
     (case strategy of
        None \<Rightarrow> Inr None
      | Some i \<Rightarrow>
          (case map_of (fa_memory f) i of
             None \<Rightarrow> Inl (FactoryError FactoryDependency)
           | Some m \<Rightarrow> Inr (Some m)))"

definition resolve_state :: "string option \<Rightarrow> 'w factory \<Rightarrow> exc + 'w state_port" where
  "resolve_state strategy f =
     (case strategy of
        None \<Rightarrow> Inr (fa_default_store f)
      | Some i \<Rightarrow>
          (case map_of (fa_stores f) i of
             None \<Rightarrow> Inl (FactoryError FactoryDependency)
           | Some s \<Rightarrow> Inr s))"

definition validate_context_budget :: "prompt_definition \<Rightarrow> runtime_config \<Rightarrow> exc + unit" where
  "validate_context_budget p limits =
     require (minimum_configured_required_characters p \<le> cfg_max_context_characters limits)
       (FactoryError FactoryValidation)"

definition resolve_limits :: "agent_config \<Rightarrow> 'w factory \<Rightarrow> exc + (runtime_profile option \<times> runtime_config)" where
  "resolve_limits cf f =
     (case cf_runtime_profile cf of
        None \<Rightarrow>
          Inr (None, case cf_runtime_limits cf of None \<Rightarrow> default_runtime_config | Some l \<Rightarrow> l)
      | Some r \<Rightarrow>
          if cf_runtime_limits cf \<noteq> None then Inl (FactoryError FactoryValidation)
          else bindE (resolve_profile (pfr_profile_id r) (pfr_version r) (fa_profiles f)) (\<lambda>p.
            Inr (Some p, rpf_runtime_limits p)))"

section \<open>Templates\<close>

text \<open>Whether a rule gates the tool in every run: it must not depend on what a caller supplies.\<close>

definition approval_rule_covers_tool :: "agent_config \<Rightarrow> 'w tool_definition \<Rightarrow> policy_rule \<Rightarrow> bool" where
  "approval_rule_covers_tool cf tool rule \<longleftrightarrow>
     \<not> (rule_effect rule \<noteq> Effect_ALLOW \<or> rule_requires_approval rule \<noteq> Some True) \<and>
     \<not> (rule_tool_ids rule \<noteq> [] \<and> td_tool_id tool \<notin> set (rule_tool_ids rule)) \<and>
     \<not> (rule_agent_ids rule \<noteq> [] \<and> agv_agent_id (cf_identity cf) \<notin> set (rule_agent_ids rule)) \<and>
     \<not> (rule_risk_levels rule \<noteq> [] \<and> td_risk_level tool \<notin> set (rule_risk_levels rule)) \<and>
     rule_principal_ids rule = [] \<and> rule_tenant_ids rule = [] \<and>
     rule_required_permissions rule = [] \<and> rule_environments rule = [] \<and>
     rule_resource_types rule = [] \<and> rule_resource_ids rule = []"

definition non_read_tools :: "'w tool_definition list \<Rightarrow> 'w tool_definition list" where
  "non_read_tools tools = filter (\<lambda>t. td_kind t \<noteq> Kind_READ) tools"

definition unprotected_tools ::
  "agent_config \<Rightarrow> 'w tool_definition list \<Rightarrow> policy_definition list \<Rightarrow> 'w tool_definition list" where
  "unprotected_tools cf tools policies =
     filter (\<lambda>t. \<not> td_requires_approval t \<and>
       \<not> list_ex (\<lambda>p. list_ex (approval_rule_covers_tool cf t) (pol_rules p)) policies)
       (non_read_tools tools)"

definition validate_template ::
  "agent_config \<Rightarrow> 'w tool_definition list \<Rightarrow> policy_definition list \<Rightarrow> exc + unit" where
  "validate_template cf tools policies =
     (case cf_template cf of
        None \<Rightarrow> Inr ()
      | Some template \<Rightarrow>
          if template = Template_READ_ONLY_ANALYST \<and> non_read_tools tools \<noteq> []
          then Inl (FactoryError FactoryTemplate)
          else if template = Template_ACTION_AGENT \<and> non_read_tools tools = []
          then Inl (FactoryError FactoryTemplate)
          else if template = Template_APPROVAL_GATED_OPERATOR then
            (if non_read_tools tools = [] then Inl (FactoryError FactoryTemplate)
             else if unprotected_tools cf tools policies \<noteq> [] then Inl (FactoryError FactoryTemplate)
             else Inr ())
          else Inr ())"

section \<open>Resolving a configuration\<close>

definition definition_of ::
  "agent_config \<Rightarrow> runtime_config \<Rightarrow> bool \<Rightarrow> exc + agent_definition" where
  "definition_of cf limits activating =
     (let a = \<lparr>ag_identity = cf_identity cf, ag_goal = cf_goal cf,
               ag_supported_intents = cf_supported_intents cf,
               ag_supported_languages = cf_supported_languages cf,
               ag_prompt_ref = cf_prompt_ref cf, ag_skill_refs = cf_skill_refs cf,
               ag_tool_refs = cf_tool_refs cf, ag_policy_refs = cf_policy_refs cf,
               ag_provider_profile = cf_provider_profile cf, ag_runtime_limits = limits,
               ag_risk_level = cf_risk_level cf,
               ag_approval_requirements = cf_approval_requirements cf,
               ag_state_strategy = cf_state_strategy cf, ag_memory_strategy = cf_memory_strategy cf,
               ag_owner_id = cf_owner_id cf,
               ag_lifecycle = (if activating then Life_ACTIVE else Life_VALIDATED),
               ag_performance_metadata = cf_performance_metadata cf\<rparr>
      in if agent_definition_ok a then Inr a else Inl ValidationError)"

definition make_manifest ::
  "manifest_digest \<Rightarrow> agent_config \<Rightarrow> agent_definition \<Rightarrow> string \<Rightarrow> runtime_profile option \<Rightarrow>
   runtime_config \<Rightarrow> world \<Rightarrow> (exc + resolved_manifest) \<times> world" where
  "make_manifest digest cf a snapshot_id profile limits w =
     (let m = \<lparr>mf_manifest_id = agent_identity (ag_identity a), mf_manifest_digest = [],
               mf_source = cf, mf_agent = a, mf_prompt_ref = ag_prompt_ref a,
               mf_skill_refs = ag_skill_refs a, mf_tool_refs = ag_tool_refs a,
               mf_policy_refs = ag_policy_refs a, mf_provider_profile = cf_provider_profile cf,
               mf_runtime_profile = profile, mf_runtime_limits = limits,
               mf_registry_snapshot_id = snapshot_id, mf_state_strategy = cf_state_strategy cf,
               mf_memory_strategy = cf_memory_strategy cf, mf_template = cf_template cf,
               mf_resolved_at = 0\<rparr>
      in case digest (manifest_payload_of m) of
           Inl e \<Rightarrow> (Inl e, w)
         | Inr h \<Rightarrow>
             (case now w of (t, w1) \<Rightarrow>
                let m1 = m\<lparr>mf_manifest_digest := h, mf_resolved_at := t\<rparr>
                in (if resolved_manifest_ok m1 then Inr m1 else Inl ValidationError, w1)))"

text \<open>The components of a configuration, found and checked in the order of \<open>_resolve\<close>.\<close>

definition resolve_components ::
  "'w factory \<Rightarrow> bool \<Rightarrow> agent_config \<Rightarrow> 'w component_registries \<Rightarrow> exc + 'w resolved_components" where
  "resolve_components f activating cf g =
     bindE (resolve_provider (cf_provider_profile cf) (fa_providers f)) (\<lambda>provider.
     bindE (resolve_limits cf f) (\<lambda>(profile, limits).
     bindE (resolve_prompt_ref activating (cf_prompt_ref cf) g) (\<lambda>prompt.
     bindE (validate_context_budget prompt limits) (\<lambda>_.
     bindE (collect (resolve_skill_ref activating g) (cf_skill_refs cf)) (\<lambda>skills.
     bindE (collect (resolve_tool_ref activating g) (cf_tool_refs cf)) (\<lambda>tools.
     bindE (collect (resolve_policy_ref (fa_version_rank f) activating g) (cf_policy_refs cf)) (\<lambda>policies.
     bindE (definition_of cf limits activating) (\<lambda>a.
     bindE (as_dependency (check_compatibility g activating a)) (\<lambda>_.
     bindE (validate_template cf tools policies) (\<lambda>_.
     bindE (resolve_memory (cf_memory_strategy cf) f) (\<lambda>memory.
     bindE (resolve_state (cf_state_strategy cf) f) (\<lambda>store.
       Inr \<lparr>rsc_definition = a, rsc_provider = provider, rsc_runtime_profile = profile,
            rsc_runtime_limits = limits, rsc_prompt = prompt, rsc_skills = skills, rsc_tools = tools,
            rsc_policies = policies, rsc_memory = memory, rsc_store = store\<rparr>))))))))))))"

text \<open>\<open>_resolve\<close>: the components, a snapshot that already shows the new agent, and the manifest.\<close>

definition resolve_config ::
  "'w factory \<Rightarrow> bool \<Rightarrow> agent_config \<Rightarrow> 'w factory_state \<Rightarrow>
   (exc + ('w resolved_components \<times> resolved_manifest)) \<times> 'w factory_state" where
  "resolve_config f activating cf s =
     (case resolve_components f activating cf (fst_graph s) of
        Inl e \<Rightarrow> (Inl e, s)
      | Inr c \<Rightarrow>
          (case snapshot_agents (fa_version_rank f) (fa_snapshot_digest f) (\<not> activating)
                  [rsc_definition c] (fst_graph s) of
             (Inl e, g1) \<Rightarrow> (Inl e, s\<lparr>fst_graph := g1\<rparr>)
           | (Inr snapshot, g1) \<Rightarrow>
               (case make_manifest (fa_digest f) cf (rsc_definition c) (rsn_snapshot_id snapshot)
                       (rsc_runtime_profile c) (rsc_runtime_limits c) (fst_world s) of
                  (Inl e, w1) \<Rightarrow> (Inl e, s\<lparr>fst_graph := g1, fst_world := w1\<rparr>)
                | (Inr m, w1) \<Rightarrow> (Inr (c, m), s\<lparr>fst_graph := g1, fst_world := w1\<rparr>))))"

text \<open>\<open>validate\<close>: the manifest alone; nothing is registered and no runtime is built.\<close>

definition validate_config ::
  "'w factory \<Rightarrow> bool \<Rightarrow> agent_config \<Rightarrow> 'w factory_state \<Rightarrow> (exc + resolved_manifest) \<times> 'w factory_state" where
  "validate_config f activating cf s = bindS (resolve_config f activating cf s) (\<lambda>(c, m) s1. (Inr m, s1))"

section \<open>Building\<close>

text \<open>\<open>_runtime_execution_guard\<close>: new and resumed work needs a registered agent that still resolves.\<close>

definition execution_guard :: "'w factory \<Rightarrow> string \<Rightarrow> string \<Rightarrow> (bool, 'w) app_op" where
  "execution_guard f agent_id version w =
     (case resolve_agent agent_id (Some version) (fa_live f w) of
        Inl e \<Rightarrow> (Inl (if is_registry_error e then RuntimeAuthorizationError else e), w)
      | Inr _ \<Rightarrow> (Inr True, w))"

text \<open>The default permission broker allows an agent the tools it was resolved with.\<close>

definition default_engine :: "'w resolved_components \<Rightarrow> 'w policy_engine" where
  "default_engine c =
     \<lparr>pe_policies = rsc_policies c, pe_principal_tool_permissions = None,
      pe_principal_permissions = None,
      pe_agent_tool_allowlists =
        Some [(ag_agent_id (rsc_definition c), map td_tool_id (rsc_tools c))],
      pe_environment_constraints = [], pe_environment_tool_allowlists = None,
      pe_max_risk_by_environment = [], pe_hooks = []\<rparr>"

definition permission_port ::
  "'w factory \<Rightarrow> 'w resolved_components \<Rightarrow> 'w proposal \<Rightarrow> (permission_decision, 'w) app_op" where
  "permission_port f c =
     (case fa_permission f of
        Some p \<Rightarrow> p
      | None \<Rightarrow>
          (\<lambda>p w. case authorize (tv_sha256 (le_tool (fa_lib f))) (tv_dumps (le_tool (fa_lib f))) (default_engine c) p
                        (fa_engine_get f w) of
             (r, e) \<Rightarrow> (r, fa_engine_put f e w)))"

definition call_policy :: "'w factory \<Rightarrow> runtime_config \<Rightarrow> provider_operation \<Rightarrow> unit provider_policy" where
  "call_policy f limits =
     (case fa_call_policy f of
        Some p \<Rightarrow> p
      | None \<Rightarrow> (\<lambda>_. default_provider_policy (cfg_provider_timeout limits) (cfg_provider_max_attempts limits)
                     (cfg_provider_retry_backoff limits)))"

definition runtime_of :: "'w factory \<Rightarrow> 'w resolved_components \<Rightarrow> resolved_manifest \<Rightarrow> exc + 'w runtime" where
  "runtime_of f c m =
     mk_runtime (Some (ag_agent_id (rsc_definition c))) (Some (ag_version (rsc_definition c)))
       \<lparr>rd_lib = fa_lib f, rd_config = rsc_runtime_limits c, rd_prompt = Some (rsc_prompt c),
        rd_skills = rsc_skills c,
        rd_identity = \<lparr>rid_manifest_id = Some (mf_manifest_id m),
                       rid_manifest_digest = Some (mf_manifest_digest m),
                       rid_registry_snapshot_id = Some (mf_registry_snapshot_id m),
                       rid_prompt_ref = Some (mf_prompt_ref m), rid_skill_refs = mf_skill_refs m\<rparr>,
        rd_redactor = default_redactor, rd_cost_model = None, rd_bound = None,
        rd_guard = Some (execution_guard f), rd_permission = permission_port f c,
        rd_broker = fa_broker f, rd_approval_policy = fa_approval_policy f,
        rd_store = rsc_store c, rd_memory = rsc_memory c,
        rd_provider = (rsc_provider c)\<lparr>pv_policy := call_policy f (rsc_runtime_limits c)\<rparr>\<rparr>"

definition register_built ::
  "bool \<Rightarrow> agent_definition \<Rightarrow> 'w component_registries \<Rightarrow> (exc + unit) \<times> 'w component_registries" where
  "register_built activating a g =
     bindS (register_agent False a g) (\<lambda>_ g1.
       if activating then bindS (activate_agent (ag_agent_id a, ag_version a) g1) (\<lambda>_ g2. (Inr (), g2))
       else (Inr (), g1))"

definition build ::
  "'w factory \<Rightarrow> bool \<Rightarrow> bool \<Rightarrow> bool \<Rightarrow> agent_config \<Rightarrow> 'w factory_state \<Rightarrow>
   (exc + 'w built_agent) \<times> 'w factory_state" where
  "build f dry_run activating registering cf s =
     bindS (resolve_config f activating cf s) (\<lambda>(c, m) s1.
       case (if \<not> dry_run \<and> registering then register_built activating (rsc_definition c) (fst_graph s1)
             else (Inr (), fst_graph s1)) of
         (Inl e, g) \<Rightarrow> (Inl e, s1\<lparr>fst_graph := g\<rparr>)
       | (Inr _, g) \<Rightarrow>
           (let s2 = s1\<lparr>fst_graph := g\<rparr>;
                finish = (\<lambda>runtime. let b =
                  \<lparr>ba_manifest = m, ba_runtime = runtime, ba_registered = (\<not> dry_run \<and> registering),
                   ba_dry_run = dry_run,
                   ba_registry = (if runtime = None then None else Some (fa_live f)),
                   ba_authority = Some (authority_of m (rsc_definition c) (rsc_tools c) (rsc_runtime_limits c))\<rparr>
                  in (b, if runtime = None then s2
                         else s2\<lparr>fst_built := AList.update
                                (ag_agent_id (rsc_definition c), ag_version (rsc_definition c)) b (fst_built s2)\<rparr>))
            in if \<not> dry_run \<and> activating then
                 (case runtime_of f c m of
                    Inl e \<Rightarrow> (Inl e, s2)
                  | Inr d \<Rightarrow> (case finish (Some d) of (b, s3) \<Rightarrow> (Inr b, s3)))
               else (case finish None of (b, s3) \<Rightarrow> (Inr b, s3))))"

definition runtime_for ::
  "string \<Rightarrow> string \<Rightarrow> (string \<times> string, 'w built_agent) dict \<Rightarrow> exc + 'w built_agent" where
  "runtime_for agent_id version built =
     (case map_of built (agent_id, version) of
        None \<Rightarrow> Inl (FactoryError FactoryDependency)
      | Some b \<Rightarrow>
          if ba_runtime b = None then Inl (FactoryError FactoryDependency) else Inr b)"

end
