(* ===== verification/Composition.thy ===== *)
theory Composition
  imports Factory
begin

text \<open>
  \<open>composition.py\<close>: the delegation of a task from a parent execution to a registered child agent,
  with the intersection of their authorities, and the compositions that dispatch several children.

  Every built agent has its own runtime, with its traces and paused runs, while the tools, the
  application's state, the identifier factory and clock and the observability sinks are shared by
  the runtimes of a factory. The state of a composer therefore holds the shared part once and the
  private part of every runtime; a child runs on its private part with the shared one put in. A
  delegation that a tool handler makes in the middle of its parent's run is not modelled: the parent
  is known by its execution context only.
\<close>

section \<open>Contracts\<close>

record delegation_request =
  dr_delegation_id :: string
  dr_parent_execution_id :: string
  dr_parent_agent_id :: string
  dr_parent_agent_version :: string
  dr_child_agent_id :: string
  dr_child_agent_version :: string
  dr_input_text :: string
  dr_reason :: string
  dr_requested_tool_ids :: "string list"
  dr_requested_permissions :: "string list"
  dr_max_risk_level :: "risk_level option"

definition delegation_request_ok :: "delegation_request \<Rightarrow> bool" where
  "delegation_request_ok r \<longleftrightarrow>
     dr_delegation_id r \<noteq> [] \<and> dr_parent_execution_id r \<noteq> [] \<and> dr_parent_agent_id r \<noteq> [] \<and>
     dr_parent_agent_version r \<noteq> [] \<and> dr_child_agent_id r \<noteq> [] \<and> dr_child_agent_version r \<noteq> [] \<and>
     dr_input_text r \<noteq> [] \<and> dr_reason r \<noteq> [] \<and>
     (\<forall>i \<in> set (dr_requested_tool_ids r). \<not> blank i) \<and> distinct (dr_requested_tool_ids r) \<and>
     (\<forall>p \<in> set (dr_requested_permissions r). \<not> blank p) \<and> distinct (dr_requested_permissions r)"

record delegated_context =
  dx_delegation_id :: string
  dx_correlation_id :: string
  dx_parent_execution_id :: string
  dx_parent_agent_id :: string
  dx_parent_agent_version :: string
  dx_child_execution_id :: string
  dx_child_agent_id :: string
  dx_child_agent_version :: string
  dx_principal :: principal_context
  dx_authorized_tool_ids :: "string list"
  dx_authorized_tool_versions :: "string list"
  dx_granted_permissions :: "string list"
  dx_max_steps :: int
  dx_max_risk_level :: risk_level
  dx_delegation_depth :: int
  dx_delegation_path :: "string list"

definition delegated_context_ok :: "delegated_context \<Rightarrow> bool" where
  "delegated_context_ok x \<longleftrightarrow>
     dx_delegation_id x \<noteq> [] \<and> dx_correlation_id x \<noteq> [] \<and> dx_parent_execution_id x \<noteq> [] \<and>
     dx_parent_agent_id x \<noteq> [] \<and> dx_parent_agent_version x \<noteq> [] \<and> dx_child_execution_id x \<noteq> [] \<and>
     dx_child_agent_id x \<noteq> [] \<and> dx_child_agent_version x \<noteq> [] \<and>
     1 \<le> dx_max_steps x \<and> dx_max_steps x \<le> 100 \<and>
     1 \<le> dx_delegation_depth x \<and> dx_delegation_depth x \<le> 100 \<and> distinct (dx_delegation_path x)"

record delegation_result =
  dlr_delegation_id :: string
  dlr_parent_execution_id :: string
  dlr_child_execution_id :: string
  dlr_correlation_id :: string
  dlr_delegation_depth :: int
  dlr_context :: delegated_context
  dlr_outcome :: agent_outcome
  dlr_created_at :: time

record composition_step =
  cst_step_id :: string
  cst_agent_id :: string
  cst_agent_version :: string

record composition_definition =
  cd_composition_id :: string
  cd_version :: string
  cd_pattern :: composition_pattern
  cd_steps :: "composition_step list"
  cd_owner_id :: string

definition composition_definition_ok :: "composition_definition \<Rightarrow> bool" where
  "composition_definition_ok d \<longleftrightarrow>
     slug_ok (cd_composition_id d) \<and> cd_version d \<noteq> [] \<and> cd_steps d \<noteq> [] \<and> cd_owner_id d \<noteq> [] \<and>
     (\<forall>s \<in> set (cd_steps d). cst_step_id s \<noteq> [] \<and> cst_agent_id s \<noteq> [] \<and> cst_agent_version s \<noteq> []) \<and>
     distinct (map cst_step_id (cd_steps d))"

record composition_result =
  csr_composition_id :: string
  csr_composition_version :: string
  csr_pattern :: composition_pattern
  csr_parent_execution_id :: string
  csr_correlation_id :: string
  csr_outcomes :: "agent_outcome list"
  csr_final_outcome :: agent_outcome
  csr_created_at :: time

section \<open>State\<close>

record 'w composer =
  co_factory :: "'w factory"
  co_max_depth :: int

definition composer_ok :: "'w composer \<Rightarrow> bool" where
  "composer_ok c \<longleftrightarrow> 1 \<le> co_max_depth c \<and> co_max_depth c \<le> 100"

record 'w fleet =
  fl_shared :: "'w runtime_state"
  fl_own :: "(string \<times> string, 'w runtime_state) dict"
  fl_built :: "(string \<times> string, 'w built_agent) dict"
  fl_world :: world
  fl_delegation_ids :: "(string, string list) dict"
  fl_child_executions :: "string list"
  fl_child_states :: "string list"
  fl_identity_counter :: nat
  fl_composition_counter :: nat

text \<open>Running a child: on its own traces and paused runs, and on what the runtimes share.\<close>

definition join_runtime :: "'w runtime_state \<Rightarrow> 'w runtime_state \<Rightarrow> 'w runtime_state" where
  "join_runtime shared own =
     own\<lparr>rs_tools := rs_tools shared, rs_world := rs_world shared, rs_audit := rs_audit shared,
         rs_sink := rs_sink shared\<rparr>"

definition fresh_runtime :: "'w runtime_state \<Rightarrow> 'w runtime_state" where
  "fresh_runtime shared =
     shared\<lparr>rs_traces := [], rs_active := None, rs_calls := [], rs_pending := [], rs_consumed := []\<rparr>"

definition in_runtime :: "string \<times> string \<Rightarrow> ('a, 'w) rt \<Rightarrow> ('a, 'w fleet) act" where
  "in_runtime k m s =
     (let own = (case map_of (fl_own s) k of None \<Rightarrow> fresh_runtime (fl_shared s) | Some o1 \<Rightarrow> o1)
      in case m (join_runtime (fl_shared s) own) of
           None \<Rightarrow> None
         | Some (r, t) \<Rightarrow>
             Some (r, s\<lparr>fl_shared := join_runtime t (fl_shared s), fl_own := AList.update k t (fl_own s)\<rparr>))"

definition fleet_id :: "string \<Rightarrow> (string, 'w fleet) act" where
  "fleet_id p = lift_op (\<lambda>s. case new_id p (fl_world s) of (i, w) \<Rightarrow> (Inr i, s\<lparr>fl_world := w\<rparr>))"

definition fleet_clock :: "(time, 'w fleet) act" where
  "fleet_clock = lift_op (\<lambda>s. case now (fl_world s) of (t, w) \<Rightarrow> (Inr t, s\<lparr>fl_world := w\<rparr>))"

section \<open>The ceilings of a delegation\<close>

definition validate_parent_request :: "execution_context \<Rightarrow> delegation_request \<Rightarrow> exc + unit" where
  "validate_parent_request parent r =
     bindE (require (dr_parent_execution_id r = ec_execution_id parent) (DelegationError DelegationAuthority)) (\<lambda>_.
     bindE (require (dr_parent_agent_id r = ec_agent_id parent \<and> dr_parent_agent_version r = ec_agent_version parent)
        (DelegationError DelegationAuthority)) (\<lambda>_.
     bindE (require (\<not> blank (dr_input_text r)) (DelegationError DelegationBase)) (\<lambda>_.
     bindE (require (set (dr_requested_permissions r) \<subseteq> set (ec_granted_permissions parent))
        (DelegationError DelegationAuthority)) (\<lambda>_.
     require (case dr_max_risk_level r of None \<Rightarrow> True | Some m \<Rightarrow> \<not> risk_exceeds m (ec_max_risk_level parent))
        (DelegationError DelegationAuthority)))))"

definition parent_path :: "execution_context \<Rightarrow> string list" where
  "parent_path parent =
     (let identity = tool_reference (ec_agent_id parent) (ec_agent_version parent);
          path = ec_delegation_path parent
      in if path = [] then [identity] else if identity \<notin> set path then path @ [identity] else path)"

definition tool_ceiling ::
  "execution_context \<Rightarrow> manifest_authority \<Rightarrow> delegation_request \<Rightarrow> exc + (string list \<times> string list)" where
  "tool_ceiling parent u r =
     (let references = first_occurrences (mau_allowed_tool_versions u);
          child_ids = map referenced_id references;
          requested = dr_requested_tool_ids r
      in if \<not> set requested \<subseteq> set child_ids then Inl (DelegationError DelegationAuthority)
         else if \<not> set requested \<subseteq> set (ec_authorized_tool_ids parent)
         then Inl (DelegationError DelegationAuthority)
         else
           (let selected = (if requested \<noteq> [] then requested
                            else filter (\<lambda>i. i \<in> set (ec_authorized_tool_ids parent)) child_ids);
                exact = sort (filter (\<lambda>x. referenced_id x \<in> set selected \<and>
                                          x \<in> set (ec_authorized_tool_versions parent)) references)
            in if selected \<noteq> [] \<and> ec_authorized_tool_versions parent = []
               then Inl (DelegationError DelegationAuthority)
               else if selected \<noteq> [] \<and> exact = [] then Inl (DelegationError DelegationAuthority)
               else Inr (sort (remdups (map referenced_id exact)), exact)))"

definition permission_ceiling :: "execution_context \<Rightarrow> delegation_request \<Rightarrow> string list" where
  "permission_ceiling parent r =
     (if dr_requested_permissions r \<noteq> [] then dr_requested_permissions r else ec_granted_permissions parent)"

definition validate_tool_permissions ::
  "manifest_authority \<Rightarrow> string list \<Rightarrow> string list \<Rightarrow> exc + unit" where
  "validate_tool_permissions u versions granted =
     require (\<forall>(reference, permissions) \<in> set (mau_tool_permissions u).
                reference \<in> set versions \<longrightarrow> set permissions \<subseteq> set granted)
       (DelegationError DelegationAuthority)"

text \<open>The minimum of the three risk levels; the parent's is checked against the other two before.\<close>

definition risk_ceiling ::
  "execution_context \<Rightarrow> manifest_authority \<Rightarrow> delegation_request \<Rightarrow> exc + risk_level" where
  "risk_ceiling parent u r =
     (let child = mau_risk_level u;
          requested = (case dr_max_risk_level r of None \<Rightarrow> child | Some m \<Rightarrow> m)
      in if risk_exceeds child (ec_max_risk_level parent) then Inl (DelegationError DelegationAuthority)
         else if risk_exceeds requested (ec_max_risk_level parent)
         then Inl (DelegationError DelegationAuthority)
         else Inr (min (min child requested) (ec_max_risk_level parent)))"

section \<open>Delegation\<close>

text \<open>The child must be registered and active, and built; any other answer is one error.\<close>

definition find_child :: "'w composer \<Rightarrow> delegation_request \<Rightarrow> 'w fleet \<Rightarrow> exc + 'w built_agent" where
  "find_child c r s =
     (case bindE (resolve_agent (dr_child_agent_id r) (Some (dr_child_agent_version r))
                    (fa_live (co_factory c) (xs_app (rs_tools (fl_shared s)))))
             (\<lambda>_. runtime_for (dr_child_agent_id r) (dr_child_agent_version r) (fl_built s)) of
        Inl e \<Rightarrow>
          Inl (if is_registry_error e \<or> e = FactoryError FactoryDependency
               then DelegationError DelegationAuthority else e)
      | Inr b \<Rightarrow> Inr b)"

text \<open>
  The identities of a child run, under the identity lock: the delegation identifier is used up even
  when one of the generated identifiers then turns out to be taken.
\<close>

definition claim_delegation :: "string \<Rightarrow> string \<Rightarrow> (unit, 'w fleet) act" where
  "claim_delegation execution_id delegation_id s =
     (let used = (case map_of (fl_delegation_ids s) execution_id of None \<Rightarrow> [] | Some ds \<Rightarrow> ds)
      in if delegation_id \<in> set used
         then Some (Inl (DelegationError DelegationBase),
                s\<lparr>fl_delegation_ids := AList.update execution_id used (fl_delegation_ids s)\<rparr>)
         else Some (Inr (),
                s\<lparr>fl_delegation_ids := AList.update execution_id (delegation_id # used) (fl_delegation_ids s),
                  fl_identity_counter := Suc (fl_identity_counter s)\<rparr>))"

definition child_identities :: "(string \<times> string, 'w fleet) act" where
  "child_identities =
     bind_act (read_state (\<lambda>s. str_nat (fl_identity_counter s))) (\<lambda>suffix.
     bind_act (fleet_id ''child_execution'') (\<lambda>i.
     bind_act (fleet_id ''child_state'') (\<lambda>j.
       let execution_id = i @ ''-'' @ suffix; state_id = j @ ''-'' @ suffix in
       bind_act (read_state (\<lambda>s. (execution_id \<in> set (fl_child_executions s), state_id \<in> set (fl_child_states s))))
         (\<lambda>(execution_taken, state_taken).
            if execution_taken then fail (DelegationError DelegationBase)
            else if state_taken then fail (DelegationError DelegationBase)
            else and_then (change_state (\<lambda>s. s\<lparr>fl_child_executions := execution_id # fl_child_executions s,
                                               fl_child_states := state_id # fl_child_states s\<rparr>))
                   (ret (execution_id, state_id))))))"

definition delegated_to ::
  "execution_context \<Rightarrow> delegation_request \<Rightarrow> manifest_authority \<Rightarrow> string list \<Rightarrow> string list \<Rightarrow>
   risk_level \<Rightarrow> string list \<Rightarrow> string \<Rightarrow> delegated_context" where
  "delegated_to parent r u ids versions risk path execution_id =
     \<lparr>dx_delegation_id = dr_delegation_id r, dx_correlation_id = ec_correlation_id parent,
      dx_parent_execution_id = ec_execution_id parent, dx_parent_agent_id = ec_agent_id parent,
      dx_parent_agent_version = ec_agent_version parent, dx_child_execution_id = execution_id,
      dx_child_agent_id = mau_agent_id u, dx_child_agent_version = mau_agent_version u,
      dx_principal = ec_principal parent, dx_authorized_tool_ids = ids,
      dx_authorized_tool_versions = versions, dx_granted_permissions = permission_ceiling parent r,
      dx_max_steps = min (ec_max_steps parent) (mau_max_plan_steps u), dx_max_risk_level = risk,
      dx_delegation_depth = ec_delegation_depth parent + 1, dx_delegation_path = path\<rparr>"

definition child_call :: "delegated_context \<Rightarrow> string \<Rightarrow> string \<Rightarrow> built_call" where
  "child_call x text_in state_id =
     \<lparr>bc_tool_ids = Some (dx_authorized_tool_ids x), bc_tool_versions = Some (dx_authorized_tool_versions x),
      bc_max_risk_level = Some (dx_max_risk_level x), bc_names_identity = False,
      bc_rest =
        \<lparr>ra_principal = dx_principal x, ra_input_text = text_in, ra_agent_id = [], ra_agent_version = [],
         ra_authorized_tool_ids = [], ra_authorized_tool_versions = [],
         ra_granted_permissions = dx_granted_permissions x, ra_approved_action_digests = [],
         ra_state_id = Some state_id, ra_execution_id = Some (dx_child_execution_id x),
         ra_environment = None, ra_max_risk_level = None, ra_max_steps = Some (dx_max_steps x),
         ra_correlation_id = Some (dx_correlation_id x),
         ra_parent_execution_id = Some (dx_parent_execution_id x),
         ra_delegation_id = Some (dx_delegation_id x), ra_delegation_depth = dx_delegation_depth x,
         ra_delegation_path = dx_delegation_path x, ra_event_id = None, ra_trigger_id = None,
         ra_causation_id = None, ra_attempt = 0, ra_resource = None, ra_timeout = None,
         ra_cancellation_event = False, ra_cancel_event = False, ra_plan_override = None,
         ra_composition_override = None, ra_initial_calls = [], ra_initial_results = [],
         ra_initial_risk = Risk_LOW, ra_allow_existing = False\<rparr>\<rparr>"

definition run_child ::
  "'w composer \<Rightarrow> execution_context \<Rightarrow> delegation_request \<Rightarrow> 'w built_agent \<Rightarrow> delegated_context \<Rightarrow> string \<Rightarrow>
   (delegation_result, 'w fleet) act" where
  "run_child c parent r b x state_id =
     bind_act (in_runtime (dr_child_agent_id r, dr_child_agent_version r)
         (built_execute (fa_digest (co_factory c)) b (child_call x (dr_input_text r) state_id))) (\<lambda>outcome.
     bind_act fleet_clock (\<lambda>t.
       ret \<lparr>dlr_delegation_id = dr_delegation_id r, dlr_parent_execution_id = ec_execution_id parent,
            dlr_child_execution_id = dx_child_execution_id x, dlr_correlation_id = dx_correlation_id x,
            dlr_delegation_depth = dx_delegation_depth x, dlr_context = x, dlr_outcome = outcome,
            dlr_created_at = t\<rparr>))"

definition delegate ::
  "'w composer \<Rightarrow> execution_context \<Rightarrow> delegation_request \<Rightarrow> (delegation_result, 'w fleet) act" where
  "delegate c parent r =
     and_then (lift_result (validate_parent_request parent r))
       (if ec_delegation_depth parent \<ge> co_max_depth c then fail (DelegationError DelegationDepth)
        else
          (let path = parent_path parent;
               child = tool_reference (dr_child_agent_id r) (dr_child_agent_version r)
           in if child \<in> set path then fail (DelegationError DelegationCycle)
              else
                bind_act (read_state (find_child c r)) (\<lambda>found.
                bind_act (lift_result found) (\<lambda>b.
                bind_act (lift_result (require_authority b)) (\<lambda>u.
                bind_act (lift_result (tool_ceiling parent u r)) (\<lambda>(ids, versions).
                and_then (lift_result (validate_tool_permissions u versions (permission_ceiling parent r)))
                (bind_act (lift_result (risk_ceiling parent u r)) (\<lambda>risk.
                and_then (claim_delegation (ec_execution_id parent) (dr_delegation_id r))
                (bind_act child_identities (\<lambda>(execution_id, state_id).
                bind_act (lift_result (constructed delegated_context_ok
                    (delegated_to parent r u ids versions risk (path @ [child]) execution_id))) (\<lambda>x.
                run_child c parent r b x state_id)))))))))))"

section \<open>Composition\<close>

definition steps_for_definition :: "composition_definition \<Rightarrow> string option \<Rightarrow> exc + composition_step list" where
  "steps_for_definition d selected =
     (let chosen = (\<lambda>i. filter (\<lambda>s. cst_step_id s = i) (cd_steps d)) in
      if (case selected of None \<Rightarrow> False | Some i \<Rightarrow> chosen i = []) then Inl (DelegationError Composition)
      else if cd_pattern d \<in> {Pattern_ROUTER, Pattern_SPECIALIST} then
        (if selected = None \<and> length (cd_steps d) \<noteq> 1 then Inl (DelegationError Composition)
         else Inr [last (chosen (or_else selected (cst_step_id (hd (cd_steps d)))))])
      else if selected \<noteq> None then Inl (DelegationError Composition)
      else Inr (cd_steps d))"

definition step_request ::
  "execution_context \<Rightarrow> composition_definition \<Rightarrow> composition_step \<Rightarrow> string \<Rightarrow> string \<Rightarrow> delegation_request" where
  "step_request parent d step text_in delegation_id =
     \<lparr>dr_delegation_id = delegation_id, dr_parent_execution_id = ec_execution_id parent,
      dr_parent_agent_id = ec_agent_id parent, dr_parent_agent_version = ec_agent_version parent,
      dr_child_agent_id = cst_agent_id step, dr_child_agent_version = cst_agent_version step,
      dr_input_text = text_in,
      dr_reason = ''composition:'' @ cd_composition_id d @ '':'' @ cst_step_id step,
      dr_requested_tool_ids = [], dr_requested_permissions = [],
      dr_max_risk_level = Some (ec_max_risk_level parent)\<rparr>"

definition delegation_identity :: "composition_step \<Rightarrow> (string, 'w fleet) act" where
  "delegation_identity step =
     and_then (change_state (\<lambda>s. s\<lparr>fl_composition_counter := Suc (fl_composition_counter s)\<rparr>))
       (bind_act (fleet_id (''delegation_'' @ cst_step_id step)) (\<lambda>i.
          read_state (\<lambda>s. i @ ''-'' @ str_nat (fl_composition_counter s))))"

fun compose_steps ::
  "'w composer \<Rightarrow> execution_context \<Rightarrow> composition_definition \<Rightarrow> composition_step list \<Rightarrow> string \<Rightarrow>
   (agent_outcome list, 'w fleet) act" where
  "compose_steps c parent d [] text_in = ret []"
| "compose_steps c parent d (step # steps) text_in =
     bind_act (delegation_identity step) (\<lambda>delegation_id.
     bind_act (lift_result (constructed delegation_request_ok
         (step_request parent d step text_in delegation_id))) (\<lambda>r.
     bind_act (delegate c parent r) (\<lambda>result.
       let outcome = dlr_outcome result in
       if cd_pattern d = Pattern_SEQUENTIAL \<and> ao_status outcome \<noteq> Outcome_COMPLETED then ret [outcome]
       else
         bind_act (compose_steps c parent d steps
             (if cd_pattern d = Pattern_SEQUENTIAL then ao_summary outcome else text_in)) (\<lambda>outcomes.
           ret (outcome # outcomes)))))"

fun final_outcome :: "agent_outcome list \<Rightarrow> agent_outcome" where
  "final_outcome [] = undefined"
| "final_outcome [o1] = o1"
| "final_outcome (o1 # os) = (if ao_status o1 \<noteq> Outcome_COMPLETED then o1 else final_outcome os)"

definition compose ::
  "'w composer \<Rightarrow> execution_context \<Rightarrow> composition_definition \<Rightarrow> string \<Rightarrow> string option \<Rightarrow>
   (composition_result, 'w fleet) act" where
  "compose c parent d text_in selected =
     (if blank text_in then fail (DelegationError Composition)
      else
        bind_act (lift_result (steps_for_definition d selected)) (\<lambda>steps.
        bind_act (compose_steps c parent d steps text_in) (\<lambda>outcomes.
          if outcomes = [] then fail (DelegationError Composition)
          else
            bind_act fleet_clock (\<lambda>t.
              ret \<lparr>csr_composition_id = cd_composition_id d, csr_composition_version = cd_version d,
                   csr_pattern = cd_pattern d, csr_parent_execution_id = ec_execution_id parent,
                   csr_correlation_id = ec_correlation_id parent, csr_outcomes = outcomes,
                   csr_final_outcome = final_outcome outcomes, csr_created_at = t\<rparr>))))"

end
