(* ===== verification/Tool_Graph.thy ===== *)
theory Tool_Graph
  imports Component_Registries
begin

text \<open>
  What the transitive check of tool dependencies decides. The reference definition speaks of the
  dependency relation alone: every tool a start tool depends on, directly or not, is registered and
  usable, and none of the tools it reaches depends on itself. The depth-first search of the code,
  with its two sets of nodes, accepts a registered tool exactly when that holds.
\<close>

definition tool_edge :: "'w tool_registry \<Rightarrow> string \<times> string \<Rightarrow> string \<times> string \<Rightarrow> bool" where
  "tool_edge tools k k' \<longleftrightarrow>
     (\<exists>t. map_of (tg_tools tools) k = Some t \<and> k' \<in> reference_key ` set (td_dependencies t))"

definition usable_at ::
  "'w tool_registry \<Rightarrow> agent_lifecycle_status list \<Rightarrow> risk_level option \<Rightarrow> string \<times> string \<Rightarrow> bool" where
  "usable_at tools statuses maximum_risk k \<longleftrightarrow>
     (\<exists>t. map_of (tg_tools tools) k = Some t \<and> td_lifecycle t \<in> set statuses \<and>
        (case maximum_risk of None \<Rightarrow> True | Some m \<Rightarrow> td_risk_level t \<le> m))"

lemma usable_at_eq:
  "usable_at tools statuses maximum_risk k \<longleftrightarrow>
     (\<exists>t. map_of (tg_tools tools) k = Some t \<and> usable_tool statuses maximum_risk t)"
  by (auto simp: usable_at_def usable_tool_def not_less split: option.splits)

definition sound_tool ::
  "'w tool_registry \<Rightarrow> agent_lifecycle_status list \<Rightarrow> risk_level option \<Rightarrow> string \<times> string \<Rightarrow> bool" where
  "sound_tool tools statuses maximum_risk k \<longleftrightarrow>
     (\<forall>k'. (tool_edge tools)\<^sup>+\<^sup>+ k k' \<longrightarrow> usable_at tools statuses maximum_risk k') \<and>
     (\<forall>k'. (tool_edge tools)\<^sup>*\<^sup>* k k' \<longrightarrow> \<not> (tool_edge tools)\<^sup>+\<^sup>+ k' k')"

text \<open>A registry stores each tool under its own identity and version.\<close>

definition tools_keyed :: "'w tool_registry \<Rightarrow> bool" where
  "tools_keyed tools \<longleftrightarrow> (\<forall>k t. map_of (tg_tools tools) k = Some t \<longrightarrow> tool_key t = k)"

lemma tools_keyedD: "tools_keyed tools \<Longrightarrow> map_of (tg_tools tools) k = Some t \<Longrightarrow> tool_key t = k"
  unfolding tools_keyed_def by blast

lemma get_tool_for_reference_eq:
  "get_tool_for_reference tools r =
     (case map_of (tg_tools tools) (reference_key r) of
        None \<Rightarrow> Inl (RegistryError IncompatibleRegistration) | Some t \<Rightarrow> Inr t)"
  by (simp add: get_tool_for_reference_def get_tool_def reference_key_def split: option.splits)

lemma sound_tool_edge:
  "sound_tool tools sts mx k \<Longrightarrow> tool_edge tools k k' \<Longrightarrow>
   sound_tool tools sts mx k' \<and> usable_at tools sts mx k'"
  unfolding sound_tool_def
  by (meson converse_rtranclp_into_rtranclp tranclp.r_into_trancl tranclp_into_tranclp2
      tranclp_rtranclp_tranclp tranclp_trans)

lemma sound_toolI:
  assumes "\<And>k'. tool_edge tools k k' \<Longrightarrow> usable_at tools sts mx k' \<and> sound_tool tools sts mx k'"
    and "\<not> (tool_edge tools)\<^sup>+\<^sup>+ k k"
  shows "sound_tool tools sts mx k"
  unfolding sound_tool_def
proof (intro conjI allI impI)
  fix k' assume "(tool_edge tools)\<^sup>+\<^sup>+ k k'"
  then show "usable_at tools sts mx k'"
    using assms(1) unfolding sound_tool_def by (blast elim: converse_tranclpE)
next
  fix k' assume "(tool_edge tools)\<^sup>*\<^sup>* k k'"
  then show "\<not> (tool_edge tools)\<^sup>+\<^sup>+ k' k'"
    using assms unfolding sound_tool_def by (blast elim: converse_rtranclpE)
qed

section \<open>The search accepts only sound tools\<close>

text \<open>A set of finished nodes: sound, and closed under dependencies.\<close>

definition finished :: "'w tool_registry \<Rightarrow> agent_lifecycle_status list \<Rightarrow> risk_level option \<Rightarrow>
  (string \<times> string) set \<Rightarrow> bool" where
  "finished tools statuses maximum_risk V \<longleftrightarrow>
     (\<forall>k \<in> V. sound_tool tools statuses maximum_risk k \<and> (\<forall>k'. tool_edge tools k k' \<longrightarrow> k' \<in> V))"

lemma finished_closed: "finished tools sts mx V \<Longrightarrow> (tool_edge tools)\<^sup>*\<^sup>* k k' \<Longrightarrow> k \<in> V \<Longrightarrow> k' \<in> V"
  by (rotate_tac, induction rule: converse_rtranclp_induct) (auto simp only: finished_def)

lemma finished_insert:
  assumes keyed: "map_of (tg_tools tools) (tool_key t) = Some t" and fin: "finished tools sts mx V"
    and deps: "\<forall>r \<in> set (td_dependencies t). reference_key r \<in> V \<and> usable_at tools sts mx (reference_key r)"
    and new: "tool_key t \<notin> V"
  shows "finished tools sts mx (insert (tool_key t) V)"
proof -
  have edges: "tool_edge tools (tool_key t) k' \<Longrightarrow> k' \<in> V \<and> usable_at tools sts mx k'" for k'
    using keyed deps by (auto simp: tool_edge_def)
  have "\<not> (tool_edge tools)\<^sup>+\<^sup>+ (tool_key t) (tool_key t)"
    using edges finished_closed [OF fin] new by (blast dest: tranclpD)
  with edges fin have "sound_tool tools sts mx (tool_key t)"
    by (intro sound_toolI) (auto simp: finished_def)
  with edges fin show ?thesis by (auto simp: finished_def)
qed

lemma visit_finished:
  shows "visit_tool tools sts mx t visiting visited = Inr V \<Longrightarrow> tools_keyed tools \<Longrightarrow>
      map_of (tg_tools tools) (tool_key t) = Some t \<Longrightarrow> finished tools sts mx (set visited) \<Longrightarrow>
      set visited \<inter> set visiting = {} \<Longrightarrow>
      set visited \<subseteq> set V \<and> finished tools sts mx (set V) \<and> set V \<inter> set visiting = {} \<and> tool_key t \<in> set V"
    and "visit_references tools sts mx rs visiting visited = Inr V \<Longrightarrow> tools_keyed tools \<Longrightarrow>
      finished tools sts mx (set visited) \<Longrightarrow> set visited \<inter> set visiting = {} \<Longrightarrow>
      set visited \<subseteq> set V \<and> finished tools sts mx (set V) \<and> set V \<inter> set visiting = {} \<and>
      (\<forall>r \<in> set rs. reference_key r \<in> set V \<and> usable_at tools sts mx (reference_key r))"
proof (induction tools sts mx t visiting visited and tools sts mx rs visiting visited
    arbitrary: V and V rule: visit_tool_visit_references.induct)
  case (1 tools sts mx t visiting visited)
  show ?case
  proof (cases "tool_key t \<in> set visited")
    case True
    with 1 show ?thesis by (auto split: if_splits)
  next
    case False
    with 1(2) obtain V1 where
      new: "tool_key t \<notin> set visiting" and
      run: "visit_references tools sts mx (td_dependencies t) (tool_key t # visiting) visited = Inr V1" and
      V: "V = tool_key t # V1"
      by (auto split: if_splits sum.splits)
    from 1(1) [OF new False run 1(3) 1(5)] False 1(6)
    have V1: "set visited \<subseteq> set V1" "finished tools sts mx (set V1)" "set V1 \<inter> set (tool_key t # visiting) = {}"
      "\<forall>r \<in> set (td_dependencies t). reference_key r \<in> set V1 \<and> usable_at tools sts mx (reference_key r)"
      by auto
    from finished_insert [OF 1(4) V1(2,4)] V1 new V show ?thesis by auto
  qed
next
  case (3 tools sts mx r rs visiting visited)
  from 3(3) obtain t V1 where
    t: "get_tool_for_reference tools r = Inr t" "usable_tool sts mx t" and
    first: "visit_tool tools sts mx t visiting visited = Inr V1" and
    rest: "visit_references tools sts mx rs visiting V1 = Inr V"
    by (auto split: sum.splits if_splits)
  from t(1) 3(4) have at: "map_of (tg_tools tools) (reference_key r) = Some t" "tool_key t = reference_key r"
    by (auto simp: get_tool_for_reference_eq intro: tools_keyedD split: option.splits)
  from 3(1) [OF t(1) _ first 3(4) _ 3(5,6)] at t(2)
  have V1: "set visited \<subseteq> set V1" "finished tools sts mx (set V1)" "set V1 \<inter> set visiting = {}"
    "reference_key r \<in> set V1" by auto
  from 3(2) [OF t(1) _ first rest 3(4) V1(2,3)] V1 t(2) at show ?case by (auto simp: usable_at_eq)
qed auto

section \<open>The search accepts every sound tool\<close>

lemma visit_sound:
  shows "tools_keyed tools \<Longrightarrow> map_of (tg_tools tools) (tool_key t) = Some t \<Longrightarrow>
      sound_tool tools sts mx (tool_key t) \<Longrightarrow>
      \<forall>p \<in> set visiting. (tool_edge tools)\<^sup>+\<^sup>+ p (tool_key t) \<Longrightarrow>
      \<exists>V. visit_tool tools sts mx t visiting visited = Inr V"
    and "tools_keyed tools \<Longrightarrow>
      \<forall>r \<in> set rs. sound_tool tools sts mx (reference_key r) \<and> usable_at tools sts mx (reference_key r) \<and>
        (\<forall>p \<in> set visiting. (tool_edge tools)\<^sup>+\<^sup>+ p (reference_key r)) \<Longrightarrow>
      \<exists>V. visit_references tools sts mx rs visiting visited = Inr V"
proof (induction tools sts mx t visiting visited and tools sts mx rs visiting visited
    rule: visit_tool_visit_references.induct)
  case (1 tools sts mx t visiting visited)
  have new: "tool_key t \<notin> set visiting"
    using 1(4,5) unfolding sound_tool_def by blast
  show ?case
  proof (cases "tool_key t \<in> set visited")
    case False
    have edge: "tool_edge tools (tool_key t) (reference_key r)" if "r \<in> set (td_dependencies t)" for r
      using that 1(3) by (auto simp: tool_edge_def)
    have "\<forall>r \<in> set (td_dependencies t). sound_tool tools sts mx (reference_key r) \<and>
        usable_at tools sts mx (reference_key r) \<and>
        (\<forall>p \<in> set (tool_key t # visiting). (tool_edge tools)\<^sup>+\<^sup>+ p (reference_key r))"
      using sound_tool_edge [OF 1(4) edge] 1(5) edge by (auto intro: tranclp.intros)
    from 1(1) [OF new False 1(2) this] show ?thesis using new False by auto
  qed (use new in simp)
next
  case (3 tools sts mx r rs visiting visited)
  then obtain t where t: "map_of (tg_tools tools) (reference_key r) = Some t" "usable_tool sts mx t"
    by (auto simp: usable_at_eq)
  then have got: "get_tool_for_reference tools r = Inr t" "tool_key t = reference_key r"
    using tools_keyedD [OF 3(3)] by (auto simp: get_tool_for_reference_eq)
  from 3(1) [OF got(1)] 3(3,4) t got(2) obtain V1 where
    V1: "visit_tool tools sts mx t visiting visited = Inr V1" by auto
  from 3(2) [OF got(1) _ V1] 3(3,4) t(2) V1 got(1) show ?case by auto
qed auto

lemma validate_tool_dependencies_iff:
  assumes "tools_keyed tools" and "map_of (tg_tools tools) k = Some t"
  shows "validate_tool_dependencies tools sts mx t = Inr () \<longleftrightarrow> sound_tool tools sts mx k"
proof -
  from assms have k: "k = tool_key t" by (simp add: tools_keyedD)
  show ?thesis
  proof
    assume "validate_tool_dependencies tools sts mx t = Inr ()"
    then obtain V where "visit_tool tools sts mx t [] [] = Inr V"
      by (auto simp: validate_tool_dependencies_def bindE_Inr_iff)
    from visit_finished(1) [OF this assms(1)] assms k show "sound_tool tools sts mx k"
      by (auto simp: finished_def)
  next
    assume "sound_tool tools sts mx k"
    with visit_sound(1) [OF assms(1), of t sts mx "[]" "[]"] assms k show
      "validate_tool_dependencies tools sts mx t = Inr ()"
      by (auto simp: validate_tool_dependencies_def)
  qed
qed

lemma visit_error:
  shows "visit_tool tools sts mx t visiting visited = Inl e \<Longrightarrow> e = RegistryError IncompatibleRegistration"
    and "visit_references tools sts mx rs visiting visited = Inl e \<Longrightarrow> e = RegistryError IncompatibleRegistration"
proof (induction tools sts mx t visiting visited and tools sts mx rs visiting visited
    rule: visit_tool_visit_references.induct)
  case (1 tools sts mx t visiting visited)
  from 1(2) show ?case
    by (auto split: if_splits sum.splits dest: 1(1))
next
  case (3 tools sts mx r rs visiting visited)
  show ?case
  proof (cases "get_tool_for_reference tools r")
    case (Inl e')
    with 3(3) show ?thesis by (auto simp: get_tool_for_reference_eq split: option.splits)
  next
    case (Inr t)
    note IH = 3(1) [OF Inr] 3(2) [OF Inr]
    show ?thesis
    proof (cases "usable_tool sts mx t")
      case True
      with 3(3) Inr IH show ?thesis
        by (cases "visit_tool tools sts mx t visiting visited") (auto simp del: visit_tool.simps)
    qed (use 3(3) Inr in simp)
  qed
qed auto

lemma validate_tool_dependencies_eq:
  assumes "tools_keyed tools" and "map_of (tg_tools tools) k = Some t"
  shows "validate_tool_dependencies tools sts mx t =
     (if sound_tool tools sts mx k then Inr () else Inl (RegistryError IncompatibleRegistration))"
proof (cases "validate_tool_dependencies tools sts mx t")
  case (Inl e)
  then have "e = RegistryError IncompatibleRegistration"
    by (auto simp: validate_tool_dependencies_def bindE_def split: sum.splits dest: visit_error)
  with Inl validate_tool_dependencies_iff [OF assms, of sts mx] show ?thesis by auto
next
  case (Inr u)
  with validate_tool_dependencies_iff [OF assms, of sts mx] show ?thesis by auto
qed

lemma registry_step_keyed: "tools_keyed tools \<Longrightarrow> tools_keyed (registry_step x tools)"
  unfolding tools_keyed_def
  by (cases x) (auto simp del: split_paired_All simp: register_tool_tools set_lifecycle_tools tool_key_def
      split: option.splits if_splits)

section \<open>Property\<close>

text \<open>
  C8: the transitive check of tool dependencies is exact. Started at a registered tool it succeeds
  when every tool reachable through dependencies is registered, in a required lifecycle state and
  within the risk limit, and no reachable tool depends on itself; in every other case it raises the
  registry's incompatibility error. It never loops, whatever the dependency graph.
\<close>

theorem tool_graph_check_exact:
  assumes "tools_keyed tools" and "get_tool i (Some v) True tools = Inr t"
  shows "validate_tool_dependencies tools statuses maximum_risk t =
     (if sound_tool tools statuses maximum_risk (i, v) then Inr ()
      else Inl (RegistryError IncompatibleRegistration))"
  by (rule validate_tool_dependencies_eq) (use assms in \<open>auto simp: get_tool_def split: option.splits\<close>)

text \<open>A tool that depends on the counting tool, and the registry of both.\<close>

definition tallying_tool :: "nat tool_definition" where
  "tallying_tool =
     counting_tool\<lparr>td_tool_id := ''tally'',
       td_dependencies := [\<lparr>cr_component_type = Component_TOOL, cr_component_id = ''count'', cr_version = ''1.0.0''\<rparr>]\<rparr>"

definition tallying_registry :: "nat tool_registry" where
  "tallying_registry = snd (register_tool tallying_tool counting_registry)"

lemma tallying_tools:
  "tg_tools tallying_registry =
     [((''count'', ''1.0.0''), counting_tool), ((''tally'', ''1.0.0''), tallying_tool)]"
  by (simp add: tallying_registry_def register_tool_tools counting_registry_tools tool_key_def
      tallying_tool_def) (simp add: counting_tool_def)

lemma tallying_keyed: "tools_keyed tallying_registry"
  by (auto simp: tools_keyed_def tallying_tools tool_key_def tallying_tool_def counting_tool_def)

theorem tool_graph_check_exact_witness:
  "sound_tool tallying_registry [Life_ACTIVE] (Some Risk_LOW) (''tally'', ''1.0.0'')"
proof -
  have "validate_tool_dependencies tallying_registry [Life_ACTIVE] (Some Risk_LOW) tallying_tool = Inr ()"
    by (simp add: validate_tool_dependencies_def get_tool_for_reference_eq tallying_tools tool_key_def
        reference_key_def usable_tool_def tallying_tool_def)
       (simp add: counting_tool_def tool_key_def)
  moreover have "get_tool ''tally'' (Some ''1.0.0'') True tallying_registry = Inr tallying_tool"
    by (simp add: get_tool_def tallying_tools)
  ultimately show ?thesis
    using tool_graph_check_exact [OF tallying_keyed, of "''tally''" "''1.0.0''" tallying_tool "[Life_ACTIVE]" "Some Risk_LOW"]
    by (simp split: if_splits)
qed

end
