(* ===== verification/Registry_Correct.thy ===== *)
theory Registry_Correct
  imports Agent_Registry Tool_Graph
begin

text \<open>
  Correctness of the component registries. The operations of a catalog are followed through the
  items they change, in a locale over the fields of a component; it is interpreted for prompts,
  skills and agents. Each of the three registries, as part of the graph, is then shown to be a
  \<open>versioned_registry\<close>. The second half decides what resolving an agent promises about its
  components.
\<close>

section \<open>Catalogs\<close>

definition catalog_ok :: "'d catalog_kind \<Rightarrow> 'd catalog \<Rightarrow> bool" where
  "catalog_ok K c \<longleftrightarrow> dict_ok (ct_items c) \<and> (\<forall>p \<in> set (ct_items c). kd_key K (snd p) = fst p)"

lemma catalog_okD: "catalog_ok K c \<Longrightarrow> map_of (ct_items c) k = Some d \<Longrightarrow> kd_key K d = k"
  unfolding catalog_ok_def by (auto dest!: map_of_SomeD)

lemma set_update_subset: "set (AList.update k v d) \<subseteq> insert (k, v) (set d)"
  by (induction d) auto

lemma update_overwrite: "AList.update k v (AList.update k u d) = AList.update k v d"
  by (induction d) auto

lemma catalog_ok_update:
  "catalog_ok K c \<Longrightarrow> kd_key K d = k \<Longrightarrow> catalog_ok K (c\<lparr>ct_items := AList.update k d (ct_items c)\<rparr>)"
  using set_update_subset [of k d "ct_items c"] dict_ok_update [of "ct_items c" k d]
  unfolding catalog_ok_def by fastforce

definition catalog_moves :: "agent_lifecycle_status \<Rightarrow> agent_lifecycle_status list" where
  "catalog_moves s =
     (case s of
        Life_DRAFT \<Rightarrow> [Life_DRAFT, Life_VALIDATED, Life_ACTIVE, Life_RETIRED]
      | Life_VALIDATED \<Rightarrow> [Life_VALIDATED, Life_ACTIVE, Life_DEPRECATED, Life_RETIRED]
      | Life_ACTIVE \<Rightarrow> [Life_ACTIVE, Life_SUSPENDED, Life_DEPRECATED, Life_RETIRED]
      | Life_SUSPENDED \<Rightarrow> [Life_SUSPENDED, Life_ACTIVE, Life_DEPRECATED, Life_RETIRED]
      | Life_DEPRECATED \<Rightarrow> [Life_DEPRECATED, Life_RETIRED]
      | Life_RETIRED \<Rightarrow> [Life_RETIRED])"

lemma catalog_moves_self: "s \<in> set (catalog_moves s)"
  by (cases s) (simp_all add: catalog_moves_def)

lemma catalog_changed_items:
  "ct_items (snd (catalog_changed K operation k a b c)) = ct_items c"
  by (simp add: catalog_changed_def append_event_def new_id_def now_def Let_def)

lemma bindS_const: "snd (bindS m (\<lambda>_ s. (Inr x, s))) = snd m"
  by (auto simp: bindS_def split: prod.splits sum.splits)

lemma transition_items:
  "ct_items (snd (catalog_transition K d target operation c)) =
     AList.update (kd_key K d) (kd_with_status K target d) (ct_items c)"
  by (simp add: catalog_transition_def Let_def bindS_const catalog_changed_items)

lemma transition_result:
  "catalog_transition K d target operation c = (Inr x, c') \<Longrightarrow> x = kd_with_status K target d"
  by (auto simp: catalog_transition_def Let_def bindS_def split: prod.splits sum.splits)

text \<open>
  What an operation may do to the items: nothing, add a version under a fresh key, or move the
  lifecycle of a version along the table.
\<close>

inductive catalog_effect ::
  "'d catalog_kind \<Rightarrow> (string \<times> string, 'd) dict \<Rightarrow> (string \<times> string, 'd) dict \<Rightarrow> bool"
  for K items where
  effect_same: "catalog_effect K items items"
| effect_added: "map_of items (kd_key K d) = None \<Longrightarrow> catalog_effect K items (AList.update (kd_key K d) d items)"
| effect_moved: "map_of items k = Some d \<Longrightarrow> s \<in> set (catalog_moves (kd_status K d)) \<Longrightarrow>
    catalog_effect K items (AList.update k (kd_with_status K s d) items)"

locale component_kind =
  fixes K :: "'d catalog_kind"
  assumes key_with: "kd_key K (kd_with_status K s d) = kd_key K d"
    and status_with: "kd_status K (kd_with_status K s d) = s"
    and with_with: "kd_with_status K s (kd_with_status K s' d) = kd_with_status K s d"
begin

lemma effect_transition:
  assumes "catalog_ok K c" and "map_of (ct_items c) k = Some d" and "s \<in> set (catalog_moves (kd_status K d))"
  shows "catalog_effect K (ct_items c) (ct_items (snd (catalog_transition K d s operation c)))"
  using effect_moved [OF assms(2,3)] by (simp add: transition_items catalog_okD [OF assms(1,2)])

lemma effect_by_key:
  assumes "catalog_ok K c" and "\<And>s. s \<in> set allowed \<Longrightarrow> target \<in> set (catalog_moves s)"
  shows "catalog_effect K (ct_items c) (ct_items (snd (catalog_transition_by_key K k target operation allowed c)))"
proof (cases "map_of (ct_items c) k")
  case (Some d)
  with effect_transition [OF assms(1) Some assms(2)] effect_same [of K "ct_items c"] show ?thesis
    by (simp add: catalog_transition_by_key_def catalog_get_def)
qed (simp add: catalog_transition_by_key_def catalog_get_def effect_same)

lemma effect_register:
  "catalog_effect K (ct_items c) (ct_items (snd (catalog_register K check b d c)))"
  using effect_added [of "ct_items c" K d] effect_same [of K "ct_items c"]
  by (simp add: catalog_register_def bindS_const catalog_changed_items split: sum.splits)

lemma effect_validate:
  assumes "catalog_ok K c"
  shows "catalog_effect K (ct_items c) (ct_items (snd (catalog_validate K check k c)))"
proof (cases "map_of (ct_items c) k")
  case (Some d)
  from effect_transition [OF assms Some, of Life_VALIDATED] effect_same [of K "ct_items c"] Some show ?thesis
    by (simp add: catalog_validate_def catalog_get_def catalog_moves_def split: sum.splits)
qed (simp add: catalog_validate_def catalog_get_def effect_same)

lemma activate_checked_items:
  "ct_items (snd (activate_checked K d c)) =
     (if kd_status K d \<in> {Life_VALIDATED, Life_SUSPENDED}
      then AList.update (kd_key K d) (kd_with_status K Life_ACTIVE d) (ct_items c) else ct_items c)"
  by (auto simp: activate_checked_def transition_items)

lemma effect_activate:
  assumes ok: "catalog_ok K c"
  shows "catalog_effect K (ct_items c) (ct_items (snd (catalog_activate K check k c)))"
proof (cases "map_of (ct_items c) k")
  case (Some d)
  note key = catalog_okD [OF ok Some]
  note moved = effect_moved [of "ct_items c" k d _ K, OF Some]
  have active: "catalog_effect K (ct_items c) (AList.update k (kd_with_status K Life_ACTIVE d) (ct_items c))"
    if "kd_status K d \<in> {Life_DRAFT, Life_VALIDATED, Life_SUSPENDED}"
    using that by (intro moved) (auto simp: catalog_moves_def)
  show ?thesis
  proof (cases "kd_status K d = Life_DRAFT")
    case True
    have draft: "catalog_effect K (ct_items c) (AList.update k (kd_with_status K Life_VALIDATED d) (ct_items c))"
      using True by (intro moved) (simp add: catalog_moves_def)
    obtain r c1 where T: "catalog_transition K d Life_VALIDATED ''validated'' c = (r, c1)"
      by (cases "catalog_transition K d Life_VALIDATED ''validated'' c")
    with transition_items [of K d Life_VALIDATED "''validated''" c] key
    have c1: "ct_items c1 = AList.update k (kd_with_status K Life_VALIDATED d) (ct_items c)" by simp
    have "catalog_effect K (ct_items c) (ct_items (snd (bindS (r, c1) (activate_checked K))))"
    proof (cases r)
      case (Inr x)
      with T have "x = kd_with_status K Life_VALIDATED d" by (auto dest: transition_result)
      with Inr c1 key active True show ?thesis
        by (simp add: activate_checked_items status_with key_with with_with update_overwrite)
    qed (use c1 draft in simp)
    with Some True T effect_same [of K "ct_items c"] show ?thesis
      by (simp add: catalog_activate_def catalog_get_def split: sum.splits)
  next
    case False
    with Some key active effect_same [of K "ct_items c"] show ?thesis
      by (simp add: catalog_activate_def catalog_get_def activate_checked_items split: sum.splits)
  qed
qed (simp add: catalog_activate_def catalog_get_def effect_same)

lemma step_effect:
  "catalog_ok K c \<Longrightarrow> catalog_effect K (ct_items c) (ct_items (snd (catalog_step K check x c)))"
  by (cases x)
     (auto simp del: split_paired_All intro: effect_register effect_validate effect_activate
       intro!: effect_by_key simp: catalog_suspend_def catalog_deprecate_def catalog_retire_def catalog_moves_def)

lemma effect_ok: "catalog_ok K c \<Longrightarrow> catalog_effect K (ct_items c) (ct_items c') \<Longrightarrow> catalog_ok K c'"
proof (erule catalog_effect.cases, goal_cases)
  case 1
  then show ?case by (simp add: catalog_ok_def)
next
  case (2 d)
  with catalog_ok_update [of K c d "kd_key K d"] show ?case by (simp add: catalog_ok_def)
next
  case (3 k d s)
  with catalog_okD [of K c k d] catalog_ok_update [of K c "kd_with_status K s d" k] show ?case
    by (simp add: catalog_ok_def key_with)
qed

lemma step_ok: "catalog_ok K c \<Longrightarrow> catalog_ok K (snd (catalog_step K check x c))"
  by (rule effect_ok [OF _ step_effect])

text \<open>A version keeps its definition apart from the lifecycle, which follows the table.\<close>

lemma effect_kept:
  assumes "catalog_effect K items items'" and "map_of items k = Some d"
  shows "\<exists>d'. map_of items' k = Some d' \<and> kd_with_status K Life_ACTIVE d' = kd_with_status K Life_ACTIVE d \<and>
           kd_status K d' \<in> set (catalog_moves (kd_status K d))"
  using assms catalog_moves_self by cases (auto simp: with_with status_with)

end

interpretation prompts: component_kind prompt_kind
  by unfold_locales (simp_all add: prompt_kind_def)

interpretation skills: component_kind skill_kind
  by unfold_locales (simp_all add: skill_kind_def)

interpretation agents: component_kind agent_kind
  by unfold_locales (simp_all add: agent_kind_def ag_agent_id_def ag_version_def)

section \<open>The graph of registries\<close>

definition graph_ok :: "'w component_registries \<Rightarrow> bool" where
  "graph_ok g \<longleftrightarrow>
     catalog_ok agent_kind (cg_agents g) \<and> catalog_ok prompt_kind (cg_prompts g) \<and>
     catalog_ok skill_kind (cg_skills g) \<and> tools_keyed (cg_tools g)"

lemma graph_step_ok: "graph_ok g \<Longrightarrow> graph_ok (graph_step x g)"
  by (cases x)
     (auto simp: graph_ok_def intro: agents.step_ok prompts.step_ok skills.step_ok registry_step_keyed)

lemma graph_run_ok: "graph_ok g \<Longrightarrow> graph_ok (graph_run xs g)"
  unfolding graph_run_def by (induction xs arbitrary: g) (auto intro: graph_step_ok)

text \<open>Lifecycle and body of a version, read from a well-formed graph.\<close>

definition kept_status ::
  "'d catalog_kind \<Rightarrow> ('w component_registries \<Rightarrow> 'd catalog) \<Rightarrow> string \<times> string \<Rightarrow>
   'w component_registries \<Rightarrow> agent_lifecycle_status option" where
  "kept_status K part k g =
     (if graph_ok g then map_option (kd_status K) (map_of (ct_items (part g)) k) else None)"

definition kept_body ::
  "'d catalog_kind \<Rightarrow> ('w component_registries \<Rightarrow> 'd catalog) \<Rightarrow> string \<times> string \<Rightarrow>
   'w component_registries \<Rightarrow> 'd option" where
  "kept_body K part k g =
     (if graph_ok g then map_option (kd_with_status K Life_ACTIVE) (map_of (ct_items (part g)) k) else None)"

lemma graph_step_effects:
  assumes "graph_ok g"
  shows "catalog_effect agent_kind (ct_items (cg_agents g)) (ct_items (cg_agents (graph_step x g)))"
    and "catalog_effect prompt_kind (ct_items (cg_prompts g)) (ct_items (cg_prompts (graph_step x g)))"
    and "catalog_effect skill_kind (ct_items (cg_skills g)) (ct_items (cg_skills (graph_step x g)))"
  using assms agents.step_effect prompts.step_effect skills.step_effect
  by (cases x; simp add: graph_ok_def effect_same)+

lemma versioned_catalog:
  assumes kind: "component_kind K"
    and effect: "\<And>g x. graph_ok g \<Longrightarrow> catalog_effect K (ct_items (part g)) (ct_items (part (graph_step x g)))"
  shows "versioned_registry (kept_status K part) (kept_body K part) graph_step catalog_moves"
proof
  fix k g d x
  assume "kept_body K part k g = Some d"
  then obtain d0 where d0: "graph_ok g" "map_of (ct_items (part g)) k = Some d0" "d = kd_with_status K Life_ACTIVE d0"
    by (auto simp: kept_body_def split: if_splits)
  from component_kind.effect_kept [OF kind effect [OF d0(1)] d0(2)] d0 graph_step_ok
  show "kept_body K part k (graph_step x g) = Some d" by (fastforce simp: kept_body_def)
next
  fix k g s x
  assume "kept_status K part k g = Some s"
  then obtain d0 where d0: "graph_ok g" "map_of (ct_items (part g)) k = Some d0" "s = kd_status K d0"
    by (auto simp: kept_status_def split: if_splits)
  from component_kind.effect_kept [OF kind effect [OF d0(1)] d0(2)] d0 graph_step_ok
  show "\<exists>s' \<in> set (catalog_moves s). kept_status K part k (graph_step x g) = Some s'"
    by (fastforce simp: kept_status_def)
qed (auto simp: catalog_moves_def)

interpretation agent_store: versioned_registry
  "kept_status agent_kind cg_agents" "kept_body agent_kind cg_agents" graph_step catalog_moves
  by (rule versioned_catalog [OF agents.component_kind_axioms graph_step_effects(1)])

interpretation prompt_store: versioned_registry
  "kept_status prompt_kind cg_prompts" "kept_body prompt_kind cg_prompts" graph_step catalog_moves
  by (rule versioned_catalog [OF prompts.component_kind_axioms graph_step_effects(2)])

interpretation skill_store: versioned_registry
  "kept_status skill_kind cg_skills" "kept_body skill_kind cg_skills" graph_step catalog_moves
  by (rule versioned_catalog [OF skills.component_kind_axioms graph_step_effects(3)])

section \<open>What the check of an agent decides\<close>

text \<open>The reference definitions: they name the components a skill and an agent need.\<close>

definition tool_usable ::
  "'w tool_registry \<Rightarrow> agent_lifecycle_status list \<Rightarrow> risk_level \<Rightarrow> string \<times> string \<Rightarrow> bool" where
  "tool_usable tools statuses limit k \<longleftrightarrow>
     usable_at tools statuses (Some limit) k \<and> sound_tool tools statuses (Some limit) k"

definition skill_usable ::
  "'w tool_registry \<Rightarrow> agent_lifecycle_status list \<Rightarrow> skill_definition \<Rightarrow> bool" where
  "skill_usable tools statuses s \<longleftrightarrow>
     (\<forall>r \<in> set (sk_required_tool_refs s). tool_usable tools statuses (sk_risk_level s) (reference_key r)) \<and>
     (\<forall>r \<in> set (sk_optional_tool_refs s).
        (\<exists>t. map_of (tg_tools tools) (reference_key r) = Some t \<and> td_lifecycle t \<in> set statuses) \<longrightarrow>
        tool_usable tools statuses (sk_risk_level s) (reference_key r))"

definition agent_usable ::
  "'w component_registries \<Rightarrow> agent_lifecycle_status list \<Rightarrow> agent_definition \<Rightarrow> bool" where
  "agent_usable g statuses a \<longleftrightarrow>
     (\<exists>p. map_of (ct_items (cg_prompts g)) (reference_key (ag_prompt_ref a)) = Some p \<and>
          pmt_lifecycle p \<in> set statuses) \<and>
     (\<forall>r \<in> set (ag_skill_refs a). \<exists>s. map_of (ct_items (cg_skills g)) (reference_key r) = Some s \<and>
          sk_lifecycle s \<in> set statuses \<and> sk_risk_level s \<le> ag_risk_level a \<and>
          skill_usable (cg_tools g) statuses s \<and>
          reference_key ` set (sk_required_tool_refs s) \<subseteq> reference_key ` set (ag_tool_refs a)) \<and>
     (\<forall>r \<in> set (ag_tool_refs a). tool_usable (cg_tools g) statuses (ag_risk_level a) (reference_key r)) \<and>
     (\<forall>r \<in> set (ag_policy_refs a). \<exists>p. map_of (cg_policies g) (reference_key r) = Some p \<and>
          pol_lifecycle p \<in> set statuses)"

lemma usable_at_iff:
  "usable_at tools sts (Some m) k \<longleftrightarrow>
     (\<exists>t. map_of (tg_tools tools) k = Some t \<and> td_lifecycle t \<in> set sts \<and> td_risk_level t \<le> m)"
  by (auto simp: usable_at_def usable_tool_def not_less)

lemma checked_tool_iff:
  assumes "tools_keyed tools"
  shows "(\<exists>t. map_of (tg_tools tools) k = Some t \<and> td_lifecycle t \<in> set sts \<and> td_risk_level t \<le> m \<and>
            validate_tool_dependencies tools sts (Some m) t = Inr ()) \<longleftrightarrow> tool_usable tools sts m k"
  using validate_tool_dependencies_iff [OF assms, of k] by (auto simp: tool_usable_def usable_at_iff)

lemma required_tool_iff:
  "tools_keyed tools \<Longrightarrow> validate_required_tool tools sts s r = Inr () \<longleftrightarrow>
     tool_usable tools sts (sk_risk_level s) (reference_key r)"
  by (auto simp: checked_tool_iff [symmetric] validate_required_tool_def get_tool_for_reference_eq not_less
      split: option.splits)

lemma optional_tool_iff:
  "tools_keyed tools \<Longrightarrow> validate_optional_tool tools sts s r = Inr () \<longleftrightarrow>
     ((\<exists>t. map_of (tg_tools tools) (reference_key r) = Some t \<and> td_lifecycle t \<in> set sts) \<longrightarrow>
      tool_usable tools sts (sk_risk_level s) (reference_key r))"
  by (auto simp: checked_tool_iff [symmetric] validate_optional_tool_def get_tool_for_reference_eq not_less
      split: option.splits)

lemma skill_tools_iff:
  "tools_keyed tools \<Longrightarrow> validate_skill_tools (Some tools) sts s = Inr () \<longleftrightarrow> skill_usable tools sts s"
  by (simp add: validate_skill_tools_def bindE_Inr_iff each_Inr_iff required_tool_iff optional_tool_iff
      skill_usable_def)

lemma collect_Inr_iff: "collect f xs = Inr ys \<longleftrightarrow> list_all2 (\<lambda>x y. f x = Inr y) xs ys"
  by (induction xs arbitrary: ys) (auto simp: bindE_Inr_iff list_all2_Cons1)

lemma agent_skill_iff:
  "tools_keyed (cg_tools g) \<Longrightarrow> agent_skill g sts a r = Inr s \<longleftrightarrow>
     map_of (ct_items (cg_skills g)) (reference_key r) = Some s \<and> sk_lifecycle s \<in> set sts \<and>
     sk_risk_level s \<le> ag_risk_level a \<and> skill_usable (cg_tools g) sts s"
  by (auto simp: agent_skill_def get_skill_def catalog_get_def not_less bindE_Inr_iff skill_tools_iff
      split: option.splits)

lemma agent_tool_iff:
  "tools_keyed (cg_tools g) \<Longrightarrow> agent_tool g sts a r = Inr t \<longleftrightarrow>
     map_of (tg_tools (cg_tools g)) (reference_key r) = Some t \<and>
     tool_usable (cg_tools g) sts (ag_risk_level a) (reference_key r)"
  using checked_tool_iff [of "cg_tools g" "reference_key r" sts "ag_risk_level a"]
  by (auto simp: agent_tool_def get_tool_def reference_key_def not_less bindE_Inr_iff split: option.splits)

lemma agent_prompt_iff:
  "agent_prompt g sts a = Inr () \<longleftrightarrow>
     (\<exists>p. map_of (ct_items (cg_prompts g)) (reference_key (ag_prompt_ref a)) = Some p \<and>
          pmt_lifecycle p \<in> set sts)"
  by (auto simp: agent_prompt_def catalog_get_def bindE_Inr_iff split: option.splits)

lemma agent_policy_iff:
  "agent_policy g sts r = Inr () \<longleftrightarrow>
     (\<exists>p. map_of (cg_policies g) (reference_key r) = Some p \<and> pol_lifecycle p \<in> set sts)"
  by (auto simp: agent_policy_def split: option.splits)

lemma covered_iff:
  "skill_covered tools s = Inr () \<longleftrightarrow>
     reference_key ` set (sk_required_tool_refs s) \<subseteq> tool_key ` set tools"
  by (auto simp: skill_covered_def filter_eq_Nil_iff)

lemma agent_tools_keys:
  assumes "tools_keyed (cg_tools g)" and "list_all2 (\<lambda>r t. agent_tool g sts a r = Inr t) rs ts"
  shows "tool_key ` set ts = reference_key ` set rs"
  using assms(2)
proof (induction rule: list_all2_induct)
  case (Cons r rs t ts)
  then have "map_of (tg_tools (cg_tools g)) (reference_key r) = Some t"
    by (simp add: agent_tool_iff [OF assms(1)])
  from tools_keyedD [OF assms(1) this] Cons show ?case by simp
qed simp

lemma list_all2_left: "list_all2 P xs ys \<Longrightarrow> x \<in> set xs \<Longrightarrow> \<exists>y \<in> set ys. P x y"
  by (induction rule: list_all2_induct) auto

lemma agent_components_iff:
  assumes keyed: "tools_keyed (cg_tools g)"
  shows "validate_agent_components g sts a = Inr () \<longleftrightarrow> agent_usable g sts a"
proof
  assume "validate_agent_components g sts a = Inr ()"
  then obtain ss ts where parts: "agent_prompt g sts a = Inr ()"
    "list_all2 (\<lambda>r s. agent_skill g sts a r = Inr s) (ag_skill_refs a) ss"
    "list_all2 (\<lambda>r t. agent_tool g sts a r = Inr t) (ag_tool_refs a) ts"
    "\<forall>r \<in> set (ag_policy_refs a). agent_policy g sts r = Inr ()"
    "\<forall>s \<in> set ss. skill_covered ts s = Inr ()"
    by (auto simp: validate_agent_components_def bindE_Inr_iff collect_Inr_iff each_Inr_iff)
  note keys = agent_tools_keys [OF keyed parts(3)]
  show "agent_usable g sts a"
    unfolding agent_usable_def
  proof (intro conjI ballI)
    fix r assume "r \<in> set (ag_skill_refs a)"
    from list_all2_left [OF parts(2) this] obtain s where
      s: "s \<in> set ss" "agent_skill g sts a r = Inr s" by blast
    with parts(5) keys have "reference_key ` set (sk_required_tool_refs s) \<subseteq> reference_key ` set (ag_tool_refs a)"
      by (simp add: covered_iff)
    with s(2) show "\<exists>s. map_of (ct_items (cg_skills g)) (reference_key r) = Some s \<and>
        sk_lifecycle s \<in> set sts \<and> sk_risk_level s \<le> ag_risk_level a \<and>
        skill_usable (cg_tools g) sts s \<and>
        reference_key ` set (sk_required_tool_refs s) \<subseteq> reference_key ` set (ag_tool_refs a)"
      unfolding agent_skill_iff [OF keyed] by blast
  next
    fix r assume "r \<in> set (ag_tool_refs a)"
    from list_all2_left [OF parts(3) this] show "tool_usable (cg_tools g) sts (ag_risk_level a) (reference_key r)"
      by (auto simp: agent_tool_iff [OF keyed])
  qed (use parts(1,4) in \<open>simp_all add: agent_prompt_iff agent_policy_iff\<close>)
next
  assume usable: "agent_usable g sts a"
  let ?skill = "\<lambda>r. the (map_of (ct_items (cg_skills g)) (reference_key r))"
  let ?tool = "\<lambda>r. the (map_of (tg_tools (cg_tools g)) (reference_key r))"
  have skills: "collect (agent_skill g sts a) (ag_skill_refs a) = Inr (map ?skill (ag_skill_refs a))"
    using usable by (auto simp: agent_usable_def collect_Inr_iff list_all2_map2 list_all2_same
        agent_skill_iff [OF keyed])
  have tools: "list_all2 (\<lambda>r t. agent_tool g sts a r = Inr t) (ag_tool_refs a) (map ?tool (ag_tool_refs a))"
    using usable by (auto simp: agent_usable_def list_all2_map2 list_all2_same agent_tool_iff [OF keyed]
        tool_usable_def usable_at_def)
  have "\<forall>s \<in> set (map ?skill (ag_skill_refs a)). skill_covered (map ?tool (ag_tool_refs a)) s = Inr ()"
    using usable agent_tools_keys [OF keyed tools] by (force simp: agent_usable_def covered_iff)
  then have "each (skill_covered (map ?tool (ag_tool_refs a))) (map ?skill (ag_skill_refs a)) = Inr ()"
    by (simp add: each_Inr_iff)
  moreover have "agent_prompt g sts a = Inr ()" "each (agent_policy g sts) (ag_policy_refs a) = Inr ()"
    using usable by (simp_all add: agent_usable_def agent_prompt_iff agent_policy_iff each_Inr_iff)
  ultimately show "validate_agent_components g sts a = Inr ()"
    using skills tools by (simp add: validate_agent_components_def collect_Inr_iff [symmetric])
qed

lemma resolve_exact_version:
  "resolve_agent i (Some v) g = Inr a \<longleftrightarrow>
     map_of (ct_items (cg_agents g)) (i, v) = Some a \<and> ag_lifecycle a = Life_ACTIVE \<and>
     validate_agent_components g [Life_ACTIVE] a = Inr ()"
  by (auto simp: resolve_agent_def catalog_resolve_def agent_kind_def bindE_Inr_iff split: option.splits)

end
