(* ===== verification/Registry_Properties.thy ===== *)
theory Registry_Properties
  imports Registry_Correct
begin

text \<open>
  The properties of the graph of registries, each over arbitrary sequences of operations on agents,
  prompts, skills and tools, and a small graph they are applied to.
\<close>

section \<open>Well-typed graphs\<close>

definition items_typed :: "('d \<Rightarrow> bool) \<Rightarrow> 'd catalog \<Rightarrow> bool" where
  "items_typed P c \<longleftrightarrow> (\<forall>d \<in> snd ` set (ct_items c). P d)"

definition graph_typed :: "'w component_registries \<Rightarrow> bool" where
  "graph_typed g \<longleftrightarrow>
     graph_ok g \<and> items_typed agent_definition_ok (cg_agents g) \<and>
     items_typed prompt_definition_ok (cg_prompts g) \<and> items_typed skill_definition_ok (cg_skills g)"

text \<open>A registration hands over a constructed model, so its candidate satisfies its validators.\<close>

fun op_typed :: "'w graph_op \<Rightarrow> bool" where
  "op_typed (AgentOp (CatalogRegister b a)) = agent_definition_ok a"
| "op_typed (PromptOp (CatalogRegister b p)) = prompt_definition_ok p"
| "op_typed (SkillOp (CatalogRegister b s)) = skill_definition_ok s"
| "op_typed _ = True"

context component_kind
begin

lemma transition_typed:
  "items_typed P c \<Longrightarrow> P d \<Longrightarrow> (\<And>s d. P d \<Longrightarrow> P (kd_with_status K s d)) \<Longrightarrow>
   items_typed P (snd (catalog_transition K d target operation c))"
  using set_update_subset [of "kd_key K d" "kd_with_status K target d" "ct_items c"]
  by (auto simp: items_typed_def transition_items)

lemma catalog_get_typed: "items_typed P c \<Longrightarrow> catalog_get k c = Inr d \<Longrightarrow> P d"
  by (auto simp: items_typed_def catalog_get_def image_iff dest!: map_of_SomeD split: option.splits)

lemma by_key_typed:
  "items_typed P c \<Longrightarrow> (\<And>s d. P d \<Longrightarrow> P (kd_with_status K s d)) \<Longrightarrow>
   items_typed P (snd (catalog_transition_by_key K k target operation allowed c))"
  using catalog_get_typed [of P c k]
  by (auto simp: catalog_transition_by_key_def intro!: transition_typed split: sum.splits)

lemma activate_checked_typed:
  "items_typed P c \<Longrightarrow> P d \<Longrightarrow> (\<And>s d. P d \<Longrightarrow> P (kd_with_status K s d)) \<Longrightarrow>
   items_typed P (snd (activate_checked K d c))"
  by (simp add: activate_checked_def transition_typed)

lemma activate_typed:
  assumes typed: "items_typed P c" and closed: "\<And>s d. P d \<Longrightarrow> P (kd_with_status K s d)"
  shows "items_typed P (snd (catalog_activate K check k c))"
proof (cases "catalog_get k c")
  case (Inr d)
  note d = catalog_get_typed [OF typed Inr]
  obtain r c1 where T: "catalog_transition K d Life_VALIDATED ''validated'' c = (r, c1)"
    by (cases "catalog_transition K d Life_VALIDATED ''validated'' c")
  then have c1: "items_typed P c1"
    using transition_typed [OF typed d closed, of Life_VALIDATED "''validated''"] by simp
  have "items_typed P (snd (bindS (r, c1) (activate_checked K)))"
    using T c1 closed d by (cases r) (auto dest: transition_result intro: activate_checked_typed)
  with Inr T d typed closed show ?thesis
    by (simp add: catalog_activate_def activate_checked_typed split: sum.splits)
qed (use typed in \<open>simp add: catalog_activate_def\<close>)

lemma register_typed:
  "items_typed P c \<Longrightarrow> P d \<Longrightarrow> items_typed P (snd (catalog_register K check b d c))"
  using set_update_subset [of "kd_key K d" d "ct_items c"]
  by (auto simp: catalog_register_def items_typed_def bindS_const catalog_changed_items split: sum.splits)

lemma validate_typed:
  assumes "items_typed P c" and "\<And>s d. P d \<Longrightarrow> P (kd_with_status K s d)"
  shows "items_typed P (snd (catalog_validate K check k c))"
  using assms catalog_get_typed [OF assms(1)] transition_typed [OF assms(1) _ assms(2)]
  by (auto simp: catalog_validate_def split: sum.splits)

lemma step_typed:
  assumes "items_typed P c" and "\<And>s d. P d \<Longrightarrow> P (kd_with_status K s d)"
    and "\<And>b d. x = CatalogRegister b d \<Longrightarrow> P d"
  shows "items_typed P (snd (catalog_step K check x c))"
  using assms
  by (cases x)
     (simp_all add: register_typed validate_typed activate_typed by_key_typed
       catalog_suspend_def catalog_deprecate_def catalog_retire_def)

end

lemma with_status_typed:
  "agent_definition_ok a \<Longrightarrow> agent_definition_ok (kd_with_status agent_kind s a)"
  "prompt_definition_ok p \<Longrightarrow> prompt_definition_ok (kd_with_status prompt_kind s p)"
  "skill_definition_ok k \<Longrightarrow> skill_definition_ok (kd_with_status skill_kind s k)"
  by (simp_all add: agent_definition_ok_def prompt_definition_ok_def skill_definition_ok_def
      skill_tool_refs_def agent_kind_def prompt_kind_def skill_kind_def)

lemma graph_step_typed:
  assumes "graph_typed g" and "op_typed x"
  shows "graph_typed (graph_step x g)"
proof -
  have "graph_ok (graph_step x g)"
    using assms(1) by (auto simp: graph_typed_def intro: graph_step_ok)
  with assms show ?thesis
    by (cases x)
       (auto simp: graph_typed_def intro!: agents.step_typed prompts.step_typed skills.step_typed with_status_typed)
qed

lemma graph_run_typed: "graph_typed g \<Longrightarrow> \<forall>x \<in> set xs. op_typed x \<Longrightarrow> graph_typed (graph_run xs g)"
  unfolding graph_run_def by (induction xs arbitrary: g) (auto intro: graph_step_typed)

lemma resolved_typed:
  assumes "graph_typed g" and "resolve_agent i (Some v) g = Inr a"
  shows "agent_definition_ok a \<and> ag_agent_id a = i \<and> ag_version a = v"
proof -
  from assms(2) have at: "map_of (ct_items (cg_agents g)) (i, v) = Some a"
    by (simp add: resolve_exact_version)
  with assms(1) have "kd_key agent_kind a = (i, v)"
    by (auto simp: graph_typed_def graph_ok_def intro: catalog_okD)
  moreover have "agent_definition_ok a"
    using assms(1) at by (auto simp: graph_typed_def items_typed_def dest!: map_of_SomeD bspec)
  ultimately show ?thesis by (simp add: agent_kind_def)
qed

section \<open>Activation\<close>

lemma same_components:
  "validate_agent_components (g\<lparr>cg_agents := c\<rparr>) sts (a\<lparr>ag_lifecycle := s\<rparr>) = validate_agent_components g sts a"
proof -
  have "agent_prompt (g\<lparr>cg_agents := c\<rparr>) sts (a\<lparr>ag_lifecycle := s\<rparr>) = agent_prompt g sts a"
    "agent_skill (g\<lparr>cg_agents := c\<rparr>) sts (a\<lparr>ag_lifecycle := s\<rparr>) = agent_skill g sts a"
    "agent_tool (g\<lparr>cg_agents := c\<rparr>) sts (a\<lparr>ag_lifecycle := s\<rparr>) = agent_tool g sts a"
    "agent_policy (g\<lparr>cg_agents := c\<rparr>) sts = agent_policy g sts"
    by (simp_all add: agent_prompt_def agent_skill_def agent_tool_def agent_policy_def fun_eq_iff
        cong: sum.case_cong if_cong)
  then show ?thesis by (simp add: validate_agent_components_def)
qed

lemma same_components_graph:
  "validate_agent_components (g\<lparr>cg_agents := c\<rparr>) sts a = validate_agent_components g sts a"
  using same_components [where g = g and c = c and a = a and s = "ag_lifecycle a"] by simp

lemma activate_checked_Inr:
  "activate_checked agent_kind d c = (Inr a, c') \<Longrightarrow> map_of (ct_items c) (kd_key agent_kind d) = Some d \<Longrightarrow>
   a = d\<lparr>ag_lifecycle := Life_ACTIVE\<rparr> \<and> map_of (ct_items c') (kd_key agent_kind d) = Some a"
  using transition_items [of agent_kind d Life_ACTIVE "''activated''" c]
    transition_items [of agent_kind d Life_ACTIVE "''reactivated''" c]
  by (auto simp: activate_checked_def agent_kind_def split: if_splits dest!: transition_result)

lemma activate_agent_Inr:
  assumes ok: "graph_ok g" and run: "catalog_activate agent_kind check k (cg_agents g) = (Inr a, c')"
  obtains d where "map_of (ct_items (cg_agents g)) k = Some d" "check [Life_ACTIVE] d = Inr ()"
    "a = d\<lparr>ag_lifecycle := Life_ACTIVE\<rparr>" "map_of (ct_items c') k = Some a"
proof -
  let ?c = "cg_agents g"
  from run obtain d where d: "map_of (ct_items ?c) k = Some d" "check [Life_ACTIVE] d = Inr ()"
    by (auto simp: catalog_activate_def catalog_get_def split: option.splits sum.splits)
  with ok have key: "kd_key agent_kind d = k" by (auto simp: graph_ok_def intro: catalog_okD)
  show thesis
  proof (cases "kd_status agent_kind d = Life_DRAFT")
    case False
    with run d have "activate_checked agent_kind d ?c = (Inr a, c')"
      by (simp add: catalog_activate_def catalog_get_def)
    from activate_checked_Inr [OF this] d key show thesis by (auto intro: that)
  next
    case True
    let ?T = "catalog_transition agent_kind d Life_VALIDATED ''validated'' ?c"
    from True run d obtain x c1 where T: "?T = (Inr x, c1)" "activate_checked agent_kind x c1 = (Inr a, c')"
      by (cases ?T) (auto simp: catalog_activate_def catalog_get_def bindS_def split: sum.splits)
    have x: "x = d\<lparr>ag_lifecycle := Life_VALIDATED\<rparr>"
      using transition_result [OF T(1)] by (simp add: agent_kind_def)
    have "map_of (ct_items c1) k = Some x" "kd_key agent_kind x = k"
      using T(1) transition_items [of agent_kind d Life_VALIDATED "''validated''" ?c] key x
      by (auto simp: agent_kind_def ag_agent_id_def ag_version_def)
    with activate_checked_Inr [OF T(2)] d x show thesis by (auto intro: that)
  qed
qed

lemma activation_resolves:
  assumes "graph_ok g" and "activate_agent (i, v) g = (Inr a, g')"
  shows "resolve_agent i (Some v) g' = Inr a"
proof -
  from assms(2) obtain c' where
    run: "catalog_activate agent_kind (validate_agent_components g) (i, v) (cg_agents g) = (Inr a, c')"
    and g': "g' = g\<lparr>cg_agents := c'\<rparr>"
    by (auto simp: activate_agent_def on_agents_def split: prod.splits)
  from activate_agent_Inr [OF assms(1) run] obtain d where
    "validate_agent_components g [Life_ACTIVE] d = Inr ()" "a = d\<lparr>ag_lifecycle := Life_ACTIVE\<rparr>"
    "map_of (ct_items c') (i, v) = Some a" by blast
  then show ?thesis by (simp add: resolve_exact_version g' same_components)
qed

section \<open>Properties\<close>

text \<open>
  C9: resolving an agent is exact. It returns a version precisely when that version is registered
  and active and every component it names is there: its prompt, policies and skills active, every
  skill and tool within the agent's risk level, all tools, their transitive dependencies and the
  tools its skills need active and free of cycles, and every tool a skill requires declared by the
  agent itself.
\<close>

theorem resolve_agent_exact:
  assumes "graph_ok g"
  shows "resolve_agent i (Some v) g = Inr a \<longleftrightarrow>
     get_agent (i, v) g = Inr a \<and> ag_lifecycle a = Life_ACTIVE \<and> agent_usable g [Life_ACTIVE] a"
  using assms
  by (auto simp: resolve_exact_version get_agent_def catalog_get_def agent_components_iff graph_ok_def
      split: option.splits)

text \<open>
  C13: a registered agent version is final. Whatever is registered, validated, activated, suspended,
  deprecated or retired afterwards, in any of the registries, the version keeps its definition
  apart from the lifecycle; and once it is deprecated or retired it never resolves again.
\<close>

theorem agent_version_final:
  assumes "graph_ok g" and "get_agent (i, v) g = Inr a"
  shows "(\<exists>l. get_agent (i, v) (graph_run xs g) = Inr (a\<lparr>ag_lifecycle := l\<rparr>)) \<and>
     (ag_lifecycle a \<in> {Life_DEPRECATED, Life_RETIRED} \<longrightarrow>
        (\<exists>e. resolve_agent i (Some v) (graph_run xs g) = Inl e))"
proof -
  from assms(2) have at: "map_of (ct_items (cg_agents g)) (i, v) = Some a"
    by (auto simp: get_agent_def catalog_get_def split: option.splits)
  with assms(1) have body: "kept_body agent_kind cg_agents (i, v) g = Some (a\<lparr>ag_lifecycle := Life_ACTIVE\<rparr>)"
    and status: "kept_status agent_kind cg_agents (i, v) g = Some (ag_lifecycle a)"
    by (simp_all add: kept_body_def kept_status_def agent_kind_def)
  from agent_store.run_body [OF body, of xs] obtain b where
    b: "map_of (ct_items (cg_agents (graph_run xs g))) (i, v) = Some b"
    "b\<lparr>ag_lifecycle := Life_ACTIVE\<rparr> = a\<lparr>ag_lifecycle := Life_ACTIVE\<rparr>"
    by (auto simp: kept_body_def graph_run_def agent_kind_def split: if_splits)
  then have "b = a\<lparr>ag_lifecycle := ag_lifecycle b\<rparr>"
    by (metis agent_definition.surjective agent_definition.update_convs(16))
  with b(1) have "\<exists>l. get_agent (i, v) (graph_run xs g) = Inr (a\<lparr>ag_lifecycle := l\<rparr>)"
    by (auto simp: get_agent_def catalog_get_def)
  moreover have "\<exists>e. resolve_agent i (Some v) (graph_run xs g) = Inl e"
    if "ag_lifecycle a \<in> {Life_DEPRECATED, Life_RETIRED}"
  proof -
    from agent_store.run_withdrawn [OF status that, of xs] b(1)
    have "ag_lifecycle b \<noteq> Life_ACTIVE"
      by (auto simp: kept_status_def graph_run_def agent_kind_def split: if_splits)
    with b(1) have "resolve_agent i (Some v) (graph_run xs g) \<noteq> Inr c" for c
      by (auto simp: resolve_exact_version)
    then show ?thesis by (cases "resolve_agent i (Some v) (graph_run xs g)") auto
  qed
  ultimately show ?thesis by blast
qed

text \<open>
  C18: activation and resolution agree. An agent version whose activation succeeds, from a draft in
  two transitions or by reactivation, resolves right afterwards to the definition the activation
  returned.
\<close>

theorem activated_agent_resolves:
  assumes "graph_ok g" and "activate_agent (i, v) g = (Inr a, g')"
  shows "resolve_agent i (Some v) g' = Inr a"
  using assms by (rule activation_resolves)

text \<open>
  C19: the registries stay well typed. From a graph whose records satisfy their contracts and stand
  under their own identity and version, every sequence of operations that registers constructed
  models leads to such a graph again, and whatever then resolves is a valid definition of the
  identity and version that was asked for.
\<close>

theorem registries_stay_typed:
  assumes "graph_typed g" and "\<forall>x \<in> set xs. op_typed x"
  shows "graph_typed (graph_run xs g) \<and>
     (\<forall>i v a. resolve_agent i (Some v) (graph_run xs g) = Inr a \<longrightarrow>
        agent_definition_ok a \<and> ag_agent_id a = i \<and> ag_version a = v)"
  using graph_run_typed [OF assms] resolved_typed by blast

section \<open>A small graph\<close>

definition at_version_one :: "component_type \<Rightarrow> string \<Rightarrow> component_reference" where
  "at_version_one kind i =
     \<lparr>cr_component_type = kind, cr_component_id = i, cr_version = ''1.0.0''\<rparr>"

definition clerk_prompt :: prompt_definition where
  "clerk_prompt =
     \<lparr>pmt_prompt_id = ''desk'', pmt_version = ''1.0.0'', pmt_purpose = ''work'',
      pmt_instructions = ''tally'', pmt_owner_id = ''application'', pmt_lifecycle = Life_ACTIVE,
      pmt_metadata = []\<rparr>"

definition clerk_skill :: skill_definition where
  "clerk_skill =
     \<lparr>sk_skill_id = ''tallying'', sk_version = ''1.0.0'', sk_name = ''tallying'', sk_description = ''tallies'',
      sk_supported_operations = [], sk_supported_intents = [], sk_supported_languages = [],
      sk_required_tool_refs = [at_version_one Component_TOOL ''tally''], sk_optional_tool_refs = [],
      sk_risk_level = Risk_LOW, sk_owner_id = ''application'', sk_lifecycle = Life_ACTIVE,
      sk_tags = [], sk_metadata = []\<rparr>"

definition clerk_policy :: policy_definition where
  "clerk_policy =
     \<lparr>pol_policy_id = ''open'', pol_version = ''1.0.0'', pol_description = ''allows'',
      pol_owner_id = ''application'', pol_default_effect = Effect_ALLOW, pol_rules = [],
      pol_lifecycle = Life_ACTIVE\<rparr>"

definition clerk :: agent_definition where
  "clerk =
     \<lparr>ag_identity = \<lparr>agv_agent_id = ''clerk'', agv_version = ''1.0.0''\<rparr>, ag_goal = ''tally'',
      ag_supported_intents = [], ag_supported_languages = [],
      ag_prompt_ref = at_version_one Component_PROMPT ''desk'',
      ag_skill_refs = [at_version_one Component_SKILL ''tallying''],
      ag_tool_refs = [at_version_one Component_TOOL ''tally''],
      ag_policy_refs = [at_version_one Component_POLICY ''open''],
      ag_provider_profile = \<lparr>pp_provider_id = ''p'', pp_version = ''1.0.0'', pp_model = ''m'', pp_options = []\<rparr>,
      ag_runtime_limits = default_runtime_config, ag_risk_level = Risk_LOW,
      ag_approval_requirements = [], ag_state_strategy = None, ag_memory_strategy = None,
      ag_owner_id = ''application'', ag_lifecycle = Life_DRAFT, ag_performance_metadata = []\<rparr>"

definition clerk_world :: world where
  "clerk_world = \<lparr>make_id = (\<lambda>p n. p), id_calls = 0, clock_at = int, clock_calls = 0\<rparr>"

definition clerk_graph :: "agent_lifecycle_status \<Rightarrow> nat component_registries" where
  "clerk_graph s =
     \<lparr>cg_agents = (empty_catalog clerk_world)\<lparr>ct_items := [((''clerk'', ''1.0.0''), clerk\<lparr>ag_lifecycle := s\<rparr>)]\<rparr>,
      cg_prompts = (empty_catalog clerk_world)\<lparr>ct_items := [((''desk'', ''1.0.0''), clerk_prompt)]\<rparr>,
      cg_skills = (empty_catalog clerk_world)\<lparr>ct_items := [((''tallying'', ''1.0.0''), clerk_skill)]\<rparr>,
      cg_tools = tallying_registry, cg_policies = [((''open'', ''1.0.0''), clerk_policy)]\<rparr>"

lemma clerk_graph_ok: "graph_ok (clerk_graph s)"
  by (simp add: graph_ok_def clerk_graph_def catalog_ok_def agent_kind_def prompt_kind_def skill_kind_def
      ag_agent_id_def ag_version_def clerk_def clerk_prompt_def clerk_skill_def tallying_keyed)

lemma clerk_graph_typed: "graph_typed (clerk_graph s)"
  using clerk_graph_ok [of s]
  by (simp add: graph_typed_def clerk_graph_def items_typed_def agent_definition_ok_def prompt_definition_ok_def
      skill_definition_ok_def clerk_def clerk_prompt_def clerk_skill_def agent_version_ok_def
      provider_profile_ok_def runtime_config_ok_def default_runtime_config_def expiry_ok_def opt_nonempty_def
      references_ok_def slug_ok_def slug_char_def at_version_one_def skill_tool_refs_def blank_iff is_space_def
      of_char_def)

lemma tally_checked:
  "validate_tool_dependencies tallying_registry [Life_ACTIVE] (Some Risk_LOW) tallying_tool = Inr ()"
  by (simp add: validate_tool_dependencies_def get_tool_for_reference_eq tallying_tools tool_key_def
      reference_key_def usable_tool_def tallying_tool_def)
     (simp add: counting_tool_def tool_key_def)

lemma tallying_tool_sel:
  "td_lifecycle tallying_tool = Life_ACTIVE" "td_risk_level tallying_tool = Risk_LOW"
  "tool_key tallying_tool = (''tally'', ''1.0.0'')"
  by (simp_all add: tallying_tool_def counting_tool_def tool_key_def)

lemma clerk_checked: "validate_agent_components (clerk_graph s) [Life_ACTIVE] (clerk\<lparr>ag_lifecycle := l\<rparr>) = Inr ()"
proof -
  have "validate_skill_tools (Some tallying_registry) [Life_ACTIVE] clerk_skill = Inr ()"
    using tally_checked
    by (simp add: validate_skill_tools_def clerk_skill_def validate_required_tool_def get_tool_for_reference_eq
        at_version_one_def reference_key_def tallying_tools tallying_tool_sel)
  with tally_checked show ?thesis
    by (simp add: validate_agent_components_def agent_prompt_def agent_skill_def agent_tool_def agent_policy_def
        clerk_def clerk_graph_def catalog_get_def get_skill_def at_version_one_def reference_key_def get_tool_def
        tallying_tools tallying_tool_sel clerk_prompt_def clerk_policy_def skill_covered_def)
       (simp add: clerk_skill_def at_version_one_def reference_key_def)
qed

lemma clerk_at: "map_of (ct_items (cg_agents (clerk_graph s))) (''clerk'', ''1.0.0'') = Some (clerk\<lparr>ag_lifecycle := s\<rparr>)"
  by (simp add: clerk_graph_def)

lemma clerk_got: "get_agent (''clerk'', ''1.0.0'') (clerk_graph s) = Inr (clerk\<lparr>ag_lifecycle := s\<rparr>)"
  by (simp add: get_agent_def catalog_get_def clerk_at)

theorem resolve_agent_exact_witness:
  "agent_usable (clerk_graph Life_ACTIVE) [Life_ACTIVE] (clerk\<lparr>ag_lifecycle := Life_ACTIVE\<rparr>)"
proof -
  have "resolve_agent ''clerk'' (Some ''1.0.0'') (clerk_graph Life_ACTIVE) = Inr (clerk\<lparr>ag_lifecycle := Life_ACTIVE\<rparr>)"
    by (simp add: resolve_exact_version clerk_at clerk_checked)
  with resolve_agent_exact [OF clerk_graph_ok, of "''clerk''" "''1.0.0''" Life_ACTIVE] show ?thesis by blast
qed

theorem agent_version_final_witness:
  "\<exists>e. resolve_agent ''clerk'' (Some ''1.0.0'')
         (graph_run [AgentOp (CatalogActivate (''clerk'', ''1.0.0''))] (clerk_graph Life_DEPRECATED)) = Inl e"
  using agent_version_final [OF clerk_graph_ok clerk_got, of "[AgentOp (CatalogActivate (''clerk'', ''1.0.0''))]" Life_DEPRECATED]
  by simp

lemma clerk_activates:
  "fst (activate_agent (''clerk'', ''1.0.0'') (clerk_graph Life_DRAFT)) = Inr (clerk\<lparr>ag_lifecycle := Life_ACTIVE\<rparr>)"
  by (simp add: activate_agent_def on_agents_def catalog_activate_def catalog_get_def clerk_at clerk_checked
      activate_checked_def catalog_transition_def catalog_changed_def append_event_def new_id_def now_def
      registry_event_ok_def agent_kind_def Let_def)
     (simp add: clerk_graph_def clerk_def clerk_world_def empty_catalog_def ag_agent_id_def ag_version_def
      registry_event_ok_def)

theorem activated_agent_resolves_witness:
  "resolve_agent ''clerk'' (Some ''1.0.0'') (snd (activate_agent (''clerk'', ''1.0.0'') (clerk_graph Life_DRAFT))) =
     Inr (clerk\<lparr>ag_lifecycle := Life_ACTIVE\<rparr>)"
proof -
  obtain r g' where run: "activate_agent (''clerk'', ''1.0.0'') (clerk_graph Life_DRAFT) = (r, g')"
    by (cases "activate_agent (''clerk'', ''1.0.0'') (clerk_graph Life_DRAFT)")
  with clerk_activates have "r = Inr (clerk\<lparr>ag_lifecycle := Life_ACTIVE\<rparr>)" by simp
  with activated_agent_resolves [OF clerk_graph_ok, of "''clerk''" "''1.0.0''" Life_DRAFT _ g'] run show ?thesis by simp
qed

theorem registries_stay_typed_witness:
  "graph_typed (graph_run [AgentOp (CatalogActivate (''clerk'', ''1.0.0'')), AgentOp (CatalogRegister False clerk)]
     (clerk_graph Life_DRAFT))"
proof -
  have "agent_definition_ok clerk"
    using clerk_graph_typed [of Life_DRAFT]
    by (simp add: graph_typed_def items_typed_def clerk_graph_def clerk_def)
  with registries_stay_typed [OF clerk_graph_typed,
      of "[AgentOp (CatalogActivate (''clerk'', ''1.0.0'')), AgentOp (CatalogRegister False clerk)]" Life_DRAFT]
  show ?thesis by simp
qed

end
