(* ===== verification/Factory_Correct.thy ===== *)
theory Factory_Correct
  imports Factory Registry_Properties Runtime_Correct
begin

text \<open>
  What a build promises. The agent it returns is registered, resolves and is the one
  \<open>runtime_for\<close> hands out; while it runs, only tools of its configuration are called, within its
  risk level, whatever its caller asks for; and the approval-gated template keeps its promise
  through the default permission broker.
\<close>

section \<open>Authority\<close>

lemma built_args_Inr:
  assumes "built_args u c = Inr a"
  shows "ra_agent_id a = mau_agent_id u \<and> ra_agent_version a = mau_agent_version u \<and>
     set (ra_authorized_tool_ids a) \<subseteq> set (mau_allowed_tool_ids u) \<and>
     set (ra_authorized_tool_versions a) \<subseteq> set (mau_allowed_tool_versions u) \<and>
     (\<exists>r. ra_max_risk_level a = Some r \<and> r \<le> mau_risk_level u) \<and>
     ra_approved_action_digests a = ra_approved_action_digests (bc_rest c)"
  using assms
  by (auto simp: built_args_def bindE_Inr_iff selected_tool_ids_def selected_tool_versions_def
      effective_risk_def not_less split: option.splits if_splits)

lemma app_read: "app_do (\<lambda>w. (r w, w)) s = Some (r (xs_app (rs_tools s)), s)"
  by (simp add: app_do_def lift_op_def)

lemma still_registered_same: "still_registered live u s = Some (r, s1) \<Longrightarrow> s1 = s"
  by (auto simp: still_registered_def ret_def bind_act_def app_read fail_def split: option.splits sum.splits)

lemma lift_result_bind: "bind_act (lift_result q) f s = (case q of Inl e \<Rightarrow> Some (Inl e, s) | Inr x \<Rightarrow> f x s)"
  by (simp add: bind_act_def lift_result_def split: sum.splits)

lemma built_execute_cases:
  assumes "built_execute digest b c s = Some (r, s')"
  obtains (refused) e where "r = Inl e" "s' = s"
  | (ran) d u a where "ba_runtime b = Some d" "ba_authority b = Some u" "built_args u c = Inr a"
      "bc_names_identity c = False" "assert_manifest_integrity digest b = Inr ()"
      "execute d a s = Some (r, s')"
proof (cases "ba_runtime b")
  case None
  with assms show thesis by (auto simp: built_execute_def fail_def intro: refused)
next
  case (Some d)
  show thesis
  proof (cases "bc_names_identity c \<or> assert_manifest_integrity digest b \<noteq> Inr ()")
    case True
    with assms Some show thesis
      by (cases "assert_manifest_integrity digest b")
         (auto simp: built_execute_def fail_def and_then_def lift_result_bind split: if_splits intro: refused)
  next
    case False
    then obtain u where u: "ba_authority b = Some u"
      by (auto simp: assert_manifest_integrity_def require_authority_def bindE_Inr_iff split: option.splits)
    let ?go = "bind_act (lift_result (built_args u c)) (execute d)"
    from assms Some False u have run: "bind_act (still_registered (ba_registry b) u) (\<lambda>_. ?go) s = Some (r, s')"
      by (simp add: built_execute_def and_then_def lift_result_bind require_authority_def)
    then obtain q s1 where q: "still_registered (ba_registry b) u s = Some (q, s1)"
      by (auto simp: bind_act_def split: option.splits)
    note same = still_registered_same [OF q]
    show thesis
    proof (cases q)
      case (Inl e)
      with run q same show thesis by (auto simp: bind_act_def intro: refused)
    next
      case (Inr x)
      with run q same have go: "?go s = Some (r, s')" by (simp add: bind_act_def)
      show thesis
      proof (cases "built_args u c")
        case (Inl e)
        with go show thesis by (auto simp: lift_result_bind intro: refused)
      next
        case (Inr a)
        with go Some u False show thesis by (auto simp: lift_result_bind intro: ran)
      qed
    qed
  qed
qed

text \<open>
  The calls that a run of an agent may make: of registered active tools among \<open>ids\<close>, on behalf of
  that agent, within the risk limit, with the permissions granted and, where the tool wants it, an
  approval of exactly the call.
\<close>

definition agent_calls_keep ::
  "('w \<Rightarrow> bool) \<Rightarrow> 'w runtime \<Rightarrow> agent_version \<Rightarrow> string set \<Rightarrow> risk_level \<Rightarrow>
   (string \<times> string, 'w tool_definition) dict \<Rightarrow> bool" where
  "agent_calls_keep P d who ids limit G \<longleftrightarrow>
     (\<forall>t x arguments v w. registered G t \<and>
        ec_agent_id x = agv_agent_id who \<and> ec_agent_version x = agv_version who \<and>
        td_tool_id t \<in> ids \<and> td_risk_level t \<le> limit \<and>
        set (td_required_permissions t) \<subseteq> set (ec_granted_permissions x) \<and>
        (td_requires_approval t \<longrightarrow> approved_exactly d x t arguments) \<and>
        td_input t arguments = Some v \<and> P w \<longrightarrow> P (snd (td_handler t x v w)))"

lemma granted_within_manifest:
  assumes keep: "agent_calls_keep P d who (set (mau_allowed_tool_ids u)) (mau_risk_level u) G"
    and who: "agv_agent_id who = mau_agent_id u" "agv_version who = mau_agent_version u"
    and args: "built_args u c = Inr a"
  shows "granted_calls_keep P d a G"
  unfolding granted_calls_keep_def
proof (intro allI impI, elim conjE)
  fix t x arguments v w
  assume t: "registered G t" "call_granted d a x t arguments" "td_input t arguments = Some v" "P w"
  then obtain i j where same: "x\<lparr>ec_approved_action_digests := []\<rparr> =
      (execution_of d a i j)\<lparr>ec_approved_action_digests := []\<rparr>"
    by (auto simp: call_granted_def acts_for_def)
  note u = built_args_Inr [OF args]
  have x: "ec_authorized_tool_ids x = ra_authorized_tool_ids a" "ec_agent_id x = agv_agent_id who"
    "ec_agent_version x = agv_version who" "ec_max_risk_level x \<le> mau_risk_level u"
    using arg_cong [OF same, of ec_authorized_tool_ids] arg_cong [OF same, of ec_max_risk_level]
      arg_cong [OF same, of ec_agent_id] arg_cong [OF same, of ec_agent_version] u who
    by (auto simp: execution_of_def)
  from t(2) have granted: "td_tool_id t \<in> set (ec_authorized_tool_ids x)" "td_risk_level t \<le> ec_max_risk_level x"
    "set (td_required_permissions t) \<subseteq> set (ec_granted_permissions x)"
    "td_requires_approval t \<longrightarrow> approved_exactly d x t arguments"
    by (simp_all add: call_granted_def ceiling_denial_None)
  have "td_tool_id t \<in> set (mau_allowed_tool_ids u)" using granted(1) x(1) u by auto
  moreover have "td_risk_level t \<le> mau_risk_level u" using granted(2) x(4) by (rule order_trans)
  ultimately show "P (snd (td_handler t x v w))"
    using keep t x(2,3) granted(3,4) unfolding agent_calls_keep_def by blast
qed

lemma built_execute_effects:
  assumes "built_execute digest b c s = Some (r, s')" and "ba_runtime b = Some d" and "ba_authority b = Some u"
    and "agv_agent_id who = mau_agent_id u" and "agv_version who = mau_agent_version u"
    and "ports_keep P d" and "keyed (tg_tools (xs_registry (rs_tools s)))"
    and "agent_calls_keep P d who (set (mau_allowed_tool_ids u)) (mau_risk_level u) (tg_tools (xs_registry (rs_tools s)))"
    and "P (xs_app (rs_tools s))"
  shows "P (xs_app (rs_tools s'))"
  using assms(1)
proof (cases rule: built_execute_cases)
  case (ran d' u' a)
  with assms(2,3) have "execute d a s = Some (r, s')" "built_args u c = Inr a" by simp_all
  with execute_effects [OF assms(6,7) granted_within_manifest [OF assms(8,4,5)] assms(9)] show ?thesis by blast
qed (use assms(9) in simp)

lemma built_execute_comes_back:
  assumes "\<And>d a. ba_runtime b = Some d \<Longrightarrow> \<exists>r s'. execute d a s = Some (r, s')"
  shows "\<exists>r s'. built_execute digest b c s = Some (r, s')"
proof (cases "ba_runtime b")
  case (Some d)
  have ask: "\<exists>q. still_registered live u s = Some (q, s)" for live u
    by (auto simp: still_registered_def ret_def bind_act_def app_read fail_def split: option.splits sum.splits)
  have "\<exists>r s'. bind_act (still_registered (ba_registry b) u) (\<lambda>_. bind_act (lift_result (built_args u c)) (execute d)) s
      = Some (r, s')" for u
    using ask [of "ba_registry b" u] assms [OF Some] by (auto simp: bind_act_def lift_result_def split: sum.splits)
  with Some show ?thesis
    by (auto simp: built_execute_def fail_def and_then_def lift_result_bind split: sum.splits)
qed (simp add: built_execute_def fail_def)

section \<open>Building\<close>

lemma as_dependency_Inr: "as_dependency m = Inr x \<longleftrightarrow> m = Inr x"
  by (simp add: as_dependency_def split: sum.splits)

lemma resolve_components_Inr:
  assumes "resolve_components f activating cf g = Inr c"
  shows "definition_of cf (rsc_runtime_limits c) activating = Inr (rsc_definition c)"
    and "check_compatibility g activating (rsc_definition c) = Inr ()"
    and "validate_template cf (rsc_tools c) (rsc_policies c) = Inr ()"
    and "collect (resolve_tool_ref activating g) (cf_tool_refs cf) = Inr (rsc_tools c)"
    and "resolve_prompt_ref activating (cf_prompt_ref cf) g = Inr (rsc_prompt c)"
    and "collect (resolve_skill_ref activating g) (cf_skill_refs cf) = Inr (rsc_skills c)"
    and "collect (resolve_policy_ref (fa_version_rank f) activating g) (cf_policy_refs cf) = Inr (rsc_policies c)"
  using assms
  by (auto simp: resolve_components_def bindE_Inr_iff as_dependency_Inr split: prod.splits)

lemma definition_of_Inr:
  "definition_of cf limits activating = Inr a \<Longrightarrow>
     ag_identity a = cf_identity cf \<and> ag_prompt_ref a = cf_prompt_ref cf \<and>
     ag_skill_refs a = cf_skill_refs cf \<and> ag_tool_refs a = cf_tool_refs cf \<and> ag_risk_level a = cf_risk_level cf \<and>
     ag_lifecycle a = (if activating then Life_ACTIVE else Life_VALIDATED) \<and> agent_definition_ok a"
  by (auto simp: definition_of_def Let_def split: if_splits)

lemma make_manifest_Inr:
  "make_manifest digest cf a i profile limits w = (Inr m, w') \<Longrightarrow>
     mf_agent m = a \<and> mf_source m = cf \<and> digest (manifest_payload_of m) = Inr (mf_manifest_digest m)"
  by (auto simp: make_manifest_def manifest_payload_of_def Let_def now_def split: sum.splits if_splits)

lemma snapshot_graph:
  "snapshot_agents rank digest inactive overrides g = (r, g1) \<Longrightarrow>
     ct_items (cg_agents g1) = ct_items (cg_agents g) \<and> cg_prompts g1 = cg_prompts g \<and>
     cg_skills g1 = cg_skills g \<and> cg_tools g1 = cg_tools g \<and> cg_policies g1 = cg_policies g"
  by (auto simp: snapshot_agents_def on_agents_def Let_def catalog_record_snapshot_def append_event_def
      new_id_def now_def bindS_def split: prod.splits sum.splits if_splits)

lemma resolve_config_Inr:
  assumes "resolve_config f activating cf s = (Inr (c, m), s1)"
  shows "resolve_components f activating cf (fst_graph s) = Inr c"
    and "mf_agent m = rsc_definition c" and "mf_source m = cf"
    and "fa_digest f (manifest_payload_of m) = Inr (mf_manifest_digest m)"
    and "fst_built s1 = fst_built s"
    and "ct_items (cg_agents (fst_graph s1)) = ct_items (cg_agents (fst_graph s))"
    and "cg_tools (fst_graph s1) = cg_tools (fst_graph s)"
    and "cg_prompts (fst_graph s1) = cg_prompts (fst_graph s)"
    and "cg_skills (fst_graph s1) = cg_skills (fst_graph s)"
  using assms
  by (auto simp: resolve_config_def split: prod.splits sum.splits dest!: make_manifest_Inr snapshot_graph)

lemma mk_runtime_Inr:
  "mk_runtime i v d = Inr d' \<Longrightarrow> \<exists>b. d' = d\<lparr>rd_bound := b\<rparr>"
  by (auto simp: mk_runtime_def Let_def split: if_splits)

text \<open>A build that activates: what it resolved, the authority of its agent, and the state it leaves.\<close>

lemma build_Inr:
  assumes "build f False True registering cf s = (Inr b, s')"
  obtains c m s1 g d where "resolve_config f True cf s = (Inr (c, m), s1)"
    "(if registering then register_built True (rsc_definition c) (fst_graph s1) else (Inr (), fst_graph s1)) = (Inr (), g)"
    "runtime_of f c m = Inr d" "ba_manifest b = m" "ba_runtime b = Some d" "ba_registry b = Some (fa_live f)"
    "ba_authority b = Some (authority_of m (rsc_definition c) (rsc_tools c) (rsc_runtime_limits c))"
    "fst_graph s' = g"
    "fst_built s' = AList.update (ag_agent_id (rsc_definition c), ag_version (rsc_definition c)) b (fst_built s1)"
  using assms
  by (auto simp: build_def bindS_def Let_def split: prod.splits sum.splits if_splits)

lemma register_agent_step: "snd (register_agent b a g) = graph_step (AgentOp (CatalogRegister b a)) g"
  by (simp add: register_agent_def on_agents_def split: prod.splits)

lemma graph_ok_items:
  "graph_ok g \<Longrightarrow> ct_items (cg_agents g') = ct_items (cg_agents g) \<Longrightarrow> cg_prompts g' = cg_prompts g \<Longrightarrow>
   cg_skills g' = cg_skills g \<Longrightarrow> cg_tools g' = cg_tools g \<Longrightarrow> graph_ok g'"
  by (simp add: graph_ok_def catalog_ok_def)

lemma register_agent_Inr:
  assumes "register_agent b a g = (Inr x, g1)"
  shows "map_of (ct_items (cg_agents g1)) (ag_agent_id a, ag_version a) = Some a"
proof -
  from assms obtain c1 where run: "catalog_register agent_kind (validate_agent_components g) b a (cg_agents g) = (Inr x, c1)"
    and g1: "g1 = g\<lparr>cg_agents := c1\<rparr>"
    by (auto simp: register_agent_def on_agents_def split: prod.splits)
  let ?c = "(cg_agents g)\<lparr>ct_items := AList.update (kd_key agent_kind a) a (ct_items (cg_agents g))\<rparr>"
  from run have "c1 = snd (catalog_changed agent_kind ''registered'' (kd_key agent_kind a) None
      (Some (kd_status agent_kind a)) ?c)"
    by (auto simp: catalog_register_def bindS_def split: if_splits sum.splits prod.splits)
  then have "ct_items c1 = AList.update (kd_key agent_kind a) a (ct_items (cg_agents g))"
    by (simp add: catalog_changed_items)
  with g1 show ?thesis by (simp add: agent_kind_def)
qed

lemma register_built_resolves:
  assumes ok: "graph_ok g" and run: "register_built True a g = (Inr (), g2)" and active: "ag_lifecycle a = Life_ACTIVE"
  shows "resolve_agent (ag_agent_id a) (Some (ag_version a)) g2 = Inr a"
proof -
  from run obtain x g1 y where reg: "register_agent False a g = (Inr x, g1)"
    and act: "activate_agent (ag_agent_id a, ag_version a) g1 = (Inr y, g2)"
    by (auto simp: register_built_def bindS_def split: prod.splits sum.splits)
  from graph_step_ok [OF ok, of "AgentOp (CatalogRegister False a)"] reg have ok1: "graph_ok g1"
    by (metis register_agent_step snd_conv)
  from act obtain c2 where "catalog_activate agent_kind (validate_agent_components g1)
      (ag_agent_id a, ag_version a) (cg_agents g1) = (Inr y, c2)"
    by (auto simp: activate_agent_def on_agents_def split: prod.splits)
  from activate_agent_Inr [OF ok1 this] register_agent_Inr [OF reg] have "y = a\<lparr>ag_lifecycle := Life_ACTIVE\<rparr>"
    by auto
  with active have "y = a" by simp
  with activation_resolves [OF ok1 act] show ?thesis by simp
qed

section \<open>When a build succeeds\<close>

definition ids_given :: "'d catalog \<Rightarrow> bool" where
  "ids_given c \<longleftrightarrow> (\<forall>n. make_id (ct_world c) ''registry_event'' n \<noteq> [])"

lemma append_event_succeeds:
  assumes "ids_given c" and "registry_id \<noteq> []" "operation \<noteq> []" "kind \<noteq> []" "i \<noteq> []" "v \<noteq> []"
  shows "\<exists>c1. append_event registry_id operation kind i v a b md c = (Inr (), c1) \<and> ids_given c1 \<and>
           ct_items c1 = ct_items c"
  using assms by (simp add: append_event_def new_id_def now_def registry_event_ok_def ids_given_def Let_def)

lemma agent_changed_succeeds:
  assumes "ids_given c" "operation \<noteq> []" "fst k \<noteq> []" "snd k \<noteq> []"
  shows "\<exists>c1. catalog_changed agent_kind operation k a b c = (Inr (), c1) \<and> ids_given c1 \<and> ct_items c1 = ct_items c"
  using assms append_event_succeeds [of "c\<lparr>ct_revision := Suc (ct_revision c)\<rparr>" "''agents''" operation "''agent''"]
  by (simp add: catalog_changed_def agent_kind_def ids_given_def)

lemma record_snapshot_succeeds:
  assumes "ids_given c" and "rsn_snapshot_id x \<noteq> []"
  shows "\<exists>c1. catalog_record_snapshot agent_kind x md c = (Inr (), c1) \<and> ids_given c1"
  using assms append_event_succeeds [of c "''agents''" "''snapshot_created''" "''snapshot''" "rsn_snapshot_id x"
      "str_nat (rsn_revision x)" None None md]
  by (auto simp: catalog_record_snapshot_def agent_kind_def)

lemma snapshot_succeeds:
  assumes "ids_given (cg_agents g)"
  shows "\<exists>x g1. snapshot_agents rank digest inactive overrides g = (Inr x, g1) \<and> ids_given (cg_agents g1) \<and>
           rsn_snapshot_id x \<noteq> []"
proof -
  have "\<exists>x md. snapshot_agents rank digest inactive overrides g =
      on_agents (\<lambda>c. bindS (catalog_record_snapshot agent_kind x md c) (\<lambda>_ c1. (Inr x, c1))) g \<and>
      rsn_snapshot_id x \<noteq> []"
    unfolding snapshot_agents_def Let_def
    by (intro exI conjI, rule refl) (simp add: stable_snapshot_id_def)
  then obtain x md where x: "snapshot_agents rank digest inactive overrides g =
      on_agents (\<lambda>c. bindS (catalog_record_snapshot agent_kind x md c) (\<lambda>_ c1. (Inr x, c1))) g"
    "rsn_snapshot_id x \<noteq> []" by blast
  from record_snapshot_succeeds [OF assms x(2), of md] x show ?thesis by (auto simp: on_agents_def)
qed

text \<open>A manifest is accepted when its digest is a text.\<close>

definition digest_given :: "manifest_digest \<Rightarrow> bool" where
  "digest_given digest \<longleftrightarrow> (\<forall>p. \<exists>h. digest p = Inr h \<and> h \<noteq> [])"

lemma make_manifest_succeeds:
  assumes "digest_given digest" and "agent_definition_ok a" and "i \<noteq> []"
  shows "\<exists>m w1. make_manifest digest cf a i profile limits w = (Inr m, w1) \<and>
           mf_prompt_ref m = ag_prompt_ref a \<and> mf_skill_refs m = ag_skill_refs a"
  using assms
  by (auto simp: make_manifest_def digest_given_def Let_def now_def resolved_manifest_ok_def agent_identity_def
      agent_definition_ok_def references_ok_def split: sum.splits)
    (metis Inl_Inr_False sum.inject(2))+

lemma register_agent_succeeds:
  assumes "ids_given (cg_agents g)" and "agent_definition_ok a"
    and "map_of (ct_items (cg_agents g)) (ag_agent_id a, ag_version a) = None"
    and "ag_lifecycle a = Life_ACTIVE" and "validate_agent_components g [Life_ACTIVE] a = Inr ()"
  shows "\<exists>g1. register_agent False a g = (Inr a, g1) \<and> ids_given (cg_agents g1)"
proof -
  let ?c = "(cg_agents g)\<lparr>ct_items := AList.update (kd_key agent_kind a) a (ct_items (cg_agents g))\<rparr>"
  have "fst (kd_key agent_kind a) \<noteq> []" "snd (kd_key agent_kind a) \<noteq> []"
    using assms(2) by (auto simp: agent_definition_ok_def agent_version_ok_def slug_ok_def agent_kind_def
        ag_agent_id_def ag_version_def)
  from agent_changed_succeeds [of ?c "''registered''" "kd_key agent_kind a" None "Some Life_ACTIVE", OF _ _ this] assms(1)
  obtain c1 where "catalog_changed agent_kind ''registered'' (kd_key agent_kind a) None (Some Life_ACTIVE) ?c = (Inr (), c1)"
    "ids_given c1" by (auto simp: ids_given_def)
  with assms(3,4,5) show ?thesis
    by (simp add: register_agent_def on_agents_def catalog_register_def allowed_statuses_def agent_kind_def)
qed

lemma register_built_succeeds:
  assumes "ids_given (cg_agents g)" and "agent_definition_ok a"
    and "map_of (ct_items (cg_agents g)) (ag_agent_id a, ag_version a) = None"
    and active: "ag_lifecycle a = Life_ACTIVE" and check: "validate_agent_components g [Life_ACTIVE] a = Inr ()"
  shows "\<exists>g1. register_built True a g = (Inr (), g1)"
proof -
  from register_agent_succeeds [OF assms] obtain g1 where reg: "register_agent False a g = (Inr a, g1)" by blast
  have "g1 = g\<lparr>cg_agents := cg_agents g1\<rparr>"
    using reg by (auto simp: register_agent_def on_agents_def split: prod.splits)
  with check have "validate_agent_components g1 [Life_ACTIVE] a = Inr ()"
    by (metis same_components_graph)
  with register_agent_Inr [OF reg] reg active show ?thesis
    by (simp add: register_built_def activate_agent_def on_agents_def catalog_activate_def catalog_get_def
        activate_checked_def agent_kind_def)
qed

lemma resolved_prompt_key:
  assumes "graph_ok g" and "resolve_prompt_ref True r g = Inr p"
  shows "(pmt_prompt_id p, pmt_version p) = reference_key r"
proof -
  from assms(2) have "map_of (ct_items (cg_prompts g)) (reference_key r) = Some p"
    by (auto simp: resolve_prompt_ref_def as_dependency_Inr resolve_prompt_def catalog_resolve_def
        bindE_Inr_iff reference_key_def split: option.splits if_splits)
  with assms(1) have "kd_key prompt_kind p = reference_key r"
    by (auto simp: graph_ok_def intro: catalog_okD)
  then show ?thesis by (simp add: prompt_kind_def)
qed

lemma resolved_skill_key:
  assumes "graph_ok g" and "resolve_skill_ref True g r = Inr k"
  shows "(sk_skill_id k, sk_version k) = reference_key r"
proof -
  from assms(2) have "map_of (ct_items (cg_skills g)) (reference_key r) = Some k"
    by (auto simp: resolve_skill_ref_def as_dependency_Inr resolve_skill_def catalog_resolve_def
        bindE_Inr_iff reference_key_def split: option.splits if_splits)
  with assms(1) have "kd_key skill_kind k = reference_key r"
    by (auto simp: graph_ok_def intro: catalog_okD)
  then show ?thesis by (simp add: skill_kind_def)
qed

lemma runtime_of_succeeds:
  assumes "graph_ok g" and "resolve_components f True cf g = Inr c"
    and m: "mf_prompt_ref m = cf_prompt_ref cf" "mf_skill_refs m = cf_skill_refs cf"
  shows "\<exists>d. runtime_of f c m = Inr d"
proof -
  note R = resolve_components_Inr [OF assms(2)]
  have prompt: "(pmt_prompt_id (rsc_prompt c), pmt_version (rsc_prompt c)) = reference_key (cf_prompt_ref cf)"
    by (rule resolved_prompt_key [OF assms(1) R(5)])
  have "list_all2 (\<lambda>r k. resolve_skill_ref True g r = Inr k) (cf_skill_refs cf) (rsc_skills c)"
    using R(6) by (simp add: collect_Inr_iff)
  then have "map (\<lambda>k. (sk_skill_id k, sk_version k)) (rsc_skills c) = map reference_key (cf_skill_refs cf)"
    by (induction rule: list_all2_induct) (auto dest: resolved_skill_key [OF assms(1)])
  with prompt m show ?thesis
    by (simp add: runtime_of_def mk_runtime_def reference_key_def)
qed

text \<open>
  A build that registers and activates succeeds when its components resolve and its version is new,
  given identifiers and a digest.
\<close>

lemma build_succeeds:
  assumes ok: "graph_ok (fst_graph s)" and C: "resolve_components f True cf (fst_graph s) = Inr c"
    and new: "map_of (ct_items (cg_agents (fst_graph s))) (agv_agent_id (cf_identity cf), agv_version (cf_identity cf)) = None"
    and ids: "ids_given (cg_agents (fst_graph s))" and digest: "digest_given (fa_digest f)"
  shows "\<exists>b s'. build f False True True cf s = (Inr b, s')"
proof -
  note R = resolve_components_Inr [OF C]
  note A = definition_of_Inr [OF R(1)]
  from snapshot_succeeds [OF ids] obtain x g1 where
    snap: "snapshot_agents (fa_version_rank f) (fa_snapshot_digest f) False [rsc_definition c] (fst_graph s) = (Inr x, g1)"
    and g1: "ids_given (cg_agents g1)" "rsn_snapshot_id x \<noteq> []" by force
  from make_manifest_succeeds [OF digest _ g1(2)] A obtain m w1 where
    man: "make_manifest (fa_digest f) cf (rsc_definition c) (rsn_snapshot_id x) (rsc_runtime_profile c)
      (rsc_runtime_limits c) (fst_world s) = (Inr m, w1)"
    and refs: "mf_prompt_ref m = cf_prompt_ref cf" "mf_skill_refs m = cf_skill_refs cf" by metis
  have same: "g1 = (fst_graph s)\<lparr>cg_agents := cg_agents g1\<rparr>"
    using snapshot_graph [OF snap] by simp
  have "validate_agent_components (fst_graph s) [Life_ACTIVE] (rsc_definition c) = Inr ()"
    using R(2) by (simp add: check_compatibility_def)
  then have check: "validate_agent_components g1 [Life_ACTIVE] (rsc_definition c) = Inr ()"
    by (metis same same_components_graph)
  have "\<exists>g2. register_built True (rsc_definition c) g1 = (Inr (), g2)"
    by (rule register_built_succeeds [OF g1(1) _ _ _ check])
      (use A new snapshot_graph [OF snap] in \<open>simp_all add: ag_agent_id_def ag_version_def\<close>)
  then obtain g2 where reg: "register_built True (rsc_definition c) g1 = (Inr (), g2)" by blast
  from runtime_of_succeeds [OF ok C refs] obtain d where "runtime_of f c m = Inr d" by blast
  with C snap man reg show ?thesis
    by (simp add: build_def resolve_config_def Let_def)
qed

end
