(* ===== verification/Factory_Properties.thy ===== *)
theory Factory_Properties
  imports Factory_Correct
begin

text \<open>
  The properties of the agent factory, from a declarative configuration over the registries to the
  runs of the agent that is built from it.
\<close>

section \<open>The build\<close>

lemma authority_of_sel [simp]:
  "mau_manifest_digest (authority_of m a tools limits) = mf_manifest_digest m"
  "mau_agent_id (authority_of m a tools limits) = ag_agent_id a"
  "mau_agent_version (authority_of m a tools limits) = ag_version a"
  "set (mau_allowed_tool_ids (authority_of m a tools limits)) = cr_component_id ` set (ag_tool_refs a)"
  "mau_risk_level (authority_of m a tools limits) = ag_risk_level a"
  by (simp_all add: authority_of_def)

text \<open>
  C16: a build keeps its word about the registry. When a build with registration and activation
  succeeds, the agent it describes is registered, and resolving it returns exactly the definition of
  the manifest; \<open>runtime_for\<close> hands out the built agent; and its manifest passes the integrity check
  that every run starts with.
\<close>

theorem built_agent_resolves:
  assumes "graph_ok (fst_graph s)" and "build f False True True cf s = (Inr b, s')"
  shows "resolve_agent (agv_agent_id (cf_identity cf)) (Some (agv_version (cf_identity cf))) (fst_graph s') =
           Inr (mf_agent (ba_manifest b)) \<and>
         runtime_for (agv_agent_id (cf_identity cf)) (agv_version (cf_identity cf)) (fst_built s') = Inr b \<and>
         assert_manifest_integrity (fa_digest f) b = Inr ()"
proof -
  obtain c m s1 g d where
    conf: "resolve_config f True cf s = (Inr (c, m), s1)" and
    reg: "register_built True (rsc_definition c) (fst_graph s1) = (Inr (), g)" and
    b: "ba_manifest b = m" "ba_runtime b = Some d"
       "ba_authority b = Some (authority_of m (rsc_definition c) (rsc_tools c) (rsc_runtime_limits c))" and
    s': "fst_graph s' = g"
       "fst_built s' = AList.update (ag_agent_id (rsc_definition c), ag_version (rsc_definition c)) b (fst_built s1)"
    using assms(2) by (rule build_Inr) (rule that, simp_all)
  note C = resolve_config_Inr [OF conf]
  note A = definition_of_Inr [OF resolve_components_Inr(1) [OF C(1)]]
  have ids: "ag_agent_id (rsc_definition c) = agv_agent_id (cf_identity cf)"
    "ag_version (rsc_definition c) = agv_version (cf_identity cf)"
    using A by (simp_all add: ag_agent_id_def ag_version_def)
  have "graph_ok (fst_graph s1)"
    by (rule graph_ok_items [OF assms(1) C(6,8,9,7)])
  from register_built_resolves [OF this reg] A s' ids C(2) b(1)
  have "resolve_agent (agv_agent_id (cf_identity cf)) (Some (agv_version (cf_identity cf))) (fst_graph s') =
      Inr (mf_agent (ba_manifest b))" by simp
  moreover have "runtime_for (agv_agent_id (cf_identity cf)) (agv_version (cf_identity cf)) (fst_built s') = Inr b"
    using s' ids b(2) by (simp add: runtime_for_def)
  moreover have "assert_manifest_integrity (fa_digest f) b = Inr ()"
    using C(4) b by (simp add: assert_manifest_integrity_def require_authority_def)
  ultimately show ?thesis by blast
qed


section \<open>Templates\<close>

lemma covering_rule_matches:
  assumes "approval_rule_covers_tool cf (pr_tool p) r"
    and "ec_agent_id (pr_execution p) = agv_agent_id (cf_identity cf)"
  shows "rule_matches r p \<and> rule_requires_approval r = Some True"
  using assms by (auto simp: approval_rule_covers_tool_def rule_matches_def Let_def)

lemma default_engine_sel [simp]:
  "pe_policies (default_engine c) = rsc_policies c" "pe_hooks (default_engine c) = []"
  by (simp_all add: default_engine_def)

lemma authorize_allowed:
  assumes "authorize sha dumps pe p e = (Inr d, e')" and "pm_allowed d" and "approval_demanded pe p"
  shows "action_digest sha dumps (pr_tool p) (pr_arguments p) \<in> set (ec_approved_action_digests (pr_execution p))"
proof -
  from assms(1,2) obtain pd e1 where ev: "evaluate pe p e = (Inr pd, e1)" "pd_allowed pd"
    and digest: "\<not> pd_approval_required pd \<or>
      action_digest sha dumps (pr_tool p) (pr_arguments p) \<in> set (ec_approved_action_digests (pr_execution p))"
    by (auto simp: authorize_def permission_of_def split: prod.splits sum.splits if_splits)
  from evaluate_Inr [OF ev(1)] obtain i where "decide_proposal pe p (base_decision i p) = Inr pd" by blast
  from decide_proposal_Inr [OF this] ev(2) digest assms(3) show ?thesis by auto
qed

text \<open>
  C12: the approval-gated template keeps its promise. Resolve a configuration with this template and
  let the factory's default permission broker decide about a call of one of the agent's tools that is
  not a read: whenever it allows the call, the digest of exactly that call, tool, version and
  arguments, is among the approved ones of the execution.
\<close>

theorem gated_template_gates:
  assumes "resolve_components f activating cf g = Inr c"
    and "cf_template cf = Some Template_APPROVAL_GATED_OPERATOR" and "fa_permission f = None"
    and "pr_tool p \<in> set (rsc_tools c)" and "td_kind (pr_tool p) \<noteq> Kind_READ"
    and "ec_agent_id (pr_execution p) = agv_agent_id (cf_identity cf)"
    and "permission_port f c p w = (Inr d, w')" and "pm_allowed d"
  shows "action_digest (tv_sha256 (le_tool (fa_lib f))) (tv_dumps (le_tool (fa_lib f))) (pr_tool p) (pr_arguments p)
           \<in> set (ec_approved_action_digests (pr_execution p))"
proof -
  have "unprotected_tools cf (rsc_tools c) (rsc_policies c) = []"
    using resolve_components_Inr(3) [OF assms(1)] assms(2)
    by (auto simp: validate_template_def split: if_splits)
  with assms(4,5) have "td_requires_approval (pr_tool p) \<or>
      (\<exists>pol \<in> set (rsc_policies c). \<exists>r \<in> set (pol_rules pol). approval_rule_covers_tool cf (pr_tool p) r)"
    by (auto simp: unprotected_tools_def non_read_tools_def filter_eq_Nil_iff list_ex_iff)
  then have "rules_require_approval (default_engine c) p"
    using covering_rule_matches [OF _ assms(6)]
    by (fastforce simp: rules_require_approval_def list_ex_iff matched_rules_def)
  then have demanded: "approval_demanded (default_engine c) p" by (simp add: approval_demanded_def)
  from assms(3,7) obtain e' where "authorize (tv_sha256 (le_tool (fa_lib f))) (tv_dumps (le_tool (fa_lib f)))
      (default_engine c) p (fa_engine_get f w) = (Inr d, e')"
    by (auto simp: permission_port_def split: prod.splits)
  from authorize_allowed [OF this assms(8) demanded] show ?thesis .
qed

section \<open>The version ceiling\<close>

text \<open>
  C20: an empty list of tool versions lifts the version ceiling of a built agent. A step for an
  exact active version of an authorized tool passes the plan validation of the run precisely when the
  selected versions name it or there are none; a caller that passes an empty list of versions, which
  the check against the manifest accepts, therefore has every version of the tool accepted, also
  those outside the manifest.
\<close>

theorem empty_versions_lift_ceiling:
  assumes "built_args u c = Inr a" and "get_tool (ps_tool_id p) (Some v) False g = Inr t"
    and "ps_tool_version p = Some v"
  shows "(validate_steps (execution_of d a i j) g [p] = Inr () \<longleftrightarrow>
            ra_authorized_tool_versions a = [] \<or> tool_reference (ps_tool_id p) v \<in> set (ra_authorized_tool_versions a)) \<and>
         (bc_tool_versions c = Some [] \<longrightarrow> validate_steps (execution_of d a i j) g [p] = Inr ())"
proof -
  have "bc_tool_versions c = Some [] \<Longrightarrow> ra_authorized_tool_versions a = []"
    using assms(1) by (auto simp: built_args_def bindE_Inr_iff selected_tool_versions_def)
  then show ?thesis
    using assms(2,3) by (auto simp: execution_of_def tool_reference_def)
qed

section \<open>A small factory\<close>

text \<open>The graph of \<open>clerk_graph\<close> without its agent, with a policy that gates every tool.\<close>

definition gate_policy :: policy_definition where
  "gate_policy =
     clerk_policy\<lparr>pol_policy_id := ''gate'',
       pol_rules := [(default_rule clerk_policy)\<lparr>rule_rule_id := ''all'', rule_requires_approval := Some True\<rparr>]\<rparr>"

definition desk_graph :: "nat component_registries" where
  "desk_graph =
     (clerk_graph Life_DRAFT)\<lparr>cg_agents := empty_catalog clerk_world,
       cg_policies := [((''gate'', ''1.0.0''), gate_policy)]\<rparr>"

definition desk_config :: agent_config where
  "desk_config =
     \<lparr>cf_identity = ag_identity clerk, cf_goal = ag_goal clerk, cf_supported_intents = [],
      cf_supported_languages = [], cf_prompt_ref = ag_prompt_ref clerk, cf_skill_refs = ag_skill_refs clerk,
      cf_tool_refs = ag_tool_refs clerk, cf_policy_refs = [at_version_one Component_POLICY ''gate''],
      cf_provider_profile = ag_provider_profile clerk, cf_runtime_profile = None, cf_runtime_limits = None,
      cf_risk_level = Risk_LOW, cf_approval_requirements = [], cf_state_strategy = None,
      cf_memory_strategy = None, cf_owner_id = ''application'',
      cf_template = Some Template_APPROVAL_GATED_OPERATOR, cf_performance_metadata = []\<rparr>"

definition desk_clerk :: agent_definition where
  "desk_clerk =
     clerk\<lparr>ag_policy_refs := [at_version_one Component_POLICY ''gate''], ag_lifecycle := Life_ACTIVE\<rparr>"

definition desk_factory :: "nat factory" where
  "desk_factory =
     \<lparr>fa_live = (\<lambda>_. clerk_graph Life_ACTIVE), fa_version_rank = (\<lambda>_. None), fa_snapshot_digest = (\<lambda>_. ''s''),
      fa_digest = (\<lambda>_. Inr ''d''), fa_lib = sample_lib,
      fa_providers = [((''p'', ''1.0.0''), sample_provider)], fa_profiles = [], fa_memory = [],
      fa_stores = [], fa_default_store = sample_store, fa_permission = None,
      fa_engine_get = (\<lambda>_. \<lparr>pes_world = clerk_world, pes_decisions = []\<rparr>), fa_engine_put = (\<lambda>_ w. w),
      fa_broker = None, fa_approval_policy = None, fa_call_policy = None\<rparr>"

definition desk_components :: "nat resolved_components" where
  "desk_components =
     \<lparr>rsc_definition = desk_clerk, rsc_provider = sample_provider, rsc_runtime_profile = None,
      rsc_runtime_limits = default_runtime_config, rsc_prompt = clerk_prompt, rsc_skills = [clerk_skill],
      rsc_tools = [tallying_tool], rsc_policies = [gate_policy], rsc_memory = None, rsc_store = sample_store\<rparr>"

definition desk_state :: "nat factory_state" where
  "desk_state = \<lparr>fst_graph = desk_graph, fst_world = clerk_world, fst_built = []\<rparr>"

lemma desk_graph_sel [simp]:
  "cg_prompts desk_graph = cg_prompts (clerk_graph Life_DRAFT)"
  "cg_skills desk_graph = cg_skills (clerk_graph Life_DRAFT)"
  "cg_tools desk_graph = tallying_registry"
  by (simp_all add: desk_graph_def clerk_graph_def)

lemma desk_graph_ok: "graph_ok desk_graph"
  using clerk_graph_ok [of Life_DRAFT]
  by (simp add: graph_ok_def desk_graph_def catalog_ok_def empty_catalog_def)

lemma clerk_skill_checked: "validate_skill_tools (Some tallying_registry) [Life_ACTIVE] clerk_skill = Inr ()"
  using tally_checked
  by (simp add: validate_skill_tools_def clerk_skill_def validate_required_tool_def get_tool_for_reference_eq
      at_version_one_def reference_key_def tallying_tools tallying_tool_sel)

lemma desk_checked: "validate_agent_components desk_graph [Life_ACTIVE] desk_clerk = Inr ()"
  using tally_checked clerk_skill_checked
  by (simp add: validate_agent_components_def agent_prompt_def agent_skill_def agent_tool_def agent_policy_def
      desk_clerk_def clerk_def clerk_graph_def catalog_get_def get_skill_def at_version_one_def reference_key_def
      get_tool_def tallying_tools tallying_tool_sel clerk_prompt_def desk_graph_def gate_policy_def
      clerk_policy_def skill_covered_def)
     (simp add: clerk_skill_def at_version_one_def reference_key_def)

lemma desk_definition: "definition_of desk_config default_runtime_config True = Inr desk_clerk"
proof -
  have "agent_definition_ok desk_clerk"
    using clerk_graph_typed [of Life_DRAFT]
    by (simp add: graph_typed_def items_typed_def clerk_graph_def desk_clerk_def agent_definition_ok_def
        references_ok_def at_version_one_def)
  then show ?thesis
    by (simp add: definition_of_def desk_config_def desk_clerk_def clerk_def)
qed

lemma desk_resolved: "resolve_components desk_factory True desk_config desk_graph = Inr desk_components"
proof -
  have "resolve_prompt_ref True (cf_prompt_ref desk_config) desk_graph = Inr clerk_prompt"
    by (simp add: resolve_prompt_ref_def as_dependency_def resolve_prompt_def catalog_resolve_def no_check_def
        desk_config_def clerk_def at_version_one_def clerk_graph_def prompt_kind_def clerk_prompt_def)
  moreover have "validate_context_budget clerk_prompt default_runtime_config = Inr ()"
    by (simp add: validate_context_budget_def minimum_configured_required_characters_def policy_text_def
        prompt_content_def clerk_prompt_def default_runtime_config_def)
  moreover have "collect (resolve_skill_ref True desk_graph) (cf_skill_refs desk_config) = Inr [clerk_skill]"
    using clerk_skill_checked
    by (simp add: resolve_skill_ref_def as_dependency_def resolve_skill_def catalog_resolve_def
        desk_config_def clerk_def at_version_one_def clerk_graph_def skill_kind_def)
       (simp add: clerk_skill_def)
  moreover have "collect (resolve_tool_ref True desk_graph) (cf_tool_refs desk_config) = Inr [tallying_tool]"
    by (simp add: resolve_tool_ref_def desk_config_def clerk_def at_version_one_def get_tool_def
        tallying_tools assert_active_def tallying_tool_sel)
  moreover have "collect (resolve_policy_ref (fa_version_rank desk_factory) True desk_graph)
      (cf_policy_refs desk_config) = Inr [gate_policy]"
    by (simp add: resolve_policy_ref_def policy_catalog_def desk_config_def at_version_one_def desk_graph_def
        policy_key_def gate_policy_def clerk_policy_def reference_key_def)
  moreover have "validate_template desk_config [tallying_tool] [gate_policy] = Inr ()"
    by (simp add: validate_template_def desk_config_def non_read_tools_def unprotected_tools_def
        approval_rule_covers_tool_def gate_policy_def clerk_policy_def default_rule_def)
       (simp add: tallying_tool_def counting_tool_def)
  moreover have "as_dependency (check_compatibility desk_graph True desk_clerk) = Inr ()"
    by (simp add: check_compatibility_def desk_checked as_dependency_def)
  moreover have "resolve_provider (cf_provider_profile desk_config) (fa_providers desk_factory) = Inr sample_provider"
    by (simp add: resolve_provider_def provider_key_def desk_config_def clerk_def desk_factory_def)
  moreover have "resolve_limits desk_config desk_factory = Inr (None, default_runtime_config)"
    by (simp add: resolve_limits_def desk_config_def)
  moreover have "resolve_memory (cf_memory_strategy desk_config) desk_factory = Inr None"
    "resolve_state (cf_state_strategy desk_config) desk_factory = Inr sample_store"
    by (simp_all add: resolve_memory_def resolve_state_def desk_config_def desk_factory_def)
  ultimately show ?thesis
    by (simp add: resolve_components_def desk_definition desk_components_def)
qed

lemma desk_builds: "\<exists>b s'. build desk_factory False True True desk_config desk_state = (Inr b, s')"
proof (rule build_succeeds)
  show "graph_ok (fst_graph desk_state)" by (simp add: desk_state_def desk_graph_ok)
  show "resolve_components desk_factory True desk_config (fst_graph desk_state) = Inr desk_components"
    by (simp add: desk_state_def desk_resolved)
qed (simp_all add: desk_state_def desk_graph_def empty_catalog_def ids_given_def clerk_world_def digest_given_def
      desk_factory_def)

theorem built_agent_resolves_witness:
  "\<exists>b (s' :: nat factory_state). resolve_agent ''clerk'' (Some ''1.0.0'') (fst_graph s') = Inr (mf_agent (ba_manifest b)) \<and>
     runtime_for ''clerk'' ''1.0.0'' (fst_built s') = Inr (b :: nat built_agent)"
proof -
  from desk_builds obtain b s' where b: "build desk_factory False True True desk_config desk_state = (Inr b, s')" by blast
  have ok: "graph_ok (fst_graph desk_state)" by (simp add: desk_state_def desk_graph_ok)
  have "agv_agent_id (cf_identity desk_config) = ''clerk''" "agv_version (cf_identity desk_config) = ''1.0.0''"
    by (simp_all add: desk_config_def clerk_def)
  with built_agent_resolves [OF ok b] show ?thesis by (simp only:) blast
qed



text \<open>A proposal of the gated tool, with exactly that call approved.\<close>

definition desk_execution :: execution_context where
  "desk_execution =
     (execution_of sample_runtime (sample_args [''tally'']) ''run'' ''state'')\<lparr>ec_agent_id := ''clerk'',
       ec_max_risk_level := Risk_LOW,
       ec_approved_action_digests := [action_digest (tv_sha256 plain_env) (tv_dumps plain_env) tallying_tool []]\<rparr>"

definition desk_proposal :: "nat proposal" where
  "desk_proposal =
     \<lparr>pr_principal = ra_principal (sample_args []), pr_execution = desk_execution, pr_tool = tallying_tool,
      pr_arguments = [], pr_resource = None\<rparr>"

lemma tallying_tool_more:
  "td_tool_id tallying_tool = ''tally''" "td_version tallying_tool = ''1.0.0''" "td_kind tallying_tool = Kind_WRITE"
  "td_requires_approval tallying_tool = False" "td_allowed_environments tallying_tool = []"
  "td_required_permissions tallying_tool = []"
  by (simp_all add: tallying_tool_def counting_tool_def)

lemma desk_proposal_sel:
  "pr_tool desk_proposal = tallying_tool" "pr_arguments desk_proposal = []" "pr_resource desk_proposal = None"
  "ec_principal (pr_execution desk_proposal) = pr_principal desk_proposal"
  "ec_agent_id (pr_execution desk_proposal) = ''clerk''"
  "ec_authorized_tool_ids (pr_execution desk_proposal) = [''tally'']"
  "ec_granted_permissions (pr_execution desk_proposal) = []"
  "ec_environment (pr_execution desk_proposal) = ''development''"
  "ec_max_risk_level (pr_execution desk_proposal) = Risk_LOW"
  "pr_principal desk_proposal = \<lparr>pc_principal_id = ''p'', pc_tenant_id = ''t'', pc_session_id = ''s''\<rparr>"
  "ec_approved_action_digests (pr_execution desk_proposal) =
     [action_digest (tv_sha256 plain_env) (tv_dumps plain_env) tallying_tool []]"
  by (simp_all add: desk_proposal_def desk_execution_def execution_of_def sample_args_def sample_runtime_def
      default_runtime_config_def or_else_def)

lemma desk_engine: "default_engine desk_components =
    \<lparr>pe_policies = [gate_policy], pe_principal_tool_permissions = None, pe_principal_permissions = None,
     pe_agent_tool_allowlists = Some [(''clerk'', [''tally''])], pe_environment_constraints = [],
     pe_environment_tool_allowlists = None, pe_max_risk_by_environment = [], pe_hooks = []\<rparr>"
  by (simp add: default_engine_def desk_components_def tallying_tool_more desk_clerk_def clerk_def ag_agent_id_def)

lemma gate_policy_sel:
  "pol_default_effect gate_policy = Effect_ALLOW" "pol_lifecycle gate_policy = Life_ACTIVE" "pol_policy_id gate_policy = ''gate''" "pol_version gate_policy = ''1.0.0''"
  "pol_rules gate_policy = [(default_rule clerk_policy)\<lparr>rule_rule_id := ''all'', rule_requires_approval := Some True\<rparr>]"
  by (simp_all add: gate_policy_def clerk_policy_def)

lemma gate_rule_matches:
  "rule_matches ((default_rule clerk_policy)\<lparr>rule_rule_id := ''all'', rule_requires_approval := Some True\<rparr>) desk_proposal"
  by (simp add: rule_matches_def default_rule_def Let_def)

lemma desk_authority: "authority_denial (default_engine desk_components) desk_proposal = None"
  by (simp add: authority_denial_def desk_proposal_sel tallying_tool_sel tallying_tool_more desk_engine Let_def
      mapping_denies_def principal_permission_denies_def environment_failure_def missing_permissions_def)

lemma desk_decides:
  "\<exists>d. decide_proposal (default_engine desk_components) desk_proposal (base_decision ''policy_decision'' desk_proposal) = Inr d \<and>
     pd_allowed d"
  by (simp add: decide_proposal_def desk_authority [unfolded desk_engine] evaluate_definitions_def desk_engine gate_policy_sel
      policy_targets_def matched_rules_def gate_rule_matches matched_ids_def rules_require_approval_def
      mk_decision_def policy_decision_ok_def base_decision_def desk_proposal_sel tallying_tool_sel tallying_tool_more
      opt_nonempty_def Let_def default_rule_def clerk_policy_def)

lemma desk_permits:
  "\<exists>d w'. permission_port desk_factory desk_components desk_proposal w = (Inr d, w') \<and> pm_allowed d"
proof -
  from desk_decides obtain d where
    d: "decide_proposal (default_engine desk_components) desk_proposal (base_decision ''policy_decision'' desk_proposal) = Inr d"
    "pd_allowed d" by blast
  then show ?thesis
    by (simp add: permission_port_def desk_factory_def authorize_def evaluate_def new_id_def clerk_world_def
        permission_of_def desk_proposal_sel sample_lib_def Let_def)
qed

theorem gated_template_gates_witness:
  "action_digest (tv_sha256 plain_env) (tv_dumps plain_env) tallying_tool []
     \<in> set (ec_approved_action_digests (pr_execution desk_proposal))"
proof -
  from desk_permits [of 0] obtain d w' where
    d: "permission_port desk_factory desk_components desk_proposal 0 = (Inr d, w')" "pm_allowed d" by blast
  have side: "cf_template desk_config = Some Template_APPROVAL_GATED_OPERATOR" "fa_permission desk_factory = None"
    "pr_tool desk_proposal \<in> set (rsc_tools desk_components)" "td_kind (pr_tool desk_proposal) \<noteq> Kind_READ"
    "ec_agent_id (pr_execution desk_proposal) = agv_agent_id (cf_identity desk_config)"
    by (simp_all add: desk_config_def clerk_def desk_factory_def desk_proposal_sel desk_components_def tallying_tool_more)
  from gated_template_gates [OF desk_resolved side d] show ?thesis
    by (simp add: desk_factory_def sample_lib_def desk_proposal_sel)
qed

text \<open>An agent whose manifest names one version of the counting tool, and a registry that has two.\<close>

definition pinned_authority :: manifest_authority where
  "pinned_authority =
     \<lparr>mau_manifest_digest = ''d'', mau_agent_id = ''clerk'', mau_agent_version = ''1.0.0'',
      mau_allowed_tool_ids = [''count''], mau_allowed_tool_versions = [''count@1.0.0''],
      mau_tool_permissions = [], mau_risk_level = Risk_LOW, mau_max_plan_steps = 3\<rparr>"

definition two_versions :: "nat tool_registry" where
  "two_versions = snd (register_tool (counting_tool\<lparr>td_version := ''2.0.0''\<rparr>) counting_registry)"

theorem empty_versions_lift_ceiling_witness:
  "validate_steps (execution_of sample_runtime ((sample_args [''count''])\<lparr>ra_agent_id := ''clerk'',
       ra_agent_version := ''1.0.0'', ra_max_risk_level := Some Risk_LOW\<rparr>) ''run'' ''state'') two_versions
     [count_step\<lparr>ps_tool_version := Some ''2.0.0''\<rparr>] = Inr ()"
proof -
  let ?c = "\<lparr>bc_tool_ids = None, bc_tool_versions = Some [], bc_max_risk_level = None, bc_names_identity = False,
      bc_rest = sample_args []\<rparr>"
  let ?a = "(sample_args [''count''])\<lparr>ra_agent_id := ''clerk'', ra_agent_version := ''1.0.0'',
      ra_max_risk_level := Some Risk_LOW\<rparr>"
  let ?p = "count_step\<lparr>ps_tool_version := Some ''2.0.0''\<rparr>"
  have args: "built_args pinned_authority ?c = Inr ?a"
    by (simp add: built_args_def selected_tool_ids_def selected_tool_versions_def effective_risk_def
        pinned_authority_def sample_args_def)
  have "get_tool (ps_tool_id ?p) (Some ''2.0.0'') False two_versions = Inr (counting_tool\<lparr>td_version := ''2.0.0''\<rparr>)"
    by (simp add: two_versions_def register_tool_tools counting_registry_tools tool_key_def get_tool_def
        count_step_def assert_active_def) (simp add: counting_tool_def)
  from empty_versions_lift_ceiling [OF args this, of sample_runtime "''run''" "''state''"] show ?thesis
    by (simp add: count_step_def)
qed

end
