(* ===== verification/Composition_Correct.thy ===== *)
theory Composition_Correct
  imports Composition Factory_Properties
begin

text \<open>
  What a delegation promises: the authority of the child is the intersection of its parent's and its
  own manifest's, the delegation path is a chain without repetition, and whatever the child does to
  the application it does within that authority.
\<close>

section \<open>The ceilings\<close>

lemma tool_ceiling_Inr:
  assumes "tool_ceiling parent u r = Inr (ids, versions)"
  shows "set ids = referenced_id ` set versions \<and> distinct ids \<and> sorted versions \<and>
     set versions \<subseteq> set (mau_allowed_tool_versions u) \<inter> set (ec_authorized_tool_versions parent) \<and>
     set ids \<subseteq> set (ec_authorized_tool_ids parent) \<and>
     (dr_requested_tool_ids r \<noteq> [] \<longrightarrow> set ids \<subseteq> set (dr_requested_tool_ids r))"
  using assms by (auto simp: tool_ceiling_def Let_def split: if_splits)

lemma risk_ceiling_Inr:
  "risk_ceiling parent u r = Inr k \<Longrightarrow>
     k \<le> mau_risk_level u \<and> k \<le> ec_max_risk_level parent \<and>
     (case dr_max_risk_level r of None \<Rightarrow> True | Some m \<Rightarrow> k \<le> m)"
  by (auto simp: risk_ceiling_def Let_def min_le_iff_disj split: if_splits option.splits)

lemma permission_ceiling_within:
  "validate_parent_request parent r = Inr () \<Longrightarrow>
     set (permission_ceiling parent r) \<subseteq> set (ec_granted_permissions parent)"
  by (auto simp: validate_parent_request_def permission_ceiling_def bindE_Inr_iff)

text \<open>The context of a delegation lies within the authority of its parent and of its child.\<close>

definition within_authorities ::
  "execution_context \<Rightarrow> manifest_authority \<Rightarrow> delegated_context \<Rightarrow> bool" where
  "within_authorities parent u x \<longleftrightarrow>
     set (dx_authorized_tool_ids x) \<subseteq> set (ec_authorized_tool_ids parent) \<and>
     set (dx_authorized_tool_versions x) \<subseteq>
       set (mau_allowed_tool_versions u) \<inter> set (ec_authorized_tool_versions parent) \<and>
     set (dx_granted_permissions x) \<subseteq> set (ec_granted_permissions parent) \<and>
     dx_max_risk_level x \<le> ec_max_risk_level parent \<and> dx_max_risk_level x \<le> mau_risk_level u \<and>
     dx_max_steps x \<le> ec_max_steps parent \<and> dx_max_steps x \<le> mau_max_plan_steps u"

definition delegated_by :: "execution_context \<Rightarrow> delegated_context \<Rightarrow> bool" where
  "delegated_by parent x \<longleftrightarrow>
     dx_parent_execution_id x = ec_execution_id parent \<and> dx_principal x = ec_principal parent \<and>
     dx_correlation_id x = ec_correlation_id parent \<and> dx_delegation_depth x = ec_delegation_depth parent + 1"

lemma delegated_to_within:
  assumes "validate_parent_request parent r = Inr ()" and "tool_ceiling parent u r = Inr (ids, versions)"
    and "risk_ceiling parent u r = Inr k"
  shows "within_authorities parent u (delegated_to parent r u ids versions k path i) \<and>
     delegated_by parent (delegated_to parent r u ids versions k path i)"
  using tool_ceiling_Inr [OF assms(2)] risk_ceiling_Inr [OF assms(3)] permission_ceiling_within [OF assms(1)]
  by (elim conjE) (unfold within_authorities_def delegated_by_def delegated_to_def, simp only: delegated_context.simps, simp)

lemma delegated_to_sel [simp]:
  "dx_delegation_path (delegated_to parent r u ids versions k path i) = path"
  "dx_child_execution_id (delegated_to parent r u ids versions k path i) = i"
  by (simp_all add: delegated_to_def)

section \<open>Delegation by cases\<close>

lemma claim_delegation_result:
  "claim_delegation i d s = Some (q, s1) \<Longrightarrow>
     fl_shared s1 = fl_shared s \<and> fl_own s1 = fl_own s \<and> fl_built s1 = fl_built s"
  by (auto simp: claim_delegation_def Let_def split: if_splits)

lemma child_identities_result:
  "child_identities s = Some (q, s1) \<Longrightarrow>
     fl_shared s1 = fl_shared s \<and> fl_own s1 = fl_own s \<and> fl_built s1 = fl_built s"
  by (auto simp: child_identities_def bind_act_def read_state_def fleet_id_def lift_op_def new_id_def
      and_then_def fail_def change_state_def ret_def Let_def split: if_splits)

lemma find_child_Inr:
  "find_child c r s = Inr b \<Longrightarrow> map_of (fl_built s) (dr_child_agent_id r, dr_child_agent_version r) = Some b"
  by (auto simp: find_child_def bindE_Inr_iff runtime_for_def split: sum.splits option.splits if_splits)

text \<open>Either nothing ran, or the child ran with a context within both authorities.\<close>

lemma delegate_cases:
  assumes "delegate c parent r s = Some (q, s')"
  obtains (refused) e where "q = Inl e" "fl_shared s' = fl_shared s" "fl_own s' = fl_own s" "fl_built s' = fl_built s"
  | (ran) b u x j s0 s1 where "claim_delegation (ec_execution_id parent) (dr_delegation_id r) s = Some (Inr (), s0)"
      "child_identities s0 = Some (Inr (dx_child_execution_id x, j), s1)"
      "find_child c r s = Inr b" "ba_authority b = Some u"
      "within_authorities parent u x" "delegated_by parent x" "delegated_context_ok x"
      "ec_delegation_depth parent < co_max_depth c"
      "dx_delegation_path x = parent_path parent @ [tool_reference (dr_child_agent_id r) (dr_child_agent_version r)]"
      "fl_shared s1 = fl_shared s" "fl_own s1 = fl_own s" "fl_built s1 = fl_built s"
      "run_child c parent r b x j s1 = Some (q, s')"
proof -
  let ?child = "tool_reference (dr_child_agent_id r) (dr_child_agent_version r)"
  have ended: thesis if "q = Inl e \<and> s' = s" for e using that refused by simp
  show thesis
  proof (cases "validate_parent_request parent r = Inr () \<and> ec_delegation_depth parent < co_max_depth c \<and>
      ?child \<notin> set (parent_path parent)")
    case False
    have "\<exists>e. q = Inl e \<and> s' = s"
    proof (cases "validate_parent_request parent r")
      case (Inl e)
      with assms show ?thesis by (auto simp: delegate_def and_then_def lift_result_bind)
    next
      case (Inr y)
      with assms False show ?thesis
        by (simp add: delegate_def and_then_def lift_result_bind fail_def Let_def split: if_splits) blast+
    qed
    with ended show thesis by blast
  next
    case True
    show thesis
    proof (cases "\<exists>b u ids versions k. find_child c r s = Inr b \<and> ba_authority b = Some u \<and>
        tool_ceiling parent u r = Inr (ids, versions) \<and>
        validate_tool_permissions u versions (permission_ceiling parent r) = Inr () \<and>
        risk_ceiling parent u r = Inr k")
      case False
      with assms True have "\<exists>e. q = Inl e \<and> s' = s"
        by (auto simp: delegate_def and_then_def lift_result_bind fail_def Let_def require_authority_def
            bind_act_def [of "read_state f" for f] read_state_def split: sum.splits option.splits)
      with ended show thesis by blast
    next
      case facts: True
      then obtain b u ids versions k where found: "find_child c r s = Inr b" "ba_authority b = Some u"
        "tool_ceiling parent u r = Inr (ids, versions)"
        "validate_tool_permissions u versions (permission_ceiling parent r) = Inr ()"
        "risk_ceiling parent u r = Inr k" by blast
      let ?x = "\<lambda>i. delegated_to parent r u ids versions k (parent_path parent @ [?child]) i"
      from assms True found have run: "bind_act (claim_delegation (ec_execution_id parent) (dr_delegation_id r)) (\<lambda>_.
          bind_act child_identities (\<lambda>(i, j). bind_act (lift_result (constructed delegated_context_ok (?x i)))
            (\<lambda>x. run_child c parent r b x j))) s = Some (q, s')"
        by (simp add: delegate_def and_then_def lift_result_bind Let_def require_authority_def
            bind_act_def [of "read_state f" for f] read_state_def not_le)
      from run show thesis
      proof (cases rule: bind_act_cases)
        case (raised e)
        with claim_delegation_result [OF raised(1)] show thesis by (intro refused) simp_all
      next
        case (returned y s0)
        note same0 = claim_delegation_result [OF returned(1)]
        have claimed: "claim_delegation (ec_execution_id parent) (dr_delegation_id r) s = Some (Inr (), s0)"
          using returned(1) by simp
        from returned(2) show thesis
        proof (cases rule: bind_act_cases)
          case (raised e)
          with child_identities_result [OF raised(1)] same0 show thesis by (intro refused) simp_all
        next
          case (returned ij s1)
          note same = child_identities_result [OF returned(1)] same0
          obtain i j where ij: "ij = (i, j)" by (cases ij)
          have identified: "child_identities s0 = Some (Inr (dx_child_execution_id (?x i), j), s1)"
            using returned(1) ij by simp
          show thesis
          proof (cases "delegated_context_ok (?x i)")
            case False
            with returned(2) ij same show thesis
              by (intro refused) (auto simp: lift_result_bind constructed_def)
          next
            case ok: True
            with returned(2) ij have go: "run_child c parent r b (?x i) j s1 = Some (q, s')"
              by (simp add: lift_result_bind constructed_def)
            from delegated_to_within [OF conjunct1 [OF True] found(3,5)]
            have W: "within_authorities parent u (?x i)" "delegated_by parent (?x i)" by blast+
            show thesis
              by (rule ran [OF claimed identified found(1,2) W ok _ _ _ _ _ go]) (use True same in simp_all)
          qed
        qed
      qed
    qed
  qed
qed

section \<open>Effects\<close>

text \<open>
  The calls that a delegated run may make: of registered active tools that both the parent's
  authority and the child's manifest name, within both risk levels, with the parent's permissions,
  for the parent's principal, and without any approval that the parent had.
\<close>

definition acts_as_delegate ::
  "execution_context \<Rightarrow> manifest_authority \<Rightarrow> 'w runtime \<Rightarrow> execution_context \<Rightarrow> bool" where
  "acts_as_delegate parent u d x \<longleftrightarrow>
     ec_agent_id x = mau_agent_id u \<and> ec_agent_version x = mau_agent_version u \<and>
     ec_principal x = ec_principal parent \<and> ec_correlation_id x = ec_correlation_id parent \<and>
     ec_parent_execution_id x = Some (ec_execution_id parent) \<and>
     ec_delegation_depth x = ec_delegation_depth parent + 1 \<and>
     (\<forall>g \<in> set (ec_approved_action_digests x). broker_approves d g)"

definition delegated_calls_keep ::
  "('w \<Rightarrow> bool) \<Rightarrow> execution_context \<Rightarrow> 'w built_agent set \<Rightarrow>
   (string \<times> string, 'w tool_definition) dict \<Rightarrow> bool" where
  "delegated_calls_keep P parent children G \<longleftrightarrow>
     (\<forall>b \<in> children. \<forall>u d t x arguments v w.
        ba_authority b = Some u \<and> ba_runtime b = Some d \<and> registered G t \<and> acts_as_delegate parent u d x \<and>
        td_tool_id t \<in> set (ec_authorized_tool_ids parent) \<inter> set (mau_allowed_tool_ids u) \<and>
        td_risk_level t \<le> ec_max_risk_level parent \<and> td_risk_level t \<le> mau_risk_level u \<and>
        set (td_required_permissions t) \<subseteq> set (ec_granted_permissions parent) \<and>
        (td_requires_approval t \<longrightarrow> approved_exactly d x t arguments) \<and>
        td_input t arguments = Some v \<and> P w \<longrightarrow> P (snd (td_handler t x v w)))"

definition children_keep :: "('w \<Rightarrow> bool) \<Rightarrow> 'w built_agent set \<Rightarrow> bool" where
  "children_keep P children \<longleftrightarrow> (\<forall>b \<in> children. \<forall>d. ba_runtime b = Some d \<longrightarrow> ports_keep P d)"

lemma child_call_args:
  assumes "built_args u (child_call x text_in state_id) = Inr a"
  shows "ra_authorized_tool_ids a = dx_authorized_tool_ids x \<and> ra_max_risk_level a = Some (dx_max_risk_level x) \<and>
     set (dx_authorized_tool_ids x) \<subseteq> set (mau_allowed_tool_ids u) \<and>
     ra_agent_id a = mau_agent_id u \<and> ra_agent_version a = mau_agent_version u \<and>
     ra_principal a = dx_principal x \<and> ra_granted_permissions a = dx_granted_permissions x \<and>
     ra_approved_action_digests a = [] \<and> ra_correlation_id a = Some (dx_correlation_id x) \<and>
     ra_parent_execution_id a = Some (dx_parent_execution_id x) \<and> ra_delegation_depth a = dx_delegation_depth x"
  using assms
  by (auto simp: built_args_def child_call_def selected_tool_ids_def effective_risk_def bindE_Inr_iff split: if_splits)

lemma delegated_calls_granted:
  assumes keep: "delegated_calls_keep P parent children G"
    and b: "b \<in> children" "ba_authority b = Some u" "ba_runtime b = Some d"
    and x: "within_authorities parent u x" "delegated_by parent x" "delegated_context_ok x"
    and args: "built_args u (child_call x text_in state_id) = Inr a"
  shows "granted_calls_keep P d a G"
  unfolding granted_calls_keep_def
proof (intro allI impI, elim conjE)
  fix t y arguments v w
  assume t: "registered G t" "call_granted d a y t arguments" "td_input t arguments = Some v" "P w"
  then obtain i j where same: "y\<lparr>ec_approved_action_digests := []\<rparr> =
      (execution_of d a i j)\<lparr>ec_approved_action_digests := []\<rparr>"
    and digests: "\<forall>g \<in> set (ec_approved_action_digests y).
      g \<in> set (ra_approved_action_digests a) \<or> broker_approves d g"
    by (auto simp: call_granted_def acts_for_def)
  note A = child_call_args [OF args]
  have y: "ec_authorized_tool_ids y = dx_authorized_tool_ids x" "ec_granted_permissions y = dx_granted_permissions x"
    "ec_max_risk_level y = dx_max_risk_level x" "ec_agent_id y = mau_agent_id u" "ec_agent_version y = mau_agent_version u"
    "ec_principal y = dx_principal x" "ec_correlation_id y = or_else (Some (dx_correlation_id x)) i"
    "ec_parent_execution_id y = Some (dx_parent_execution_id x)" "ec_delegation_depth y = dx_delegation_depth x"
    using arg_cong [OF same, of ec_authorized_tool_ids] arg_cong [OF same, of ec_granted_permissions]
      arg_cong [OF same, of ec_max_risk_level] arg_cong [OF same, of ec_agent_id]
      arg_cong [OF same, of ec_agent_version] arg_cong [OF same, of ec_principal]
      arg_cong [OF same, of ec_correlation_id] arg_cong [OF same, of ec_parent_execution_id]
      arg_cong [OF same, of ec_delegation_depth] A
    by (simp_all add: execution_of_def)
  have "ec_correlation_id y = dx_correlation_id x"
    using y(7) x(3) by (simp add: delegated_context_ok_def or_else_def)
  with y A digests x(2) have "acts_as_delegate parent u d y"
    by (simp add: acts_as_delegate_def delegated_by_def)
  moreover from t(2) have "td_tool_id t \<in> set (dx_authorized_tool_ids x)" "td_risk_level t \<le> dx_max_risk_level x"
    "set (td_required_permissions t) \<subseteq> set (dx_granted_permissions x)"
    "td_requires_approval t \<longrightarrow> approved_exactly d y t arguments"
    by (simp_all add: call_granted_def ceiling_denial_None y)
  moreover have "set (dx_authorized_tool_ids x) \<subseteq> set (ec_authorized_tool_ids parent) \<inter> set (mau_allowed_tool_ids u)"
    "set (dx_granted_permissions x) \<subseteq> set (ec_granted_permissions parent)"
    "dx_max_risk_level x \<le> ec_max_risk_level parent" "dx_max_risk_level x \<le> mau_risk_level u"
    using x(1) A by (simp_all add: within_authorities_def)
  ultimately show "P (snd (td_handler t y v w))"
    using keep b t unfolding delegated_calls_keep_def by (meson order_trans subsetD)
qed

text \<open>What every step of a composition keeps: the property of the application, the tools and the children.\<close>

definition fleet_inv ::
  "('w \<Rightarrow> bool) \<Rightarrow> (string \<times> string, 'w tool_definition) dict \<Rightarrow>
   (string \<times> string, 'w built_agent) dict \<Rightarrow> 'w fleet \<Rightarrow> bool" where
  "fleet_inv P G children s \<longleftrightarrow> effect_inv P G (rs_tools (fl_shared s)) \<and> fl_built s = children"

lemma in_runtime_effect:
  assumes m: "keeps False (\<lambda>s. effect_inv P G (rs_tools s)) m" and s: "fleet_inv P G children s"
    and run: "in_runtime k m s = Some (q, s')"
  shows "fleet_inv P G children s'"
proof -
  obtain own t where t: "m (join_runtime (fl_shared s) own) = Some (q, t)"
    and s': "s' = s\<lparr>fl_shared := join_runtime t (fl_shared s), fl_own := AList.update k t (fl_own s)\<rparr>"
    using run by (auto simp: in_runtime_def Let_def split: option.splits)
  have "effect_inv P G (rs_tools (join_runtime (fl_shared s) own))"
    using s by (simp add: fleet_inv_def join_runtime_def)
  from runs_ended [OF m this t] s s' show ?thesis by (simp add: fleet_inv_def join_runtime_def)
qed

lemma built_execute_keeps:
  assumes "\<And>d u a. ba_runtime b = Some d \<Longrightarrow> ba_authority b = Some u \<Longrightarrow> built_args u c = Inr a \<Longrightarrow> keeps False I (execute d a)"
  shows "keeps False I (built_execute digest b c)"
proof (rule runsI)
  fix s r s'
  assume s: "I s" "built_execute digest b c s = Some (r, s')"
  from s(2) show "I s'"
    by (cases rule: built_execute_cases) (use s(1) assms in \<open>auto dest: runs_ended\<close>)
qed simp_all

lemma delegate_keeps:
  assumes children: "children_keep P (snd ` set B)" and calls: "delegated_calls_keep P parent (snd ` set B) G"
    and G: "keyed G"
  shows "keeps False (fleet_inv P G B) (delegate c parent r)"
proof (rule runsI)
  fix s q s'
  assume s: "fleet_inv P G B s" "delegate c parent r s = Some (q, s')"
  from s(2) show "fleet_inv P G B s'"
  proof (cases rule: delegate_cases)
    case (refused e)
    with s(1) show ?thesis by (simp add: fleet_inv_def)
  next
    case (ran b u x j s0 s1)
    from find_child_Inr [OF ran(3)] s(1) have b: "b \<in> snd ` set B"
      by (force simp: fleet_inv_def dest: map_of_SomeD)
    have I1: "fleet_inv P G B s1" using s(1) ran(10,12) by (simp add: fleet_inv_def)
    let ?call = "child_call x (dr_input_text r) j"
    have "keeps False (\<lambda>s. effect_inv P G (rs_tools s)) (built_execute (fa_digest (co_factory c)) b ?call)"
    proof (rule built_execute_keeps)
      fix d u' a
      assume d: "ba_runtime b = Some d" "ba_authority b = Some u'" "built_args u' ?call = Inr a"
      with ran(4) have "u' = u" by simp
      with d delegated_calls_granted [OF calls b ran(4) d(1) ran(5-7)] have granted: "granted_calls_keep P d a G" by blast
      have "ports_keep P d" using children b d(1) by (auto simp: children_keep_def)
      from whole_run.execute_runs [OF effects_whole_run [OF this granted G]]
      show "keeps False (\<lambda>s. effect_inv P G (rs_tools s)) (execute d a)" .
    qed
    note child = in_runtime_effect [OF this]
    from ran(13) show ?thesis unfolding run_child_def
    proof (cases rule: bind_act_cases)
      case (raised e)
      from child [OF I1 raised(1)] show ?thesis .
    next
      case (returned o1 s2)
      from child [OF I1 returned(1)] returned(2) show ?thesis
        by (auto simp: bind_act_def fleet_clock_def lift_op_def now_def ret_def fleet_inv_def)
    qed
  qed
qed simp_all

lemma delegation_identity_keeps [runs_rules]: "keeps t (fleet_inv P G B) (delegation_identity step)"
  unfolding delegation_identity_def fleet_id_def
  by (intro runs_rules runs_change runs_op) (simp_all add: fleet_inv_def new_id_def)

lemma fleet_clock_keeps [runs_rules]: "keeps t (fleet_inv P G B) fleet_clock"
  unfolding fleet_clock_def by (rule runs_op) (simp add: fleet_inv_def now_def)

lemma compose_steps_keeps:
  assumes "\<And>r. keeps False (fleet_inv P G B) (delegate c parent r)"
  shows "keeps False (fleet_inv P G B) (compose_steps c parent d steps text_in)"
proof (induction steps arbitrary: text_in)
  case Nil
  show ?case by (simp add: runs_ret)
next
  case (Cons step steps)
  show ?case
    unfolding compose_steps.simps Let_def by (intro runs_rules assms Cons.IH) simp_all
qed

lemma compose_keeps:
  assumes "\<And>r. keeps False (fleet_inv P G B) (delegate c parent r)"
  shows "keeps False (fleet_inv P G B) (compose c parent d text_in selected)"
  unfolding compose_def by (intro runs_rules compose_steps_keeps assms) simp_all

end
