(* ===== verification/Composition_Properties.thy ===== *)
theory Composition_Properties
  imports Composition_Correct Runtime_Completed
begin

text \<open>
  The properties of delegation and composition, with a small fleet to apply them to: a lead whose
  authority covers one tool of the clerk, and the clerk of \<open>Factory_Properties\<close> with the runtime of
  \<open>Runtime_Completed\<close>, which completes.
\<close>

section \<open>Delegation\<close>

text \<open>
  C2: a delegation never reaches beyond its parent. Let \<open>P\<close> be a property of the application's state that
  the ports and providers of the built agents keep, and that a tool's handler keeps when it is called for
  the parent's principal, on behalf of a built child agent, for a registered active tool that both the
  parent's authority and the child's manifest name, within the risk level of both, with permissions the
  parent has, and, where the tool requires approval, with an approval of exactly that call that the child
  obtained itself: approvals of the parent do not carry over. Then every \<open>delegate\<close> and every \<open>compose\<close>
  keeps \<open>P\<close>, however it ends and whatever children, tools, permissions and risk the request names.
\<close>

theorem delegation_within_parent:
  assumes "children_keep P (snd ` set (fl_built s))" and "keyed (tg_tools (xs_registry (rs_tools (fl_shared s))))"
    and "delegated_calls_keep P parent (snd ` set (fl_built s)) (tg_tools (xs_registry (rs_tools (fl_shared s))))"
    and "P (xs_app (rs_tools (fl_shared s)))"
  shows "(\<forall>r q s'. delegate c parent r s = Some (q, s') \<longrightarrow> P (xs_app (rs_tools (fl_shared s')))) \<and>
         (\<forall>d text_in selected q s'. compose c parent d text_in selected s = Some (q, s') \<longrightarrow>
            P (xs_app (rs_tools (fl_shared s'))))"
proof -
  let ?I = "fleet_inv P (tg_tools (xs_registry (rs_tools (fl_shared s)))) (fl_built s)"
  have I: "?I s" using assms(4) by (simp add: fleet_inv_def effect_inv_def)
  have P: "P (xs_app (rs_tools (fl_shared s')))" if "?I s'" for s'
    using that by (simp add: fleet_inv_def effect_inv_def)
  note D = delegate_keeps [OF assms(1,3,2)]
  from P runs_ended [OF D I] runs_ended [OF compose_keeps [OF D] I] show ?thesis by blast
qed

text \<open>
  C11: the bounds of a delegation. When a delegation returns a result, its depth is one more than the
  parent's and within the composer's maximum, its path extends the parent's by the child and repeats no
  agent, and its context names the parent's principal and correlation and stays within both authorities:
  tools, exact versions, permissions, risk level and plan steps.
\<close>

theorem delegation_bounded:
  assumes "delegate c parent r s = Some (Inr res, s')"
  shows "\<exists>b u. map_of (fl_built s) (dr_child_agent_id r, dr_child_agent_version r) = Some b \<and> ba_authority b = Some u \<and>
     within_authorities parent u (dlr_context res) \<and> delegated_by parent (dlr_context res) \<and>
     dlr_delegation_depth res = ec_delegation_depth parent + 1 \<and> dlr_delegation_depth res \<le> co_max_depth c \<and>
     dx_delegation_path (dlr_context res) =
       parent_path parent @ [tool_reference (dr_child_agent_id r) (dr_child_agent_version r)] \<and>
     distinct (dx_delegation_path (dlr_context res))"
  using assms
proof (cases rule: delegate_cases)
  case (ran b u x j s0 s1)
  from ran(13) have "dlr_context res = x" "dlr_delegation_depth res = dx_delegation_depth x"
    by (auto simp: run_child_def bind_act_def fleet_clock_def lift_op_def now_def ret_def
        split: option.splits sum.splits)
  with ran(4-9) find_child_Inr [OF ran(3)] show ?thesis
    by (auto simp: delegated_by_def delegated_context_ok_def)
qed simp

section \<open>Identities\<close>

text \<open>A delegation identifier of an execution and a child execution are taken.\<close>

definition delegation_used :: "string \<Rightarrow> string \<Rightarrow> 'w fleet \<Rightarrow> bool" where
  "delegation_used execution_id delegation_id s \<longleftrightarrow>
     (case map_of (fl_delegation_ids s) execution_id of None \<Rightarrow> False | Some ds \<Rightarrow> delegation_id \<in> set ds)"

definition identities_taken :: "string \<Rightarrow> string \<Rightarrow> string \<Rightarrow> 'w fleet \<Rightarrow> bool" where
  "identities_taken i d child s \<longleftrightarrow> delegation_used i d s \<and> child \<in> set (fl_child_executions s)"

lemma claim_delegation_used:
  assumes "claim_delegation i d s = Some (q, s')"
  shows "delegation_used j e s' \<longleftrightarrow> delegation_used j e s \<or> j = i \<and> e = d"
    and "fl_child_executions s' = fl_child_executions s"
    and "q = Inr () \<longleftrightarrow> \<not> delegation_used i d s"
  using assms by (auto simp: claim_delegation_def delegation_used_def Let_def split: if_splits option.splits)

lemma taken_claim [runs_rules]: "keeps t (identities_taken i d x) (claim_delegation j e)"
proof (rule runsI)
  show "claim_delegation j e s \<noteq> None" for s by (simp add: claim_delegation_def Let_def)
qed (simp_all add: identities_taken_def claim_delegation_used)

lemma taken_frame:
  "identities_taken i d x (s\<lparr>fl_world := w\<rparr>) = identities_taken i d x s"
  "identities_taken i d x (s\<lparr>fl_composition_counter := n\<rparr>) = identities_taken i d x s"
  "identities_taken i d x (s\<lparr>fl_shared := h, fl_own := own\<rparr>) = identities_taken i d x s"
  "identities_taken i d x s \<Longrightarrow>
     identities_taken i d x (s\<lparr>fl_child_executions := y # fl_child_executions s, fl_child_states := ys\<rparr>)"
  by (simp_all add: identities_taken_def delegation_used_def)

lemma taken_world [runs_rules]:
  "keeps t (identities_taken i d x) (fleet_id p)" "keeps t (identities_taken i d x) fleet_clock"
  unfolding fleet_id_def fleet_clock_def by (rule runs_op, simp add: taken_frame new_id_def now_def)+

lemma taken_identities [runs_rules]: "keeps t (identities_taken i d x) child_identities"
  unfolding child_identities_def Let_def by (intro runs_rules runs_change) (simp_all add: taken_frame)

lemma taken_in_runtime [runs_rules]: "keeps False (identities_taken i d x) (in_runtime k m)"
proof (rule runsI)
  show "identities_taken i d x s'" if "identities_taken i d x s" "in_runtime k m s = Some (q, s')" for s q s'
    using that by (auto simp: in_runtime_def Let_def taken_frame split: option.splits)
qed simp_all

lemma taken_run_child [runs_rules]: "keeps False (identities_taken i d x) (run_child c parent r b y j)"
  unfolding run_child_def by (intro runs_rules TrueI)

lemma taken_delegate [runs_rules]: "keeps False (identities_taken i d x) (delegate c parent r)"
  unfolding delegate_def Let_def by (intro runs_rules TrueI)

lemma taken_identity [runs_rules]: "keeps t (identities_taken i d x) (delegation_identity step)"
  unfolding delegation_identity_def by (intro runs_rules runs_change) (simp_all add: taken_frame)

lemma taken_compose_steps [runs_rules]:
  "keeps False (identities_taken i d x) (compose_steps c parent cd steps text_in)"
proof (induction steps arbitrary: text_in)
  case (Cons step steps)
  show ?case unfolding compose_steps.simps Let_def by (intro runs_rules Cons.IH) simp_all
qed (simp add: runs_ret)

lemma taken_compose [runs_rules]: "keeps False (identities_taken i d x) (compose c parent cd text_in selected)"
  unfolding compose_def by (intro runs_rules) simp_all

text \<open>The operations of one composer in any order, by any number of parents.\<close>

inductive composer_runs :: "'w composer \<Rightarrow> 'w fleet \<Rightarrow> 'w fleet \<Rightarrow> bool" for c where
  nothing: "composer_runs c s s"
| delegated: "composer_runs c s s1 \<Longrightarrow> delegate c parent r s1 = Some (q, s2) \<Longrightarrow> composer_runs c s s2"
| composed: "composer_runs c s s1 \<Longrightarrow> compose c parent cd text_in selected s1 = Some (q, s2) \<Longrightarrow> composer_runs c s s2"

lemma composer_runs_taken: "composer_runs c s s' \<Longrightarrow> identities_taken i d x s \<Longrightarrow> identities_taken i d x s'"
  by (induction rule: composer_runs.induct)
    (auto dest: runs_ended [OF taken_delegate] runs_ended [OF taken_compose])

lemma child_identities_fresh:
  "child_identities s = Some (Inr (i, j), s1) \<Longrightarrow>
     i \<notin> set (fl_child_executions s) \<and> i \<in> set (fl_child_executions s1) \<and> fl_delegation_ids s1 = fl_delegation_ids s"
  by (auto simp: child_identities_def bind_act_def read_state_def fleet_id_def lift_op_def new_id_def
      and_then_def fail_def change_state_def ret_def Let_def split: if_splits)

lemma run_child_result:
  "run_child c parent r b x j s = Some (Inr res, s') \<Longrightarrow>
     dlr_context res = x \<and> dlr_child_execution_id res = dx_child_execution_id x \<and>
     dlr_delegation_depth res = dx_delegation_depth x"
  by (auto simp: run_child_def bind_act_def fleet_clock_def lift_op_def now_def ret_def
      split: option.splits sum.splits)

text \<open>
  C15: the identities of delegated runs are unique. After a delegation has returned, whatever the composer
  did in between, for this parent or another: a second delegation with the same identifier in the same
  parent execution is refused and nothing runs, and every delegation that returns has another child
  execution.
\<close>

theorem delegation_identities_unique:
  assumes "delegate c parent r s = Some (Inr res, s1)" and "composer_runs c s1 s2"
    and "delegate c parent' r' s2 = Some (q, s3)"
  shows "(ec_execution_id parent' = ec_execution_id parent \<and> dr_delegation_id r' = dr_delegation_id r \<longrightarrow>
            (\<exists>e. q = Inl e) \<and> fl_shared s3 = fl_shared s2 \<and> fl_own s3 = fl_own s2) \<and>
         (\<forall>res'. q = Inr res' \<longrightarrow> dlr_child_execution_id res' \<noteq> dlr_child_execution_id res)"
proof -
  have taken: "identities_taken (ec_execution_id parent) (dr_delegation_id r) (dlr_child_execution_id res) s1"
    using assms(1)
  proof (cases rule: delegate_cases)
    case (ran b u x j t0 t1)
    have "delegation_used (ec_execution_id parent) (dr_delegation_id r) t1"
      using claim_delegation_used(1) [OF ran(1)] child_identities_fresh [OF ran(2)]
      by (simp add: delegation_used_def)
    with child_identities_fresh [OF ran(2)] run_child_result [OF ran(13)]
    have "identities_taken (ec_execution_id parent) (dr_delegation_id r) (dlr_child_execution_id res) t1"
      by (simp add: identities_taken_def)
    from runs_ended [OF taken_run_child this ran(13)] show ?thesis .
  qed simp
  note taken = composer_runs_taken [OF assms(2) taken]
  from assms(3) show ?thesis
  proof (cases rule: delegate_cases)
    case (ran b u x j t0 t1)
    have "\<not> delegation_used (ec_execution_id parent') (dr_delegation_id r') s2"
      using claim_delegation_used(3) [OF ran(1)] by simp
    moreover have "dlr_child_execution_id res \<in> set (fl_child_executions t0)"
      using claim_delegation_used(2) [OF ran(1)] taken by (simp add: identities_taken_def)
    ultimately show ?thesis
      using taken child_identities_fresh [OF ran(2)] run_child_result [of c parent' r' b x j t1 _ s3] ran(13)
      by (auto simp: identities_taken_def)
  qed simp
qed

section \<open>Composition\<close>

definition completed :: "agent_outcome \<Rightarrow> bool" where
  "completed o1 \<longleftrightarrow> ao_status o1 = Outcome_COMPLETED"









section \<open>A small fleet\<close>

definition desk_manifest :: resolved_manifest where
  "desk_manifest =
     \<lparr>mf_manifest_id = ''clerk@1.0.0'', mf_manifest_digest = ''d'', mf_source = desk_config, mf_agent = desk_clerk,
      mf_prompt_ref = ag_prompt_ref clerk, mf_skill_refs = ag_skill_refs clerk, mf_tool_refs = ag_tool_refs clerk,
      mf_policy_refs = [], mf_provider_profile = ag_provider_profile clerk, mf_runtime_profile = None,
      mf_runtime_limits = default_runtime_config, mf_registry_snapshot_id = ''snapshot'', mf_state_strategy = None,
      mf_memory_strategy = None, mf_template = None, mf_resolved_at = 0\<rparr>"

definition desk_child :: "nat built_agent" where
  "desk_child =
     \<lparr>ba_manifest = desk_manifest, ba_runtime = Some reading_runtime, ba_registered = True, ba_dry_run = False,
      ba_registry = Some (fa_live desk_factory), ba_authority = Some pinned_authority\<rparr>"

definition desk_lead :: execution_context where
  "desk_lead =
     \<lparr>ec_execution_id = ''parent'', ec_agent_id = ''lead'', ec_agent_version = ''1.0.0'',
      ec_principal = ra_principal (sample_args []), ec_authorized_tool_ids = [''count'', ''tally''],
      ec_authorized_tool_versions = [''count@1.0.0''], ec_granted_permissions = [],
      ec_approved_action_digests = [], ec_max_steps = 5, ec_state_id = ''s'', ec_environment = ''development'',
      ec_max_risk_level = Risk_MEDIUM, ec_correlation_id = ''corr'', ec_parent_execution_id = None,
      ec_delegation_id = None, ec_delegation_depth = 0, ec_delegation_path = [], ec_event_id = None,
      ec_trigger_id = None, ec_causation_id = None, ec_attempt = 0\<rparr>"

definition desk_request :: "string \<Rightarrow> delegation_request" where
  "desk_request i =
     \<lparr>dr_delegation_id = i, dr_parent_execution_id = ''parent'', dr_parent_agent_id = ''lead'',
      dr_parent_agent_version = ''1.0.0'', dr_child_agent_id = ''clerk'', dr_child_agent_version = ''1.0.0'',
      dr_input_text = ''hello'', dr_reason = ''composition:desk:read'', dr_requested_tool_ids = [],
      dr_requested_permissions = [], dr_max_risk_level = Some Risk_MEDIUM\<rparr>"

definition desk_composer :: "nat composer" where
  "desk_composer = \<lparr>co_factory = desk_factory, co_max_depth = 3\<rparr>"

definition desk_fleet :: "nat fleet" where
  "desk_fleet =
     \<lparr>fl_shared = reading_state, fl_own = [], fl_built = [((''clerk'', ''1.0.0''), desk_child)],
      fl_world = \<lparr>make_id = (\<lambda>p n. ''id''), id_calls = 0, clock_at = int, clock_calls = 0\<rparr>,
      fl_delegation_ids = [], fl_child_executions = [], fl_child_states = [], fl_identity_counter = 0,
      fl_composition_counter = 0\<rparr>"

text \<open>The arguments that the child's runtime receives.\<close>

definition desk_args :: "string \<Rightarrow> run_args" where
  "desk_args i =
     (sample_args [''count''])\<lparr>ra_agent_id := ''clerk'', ra_authorized_tool_versions := [''count@1.0.0''],
       ra_max_risk_level := Some Risk_LOW, ra_state_id := Some ''id-1'', ra_execution_id := Some ''id-1'',
       ra_max_steps := Some 3, ra_correlation_id := Some ''corr'', ra_parent_execution_id := Some ''parent'',
       ra_delegation_id := Some i, ra_delegation_depth := 1,
       ra_delegation_path := [''lead@1.0.0'', ''clerk@1.0.0'']\<rparr>"

definition desk_setting :: "nat calm" where
  "desk_setting = reading_setting\<lparr>cm_id := ''id-1''\<rparr>"

lemma desk_services: "services_answer desk_setting reading_runtime (desk_args i)"
  by (simp add: services_answer_def answers_def desk_setting_def reading_setting_def reading_runtime_def
      sample_runtime_def sample_store_def sample_execution_state_def)

lemma desk_governance: "governance_grants desk_setting reading_runtime"
  using reading_governance by (simp add: governance_grants_def desk_setting_def)

lemma desk_provider: "provider_ready desk_setting reading_runtime reading_plan"
  using reading_provider
  by (simp add: provider_ready_def desk_setting_def ready_call_def patient_policy_def long_enough_def split: option.splits)

lemma desk_fits: "context_fits reading_runtime (ra_principal (desk_args i))"
  using reading_fits by (simp add: desk_args_def sample_args_def)

lemma desk_generous: "generous desk_setting reading_runtime (desk_args i)"
  using reading_generous
  by (simp add: generous_def desk_setting_def desk_args_def long_enough_def run_timeout_def sample_args_def
      split: option.splits)

lemma desk_step:
  assumes "i \<noteq> []" and "j \<noteq> []"
  defines "x \<equiv> execution_of reading_runtime (desk_args i) ''id-1'' j"
  shows "execution_context_ok x" "calm_plan desk_setting reading_runtime x reading_plan"
proof -
  have sel: "ec_authorized_tool_ids x = [''count'']" "ec_authorized_tool_versions x = [''count@1.0.0'']"
    "ec_granted_permissions x = []" "ec_max_risk_level x = Risk_LOW" "ec_max_steps x = 3"
    "ec_environment x = cfg_environment default_runtime_config"
    by (simp_all add: x_def execution_of_def desk_args_def sample_args_def or_else_def reading_runtime_def
        sample_runtime_def)
  show x: "execution_context_ok x"
    using assms(1,2) by (simp add: x_def execution_of_def execution_context_ok_def principal_context_ok_def
        desk_args_def sample_args_def opt_nonempty_def or_else_def reading_runtime_def sample_runtime_def
        default_runtime_config_def blank_def strip_def is_space_def)
  have handler: "sound_handler desk_setting sample_lib x reading_tool []"
    using reading_result [of x]
    by (simp add: sound_handler_def desk_setting_def reading_setting_def tool_invoke_def validate_arguments_def
        validate_output_def reading_tool_def counting_tool_def)
  have "ceiling_denial x reading_tool = None"
    by (simp add: ceiling_denial_def sel reading_tool_def counting_tool_def less_risk_level_def)
  moreover have "tool_definition_ok reading_tool" by code_simp
  ultimately have "calm_call desk_setting reading_runtime x reading_tool (count_step\<lparr>ps_idempotency_key := None\<rparr>)"
    using handler x reading_found(2)
    by (simp add: calm_call_def nameable_def count_step_def desk_setting_def reading_setting_def
        reading_runtime_def sample_runtime_def long_enough_def) (simp add: reading_tool_def counting_tool_def)
  then have "calm_step desk_setting reading_runtime x (count_step\<lparr>ps_idempotency_key := None\<rparr>)"
    using reading_found(1)
    by (simp add: calm_step_def desk_setting_def reading_setting_def count_step_def sel)
  then show "calm_plan desk_setting reading_runtime x reading_plan"
    by (simp add: calm_plan_def reading_plan_def sel reading_runtime_def sample_runtime_def
        default_runtime_config_def)
qed

lemma desk_calm_args:
  assumes "i \<noteq> []"
  shows "calm_args desk_setting reading_runtime (desk_args i) reading_plan"
proof -
  have "inspect_input ''hello'' = None" "strip ''hello'' = ''hello''" by code_simp+
  moreover have "ra_input_text (desk_args i) = ''hello''" "ra_execution_id (desk_args i) = Some ''id-1''"
    "ra_plan_override (desk_args i) = None" "ra_initial_results (desk_args i) = []" "ra_resource (desk_args i) = None"
    "\<not> ra_cancellation_event (desk_args i)" "ra_max_steps (desk_args i) = Some 3"
    by (simp_all add: desk_args_def sample_args_def)
  moreover have "cm_id desk_setting = ''id-1''" "cfg_max_plan_steps (rd_config reading_runtime) = 3"
    by (simp_all add: desk_setting_def reading_runtime_def sample_runtime_def default_runtime_config_def)
  ultimately show ?thesis
    using desk_step [OF assms]
    by (simp add: calm_args_def resource_named_def opt_nonempty_def Let_def blank_def)
qed

lemma desk_built_args:
  assumes "x = delegated_to desk_lead (desk_request i) pinned_authority [''count''] [''count@1.0.0''] Risk_LOW
      [''lead@1.0.0'', ''clerk@1.0.0''] ''id-1''"
  shows "built_args pinned_authority (child_call x ''hello'' ''id-1'') = Inr (desk_args i)"
proof -
  have "referenced_id ''count@1.0.0'' = ''count''" by code_simp
  then show ?thesis
    by (simp add: assms delegated_to_def built_args_def selected_tool_ids_def selected_tool_versions_def
        effective_risk_def child_call_def pinned_authority_def desk_args_def sample_args_def desk_lead_def
        desk_request_def permission_ceiling_def)
qed

lemma desk_child_runs:
  assumes "i \<noteq> []" and "calm_state desk_setting True s"
    and "x = delegated_to desk_lead (desk_request i) pinned_authority [''count''] [''count@1.0.0''] Risk_LOW
      [''lead@1.0.0'', ''clerk@1.0.0''] ''id-1''"
  shows "\<exists>o1 s1. built_execute (fa_digest desk_factory) desk_child (child_call x ''hello'' ''id-1'') s = Some (Inr o1, s1) \<and>
           ao_status o1 = Outcome_COMPLETED"
proof -
  have digest: "assert_manifest_integrity (fa_digest desk_factory) desk_child = Inr ()"
    by (simp add: assert_manifest_integrity_def require_authority_def desk_child_def desk_factory_def
        desk_manifest_def pinned_authority_def)
  have "resolve_agent ''clerk'' (Some ''1.0.0'') (clerk_graph Life_ACTIVE) = Inr (clerk\<lparr>ag_lifecycle := Life_ACTIVE\<rparr>)"
    by (simp add: resolve_exact_version clerk_at clerk_checked)
  then have reg: "still_registered (ba_registry desk_child) pinned_authority s = Some (Inr (), s)"
    by (simp add: still_registered_def desk_child_def desk_factory_def pinned_authority_def bind_act_def app_read ret_def)
  have "ba_runtime desk_child = Some reading_runtime" "ba_authority desk_child = Some pinned_authority"
    "\<not> bc_names_identity (child_call x ''hello'' ''id-1'')"
    by (simp_all add: desk_child_def child_call_def)
  with digest reg desk_built_args [OF assms(3)]
  have "built_execute (fa_digest desk_factory) desk_child (child_call x ''hello'' ''id-1'') s =
      execute reading_runtime (desk_args i) s"
    by (simp add: built_execute_def and_then_def lift_result_bind require_authority_def bind_act_def [of "still_registered r u" for r u])
  with execute_completes [OF desk_services desk_governance desk_provider desk_fits desk_calm_args [OF assms(1)]
      desk_generous assms(2)] show ?thesis by simp
qed

lemma desk_sel:
  "ec_execution_id desk_lead = ''parent''" "ec_delegation_depth desk_lead = 0" "co_max_depth desk_composer = 3"
  "dr_child_agent_id (desk_request i) = ''clerk''" "dr_child_agent_version (desk_request i) = ''1.0.0''"
  "dr_delegation_id (desk_request i) = i" "ba_authority desk_child = Some pinned_authority"
  by (simp_all add: desk_lead_def desk_composer_def desk_request_def desk_child_def)

text \<open>The lead hands its task to the clerk, whose run completes.\<close>

lemma desk_delegates:
  assumes "i \<noteq> []"
    and s: "fl_shared s = reading_state" "fl_own s = []" "fl_built s = fl_built desk_fleet"
      "make_id (fl_world s) = (\<lambda>p n. ''id'')" "fl_delegation_ids s = []" "fl_child_executions s = []"
      "fl_child_states s = []" "fl_identity_counter s = 0"
  shows "\<exists>res s1. delegate desk_composer desk_lead (desk_request i) s = Some (Inr res, s1) \<and>
           completed (dlr_outcome res)"
proof -
  let ?r = "desk_request i"
  let ?x = "delegated_to desk_lead ?r pinned_authority [''count''] [''count@1.0.0''] Risk_LOW
      [''lead@1.0.0'', ''clerk@1.0.0''] ''id-1''"
  have valid: "validate_parent_request desk_lead ?r = Inr ()"
  proof -
    have "\<not> blank ''hello''" by code_simp
    then show ?thesis by (simp add: validate_parent_request_def desk_lead_def desk_request_def less_risk_level_def)
  qed
  have path: "parent_path desk_lead = [''lead@1.0.0'']" "tool_reference ''clerk'' ''1.0.0'' = ''clerk@1.0.0''"
    by (simp_all add: parent_path_def desk_lead_def tool_reference_def)
  have "resolve_agent ''clerk'' (Some ''1.0.0'') (clerk_graph Life_ACTIVE) = Inr (clerk\<lparr>ag_lifecycle := Life_ACTIVE\<rparr>)"
    by (simp add: resolve_exact_version clerk_at clerk_checked)
  then have found: "find_child desk_composer ?r s = Inr desk_child"
    using s(3) by (simp add: find_child_def desk_composer_def desk_factory_def desk_request_def runtime_for_def
        desk_fleet_def) (simp add: desk_child_def)
  have tools: "tool_ceiling desk_lead pinned_authority ?r = Inr ([''count''], [''count@1.0.0''])"
  proof -
    have "referenced_id ''count@1.0.0'' = ''count''" by code_simp
    then show ?thesis
      by (simp add: tool_ceiling_def desk_lead_def pinned_authority_def desk_request_def)
  qed
  have rest: "validate_tool_permissions pinned_authority [''count@1.0.0''] (permission_ceiling desk_lead ?r) = Inr ()"
    "risk_ceiling desk_lead pinned_authority ?r = Inr Risk_LOW"
    by (simp_all add: validate_tool_permissions_def pinned_authority_def risk_ceiling_def desk_lead_def
        desk_request_def less_risk_level_def min_def less_eq_risk_level_def)
  obtain s0 where claim: "claim_delegation ''parent'' i s = Some (Inr (), s0)"
    and s0: "fl_identity_counter s0 = 1" "fl_child_executions s0 = []" "fl_child_states s0 = []"
      "fl_shared s0 = reading_state" "fl_own s0 = []" "fl_world s0 = fl_world s"
    using s by (simp add: claim_delegation_def)
  have suffix: "str_nat (Suc 0) = ''1''" by code_simp
  obtain s1 where ids: "child_identities s0 = Some (Inr (''id-1'', ''id-1''), s1)"
    and s1: "fl_shared s1 = reading_state" "fl_own s1 = []"
    using s0 s(4) suffix
    by (simp add: child_identities_def bind_act_def read_state_def fleet_id_def lift_op_def new_id_def
      and_then_def fail_def change_state_def ret_def Let_def)
  have ok: "delegated_context_ok ?x"
    using assms(1)
    by (simp add: delegated_context_ok_def delegated_to_def desk_lead_def desk_request_def pinned_authority_def)
  have calm: "calm_state desk_setting True (join_runtime reading_state (fresh_runtime reading_state))"
    by (simp add: calm_state_def calm_tools_def calm_monitor_def within_limits_def later_def desk_setting_def
        reading_setting_def reading_state_def sample_runtime_state_def still_monitor_def sample_run_control_def
        mk_control_def join_runtime_def fresh_runtime_def)
  from desk_child_runs [OF assms(1) calm refl [of ?x]] obtain o1 t where
    run: "built_execute (fa_digest desk_factory) desk_child (child_call ?x ''hello'' ''id-1'')
      (join_runtime reading_state (fresh_runtime reading_state)) = Some (Inr o1, t)" "ao_status o1 = Outcome_COMPLETED"
    by blast
  have "\<exists>res s2. run_child desk_composer desk_lead ?r desk_child ?x ''id-1'' s1 = Some (Inr res, s2) \<and> dlr_outcome res = o1"
    using run(1) s1 by (simp add: run_child_def bind_act_def in_runtime_def desk_composer_def fleet_clock_def lift_op_def
        now_def ret_def Let_def desk_request_def)
  moreover have "delegate desk_composer desk_lead ?r s = run_child desk_composer desk_lead ?r desk_child ?x ''id-1'' s1"
    using valid path found tools rest claim ids ok
    by (simp add: desk_sel delegate_def and_then_def lift_result_bind Let_def bind_act_def [of "read_state f" for f]
        read_state_def require_authority_def constructed_def bind_act_def [of "claim_delegation a b" for a b]
        bind_act_def [of child_identities])
  ultimately show ?thesis using run(2) by (auto simp: completed_def)
qed

lemma desk_delegated:
  "\<exists>res s1. delegate desk_composer desk_lead (desk_request ''task'') desk_fleet = Some (Inr res, s1) \<and>
     completed (dlr_outcome res)"
  by (rule desk_delegates) (simp_all add: desk_fleet_def)

theorem delegation_bounded_witness:
  "\<exists>res s1. delegate desk_composer desk_lead (desk_request ''task'') desk_fleet = Some (Inr res, s1) \<and>
     within_authorities desk_lead pinned_authority (dlr_context res) \<and> dlr_delegation_depth res = 1 \<and>
     dx_delegation_path (dlr_context res) = [''lead@1.0.0'', ''clerk@1.0.0'']"
proof -
  from desk_delegated obtain res s1 where
    run: "delegate desk_composer desk_lead (desk_request ''task'') desk_fleet = Some (Inr res, s1)" by blast
  have "fl_built desk_fleet = [((''clerk'', ''1.0.0''), desk_child)]" by (simp add: desk_fleet_def)
  with delegation_bounded [OF run] run show ?thesis
    by (simp add: desk_sel) (simp add: parent_path_def desk_lead_def tool_reference_def)
qed

theorem delegation_identities_unique_witness:
  "\<exists>res s1 q s2. delegate desk_composer desk_lead (desk_request ''task'') desk_fleet = Some (Inr res, s1) \<and>
     (delegate desk_composer desk_lead (desk_request ''task'') s1 = Some (q, s2) \<longrightarrow>
        (\<exists>e. q = Inl e) \<and> fl_shared s2 = fl_shared s1)"
proof -
  from desk_delegated obtain res s1 where
    run: "delegate desk_composer desk_lead (desk_request ''task'') desk_fleet = Some (Inr res, s1)" by blast
  from delegation_identities_unique [OF run composer_runs.nothing] run show ?thesis by blast
qed

theorem delegation_within_parent_witness:
  "\<exists>q s1. delegate desk_composer desk_lead (desk_request ''task'') desk_fleet = Some (q, s1) \<and>
     xs_app (rs_tools (fl_shared s1)) = 0"
proof -
  from desk_delegated obtain q s1 where
    run: "delegate desk_composer desk_lead (desk_request ''task'') desk_fleet = Some (q, s1)" by blast
  have built: "fl_built desk_fleet = [((''clerk'', ''1.0.0''), desk_child)]" "fl_shared desk_fleet = reading_state"
    by (simp_all add: desk_fleet_def)
  have reg: "tg_tools (xs_registry (rs_tools reading_state)) = [((''count'', ''1.0.0''), reading_tool)]"
    "xs_app (rs_tools reading_state) = 0"
    by (simp_all add: reading_state_def reading_registry_def sample_runtime_state_def)
  have "ports_keep (\<lambda>n. n = 0) reading_runtime"
    using sample_ports [of "\<lambda>n. n = 0"]
    by (simp add: reading_runtime_def ports_keep_def governance_keeps_def services_keep_def provider_keeps_def
        sample_runtime_def)
  then have children: "children_keep (\<lambda>n. n = 0) (snd ` set (fl_built desk_fleet))"
    by (simp add: children_keep_def built desk_child_def)
  have key: "tool_key reading_tool = (''count'', ''1.0.0'')"
    by (simp add: tool_key_def reading_tool_def counting_tool_def)
  then have keyed: "keyed (tg_tools (xs_registry (rs_tools (fl_shared desk_fleet))))"
    by (simp add: keyed_def built reg)
  have same: "t = reading_tool" if "registered [((''count'', ''1.0.0''), reading_tool)] t" for t
    using that by (auto simp: registered_def split: if_splits)
  have handler: "snd (td_handler reading_tool x v n) = n" for x v n
    by (simp add: reading_tool_def)
  have calls: "delegated_calls_keep (\<lambda>n. n = 0) desk_lead (snd ` set (fl_built desk_fleet))
      (tg_tools (xs_registry (rs_tools (fl_shared desk_fleet))))"
    unfolding delegated_calls_keep_def built reg by (metis same handler)
  from delegation_within_parent [OF children keyed calls] run reg built show ?thesis by auto
qed




end
