(* ===== verification/Adapter_Properties.thy ===== *)
theory Adapter_Properties
  imports Provider_Adapters Factory_Properties
begin

text \<open>
  What the adapters of \<open>Provider_Adapters\<close> deliver to the runtime: schemas that are strict, the plan and
  the outcome of the deterministic provider, and the plans of the OpenAI adapter.
\<close>

section \<open>Strict schemas\<close>

definition closed_object :: "(string, pyval) dict \<Rightarrow> bool" where
  "closed_object kvs =
     (case map_of kvs ''properties'' of
        Some (PDict ps) \<Rightarrow>
          map_of kvs ''required'' = Some (PList (map (\<lambda>p. PStr (fst p)) ps)) \<and>
          map_of kvs ''additionalProperties'' = Some (PBool False)
      | _ \<Rightarrow> True)"

text \<open>
  A node is strict when it has no default, requires all its properties and allows no others, and the
  nodes below it are strict.
\<close>

function (sequential) strict_schema :: "pyval \<Rightarrow> bool" where
  "strict_schema (PDict kvs) \<longleftrightarrow>
     map_of kvs ''default'' = None \<and> closed_object kvs \<and>
     (\<forall>(k, v) \<in> set kvs. \<forall>c \<in> set (schema_children k v). strict_schema c)"
| "strict_schema v \<longleftrightarrow> True"
  by pat_completeness auto

termination
proof (relation "measure size", goal_cases)
  case 1
  then show ?case by simp
next
  case (2 kvs p k v c)
  then have "size v < size (PDict kvs)" by (induction kvs) auto
  with schema_child_size [OF 2(3)] show ?case by simp
qed

lemma schema_map_id: "(\<And>c. c \<in> set (schema_children k v) \<Longrightarrow> f c = c) \<Longrightarrow> schema_map f k v = v"
  using schema_map_cong [of k k v v f id] by (cases v) (simp_all add: schema_map_def map_idI)

lemma schema_children_map: "schema_children k (schema_map f k v) = map f (schema_children k v)"
  by (cases "maps_schemas k"; cases "one_schema k"; cases "lists_schemas k"; cases v)
    (simp_all add: schema_children_def schema_map_def split_beta)

lemma schema_keys_free [simp]:
  "schema_children ''required'' v = []" "schema_children ''additionalProperties'' v = []"
  by (simp_all add: schema_children_def maps_schemas_def one_schema_def lists_schemas_def)

lemma properties_entry:
  "schema_map f ''properties'' v = (case v of PDict ps \<Rightarrow> PDict (map (\<lambda>(n, s). (n, f s)) ps) | _ \<Rightarrow> v)"
  by (simp add: schema_map_def maps_schemas_def)

lemma map_of_entries: "map_of (map (\<lambda>(k, v). (k, h k v)) kvs) k = map_option (h k) (map_of kvs k)"
  by (induction kvs) auto

lemma closed_close_object: "closed_object (close_object kvs)"
  by (simp add: closed_object_def close_object_def split: option.splits pyval.splits)

lemma close_object_closed: "closed_object kvs \<Longrightarrow> close_object kvs = kvs"
  by (auto simp: closed_object_def close_object_def update_triv split: option.splits pyval.splits)

lemma close_object_default:
  "map_of (close_object kvs) ''default'' = map_of kvs ''default''"
  by (simp add: close_object_def split: option.splits pyval.splits)

lemma close_object_entry:
  assumes "(k, v) \<in> set (close_object kvs)" and "c \<in> set (schema_children k v)"
  shows "(k, v) \<in> set kvs"
  using assms by (auto simp: close_object_def dest!: subsetD [OF set_update_subset] split: option.splits pyval.splits)

lemma strict_normalized: "strict_schema (normalize_schema_node v)"
proof (induction v rule: normalize_schema_node.induct)
  case (1 kvs)
  let ?es = "map (\<lambda>(k, v). (k, schema_map normalize_schema_node k v)) (AList.delete ''default'' kvs)"
  have "strict_schema c" if kv: "(k, v) \<in> set (close_object ?es)" and c: "c \<in> set (schema_children k v)" for k v c
  proof -
    from close_object_entry [OF kv c] obtain w where w: "(k, w) \<in> set (AList.delete ''default'' kvs)"
      "v = schema_map normalize_schema_node k w" by auto
    with c obtain c' where "c' \<in> set (schema_children k w)" "c = normalize_schema_node c'"
      by (auto simp: schema_children_map)
    with 1 [OF w(1) refl] show ?thesis by simp
  qed
  then show ?case
    by (auto simp: close_object_default closed_close_object map_of_entries)
qed simp_all

lemma strict_fixed: "strict_schema v \<Longrightarrow> normalize_schema_node v = v"
proof (induction v rule: normalize_schema_node.induct)
  case (1 kvs)
  then have gone: "AList.delete ''default'' kvs = kvs" and closed: "closed_object kvs"
    by (auto simp: delete_id map_of_eq_None_iff)
  have "map (\<lambda>(k, v). (k, schema_map normalize_schema_node k v)) kvs = kvs"
  proof (rule map_idI)
    fix p
    assume p: "p \<in> set kvs"
    obtain k v where kv: "p = (k, v)" by (cases p)
    have "normalize_schema_node c = c" if "c \<in> set (schema_children k v)" for c
      using 1 that p kv gone by (auto dest: bspec)
    then show "(\<lambda>(k, v). (k, schema_map normalize_schema_node k v)) p = p"
      using schema_map_id kv by simp
  qed
  with gone closed show ?case by (simp add: close_object_closed)
qed simp_all

text \<open>
  C23: the schemas of the OpenAI adapter are strict, and strict ones are sent as they are. In the
  rewritten schema no node has a default, every node with properties requires all of them and allows no
  others, at any depth below properties, definitions, items and alternatives; a schema is left
  unchanged precisely when it has this form already, so a second rewriting changes nothing.
\<close>

theorem strict_schema_exact:
  "strict_schema (strict_json_schema s) \<and>
   (strict_json_schema s = PDict s \<longleftrightarrow> strict_schema (PDict s))"
  unfolding strict_json_schema_def using strict_normalized [of "PDict s"] strict_fixed [of "PDict s"] by metis

section \<open>The deterministic provider\<close>

lemma bindE_ok: "bindE m f = Inr y \<longleftrightarrow> (\<exists>x. m = Inr x \<and> f x = Inr y)"
  by (cases m) (auto simp: bindE_def)

lemma select_tool_offered: "select_tool p tools = Some t \<Longrightarrow> t \<in> set tools"
  by (auto simp: select_tool_def find_Some_iff split: option.splits list.splits)

lemma select_tool_none: "select_tool p tools = None \<longleftrightarrow> tools = []"
  by (auto simp: select_tool_def split: option.splits list.splits)

lemma select_tool_configured:
  assumes "select_tool p tools = Some t" and "dp_tool_id p = Some i" and "i \<in> tds_tool_id ` set tools"
  shows "tds_tool_id t = i"
  using assms by (auto simp: select_tool_def find_None_iff find_Some_iff split: option.splits)

lemma det_step_tool:
  "det_step p ctx t = Inr s \<Longrightarrow> ps_tool_id s = tds_tool_id t \<and> ps_tool_version s = Some (tds_version t)"
  by (auto simp: det_step_def bindE_ok mk_step_def split: if_splits)

lemma det_plan_cases:
  assumes "det_plan p (q, tools) = Inr r"
  obtains "tools = []" "plan_steps (pr_plan r) = []"
  | t s where "select_tool p tools = Some t" "det_step p (pq_context q) t = Inr s"
      "plan_steps (pr_plan r) = [s]"
  using assms select_tool_none [of p tools]
  by (cases "select_tool p tools") (auto simp: det_plan_def bindE_ok mk_plan_def Let_def split: if_splits)

lemma det_plan_ok: "det_plan p (q, tools) = Inr r \<Longrightarrow> agent_plan_ok (pr_plan r)"
  by (auto simp: det_plan_def bindE_ok mk_plan_def Let_def split: if_splits option.splits)

text \<open>Every visible tool is registered and active, and named by the authorized versions if there are any.\<close>

lemma visible_valid:
  assumes "keyed (tg_tools g)" and "(i, v) \<in> set (visible_tools x g)"
    and "ps_tool_id s = i" and "ps_tool_version s = Some v"
  shows "validate_steps x g [s] = Inr ()"
proof -
  from assms(2) obtain t where t: "t \<in> set (list_tools False g)" "tool_key t = (i, v)"
    and fits: "ec_authorized_tool_versions x = [] \<or> i @ ''@'' @ v \<in> set (ec_authorized_tool_versions x)"
    by (auto simp: visible_tools_def tool_key_def)
  then have "registered (tg_tools g) t"
    using assms(1) by (auto simp: list_tools_def registered_def keyed_def map_of_eq_Some_iff)
  from get_tool_exact [OF this] t(2) fits assms(3,4) show ?thesis by (auto simp: tool_key_def)
qed

lemma validate_each: "(\<And>s. s \<in> set ss \<Longrightarrow> validate_steps x g [s] = Inr ()) \<Longrightarrow> validate_steps x g ss = Inr ()"
  by (induction ss) (fastforce split: sum.splits if_splits)+

text \<open>
  The contract of a provider that keeps to its request: its plans are well formed and name offered tools
  in their exact version, its outcomes name evidence of the results only. The runtime accepts such a
  provider's plans, and finds its outcomes supported.
\<close>

locale exact_provider =
  fixes plan :: "planning_request \<times> described_tool list \<Rightarrow> exc + planning_response"
    and compose_outcome :: "composition_request \<Rightarrow> exc + composition_response"
  assumes plan_ok: "plan (q, tools) = Inr r \<Longrightarrow> agent_plan_ok (pr_plan r)"
    and plan_offered: "plan (q, tools) = Inr r \<Longrightarrow> s \<in> set (plan_steps (pr_plan r)) \<Longrightarrow>
      \<exists>v. ps_tool_version s = Some v \<and> (ps_tool_id s, v) \<in> described_key ` set tools"
    and outcome_evidence: "compose_outcome o1 = Inr c \<Longrightarrow>
      set (op_evidence_ids (cp_proposal c)) \<subseteq> set (returned_ids (cq_tool_results o1))"
begin

lemma plan_normalized: "plan (q, tools) = Inr r \<Longrightarrow> normalize_plan env (RPlanningResponse r) = Inr r"
  by (rule normalize_response) (rule plan_ok)

lemma plan_seen:
  assumes "map described_key tools = visible_tools x g" and "plan (q, tools) = Inr r"
    and "s \<in> set (plan_steps (pr_plan r))"
  shows "\<exists>v. ps_tool_version s = Some v \<and> (ps_tool_id s, v) \<in> set (visible_tools x g)"
  using plan_offered [OF assms(2,3)] unfolding assms(1) [symmetric] by simp

lemma plan_validated:
  assumes "keyed (tg_tools g)" and "map described_key tools = visible_tools x g" and "plan (q, tools) = Inr r"
  shows "validate_steps x g (plan_steps (pr_plan r)) = Inr ()"
proof (rule validate_each)
  fix s
  assume "s \<in> set (plan_steps (pr_plan r))"
  from plan_seen [OF assms(2,3) this] show "validate_steps x g [s] = Inr ()"
    using visible_valid [OF assms(1) _ refl] by fast
qed

lemma outcome_supported: "compose_outcome o1 = Inr c \<Longrightarrow> vr_supported (verify_outcome (cp_proposal c) (cq_tool_results o1))"
  using outcome_evidence [of o1 c] by (auto simp: verify_outcome_def Let_def filter_empty_conv sort_Nil_iff)

end

lemma det_plan_offered:
  assumes "det_plan p (q, tools) = Inr r" and "s \<in> set (plan_steps (pr_plan r))"
  shows "\<exists>v. ps_tool_version s = Some v \<and> (ps_tool_id s, v) \<in> described_key ` set tools"
  using assms(1)
proof (cases rule: det_plan_cases)
  case (2 t s')
  with assms(2) select_tool_offered [OF 2(1)] det_step_tool [OF 2(2)] show ?thesis
    by (auto simp: described_key_def)
qed (use assms(2) in simp)

lemma det_compose_proposal:
  assumes "det_compose p q = Inr r"
  shows "set (op_evidence_ids (cp_proposal r)) = set (returned_ids (succeeded (cq_tool_results q)))"
    and "distinct (op_evidence_ids (cp_proposal r))"
  using assms by (auto simp: det_compose_def Let_def bindE_ok mk_outcome_proposal_def split: if_splits)

lemma returned_succeeded: "set (returned_ids (succeeded rs)) \<subseteq> set (returned_ids rs)"
  by (auto simp: returned_ids_def succeeded_def)

interpretation det: exact_provider "det_plan p" "det_compose p" for p
  by unfold_locales (auto dest: det_plan_ok det_plan_offered det_compose_proposal(1) subsetD [OF returned_succeeded])

text \<open>
  C22: the deterministic provider plans within its request. Offered the tools the runtime lets it see, it
  plans one call of one of them in its exact version, of the configured tool when that is among them,
  and none precisely when it sees no tool; the plan passes the normalization unchanged and the
  runtime's check of its tools.
\<close>

theorem deterministic_plan_valid:
  assumes "keyed (tg_tools g)" and "map described_key tools = visible_tools x g"
    and "det_plan p (q, tools) = Inr r"
  shows "length (plan_steps (pr_plan r)) \<le> 1 \<and>
         (plan_steps (pr_plan r) = [] \<longleftrightarrow> visible_tools x g = []) \<and>
         (\<forall>s \<in> set (plan_steps (pr_plan r)).
            (\<exists>v. ps_tool_version s = Some v \<and> (ps_tool_id s, v) \<in> set (visible_tools x g)) \<and>
            (\<forall>i. dp_tool_id p = Some i \<and> i \<in> fst ` set (visible_tools x g) \<longrightarrow> ps_tool_id s = i)) \<and>
         normalize_plan env (RPlanningResponse r) = Inr r \<and>
         validate_steps x g (plan_steps (pr_plan r)) = Inr ()"
proof -
  have ids: "fst ` set (visible_tools x g) = tds_tool_id ` set tools"
    unfolding assms(2) [symmetric] by (simp add: image_image described_key_def)
  have shape: "length (plan_steps (pr_plan r)) \<le> 1 \<and>
      (plan_steps (pr_plan r) = [] \<longleftrightarrow> visible_tools x g = []) \<and>
      (\<forall>s \<in> set (plan_steps (pr_plan r)). \<forall>i. dp_tool_id p = Some i \<and> i \<in> tds_tool_id ` set tools \<longrightarrow> ps_tool_id s = i)"
    using assms(3)
  proof (cases rule: det_plan_cases)
    case 1
    then show ?thesis using assms(2) by simp
  next
    case (2 t s)
    then have "tools \<noteq> []" using select_tool_none [of p tools] by auto
    moreover have "ps_tool_id s = i" if "dp_tool_id p = Some i" "i \<in> tds_tool_id ` set tools" for i
      using select_tool_configured [OF 2(1) that] det_step_tool [OF 2(2)] by simp
    ultimately show ?thesis using 2(3) assms(2) by fastforce
  qed
  with ids det.plan_seen [OF assms(2,3)] det.plan_normalized [OF assms(3)] det.plan_validated [OF assms]
  show ?thesis by auto
qed

text \<open>
  The provider passes the probe when its names, its counts, the offered tools and the context are
  valid and its arguments are the default ones.
\<close>

lemma det_metadata_ok:
  assumes "dp_provider_id p \<noteq> []" and "dp_provider_version p \<noteq> []" and "dp_model p \<noteq> []"
    and "0 \<le> dp_input_tokens p" and "0 \<le> dp_output_tokens p" and "i \<noteq> []"
  shows "\<exists>md. det_metadata p i = Inr md"
  using assms by (simp add: det_metadata_def mk_call_metadata_def provider_call_metadata_ok_def
      opt_nonempty_def nonnegative_def)

lemma det_conforms:
  assumes names: "dp_provider_id p \<noteq> []" "dp_provider_version p \<noteq> []" "dp_model p \<noteq> []"
    and counts: "0 \<le> dp_input_tokens p" "0 \<le> dp_output_tokens p"
    and "dp_argument_builder p = None" and "cc_input_text ctx \<noteq> []"
    and tools: "\<forall>t \<in> set tools. tds_tool_id t \<noteq> []"
  shows "\<exists>c. run_conformance_probe env (det_adapter p) ctx x prompt skills tools = Inr c \<and>
             ip_intent (ir_proposal (cnf_interpretation c)) = cc_input_text ctx \<and>
             op_evidence_ids (cnf_outcome_proposal c) = []"
proof -
  note md = det_metadata_ok [OF names counts]
  let ?iq = "\<lparr>iq_request_id = ''conformance:interpret'', iq_context = ctx, iq_execution = x,
      iq_prompt = prompt, iq_skills = skills, iq_tools = map described_key tools\<rparr>"
  obtain ir where ir: "det_interpret p ?iq = Inr ir" "ip_intent (ir_proposal ir) = cc_input_text ctx"
    using md [of "''conformance:interpret''"] assms(7)
    by (auto simp: det_interpret_def mk_interpretation_def bindE_def)
  let ?pq = "\<lparr>pq_request_id = ''conformance:plan'', pq_context = ctx, pq_execution = x, pq_prompt = prompt,
      pq_skills = skills, pq_tools = map described_key tools, pq_interpretation = Some ir\<rparr>"
  have "\<exists>s. det_step p ctx t = Inr s" if "select_tool p tools = Some t" for t
    using tools select_tool_offered [OF that] assms(6)
    by (auto simp: det_step_def bindE_def mk_step_def plan_step_ok_def)
  then obtain pr where pr: "det_plan p (?pq, tools) = Inr pr"
    using md [of "''conformance:plan''"]
    by (cases "select_tool p tools") (force simp: det_plan_def bindE_def mk_plan_def agent_plan_ok_def Let_def)+
  let ?cq = "\<lparr>cq_request_id = ''conformance:compose'', cq_context = ctx, cq_execution = x,
      cq_plan = pr_plan pr, cq_tool_results = []\<rparr>"
  obtain cp where cp: "det_compose p ?cq = Inr cp" "op_evidence_ids (cp_proposal cp) = []"
    using md [of "''conformance:compose''"]
    by (auto simp: det_compose_def mk_outcome_proposal_def succeeded_def returned_ids_def bindE_def)
  show ?thesis
    using ir pr cp det.plan_normalized [OF pr]
    by (simp add: run_conformance_probe_def det_adapter_def bindE_def normalize_interpretation_def
        normalize_composition_def)
qed

definition counting_described :: described_tool where
  "counting_described =
     tool_descriptor.extend (tool_descriptor_of counting_tool) (described_tool.fields [''input''] [])"

definition sample_deterministic :: deterministic_provider where
  "sample_deterministic =
     \<lparr>dp_tool_id = Some ''count'', dp_argument_builder = None, dp_provider_id = ''deterministic'',
      dp_provider_version = ''1.0.0'', dp_model = ''deterministic-model'', dp_input_tokens = 0,
      dp_output_tokens = 0\<rparr>"

definition sample_planning_request :: planning_request where
  "sample_planning_request =
     \<lparr>pq_request_id = ''q'',
      pq_context = \<lparr>cc_execution_id = ''run'', cc_principal_id = ''p'', cc_tenant_id = ''t'',
        cc_session_id = ''s'', cc_input_text = ''hello'', cc_blocks = [], cc_dropped_block_ids = [],
        cc_character_count = 0\<rparr>,
      pq_execution = execution_of sample_runtime (sample_args [''count'']) ''run'' ''state'',
      pq_prompt = None, pq_skills = [], pq_tools = [(''count'', ''1.0.0'')], pq_interpretation = None\<rparr>"

definition sample_planned :: planning_response where
  "sample_planned =
     \<lparr>pr_plan = \<lparr>plan_steps =
          [\<lparr>ps_step_id = ''step_1'', ps_tool_id = ''count'', ps_tool_version = Some ''1.0.0'',
            ps_purpose = ''Execute the configured skill operation.'',
            ps_arguments = [(''input'', PStr ''hello'')], ps_required = True,
            ps_idempotency_key = Some ''run:step_1''\<rparr>],
        plan_stop_reason = None\<rparr>,
      pr_metadata = \<lparr>pcm_provider_id = ''deterministic'', pcm_provider_version = ''1.0.0'',
        pcm_model = ''deterministic-model'', pcm_request_id = Some ''q'', pcm_retry_count = 0,
        pcm_input_tokens = Some 0, pcm_output_tokens = Some 0, pcm_total_tokens = Some 0,
        pcm_metadata = []\<rparr>\<rparr>"

theorem deterministic_plan_valid_witness:
  "validate_steps (execution_of sample_runtime (sample_args [''count'']) ''run'' ''state'') counting_registry
     (plan_steps (pr_plan sample_planned)) = Inr ()"
proof -
  let ?x = "execution_of sample_runtime (sample_args [''count'']) ''run'' ''state''"
  have seen: "map described_key [counting_described] = visible_tools ?x counting_registry"
    by (simp add: visible_tools_def list_tools_def counting_tools execution_of_def sample_args_def
        described_key_def counting_described_def tool_descriptor.extend_def described_tool.fields_def
        tool_descriptor_of_def counting_tool_def tool_key_def)
  have "det_plan sample_deterministic (sample_planning_request, [counting_described]) = Inr sample_planned"
    by (simp add: det_plan_def select_tool_def sample_deterministic_def counting_described_def
        tool_descriptor.extend_def described_tool.fields_def tool_descriptor_of_def counting_tool_def
        det_step_def default_arguments_def mk_step_def plan_step_ok_def bindE_def mk_plan_def agent_plan_ok_def
        det_metadata_def mk_call_metadata_def provider_call_metadata_ok_def nonnegative_def opt_nonempty_def
        sample_planning_request_def sample_planned_def)
  from deterministic_plan_valid [OF sample_keyed seen this] show ?thesis by blast
qed

section \<open>The OpenAI adapter\<close>

text \<open>What leaves \<open>_create\<close> is a provider error, but for an exit signal.\<close>

lemma openai_create_error:
  "openai_create client q = Inl e \<Longrightarrow> is_provider_error e \<or> e = ExitSignal"
  by (auto simp: openai_create_def create_error_def ProviderError_def ProviderTimeoutError_def
      split: option.splits sum.splits if_splits)

lemma call_value_step:
  "normalize_tool_call env n (sdk_raw (call_value item)) = Inr s \<Longrightarrow> ps_tool_version s = None"
  by (auto simp: call_value_def normalize_tool_call_def as_mapping_def bindE_ok mk_step_def
      split: option.splits if_splits)

lemma collect_calls_values: "collect_calls items = Inr calls \<Longrightarrow> set calls \<subseteq> range call_value"
  by (induction items arbitrary: calls) (auto simp: bindE_ok split: if_splits)

lemma call_items_steps:
  assumes "normalize_items env n (map sdk_raw calls) = Inr ss" and "set calls \<subseteq> range call_value"
  shows "\<forall>s \<in> set ss. ps_tool_version s = None"
  using assms by (induction calls arbitrary: n ss) (auto simp: bindE_ok dest: call_value_step)

lemma openai_steps_unversioned:
  assumes "openai_plan env client model q = Inr r" and "s \<in> set (plan_steps (pr_plan r))"
  shows "ps_tool_version s = None"
proof -
  from assms(1) obtain response calls steps where calls: "function_calls response = Inr calls"
    and steps: "(if calls \<noteq> [] then normalize_tool_calls (oe_norm env) (RMap [(''tool_calls'', RSeq (map sdk_raw calls))])
       else Inr []) = Inr steps" and "plan_steps (pr_plan r) = steps"
    by (auto simp: openai_plan_def bindE_ok mk_plan_def Let_def split: if_splits)
  with assms(2) have "normalize_items (oe_norm env) 1 (map sdk_raw calls) = Inr steps" "s \<in> set steps"
    by (auto simp: normalize_tool_calls_def call_values_def bindE_ok tool_call_collection.simps split: if_splits)
  with collect_calls_values calls call_items_steps show ?thesis
    unfolding function_calls_def by blast
qed

text \<open>
  C21: no plan of the OpenAI adapter passes the version check of a built agent. Its function calls carry
  a tool's name without its version, so the steps have none, and the runtime looks for a reference
  with the version "None": when the run has authorized versions, which a built agent takes from its
  manifest unless its caller passes none, every plan with a step is refused with
  \<open>tool_version_not_authorized\<close>, whatever the model answers and whatever is registered.
\<close>

theorem openai_plan_refused:
  assumes "openai_plan env client model q = Inr r" and "built_args u c = Inr a"
    and "ra_authorized_tool_versions a \<noteq> []"
    and "\<forall>i. i @ ''@None'' \<notin> set (ra_authorized_tool_versions a)"
  shows "validate_steps (execution_of d a i j) g (plan_steps (pr_plan r)) =
           (if plan_steps (pr_plan r) = [] then Inr ()
            else Inl (plain_error ''tool_version_not_authorized''))"
proof (cases "plan_steps (pr_plan r)")
  case (Cons s ss)
  with openai_steps_unversioned [OF assms(1), of s] assms(3,4) show ?thesis
    by (simp add: execution_of_def)
qed simp

definition sample_openai_env :: openai_env where
  "sample_openai_env =
     \<lparr>oe_norm = \<lparr>ne_interpretation = (\<lambda>v. None), ne_outcome = (\<lambda>v. None), ne_metadata = (\<lambda>v. None),
        ne_loads = (\<lambda>s. if s = ''{}'' then Some (RMap []) else None), ne_str = (\<lambda>v. [])\<rparr>,
      oe_float_repr = (\<lambda>q. []), oe_object_str = (\<lambda>n. []), oe_interpretation_schema = [],
      oe_outcome_schema = [], oe_validate_interpretation = (\<lambda>v. None), oe_validate_outcome = (\<lambda>v. None),
      oe_dump_interpretation = (\<lambda>r. PNone), oe_dump_plan = (\<lambda>p. PNone), oe_dump_result = (\<lambda>r. PNone)\<rparr>"

lemma openai_plan_of_parts:
  assumes "openai_create client (plan_payload env model q) = Inr response"
    and "function_calls response = Inr calls"
    and "normalize_tool_calls (oe_norm env) (RMap [(''tool_calls'', RSeq (map sdk_raw calls))]) = Inr steps"
    and "openai_metadata env model response = Inr md"
    and "calls \<noteq> []" and "steps \<noteq> []" and "distinct (map ps_step_id steps)"
  shows "openai_plan env client model q =
    Inr \<lparr>pr_plan = \<lparr>plan_steps = steps, plan_stop_reason = None\<rparr>, pr_metadata = md\<rparr>"
  using assms by (simp add: openai_plan_def bindE_def mk_plan_def agent_plan_ok_def)

text \<open>A response that calls the counting tool.\<close>

definition counting_response :: sdk where
  "counting_response =
     SObject 0
       [(''output'', SSeq [SMap [(''type'', SStr ''function_call''), (''call_id'', SStr ''c''), (''name'', SStr ''count'')]])]"

definition sample_openai_planned :: planning_response where
  "sample_openai_planned =
     \<lparr>pr_plan = \<lparr>plan_steps =
          [\<lparr>ps_step_id = ''c'', ps_tool_id = ''count'', ps_tool_version = None,
            ps_purpose = ''Provider-proposed tool call.'', ps_arguments = [], ps_required = True,
            ps_idempotency_key = None\<rparr>], plan_stop_reason = None\<rparr>,
      pr_metadata = \<lparr>pcm_provider_id = ''openai'', pcm_provider_version = ''responses-api'', pcm_model = ''m'',
        pcm_request_id = None, pcm_retry_count = 0, pcm_input_tokens = None, pcm_output_tokens = None,
        pcm_total_tokens = None, pcm_metadata = []\<rparr>\<rparr>"

theorem openai_plan_refused_witness:
  "validate_steps (execution_of sample_runtime ((sample_args [''count''])\<lparr>ra_agent_id := ''clerk'',
       ra_agent_version := ''1.0.0'', ra_authorized_tool_versions := [''count@1.0.0''],
       ra_max_risk_level := Some Risk_LOW\<rparr>) ''run'' ''state'') counting_registry
     (plan_steps (pr_plan sample_openai_planned)) = Inl (plain_error ''tool_version_not_authorized'')"
proof -
  let ?c = "\<lparr>bc_tool_ids = None, bc_tool_versions = None, bc_max_risk_level = None, bc_names_identity = False,
      bc_rest = sample_args []\<rparr>"
  let ?a = "(sample_args [''count''])\<lparr>ra_agent_id := ''clerk'', ra_agent_version := ''1.0.0'',
      ra_authorized_tool_versions := [''count@1.0.0''], ra_max_risk_level := Some Risk_LOW\<rparr>"
  have args: "built_args pinned_authority ?c = Inr ?a"
    by (simp add: built_args_def selected_tool_ids_def selected_tool_versions_def effective_risk_def
        pinned_authority_def sample_args_def referenced_id_def)
  have calls: "function_calls counting_response =
      Inr [SMap [(''call_id'', SStr ''c''), (''name'', SStr ''count''), (''arguments'', SStr ''{}'')]]"
    by (simp add: function_calls_def counting_response_def sdk_get_def sequence_or_empty_def call_item_def
        call_value_def sdk_or_def bindE_def)
  have steps: "normalize_tool_calls (oe_norm sample_openai_env) (RMap [(''tool_calls'', RSeq (map sdk_raw
        [SMap [(''call_id'', SStr ''c''), (''name'', SStr ''count''), (''arguments'', SStr ''{}'')]]))]) =
      Inr (plan_steps (pr_plan sample_openai_planned))"
    by (simp add: normalize_tool_calls_def call_values_def tool_call_collection.simps bindE_def
        normalize_tool_call_def as_mapping_def raw_arguments_def call_arguments_def sample_openai_env_def
        mk_step_def plan_step_ok_def or_else_def sample_openai_planned_def blank_def strip_def is_space_def)
  have md: "openai_metadata sample_openai_env ''m'' counting_response = Inr (pr_metadata sample_openai_planned)"
    by (simp add: openai_metadata_def sdk_get_def sdk_or_def counting_response_def mk_call_metadata_def
        provider_call_metadata_ok_def nonnegative_def opt_nonempty_def string_or_none_def
        integer_or_none_def sample_openai_planned_def)
  have "openai_plan sample_openai_env (Some (\<lambda>_. Inr counting_response)) ''m''
      (sample_planning_request, [counting_described]) = Inr sample_openai_planned"
    using openai_plan_of_parts [OF _ calls steps md] by (simp add: openai_create_def sample_openai_planned_def)
  from openai_plan_refused [OF this args, of sample_runtime "''run''" "''state''" counting_registry]
  have "\<forall>i. i @ ''@None'' \<notin> set (ra_authorized_tool_versions ?a) \<Longrightarrow> ?thesis"
    by (simp add: sample_openai_planned_def)
  moreover have "i @ ''@None'' \<noteq> ''count@1.0.0''" for i
    using arg_cong [of "i @ ''@None''" "''count@1.0.0''" last] by auto
  ultimately show ?thesis by simp
qed

end
