(* ===== verification/Evaluation.thy ===== *)
theory Evaluation
  imports Factory
begin

text \<open>
  \<open>evaluation/integration.py\<close> with its contracts, and \<open>observability/failures.py\<close>: a test case run
  through a built agent for an external evaluator, the reconstruction of recorded evidence, and the
  report of a failing sink. \<open>model_dump\<close> of a trace and of a manifest and the parser of a trace are
  arguments, as is the adapter of the test cases.
\<close>

section \<open>Contracts\<close>

record replay_request =
  rpr_trace_id :: string
  rpr_execution_id :: string
  rpr_agent_id :: string
  rpr_agent_version :: string
  rpr_input_fingerprint :: string
  rpr_state_id :: string
  rpr_state_version :: int
  rpr_seed :: int
  rpr_tool_result_fixtures :: "(string, pyval) dict"

definition replay_request_ok :: "replay_request \<Rightarrow> bool" where
  "replay_request_ok r \<longleftrightarrow>
     rpr_trace_id r \<noteq> [] \<and> rpr_execution_id r \<noteq> [] \<and> rpr_agent_id r \<noteq> [] \<and> rpr_agent_version r \<noteq> [] \<and>
     rpr_input_fingerprint r \<noteq> [] \<and> rpr_state_id r \<noteq> [] \<and> 0 \<le> rpr_state_version r"

record evaluation_input =
  evi_case_id :: string
  evi_principal :: principal_context
  evi_input_text :: string
  evi_execution_id :: string
  evi_correlation_id :: "string option"
  evi_resource :: "resource_context option"

definition evaluation_input_ok :: "evaluation_input \<Rightarrow> bool" where
  "evaluation_input_ok q \<longleftrightarrow>
     evi_case_id q \<noteq> [] \<and> principal_context_ok (evi_principal q) \<and> evi_input_text q \<noteq> [] \<and>
     evi_execution_id q \<noteq> [] \<and> opt_nonempty (evi_correlation_id q)"

datatype evaluation_role = Role_BASELINE | Role_CANDIDATE

record evaluation_subject =
  evs_role :: evaluation_role
  evs_agent_id :: string
  evs_agent_version :: string
  evs_manifest_id :: string
  evs_manifest_digest :: string

definition evaluation_subject_ok :: "evaluation_subject \<Rightarrow> bool" where
  "evaluation_subject_ok s \<longleftrightarrow>
     evs_agent_id s \<noteq> [] \<and> evs_agent_version s \<noteq> [] \<and> evs_manifest_id s \<noteq> [] \<and> evs_manifest_digest s \<noteq> []"

definition subject_from_manifest :: "resolved_manifest \<Rightarrow> evaluation_role \<Rightarrow> exc + evaluation_subject" where
  "subject_from_manifest m role =
     (let s = \<lparr>evs_role = role, evs_agent_id = ag_agent_id (mf_agent m),
               evs_agent_version = ag_version (mf_agent m), evs_manifest_id = mf_manifest_id m,
               evs_manifest_digest = mf_manifest_digest m\<rparr>
      in if evaluation_subject_ok s then Inr s else Inl ValidationError)"

record evaluation_evidence =
  evd_case_id :: string
  evd_subject :: evaluation_subject
  evd_run_trace :: "(string, pyval) dict"
  evd_manifest :: "(string, pyval) dict"

record recorded_replay =
  rcr_source_trace_id :: string
  rcr_source_execution_id :: string
  rcr_live_actions_executed :: bool
  rcr_trace :: run_trace

section \<open>A test case\<close>

text \<open>The call of \<open>execute_test_case\<close>, with the defaults of \<open>AgentRuntime.execute\<close>.\<close>

definition evaluation_call :: "evaluation_input \<Rightarrow> built_call" where
  "evaluation_call q =
     \<lparr>bc_tool_ids = None, bc_tool_versions = None, bc_max_risk_level = None, bc_names_identity = False,
      bc_rest =
        \<lparr>ra_principal = evi_principal q, ra_input_text = evi_input_text q, ra_agent_id = [],
         ra_agent_version = [], ra_authorized_tool_ids = [], ra_authorized_tool_versions = [],
         ra_granted_permissions = [], ra_approved_action_digests = [], ra_state_id = None,
         ra_execution_id = Some (evi_execution_id q), ra_environment = None, ra_max_risk_level = None,
         ra_max_steps = None, ra_correlation_id = evi_correlation_id q, ra_parent_execution_id = None,
         ra_delegation_id = None, ra_delegation_depth = 0, ra_delegation_path = [], ra_event_id = None,
         ra_trigger_id = None, ra_causation_id = None, ra_attempt = 0, ra_resource = evi_resource q,
         ra_timeout = None, ra_cancellation_event = False, ra_cancel_event = False,
         ra_plan_override = None, ra_composition_override = None, ra_initial_calls = [],
         ra_initial_results = [], ra_initial_risk = Risk_LOW, ra_allow_existing = False\<rparr>\<rparr>"

definition execute_test_case ::
  "manifest_digest \<Rightarrow> (run_trace \<Rightarrow> (string, pyval) dict) \<Rightarrow> (resolved_manifest \<Rightarrow> (string, pyval) dict) \<Rightarrow>
   ('c \<Rightarrow> exc + evaluation_input) \<Rightarrow> 'w built_agent \<Rightarrow> 'c \<Rightarrow> evaluation_role \<Rightarrow> (evaluation_evidence, 'w) rt" where
  "execute_test_case digest dump_trace dump_manifest adapt b test_case role =
     bind_act (lift_result (adapt test_case)) (\<lambda>q.
     bind_act (built_execute digest b (evaluation_call q)) (\<lambda>outcome.
     bind_act (lift_result (subject_from_manifest (ba_manifest b) role)) (\<lambda>subject.
     bind_act (built_trace_for b (ao_execution_id outcome)) (\<lambda>trace.
       lift_result
         (if evi_case_id q = [] then Inl ValidationError
          else Inr \<lparr>evd_case_id = evi_case_id q, evd_subject = subject, evd_run_trace = dump_trace trace,
                    evd_manifest = dump_manifest (ba_manifest b)\<rparr>)))))"

text \<open>\<open>RecordedReplayAdapter.replay\<close>: a trace, or a mapping that the parser turns into one.\<close>

definition replay_recorded :: "(pyval \<Rightarrow> run_trace option) \<Rightarrow> run_trace + pyval \<Rightarrow> exc + recorded_replay" where
  "replay_recorded validate exported =
     (case (case exported of Inl t \<Rightarrow> Some t | Inr v \<Rightarrow> validate v) of
        None \<Rightarrow> Inl ValidationError
      | Some t \<Rightarrow>
          Inr \<lparr>rcr_source_trace_id = rt_trace_id t, rcr_source_execution_id = ec_execution_id (rt_execution t),
               rcr_live_actions_executed = False, rcr_trace = t\<rparr>)"

section \<open>Reports of failing sinks\<close>

record observability_failure =
  obf_failure_id :: string
  obf_sink_type :: string
  obf_operation :: string
  obf_execution_id :: string
  obf_correlation_id :: string
  obf_error_type :: string
  obf_occurred_at :: time

definition observability_failure_ok :: "observability_failure \<Rightarrow> bool" where
  "observability_failure_ok f \<longleftrightarrow>
     obf_failure_id f \<noteq> [] \<and> obf_sink_type f \<noteq> [] \<and> obf_operation f \<noteq> [] \<and> obf_execution_id f \<noteq> [] \<and>
     obf_correlation_id f \<noteq> [] \<and> obf_error_type f \<noteq> []"

text \<open>
  The failure is built before the \<open>try\<close>; only what the reporter raises is swallowed. A reporter that
  keeps its failures in a list is \<open>list_reporter\<close>.
\<close>

definition report_observability_failure ::
  "('r \<Rightarrow> observability_failure \<Rightarrow> (exc + unit) \<times> 'r) \<Rightarrow> string \<Rightarrow> string \<Rightarrow> string \<Rightarrow> string \<Rightarrow> string \<Rightarrow>
   world \<Rightarrow> 'r \<Rightarrow> (exc + unit) \<times> world \<times> 'r" where
  "report_observability_failure record_failure sink operation execution_id correlation_id error w r =
     (let (i, w1) = new_id ''observability_failure'' w; (t, w2) = now w1;
          f = \<lparr>obf_failure_id = i, obf_sink_type = sink, obf_operation = operation,
               obf_execution_id = execution_id, obf_correlation_id = correlation_id,
               obf_error_type = error, obf_occurred_at = t\<rparr>
      in if \<not> observability_failure_ok f then (Inl ValidationError, w2, r)
         else
           (case record_failure r f of
              (Inl ExitSignal, r1) \<Rightarrow> (Inl ExitSignal, w2, r1)
            | (_, r1) \<Rightarrow> (Inr (), w2, r1)))"

definition list_reporter ::
  "observability_failure list \<Rightarrow> observability_failure \<Rightarrow> (exc + unit) \<times> observability_failure list" where
  "list_reporter fs f = (Inr (), fs @ [f])"

text \<open>
  \<open>_append_safely\<close> of the trace recorder and of the audit log: an exception of the sink is reported, not
  raised. \<open>type_name\<close> is the name of an exception's class.
\<close>

definition append_safely ::
  "string \<Rightarrow> ('k \<Rightarrow> 'e \<Rightarrow> (exc + unit) \<times> 'k) \<Rightarrow> ('r \<Rightarrow> observability_failure \<Rightarrow> (exc + unit) \<times> 'r) \<Rightarrow>
   (exc \<Rightarrow> string) \<Rightarrow> string \<Rightarrow> string \<Rightarrow> string \<Rightarrow> 'e \<Rightarrow> 'k \<times> world \<times> 'r \<Rightarrow> (exc + unit) \<times> 'k \<times> world \<times> 'r" where
  "append_safely operation snk record_failure type_name sink execution_id correlation_id e = (\<lambda>(k, w, r).
     case snk k e of
       (Inr _, k1) \<Rightarrow> (Inr (), k1, w, r)
     | (Inl x, k1) \<Rightarrow>
         if x = ExitSignal then (Inl ExitSignal, k1, w, r)
         else
           (case report_observability_failure record_failure sink operation execution_id correlation_id
                   (type_name x) w r of
              (q, w1, r1) \<Rightarrow> (q, k1, w1, r1)))"

definition trace_append ::
  "('k \<Rightarrow> trace_event \<Rightarrow> (exc + unit) \<times> 'k) \<Rightarrow> ('r \<Rightarrow> observability_failure \<Rightarrow> (exc + unit) \<times> 'r) \<Rightarrow>
   (exc \<Rightarrow> string) \<Rightarrow> string \<Rightarrow> string \<Rightarrow> trace_event \<Rightarrow> 'k \<times> world \<times> 'r \<Rightarrow> (exc + unit) \<times> 'k \<times> world \<times> 'r" where
  "trace_append snk record_failure type_name sink correlation_id e =
     append_safely ''trace_append'' snk record_failure type_name sink (tev_execution_id e) correlation_id e"

definition audit_append ::
  "('k \<Rightarrow> audit_event \<Rightarrow> (exc + unit) \<times> 'k) \<Rightarrow> ('r \<Rightarrow> observability_failure \<Rightarrow> (exc + unit) \<times> 'r) \<Rightarrow>
   (exc \<Rightarrow> string) \<Rightarrow> string \<Rightarrow> audit_event \<Rightarrow> 'k \<times> world \<times> 'r \<Rightarrow> (exc + unit) \<times> 'k \<times> world \<times> 'r" where
  "audit_append snk record_failure type_name sink e =
     append_safely ''audit_append'' snk record_failure type_name sink (ae_execution_id e)
       (ae_correlation_id e) e"

section \<open>Lemmas\<close>

lemma bind_act_Inr:
  assumes "bind_act m f s = Some (Inr y, s')"
  obtains x s1 where "m s = Some (Inr x, s1)" "f x s1 = Some (Inr y, s')"
  using assms by (auto simp: bind_act_def split: option.splits sum.splits prod.splits)

text \<open>
  The evidence of a case is that of a run of the agent for this case: it names the case and the agent's
  manifest, and its trace is the one kept under the execution of the outcome of that run.
\<close>

lemma evidence_of_run:
  assumes "execute_test_case digest dump_trace dump_manifest adapt b test_case role s = Some (Inr e, s')"
  shows "\<exists>q outcome trace. adapt test_case = Inr q \<and>
           built_execute digest b (evaluation_call q) s = Some (Inr outcome, s') \<and>
           map_of (rs_traces s') (ao_execution_id outcome) = Some trace \<and>
           evd_case_id e = evi_case_id q \<and> evd_run_trace e = dump_trace trace \<and>
           evs_manifest_digest (evd_subject e) = mf_manifest_digest (ba_manifest b)"
  using assms unfolding execute_test_case_def
  by (elim bind_act_Inr)
    (auto simp: lift_result_def subject_from_manifest_def Let_def built_trace_for_def trace_for_def
      read_state_def bind_act_def fail_def ret_def split: if_splits option.splits)

text \<open>What the reporter raises never leaves the report, but for an exit signal; a valid failure is kept.\<close>

lemma report_swallows:
  assumes "report_observability_failure rec sink op x c err w r = (Inl e, w', r')"
  shows "e = ExitSignal \<or>
    e = ValidationError \<and> (make_id w ''observability_failure'' (id_calls w) = [] \<or> sink = [] \<or> op = [] \<or>
      x = [] \<or> c = [] \<or> err = [])"
  using assms
  by (auto simp: report_observability_failure_def new_id_def Let_def observability_failure_ok_def
      split: prod.splits if_splits sum.splits exc.splits)

text \<open>Whatever a sink and the reporter raise, an append comes back, when the failure report is valid.\<close>

lemma append_safely_returns:
  assumes "append_safely op snk rec names sink x c ev (k, w, r) = (Inl e, s')" and "e \<noteq> ExitSignal"
  shows "e = ValidationError \<and> (make_id w ''observability_failure'' (id_calls w) = [] \<or> sink = [] \<or> op = [] \<or>
      x = [] \<or> c = [] \<or> (\<exists>y. names y = []))"
proof -
  from assms obtain y w1 r1 where
    "report_observability_failure rec sink op x c (names y) w r = (Inl e, w1, r1)"
    by (auto simp: append_safely_def split: prod.splits sum.splits if_splits)
  from report_swallows [OF this] assms(2) show ?thesis by auto
qed

lemma replay_of_export: "validate (dump t) = Some t \<Longrightarrow> replay_recorded validate (Inr (dump t)) = replay_recorded validate (Inl t)"
  by (simp add: replay_recorded_def)

end
